(* ===== verification/Prelude.thy ===== *)
theory Prelude
  imports Main "HOL-Library.Char_ord" "HOL-Library.List_Lexorder" "HOL-Library.Sublist"
begin

text \<open>
  What the components share: the Python string operations the backend uses, decimal
  integers, instants and durations, the exceptions a request handler can end with, and
  the operations on database tables (lists of rows in insertion order).

  A Python \<open>str\<close> is a list of code points; the model covers the code points below 256,
  one \<^typ>\<open>char\<close> each, so \<^term>\<open>length\<close> counts what Python's \<open>len\<close> counts. Instants are
  UTC, counted in microseconds (the resolution of Python's \<open>datetime\<close>).
\<close>

named_theorems pystr_simps \<open>equations that evaluate the string operations\<close>
named_theorems length_bounds \<open>length bounds of truncating operations\<close>

section \<open>Strings\<close>

definition py_space :: "char \<Rightarrow> bool" where
  "py_space c \<longleftrightarrow> c \<in> {CHR 0x09, CHR 0x0A, CHR 0x0B, CHR 0x0C, CHR 0x0D, CHR 0x1C, CHR 0x1D,
     CHR 0x1E, CHR 0x1F, CHR 0x20, CHR 0x85, CHR 0xA0}"

definition lstrip :: "string \<Rightarrow> string" where
  "lstrip s = dropWhile py_space s"

definition rstrip :: "string \<Rightarrow> string" where
  "rstrip s = rev (dropWhile py_space (rev s))"

text \<open>\<open>s.strip()\<close>\<close>

definition strip :: "string \<Rightarrow> string" where
  "strip s = rstrip (lstrip s)"

text \<open>\<open>s.rstrip("/")\<close> is \<^term>\<open>rstrip_char (CHR ''/'') s\<close>.\<close>

definition rstrip_char :: "char \<Rightarrow> string \<Rightarrow> string" where
  "rstrip_char d s = rev (dropWhile (\<lambda>c. c = d) (rev s))"

definition lower_char :: "char \<Rightarrow> char" where
  "lower_char c = (let n = (of_char c :: nat) in
     if (65 \<le> n \<and> n \<le> 90) \<or> (192 \<le> n \<and> n \<le> 222 \<and> n \<noteq> 215) then char_of (n + 32) else c)"

definition lower :: "string \<Rightarrow> string" where
  "lower = List.map lower_char"

fun split_on :: "char \<Rightarrow> string \<Rightarrow> string list" where
  "split_on d [] = [[]]"
| "split_on d (c # cs) =
     (if c = d then [] # split_on d cs
      else (case split_on d cs of [] \<Rightarrow> [[c]] | w # ws \<Rightarrow> (c # w) # ws))"

fun join :: "string \<Rightarrow> string list \<Rightarrow> string" where
  "join sep [] = []"
| "join sep [x] = x"
| "join sep (x # y # xs) = x @ sep @ join sep (y # xs)"

definition startswith :: "string \<Rightarrow> string \<Rightarrow> bool" where
  "startswith s p \<longleftrightarrow> take (length p) s = p"

text \<open>\<open>needle in s\<close>\<close>

fun contains :: "string \<Rightarrow> string \<Rightarrow> bool" where
  "contains needle [] = (needle = [])"
| "contains needle (c # cs) = (startswith (c # cs) needle \<or> contains needle cs)"

text \<open>\<open>a or b\<close> on strings: the empty string is false.\<close>

definition or_str :: "string \<Rightarrow> string \<Rightarrow> string" where
  "or_str a b = (if a \<noteq> [] then a else b)"

text \<open>\<open>value or ""\<close>\<close>

definition opt_str :: "string option \<Rightarrow> string" where
  "opt_str v = (case v of None \<Rightarrow> [] | Some s \<Rightarrow> s)"

lemma lower_length [simp]: "length (lower s) = length s"
  by (simp add: lower_def)

lemma lower_Nil [simp]: "lower s = [] \<longleftrightarrow> s = []"
  by (simp add: lower_def)

lemma or_str_nonempty [simp]: "or_str a b \<noteq> [] \<longleftrightarrow> a \<noteq> [] \<or> b \<noteq> []"
  by (simp add: or_str_def)

lemma or_str_Nil [simp]: "or_str [] b = b"
  by (simp add: or_str_def)

lemma split_on_nonempty [simp]: "split_on d s \<noteq> []"
  by (induction s) (auto split: list.splits)

lemma strip_Nil [simp]: "strip [] = []"
  by (simp add: strip_def rstrip_def lstrip_def)

lemma set_dropWhile_subset: "set (dropWhile P xs) \<subseteq> set xs"
  by (meson set_dropWhileD subsetI)

lemma set_strip_subset: "set (strip s) \<subseteq> set s"
  using set_dropWhile_subset [of py_space s]
    set_dropWhile_subset [of py_space "rev (dropWhile py_space s)"]
  by (auto simp: strip_def rstrip_def lstrip_def)

lemma length_strip: "length (strip s) \<le> length s"
  unfolding strip_def rstrip_def lstrip_def
  by (metis length_dropWhile_le length_rev order_trans)

lemma strip_fixed:
  assumes "s \<noteq> [] \<Longrightarrow> \<not> py_space (hd s)" and "s \<noteq> [] \<Longrightarrow> \<not> py_space (last s)"
  shows "strip s = s"
proof (cases "s = []")
  case False
  have l: "dropWhile py_space s = s"
    using assms(1) False by (cases s) auto
  have r: "dropWhile py_space (rev s) = rev s"
    using assms(2) False by (cases "rev s") (auto simp: last_rev hd_rev dest!: arg_cong [where f = hd])
  show ?thesis by (simp add: strip_def rstrip_def lstrip_def l r)
qed simp

lemma strip_ends:
  assumes "strip s \<noteq> []"
  shows "\<not> py_space (hd (strip s))" and "\<not> py_space (last (strip s))"
proof -
  let ?t = "dropWhile py_space s"
  let ?v = "dropWhile py_space (rev ?t)"
  have u: "strip s = rev ?v" by (simp add: strip_def rstrip_def lstrip_def)
  have v: "?v \<noteq> []" using assms u by simp
  show "\<not> py_space (last (strip s))"
    using hd_dropWhile [OF v] u by (simp add: last_rev)
  have "?t = rev ?v @ rev (takeWhile py_space (rev ?t))"
    by (metis rev_append rev_rev_ident takeWhile_dropWhile_id)
  then have "hd ?t = hd (rev ?v)"
    using v by (metis hd_append2 rev_is_Nil_conv)
  moreover have "?t \<noteq> []"
    using v by (metis dropWhile.simps(1) rev.simps(1))
  ultimately show "\<not> py_space (hd (strip s))"
    using hd_dropWhile [of py_space s] u by simp
qed

lemma strip_idem [simp]: "strip (strip s) = strip s"
  by (rule strip_fixed) (simp_all add: strip_ends)

lemma strip_no_space: "\<forall>c \<in> set s. \<not> py_space c \<Longrightarrow> strip s = s"
  by (rule strip_fixed) (auto simp: hd_in_set last_in_set)

lemma split_on_no_sep: "d \<notin> set s \<Longrightarrow> split_on d s = [s]"
  by (induction s) auto

lemma split_on_append_sep: "d \<notin> set s \<Longrightarrow> split_on d (s @ d # t) = s # split_on d t"
  by (induction s) auto

lemma set_split_on: "w \<in> set (split_on d s) \<Longrightarrow> d \<notin> set w \<and> set w \<subseteq> set s"
  by (induction s arbitrary: w) (auto split: list.splits if_splits, (metis list.set_intros subsetD)+)

text \<open>Joining words that do not contain the separator and splitting again is a round trip.\<close>

lemma split_on_join:
  "ws \<noteq> [] \<Longrightarrow> \<forall>w \<in> set ws. d \<notin> set w \<Longrightarrow> split_on d (join [d] ws) = ws"
proof (induction "[d]" ws rule: join.induct)
  case (3 x y xs)
  then show ?case by (simp add: split_on_append_sep)
qed (auto simp: split_on_no_sep)

lemma join_Nil_iff: "sep \<noteq> [] \<Longrightarrow> \<forall>w \<in> set ws. w \<noteq> [] \<Longrightarrow> join sep ws = [] \<longleftrightarrow> ws = []"
  by (induction sep ws rule: join.induct) auto

lemma join_nonempty_member: "w \<in> set ws \<Longrightarrow> w \<noteq> [] \<Longrightarrow> join sep ws \<noteq> []"
  by (induction sep ws rule: join.induct) auto

section \<open>Decimal integers\<close>

definition digit_char :: "nat \<Rightarrow> char" where
  "digit_char d = char_of (48 + d)"

definition is_digit :: "char \<Rightarrow> bool" where
  "is_digit c \<longleftrightarrow> 48 \<le> (of_char c :: nat) \<and> (of_char c :: nat) \<le> 57"

definition digit_val :: "char \<Rightarrow> nat" where
  "digit_val c = of_char c - 48"

fun str_nat :: "nat \<Rightarrow> string" where
  "str_nat n = (if n < 10 then [digit_char n] else str_nat (n div 10) @ [digit_char (n mod 10)])"

declare str_nat.simps [simp del]

text \<open>\<open>str(i)\<close>\<close>

definition str_int :: "int \<Rightarrow> string" where
  "str_int i = (if i < 0 then CHR ''-'' # str_nat (nat (- i)) else str_nat (nat i))"

definition digits_val :: "string \<Rightarrow> nat" where
  "digits_val ds = foldl (\<lambda>n c. 10 * n + digit_val c) 0 ds"

text \<open>The literal after the sign: digits, with single underscores between them.\<close>

definition int_literal :: "string \<Rightarrow> nat option" where
  "int_literal s =
     (let ws = split_on (CHR ''_'') s in
      if list_all (\<lambda>w. w \<noteq> [] \<and> list_all is_digit w) ws then Some (digits_val (concat ws)) else None)"

text \<open>\<open>int(s)\<close>; \<^const>\<open>None\<close> is its \<open>ValueError\<close>.\<close>

definition parse_int :: "string \<Rightarrow> int option" where
  "parse_int s = (case strip s of
     [] \<Rightarrow> None
   | c # cs \<Rightarrow>
       if c = CHR ''-'' then map_option (\<lambda>n. - int n) (int_literal cs)
       else if c = CHR ''+'' then map_option int (int_literal cs)
       else map_option int (int_literal (c # cs)))"

lemma char_of_digits:
  "char_of (48 :: nat) = CHR ''0''" "char_of (49 :: nat) = CHR ''1''" "char_of (50 :: nat) = CHR ''2''" "char_of (51 :: nat) = CHR ''3''" "char_of (52 :: nat) = CHR ''4''"
  "char_of (53 :: nat) = CHR ''5''" "char_of (54 :: nat) = CHR ''6''" "char_of (55 :: nat) = CHR ''7''" "char_of (56 :: nat) = CHR ''8''" "char_of (57 :: nat) = CHR ''9''"
  by code_simp+

lemma of_char_digit_char [simp]: "d < 10 \<Longrightarrow> (of_char (digit_char d) :: nat) = 48 + d"
  by (simp add: digit_char_def)

lemma is_digit_digit_char [simp]: "d < 10 \<Longrightarrow> is_digit (digit_char d)"
  by (simp add: is_digit_def)

lemma digit_val_digit_char [simp]: "d < 10 \<Longrightarrow> digit_val (digit_char d) = d"
  by (simp add: digit_val_def)

lemma str_nat_digits: "c \<in> set (str_nat n) \<Longrightarrow> is_digit c"
  by (induction n rule: str_nat.induct) (subst (asm) str_nat.simps, auto split: if_splits)

lemma str_nat_nonempty [simp]: "str_nat n \<noteq> []"
  by (subst str_nat.simps) simp

lemma digits_val_str_nat [simp]: "digits_val (str_nat n) = n"
proof (induction n rule: str_nat.induct)
  case (1 n)
  then show ?case
    by (cases "n < 10") (simp_all add: str_nat.simps [of n] digits_val_def)
qed

lemma str_nat_inject [simp]: "str_nat m = str_nat n \<longleftrightarrow> m = n"
  by (metis digits_val_str_nat)

lemma digit_not_space: "is_digit c \<Longrightarrow> \<not> py_space c"
  by (auto simp: is_digit_def py_space_def)

lemma digit_not_sign: "is_digit c \<Longrightarrow> c \<noteq> CHR ''-'' \<and> c \<noteq> CHR ''+'' \<and> c \<noteq> CHR ''_''"
  by (auto simp: is_digit_def)

lemma int_literal_str_nat [simp]: "int_literal (str_nat n) = Some n"
proof -
  have "CHR ''_'' \<notin> set (str_nat n)" using str_nat_digits digit_not_sign by blast
  then have "split_on (CHR ''_'') (str_nat n) = [str_nat n]" by (rule split_on_no_sep)
  moreover have "list_all is_digit (str_nat n)" using str_nat_digits by (auto simp: list_all_iff)
  ultimately show ?thesis by (simp add: int_literal_def)
qed

lemma strip_str_int [simp]: "strip (str_int i) = str_int i"
  by (rule strip_no_space)
    (auto simp: str_int_def py_space_def dest!: str_nat_digits digit_not_space split: if_splits)

lemma parse_int_str_int [simp]: "parse_int (str_int i) = Some i"
proof (cases "i < 0")
  case True
  then show ?thesis by (simp add: parse_int_def) (simp add: str_int_def)
next
  case False
  obtain c cs where c: "str_nat (nat i) = c # cs" by (cases "str_nat (nat i)") auto
  then have "is_digit c" using str_nat_digits [of c "nat i"] by simp
  moreover have "int_literal (c # cs) = Some (nat i)" using int_literal_str_nat c by metis
  ultimately show ?thesis
    using False c digit_not_sign [of c] by (simp add: parse_int_def) (simp add: str_int_def)
qed

section \<open>Instants and durations\<close>

type_synonym instant = int

type_synonym duration = int

definition seconds :: "int \<Rightarrow> duration" where "seconds n = n * 1000000"

definition minutes :: "int \<Rightarrow> duration" where "minutes n = n * 60000000"

definition hours :: "int \<Rightarrow> duration" where "hours n = n * 3600000000"

definition days :: "int \<Rightarrow> duration" where "days n = n * 86400000000"

lemmas duration_defs = seconds_def minutes_def hours_def days_def

lemma minutes_mono [simp]: "minutes a \<le> minutes b \<longleftrightarrow> a \<le> b"
  by (simp add: minutes_def)

lemma minutes_pos [simp]: "0 < minutes a \<longleftrightarrow> 0 < a"
  by (simp add: minutes_def)

section \<open>Exceptions\<close>

text \<open>
  The exception classes the modelled code raises or catches. An \<open>HTTPException\<close> ends a
  request with its status and detail; any other class that reaches the framework is
  answered with status 500.
\<close>

datatype exn =
    HTTPException nat string
  | ValueError string
  | IntegrityError
  | WebhookPayloadError string
  | BotDeliveryError string
  | GraphConfigError string
  | GraphRequestError string
  | GraphDelegatedConfigError string
  | GraphDelegatedAuthError string
  | ExpiredRefreshTokenError string
  | GraphDelegatedLookupError string "int option"
  | BotConversationMembersError string
  | PyError string

text \<open>\<open>compare_digest\<close> on texts, which refuses characters beyond ASCII.\<close>

definition compare_digest :: "string \<Rightarrow> string \<Rightarrow> exn + bool" where
  "compare_digest a b =
     (if list_all (\<lambda>c. (of_char c :: nat) < 128) (a @ b) then Inr (a = b) else Inl (PyError ''TypeError''))"

text \<open>\<open>PyError\<close> is an exception of the interpreter or of its library that no handler catches, by
  the name of its class, and its text after a colon where code reads the text.\<close>

section \<open>Tables\<close>

text \<open>
  A table is the list of its rows in insertion order. \<open>fetch P\<close> is
  \<open>db.scalar(select(T).where(P))\<close>, \<open>update_rows\<close> and \<open>delete_rows\<close> are the bulk
  statements, and also what flushing a changed or deleted row does to its table.
\<close>

definition fetch :: "('r \<Rightarrow> bool) \<Rightarrow> 'r list \<Rightarrow> 'r option" where
  "fetch P rows = List.find P rows"

definition update_rows :: "('r \<Rightarrow> bool) \<Rightarrow> ('r \<Rightarrow> 'r) \<Rightarrow> 'r list \<Rightarrow> 'r list" where
  "update_rows P f rows = List.map (\<lambda>r. if P r then f r else r) rows"

definition delete_rows :: "('r \<Rightarrow> bool) \<Rightarrow> 'r list \<Rightarrow> 'r list" where
  "delete_rows P rows = List.filter (\<lambda>r. \<not> P r) rows"

lemma fetch_Some: "fetch P rows = Some r \<Longrightarrow> P r \<and> r \<in> set rows"
  by (auto simp: fetch_def find_Some_iff)

lemma fetch_None: "fetch P rows = None \<longleftrightarrow> (\<forall>r \<in> set rows. \<not> P r)"
  by (auto simp: fetch_def find_None_iff)

lemma fetch_Nil [simp]: "fetch P [] = None"
  by (simp add: fetch_def)

lemma fetch_Cons [simp]: "fetch P (r # rows) = (if P r then Some r else fetch P rows)"
  by (simp add: fetch_def)

lemma fetch_append [simp]:
  "fetch P (xs @ ys) = (case fetch P xs of Some r \<Rightarrow> Some r | None \<Rightarrow> fetch P ys)"
  by (induction xs) auto

lemma set_update_rows: "set (update_rows P f rows) = (\<lambda>r. if P r then f r else r) ` set rows"
  by (simp add: update_rows_def)

lemma update_rows_Nil [simp]: "update_rows P f [] = []"
  by (simp add: update_rows_def)

lemma update_rows_Cons [simp]:
  "update_rows P f (r # rows) = (if P r then f r else r) # update_rows P f rows"
  by (simp add: update_rows_def)

lemma update_rows_append [simp]:
  "update_rows P f (xs @ ys) = update_rows P f xs @ update_rows P f ys"
  by (simp add: update_rows_def)

lemma length_update_rows [simp]: "length (update_rows P f rows) = length rows"
  by (simp add: update_rows_def)

lemma set_delete_rows [simp]: "set (delete_rows P rows) = {r \<in> set rows. \<not> P r}"
  by (auto simp: delete_rows_def)

lemma map_update_rows:
  "(\<And>r. P r \<Longrightarrow> g (f r) = g r) \<Longrightarrow> List.map g (update_rows P f rows) = List.map g rows"
  by (simp add: update_rows_def)

lemma fetch_update_rows_same:
  "(\<And>r. P r \<Longrightarrow> P (f r)) \<Longrightarrow> fetch P (update_rows P f rows) = map_option f (fetch P rows)"
  by (induction rows) auto

lemma fetch_update_rows_other:
  "(\<And>r. Q r \<Longrightarrow> \<not> P r) \<Longrightarrow> (\<And>r. P r \<Longrightarrow> \<not> Q (f r)) \<Longrightarrow>
   fetch Q (update_rows P f rows) = fetch Q rows"
  by (induction rows) auto

text \<open>\<open>s[:n]\<close>\<close>

definition clip :: "nat \<Rightarrow> string \<Rightarrow> string" where
  "clip n s = take n s"

lemma length_clip [length_bounds]: "length (clip n s) \<le> n"
  by (simp add: clip_def)

lemma clip_Nil [simp]: "clip n [] = []"
  by (simp add: clip_def)

end
