(* ===== verification/Json.thy ===== *)
theory Json
  imports Prelude
begin

text \<open>
  The JSON values the backend handles, with Python's truth values, \<open>str()\<close> and
  \<open>json.dumps\<close>. An object is the association list of its items in insertion order. A
  float is kept as the text of its \<open>repr\<close>, which is all the code ever uses of it.
\<close>

datatype json =
    JNull
  | JBool bool
  | JInt int
  | JFloat string
  | JStr string
  | JList "json list"
  | JDict "(string \<times> json) list"

lemma size_json_member [termination_simp]:
  "(k, v) \<in> set kvs \<Longrightarrow> size v < Suc (size_list (size_prod (\<lambda>x. 0) size) kvs)"
  by (induction kvs) (auto simp: less_Suc_eq_le)

section \<open>Access\<close>

text \<open>\<open>d.get(key)\<close>; a missing key reads as \<open>None\<close>.\<close>

definition dict_get :: "(string \<times> json) list \<Rightarrow> string \<Rightarrow> json" where
  "dict_get kvs k = (case map_of kvs k of None \<Rightarrow> JNull | Some v \<Rightarrow> v)"

definition is_dict :: "json \<Rightarrow> bool" where
  "is_dict v = (case v of JDict _ \<Rightarrow> True | _ \<Rightarrow> False)"

text \<open>Python's truth value of a JSON value.\<close>

definition truthy :: "json \<Rightarrow> bool" where
  "truthy v = (case v of
     JNull \<Rightarrow> False
   | JBool b \<Rightarrow> b
   | JInt i \<Rightarrow> i \<noteq> 0
   | JFloat s \<Rightarrow> s \<noteq> ''0.0'' \<and> s \<noteq> ''-0.0''
   | JStr s \<Rightarrow> s \<noteq> []
   | JList xs \<Rightarrow> xs \<noteq> []
   | JDict kvs \<Rightarrow> kvs \<noteq> [])"

text \<open>\<open>a or b\<close>\<close>

definition or_json :: "json \<Rightarrow> json \<Rightarrow> json" where
  "or_json a b = (if truthy a then a else b)"

section \<open>str() and repr()\<close>

definition hex_char :: "nat \<Rightarrow> char" where
  "hex_char d = (if d < 10 then char_of (48 + d) else char_of (87 + d))"

definition hex2 :: "char \<Rightarrow> string" where
  "hex2 c = (let n = of_char c in [hex_char (n div 16), hex_char (n mod 16)])"

definition printable :: "char \<Rightarrow> bool" where
  "printable c = (let n = (of_char c :: nat) in (32 \<le> n \<and> n \<le> 126) \<or> (161 \<le> n \<and> n \<noteq> 173))"

definition repr_char :: "char \<Rightarrow> char \<Rightarrow> string" where
  "repr_char q c =
     (if c = q \<or> c = CHR 0x5C then [CHR 0x5C, c]
      else if c = CHR 0x09 then [CHR 0x5C, CHR ''t'']
      else if c = CHR 0x0A then [CHR 0x5C, CHR ''n'']
      else if c = CHR 0x0D then [CHR 0x5C, CHR ''r'']
      else if printable c then [c]
      else [CHR 0x5C, CHR ''x''] @ hex2 c)"

definition repr_str :: "string \<Rightarrow> string" where
  "repr_str s =
     (let q = (if CHR 0x27 \<in> set s \<and> CHR 0x22 \<notin> set s then CHR 0x22 else CHR 0x27) in
      [q] @ concat (List.map (repr_char q) s) @ [q])"

fun py_repr :: "json \<Rightarrow> string" where
  "py_repr JNull = ''None''"
| "py_repr (JBool b) = (if b then ''True'' else ''False'')"
| "py_repr (JInt i) = str_int i"
| "py_repr (JFloat s) = s"
| "py_repr (JStr s) = repr_str s"
| "py_repr (JList xs) = ''['' @ join '', '' (List.map py_repr xs) @ '']''"
| "py_repr (JDict kvs) =
     ''{'' @ join '', '' (List.map (\<lambda>(k, v). repr_str k @ '': '' @ py_repr v) kvs) @ ''}''"

text \<open>\<open>str(v)\<close>, also what an f-string shows.\<close>

definition py_str :: "json \<Rightarrow> string" where
  "py_str v = (case v of JStr s \<Rightarrow> s | _ \<Rightarrow> py_repr v)"

section \<open>json.dumps\<close>

definition json_char :: "bool \<Rightarrow> char \<Rightarrow> string" where
  "json_char ascii c =
     (if c = CHR 0x22 \<or> c = CHR 0x5C then [CHR 0x5C, c]
      else if c = CHR 0x08 then [CHR 0x5C, CHR ''b'']
      else if c = CHR 0x09 then [CHR 0x5C, CHR ''t'']
      else if c = CHR 0x0A then [CHR 0x5C, CHR ''n'']
      else if c = CHR 0x0C then [CHR 0x5C, CHR ''f'']
      else if c = CHR 0x0D then [CHR 0x5C, CHR ''r'']
      else if (of_char c :: nat) < 32 \<or> (ascii \<and> 126 < (of_char c :: nat))
        then [CHR 0x5C, CHR ''u'', CHR ''0'', CHR ''0''] @ hex2 c
      else [c])"

definition json_string :: "bool \<Rightarrow> string \<Rightarrow> string" where
  "json_string ascii s = [CHR 0x22] @ concat (List.map (json_char ascii) s) @ [CHR 0x22]"

definition json_float :: "string \<Rightarrow> string" where
  "json_float s = (if s = ''nan'' then ''NaN'' else if s = ''inf'' then ''Infinity''
     else if s = ''-inf'' then ''-Infinity'' else s)"

text \<open>\<open>json.dumps(v, ensure_ascii=ascii, sort_keys=True)\<close>\<close>

fun dumps :: "bool \<Rightarrow> json \<Rightarrow> string" where
  "dumps ascii JNull = ''null''"
| "dumps ascii (JBool b) = (if b then ''true'' else ''false'')"
| "dumps ascii (JInt i) = str_int i"
| "dumps ascii (JFloat s) = json_float s"
| "dumps ascii (JStr s) = json_string ascii s"
| "dumps ascii (JList xs) = ''['' @ join '', '' (List.map (dumps ascii) xs) @ '']''"
| "dumps ascii (JDict kvs) =
     ''{'' @ join '', '' (List.map (\<lambda>(k, t). json_string ascii k @ '': '' @ t)
        (sort_key fst (List.map (\<lambda>(k, v). (k, dumps ascii v)) kvs))) @ ''}''"

text \<open>\<open>json.dumps(v, ensure_ascii=ascii)\<close>, the items in their order\<close>

fun dumps_items :: "bool \<Rightarrow> json \<Rightarrow> string" where
  "dumps_items ascii JNull = ''null''"
| "dumps_items ascii (JBool b) = (if b then ''true'' else ''false'')"
| "dumps_items ascii (JInt i) = str_int i"
| "dumps_items ascii (JFloat s) = json_float s"
| "dumps_items ascii (JStr s) = json_string ascii s"
| "dumps_items ascii (JList xs) = ''['' @ join '', '' (List.map (dumps_items ascii) xs) @ '']''"
| "dumps_items ascii (JDict kvs) =
     ''{'' @ join '', '' (List.map (\<lambda>(k, v). json_string ascii k @ '': '' @ dumps_items ascii v) kvs) @ ''}''"

text \<open>The result of \<open>json.loads\<close>: a value, a \<open>JSONDecodeError\<close> or a \<open>RecursionError\<close>.\<close>

datatype json_result = JsonValue json | JsonDecodeError | JsonRecursionError

lemma dumps_container_nonempty:
  "dumps ascii (JList xs) \<noteq> []" "dumps ascii (JDict kvs) \<noteq> []"
  by simp_all

lemma is_dict_JDict [simp]: "is_dict (JDict kvs)"
  by (simp add: is_dict_def)

lemma is_dictE: "is_dict v \<Longrightarrow> (\<And>kvs. v = JDict kvs \<Longrightarrow> P) \<Longrightarrow> P"
  by (cases v) (auto simp: is_dict_def)

lemma dict_get_Nil [simp]: "dict_get [] k = JNull"
  by (simp add: dict_get_def)

lemma dict_get_Cons [simp]: "dict_get ((k', v) # kvs) k = (if k' = k then v else dict_get kvs k)"
  by (simp add: dict_get_def)

section \<open>Depth and node count\<close>

fun json_children :: "json \<Rightarrow> json list" where
  "json_children (JList xs) = xs"
| "json_children (JDict kvs) = List.map snd kvs"
| "json_children _ = []"

lemma size_json_children [termination_simp]: "c \<in> set (json_children v) \<Longrightarrow> size c < size v"
proof (cases v)
  case (JList xs)
  assume "c \<in> set (json_children v)"
  with JList show ?thesis by (auto simp: less_Suc_eq_le size_list_estimation')
next
  case (JDict kvs)
  assume "c \<in> set (json_children v)"
  with JDict obtain k where "(k, c) \<in> set kvs" by auto
  with JDict show ?thesis using size_json_member by (fastforce simp: less_Suc_eq)
qed auto

text \<open>How many values a value consists of, and how deep they are nested.\<close>

fun json_nodes :: "json \<Rightarrow> nat" where
  "json_nodes v = Suc (sum_list (List.map json_nodes (json_children v)))"

fun json_depth :: "json \<Rightarrow> nat" where
  "json_depth v = fold (\<lambda>c. max (Suc (json_depth c))) (json_children v) 0"

declare json_nodes.simps [simp del] json_depth.simps [simp del]

lemma fold_max_le: "fold (\<lambda>c. max (f c)) xs (a :: nat) \<le> n \<longleftrightarrow> a \<le> n \<and> (\<forall>c \<in> set xs. f c \<le> n)"
  by (induction xs arbitrary: a) auto

lemma json_depth_le:
  "json_depth v \<le> n \<longleftrightarrow> (\<forall>c \<in> set (json_children v). Suc (json_depth c) \<le> n)"
  by (simp add: json_depth.simps [of v] fold_max_le)

lemma json_nodes_pos [simp]: "0 < json_nodes v"
  by (simp add: json_nodes.simps)

end
