(* ===== verification/Store.thy ===== *)
theory Store
  imports Json
begin

text \<open>
  The database (\<open>models.py\<close>): one record per table row with the columns of its class, and
  the state \<open>db\<close> that holds the tables. A \<open>*_json\<close> column holds the text of
  \<open>dumps_json\<close>; it is modelled by the JSON value dumped there, which is what
  \<open>loads_json\<close> reads back. Creation and update stamps that nothing reads are left out.
  Primary keys come from \<open>new_id\<close>: Python draws a UUID, the model counts.
\<close>

section \<open>Rows\<close>

text \<open>\<open>class Organization\<close>\<close>

record organization =
  o_id :: string
  o_slug :: string
  o_name :: string

text \<open>\<open>class User\<close>, unique by organization and email\<close>

record user =
  u_id :: string
  u_organization_id :: string
  u_email :: string
  u_display_name :: string
  u_password_hash :: "string option"
  u_is_admin :: bool
  u_is_active :: bool

text \<open>The seven permission columns that roles, users and groups have in common.\<close>

record permissions =
  can_view_routes :: bool
  can_reveal_webhook_urls :: bool
  can_manage_route_status :: bool
  can_delete_routes :: bool
  can_manage_allowlist :: bool
  can_create_private_chat_routes :: bool
  can_create_channel_routes :: bool

text \<open>\<open>class BotAccessRole\<close>\<close>

record bot_access_role =
  ro_id :: string
  ro_organization_id :: string
  ro_name :: string
  ro_description :: string
  ro_is_system :: bool
  ro_system_key :: "string option"
  ro_permissions :: permissions
  ro_created_by_id :: "string option"
  ro_updated_by_id :: "string option"
  ro_created_at :: instant
  ro_updated_at :: instant

text \<open>\<open>class BotAuthorizedUser\<close>\<close>

record bot_authorized_user =
  bu_id :: string
  bu_organization_id :: string
  bu_aad_object_id :: string
  bu_display_name :: string
  bu_user_principal_name :: string
  bu_role_id :: "string option"
  bu_role :: string
  bu_is_active :: bool
  bu_permissions :: permissions
  bu_created_by_id :: "string option"
  bu_updated_by_id :: "string option"
  bu_last_seen_at :: "instant option"
  bu_created_at :: instant
  bu_updated_at :: instant

text \<open>\<open>class BotAuthorizedGroup\<close>\<close>

record bot_authorized_group =
  bg_id :: string
  bg_organization_id :: string
  bg_group_object_id :: string
  bg_display_name :: string
  bg_mail :: string
  bg_security_enabled :: bool
  bg_group_types_json :: json
  bg_role_id :: "string option"
  bg_role :: string
  bg_is_active :: bool
  bg_permissions :: permissions
  bg_created_by_id :: "string option"
  bg_updated_by_id :: "string option"
  bg_last_matched_at :: "instant option"
  bg_created_at :: instant
  bg_updated_at :: instant

text \<open>\<open>class BotUserGroupMembershipCache\<close>; the ids are kept as the list \<open>group_ids\<close> reads\<close>

record group_membership_cache =
  gc_id :: string
  gc_organization_id :: string
  gc_aad_object_id :: string
  gc_group_ids :: "string list"
  gc_checked_at :: "instant option"
  gc_expires_at :: "instant option"
  gc_last_error :: string

text \<open>\<open>class Session\<close>\<close>

record session_row =
  se_id :: string
  se_user_id :: string
  se_session_token_hash :: string
  se_csrf_token_hash :: string
  se_expires_at :: instant
  se_revoked_at :: "instant option"

text \<open>\<open>class WebhookRoute\<close>, unique by organization, name and delivery backend\<close>

record webhook_route =
  r_id :: string
  r_organization_id :: string
  r_created_by_id :: "string option"
  r_name :: string
  r_is_active :: bool
  r_route_token_hash :: string
  r_route_token :: string
  r_delivery_backend :: string
  r_client_ip_access_mode :: string
  r_client_ip_allowlist :: string
  r_target_type :: string
  r_target_name :: string
  r_bot_service_url :: string
  r_bot_conversation_id :: string
  r_graph_target_kind :: string
  r_graph_target_id :: string
  r_graph_team_id :: string
  r_graph_team_name :: string
  r_graph_channel_id :: string
  r_graph_user_id :: string
  r_graph_user_display_name :: string
  r_graph_user_principal_name :: string
  r_member_summary :: string
  r_member_count :: int
  r_member_list_json :: json
  r_members_refreshed_at :: "instant option"
  r_members_lookup_error :: string
  r_bot_target_source :: string
  r_bot_registered_by_id :: string
  r_bot_registered_at :: "instant option"
  r_last_delivery_status :: "string option"
  r_last_delivery_at :: "instant option"
  r_created_at :: instant
  r_updated_at :: instant

text \<open>\<open>class WebhookDeliveryEvent\<close>, unique by route and idempotency key where there is one\<close>

record delivery_event =
  d_id :: string
  d_organization_id :: "string option"
  d_route_id :: "string option"
  d_route_token_hash :: "string option"
  d_idempotency_key :: "string option"
  d_status :: string
  d_request_metadata_json :: json
  d_normalized_message_json :: json
  d_delivery_result_json :: json
  d_error :: string
  d_created_at :: instant

text \<open>\<open>class WebhookUrlRevealToken\<close>\<close>

record reveal_token =
  rv_id :: string
  rv_organization_id :: string
  rv_route_id :: string
  rv_token_hash :: string
  rv_expires_at :: instant
  rv_created_at :: instant

text \<open>\<open>class WebhookAbuseBucket\<close>, unique by its key\<close>

record abuse_bucket =
  ab_id :: string
  ab_bucket_key :: string
  ab_scope :: string
  ab_client_hash :: string
  ab_last_client_host :: string
  ab_route_token_hash :: "string option"
  ab_failure_count :: int
  ab_block_count :: int
  ab_window_started_at :: instant
  ab_blocked_until :: "instant option"
  ab_last_reason :: string
  ab_last_seen_at :: instant
  ab_created_at :: instant

text \<open>\<open>class BotActivityEvent\<close>\<close>

record bot_activity_event =
  ae_id :: string
  ae_activity_type :: string
  ae_service_url :: string
  ae_conversation_id :: string
  ae_tenant_id :: string
  ae_team_id :: string
  ae_graph_team_id :: string
  ae_channel_id :: string
  ae_conversation_type :: string
  ae_team_name :: string
  ae_channel_name :: string
  ae_from_id :: string
  ae_user_name :: string
  ae_graph_user_id :: string
  ae_recipient_id :: string
  ae_raw_activity_json :: json
  ae_auth_status :: string
  ae_auth_issuer :: string
  ae_auth_audience :: string
  ae_auth_service_url :: string
  ae_auth_service_url_matched :: bool
  ae_auth_validated_at :: "instant option"
  ae_bot_authorization_status :: string
  ae_bot_authorized_user_id :: string
  ae_bot_authorization_reason :: string
  ae_created_at :: instant

text \<open>\<open>class BotConversationReference\<close>, unique by conversation\<close>

record conversation_reference =
  cr_id :: string
  cr_scope :: string
  cr_service_url :: string
  cr_conversation_id :: string
  cr_tenant_id :: string
  cr_team_id :: string
  cr_graph_team_id :: string
  cr_channel_id :: string
  cr_conversation_type :: string
  cr_team_name :: string
  cr_channel_name :: string
  cr_user_id :: string
  cr_user_name :: string
  cr_graph_user_id :: string
  cr_member_summary :: string
  cr_member_count :: int
  cr_member_list_json :: json
  cr_members_refreshed_at :: "instant option"
  cr_members_lookup_error :: string
  cr_raw_activity_type :: string
  cr_last_seen_at :: instant
  cr_created_at :: instant
  cr_updated_at :: instant

text \<open>\<open>class GraphDelegatedCredential\<close>, one for an organization\<close>

record graph_delegated_credential =
  gd_id :: string
  gd_organization_id :: string
  gd_tenant_id :: string
  gd_client_id :: string
  gd_scopes :: string
  gd_encrypted_refresh_token :: string
  gd_service_user_id :: string
  gd_service_user_display_name :: string
  gd_service_user_principal_name :: string
  gd_last_status :: string
  gd_last_error :: string
  gd_access_token_expires_at :: "instant option"
  gd_refresh_checked_at :: "instant option"

text \<open>\<open>class GraphDelegatedOAuthPendingCredential\<close>, one for an organization\<close>

record pending_credential =
  pc_id :: string
  pc_organization_id :: string
  pc_created_by_id :: "string option"
  pc_tenant_id :: string
  pc_client_id :: string
  pc_scopes :: string
  pc_encrypted_refresh_token :: string
  pc_service_user_id :: string
  pc_service_user_display_name :: string
  pc_service_user_principal_name :: string
  pc_access_token_expires_at :: "instant option"
  pc_refresh_checked_at :: "instant option"
  pc_expires_at :: instant

text \<open>
  What a check of app credentials found, \<open>OAuthDiagnosticsOut\<close> of \<open>schemas.py\<close>. The snapshot of a check
  keeps it as the JSON text of this model, from which it is read back; the column holds the value.
\<close>

record oauth_token_diagnostics =
  td_checked :: bool
  td_succeeded :: bool
  td_checked_at :: "instant option"
  td_expires_in_seconds :: "int option"
  td_expires_at :: "instant option"
  td_audience :: string
  td_issuer :: string
  td_roles :: "string list"

record oauth_app_diagnostics =
  ad_metadata_checked :: bool
  ad_available :: bool
  ad_display_name :: string
  ad_app_id :: string
  ad_service_principal_id :: string
  ad_account_enabled :: "bool option"
  ad_service_principal_type :: string
  ad_message :: string

record oauth_tenant_diagnostics =
  tn_metadata_checked :: bool
  tn_available :: bool
  tn_display_name :: string
  tn_primary_domain :: string
  tn_message :: string

record oauth_diagnostics =
  od_credential_source :: string
  od_tenant_id :: string
  od_client_id :: string
  od_scope :: string
  od_token :: oauth_token_diagnostics
  od_app :: oauth_app_diagnostics
  od_tenant :: oauth_tenant_diagnostics

text \<open>\<open>class AuthDiagnosticSnapshot\<close>, unique by organization and component\<close>

record auth_snapshot =
  as_id :: string
  as_organization_id :: string
  as_component :: string
  as_credential_signature :: string
  as_status :: string
  as_message :: string
  as_token_checked :: bool
  as_token_request_succeeded :: bool
  as_diagnostics_json :: oauth_diagnostics
  as_checked_at :: "instant option"
  as_expires_at :: "instant option"

text \<open>\<open>class AuditEvent\<close>\<close>

record audit_event =
  au_id :: string
  au_organization_id :: "string option"
  au_actor_type :: string
  au_actor_id :: "string option"
  au_action :: string
  au_metadata_json :: json
  au_created_at :: instant

text \<open>\<open>class EventLogEntry\<close>\<close>

record event_log_entry =
  ev_id :: string
  ev_level :: string
  ev_category :: string
  ev_event_type :: string
  ev_message :: string
  ev_user_message :: string
  ev_correlation_id :: string
  ev_request_id :: string
  ev_actor_json :: json
  ev_target_json :: json
  ev_source_json :: json
  ev_http_json :: json
  ev_security_json :: json
  ev_raw_json :: json
  ev_domain :: string
  ev_domain_event_id :: "string option"
  ev_created_at :: instant

text \<open>\<open>class AppSetting\<close>, its key is the primary key\<close>

record app_setting =
  st_key :: string
  st_value :: string
  st_is_secret :: bool
  st_updated_at :: instant
  st_updated_by_id :: "string option"

section \<open>The state\<close>

record db =
  organizations :: "organization list"
  users :: "user list"
  bot_roles :: "bot_access_role list"
  bot_users :: "bot_authorized_user list"
  bot_groups :: "bot_authorized_group list"
  membership_cache :: "group_membership_cache list"
  sessions :: "session_row list"
  routes :: "webhook_route list"
  deliveries :: "delivery_event list"
  reveals :: "reveal_token list"
  buckets :: "abuse_bucket list"
  activities :: "bot_activity_event list"
  references :: "conversation_reference list"
  credentials :: "graph_delegated_credential list"
  pendings :: "pending_credential list"
  snapshots :: "auth_snapshot list"
  audits :: "audit_event list"
  event_log :: "event_log_entry list"
  app_settings :: "app_setting list"
  next_id :: nat

definition new_id :: "db \<Rightarrow> string" where
  "new_id db = str_nat (next_id db)"

definition empty_db :: db where
  "empty_db = \<lparr>organizations = [], users = [], bot_roles = [], bot_users = [], bot_groups = [],
     membership_cache = [], sessions = [], routes = [], deliveries = [], reveals = [], buckets = [],
     activities = [], references = [], credentials = [], pendings = [], snapshots = [],
     audits = [], event_log = [], app_settings = [], next_id = 0\<rparr>"

section \<open>What a request reads from outside the database\<close>

text \<open>
  The clock (read once for a request), the digests of \<open>hashlib\<close> and \<open>hmac\<close> as hexadecimal
  text, the decoding of bytes and \<open>json.loads\<close>, a secret drawn when none is configured,
  and the request identifiers of the logging context.
\<close>

record world =
  utcnow :: instant
  sha256 :: "string \<Rightarrow> string"
  hmac_sha256 :: "string \<Rightarrow> string \<Rightarrow> string"
  utf8_decode :: "string \<Rightarrow> string"
  json_loads :: "string \<Rightarrow> json_result"
  generated_secret :: string
  context_request_id :: string
  context_correlation_id :: string

text \<open>\<open>ensure_utc\<close>: an instant of the model is already UTC.\<close>

definition ensure_utc :: "instant option \<Rightarrow> instant option" where
  "ensure_utc value = value"

text \<open>\<open>lookup_secret_hash\<close>: the digest tokens are looked up by.\<close>

definition lookup_secret_hash :: "world \<Rightarrow> string \<Rightarrow> string" where
  "lookup_secret_hash w value = sha256 w value"

lemma ensure_utc_simp [simp]: "ensure_utc v = v"
  by (simp add: ensure_utc_def)

section \<open>Primary keys\<close>

text \<open>The keys of a table are distinct and all drawn from the first \<open>n\<close> numbers.\<close>

definition fresh_ids :: "('r \<Rightarrow> string) \<Rightarrow> nat \<Rightarrow> 'r list \<Rightarrow> bool" where
  "fresh_ids f n rows \<longleftrightarrow> distinct (List.map f rows) \<and> (\<forall>r \<in> set rows. \<exists>i < n. f r = str_nat i)"

lemma fresh_ids_Nil [simp]: "fresh_ids f n []"
  by (simp add: fresh_ids_def)

lemma fresh_ids_mono: "fresh_ids f n rows \<Longrightarrow> n \<le> m \<Longrightarrow> fresh_ids f m rows"
  unfolding fresh_ids_def by (meson order_less_le_trans)

lemma fresh_ids_snoc:
  "fresh_ids f n rows \<Longrightarrow> f r = str_nat n \<Longrightarrow> fresh_ids f (Suc n) (rows @ [r])"
  unfolding fresh_ids_def by (auto simp: less_Suc_eq)

lemma fresh_ids_Suc [simp]: "fresh_ids f n rows \<Longrightarrow> fresh_ids f (Suc n) rows"
  by (rule fresh_ids_mono) auto

lemma fresh_ids_update:
  "fresh_ids f n rows \<Longrightarrow> (\<And>r. P r \<Longrightarrow> f (g r) = f r) \<Longrightarrow> fresh_ids f n (update_rows P g rows)"
  by (auto simp: fresh_ids_def map_update_rows set_update_rows)

lemma fresh_ids_delete: "fresh_ids f n rows \<Longrightarrow> fresh_ids f n (delete_rows P rows)"
  by (auto simp: fresh_ids_def delete_rows_def distinct_map_filter)

lemma fresh_ids_inject:
  "fresh_ids f n rows \<Longrightarrow> r \<in> set rows \<Longrightarrow> r' \<in> set rows \<Longrightarrow> f r = f r' \<Longrightarrow> r = r'"
  by (auto simp: fresh_ids_def distinct_map inj_on_def)

lemma fresh_ids_new: "fresh_ids f n rows \<Longrightarrow> r \<in> set rows \<Longrightarrow> f r \<noteq> str_nat n"
  by (auto simp: fresh_ids_def)

text \<open>Flushing one changed row: the row with its key is replaced.\<close>

definition save_row :: "('r \<Rightarrow> string) \<Rightarrow> 'r \<Rightarrow> 'r list \<Rightarrow> 'r list" where
  "save_row f r rows = update_rows (\<lambda>x. f x = f r) (\<lambda>_. r) rows"

lemma fresh_ids_save: "fresh_ids f n rows \<Longrightarrow> fresh_ids f n (save_row f r rows)"
  unfolding save_row_def by (rule fresh_ids_update) simp_all

lemma set_save_row:
  "x \<in> set (save_row f r rows) \<longleftrightarrow>
   (x \<in> set rows \<and> f x \<noteq> f r) \<or> (x = r \<and> (\<exists>y \<in> set rows. f y = f r))"
  by (auto simp: save_row_def set_update_rows)

lemma save_row_frame: "f x \<noteq> f r \<Longrightarrow> x \<in> set (save_row f r rows) \<longleftrightarrow> x \<in> set rows"
  by (auto simp: set_save_row)

text \<open>A lookup finds the saved row by any column that identifies it.\<close>

lemma fetch_save_row:
  assumes "fresh_ids f n rows" and "fetch P rows = Some r0" and "f r = f r0" and "P r"
    and "\<And>x. x \<in> set rows \<Longrightarrow> P x \<Longrightarrow> x = r0"
  shows "fetch P (save_row f r rows) = Some r"
proof -
  have r0: "P r0" "r0 \<in> set rows" using fetch_Some [OF assms(2)] by auto
  have "\<exists>x. fetch P (save_row f r rows) = Some x"
    using r0 assms(3,4) fetch_None [of P "save_row f r rows"] set_save_row [of r f r rows] by fastforce
  then obtain x where x: "fetch P (save_row f r rows) = Some x" ..
  then have "P x" "x \<in> set (save_row f r rows)" by (auto dest: fetch_Some)
  then have "x = r"
    using assms(3,5) set_save_row [of x f r rows] by auto
  then show ?thesis using x by simp
qed

lemma fetch_save_row_other:
  assumes "\<not> P r" and "\<And>x. x \<in> set rows \<Longrightarrow> f x = f r \<Longrightarrow> \<not> P x"
  shows "fetch P (save_row f r rows) = fetch P rows"
  using assms by (induction rows) (auto simp: save_row_def)

section \<open>Unique columns\<close>

text \<open>A column that identifies the row, beside the primary key.\<close>

lemma distinct_column_save:
  assumes "fresh_ids f n rows" and "distinct (List.map g rows)" and "r0 \<in> set rows" and "f r = f r0" and "g r = g r0"
  shows "distinct (List.map g (save_row f r rows))"
proof -
  have "List.map g (save_row f r rows) = List.map g rows"
    using assms fresh_ids_inject [OF assms(1) _ assms(3)] by (auto simp: save_row_def update_rows_def)
  then show ?thesis using assms(2) by simp
qed

lemma distinct_save_row:
  assumes "fresh_ids f n rows" and "distinct (List.map g rows)" and "\<And>x. x \<in> set rows \<Longrightarrow> f x \<noteq> f r \<Longrightarrow> g x \<noteq> g r"
  shows "distinct (List.map g (save_row f r rows))"
proof -
  have "distinct (List.map g (save_row f r rows))" if "distinct (List.map f rows)" "distinct (List.map g rows)"
    "\<And>x. x \<in> set rows \<Longrightarrow> f x \<noteq> f r \<Longrightarrow> g x \<noteq> g r" for rows
    using that
  proof (induction rows)
    case (Cons x rows)
    show ?case
    proof (cases "f x = f r")
      case True
      then have "save_row f r rows = rows"
        using Cons.prems(1) by (auto simp: save_row_def update_rows_def intro!: map_idI) (metis image_eqI)
      moreover have "\<forall>y \<in> set rows. g y \<noteq> g r"
      proof
        fix y assume that: "y \<in> set rows"
        have "f r \<notin> f ` set rows" using Cons.prems(1) True by simp
        then have "f y \<noteq> f r" using that by (metis image_eqI)
        then show "g y \<noteq> g r" using Cons.prems(3) [of y] that by simp
      qed
      ultimately show ?thesis using Cons.prems True by (auto simp: save_row_def)
    next
      case False
      then have "g x \<noteq> g y" if "y \<in> set (save_row f r rows)" for y
        using that Cons.prems by (auto simp: set_save_row)
      then show ?thesis using Cons False by (auto simp: save_row_def)
    qed
  qed (simp add: save_row_def)
  then show ?thesis using assms by (simp add: fresh_ids_def)
qed

lemma distinct_column_delete: "distinct (List.map g rows) \<Longrightarrow> distinct (List.map g (delete_rows P rows))"
  by (simp add: delete_rows_def distinct_map_filter)

lemma distinct_column_snoc: "distinct (List.map g rows) \<Longrightarrow> \<forall>x \<in> set rows. g x \<noteq> g r \<Longrightarrow> distinct (List.map g (rows @ [r]))"
  by auto

lemma distinct_column_inject:
  "distinct (List.map g rows) \<Longrightarrow> x \<in> set rows \<Longrightarrow> y \<in> set rows \<Longrightarrow> g x = g y \<Longrightarrow> x = y"
  by (auto simp: distinct_map inj_on_def)

lemma fetch_distinct:
  "distinct (List.map g rows) \<Longrightarrow> r \<in> set rows \<Longrightarrow> fetch (\<lambda>x. g x = g r) rows = Some r"
  by (induction rows) auto

lemma fetch_delete_rows: "fetch P (delete_rows Q rows) = fetch (\<lambda>r. P r \<and> \<not> Q r) rows"
  by (induction rows) (auto simp: delete_rows_def)

lemma fetch_delete_all: "(\<And>r. P r \<Longrightarrow> Q r) \<Longrightarrow> fetch P (delete_rows Q rows) = None"
  by (auto simp: fetch_None)

lemma fetch_delete_other: "(\<And>r. r \<in> set rows \<Longrightarrow> P r \<Longrightarrow> \<not> Q r) \<Longrightarrow> fetch P (delete_rows Q rows) = fetch P rows"
  by (induction rows) (auto simp: delete_rows_def)

end
