(* ===== verification/Config.thy ===== *)
theory Config
  imports Store
begin

text \<open>
  \<open>core/config.py\<close>: the settings object, with its private attributes, and the operations on
  the two instance secrets and on the switches the application settings control.
\<close>

record settings =
  s_session_secret_generated :: bool
  s_settings_enc_key_generated :: bool
  bot_framework_enabled :: bool
  graph_lookup_enabled :: bool
  graph_delivery_enabled :: bool
  webhook_url_reveal_ttl_hours :: int
  app_name :: string
  app_version :: string
  api_v1_prefix :: string
  database_url :: string
  cors_origins :: string
  app_public_base_url :: string
  frontend_base_url :: string
  session_cookie_name :: string
  session_ttl_hours :: int
  session_secure_cookie :: bool
  session_secret :: string
  default_org_slug :: string
  default_org_name :: string
  ms_app_tenant_id :: string
  ms_app_client_id :: string
  ms_app_client_secret :: string
  botframework_scope :: string
  graph_scope :: string
  bot_delivery_mode :: string
  webhook_max_payload_bytes :: int
  webhook_abuse_blocking_enabled :: bool
  webhook_abuse_failure_limit :: int
  webhook_abuse_window_minutes :: int
  webhook_abuse_initial_block_minutes :: int
  webhook_abuse_max_block_minutes :: int
  webhook_abuse_cleanup_days :: int
  log_retention_days :: int
  log_cleanup_interval_minutes :: int
  event_debug_previews_enabled :: bool
  compose_app_subnet :: string
  trust_x_forwarded_for :: bool
  trusted_proxy_ips :: string
  settings_enc_key :: string
  monitoring_api_key :: string

text \<open>\<open>Settings()\<close> where the environment sets nothing.\<close>

definition default_settings :: settings where
  "default_settings = \<lparr>
     s_session_secret_generated = False, s_settings_enc_key_generated = False,
     bot_framework_enabled = True, graph_lookup_enabled = True, graph_delivery_enabled = True,
     webhook_url_reveal_ttl_hours = 24,
     app_name = ''Teams Rehook'', app_version = ''0.1.0'', api_v1_prefix = ''/api/v1'',
     database_url = ''sqlite:///./app.db'',
     cors_origins = ''http://localhost:5173,http://localhost'',
     app_public_base_url = ''http://localhost:8000'', frontend_base_url = ''http://localhost:5173'',
     session_cookie_name = ''teams_rehook_session'', session_ttl_hours = 8,
     session_secure_cookie = False, session_secret = [],
     default_org_slug = ''default'', default_org_name = ''Default Organization'',
     ms_app_tenant_id = [], ms_app_client_id = [], ms_app_client_secret = [],
     botframework_scope = ''https://api.botframework.com/.default'',
     graph_scope = ''https://graph.microsoft.com/.default'',
     bot_delivery_mode = ''real'', webhook_max_payload_bytes = 64000,
     webhook_abuse_blocking_enabled = True, webhook_abuse_failure_limit = 10,
     webhook_abuse_window_minutes = 10, webhook_abuse_initial_block_minutes = 10,
     webhook_abuse_max_block_minutes = 1440, webhook_abuse_cleanup_days = 30,
     log_retention_days = 7, log_cleanup_interval_minutes = 60,
     event_debug_previews_enabled = False, compose_app_subnet = ''172.30.0.0/24'',
     trust_x_forwarded_for = False, trusted_proxy_ips = [], settings_enc_key = [],
     monitoring_api_key = []\<rparr>"

definition use_delivery_feature_settings ::
  "settings \<Rightarrow> bool option \<Rightarrow> bool option \<Rightarrow> bool option \<Rightarrow> int option \<Rightarrow> settings" where
  "use_delivery_feature_settings s bot_fw lookup delivery ttl =
     (let s = (case bot_fw of None \<Rightarrow> s | Some b \<Rightarrow> s\<lparr>bot_framework_enabled := b\<rparr>);
          s = (case lookup of None \<Rightarrow> s | Some b \<Rightarrow> s\<lparr>graph_lookup_enabled := b\<rparr>);
          s = (case delivery of None \<Rightarrow> s | Some b \<Rightarrow> s\<lparr>graph_delivery_enabled := b\<rparr>)
      in (case ttl of None \<Rightarrow> s | Some h \<Rightarrow> s\<lparr>webhook_url_reveal_ttl_hours := h\<rparr>))"

definition cors_origin_list :: "settings \<Rightarrow> string list" where
  "cors_origin_list s =
     List.map strip (List.filter (\<lambda>origin. strip origin \<noteq> []) (split_on (CHR '','') (cors_origins s)))"

definition bot_delivery_mode_normalized :: "settings \<Rightarrow> string" where
  "bot_delivery_mode_normalized s =
     (let mode = lower (strip (bot_delivery_mode s)) in
      if mode = ''mock'' \<or> mode = ''real'' then mode else ''mock'')"

definition has_configured_session_secret :: "settings \<Rightarrow> bool" where
  "has_configured_session_secret s \<longleftrightarrow> strip (session_secret s) \<noteq> [] \<and> \<not> s_session_secret_generated s"

text \<open>Returns the secret, with the settings object that now holds it.\<close>

definition ensure_session_secret :: "string \<Rightarrow> settings \<Rightarrow> string \<times> settings" where
  "ensure_session_secret generated s =
     (if strip (session_secret s) = []
      then (generated, s\<lparr>session_secret := generated, s_session_secret_generated := True\<rparr>)
      else (session_secret s, s))"

definition use_generated_session_secret :: "string \<Rightarrow> settings \<Rightarrow> settings" where
  "use_generated_session_secret v s = s\<lparr>session_secret := v, s_session_secret_generated := True\<rparr>"

definition has_configured_settings_enc_key :: "settings \<Rightarrow> bool" where
  "has_configured_settings_enc_key s \<longleftrightarrow> strip (settings_enc_key s) \<noteq> [] \<and> \<not> s_settings_enc_key_generated s"

definition use_generated_settings_enc_key :: "string \<Rightarrow> settings \<Rightarrow> settings" where
  "use_generated_settings_enc_key v s = s\<lparr>settings_enc_key := v, s_settings_enc_key_generated := True\<rparr>"

definition settings_enc_key_source :: "settings \<Rightarrow> string" where
  "settings_enc_key_source s =
     (if has_configured_settings_enc_key s then ''configured''
      else if strip (settings_enc_key s) \<noteq> [] \<and> s_settings_enc_key_generated s then ''generated''
      else ''missing'')"

definition PLACEHOLDER_SESSION_SECRETS :: "string list" where
  "PLACEHOLDER_SESSION_SECRETS =
     [''change-me-session-secret'', ''change-me'', ''changeme'', ''secret'', ''default'']"

definition is_placeholder_session_secret :: "string \<Rightarrow> bool" where
  "is_placeholder_session_secret value =
     (let normalized = lower (strip value) in
      normalized = [] \<or> normalized \<in> set PLACEHOLDER_SESSION_SECRETS \<or> startswith normalized ''change-me'')"

definition PLACEHOLDER_SETTINGS_ENC_KEYS :: "string list" where
  "PLACEHOLDER_SETTINGS_ENC_KEYS =
     [''change-me-settings-enc-key'', ''change-me-settings-key'', ''change-me'', ''changeme'', ''secret'', ''default'']"

definition is_placeholder_settings_enc_key :: "string \<Rightarrow> bool" where
  "is_placeholder_settings_enc_key value =
     (let normalized = lower (strip value) in
      normalized = [] \<or> normalized \<in> set PLACEHOLDER_SETTINGS_ENC_KEYS \<or> startswith normalized ''change-me'')"

text \<open>A second call returns the secret the first one settled on.\<close>

lemma ensure_session_secret_stable:
  "strip g \<noteq> [] \<Longrightarrow> ensure_session_secret g s = (v, s') \<Longrightarrow> ensure_session_secret g' s' = (v, s')"
  by (auto simp: ensure_session_secret_def split: if_splits)

lemma settings_enc_key_source_cases:
  "settings_enc_key_source s = ''missing'' \<longleftrightarrow> strip (settings_enc_key s) = []"
  by (auto simp: settings_enc_key_source_def has_configured_settings_enc_key_def)

text \<open>A world and an admin for the closed examples.\<close>

definition sample_world :: world where
  "sample_world = \<lparr>utcnow = 0, sha256 = (\<lambda>s. s), hmac_sha256 = (\<lambda>k s. s), utf8_decode = (\<lambda>s. s),
     json_loads = (\<lambda>_. JsonDecodeError), generated_secret = ''s'', context_request_id = [],
     context_correlation_id = []\<rparr>"

definition sample_admin :: user where
  "sample_admin = \<lparr>u_id = ''u1'', u_organization_id = ''o1'', u_email = ''admin@example.org'',
     u_display_name = ''Admin'', u_password_hash = None, u_is_admin = True, u_is_active = True\<rparr>"

end
