(* ===== verification/Remote.thy ===== *)
theory Remote
  imports Config
begin

text \<open>
  What the backend reaches outside the process: HTTP requests through \<open>urllib.request\<close>, and
  the \<open>Fernet\<close> cipher of the package \<open>cryptography\<close>. Both are parameters. The quoting of URLs
  and of HTML and the reading of numbers in a reply are the library's and are written out.
\<close>

section \<open>Parameters\<close>

text \<open>
  What \<open>urlopen\<close> ends with: a response, an \<open>HTTPError\<close> with the status and the body of the
  reply, or another \<open>URLError\<close> by its class and text. Bodies are decoded text.
\<close>

datatype http_reply =
    HttpResponse int string
  | HttpStatusError int string
  | HttpRequestError string string

text \<open>
  \<open>http method url headers body\<close>; \<open>fernet_encrypt source text\<close> and \<open>fernet_decrypt source token\<close>
  under the key derived from \<open>source\<close> (\<^const>\<open>None\<close> is \<open>InvalidToken\<close>); \<open>b64url_text\<close> is
  \<open>urlsafe_b64decode\<close> followed by \<open>decode("utf-8")\<close>, \<^const>\<open>None\<close> its \<open>ValueError\<close>.
\<close>

record remote =
  http :: "string \<Rightarrow> string \<Rightarrow> (string \<times> string) list \<Rightarrow> string \<Rightarrow> http_reply"
  fernet_encrypt :: "string \<Rightarrow> string \<Rightarrow> string"
  fernet_decrypt :: "string \<Rightarrow> string \<Rightarrow> string option"
  b64url_text :: "string \<Rightarrow> string option"

section \<open>Quoting\<close>

definition unreserved :: "char \<Rightarrow> bool" where
  "unreserved c = (let n = (of_char c :: nat) in
     (65 \<le> n \<and> n \<le> 90) \<or> (97 \<le> n \<and> n \<le> 122) \<or> (48 \<le> n \<and> n \<le> 57) \<or>
     c \<in> {CHR ''_'', CHR ''.'', CHR ''-'', CHR ''~''})"

definition upper_hex :: "nat \<Rightarrow> char" where
  "upper_hex d = (if d < 10 then char_of (48 + d) else char_of (55 + d))"

definition percent :: "nat \<Rightarrow> string" where
  "percent b = [CHR ''%'', upper_hex (b div 16), upper_hex (b mod 16)]"

text \<open>The UTF-8 bytes of a code point below 256.\<close>

definition utf8_bytes :: "char \<Rightarrow> nat list" where
  "utf8_bytes c = (let n = (of_char c :: nat) in
     if n < 128 then [n] else [192 + n div 64, 128 + n mod 64])"

text \<open>\<open>urllib.parse.quote(s, safe="")\<close>\<close>

definition quote :: "string \<Rightarrow> string" where
  "quote s = concat (List.map (\<lambda>c. if unreserved c then [c] else concat (List.map percent (utf8_bytes c))) s)"

definition quote_plus :: "string \<Rightarrow> string" where
  "quote_plus s = concat (List.map (\<lambda>c. if c = CHR '' '' then ''+'' else quote [c]) s)"

text \<open>\<open>urllib.parse.urlencode(form)\<close>\<close>

definition urlencode :: "(string \<times> string) list \<Rightarrow> string" where
  "urlencode form = join ''&'' (List.map (\<lambda>(k, v). quote_plus k @ ''='' @ quote_plus v) form)"

text \<open>\<open>html.escape(s)\<close>\<close>

definition html_escape :: "string \<Rightarrow> string" where
  "html_escape s = concat (List.map (\<lambda>c.
     if c = CHR ''&'' then ''&amp;'' else if c = CHR ''<'' then ''&lt;''
     else if c = CHR ''>'' then ''&gt;'' else if c = CHR 0x22 then ''&quot;''
     else if c = CHR 0x27 then ''&#x27;'' else [c]) s)"

section \<open>Values of a reply\<close>

text \<open>\<open>json.loads\<close> in a handler that catches \<open>JSONDecodeError\<close> only.\<close>

definition parse_json :: "world \<Rightarrow> string \<Rightarrow> (exn option, json) sum" where
  "parse_json w text =
     (case json_loads w text of
        JsonValue v \<Rightarrow> Inr v
      | JsonDecodeError \<Rightarrow> Inl None
      | JsonRecursionError \<Rightarrow> Inl (Some (PyError ''RecursionError'')))"

text \<open>\<open>body.get(key)\<close> on a value that may not be an object.\<close>

definition get_attr :: "json \<Rightarrow> string \<Rightarrow> exn + json" where
  "get_attr body key = (case body of JDict kvs \<Rightarrow> Inr (dict_get kvs key) | _ \<Rightarrow> Inl (PyError ''AttributeError''))"

text \<open>\<open>int(x)\<close> of a float, by its \<open>repr\<close>: sign, digits, fraction and exponent.\<close>

definition float_trunc :: "string \<Rightarrow> exn + int" where
  "float_trunc s =
     (let negative = startswith s ''-'';
          body = (if negative then tl s else s);
          mantissa = takeWhile (\<lambda>c. c \<noteq> CHR ''e'') body;
          expo = tl (dropWhile (\<lambda>c. c \<noteq> CHR ''e'') body);
          whole = takeWhile (\<lambda>c. c \<noteq> CHR ''.'') mantissa;
          frac = tl (dropWhile (\<lambda>c. c \<noteq> CHR ''.'') mantissa)
      in if body = ''inf'' then Inl (PyError ''OverflowError'')
         else if body = ''nan'' then Inl (PyError ''ValueError: cannot convert float NaN to integer'')
         else (let e = (if expo = [] then 0 else (case parse_int expo of None \<Rightarrow> 0 | Some k \<Rightarrow> k)) - int (length frac);
                   n = digits_val (whole @ frac);
                   v = (if 0 \<le> e then n * 10 ^ nat e else n div 10 ^ nat (- e))
               in Inr (if negative then - int v else int v)))"

definition py_int :: "json \<Rightarrow> exn + int" where
  "py_int v =
     (case v of
        JInt i \<Rightarrow> Inr i
      | JBool b \<Rightarrow> Inr (if b then 1 else 0)
      | JFloat s \<Rightarrow> float_trunc s
      | JStr s \<Rightarrow> (case parse_int s of Some i \<Rightarrow> Inr i | None \<Rightarrow>
          Inl (PyError (''ValueError: invalid literal for int() with base 10: '' @ clip 200 (py_repr (JStr s)))))
      | _ \<Rightarrow> Inl (PyError ''TypeError''))"

definition opt_json :: "string option \<Rightarrow> json" where
  "opt_json v = (case v of None \<Rightarrow> JNull | Some s \<Rightarrow> JStr s)"

text \<open>
  \<open>str(body.get(key) or "")\<close> and \<open>int(body.get(key) or 3600)\<close>, as the token endpoints are read.
\<close>

definition reply_str :: "json \<Rightarrow> string \<Rightarrow> exn + string" where
  "reply_str body key =
     (case get_attr body key of Inl e \<Rightarrow> Inl e | Inr v \<Rightarrow> Inr (py_str (or_json v (JStr []))))"

definition reply_expires_in :: "json \<Rightarrow> exn + int" where
  "reply_expires_in body =
     (case get_attr body ''expires_in'' of Inl e \<Rightarrow> Inl e | Inr v \<Rightarrow> py_int (or_json v (JInt 3600)))"

section \<open>Lemmas\<close>

text \<open>Quoted text has none of the characters that structure a URL.\<close>

lemma quote_chars: "c \<in> set (quote s) \<Longrightarrow> unreserved c \<or> c = CHR ''%''"
proof -
  assume "c \<in> set (quote s)"
  then obtain d where d: "d \<in> set s" "c \<in> set (if unreserved d then [d] else concat (List.map percent (utf8_bytes d)))"
    unfolding quote_def set_concat set_map by blast
  show ?thesis
  proof (cases "unreserved d")
    case False
    then obtain b where b: "b \<in> set (utf8_bytes d)" "c \<in> set (percent b)" using d by auto
    have "of_char d div 64 < (4 :: nat)"
      using nat_of_char_less_256 [of d] by (intro less_mult_imp_div_less) simp
    then have "b < 256"
      using b(1) by (auto simp: utf8_bytes_def Let_def split: if_splits)
    then have "b div 16 < 16" "b mod 16 < 16" by auto
    moreover have "unreserved (upper_hex k)" if "k < 16" for k
      using that by (auto simp: unreserved_def upper_hex_def Let_def)
    ultimately show ?thesis using b(2) by (auto simp: percent_def)
  qed (use d in auto)
qed

lemma quote_no_slash [simp]: "CHR ''/'' \<notin> set (quote s)"
  using quote_chars [of "CHR ''/''" s] by (auto simp: unreserved_def)

lemma html_escape_safe: "c \<in> set (html_escape s) \<Longrightarrow> c \<noteq> CHR ''<'' \<and> c \<noteq> CHR ''>'' \<and> c \<noteq> CHR 0x22"
  by (auto simp: html_escape_def split: if_splits)

text \<open>Reading a reply raises exceptions of the interpreter only.\<close>

definition py_raised :: "exn \<Rightarrow> bool" where
  "py_raised e = (case e of PyError _ \<Rightarrow> True | _ \<Rightarrow> False)"

lemma parse_json_error: "parse_json w s = Inl (Some e) \<Longrightarrow> py_raised e"
  by (auto simp: parse_json_def py_raised_def split: json_result.splits)

lemma reply_str_error: "reply_str body key = Inl e \<Longrightarrow> py_raised e"
  by (auto simp: reply_str_def get_attr_def py_raised_def split: json.splits)

lemma py_int_error: "py_int v = Inl e \<Longrightarrow> py_raised e"
  by (auto simp: py_int_def float_trunc_def Let_def py_raised_def split: json.splits option.splits if_splits)

lemma reply_expires_in_error: "reply_expires_in body = Inl e \<Longrightarrow> py_raised e"
  by (auto simp: reply_expires_in_def get_attr_def py_raised_def split: json.splits dest: py_int_error)

end
