(* ===== verification/Token_Cache.thy ===== *)
theory Token_Cache
  imports Remote
begin

text \<open>
  The contract of the two token managers, \<open>BotTokenManager\<close> in \<open>services/teams_bot.py\<close> and
  \<open>GraphTokenManager\<close> in \<open>services/graph_targets.py\<close>: \<open>get\<close> answers from the manager while more
  than the window remains of the token it keeps, asks the token endpoint otherwise, and keeps
  what it hands out. The components that send with a token rely on no more than this.
\<close>

locale token_cache =
  fixes get :: "remote \<Rightarrow> world \<Rightarrow> 'm \<Rightarrow> (exn + string) \<times> 'm"
    and cached :: "'m \<Rightarrow> (string \<times> instant) option"
    and window :: duration
  assumes hit: "cached m = Some (t, e) \<Longrightarrow> t \<noteq> [] \<Longrightarrow> window < e - utcnow w \<Longrightarrow> get rm w m = (Inr t, m)"
    and kept: "get rm w m = (Inr t, m') \<Longrightarrow> t \<noteq> [] \<and> map_option fst (cached m') = Some t"
    and failed: "get rm w m = (Inl x, m') \<Longrightarrow> m' = m"
begin

lemma reuse:
  assumes "get rm w m = (Inr t, m')" and "cached m' = Some (u, e)" and "window < e - utcnow w'"
  shows "get rm' w' m' = (Inr t, m')"
  using kept [OF assms(1)] assms(2,3) hit [of m' u e w' rm'] by simp

text \<open>However often it is asked: a run of requests inside the lifetime sees one token.\<close>

fun answers :: "(remote \<times> world) list \<Rightarrow> 'm \<Rightarrow> (exn + string) list \<times> 'm" where
  "answers [] m = ([], m)"
| "answers ((rm, w) # cs) m =
     (case get rm w m of (r, m) \<Rightarrow> (case answers cs m of (rs, m) \<Rightarrow> (r # rs, m)))"

lemma reuse_run:
  assumes "get rm w m = (Inr t, m')" and "cached m' = Some (u, e)"
  shows "\<forall>(rm', w') \<in> set cs. window < e - utcnow w' \<Longrightarrow> answers cs m' = (replicate (length cs) (Inr t), m')"
  by (induction cs) (auto simp: reuse [OF assms])

end

end
