(* ===== verification/Payloads.thy ===== *)
theory Payloads
  imports Json
begin

text \<open>
  \<open>services/webhook_payloads.py\<close>: what an incoming webhook body becomes. A body is plain
  text, a JSON value or an Adaptive Card activity; each is normalised to one message with
  bounded fields. The code calls \<open>bytes.decode\<close> (with replacement) and \<open>json.loads\<close>;
  both are arguments here (\<open>decode\<close>, \<open>loads\<close>), since Python's recursion limit decides
  whether \<open>loads\<close> raises \<open>RecursionError\<close>.
\<close>

record normalized_message =
  msg_title :: string
  msg_text :: string
  msg_severity :: string
  msg_status :: string
  msg_raw_type :: string
  msg_activity :: "json option"

definition to_dict :: "normalized_message \<Rightarrow> json" where
  "to_dict m = JDict
     [(''title'', JStr (msg_title m)), (''text'', JStr (msg_text m)),
      (''severity'', JStr (msg_severity m)), (''status'', JStr (msg_status m)),
      (''raw_type'', JStr (msg_raw_type m)),
      (''activity'', (case msg_activity m of None \<Rightarrow> JNull | Some a \<Rightarrow> a))]"

definition MAX_JSON_DEPTH :: nat where "MAX_JSON_DEPTH = 80"

definition MAX_JSON_NODES :: nat where "MAX_JSON_NODES = 5000"

text \<open>\<open>s[:i]\<close>, where a negative \<open>i\<close> counts from the end.\<close>

definition slice_to :: "int \<Rightarrow> string \<Rightarrow> string" where
  "slice_to i s = (if 0 \<le> i then take (nat i) s else take (length s - nat (- i)) s)"

definition truncate_text :: "string \<Rightarrow> nat \<Rightarrow> string" where
  "truncate_text value limit =
     (if length value \<le> limit then value else slice_to (int limit - 3) value @ ''...'')"

definition payload_preview :: "(string \<Rightarrow> string) \<Rightarrow> string \<Rightarrow> nat \<Rightarrow> string" where
  "payload_preview decode payload limit = truncate_text (decode payload) limit"

section \<open>The size limits\<close>

text \<open>
  The work stack of \<open>_validate_json_complexity\<close>, its top at the head of the list; the
  items of a container are pushed in order, so the last of them is on top.
\<close>

function validate_loop :: "nat \<Rightarrow> (json \<times> nat) list \<Rightarrow> exn + unit" where
  "validate_loop nodes [] = Inr ()"
| "validate_loop nodes ((current, depth) # stack) =
     (if MAX_JSON_DEPTH < depth then Inl (WebhookPayloadError ''Webhook JSON payload is too deeply nested'')
      else if MAX_JSON_NODES < Suc nodes then Inl (WebhookPayloadError ''Webhook JSON payload is too complex'')
      else validate_loop (Suc nodes)
        (rev (List.map (\<lambda>item. (item, Suc depth)) (json_children current)) @ stack))"
  by pat_completeness auto
termination
proof (relation "measure (\<lambda>(nodes, stack). sum_list (List.map (json_nodes \<circ> fst) stack))")
  fix nodes depth :: nat and current :: json and stack
  have "sum_list (List.map (json_nodes \<circ> fst)
      (rev (List.map (\<lambda>item. (item, Suc depth)) (json_children current)) @ stack))
    = sum_list (List.map json_nodes (json_children current)) + sum_list (List.map (json_nodes \<circ> fst) stack)"
    by (simp add: rev_map [symmetric] sum_list_rev comp_def)
  then show "((Suc nodes, rev (List.map (\<lambda>item. (item, Suc depth)) (json_children current)) @ stack),
      (nodes, (current, depth) # stack))
    \<in> measure (\<lambda>(nodes, stack). sum_list (List.map (json_nodes \<circ> fst) stack))"
    by (simp add: json_nodes.simps [of current])
qed simp

definition validate_json_complexity :: "json \<Rightarrow> exn + unit" where
  "validate_json_complexity value = validate_loop 0 [(value, 0)]"

section \<open>Reading fields\<close>

fun first_text :: "(string \<times> json) list \<Rightarrow> string list \<Rightarrow> string" where
  "first_text value [] = []"
| "first_text value (key # keys) =
     (case dict_get value key of
        JStr s \<Rightarrow> if strip s \<noteq> [] then strip s else first_text value keys
      | JInt i \<Rightarrow> py_str (JInt i)
      | JFloat x \<Rightarrow> py_str (JFloat x)
      | JBool b \<Rightarrow> py_str (JBool b)
      | _ \<Rightarrow> first_text value keys)"

text \<open>The lines \<open>name: value\<close> of the facts that have both.\<close>

fun fact_lines :: "string \<Rightarrow> json list \<Rightarrow> string list" where
  "fact_lines name_key [] = []"
| "fact_lines name_key (v # facts) =
     (case v of
        JDict d \<Rightarrow>
          (let name = dict_get d name_key; fact_value = dict_get d ''value'' in
           if name = JNull \<or> fact_value = JNull then fact_lines name_key facts
           else (py_str name @ '': '' @ py_str fact_value) # fact_lines name_key facts)
      | _ \<Rightarrow> fact_lines name_key facts)"

definition newline :: string where "newline = [CHR 0x0A]"

definition facts_text :: "json \<Rightarrow> string" where
  "facts_text value = (case value of JList facts \<Rightarrow> join newline (fact_lines ''name'' facts) | _ \<Rightarrow> [])"

definition adaptive_facts_text :: "json \<Rightarrow> string" where
  "adaptive_facts_text value =
     (case value of JList facts \<Rightarrow> join newline (fact_lines ''title'' facts) | _ \<Rightarrow> [])"

fun section_lines :: "json list \<Rightarrow> string list" where
  "section_lines [] = []"
| "section_lines (v # sections) =
     (case v of
        JDict section \<Rightarrow>
          (let title = first_text section [''activityTitle'', ''title''];
               subtitle = first_text section [''activitySubtitle'', ''subtitle''];
               text = first_text section [''text''];
               facts = facts_text (dict_get section ''facts'');
               section_parts = List.filter (\<lambda>part. part \<noteq> []) [title, subtitle, text, facts]
           in if section_parts \<noteq> [] then join newline section_parts # section_lines sections
              else section_lines sections)
      | _ \<Rightarrow> section_lines sections)"

definition message_card_sections :: "json \<Rightarrow> string" where
  "message_card_sections value =
     (case value of JList sections \<Rightarrow> join (newline @ newline) (section_lines sections) | _ \<Rightarrow> [])"

section \<open>Adaptive Card activities\<close>

definition ADAPTIVE_CARD :: string where
  "ADAPTIVE_CARD = ''application/vnd.microsoft.card.adaptive''"

definition is_bot_activity_with_attachments :: "(string \<times> json) list \<Rightarrow> bool" where
  "is_bot_activity_with_attachments value =
     (dict_get value ''type'' = JStr ''message'' \<and>
      (case dict_get value ''attachments'' of
         JList attachments \<Rightarrow>
           list_ex (\<lambda>attachment. case attachment of
               JDict a \<Rightarrow> py_str (or_json (dict_get a ''contentType'') (JStr [])) = ADAPTIVE_CARD
             | _ \<Rightarrow> False) attachments
       | _ \<Rightarrow> False))"

text \<open>The two accumulators the recursion appends to: text blocks and facts.\<close>

definition collect_here :: "json \<Rightarrow> string list \<times> string list \<Rightarrow> string list \<times> string list" where
  "collect_here value acc =
     (case value of
        JDict d \<Rightarrow>
          (let (text_blocks, facts) = acc;
               text_blocks =
                 (if dict_get d ''type'' = JStr ''TextBlock'' then
                    (case dict_get d ''text'' of
                       JStr text \<Rightarrow> if strip text \<noteq> [] then text_blocks @ [strip text] else text_blocks
                     | _ \<Rightarrow> text_blocks)
                  else text_blocks);
               fact_text = adaptive_facts_text (dict_get d ''facts'');
               facts =
                 (if dict_get d ''type'' = JStr ''FactSet'' \<and> fact_text \<noteq> [] then facts @ [fact_text]
                  else facts)
           in (text_blocks, facts))
      | _ \<Rightarrow> acc)"

fun collect_adaptive_card_text :: "json \<Rightarrow> string list \<times> string list \<Rightarrow> string list \<times> string list" where
  "collect_adaptive_card_text value acc =
     fold (\<lambda>child. collect_adaptive_card_text child) (json_children value) (collect_here value acc)"

declare collect_adaptive_card_text.simps [simp del]

fun collect_attachments :: "json list \<Rightarrow> string list \<times> string list \<Rightarrow> string list \<times> string list" where
  "collect_attachments [] acc = acc"
| "collect_attachments (v # attachments) acc =
     collect_attachments attachments
       (case v of
          JDict attachment \<Rightarrow>
            (if is_dict (dict_get attachment ''content'')
             then collect_adaptive_card_text (dict_get attachment ''content'') acc else acc)
        | _ \<Rightarrow> acc)"

text \<open>Called only where \<open>attachments\<close> is a list.\<close>

definition activity_summary :: "(string \<times> json) list \<Rightarrow> string \<times> string" where
  "activity_summary activity =
     (let attachments = (case dict_get activity ''attachments'' of JList xs \<Rightarrow> xs | _ \<Rightarrow> []);
          (text_blocks, facts) = collect_attachments attachments ([], []);
          title = (case List.find (\<lambda>text. strip text \<noteq> []) text_blocks of Some t \<Rightarrow> t | None \<Rightarrow> []);
          body = join newline (List.filter (\<lambda>line. strip line \<noteq> []) (drop 1 text_blocks @ facts))
      in (title, body))"

section \<open>Normalisation\<close>

text \<open>The branch of \<open>_normalize_json\<close> for an activity that carries an Adaptive Card.\<close>

definition normalize_activity :: "(string \<times> json) list \<Rightarrow> normalized_message" where
  "normalize_activity d =
     (let (title, text) = activity_summary d in
      \<lparr>msg_title = truncate_text (or_str title ''Adaptive card message'') 255,
       msg_text = truncate_text (or_str text ''Adaptive card payload'') 4000,
       msg_severity = ''info'', msg_status = [],
       msg_raw_type = ''adaptive_card_activity'', msg_activity = Some (JDict d)\<rparr>)"

text \<open>The branch for any other object.\<close>

definition object_parts :: "(string \<times> json) list \<Rightarrow> string list" where
  "object_parts d =
     (let body_text = first_text d [''text'', ''message'', ''description'', ''details'', ''summary''];
          section_text = message_card_sections (dict_get d ''sections'');
          facts_txt = facts_text (dict_get d ''facts'');
          fallback_text = (if body_text \<noteq> [] \<or> section_text \<noteq> [] \<or> facts_txt \<noteq> [] then []
                           else dumps False (JDict d))
      in List.filter (\<lambda>part. part \<noteq> []) [body_text, section_text, facts_txt, fallback_text])"

definition normalize_object :: "(string \<times> json) list \<Rightarrow> normalized_message" where
  "normalize_object d =
     (let raw_type = py_str (or_json (dict_get d ''@type'')
                       (or_json (dict_get d ''type'') (JStr ''json_object'')));
          title = or_str (first_text d [''title'', ''summary'', ''subject'', ''event'', ''name''])
                    ''Webhook message'';
          status = first_text d [''status'', ''state''];
          severity = lower (or_str (first_text d [''severity'', ''level'', ''priority''])
                       (or_str status ''info''))
      in \<lparr>msg_title = truncate_text title 255,
          msg_text = truncate_text (join (newline @ newline) (object_parts d)) 4000,
          msg_severity = truncate_text severity 40,
          msg_status = truncate_text status 40,
          msg_raw_type = truncate_text raw_type 80,
          msg_activity = None\<rparr>)"

definition normalize_array :: "json list \<Rightarrow> normalized_message" where
  "normalize_array xs =
     \<lparr>msg_title = ''Webhook message'', msg_text = truncate_text (dumps False (JList xs)) 2000,
      msg_severity = ''info'', msg_status = [], msg_raw_type = ''json_array'', msg_activity = None\<rparr>"

definition normalize_json :: "json \<Rightarrow> exn + normalized_message" where
  "normalize_json value =
     (case value of
        JList xs \<Rightarrow>
          if xs = [] then Inl (WebhookPayloadError ''Webhook JSON array must not be empty'')
          else Inr (normalize_array xs)
      | JDict d \<Rightarrow>
          if d = [] then Inl (WebhookPayloadError ''Webhook JSON object must not be empty'')
          else if is_bot_activity_with_attachments d then Inr (normalize_activity d)
          else Inr (normalize_object d)
      | _ \<Rightarrow> Inl (WebhookPayloadError ''Webhook JSON payload must be an object or array''))"

text \<open>\<open>bytes.strip\<close> removes the ASCII white space only.\<close>

definition byte_space :: "char \<Rightarrow> bool" where
  "byte_space c \<longleftrightarrow> c \<in> {CHR 0x09, CHR 0x0A, CHR 0x0B, CHR 0x0C, CHR 0x0D, CHR 0x20}"

definition normalize_webhook_payload ::
  "(string \<Rightarrow> string) \<Rightarrow> (string \<Rightarrow> json_result) \<Rightarrow> string \<Rightarrow> string option \<Rightarrow> exn + normalized_message" where
  "normalize_webhook_payload decode loads payload content_type =
     (if list_all byte_space payload then Inl (WebhookPayloadError ''Webhook payload must not be empty'')
      else
        (let text = strip (decode payload);
             content_type_normalized = lower (case content_type of None \<Rightarrow> [] | Some c \<Rightarrow> c);
             looks_like_json = startswith text ''{'' \<or> startswith text ''[''
         in if contains ''json'' content_type_normalized \<or> looks_like_json then
              (case loads text of
                 JsonDecodeError \<Rightarrow> Inl (WebhookPayloadError ''Webhook payload is not valid JSON'')
               | JsonRecursionError \<Rightarrow> Inl (WebhookPayloadError ''Webhook JSON payload is too deeply nested'')
               | JsonValue parsed \<Rightarrow>
                   (case validate_json_complexity parsed of
                      Inl e \<Rightarrow> Inl e
                    | Inr _ \<Rightarrow> normalize_json parsed))
            else Inr \<lparr>msg_title = ''Webhook message'', msg_text = truncate_text text 2000,
                      msg_severity = ''info'', msg_status = [], msg_raw_type = ''text'', msg_activity = None\<rparr>))"

section \<open>Lemmas\<close>

lemma length_truncate_text [length_bounds]: "3 \<le> limit \<Longrightarrow> length (truncate_text v limit) \<le> limit"
  by (auto simp: truncate_text_def slice_to_def nat_diff_distrib')

lemma truncate_text_nonempty [simp]: "truncate_text v limit \<noteq> [] \<longleftrightarrow> v \<noteq> []"
  by (auto simp: truncate_text_def)

lemma truncate_text_short: "length v \<le> limit \<Longrightarrow> truncate_text v limit = v"
  by (simp add: truncate_text_def)

lemma validate_loop_iff:
  "nodes \<le> MAX_JSON_NODES \<Longrightarrow>
   validate_loop nodes stack = Inr () \<longleftrightarrow>
     nodes + (\<Sum>x\<leftarrow>stack. json_nodes (fst x)) \<le> MAX_JSON_NODES \<and>
     (\<forall>(v, d) \<in> set stack. d + json_depth v \<le> MAX_JSON_DEPTH)"
proof (induction nodes stack rule: validate_loop.induct)
  case (1 nodes)
  then show ?case by simp
next
  case (2 nodes current depth stack)
  let ?pushed = "rev (List.map (\<lambda>item. (item, Suc depth)) (json_children current))"
  have sum: "(\<Sum>x\<leftarrow>?pushed. json_nodes (fst x)) = sum_list (List.map json_nodes (json_children current))"
    by (simp add: rev_map [symmetric] sum_list_rev comp_def)
  have deep: "depth \<le> MAX_JSON_DEPTH \<Longrightarrow> (\<forall>(v, d) \<in> set ?pushed. d + json_depth v \<le> MAX_JSON_DEPTH)
      \<longleftrightarrow> depth + json_depth current \<le> MAX_JSON_DEPTH"
    using json_depth_le [of current "MAX_JSON_DEPTH - depth"] by auto
  show ?case
  proof (cases "MAX_JSON_DEPTH < depth \<or> MAX_JSON_NODES < Suc nodes")
    case True
    then show ?thesis by (auto simp: json_nodes.simps [of current])
  next
    case False
    then have "validate_loop nodes ((current, depth) # stack) = Inr () \<longleftrightarrow>
        Suc nodes + (\<Sum>x\<leftarrow>?pushed @ stack. json_nodes (fst x)) \<le> MAX_JSON_NODES \<and>
        (\<forall>(v, d) \<in> set (?pushed @ stack). d + json_depth v \<le> MAX_JSON_DEPTH)"
      using "2.IH" by (simp add: not_le [symmetric] del: map_append set_append)
    also have "\<dots> \<longleftrightarrow> nodes + (\<Sum>x\<leftarrow>(current, depth) # stack. json_nodes (fst x)) \<le> MAX_JSON_NODES \<and>
        (\<forall>(v, d) \<in> set ((current, depth) # stack). d + json_depth v \<le> MAX_JSON_DEPTH)"
      using False deep by (auto simp: sum json_nodes.simps [of current] ball_Un)
    finally show ?thesis .
  qed
qed

lemma validate_loop_error:
  "validate_loop nodes stack = Inl e \<Longrightarrow>
   e = WebhookPayloadError ''Webhook JSON payload is too deeply nested'' \<or>
   e = WebhookPayloadError ''Webhook JSON payload is too complex''"
  by (induction nodes stack rule: validate_loop.induct) (auto split: if_splits)

lemma join_parts_nonempty: "p \<in> set ps \<Longrightarrow> p \<noteq> [] \<Longrightarrow> join sep (List.filter (\<lambda>p. p \<noteq> []) ps) \<noteq> []"
  by (rule join_nonempty_member [of p]) auto

definition message_bounded :: "normalized_message \<Rightarrow> bool" where
  "message_bounded m \<longleftrightarrow> length (msg_title m) \<le> 255 \<and> length (msg_text m) \<le> 4000 \<and>
     length (msg_severity m) \<le> 40 \<and> length (msg_status m) \<le> 40 \<and> length (msg_raw_type m) \<le> 80"

definition message_nonempty :: "normalized_message \<Rightarrow> bool" where
  "message_nonempty m \<longleftrightarrow> msg_title m \<noteq> [] \<and> msg_text m \<noteq> []"

lemma length_truncate_text_le: "3 \<le> limit \<Longrightarrow> limit \<le> n \<Longrightarrow> length (truncate_text v limit) \<le> n"
  using length_truncate_text [of limit v] by simp

lemma normalize_array_message: "message_bounded (normalize_array xs)" "message_nonempty (normalize_array xs)"
  by (simp_all add: normalize_array_def message_bounded_def message_nonempty_def length_truncate_text_le)

lemma normalize_activity_message:
  "message_bounded (normalize_activity d)" "message_nonempty (normalize_activity d)"
  by (cases "activity_summary d",
      simp add: normalize_activity_def message_bounded_def message_nonempty_def length_truncate_text_le)+

lemma join_with_fallback_nonempty:
  "p \<noteq> [] \<Longrightarrow> join sep (List.filter (\<lambda>part. part \<noteq> [])
     [a, b, c, if a \<noteq> [] \<or> b \<noteq> [] \<or> c \<noteq> [] then [] else p]) \<noteq> []"
  by (rule join_parts_nonempty [of "if a \<noteq> [] then a else if b \<noteq> [] then b else if c \<noteq> [] then c else p"])
    auto

lemma join_object_parts_nonempty: "join sep (object_parts d) \<noteq> []"
  unfolding object_parts_def Let_def
  by (rule join_with_fallback_nonempty) (rule dumps_container_nonempty)

lemma normalize_object_message: "message_bounded (normalize_object d)" "message_nonempty (normalize_object d)"
  by (simp_all add: normalize_object_def Let_def message_bounded_def message_nonempty_def
      length_truncate_text_le join_object_parts_nonempty del: first_text.simps)

lemmas normalized_messages =
  normalize_array_message normalize_activity_message normalize_object_message

lemma normalize_json_message: "normalize_json v = Inr m \<Longrightarrow> message_bounded m \<and> message_nonempty m"
  by (cases v) (auto simp: normalize_json_def normalized_messages split: if_splits)

text \<open>Every collected text block is stripped and not blank.\<close>

definition clean_blocks :: "string list \<times> string list \<Rightarrow> bool" where
  "clean_blocks acc \<longleftrightarrow> (\<forall>b \<in> set (fst acc). b \<noteq> [] \<and> strip b = b)"

lemma collect_here_clean: "clean_blocks acc \<Longrightarrow> clean_blocks (collect_here v acc)"
  by (cases v; cases acc) (auto simp: clean_blocks_def collect_here_def Let_def split: json.splits)

lemma fold_clean:
  "(\<And>c acc. c \<in> set cs \<Longrightarrow> clean_blocks acc \<Longrightarrow> clean_blocks (f c acc)) \<Longrightarrow>
   clean_blocks acc \<Longrightarrow> clean_blocks (fold f cs acc)"
  by (induction cs arbitrary: acc) auto

lemma collect_clean: "clean_blocks acc \<Longrightarrow> clean_blocks (collect_adaptive_card_text v acc)"
proof (induction v acc rule: collect_adaptive_card_text.induct)
  case (1 v acc)
  show ?case
    by (subst collect_adaptive_card_text.simps, rule fold_clean)
      (use 1 collect_here_clean in auto)
qed

lemma collect_attachments_clean: "clean_blocks acc \<Longrightarrow> clean_blocks (collect_attachments xs acc)"
  by (induction xs arbitrary: acc) (auto simp: collect_clean split: json.splits)

lemma find_first_clean:
  "\<forall>b \<in> set bs. b \<noteq> [] \<and> strip b = b \<Longrightarrow>
   List.find (\<lambda>b. strip b \<noteq> []) bs = (case bs of [] \<Rightarrow> None | b # _ \<Rightarrow> Some b)"
  by (cases bs) auto

section \<open>Properties\<close>

text \<open>C34: the explicit-stack check of the JSON limits accepts a value exactly when it has at
  most 5000 values in it, itself included, and is nested at most 80 deep: the loop computes
  the two measures of the whole tree although it stops early and visits the tree in its own
  order.\<close>

theorem validate_json_complexity_iff:
  "validate_json_complexity v = Inr () \<longleftrightarrow> json_nodes v \<le> MAX_JSON_NODES \<and> json_depth v \<le> MAX_JSON_DEPTH"
  using validate_loop_iff [of 0 "[(v, 0)]"]
  by (simp add: validate_json_complexity_def del: validate_loop.simps)

text \<open>Whatever a body contains, an accepted message fits the bounds the code promises for
  its fields: title 255, text 4000, severity and status 40, type 80 characters; and its
  title is never empty.\<close>

theorem normalize_webhook_payload_bounded:
  assumes "normalize_webhook_payload decode loads payload content_type = Inr m"
  shows "message_bounded m \<and> msg_title m \<noteq> []"
  using assms normalize_json_message
  by (auto simp: normalize_webhook_payload_def Let_def message_bounded_def message_nonempty_def
      length_truncate_text_le split: if_splits json_result.splits sum.splits)

theorem normalize_webhook_payload_bounded_witness:
  "message_bounded (normalize_array [JNull]) \<and> msg_title (normalize_array [JNull]) \<noteq> []"
proof -
  have "normalize_webhook_payload (\<lambda>b. b) (\<lambda>_. JsonValue (JList [JNull])) ''[null]'' None
    = Inr (normalize_array [JNull])"
    by (simp add: normalize_webhook_payload_def byte_space_def strip_no_space py_space_def
        startswith_def validate_json_complexity_def MAX_JSON_NODES_def MAX_JSON_DEPTH_def normalize_json_def)
  then show ?thesis by (rule normalize_webhook_payload_bounded)
qed

text \<open>a JSON body that is accepted yields a message with a title and a text: the fallback to
  the dumped object guarantees that no alert is delivered empty.\<close>

theorem json_message_nonempty:
  assumes "normalize_json v = Inr m"
  shows "msg_title m \<noteq> [] \<and> msg_text m \<noteq> []"
  using normalize_json_message [OF assms] by (simp add: message_nonempty_def)

theorem json_message_nonempty_witness:
  "msg_title (normalize_array [JNull]) \<noteq> [] \<and> msg_text (normalize_array [JNull]) \<noteq> []"
  by (rule json_message_nonempty [of "JList [JNull]"]) (simp add: normalize_json_def)


text \<open>in an Adaptive Card activity the message title is the first text block found in the card
  and the body is the remaining blocks, followed by the facts.\<close>

theorem activity_summary_title:
  assumes "collect_attachments (case dict_get d ''attachments'' of JList xs \<Rightarrow> xs | _ \<Rightarrow> []) ([], []) = (blocks, facts)"
  shows "activity_summary d =
    ((case blocks of [] \<Rightarrow> [] | b # _ \<Rightarrow> b),
     join newline (drop 1 blocks @ List.filter (\<lambda>line. strip line \<noteq> []) facts))"
proof -
  have "clean_blocks ([], [])" by (simp add: clean_blocks_def)
  then have "clean_blocks (blocks, facts)"
    by (subst assms [symmetric]) (rule collect_attachments_clean)
  then have clean: "\<forall>b \<in> set blocks. b \<noteq> [] \<and> strip b = b" by (simp add: clean_blocks_def)
  then have "\<forall>b \<in> set (drop 1 blocks). strip b \<noteq> []"
    using in_set_dropD by fastforce
  then have "List.filter (\<lambda>line. strip line \<noteq> []) (drop 1 blocks) = drop 1 blocks"
    by (rule filter_True)
  then show ?thesis
    using find_first_clean [OF clean]
    by (cases blocks) (simp_all add: activity_summary_def assms Let_def)
qed

definition sample_card :: "(string \<times> json) list" where
  "sample_card = [(''type'', JStr ''message''), (''attachments'', JList [JDict
     [(''contentType'', JStr ADAPTIVE_CARD), (''content'', JDict [(''body'', JList
       [JDict [(''type'', JStr ''TextBlock''), (''text'', JStr '' Build failed '')],
        JDict [(''type'', JStr ''FactSet''), (''facts'', JList
          [JDict [(''title'', JStr ''Job''), (''value'', JStr ''nightly'')]])]])])]])]"

theorem activity_summary_title_witness:
  "activity_summary sample_card = (''Build failed'', ''Job: nightly'')"
proof -
  have "collect_attachments (case dict_get sample_card ''attachments'' of JList xs \<Rightarrow> xs | _ \<Rightarrow> []) ([], [])
      = ([''Build failed''], [''Job: nightly''])"
    by (simp add: sample_card_def collect_adaptive_card_text.simps collect_here_def adaptive_facts_text_def
        strip_def lstrip_def rstrip_def py_space_def py_str_def)
  then have "activity_summary sample_card =
      ((case [''Build failed''] of [] \<Rightarrow> [] | b # _ \<Rightarrow> b),
       join newline (drop 1 [''Build failed''] @ List.filter (\<lambda>line. strip line \<noteq> []) [''Job: nightly'']))"
    by (rule activity_summary_title)
  also have "\<dots> = (''Build failed'', ''Job: nightly'')"
    by (simp add: strip_def lstrip_def rstrip_def py_space_def)
  finally show ?thesis .
qed

text \<open>
  The emptiness check strips ASCII white space from the bytes, the text is then stripped of
  every white-space character: a body of one file separator passes the check and becomes a
  message without text.
\<close>

lemma separator_payload_accepted_empty:
  "\<exists>m. normalize_webhook_payload (\<lambda>b. b) loads [CHR 0x1C] None = Inr m \<and> msg_text m = []"
proof -
  have "\<not> list_all byte_space [CHR 0x1C]" by (simp add: byte_space_def)
  moreover have "strip [CHR 0x1C] = []" by (simp add: strip_def lstrip_def rstrip_def py_space_def)
  ultimately show ?thesis
    by (simp add: normalize_webhook_payload_def lower_def startswith_def truncate_text_def)
qed

end
