(* ===== verification/Event_Log.thy ===== *)
theory Event_Log
  imports Config
begin

text \<open>
  \<open>services/event_log.py\<close>: the structured event log. Every component reports through
  \<open>emit_event\<close>, which redacts sensitive keys, clips long values and appends one row. The
  console output and the handler that swallows a failing insert are left out: the model is
  of the insert that succeeds.
\<close>

section \<open>Clipping and redaction\<close>

definition SENSITIVE_KEYS :: "string list" where
  "SENSITIVE_KEYS = [''authorization'', ''cookie'', ''token'', ''secret'', ''password'', ''csrf'',
     ''session'', ''key'', ''code'', ''refresh_token'', ''access_token'', ''client_secret'']"

text \<open>\<open>SENSITIVE_KEY_RE.search(key)\<close>, which ignores case.\<close>

definition sensitive_key :: "string \<Rightarrow> bool" where
  "sensitive_key key \<longleftrightarrow> list_ex (\<lambda>k. contains k (lower key)) SENSITIVE_KEYS"

definition REDACTED :: json where "REDACTED = JStr ''[redacted]''"

definition kept_source_key :: "bool \<Rightarrow> string \<Rightarrow> bool" where
  "kept_source_key preserve key \<longleftrightarrow>
     preserve \<and> (key = ''ip'' \<or> key = ''user_agent'' \<or> key = ''x_forwarded_for'')"

fun redact :: "bool \<Rightarrow> json \<Rightarrow> json" where
  "redact preserve (JDict kvs) =
     JDict (List.map (\<lambda>(key, item).
       if sensitive_key key \<and> \<not> kept_source_key preserve key then (key, REDACTED)
       else (key, redact preserve item)) kvs)"
| "redact preserve (JList xs) = JList (take 50 (List.map (redact preserve) xs))"
| "redact preserve (JStr s) = JStr (clip 2000 s)"
| "redact preserve v = v"

fun clip_nested :: "nat \<Rightarrow> json \<Rightarrow> json" where
  "clip_nested limit (JDict kvs) = JDict (take 50 (List.map (\<lambda>(k, v). (k, clip_nested limit v)) kvs))"
| "clip_nested limit (JList xs) = JList (take 50 (List.map (clip_nested limit) xs))"
| "clip_nested limit (JStr s) = JStr (clip limit s)"
| "clip_nested limit v = v"

definition MAX_SAFE_PREVIEW :: nat where "MAX_SAFE_PREVIEW = 1200"

definition safe_raw :: "settings \<Rightarrow> json \<Rightarrow> json" where
  "safe_raw st value =
     (if \<not> event_debug_previews_enabled st then JDict []
      else clip_nested MAX_SAFE_PREVIEW (redact False value))"

section \<open>Emitting\<close>

text \<open>The keyword arguments of \<open>emit_event\<close>, with their defaults in \<open>event_args\<close>.\<close>

record event_args =
  ea_level :: string
  ea_category :: string
  ea_event_type :: string
  ea_message :: string
  ea_user_message :: string
  ea_actor :: "(string \<times> json) list"
  ea_target :: "(string \<times> json) list"
  ea_source :: "(string \<times> json) list"
  ea_http :: "(string \<times> json) list"
  ea_security :: "(string \<times> json) list"
  ea_raw :: "(string \<times> json) list"
  ea_domain :: string
  ea_domain_event_id :: "string option"

definition event :: "string \<Rightarrow> string \<Rightarrow> string \<Rightarrow> string \<Rightarrow> string \<Rightarrow> event_args" where
  "event level category event_type message domain =
     \<lparr>ea_level = level, ea_category = category, ea_event_type = event_type, ea_message = message,
      ea_user_message = [], ea_actor = [], ea_target = [], ea_source = [], ea_http = [],
      ea_security = [], ea_raw = [], ea_domain = domain, ea_domain_event_id = None\<rparr>"

definition current_correlation_id :: "world \<Rightarrow> string" where
  "current_correlation_id w = or_str (context_correlation_id w) (context_request_id w)"

definition event_entry :: "world \<Rightarrow> settings \<Rightarrow> string \<Rightarrow> event_args \<Rightarrow> event_log_entry" where
  "event_entry w st i e =
     \<lparr>ev_id = i,
      ev_level = clip 20 (or_str (ea_level e) ''info''),
      ev_category = clip 40 (ea_category e),
      ev_event_type = clip 120 (ea_event_type e),
      ev_message = clip 2000 (ea_message e),
      ev_user_message = clip 1000 (ea_user_message e),
      ev_correlation_id = clip 80 (current_correlation_id w),
      ev_request_id = clip 80 (context_request_id w),
      ev_actor_json = redact False (JDict (ea_actor e)),
      ev_target_json = redact False (JDict (ea_target e)),
      ev_source_json = redact True (JDict (ea_source e)),
      ev_http_json = redact False (JDict (ea_http e)),
      ev_security_json = redact False (JDict (ea_security e)),
      ev_raw_json = safe_raw st (JDict (ea_raw e)),
      ev_domain = clip 40 (ea_domain e),
      ev_domain_event_id = ea_domain_event_id e,
      ev_created_at = utcnow w\<rparr>"

definition emit_event :: "world \<Rightarrow> settings \<Rightarrow> event_args \<Rightarrow> db \<Rightarrow> db" where
  "emit_event w st e db =
     db\<lparr>event_log := event_log db @ [event_entry w st (new_id db) e], next_id := Suc (next_id db)\<rparr>"

definition level_for_status :: "int \<Rightarrow> string" where
  "level_for_status status_code =
     (if 500 \<le> status_code then ''error''
      else if status_code \<in> {401, 403, 429} then ''warning''
      else if 400 \<le> status_code then ''warning''
      else ''info'')"

section \<open>Request identifiers\<close>

definition safe_id_char :: "char \<Rightarrow> bool" where
  "safe_id_char c = (let n = (of_char c :: nat) in
     (65 \<le> n \<and> n \<le> 90) \<or> (97 \<le> n \<and> n \<le> 122) \<or> (48 \<le> n \<and> n \<le> 57) \<or> c \<in> {CHR ''.'', CHR ''_'', CHR '':'', CHR ''-''})"

text \<open>\<open>uuid\<close> is the fresh \<open>uuid4().hex\<close>.\<close>

definition issue_request_id :: "string \<Rightarrow> string option \<Rightarrow> string" where
  "issue_request_id uuid value =
     (let candidate = strip (case value of None \<Rightarrow> [] | Some v \<Rightarrow> v) in
      if candidate \<noteq> [] \<and> 8 \<le> length candidate \<and> length candidate \<le> 80 \<and> list_all safe_id_char candidate
      then clip 80 candidate else uuid)"

section \<open>Paths\<close>

text \<open>\<open>re.sub("(" + prefix + ")[^/]+", prefix + placeholder, s)\<close>, scanning from the left.\<close>

function mask_segment :: "string \<Rightarrow> string \<Rightarrow> string \<Rightarrow> string" where
  "mask_segment pre placeholder [] = []"
| "mask_segment pre placeholder (c # cs) =
     (let rest = drop (length pre) (c # cs) in
      if startswith (c # cs) pre \<and> pre \<noteq> [] \<and> rest \<noteq> [] \<and> hd rest \<noteq> CHR ''/''
      then pre @ placeholder @ mask_segment pre placeholder (dropWhile (\<lambda>d. d \<noteq> CHR ''/'') rest)
      else c # mask_segment pre placeholder cs)"
  by pat_completeness auto
termination
proof (relation "measure (\<lambda>(pre, placeholder, s). length s)", goal_cases)
  case (2 pre placeholder c cs rest)
  have "length (dropWhile (\<lambda>d. d \<noteq> CHR ''/'') rest) \<le> length rest" by (rule length_dropWhile_le)
  moreover have "length rest < length (c # cs)" using 2 by (cases pre) auto
  ultimately show ?case by simp
qed auto

definition masked_segments :: "(string \<times> string) list" where
  "masked_segments =
     [(''/api/v1/webhooks/'', ''{token}''),
      (''/api/v1/admin/webhook-abuse-buckets/'', ''{id}''),
      (''/api/v1/webhook-delivery-events/'', ''{id}''),
      (''/api/v1/webhook-routes/'', ''{id}''),
      (''/api/v1/admin/users/'', ''{id}''),
      (''/api/v1/admin/settings/'', ''{key}'')]"

definition sanitize_path :: "string \<Rightarrow> string" where
  "sanitize_path path =
     clip 600 (fold (\<lambda>(pre, placeholder). mask_segment pre placeholder) masked_segments
       (takeWhile (\<lambda>c. c \<noteq> CHR ''?'') path))"

section \<open>Lemmas\<close>

text \<open>No sensitive key keeps its value, at any depth, and no text is longer than 2000.\<close>

fun redacted :: "json \<Rightarrow> bool" where
  "redacted (JDict kvs) \<longleftrightarrow> list_all (\<lambda>(k, v). if sensitive_key k then v = REDACTED else redacted v) kvs"
| "redacted (JList xs) \<longleftrightarrow> length xs \<le> 50 \<and> list_all redacted xs"
| "redacted (JStr s) \<longleftrightarrow> length s \<le> 2000"
| "redacted v \<longleftrightarrow> True"

lemma redact_redacted: "redacted (redact False v)"
proof (induction "False" v rule: redact.induct)
  case (1 kvs)
  then show ?case by (auto simp: list_all_iff kept_source_key_def split: if_splits)
next
  case (2 xs)
  then show ?case by (auto simp: list_all_iff dest!: in_set_takeD)
qed (simp_all add: length_bounds)

lemma take_map_redact: "take 50 (List.map f (take 50 xs)) = take 50 (List.map f xs)"
  by (simp add: take_map)

lemma redact_idem: "redact p (redact p v) = redact p v"
proof (induction p v rule: redact.induct)
  case (1 p kvs)
  then show ?case by (fastforce simp: REDACTED_def)
next
  case (2 p xs)
  then show ?case by (auto simp: take_map dest!: in_set_takeD)
qed (simp_all add: clip_def)

lemma clip_nested_redacted: "redacted v \<Longrightarrow> 13 \<le> limit \<Longrightarrow> redacted (clip_nested limit v)"
proof (induction limit v rule: clip_nested.induct)
  case (1 limit kvs)
  show ?case
  proof (unfold clip_nested.simps redacted.simps list_all_iff, intro ballI)
    fix kv assume "kv \<in> set (take 50 (List.map (\<lambda>(k, v). (k, clip_nested limit v)) kvs))"
    then obtain k v where kv: "(k, v) \<in> set kvs" "kv = (k, clip_nested limit v)"
      by (auto dest!: in_set_takeD)
    show "case kv of (k, v) \<Rightarrow> if sensitive_key k then v = REDACTED else redacted v"
      using 1 kv by (auto simp: list_all_iff REDACTED_def clip_def split: if_splits)
  qed
next
  case (2 limit xs)
  then show ?case by (auto simp: list_all_iff dest!: in_set_takeD)
qed (auto simp: clip_def)

lemma safe_raw_redacted: "redacted (safe_raw st v)"
  by (simp add: safe_raw_def clip_nested_redacted redact_redacted MAX_SAFE_PREVIEW_def)

lemma emit_event_tables [simp]:
  "organizations (emit_event w st e db) = organizations db"
  "users (emit_event w st e db) = users db"
  "bot_roles (emit_event w st e db) = bot_roles db"
  "bot_users (emit_event w st e db) = bot_users db"
  "bot_groups (emit_event w st e db) = bot_groups db"
  "membership_cache (emit_event w st e db) = membership_cache db"
  "sessions (emit_event w st e db) = sessions db"
  "routes (emit_event w st e db) = routes db"
  "deliveries (emit_event w st e db) = deliveries db"
  "reveals (emit_event w st e db) = reveals db"
  "buckets (emit_event w st e db) = buckets db"
  "activities (emit_event w st e db) = activities db"
  "references (emit_event w st e db) = references db"
  "credentials (emit_event w st e db) = credentials db"
  "pendings (emit_event w st e db) = pendings db"
  "snapshots (emit_event w st e db) = snapshots db"
  "audits (emit_event w st e db) = audits db"
  "app_settings (emit_event w st e db) = app_settings db"
  "event_log (emit_event w st e db) = event_log db @ [event_entry w st (new_id db) e]"
  "next_id (emit_event w st e db) = Suc (next_id db)"
  by (simp_all add: emit_event_def)

text \<open>A step that only appends to the event log.\<close>

definition logged :: "db \<Rightarrow> db \<Rightarrow> bool" where
  "logged a b \<longleftrightarrow> (\<exists>es n. b = a\<lparr>event_log := event_log a @ es, next_id := n\<rparr> \<and> next_id a \<le> n)"

lemma logged_refl [simp]: "logged a a"
  unfolding logged_def by (rule exI [of _ "[]"], rule exI [of _ "next_id a"]) simp

lemma logged_trans: "logged a b \<Longrightarrow> logged b c \<Longrightarrow> logged a c"
  unfolding logged_def by fastforce

lemma logged_emit [simp]: "logged db (emit_event w st e db)"
  unfolding logged_def emit_event_def by (rule exI, rule exI [of _ "Suc (next_id db)"]) simp

lemma logged_tables:
  assumes "logged a b"
  shows "organizations b = organizations a" "users b = users a" "routes b = routes a"
    "deliveries b = deliveries a" "reveals b = reveals a" "buckets b = buckets a"
    "activities b = activities a" "references b = references a" "credentials b = credentials a"
    "pendings b = pendings a" "audits b = audits a" "app_settings b = app_settings a"
    "sessions b = sessions a" "next_id a \<le> next_id b"
  using assms by (auto simp: logged_def)

lemma mask_segment_hit:
  "pre \<noteq> [] \<Longrightarrow> seg \<noteq> [] \<Longrightarrow> CHR ''/'' \<notin> set seg \<Longrightarrow>
   mask_segment pre placeholder (pre @ seg) = pre @ placeholder"
proof (cases pre)
  case (Cons c cs)
  assume "seg \<noteq> []" "CHR ''/'' \<notin> set seg"
  moreover have "hd seg \<noteq> CHR ''/''"
    using \<open>seg \<noteq> []\<close> \<open>CHR ''/'' \<notin> set seg\<close> by (cases seg) auto
  moreover have "dropWhile (\<lambda>d. d \<noteq> CHR ''/'') seg = []"
    using \<open>CHR ''/'' \<notin> set seg\<close> by (auto simp: dropWhile_eq_Nil_conv)
  ultimately show ?thesis unfolding Cons by (simp add: startswith_def del: dropWhile_eq_Nil_conv)
qed simp

section \<open>Properties\<close>


text \<open>the logged path of a webhook call does not depend on the route token in it: the
  secret relay URL never reaches the log.\<close>

theorem sanitize_path_hides_token:
  assumes "token \<noteq> []" and "CHR ''/'' \<notin> set token" and "CHR ''?'' \<notin> set token"
  shows "sanitize_path (''/api/v1/webhooks/'' @ token) = ''/api/v1/webhooks/{token}''"
proof -
  have q: "takeWhile (\<lambda>c. c \<noteq> CHR ''?'') (''/api/v1/webhooks/'' @ token) = ''/api/v1/webhooks/'' @ token"
    using assms(3) by (intro takeWhile_eq_all_conv [THEN iffD2]) auto
  have "mask_segment ''/api/v1/webhooks/'' ''{token}'' (''/api/v1/webhooks/'' @ token) = ''/api/v1/webhooks/'' @ ''{token}''"
    using assms(1,2) by (intro mask_segment_hit) simp_all
  then show ?thesis
    unfolding sanitize_path_def q
    by (simp add: masked_segments_def startswith_def clip_def)
qed

theorem sanitize_path_hides_token_witness:
  "sanitize_path (''/api/v1/webhooks/'' @ ''s3cr3t'') = ''/api/v1/webhooks/{token}''"
  by (rule sanitize_path_hides_token) simp_all

end
