(* ===== verification/Bot_Delivery.thy ===== *)
theory Bot_Delivery
  imports Token_Cache Payloads Event_Log
begin

text \<open>
  \<open>services/teams_bot.py\<close>: delivery through the Bot Framework. The access token is kept in a
  manager that lives as long as the process, \<open>_token_manager\<close>; the functions that use it
  take it and return it. An event emitted without a session is written in a transaction of
  its own: it stays even where the request is rolled back.
\<close>

section \<open>Tokens\<close>

record bot_token_manager =
  tm_settings :: settings
  tm_access_token :: "string option"
  tm_expires_at :: "instant option"

definition bot_refresh_window :: duration where
  "bot_refresh_window = seconds 60"

definition missing_registration :: "settings \<Rightarrow> string list" where
  "missing_registration st =
     List.map fst (List.filter (\<lambda>(name, value). value = [])
       [(''MS_APP_TENANT_ID'', ms_app_tenant_id st), (''MS_APP_CLIENT_ID'', ms_app_client_id st),
        (''MS_APP_CLIENT_SECRET'', ms_app_client_secret st)])"

definition form_header :: "(string \<times> string) list" where
  "form_header = [(''Content-Type'', ''application/x-www-form-urlencoded'')]"

definition token_url :: "settings \<Rightarrow> string" where
  "token_url st = ''https://login.microsoftonline.com/'' @ ms_app_tenant_id st @ ''/oauth2/v2.0/token''"

definition fetch_botframework_token :: "remote \<Rightarrow> world \<Rightarrow> settings \<Rightarrow> exn + (string \<times> int)" where
  "fetch_botframework_token rm w st =
     (if missing_registration st \<noteq> []
      then Inl (BotDeliveryError (''Missing Bot Framework credentials: '' @ join '', '' (missing_registration st)))
      else (let failed = Inl (BotDeliveryError ''Failed to fetch Bot Framework access token'') in
        case http rm ''POST'' (token_url st) form_header
               (urlencode [(''grant_type'', ''client_credentials''), (''client_id'', ms_app_client_id st),
                  (''client_secret'', ms_app_client_secret st), (''scope'', botframework_scope st)]) of
          HttpStatusError _ _ \<Rightarrow> failed
        | HttpRequestError _ _ \<Rightarrow> failed
        | HttpResponse _ text \<Rightarrow>
            (case parse_json w text of
               Inl None \<Rightarrow> failed
             | Inl (Some e) \<Rightarrow> Inl e
             | Inr body \<Rightarrow>
                 (case reply_str body ''access_token'' of
                    Inl e \<Rightarrow> Inl e
                  | Inr token \<Rightarrow>
                      (case reply_expires_in body of Inl e \<Rightarrow> Inl e | Inr n \<Rightarrow> Inr (token, n))))))"

definition get_token :: "remote \<Rightarrow> world \<Rightarrow> bot_token_manager \<Rightarrow> (exn + string) \<times> bot_token_manager" where
  "get_token rm w tm =
     (let refresh =
        (case fetch_botframework_token rm w (tm_settings tm) of
           Inl e \<Rightarrow> (Inl e, tm)
         | Inr (token, expires_in) \<Rightarrow>
             if token = []
             then (Inl (BotDeliveryError ''Bot Framework token response did not include an access token''), tm)
             else (Inr token, tm\<lparr>tm_access_token := Some token,
                     tm_expires_at := Some (utcnow w + seconds (max expires_in 1))\<rparr>))
      in case (tm_access_token tm, tm_expires_at tm) of
           (Some t, Some expires) \<Rightarrow>
             if t \<noteq> [] \<and> bot_refresh_window < expires - utcnow w then (Inr t, tm) else refresh
         | _ \<Rightarrow> refresh)"

definition get_token_manager :: "settings \<Rightarrow> bot_token_manager option \<Rightarrow> bot_token_manager" where
  "get_token_manager st current =
     (case current of
        Some tm \<Rightarrow> tm
      | None \<Rightarrow> \<lparr>tm_settings = st, tm_access_token = None, tm_expires_at = None\<rparr>)"

definition reset_bot_token_manager :: "bot_token_manager option \<Rightarrow> bot_token_manager option" where
  "reset_bot_token_manager current = None"

section \<open>Sending\<close>

record bot_delivery_result =
  bd_mode :: string
  bd_activity_id :: "string option"
  bd_status_code :: int
  bd_activity :: json

definition bot_result_dict :: "bot_delivery_result \<Rightarrow> (string \<times> json) list" where
  "bot_result_dict r =
     [(''mode'', JStr (bd_mode r)), (''activity_id'', opt_json (bd_activity_id r)),
      (''status_code'', JInt (bd_status_code r)), (''activity'', bd_activity r)]"

definition build_activity :: "normalized_message \<Rightarrow> (string \<times> json) list" where
  "build_activity m =
     (case msg_activity m of
        Some (JDict kvs) \<Rightarrow>
          if kvs \<noteq> [] then (if map_of kvs ''type'' = None then kvs @ [(''type'', JStr ''message'')] else kvs)
          else [(''type'', JStr ''message''),
            (''text'', JStr (join [CHR 0x0A, CHR 0x0A]
               (List.filter (\<lambda>l. l \<noteq> []) [''**'' @ msg_title m @ ''**'', msg_text m])))]
      | _ \<Rightarrow> [(''type'', JStr ''message''),
            (''text'', JStr (join [CHR 0x0A, CHR 0x0A]
               (List.filter (\<lambda>l. l \<noteq> []) [''**'' @ msg_title m @ ''**'', msg_text m])))])"

definition integration_event :: "string \<Rightarrow> string \<Rightarrow> string \<Rightarrow> event_args" where
  "integration_event level event_type message = event level ''integration'' event_type message ''integration''"

definition activities_url :: "string \<Rightarrow> string \<Rightarrow> string" where
  "activities_url service_url conversation_id =
     service_url @ ''/v3/conversations/'' @ quote conversation_id @ ''/activities''"

definition bot_target :: "string \<Rightarrow> string \<Rightarrow> (string \<times> json) list" where
  "bot_target service_url conversation_id =
     [(''type'', JStr ''message''), (''conversation_id'', JStr conversation_id), (''service_url'', JStr service_url)]"

definition post_bot_activity ::
  "remote \<Rightarrow> world \<Rightarrow> settings \<Rightarrow> string \<Rightarrow> string \<Rightarrow> (string \<times> json) list \<Rightarrow> string \<Rightarrow> db \<Rightarrow>
   (exn + bot_delivery_result) \<times> db" where
  "post_bot_activity rm w st service_url conversation_id activity token db =
     (let target = bot_target service_url conversation_id in
      case http rm ''POST'' (activities_url service_url conversation_id)
             [(''Authorization'', ''Bearer '' @ token), (''Content-Type'', ''application/json'')]
             (dumps_items True (JDict activity)) of
        HttpResponse status text \<Rightarrow>
          (case (if text = [] then Inr (JDict []) else parse_json w text) of
             Inl None \<Rightarrow> (Inl (PyError ''JSONDecodeError''), db)
           | Inl (Some e) \<Rightarrow> (Inl e, db)
           | Inr parsed \<Rightarrow>
               (let aid = (case parsed of JDict kvs \<Rightarrow> dict_get kvs ''id'' | _ \<Rightarrow> JNull);
                    activity_id = (if truthy aid then Some (py_str aid) else None)
                in (Inr \<lparr>bd_mode = ''real'', bd_activity_id = activity_id, bd_status_code = status,
                          bd_activity = JDict activity\<rparr>,
                    emit_event w st ((integration_event ''info'' ''bot_framework.delivery.sent''
                        (''Bot Framework delivery completed with HTTP '' @ str_int status @ ''.''))
                      \<lparr>ea_target := target,
                       ea_http := [(''method'', JStr ''POST''), (''status_code'', JInt status)],
                       ea_raw := [(''activity_id'', JStr (opt_str activity_id))]\<rparr>) db)))
      | HttpStatusError code body \<Rightarrow>
          (let safe_body = clip 500 body in
           (Inl (BotDeliveryError (''Bot Framework delivery failed with HTTP '' @ str_int code @ '': '' @ safe_body)),
            emit_event w st ((integration_event ''error'' ''bot_framework.delivery.http_error''
                (''Bot Framework delivery failed with HTTP '' @ str_int code @ ''.''))
              \<lparr>ea_target := target,
               ea_http := [(''method'', JStr ''POST''), (''status_code'', JInt code)],
               ea_raw := [(''provider_preview'', JStr safe_body)]\<rparr>) db))
      | HttpRequestError cls text \<Rightarrow>
          (Inl (BotDeliveryError ''Bot Framework delivery failed''),
           emit_event w st ((integration_event ''error'' ''bot_framework.delivery.request_error''
               ''Bot Framework delivery request failed.'')
             \<lparr>ea_target := target,
              ea_raw := [(''exception_type'', JStr cls), (''exception'', JStr text)]\<rparr>) db))"

definition send_bot_activity ::
  "remote \<Rightarrow> world \<Rightarrow> settings \<Rightarrow> string \<Rightarrow> string \<Rightarrow> normalized_message \<Rightarrow>
   db \<times> bot_token_manager option \<Rightarrow> (exn + bot_delivery_result) \<times> db \<times> bot_token_manager option" where
  "send_bot_activity rm w st service_url conversation_id message s =
     (let (db, tokens) = s; activity = build_activity message in
      if bot_delivery_mode_normalized st = ''mock'' then
        (Inr \<lparr>bd_mode = ''mock'', bd_activity_id = Some ''mock-activity'', bd_status_code = 202,
              bd_activity = JDict activity\<rparr>,
         emit_event w st ((integration_event ''info'' ''bot_framework.delivery.mock''
             ''Bot Framework delivery was simulated in mock mode.'')
           \<lparr>ea_target := [(''type'', JStr ''message''), (''conversation_id'', JStr conversation_id)],
            ea_raw := [(''activity_type'',
              (case map_of activity ''type'' of None \<Rightarrow> JStr [] | Some v \<Rightarrow> v))]\<rparr>) db, tokens)
      else (let url = rstrip_char (CHR ''/'') (strip service_url); conv = strip conversation_id in
        if url = [] \<or> conv = [] then
          (Inl (BotDeliveryError ''Bot service URL and conversation ID are required for real delivery''), db, tokens)
        else (case get_token rm w (get_token_manager st tokens) of
          (Inl e, tm) \<Rightarrow> (Inl e, db, Some tm)
        | (Inr token, tm) \<Rightarrow>
            (case post_bot_activity rm w st url conv activity token db of (r, db') \<Rightarrow> (r, db', Some tm)))))"

section \<open>Lemmas\<close>

lemma get_token_settings: "get_token rm w tm = (r, tm') \<Longrightarrow> tm_settings tm' = tm_settings tm"
  by (auto simp: get_token_def Let_def split: sum.splits option.splits prod.splits if_splits)

lemma get_token_nonempty: "get_token rm w tm = (Inr t, tm') \<Longrightarrow> t \<noteq> []"
  by (auto simp: get_token_def Let_def split: sum.splits option.splits prod.splits if_splits)

text \<open>A token handed out is cached, and it was fetched just now or has more than a minute left.\<close>

lemma get_token_cached:
  assumes "get_token rm w tm = (Inr t, tm')"
  obtains expires where "tm_access_token tm' = Some t" "tm_expires_at tm' = Some expires"
    "bot_refresh_window < expires - utcnow w \<or>
     (\<exists>n. fetch_botframework_token rm w (tm_settings tm) = Inr (t, n) \<and> expires = utcnow w + seconds (max n 1))"
  using assms
  by (auto simp: get_token_def Let_def split: sum.splits option.splits prod.splits if_splits)

lemma post_bot_activity_logged: "post_bot_activity rm w st u c a t db = (r, db') \<Longrightarrow> logged db db'"
  by (auto simp: post_bot_activity_def Let_def split: http_reply.splits sum.splits option.splits)

lemma send_bot_activity_logged:
  "send_bot_activity rm w st u c m (db, tokens) = (r, db', tokens') \<Longrightarrow> logged db db'"
  by (auto simp: send_bot_activity_def Let_def split: prod.splits sum.splits if_splits dest: post_bot_activity_logged)

lemma build_activity_typed: "map_of (build_activity m) ''type'' \<noteq> None"
  by (auto simp: build_activity_def map_add_def split: option.splits json.splits)

lemma post_bot_activity_activity:
  "post_bot_activity rm w st u c a t db = (Inr r, db') \<Longrightarrow> bd_activity r = JDict a \<and> bd_mode r = ''real''"
  by (auto simp: post_bot_activity_def Let_def split: http_reply.splits sum.splits option.splits)

definition bot_cached :: "bot_token_manager \<Rightarrow> (string \<times> instant) option" where
  "bot_cached tm = (case (tm_access_token tm, tm_expires_at tm) of (Some t, Some e) \<Rightarrow> Some (t, e) | _ \<Rightarrow> None)"

interpretation bot_tokens: token_cache get_token bot_cached bot_refresh_window
proof
  fix rm w m t e m' x
  show "bot_cached m = Some (t, e) \<Longrightarrow> t \<noteq> [] \<Longrightarrow> bot_refresh_window < e - utcnow w \<Longrightarrow> get_token rm w m = (Inr t, m)"
    by (simp add: bot_cached_def get_token_def split: option.splits)
  show "get_token rm w m = (Inr t, m') \<Longrightarrow> t \<noteq> [] \<and> map_option fst (bot_cached m') = Some t"
    by (auto simp: bot_cached_def get_token_def Let_def split: option.splits sum.splits if_splits)
  show "get_token rm w m = (Inl x, m') \<Longrightarrow> m' = m"
    by (auto simp: get_token_def Let_def split: option.splits sum.splits if_splits)
qed

section \<open>Properties\<close>

text \<open>a token the manager has handed out is handed out again, without a request and without
  change, for as long as more than the refresh window of a minute remains of it.\<close>

theorem bot_token_reuse:
  assumes "get_token rm w tm = (Inr token, tm')"
    and "tm_expires_at tm' = Some expires" and "utcnow later < expires - bot_refresh_window"
  shows "get_token rm' later tm' = (Inr token, tm')"
proof -
  have "tm_access_token tm' = Some token" using get_token_cached [OF assms(1)] by metis
  then show ?thesis
    using assms(2,3) by (intro bot_tokens.reuse [OF assms(1)]) (auto simp: bot_cached_def)
qed

definition sample_remote :: "(string \<Rightarrow> string \<Rightarrow> http_reply) \<Rightarrow> remote" where
  "sample_remote reply = \<lparr>http = (\<lambda>_ url _ body. reply url body), fernet_encrypt = (\<lambda>k t. t),
     fernet_decrypt = (\<lambda>k t. Some t), b64url_text = (\<lambda>_. None)\<rparr>"

definition sample_token_world :: world where
  "sample_token_world = sample_world\<lparr>json_loads := (\<lambda>_. JsonValue
     (JDict [(''access_token'', JStr ''abc''), (''expires_in'', JInt 3600)]))\<rparr>"

definition sample_registered :: settings where
  "sample_registered = default_settings\<lparr>ms_app_tenant_id := ''t'', ms_app_client_id := ''c'', ms_app_client_secret := ''s''\<rparr>"

definition sample_manager :: bot_token_manager where
  "sample_manager = \<lparr>tm_settings = sample_registered, tm_access_token = Some ''abc'', tm_expires_at = Some (seconds 3600)\<rparr>"

lemma sample_token:
  "get_token (sample_remote (\<lambda>_ _. HttpResponse 200 ''x'')) sample_token_world (get_token_manager sample_registered None) =
    (Inr ''abc'', sample_manager)"
  by (simp add: get_token_def get_token_manager_def fetch_botframework_token_def missing_registration_def
      sample_registered_def default_settings_def sample_remote_def parse_json_def sample_token_world_def
      sample_world_def reply_str_def reply_expires_in_def get_attr_def or_json_def truthy_def py_str_def py_int_def
      sample_manager_def)

theorem bot_token_reuse_witness:
  "get_token (sample_remote (\<lambda>_ _. HttpStatusError 500 [])) (sample_world\<lparr>utcnow := seconds 3000\<rparr>) sample_manager =
    (Inr ''abc'', sample_manager)"
  by (rule bot_token_reuse [OF sample_token, of "seconds 3600"])
    (simp_all add: sample_manager_def seconds_def bot_refresh_window_def)

text \<open>in mock mode a delivery succeeds without reaching the network or the token cache,
  whatever the address, and it carries the activity that would have been sent.\<close>

theorem mock_delivery_is_local:
  assumes "bot_delivery_mode_normalized st = ''mock''"
  shows "\<exists>db'. send_bot_activity rm w st u c m (db, tokens) =
    (Inr \<lparr>bd_mode = ''mock'', bd_activity_id = Some ''mock-activity'', bd_status_code = 202,
          bd_activity = JDict (build_activity m)\<rparr>, db', tokens) \<and> logged db db' \<and>
    send_bot_activity other w st u c m (db, tokens) = send_bot_activity rm w st u c m (db, tokens)"
  using assms by (simp add: send_bot_activity_def Let_def)

theorem mock_delivery_is_local_witness:
  "\<exists>db'. send_bot_activity (sample_remote (\<lambda>_ _. HttpStatusError 500 [])) sample_world
      (default_settings\<lparr>bot_delivery_mode := ''Mock ''\<rparr>) [] []
      \<lparr>msg_title = ''t'', msg_text = [], msg_severity = [], msg_status = [], msg_raw_type = [], msg_activity = None\<rparr>
      (empty_db, None) =
    (Inr \<lparr>bd_mode = ''mock'', bd_activity_id = Some ''mock-activity'', bd_status_code = 202,
          bd_activity = JDict (build_activity
      \<lparr>msg_title = ''t'', msg_text = [], msg_severity = [], msg_status = [], msg_raw_type = [], msg_activity = None\<rparr>)\<rparr>,
      db', None) \<and> logged empty_db db' \<and>
    send_bot_activity (sample_remote (\<lambda>_ _. HttpResponse 200 [])) sample_world
      (default_settings\<lparr>bot_delivery_mode := ''Mock ''\<rparr>) [] []
      \<lparr>msg_title = ''t'', msg_text = [], msg_severity = [], msg_status = [], msg_raw_type = [], msg_activity = None\<rparr>
      (empty_db, None) =
    send_bot_activity (sample_remote (\<lambda>_ _. HttpStatusError 500 [])) sample_world
      (default_settings\<lparr>bot_delivery_mode := ''Mock ''\<rparr>) [] []
      \<lparr>msg_title = ''t'', msg_text = [], msg_severity = [], msg_status = [], msg_raw_type = [], msg_activity = None\<rparr>
      (empty_db, None)"
  by (rule mock_delivery_is_local)
    (simp add: bot_delivery_mode_normalized_def strip_def lstrip_def rstrip_def py_space_def lower_def lower_char_def Let_def)

text \<open>
  A reply that is not JSON ends the delivery with an exception that no handler of a delivery
  catches, although the activity was accepted.
\<close>

lemma accepted_activity_can_raise:
  assumes "bot_delivery_mode_normalized st = ''real''" and "get_token rm w (get_token_manager st tokens) = (Inr token, tm)"
    and "rstrip_char (CHR ''/'') (strip u) \<noteq> []" and "strip c \<noteq> []"
    and "http rm ''POST'' (activities_url (rstrip_char (CHR ''/'') (strip u)) (strip c))
        [(''Authorization'', ''Bearer '' @ token), (''Content-Type'', ''application/json'')]
        (dumps_items True (JDict (build_activity m))) = HttpResponse 200 text"
    and "text \<noteq> []" and "json_loads w text = JsonDecodeError"
  shows "send_bot_activity rm w st u c m (db, tokens) = (Inl (PyError ''JSONDecodeError''), db, Some tm)"
  using assms by (simp add: send_bot_activity_def post_bot_activity_def parse_json_def Let_def)

end
