(* ===== verification/Audit_Log.thy ===== *)
theory Audit_Log
  imports Event_Log
begin

text \<open>
  \<open>record_audit\<close> of \<open>deps.py\<close>: every administrative change writes an audit row and
  reports it to the event log.
\<close>

text \<open>\<open>s.replace(a, b)\<close> for single characters, and \<open>s.title()\<close> on ASCII text.\<close>

definition replace_char :: "char \<Rightarrow> char \<Rightarrow> string \<Rightarrow> string" where
  "replace_char a b = List.map (\<lambda>c. if c = a then b else c)"

definition ascii_letter :: "char \<Rightarrow> bool" where
  "ascii_letter c = (let n = (of_char c :: nat) in (65 \<le> n \<and> n \<le> 90) \<or> (97 \<le> n \<and> n \<le> 122))"

definition upper_ascii :: "char \<Rightarrow> char" where
  "upper_ascii c = (let n = (of_char c :: nat) in if 97 \<le> n \<and> n \<le> 122 then char_of (n - 32) else c)"

fun title_from :: "bool \<Rightarrow> string \<Rightarrow> string" where
  "title_from after_letter [] = []"
| "title_from after_letter (c # cs) =
     (if after_letter then lower_char c else upper_ascii c) # title_from (ascii_letter c) cs"

definition title_case :: "string \<Rightarrow> string" where
  "title_case s = title_from False s"

definition record_audit ::
  "world \<Rightarrow> settings \<Rightarrow> string \<Rightarrow> string \<Rightarrow> string option \<Rightarrow> string option \<Rightarrow> (string \<times> json) list \<Rightarrow> db \<Rightarrow> db" where
  "record_audit w st action actor_type actor_id organization_id metadata db =
     (let audit = \<lparr>au_id = new_id db, au_organization_id = organization_id, au_actor_type = actor_type,
            au_actor_id = actor_id, au_action = action, au_metadata_json = JDict metadata,
            au_created_at = utcnow w\<rparr>;
          db = db\<lparr>audits := audits db @ [audit], next_id := Suc (next_id db)\<rparr>
      in emit_event w st
           ((event ''info'' ''audit'' action
               (title_case (replace_char (CHR ''_'') (CHR '' '') (replace_char (CHR ''.'') (CHR '' '') action)))
               ''audit'')
             \<lparr>ea_actor := [(''type'', JStr actor_type), (''id'', JStr (opt_str actor_id))],
              ea_target := [(''type'', JStr ''audit''), (''organization_id'', JStr (opt_str organization_id))],
              ea_raw := [(''metadata'', JDict metadata)],
              ea_domain_event_id := Some (au_id audit)\<rparr>) db)"

lemma record_audit_tables [simp]:
  "organizations (record_audit w st a t i org m db) = organizations db"
  "users (record_audit w st a t i org m db) = users db"
  "bot_roles (record_audit w st a t i org m db) = bot_roles db"
  "bot_users (record_audit w st a t i org m db) = bot_users db"
  "bot_groups (record_audit w st a t i org m db) = bot_groups db"
  "membership_cache (record_audit w st a t i org m db) = membership_cache db"
  "sessions (record_audit w st a t i org m db) = sessions db"
  "routes (record_audit w st a t i org m db) = routes db"
  "deliveries (record_audit w st a t i org m db) = deliveries db"
  "reveals (record_audit w st a t i org m db) = reveals db"
  "buckets (record_audit w st a t i org m db) = buckets db"
  "activities (record_audit w st a t i org m db) = activities db"
  "references (record_audit w st a t i org m db) = references db"
  "credentials (record_audit w st a t i org m db) = credentials db"
  "pendings (record_audit w st a t i org m db) = pendings db"
  "snapshots (record_audit w st a t i org m db) = snapshots db"
  "app_settings (record_audit w st a t i org m db) = app_settings db"
  "next_id (record_audit w st a t i org m db) = next_id db + 2"
  by (simp_all add: record_audit_def Let_def)

lemma record_audit_appends:
  "List.map au_action (audits (record_audit w st a t i org m db)) = List.map au_action (audits db) @ [a]"
  by (simp add: record_audit_def Let_def)

section \<open>Invariants of some tables\<close>

text \<open>
  What the components promise of their table is kept by the operations that only report: an
  invariant that reads some tables, and the key counter only as an upper bound.
\<close>

locale table_invariant =
  fixes table :: "db \<Rightarrow> 't" and inv :: "db \<Rightarrow> bool"
  assumes inv_frame: "inv db \<Longrightarrow> table db' = table db \<Longrightarrow> next_id db \<le> next_id db' \<Longrightarrow> inv db'"
    and table_event: "table (emit_event w st e db) = table db"
    and table_audit: "table (record_audit w st a t i org m db) = table db"
begin

lemma inv_event [simp, intro]: "inv db \<Longrightarrow> inv (emit_event w st e db)"
  by (erule inv_frame) (simp_all add: table_event)

lemma inv_audit [simp, intro]: "inv db \<Longrightarrow> inv (record_audit w st a t i org m db)"
  by (erule inv_frame) (simp_all add: table_audit)

end

text \<open>A table whose only invariant is that its keys are fresh and distinct.\<close>

interpretation user_rows: table_invariant users "\<lambda>db. fresh_ids u_id (next_id db) (users db)"
  by unfold_locales (auto intro: fresh_ids_mono)

end
