(* ===== verification/Graph_Auth.thy ===== *)
theory Graph_Auth
  imports Bot_Delivery Audit_Log
begin

text \<open>
  \<open>services/graph_delegated_auth.py\<close> and \<open>core/encrypted_secrets.py\<close>: the delegated Graph
  credential of an organization. An OAuth code is exchanged into a pending credential, which
  an admin promotes or lets expire; every delivery refreshes the access token of the
  promoted one and records on it how that went.
\<close>

section \<open>Encrypted secrets\<close>

definition fernet_source :: "settings \<Rightarrow> exn + string" where
  "fernet_source st =
     (if strip (settings_enc_key st) = []
      then Inl (HTTPException 500 ''SETTINGS_ENC_KEY is required for encrypted settings and delegated secret material.'')
      else Inr (strip (settings_enc_key st)))"

definition encrypt_secret :: "remote \<Rightarrow> settings \<Rightarrow> string \<Rightarrow> exn + string" where
  "encrypt_secret rm st value =
     (case fernet_source st of Inl e \<Rightarrow> Inl e | Inr source \<Rightarrow> Inr (fernet_encrypt rm source value))"

definition decrypt_secret :: "remote \<Rightarrow> settings \<Rightarrow> string \<Rightarrow> exn + string" where
  "decrypt_secret rm st value =
     (case fernet_source st of
        Inl e \<Rightarrow> Inl e
      | Inr source \<Rightarrow>
          (case fernet_decrypt rm source value of
             None \<Rightarrow> Inl (HTTPException 500
               (''Stored secret could not be decrypted with the current SETTINGS_ENC_KEY. '' @
                ''Keep the previous key or re-enter the affected secret.''))
           | Some text \<Rightarrow> Inr text))"

section \<open>Token requests\<close>

definition DEFAULT_DELEGATED_GRAPH_SCOPES :: "string list" where
  "DEFAULT_DELEGATED_GRAPH_SCOPES =
     [''offline_access'', ''ChannelMessage.Send'', ''ChatMessage.Send'', ''Chat.ReadBasic'', ''Chat.Create'', ''User.Read'']"

definition PENDING_CREDENTIAL_TTL :: duration where
  "PENDING_CREDENTIAL_TTL = minutes 30"

definition require_app_registration :: "settings \<Rightarrow> exn option" where
  "require_app_registration st =
     (if missing_registration st = [] then None
      else Some (GraphDelegatedConfigError
        (''Missing delegated Graph app registration settings: '' @ join '', '' (missing_registration st))))"

definition build_authorization_url :: "settings \<Rightarrow> string \<Rightarrow> string \<Rightarrow> exn + string" where
  "build_authorization_url st redirect_uri state =
     (case require_app_registration st of
        Some e \<Rightarrow> Inl e
      | None \<Rightarrow> Inr (''https://login.microsoftonline.com/'' @ quote (ms_app_tenant_id st) @
          ''/oauth2/v2.0/authorize?'' @
          urlencode [(''client_id'', ms_app_client_id st), (''response_type'', ''code''),
            (''redirect_uri'', redirect_uri), (''response_mode'', ''query''),
            (''scope'', join '' '' DEFAULT_DELEGATED_GRAPH_SCOPES), (''state'', state)]))"

definition token_error_code :: "world \<Rightarrow> string \<Rightarrow> exn + string" where
  "token_error_code w body =
     (case parse_json w body of
        Inl None \<Rightarrow> Inr []
      | Inl (Some e) \<Rightarrow> Inl e
      | Inr v \<Rightarrow> reply_str v ''error'')"

definition request_token :: "remote \<Rightarrow> world \<Rightarrow> settings \<Rightarrow> (string \<times> string) list \<Rightarrow> exn + json" where
  "request_token rm w st form =
     (let failed = Inl (GraphDelegatedAuthError ''Delegated Graph token request failed'') in
      case http rm ''POST'' (token_url st) form_header (urlencode form) of
        HttpResponse _ text \<Rightarrow>
          (case parse_json w text of Inr v \<Rightarrow> Inr v | Inl None \<Rightarrow> failed | Inl (Some e) \<Rightarrow> Inl e)
      | HttpStatusError _ body \<Rightarrow>
          (case token_error_code w body of
             Inl e \<Rightarrow> Inl e
           | Inr code \<Rightarrow>
               if code = ''invalid_grant''
               then Inl (ExpiredRefreshTokenError ''Delegated Graph refresh token is expired or revoked'')
               else failed)
      | HttpRequestError _ _ \<Rightarrow> failed)"

text \<open>\<open>value.split()\<close>\<close>

fun words_from :: "string \<Rightarrow> string \<Rightarrow> string list" where
  "words_from cur [] = (if cur = [] then [] else [rev cur])"
| "words_from cur (c # cs) =
     (if py_space c then (if cur = [] then [] else [rev cur]) @ words_from [] cs
      else words_from (c # cur) cs)"

definition scope_list :: "string \<Rightarrow> string list" where
  "scope_list value = List.filter (\<lambda>scope. scope \<noteq> []) (words_from [] value)"

definition decode_jwt_claims :: "remote \<Rightarrow> world \<Rightarrow> string \<Rightarrow> exn + (string \<times> json) list" where
  "decode_jwt_claims rm w token =
     (case split_on (CHR ''.'') token of
        _ # payload # _ \<Rightarrow>
          (let padded = payload @ replicate (nat ((- int (length payload)) mod 4)) (CHR ''='') in
           case b64url_text rm padded of
             None \<Rightarrow> Inr []
           | Some decoded \<Rightarrow>
               (case parse_json w decoded of
                  Inl None \<Rightarrow> Inr []
                | Inl (Some e) \<Rightarrow> Inl e
                | Inr v \<Rightarrow> Inr (case v of JDict kvs \<Rightarrow> kvs | _ \<Rightarrow> [])))
      | _ \<Rightarrow> Inr [])"

definition claim :: "(string \<times> json) list \<Rightarrow> string \<Rightarrow> string" where
  "claim claims key = (case dict_get claims key of JStr s \<Rightarrow> strip s | _ \<Rightarrow> [])"

section \<open>Applying a token response\<close>

text \<open>
  The columns that \<open>_apply_successful_token_response\<close> assigns; the credential and the
  pending credential have them in common.
\<close>

record token_columns =
  tc_tenant_id :: string
  tc_client_id :: string
  tc_scopes :: string
  tc_encrypted_refresh_token :: string
  tc_service_user_id :: string
  tc_service_user_display_name :: string
  tc_service_user_principal_name :: string
  tc_access_token_expires_at :: "instant option"
  tc_refresh_checked_at :: "instant option"

definition response_scopes :: "string \<Rightarrow> string list \<Rightarrow> string \<Rightarrow> string list" where
  "response_scopes scope fallback_scopes encrypted =
     (let scopes = (if scope_list scope \<noteq> [] then scope_list scope else fallback_scopes) in
      if encrypted \<noteq> [] \<and> ''offline_access'' \<notin> set (List.map lower scopes)
      then ''offline_access'' # scopes else scopes)"

definition stored_refresh_token ::
  "remote \<Rightarrow> settings \<Rightarrow> string option \<Rightarrow> token_columns \<Rightarrow> exn + string" where
  "stored_refresh_token rm st refresh_token c =
     (case refresh_token of
        None \<Rightarrow> Inr (tc_encrypted_refresh_token c)
      | Some t \<Rightarrow> if t = [] then Inr (tc_encrypted_refresh_token c) else encrypt_secret rm st t)"

definition apply_successful_token_response ::
  "remote \<Rightarrow> world \<Rightarrow> settings \<Rightarrow> json \<Rightarrow> string list \<Rightarrow> string option \<Rightarrow> token_columns \<Rightarrow> exn + token_columns" where
  "apply_successful_token_response rm w st response fallback_scopes refresh_token c =
     (case reply_str response ''access_token'' of Inl e \<Rightarrow> Inl e | Inr access_token \<Rightarrow>
      (case decode_jwt_claims rm w access_token of Inl e \<Rightarrow> Inl e | Inr claims \<Rightarrow>
      (case reply_expires_in response of Inl e \<Rightarrow> Inl e | Inr expires_in \<Rightarrow>
      (case reply_str response ''scope'' of Inl e \<Rightarrow> Inl e | Inr scope \<Rightarrow>
      (case stored_refresh_token rm st refresh_token c of Inl e \<Rightarrow> Inl e | Inr encrypted \<Rightarrow>
        Inr (c\<lparr>tc_encrypted_refresh_token := encrypted,
          tc_tenant_id := ms_app_tenant_id st,
          tc_client_id := ms_app_client_id st,
          tc_scopes := join '' '' (response_scopes scope fallback_scopes encrypted),
          tc_service_user_id := or_str (or_str (claim claims ''oid'') (claim claims ''sub'')) (tc_service_user_id c),
          tc_service_user_display_name := or_str (claim claims ''name'') (tc_service_user_display_name c),
          tc_service_user_principal_name :=
            or_str (or_str (claim claims ''preferred_username'') (claim claims ''upn''))
              (tc_service_user_principal_name c),
          tc_access_token_expires_at := Some (utcnow w + seconds (max expires_in 1)),
          tc_refresh_checked_at := Some (utcnow w)\<rparr>))))))"

definition credential_columns :: "graph_delegated_credential \<Rightarrow> token_columns" where
  "credential_columns c =
     \<lparr>tc_tenant_id = gd_tenant_id c, tc_client_id = gd_client_id c, tc_scopes = gd_scopes c,
      tc_encrypted_refresh_token = gd_encrypted_refresh_token c, tc_service_user_id = gd_service_user_id c,
      tc_service_user_display_name = gd_service_user_display_name c,
      tc_service_user_principal_name = gd_service_user_principal_name c,
      tc_access_token_expires_at = gd_access_token_expires_at c, tc_refresh_checked_at = gd_refresh_checked_at c\<rparr>"

definition with_columns :: "token_columns \<Rightarrow> graph_delegated_credential \<Rightarrow> graph_delegated_credential" where
  "with_columns t c = c\<lparr>gd_tenant_id := tc_tenant_id t, gd_client_id := tc_client_id t, gd_scopes := tc_scopes t,
      gd_encrypted_refresh_token := tc_encrypted_refresh_token t, gd_service_user_id := tc_service_user_id t,
      gd_service_user_display_name := tc_service_user_display_name t,
      gd_service_user_principal_name := tc_service_user_principal_name t,
      gd_last_status := ''ready'', gd_last_error := [],
      gd_access_token_expires_at := tc_access_token_expires_at t, gd_refresh_checked_at := tc_refresh_checked_at t\<rparr>"

definition blank_columns :: token_columns where
  "blank_columns = \<lparr>tc_tenant_id = [], tc_client_id = [], tc_scopes = [], tc_encrypted_refresh_token = [],
     tc_service_user_id = [], tc_service_user_display_name = [], tc_service_user_principal_name = [],
     tc_access_token_expires_at = None, tc_refresh_checked_at = None\<rparr>"

section \<open>Diagnostics\<close>

record delegated_diagnostics =
  dg_status :: string
  dg_configured :: bool
  dg_tenant_id :: string
  dg_client_id :: string
  dg_scopes :: "string list"
  dg_service_user_id :: string
  dg_service_user_display_name :: string
  dg_service_user_principal_name :: string
  dg_access_token_expires_at :: "instant option"
  dg_refresh_checked_at :: "instant option"
  dg_message :: string

definition diagnostics_for_credential :: "graph_delegated_credential \<Rightarrow> delegated_diagnostics" where
  "diagnostics_for_credential c =
     \<lparr>dg_status = or_str (gd_last_status c) ''missing'', dg_configured = (gd_encrypted_refresh_token c \<noteq> []),
      dg_tenant_id = gd_tenant_id c, dg_client_id = gd_client_id c, dg_scopes = scope_list (gd_scopes c),
      dg_service_user_id = gd_service_user_id c, dg_service_user_display_name = gd_service_user_display_name c,
      dg_service_user_principal_name = gd_service_user_principal_name c,
      dg_access_token_expires_at = ensure_utc (gd_access_token_expires_at c),
      dg_refresh_checked_at = ensure_utc (gd_refresh_checked_at c), dg_message = gd_last_error c\<rparr>"

definition diagnostics_for_pending_credential :: "pending_credential \<Rightarrow> delegated_diagnostics" where
  "diagnostics_for_pending_credential p =
     \<lparr>dg_status = ''ready'', dg_configured = (pc_encrypted_refresh_token p \<noteq> []),
      dg_tenant_id = pc_tenant_id p, dg_client_id = pc_client_id p, dg_scopes = scope_list (pc_scopes p),
      dg_service_user_id = pc_service_user_id p, dg_service_user_display_name = pc_service_user_display_name p,
      dg_service_user_principal_name = pc_service_user_principal_name p,
      dg_access_token_expires_at = ensure_utc (pc_access_token_expires_at p),
      dg_refresh_checked_at = ensure_utc (pc_refresh_checked_at p),
      dg_message = ''Delegated Graph connection is waiting for admin confirmation.''\<rparr>"

definition get_delegated_credential :: "string \<Rightarrow> db \<Rightarrow> graph_delegated_credential option" where
  "get_delegated_credential org db = fetch (\<lambda>c. gd_organization_id c = org) (credentials db)"

definition diagnostics_for_organization :: "string \<Rightarrow> db \<Rightarrow> delegated_diagnostics" where
  "diagnostics_for_organization org db =
     (case get_delegated_credential org db of
        None \<Rightarrow> \<lparr>dg_status = ''missing'', dg_configured = False, dg_tenant_id = [], dg_client_id = [],
          dg_scopes = [], dg_service_user_id = [], dg_service_user_display_name = [],
          dg_service_user_principal_name = [], dg_access_token_expires_at = None, dg_refresh_checked_at = None,
          dg_message = ''Delegated Graph delivery has not been configured.''\<rparr>
      | Some c \<Rightarrow> diagnostics_for_credential c)"

section \<open>Operations on the credential\<close>

definition save_credential :: "graph_delegated_credential \<Rightarrow> db \<Rightarrow> db" where
  "save_credential c db = db\<lparr>credentials := save_row gd_id c (credentials db)\<rparr>"

definition new_credential :: "string \<Rightarrow> string \<Rightarrow> graph_delegated_credential" where
  "new_credential i org =
     \<lparr>gd_id = i, gd_organization_id = org, gd_tenant_id = [], gd_client_id = [], gd_scopes = [],
      gd_encrypted_refresh_token = [], gd_service_user_id = [], gd_service_user_display_name = [],
      gd_service_user_principal_name = [], gd_last_status = ''missing'', gd_last_error = [],
      gd_access_token_expires_at = None, gd_refresh_checked_at = None\<rparr>"

definition get_or_create_credential :: "string \<Rightarrow> db \<Rightarrow> graph_delegated_credential \<times> db" where
  "get_or_create_credential org db =
     (case get_delegated_credential org db of
        Some c \<Rightarrow> (c, db)
      | None \<Rightarrow> (let c = new_credential (new_id db) org in
          (c, db\<lparr>credentials := credentials db @ [c], next_id := Suc (next_id db)\<rparr>)))"

definition mark_credential_status ::
  "world \<Rightarrow> graph_delegated_credential \<Rightarrow> string \<Rightarrow> string \<Rightarrow> graph_delegated_credential" where
  "mark_credential_status w c status message =
     c\<lparr>gd_last_status := status, gd_last_error := message, gd_refresh_checked_at := Some (utcnow w)\<rparr>"

text \<open>The token and refresh token of a code exchange; both are required.\<close>

definition exchange_code ::
  "remote \<Rightarrow> world \<Rightarrow> settings \<Rightarrow> string \<Rightarrow> string \<Rightarrow> exn + (json \<times> string)" where
  "exchange_code rm w st code redirect_uri =
     (case require_app_registration st of Some e \<Rightarrow> Inl e | None \<Rightarrow>
      (case request_token rm w st
              [(''grant_type'', ''authorization_code''), (''client_id'', ms_app_client_id st),
               (''client_secret'', ms_app_client_secret st), (''code'', code), (''redirect_uri'', redirect_uri),
               (''scope'', join '' '' DEFAULT_DELEGATED_GRAPH_SCOPES)] of
         Inl e \<Rightarrow> Inl e
       | Inr response \<Rightarrow>
           (case reply_str response ''refresh_token'' of Inl e \<Rightarrow> Inl e | Inr refresh_token \<Rightarrow>
           (case reply_str response ''access_token'' of Inl e \<Rightarrow> Inl e | Inr access_token \<Rightarrow>
              if refresh_token = [] \<or> access_token = []
              then Inl (GraphDelegatedAuthError ''Delegated Graph authorization did not return usable token material'')
              else Inr (response, refresh_token)))))"

definition exchange_authorization_code ::
  "remote \<Rightarrow> world \<Rightarrow> settings \<Rightarrow> string \<Rightarrow> string \<Rightarrow> string \<Rightarrow> db \<Rightarrow> (exn + delegated_diagnostics) \<times> db" where
  "exchange_authorization_code rm w st org code redirect_uri db =
     (case exchange_code rm w st code redirect_uri of
        Inl e \<Rightarrow> (Inl e, db)
      | Inr (response, refresh_token) \<Rightarrow>
          (let (c, db') = get_or_create_credential org db in
           case apply_successful_token_response rm w st response DEFAULT_DELEGATED_GRAPH_SCOPES
                  (Some refresh_token) (credential_columns c) of
             Inl e \<Rightarrow> (Inl e, db')
           | Inr t \<Rightarrow> (Inr (diagnostics_for_credential (with_columns t c)), save_credential (with_columns t c) db')))"

definition get_pending_delegated_credential :: "string \<Rightarrow> db \<Rightarrow> pending_credential option" where
  "get_pending_delegated_credential org db = fetch (\<lambda>p. pc_organization_id p = org) (pendings db)"

definition get_pending_delegated_credential_by_id :: "string \<Rightarrow> string \<Rightarrow> db \<Rightarrow> pending_credential option" where
  "get_pending_delegated_credential_by_id org pending_id db =
     (case fetch (\<lambda>p. pc_id p = pending_id) (pendings db) of
        None \<Rightarrow> None
      | Some p \<Rightarrow> if pc_organization_id p \<noteq> org then None else Some p)"

definition pending_credential_is_expired :: "world \<Rightarrow> pending_credential \<Rightarrow> bool" where
  "pending_credential_is_expired w p \<longleftrightarrow> pc_expires_at p \<le> utcnow w"

definition delete_pending :: "pending_credential \<Rightarrow> db \<Rightarrow> db" where
  "delete_pending p db = db\<lparr>pendings := delete_rows (\<lambda>q. pc_id q = pc_id p) (pendings db)\<rparr>"

definition pending_with_columns :: "world \<Rightarrow> string \<Rightarrow> string \<Rightarrow> string option \<Rightarrow> token_columns \<Rightarrow> pending_credential" where
  "pending_with_columns w i org created_by t =
     \<lparr>pc_id = i, pc_organization_id = org, pc_created_by_id = created_by, pc_tenant_id = tc_tenant_id t,
      pc_client_id = tc_client_id t, pc_scopes = tc_scopes t,
      pc_encrypted_refresh_token = tc_encrypted_refresh_token t, pc_service_user_id = tc_service_user_id t,
      pc_service_user_display_name = tc_service_user_display_name t,
      pc_service_user_principal_name = tc_service_user_principal_name t,
      pc_access_token_expires_at = tc_access_token_expires_at t, pc_refresh_checked_at = tc_refresh_checked_at t,
      pc_expires_at = utcnow w + PENDING_CREDENTIAL_TTL\<rparr>"

definition exchange_authorization_code_to_pending ::
  "remote \<Rightarrow> world \<Rightarrow> settings \<Rightarrow> string \<Rightarrow> string option \<Rightarrow> string \<Rightarrow> string \<Rightarrow> db \<Rightarrow> (exn + pending_credential) \<times> db" where
  "exchange_authorization_code_to_pending rm w st org created_by code redirect_uri db =
     (case exchange_code rm w st code redirect_uri of
        Inl e \<Rightarrow> (Inl e, db)
      | Inr (response, refresh_token) \<Rightarrow>
          (let db' = (case get_pending_delegated_credential org db of None \<Rightarrow> db | Some p \<Rightarrow> delete_pending p db) in
           case apply_successful_token_response rm w st response DEFAULT_DELEGATED_GRAPH_SCOPES
                  (Some refresh_token) blank_columns of
             Inl e \<Rightarrow> (Inl e, db')
           | Inr t \<Rightarrow> (let p = pending_with_columns w (new_id db') org created_by t in
               (Inr p, db'\<lparr>pendings := pendings db' @ [p], next_id := Suc (next_id db')\<rparr>))))"

definition promoted :: "pending_credential \<Rightarrow> graph_delegated_credential \<Rightarrow> graph_delegated_credential" where
  "promoted p c = c\<lparr>gd_tenant_id := pc_tenant_id p, gd_client_id := pc_client_id p, gd_scopes := pc_scopes p,
      gd_encrypted_refresh_token := pc_encrypted_refresh_token p, gd_service_user_id := pc_service_user_id p,
      gd_service_user_display_name := pc_service_user_display_name p,
      gd_service_user_principal_name := pc_service_user_principal_name p,
      gd_last_status := ''ready'', gd_last_error := [],
      gd_access_token_expires_at := pc_access_token_expires_at p, gd_refresh_checked_at := pc_refresh_checked_at p\<rparr>"

definition promote_pending_delegated_credential ::
  "world \<Rightarrow> string \<Rightarrow> string \<Rightarrow> db \<Rightarrow> (exn + graph_delegated_credential) \<times> db" where
  "promote_pending_delegated_credential w org pending_id db =
     (case get_pending_delegated_credential_by_id org pending_id db of
        None \<Rightarrow> (Inl (GraphDelegatedAuthError ''Pending delegated Graph connection was not found.''), db)
      | Some p \<Rightarrow>
          if pending_credential_is_expired w p
          then (Inl (GraphDelegatedAuthError ''Pending delegated Graph connection expired.''), delete_pending p db)
          else (let (c, db') = get_or_create_credential org db in
            (Inr (promoted p c), save_credential (promoted p c) (delete_pending p db'))))"

record delegated_token =
  dt_access_token :: string
  dt_expires_at :: instant
  dt_scopes :: "string list"
  dt_diagnostics :: delegated_diagnostics

definition refresh_failed ::
  "world \<Rightarrow> graph_delegated_credential \<Rightarrow> string \<Rightarrow> string \<Rightarrow> db \<Rightarrow> (exn + delegated_token) \<times> db" where
  "refresh_failed w c status message db =
     (Inl (GraphDelegatedAuthError message), save_credential (mark_credential_status w c status message) db)"

definition refresh_reply ::
  "remote \<Rightarrow> world \<Rightarrow> settings \<Rightarrow> graph_delegated_credential \<Rightarrow> exn + json" where
  "refresh_reply rm w st c =
     (case decrypt_secret rm st (gd_encrypted_refresh_token c) of
        Inl e \<Rightarrow> Inl e
      | Inr refresh_token \<Rightarrow>
          request_token rm w st
            [(''grant_type'', ''refresh_token''), (''client_id'', ms_app_client_id st),
             (''client_secret'', ms_app_client_secret st), (''refresh_token'', refresh_token),
             (''scope'', join '' '' DEFAULT_DELEGATED_GRAPH_SCOPES)])"

definition refresh_delegated_access_token ::
  "remote \<Rightarrow> world \<Rightarrow> settings \<Rightarrow> string \<Rightarrow> db \<Rightarrow> (exn + delegated_token) \<times> db" where
  "refresh_delegated_access_token rm w st org db =
     (case require_app_registration st of
        Some e \<Rightarrow> (Inl e, db)
      | None \<Rightarrow>
          (let missing = (Inl (GraphDelegatedAuthError ''Delegated Graph delivery is not configured''), db) in
           case get_delegated_credential org db of
             None \<Rightarrow> missing
           | Some c \<Rightarrow>
               if gd_encrypted_refresh_token c = [] then missing
               else (case refresh_reply rm w st c of
                 Inl (ExpiredRefreshTokenError _) \<Rightarrow>
                   refresh_failed w c ''expired'' ''Delegated Graph refresh token is expired or revoked.'' db
               | Inl (GraphDelegatedAuthError _) \<Rightarrow>
                   refresh_failed w c ''token_error'' ''Delegated Graph token refresh failed.'' db
               | Inl e \<Rightarrow> (Inl e, db)
               | Inr response \<Rightarrow>
                   (case reply_str response ''access_token'' of Inl e \<Rightarrow> (Inl e, db) | Inr access_token \<Rightarrow>
                    if access_token = []
                    then refresh_failed w c ''token_error''
                      ''Delegated Graph token refresh did not return an access token.'' db
                    else (case reply_str response ''refresh_token'' of Inl e \<Rightarrow> (Inl e, db) | Inr rotated \<Rightarrow>
                      (case apply_successful_token_response rm w st response DEFAULT_DELEGATED_GRAPH_SCOPES
                              (if rotated = [] then None else Some rotated) (credential_columns c) of
                         Inl e \<Rightarrow> (Inl e, db)
                       | Inr t \<Rightarrow>
                           (let c' = with_columns t c in
                            (Inr \<lparr>dt_access_token = access_token,
                               dt_expires_at = (case gd_access_token_expires_at c' of None \<Rightarrow> utcnow w | Some x \<Rightarrow> x),
                               dt_scopes = scope_list (gd_scopes c'),
                               dt_diagnostics = diagnostics_for_credential c'\<rparr>,
                             save_credential c' db))))))))"

section \<open>The handlers of the admin (\<open>routers/admin.py\<close>)\<close>

text \<open>A handler that ends with an exception leaves what it had committed: the rest is rolled back.\<close>

definition oauth_state_error :: exn where
  "oauth_state_error = HTTPException 400 ''Invalid Microsoft Graph OAuth state''"

definition checked_state_payload :: "user \<Rightarrow> int \<Rightarrow> json \<Rightarrow> exn option" where
  "checked_state_payload admin now payload =
     (case payload of
        JDict kvs \<Rightarrow>
          if dict_get kvs ''user_id'' \<noteq> JStr (u_id admin) \<or>
             dict_get kvs ''organization_id'' \<noteq> JStr (u_organization_id admin)
          then Some (HTTPException 400 ''Microsoft Graph OAuth state does not match the current admin'')
          else (case py_int (or_json (dict_get kvs ''expires_at'') (JInt 0)) of
            Inl e \<Rightarrow> Some e
          | Inr expires \<Rightarrow>
              if expires < now then Some (HTTPException 400 ''Microsoft Graph OAuth state expired'') else None)
      | _ \<Rightarrow> Some (PyError ''AttributeError''))"

definition verify_graph_oauth_state :: "remote \<Rightarrow> world \<Rightarrow> settings \<Rightarrow> string \<Rightarrow> user \<Rightarrow> exn option" where
  "verify_graph_oauth_state rm w st state admin =
     (if CHR ''.'' \<notin> set state then Some oauth_state_error
      else (let encoded = takeWhile (\<lambda>c. c \<noteq> CHR ''.'') state;
                signature = tl (dropWhile (\<lambda>c. c \<noteq> CHR ''.'') state)
            in case compare_digest signature (hmac_sha256 w (session_secret st) encoded) of
                 Inl e \<Rightarrow> Some e
               | Inr False \<Rightarrow> Some oauth_state_error
               | Inr True \<Rightarrow>
                   (case b64url_text rm (encoded @ replicate (nat ((- int (length encoded)) mod 4)) (CHR ''='')) of
                      None \<Rightarrow> Some oauth_state_error
                    | Some text \<Rightarrow>
                        (case parse_json w text of
                           Inl None \<Rightarrow> Some oauth_state_error
                         | Inl (Some e) \<Rightarrow> Some e
                         | Inr payload \<Rightarrow> checked_state_payload admin (utcnow w div 1000000) payload))))"

definition graph_delivery_redirect_uri :: "settings \<Rightarrow> string" where
  "graph_delivery_redirect_uri st =
     rstrip_char (CHR ''/'') (app_public_base_url st) @ rstrip_char (CHR ''/'') (api_v1_prefix st) @
     ''/admin/graph-delivery/oauth/callback''"

definition graph_delivery_settings_redirect :: "settings \<Rightarrow> string \<Rightarrow> string" where
  "graph_delivery_settings_redirect st result =
     rstrip_char (CHR ''/'') (frontend_base_url st) @ ''/settings?graph_delivery='' @ quote result"

definition graph_delivery_pending_redirect :: "settings \<Rightarrow> string \<Rightarrow> string" where
  "graph_delivery_pending_redirect st pending_id =
     rstrip_char (CHR ''/'') (frontend_base_url st) @ ''/settings/graph-delivery/confirm?pending_id='' @ quote pending_id"

definition user_audit :: "world \<Rightarrow> settings \<Rightarrow> string \<Rightarrow> user \<Rightarrow> (string \<times> json) list \<Rightarrow> db \<Rightarrow> db" where
  "user_audit w st action admin metadata db =
     record_audit w st action ''user'' (Some (u_id admin)) (Some (u_organization_id admin)) metadata db"

definition start_graph_delivery_oauth :: "settings \<Rightarrow> string \<Rightarrow> exn + string" where
  "start_graph_delivery_oauth st state =
     (case build_authorization_url st (graph_delivery_redirect_uri st) state of
        Inl (GraphDelegatedConfigError message) \<Rightarrow> Inl (HTTPException 400 message)
      | r \<Rightarrow> r)"

text \<open>Returns the address of the redirect.\<close>

definition graph_delivery_oauth_callback ::
  "remote \<Rightarrow> world \<Rightarrow> settings \<Rightarrow> string \<Rightarrow> string \<Rightarrow> string \<Rightarrow> user \<Rightarrow> db \<Rightarrow> (exn + string) \<times> db" where
  "graph_delivery_oauth_callback rm w st code state err admin db =
     (case verify_graph_oauth_state rm w st state admin of
        Some e \<Rightarrow> (Inl e, db)
      | None \<Rightarrow>
          if err \<noteq> [] then (Inr (graph_delivery_settings_redirect st ''error''), db)
          else if strip code = [] then (Inl (HTTPException 400 ''Missing Microsoft Graph authorization code''), db)
          else (case exchange_authorization_code_to_pending rm w st (u_organization_id admin) (Some (u_id admin))
                       code (graph_delivery_redirect_uri st) db of
            (Inl (GraphDelegatedConfigError message), _) \<Rightarrow> (Inl (HTTPException 400 message), db)
          | (Inl (GraphDelegatedAuthError message), _) \<Rightarrow> (Inl (HTTPException 400 message), db)
          | (Inl (ExpiredRefreshTokenError message), _) \<Rightarrow> (Inl (HTTPException 400 message), db)
          | (Inl e, _) \<Rightarrow> (Inl e, db)
          | (Inr p, db') \<Rightarrow>
              (Inr (graph_delivery_pending_redirect st (pc_id p)),
               user_audit w st ''graph_delivery.oauth.connected'' admin
                 [(''credential'', JStr ''delegated_service_user''), (''pending_id'', JStr (pc_id p))] db')))"

definition get_live_graph_delivery_pending ::
  "world \<Rightarrow> string \<Rightarrow> string \<Rightarrow> db \<Rightarrow> (exn + pending_credential) \<times> db" where
  "get_live_graph_delivery_pending w org pending_id db =
     (case get_pending_delegated_credential_by_id org pending_id db of
        None \<Rightarrow> (Inl (HTTPException 404 ''Pending delegated Graph connection was not found.''), db)
      | Some p \<Rightarrow>
          if pending_credential_is_expired w p
          then (Inl (HTTPException 404 ''Pending delegated Graph connection expired.''), delete_pending p db)
          else (Inr p, db))"

definition get_graph_delivery_oauth_pending ::
  "world \<Rightarrow> user \<Rightarrow> string \<Rightarrow> db \<Rightarrow> (exn + delegated_diagnostics) \<times> db" where
  "get_graph_delivery_oauth_pending w admin pending_id db =
     (case get_live_graph_delivery_pending w (u_organization_id admin) pending_id db of
        (Inl e, db') \<Rightarrow> (Inl e, db')
      | (Inr p, db') \<Rightarrow> (Inr (diagnostics_for_pending_credential p), db'))"

text \<open>The answer, the readiness report, is left out: the result is the credential.\<close>

definition confirm_graph_delivery_oauth_pending ::
  "world \<Rightarrow> settings \<Rightarrow> user \<Rightarrow> string \<Rightarrow> db \<Rightarrow> (exn + graph_delegated_credential) \<times> db" where
  "confirm_graph_delivery_oauth_pending w st admin pending_id db =
     (case get_live_graph_delivery_pending w (u_organization_id admin) pending_id db of
        (Inl e, db') \<Rightarrow> (Inl e, db')
      | (Inr _, db') \<Rightarrow>
          (case promote_pending_delegated_credential w (u_organization_id admin) pending_id db' of
             (Inl (GraphDelegatedAuthError message), _) \<Rightarrow> (Inl (HTTPException 404 message), db')
           | (Inl e, _) \<Rightarrow> (Inl e, db')
           | (Inr c, db'') \<Rightarrow>
               (Inr c, user_audit w st ''graph_delivery.oauth.confirmed'' admin
                  [(''credential'', JStr ''delegated_service_user''), (''pending_id'', JStr pending_id),
                   (''service_user_id'', JStr (gd_service_user_id c))] db'')))"

definition cancel_graph_delivery_oauth_pending ::
  "world \<Rightarrow> settings \<Rightarrow> user \<Rightarrow> string \<Rightarrow> db \<Rightarrow> exn option \<times> db" where
  "cancel_graph_delivery_oauth_pending w st admin pending_id db =
     (case get_pending_delegated_credential_by_id (u_organization_id admin) pending_id db of
        None \<Rightarrow> (Some (HTTPException 404 ''Pending delegated Graph connection was not found.''), db)
      | Some p \<Rightarrow>
          (None, user_audit w st ''graph_delivery.oauth.pending_canceled'' admin
             [(''credential'', JStr ''delegated_service_user''), (''pending_id'', JStr pending_id)] (delete_pending p db)))"

definition disconnect_graph_delivery_oauth :: "world \<Rightarrow> settings \<Rightarrow> user \<Rightarrow> db \<Rightarrow> db" where
  "disconnect_graph_delivery_oauth w st admin db =
     user_audit w st ''graph_delivery.oauth.disconnected'' admin [(''credential'', JStr ''delegated_service_user'')]
       (db\<lparr>credentials := delete_rows (\<lambda>c. gd_organization_id c = u_organization_id admin) (credentials db)\<rparr>)"

text \<open>The refresh an admin asks for, with its status and message; the caller commits.\<close>

definition refresh_graph_delivery_token ::
  "remote \<Rightarrow> world \<Rightarrow> settings \<Rightarrow> string \<Rightarrow> db \<Rightarrow> (exn + string \<times> string) \<times> db" where
  "refresh_graph_delivery_token rm w st org db =
     (if \<not> graph_delivery_enabled st
      then (Inr (''skipped'', ''Delegated Graph delivery is disabled by feature policy.''), db)
      else if \<not> graph_lookup_enabled st
      then (Inr (''skipped'', ''Delegated Graph delivery is disabled because Graph lookup is disabled.''), db)
      else if \<not> dg_configured (diagnostics_for_organization org db)
      then (Inr (''skipped'', ''Delegated Graph delivery has no connected service user.''), db)
      else (case refresh_delegated_access_token rm w st org db of
        (Inl (GraphDelegatedConfigError _), db') \<Rightarrow>
          (Inr (''failed'', ''Delegated Graph delivery status refresh failed because app registration settings are incomplete.''), db')
      | (Inl (HTTPException code detail), db') \<Rightarrow>
          if contains ''SETTINGS_ENC_KEY'' detail then (Inr (''failed'', detail), db')
          else (Inl (HTTPException code detail), db)
      | (Inl (GraphDelegatedAuthError _), db') \<Rightarrow>
          (Inr (''failed'', ''Delegated Graph delivery status refresh failed. Reconnect the service user if the connection is expired or revoked.''), db')
      | (Inl e, db') \<Rightarrow> (Inl e, db)
      | (Inr _, db') \<Rightarrow> (Inr (''refreshed'', ''Delegated Graph delivery status was refreshed.''), db')))"

section \<open>Lemmas\<close>

lemma user_audit_tables [simp]:
  "credentials (user_audit w st a u m db) = credentials db" "pendings (user_audit w st a u m db) = pendings db"
  "routes (user_audit w st a u m db) = routes db" "deliveries (user_audit w st a u m db) = deliveries db"
  "reveals (user_audit w st a u m db) = reveals db" "next_id (user_audit w st a u m db) = next_id db + 2"
  by (simp_all add: user_audit_def)

text \<open>Keys are fresh and an organization has at most one credential and one pending credential.\<close>

definition delegated_ok :: "db \<Rightarrow> bool" where
  "delegated_ok db \<longleftrightarrow>
     fresh_ids gd_id (next_id db) (credentials db) \<and> distinct (List.map gd_organization_id (credentials db)) \<and>
     fresh_ids pc_id (next_id db) (pendings db) \<and> distinct (List.map pc_organization_id (pendings db))"

lemma delegated_ok_frame:
  "delegated_ok db \<Longrightarrow> credentials db' = credentials db \<Longrightarrow> pendings db' = pendings db \<Longrightarrow>
   next_id db \<le> next_id db' \<Longrightarrow> delegated_ok db'"
  by (auto simp: delegated_ok_def intro: fresh_ids_mono)

interpretation delegated_rows: table_invariant "\<lambda>db. (credentials db, pendings db)" delegated_ok
  by unfold_locales (auto intro: delegated_ok_frame)

lemma delegated_ok_user_audit [simp, intro]: "delegated_ok db \<Longrightarrow> delegated_ok (user_audit w st a u m db)"
  by (simp add: user_audit_def)

lemma get_delegated_credential_Some:
  "get_delegated_credential org db = Some c \<Longrightarrow> c \<in> set (credentials db) \<and> gd_organization_id c = org"
  by (auto simp: get_delegated_credential_def dest: fetch_Some)

lemma new_credential_keys [simp]:
  "gd_id (new_credential i org) = i" "gd_organization_id (new_credential i org) = org"
  by (simp_all add: new_credential_def)

lemma get_or_create_credential_ok:
  assumes "delegated_ok db" and "get_or_create_credential org db = (c, db')"
  shows "delegated_ok db'" and "c \<in> set (credentials db')" and "gd_organization_id c = org"
    and "pendings db' = pendings db" and "next_id db \<le> next_id db'"
proof -
  have "\<forall>x \<in> set (credentials db). gd_organization_id x \<noteq> org" if "get_delegated_credential org db = None"
    using that by (simp add: get_delegated_credential_def fetch_None)
  then show "delegated_ok db'" "c \<in> set (credentials db')" "gd_organization_id c = org"
    "pendings db' = pendings db" "next_id db \<le> next_id db'"
    using assms get_delegated_credential_Some [of org db]
    by (auto simp: get_or_create_credential_def delegated_ok_def new_id_def Let_def fresh_ids_snoc
        split: option.splits)
qed

lemma save_credential_ok:
  assumes "delegated_ok db" and "c0 \<in> set (credentials db)" and "gd_id c = gd_id c0"
    and "gd_organization_id c = gd_organization_id c0"
  shows "delegated_ok (save_credential c db)"
  using assms by (auto simp: delegated_ok_def save_credential_def intro: fresh_ids_save distinct_column_save)

lemma save_credential_get:
  assumes "delegated_ok db" and "c0 \<in> set (credentials db)" and "gd_id c = gd_id c0"
    and "gd_organization_id c = gd_organization_id c0"
  shows "get_delegated_credential (gd_organization_id c) (save_credential c db) = Some c"
    and "org \<noteq> gd_organization_id c \<Longrightarrow>
      get_delegated_credential org (save_credential c db) = get_delegated_credential org db"
proof -
  have d: "distinct (List.map gd_organization_id (credentials (save_credential c db)))"
    using save_credential_ok [OF assms] by (simp add: delegated_ok_def)
  moreover have "c \<in> set (credentials (save_credential c db))"
    using assms(2,3) by (auto simp: save_credential_def set_save_row)
  ultimately show "get_delegated_credential (gd_organization_id c) (save_credential c db) = Some c"
    unfolding get_delegated_credential_def by (rule fetch_distinct)
  have "x = c0" if "x \<in> set (credentials db)" "gd_id x = gd_id c" for x
    using assms that fresh_ids_inject [of gd_id "next_id db" "credentials db" x c0] by (simp add: delegated_ok_def)
  then show "get_delegated_credential org (save_credential c db) = get_delegated_credential org db"
    if "org \<noteq> gd_organization_id c"
    unfolding get_delegated_credential_def save_credential_def
    using that assms(4) by simp (rule fetch_save_row_other, auto)
qed

lemma delete_pending_ok: "delegated_ok db \<Longrightarrow> delegated_ok (delete_pending p db)"
  by (auto simp: delegated_ok_def delete_pending_def intro: fresh_ids_delete distinct_column_delete)

lemma with_columns_keys [simp]:
  "gd_id (with_columns t c) = gd_id c" "gd_organization_id (with_columns t c) = gd_organization_id c"
  "gd_id (promoted p c) = gd_id c" "gd_organization_id (promoted p c) = gd_organization_id c"
  "gd_id (mark_credential_status w c s m) = gd_id c"
  "gd_organization_id (mark_credential_status w c s m) = gd_organization_id c"
  by (simp_all add: with_columns_def promoted_def mark_credential_status_def)

lemma delete_pending_tables [simp]:
  "credentials (delete_pending p db) = credentials db" "next_id (delete_pending p db) = next_id db"
  by (simp_all add: delete_pending_def)

lemma save_credential_tables [simp]:
  "pendings (save_credential c db) = pendings db" "next_id (save_credential c db) = next_id db"
  by (simp_all add: save_credential_def)

lemma apply_token_error:
  assumes "apply_successful_token_response rm w st response fallback t c = Inl e"
  shows "py_raised e \<or> (\<exists>code detail. e = HTTPException code detail)"
proof -
  have "decode_jwt_claims rm w a = Inl x \<Longrightarrow> py_raised x" for a x
    by (auto simp: decode_jwt_claims_def Let_def dest: parse_json_error split: list.splits option.splits sum.splits)
  moreover have "stored_refresh_token rm st t c = Inl x \<Longrightarrow> \<exists>code detail. x = HTTPException code detail" for x
    by (auto simp: stored_refresh_token_def encrypt_secret_def fernet_source_def split: option.splits sum.splits if_splits)
  ultimately show ?thesis
    using assms
    by (auto simp: apply_successful_token_response_def split: sum.splits
        dest: reply_str_error reply_expires_in_error)
qed

lemma not_auth_error [simp]:
  "reply_str v k \<noteq> Inl (GraphDelegatedAuthError m)"
  "apply_successful_token_response rm w st response fallback t c \<noteq> Inl (GraphDelegatedAuthError m)"
  using reply_str_error [of v k "GraphDelegatedAuthError m"]
    apply_token_error [of rm w st response fallback t c "GraphDelegatedAuthError m"]
  by (auto simp: py_raised_def)

lemma promote_ok:
  assumes "delegated_ok db"
  shows "delegated_ok (snd (promote_pending_delegated_credential w org i db))"
proof -
  have "delegated_ok (save_credential (promoted p c) (delete_pending p db'))"
    if "get_or_create_credential org db = (c, db')" for p c db'
    using get_or_create_credential_ok [OF assms that] by (intro save_credential_ok [of _ c] delete_pending_ok) simp_all
  then show ?thesis
    using assms by (auto simp: promote_pending_delegated_credential_def delete_pending_ok Let_def
        split: option.splits prod.splits)
qed

lemma refresh_failed_ok:
  "delegated_ok db \<Longrightarrow> c \<in> set (credentials db) \<Longrightarrow> delegated_ok (snd (refresh_failed w c s m db))"
  by (auto simp: refresh_failed_def intro: save_credential_ok [of _ c])

lemma refresh_ok:
  assumes "delegated_ok db"
  shows "delegated_ok (snd (refresh_delegated_access_token rm w st org db))"
proof (cases "get_delegated_credential org db")
  case (Some c)
  have c: "c \<in> set (credentials db)" using get_delegated_credential_Some [OF Some] by simp
  then have "delegated_ok (save_credential (with_columns t c) db)" for t
    using assms by (intro save_credential_ok [of _ c]) simp_all
  then show ?thesis
    using assms refresh_failed_ok [OF assms c] Some
    by (auto simp: refresh_delegated_access_token_def Let_def split: option.splits sum.splits exn.splits)
qed (use assms in \<open>auto simp: refresh_delegated_access_token_def Let_def split: option.splits\<close>)

lemma get_pending_Some:
  "get_pending_delegated_credential_by_id org i db = Some p \<Longrightarrow>
   p \<in> set (pendings db) \<and> pc_id p = i \<and> pc_organization_id p = org"
  by (auto simp: get_pending_delegated_credential_by_id_def dest: fetch_Some split: option.splits if_splits)

lemma delete_pending_none:
  "get_pending_delegated_credential_by_id org (pc_id p) (delete_pending p db) = None"
  by (simp add: get_pending_delegated_credential_by_id_def delete_pending_def fetch_delete_all)

lemma pending_with_columns_keys [simp]:
  "pc_id (pending_with_columns w i org by t) = i" "pc_organization_id (pending_with_columns w i org by t) = org"
  by (simp_all add: pending_with_columns_def)

lemma exchange_to_pending_frame:
  "credentials (snd (exchange_authorization_code_to_pending rm w st org by code uri db)) = credentials db"
  by (auto simp: exchange_authorization_code_to_pending_def Let_def split: sum.splits prod.splits option.splits)

lemma pending_org_free:
  "delegated_ok db \<Longrightarrow> p \<in> set (pendings db) \<Longrightarrow> pc_organization_id p = org \<Longrightarrow>
   \<forall>x \<in> set (pendings (delete_pending p db)). pc_organization_id x \<noteq> org"
  using distinct_column_inject [of pc_organization_id "pendings db" _ p]
  by (fastforce simp: delegated_ok_def delete_pending_def)

lemma exchange_to_pending_ok:
  assumes "delegated_ok db"
  shows "delegated_ok (snd (exchange_authorization_code_to_pending rm w st org by code uri db))"
proof -
  define db' where "db' = (case get_pending_delegated_credential org db of None \<Rightarrow> db | Some p \<Rightarrow> delete_pending p db)"
  have ok: "delegated_ok db'" using assms by (auto simp: db'_def delete_pending_ok split: option.splits)
  have free: "\<forall>x \<in> set (pendings db'). pc_organization_id x \<noteq> org"
  proof (cases "get_pending_delegated_credential org db")
    case None
    then have "\<forall>x \<in> set (pendings db). pc_organization_id x \<noteq> org"
      by (simp add: get_pending_delegated_credential_def fetch_None)
    then show ?thesis using None by (simp add: db'_def)
  next
    case (Some p)
    then have "p \<in> set (pendings db)" "pc_organization_id p = org"
      by (auto simp: get_pending_delegated_credential_def dest: fetch_Some)
    then show ?thesis using Some pending_org_free [OF assms] by (simp add: db'_def)
  qed
  have "delegated_ok (db'\<lparr>pendings := pendings db' @ [pending_with_columns w (new_id db') org by t],
      next_id := Suc (next_id db')\<rparr>)" for t
    using ok free by (auto simp: delegated_ok_def new_id_def fresh_ids_snoc)
  then show ?thesis
    using assms ok unfolding exchange_authorization_code_to_pending_def db'_def [symmetric]
    by (simp add: Let_def split: sum.splits prod.splits)
qed

lemma callback_db:
  "snd (graph_delivery_oauth_callback rm w st code state err admin db) = db \<or>
   (\<exists>p m. snd (graph_delivery_oauth_callback rm w st code state err admin db) =
      user_audit w st ''graph_delivery.oauth.connected'' admin m
        (snd (exchange_authorization_code_to_pending rm w st (u_organization_id admin) (Some (u_id admin)) code
                (graph_delivery_redirect_uri st) db)))"
proof (cases "exchange_authorization_code_to_pending rm w st (u_organization_id admin) (Some (u_id admin)) code
    (graph_delivery_redirect_uri st) db")
  case (Pair r db')
  show ?thesis
    unfolding graph_delivery_oauth_callback_def Pair
    by (cases r; cases "projl r") (auto split: option.splits)
qed

lemma confirm_live:
  assumes "get_live_graph_delivery_pending w org i db = (Inr p, db')"
  shows "db' = db" "get_pending_delegated_credential_by_id org i db = Some p" "\<not> pending_credential_is_expired w p"
  using assms by (auto simp: get_live_graph_delivery_pending_def split: option.splits if_splits)

lemma live_db:
  "snd (get_live_graph_delivery_pending w org i db) = db \<or>
   (\<exists>p. snd (get_live_graph_delivery_pending w org i db) = delete_pending p db)"
  by (auto simp: get_live_graph_delivery_pending_def split: option.splits)

lemma get_pending_handler_db:
  "snd (get_graph_delivery_oauth_pending w admin i db) = snd (get_live_graph_delivery_pending w (u_organization_id admin) i db)"
  by (auto simp: get_graph_delivery_oauth_pending_def split: prod.splits sum.splits)

lemma live_ok: "delegated_ok db \<Longrightarrow> delegated_ok (snd (get_live_graph_delivery_pending w org i db))"
  using live_db [of w org i db] by (auto simp: delete_pending_ok)

lemma confirm_ok:
  assumes "delegated_ok db"
  shows "delegated_ok (snd (confirm_graph_delivery_oauth_pending w st admin i db))"
proof (cases "get_live_graph_delivery_pending w (u_organization_id admin) i db")
  case (Pair r db')
  have ok: "delegated_ok db'"
    using live_ok [OF assms, of w "u_organization_id admin" i] Pair by simp
  show ?thesis
  proof (cases r)
    case (Inr p)
    show ?thesis
      using promote_ok [OF ok, of w "u_organization_id admin" i] ok Pair Inr
      by (auto simp: confirm_graph_delivery_oauth_pending_def split: sum.splits exn.splits prod.splits)
  qed (use Pair ok in \<open>simp add: confirm_graph_delivery_oauth_pending_def\<close>)
qed

lemma refresh_token_ok:
  "delegated_ok db \<Longrightarrow> delegated_ok (snd (refresh_graph_delivery_token rm w st org db))"
  using refresh_ok [of db rm w st org]
  by (auto simp: refresh_graph_delivery_token_def split: prod.splits sum.splits exn.splits)

section \<open>Runs\<close>

text \<open>What can happen to the delegated credentials, one committed request after the other.\<close>

inductive delegated_step :: "db \<Rightarrow> db \<Rightarrow> bool" where
  callback: "delegated_step db (snd (graph_delivery_oauth_callback rm w st code state err admin db))"
| view: "delegated_step db (snd (get_graph_delivery_oauth_pending w admin i db))"
| confirm: "delegated_step db (snd (confirm_graph_delivery_oauth_pending w st admin i db))"
| cancel: "delegated_step db (snd (cancel_graph_delivery_oauth_pending w st admin i db))"
| disconnect: "delegated_step db (disconnect_graph_delivery_oauth w st admin db)"
| refresh: "delegated_step db (snd (refresh_graph_delivery_token rm w st org db))"
| deliver: "delegated_step db (snd (refresh_delegated_access_token rm w st org db))"

inductive_cases delegated_stepE: "delegated_step a b"

lemma delegated_step_ok: "delegated_step a b \<Longrightarrow> delegated_ok a \<Longrightarrow> delegated_ok b"
proof (induction rule: delegated_step.induct)
  case (callback db rm w st code state err admin)
  then show ?case
    using callback_db [of rm w st code state err admin db] exchange_to_pending_ok by fastforce
next
  case (disconnect db w st admin)
  then show ?case
    by (auto simp: disconnect_graph_delivery_oauth_def delegated_ok_def intro!: delegated_ok_user_audit
        fresh_ids_delete distinct_column_delete)
qed (auto simp: get_pending_handler_db live_ok confirm_ok refresh_token_ok refresh_ok
      cancel_graph_delivery_oauth_pending_def delete_pending_ok split: option.splits)

section \<open>Properties\<close>

text \<open>Whatever happens to the delegated credentials, in any order, an organization never has two
  of them and never two pending ones, and their keys stay distinct.\<close>

theorem delegated_reachable_ok:
  assumes "delegated_step\<^sup>*\<^sup>* a b" and "delegated_ok a"
  shows "delegated_ok b"
  using assms by (induction rule: rtranclp_induct) (auto intro: delegated_step_ok)

theorem delegated_reachable_ok_witness:
  "delegated_ok (disconnect_graph_delivery_oauth sample_world default_settings sample_admin
     (snd (cancel_graph_delivery_oauth_pending sample_world default_settings sample_admin ''0'' empty_db)))"
proof (rule delegated_reachable_ok)
  show "delegated_step\<^sup>*\<^sup>* empty_db (disconnect_graph_delivery_oauth sample_world default_settings sample_admin
     (snd (cancel_graph_delivery_oauth_pending sample_world default_settings sample_admin ''0'' empty_db)))"
    by (meson delegated_step.cancel delegated_step.disconnect rtranclp.rtrancl_into_rtrancl rtranclp.rtrancl_refl)
  show "delegated_ok empty_db" by (simp add: delegated_ok_def empty_db_def)
qed

text \<open>Connecting a service user never changes the credential deliveries use: the OAuth callback
  leaves the table of credentials as it is, whatever Microsoft answers.\<close>

theorem oauth_callback_never_activates:
  "credentials (snd (graph_delivery_oauth_callback rm w st code state err admin db)) = credentials db"
  using callback_db [of rm w st code state err admin db] exchange_to_pending_frame by auto

text \<open>C39: the credential an admin confirms is the one that was pending, unexpired, for the admin's
  organization; it is then the one deliveries use, it cannot be confirmed again, and the
  credentials of other organizations are untouched.\<close>

theorem confirm_promotes_once:
  assumes "delegated_ok db" and "confirm_graph_delivery_oauth_pending w st admin i db = (Inr c, db')"
  shows "\<exists>p. p \<in> set (pendings db) \<and> pc_id p = i \<and> pc_organization_id p = u_organization_id admin \<and>
      utcnow w < pc_expires_at p \<and> gd_encrypted_refresh_token c = pc_encrypted_refresh_token p \<and>
      get_delegated_credential (u_organization_id admin) db' = Some c \<and>
      (case fst (confirm_graph_delivery_oauth_pending w' st' admin i db') of Inl _ \<Rightarrow> True | Inr _ \<Rightarrow> False) \<and>
      (if other = u_organization_id admin then True
       else get_delegated_credential other db' = get_delegated_credential other db)"
proof -
  let ?org = "u_organization_id admin"
  obtain p where live: "get_live_graph_delivery_pending w ?org i db = (Inr p, db)"
    using assms(2) confirm_live(1) [of w ?org i db]
    by (auto simp: confirm_graph_delivery_oauth_pending_def split: prod.splits sum.splits)
  have p: "get_pending_delegated_credential_by_id ?org i db = Some p" "\<not> pending_credential_is_expired w p"
    using confirm_live [OF live] by simp_all
  obtain c0 db1 where g: "get_or_create_credential ?org db = (c0, db1)" by fastforce
  have c: "c = promoted p c0" and d: "\<exists>m. db' = user_audit w st ''graph_delivery.oauth.confirmed'' admin m
      (save_credential (promoted p c0) (delete_pending p db1))"
    using assms(2) live p g
    by (auto simp: confirm_graph_delivery_oauth_pending_def promote_pending_delegated_credential_def)
  note ok1 = get_or_create_credential_ok [OF assms(1) g]
  have keys: "c0 \<in> set (credentials (delete_pending p db1))" "gd_organization_id (promoted p c0) = ?org"
    using ok1(2,3) by simp_all
  note got = save_credential_get [OF delete_pending_ok [OF ok1(1)] keys(1), of "promoted p c0"]
  have same: "get_delegated_credential x (delete_pending p db1) = get_delegated_credential x db" if "x \<noteq> ?org" for x
    using g that by (auto simp: get_delegated_credential_def get_or_create_credential_def Let_def split: option.splits)
  have audit: "get_delegated_credential x db' =
      get_delegated_credential x (save_credential (promoted p c0) (delete_pending p db1))" for x
    using d by (auto simp: get_delegated_credential_def)
  have "get_pending_delegated_credential_by_id ?org i db' = None"
    using d delete_pending_none [of ?org p db1] get_pending_Some [OF p(1)]
    by (auto simp: get_pending_delegated_credential_by_id_def)
  then have "fst (confirm_graph_delivery_oauth_pending w' st' admin i db') =
      Inl (HTTPException 404 ''Pending delegated Graph connection was not found.'')"
    by (simp add: confirm_graph_delivery_oauth_pending_def get_live_graph_delivery_pending_def)
  then show ?thesis
    using get_pending_Some [OF p(1)] p(2) c got keys same audit
    by (intro exI [of _ p]) (simp add: pending_credential_is_expired_def promoted_def)
qed

definition sample_pending :: pending_credential where
  "sample_pending = pending_with_columns sample_world ''0'' ''o1'' (Some ''u1'')
     (blank_columns\<lparr>tc_encrypted_refresh_token := ''enc''\<rparr>)"

definition sample_pending_db :: db where
  "sample_pending_db = empty_db\<lparr>pendings := [sample_pending], next_id := 1\<rparr>"

lemma sample_pending_ok: "delegated_ok sample_pending_db"
  by (simp add: delegated_ok_def sample_pending_db_def sample_pending_def empty_db_def fresh_ids_def
      str_nat.simps digit_char_def char_of_digits)

lemma sample_confirm:
  "confirm_graph_delivery_oauth_pending sample_world default_settings sample_admin ''0'' sample_pending_db =
    (Inr (promoted sample_pending (new_credential ''1'' ''o1'')),
     snd (confirm_graph_delivery_oauth_pending sample_world default_settings sample_admin ''0'' sample_pending_db))"
  by (simp add: confirm_graph_delivery_oauth_pending_def get_live_graph_delivery_pending_def
      get_pending_delegated_credential_by_id_def promote_pending_delegated_credential_def
      pending_credential_is_expired_def sample_pending_db_def sample_pending_def pending_with_columns_def
      sample_admin_def sample_world_def PENDING_CREDENTIAL_TTL_def minutes_def
      get_or_create_credential_def get_delegated_credential_def empty_db_def new_id_def str_nat.simps
      digit_char_def char_of_digits Let_def)

theorem confirm_promotes_once_witness:
  "\<exists>p. p \<in> set (pendings sample_pending_db) \<and> pc_id p = ''0'' \<and>
      pc_organization_id p = u_organization_id sample_admin \<and>
      utcnow sample_world < pc_expires_at p \<and>
      gd_encrypted_refresh_token (promoted sample_pending (new_credential ''1'' ''o1'')) = pc_encrypted_refresh_token p \<and>
      get_delegated_credential (u_organization_id sample_admin)
        (snd (confirm_graph_delivery_oauth_pending sample_world default_settings sample_admin ''0'' sample_pending_db)) =
        Some (promoted sample_pending (new_credential ''1'' ''o1'')) \<and>
      (case fst (confirm_graph_delivery_oauth_pending sample_world default_settings sample_admin ''0''
          (snd (confirm_graph_delivery_oauth_pending sample_world default_settings sample_admin ''0'' sample_pending_db))) of
         Inl _ \<Rightarrow> True | Inr _ \<Rightarrow> False) \<and>
      (if ''o2'' = u_organization_id sample_admin then True
       else get_delegated_credential ''o2''
          (snd (confirm_graph_delivery_oauth_pending sample_world default_settings sample_admin ''0'' sample_pending_db)) =
         get_delegated_credential ''o2'' sample_pending_db)"
  by (rule confirm_promotes_once [OF sample_pending_ok sample_confirm])

text \<open>A refresh records its outcome on the credential and never costs the refresh token: after
  a success the credential is ready; after a refusal it says expired or token error with the
  message of the exception, all else unchanged; any other exception leaves the database as it
  was.\<close>

theorem refresh_records_outcome:
  assumes "delegated_ok db" and "get_delegated_credential org db = Some c"
    and "gd_encrypted_refresh_token c \<noteq> []" and "require_app_registration st = None"
    and "refresh_delegated_access_token rm w st org db = (r, db')"
  shows "case r of
      Inr token \<Rightarrow> (\<exists>c'. get_delegated_credential org db' = Some c' \<and> gd_last_status c' = ''ready'' \<and>
        gd_last_error c' = [] \<and> dt_diagnostics token = diagnostics_for_credential c' \<and> dt_access_token token \<noteq> [])
    | Inl (GraphDelegatedAuthError message) \<Rightarrow>
        (\<exists>status \<in> {''expired'', ''token_error''}.
          get_delegated_credential org db' = Some (mark_credential_status w c status message))
    | Inl _ \<Rightarrow> db' = db"
proof -
  have c: "c \<in> set (credentials db)" "gd_organization_id c = org"
    using get_delegated_credential_Some [OF assms(2)] by simp_all
  have saved: "get_delegated_credential org (save_credential x db) = Some x"
    if "gd_id x = gd_id c" "gd_organization_id x = gd_organization_id c" for x
    using save_credential_get(1) [OF assms(1) c(1) that] that c(2) by simp
  show ?thesis
    using assms(2-5) saved
    by (auto simp: refresh_delegated_access_token_def refresh_failed_def Let_def with_columns_def
        split: sum.splits exn.splits if_splits)
qed

definition sample_credential :: graph_delegated_credential where
  "sample_credential = promoted sample_pending (new_credential ''1'' ''o1'')"

definition sample_credential_db :: db where
  "sample_credential_db = empty_db\<lparr>credentials := [sample_credential], next_id := 2\<rparr>"

lemma sample_credential_facts:
  "delegated_ok sample_credential_db" "get_delegated_credential ''o1'' sample_credential_db = Some sample_credential"
  "gd_encrypted_refresh_token sample_credential = ''enc''"
  by (simp_all add: delegated_ok_def sample_credential_db_def sample_credential_def empty_db_def fresh_ids_def
      get_delegated_credential_def promoted_def sample_pending_def pending_with_columns_def)
    (rule exI [of _ 1], simp add: str_nat.simps digit_char_def char_of_digits)

definition sample_refresh :: "(exn + delegated_token) \<times> db" where
  "sample_refresh = refresh_delegated_access_token (sample_remote (\<lambda>_ _. HttpRequestError ''URLError'' ''refused''))
     sample_world (sample_registered\<lparr>settings_enc_key := ''k''\<rparr>) ''o1'' sample_credential_db"

theorem refresh_records_outcome_witness:
  "case fst sample_refresh of
      Inr token \<Rightarrow> (\<exists>c'. get_delegated_credential ''o1'' (snd sample_refresh) = Some c' \<and> gd_last_status c' = ''ready'' \<and>
        gd_last_error c' = [] \<and> dt_diagnostics token = diagnostics_for_credential c' \<and> dt_access_token token \<noteq> [])
    | Inl (GraphDelegatedAuthError message) \<Rightarrow>
        (\<exists>status \<in> {''expired'', ''token_error''}.
          get_delegated_credential ''o1'' (snd sample_refresh) =
            Some (mark_credential_status sample_world sample_credential status message))
    | Inl _ \<Rightarrow> snd sample_refresh = sample_credential_db"
  by (rule refresh_records_outcome [OF sample_credential_facts(1,2)])
    (simp_all add: sample_credential_facts(3) sample_refresh_def require_app_registration_def missing_registration_def
      sample_registered_def default_settings_def)

end
