(* ===== verification/Graph_Targets.thy ===== *)
theory Graph_Targets
  imports Bot_Delivery
begin

text \<open>
  \<open>services/graph_targets.py\<close>: reading the directory through Microsoft Graph with the token of
  the app itself. The token is kept in a manager that lives as long as the process, as for the
  Bot Framework; both managers keep the contract of a locale, \<open>token_cache\<close>. Listings are read
  page by page, at most \<open>MAX_GRAPH_PAGINATION_PAGES\<close> of them.
\<close>

section \<open>Tokens\<close>

record graph_token_manager =
  gm_settings :: settings
  gm_access_token :: "string option"
  gm_expires_at :: "instant option"

definition graph_refresh_window :: duration where
  "graph_refresh_window = seconds 60"

definition fetch_graph_token :: "remote \<Rightarrow> world \<Rightarrow> settings \<Rightarrow> exn + (string \<times> int)" where
  "fetch_graph_token rm w st =
     (if missing_registration st \<noteq> []
      then Inl (GraphConfigError (''Missing Microsoft Graph app-only credentials: '' @ join '', '' (missing_registration st)))
      else (let failed = Inl (GraphRequestError ''Failed to fetch Microsoft Graph access token'') in
        case http rm ''POST'' (token_url st) form_header
               (urlencode [(''grant_type'', ''client_credentials''), (''client_id'', ms_app_client_id st),
                  (''client_secret'', ms_app_client_secret st), (''scope'', graph_scope st)]) of
          HttpStatusError _ _ \<Rightarrow> failed
        | HttpRequestError _ _ \<Rightarrow> failed
        | HttpResponse _ text \<Rightarrow>
            (case parse_json w text of
               Inl None \<Rightarrow> failed
             | Inl (Some e) \<Rightarrow> Inl e
             | Inr body \<Rightarrow>
                 (case reply_str body ''access_token'' of
                    Inl e \<Rightarrow> Inl e
                  | Inr token \<Rightarrow>
                      (case reply_expires_in body of Inl e \<Rightarrow> Inl e | Inr n \<Rightarrow> Inr (token, n))))))"

definition graph_get_token :: "remote \<Rightarrow> world \<Rightarrow> graph_token_manager \<Rightarrow> (exn + string) \<times> graph_token_manager" where
  "graph_get_token rm w tm =
     (let refresh =
        (case fetch_graph_token rm w (gm_settings tm) of
           Inl e \<Rightarrow> (Inl e, tm)
         | Inr (token, expires_in) \<Rightarrow>
             if token = []
             then (Inl (GraphRequestError ''Microsoft Graph token response did not include an access token''), tm)
             else (Inr token, tm\<lparr>gm_access_token := Some token,
                     gm_expires_at := Some (utcnow w + seconds (max expires_in 1))\<rparr>))
      in case (gm_access_token tm, gm_expires_at tm) of
           (Some t, Some expires) \<Rightarrow>
             if t \<noteq> [] \<and> graph_refresh_window < expires - utcnow w then (Inr t, tm) else refresh
         | _ \<Rightarrow> refresh)"

type_synonym graph_tokens = "graph_token_manager option"

definition get_graph_token_manager :: "settings \<Rightarrow> graph_tokens \<Rightarrow> graph_token_manager" where
  "get_graph_token_manager st current =
     (case current of
        Some tm \<Rightarrow> tm
      | None \<Rightarrow> \<lparr>gm_settings = st, gm_access_token = None, gm_expires_at = None\<rparr>)"

definition reset_graph_token_manager :: "graph_tokens \<Rightarrow> graph_tokens" where
  "reset_graph_token_manager current = None"

section \<open>Requests\<close>

definition graph_base :: string where
  "graph_base = ''https://graph.microsoft.com/v1.0''"

definition graph_get_url :: "remote \<Rightarrow> world \<Rightarrow> string \<Rightarrow> string \<Rightarrow> exn + json" where
  "graph_get_url rm w url token =
     (case http rm ''GET'' url [(''Authorization'', ''Bearer '' @ token), (''Accept'', ''application/json'')] [] of
        HttpResponse _ text \<Rightarrow>
          (case parse_json w text of
             Inl None \<Rightarrow> Inl (GraphRequestError ''Microsoft Graph request failed'')
           | Inl (Some e) \<Rightarrow> Inl e
           | Inr body \<Rightarrow> Inr body)
      | HttpStatusError code text \<Rightarrow>
          Inl (GraphRequestError (''Microsoft Graph request failed with HTTP '' @ str_int code @ '': '' @ clip 500 text))
      | HttpRequestError _ _ \<Rightarrow> Inl (GraphRequestError ''Microsoft Graph request failed''))"

text \<open>A request first asks the manager for a token.\<close>

definition with_graph_token ::
  "remote \<Rightarrow> world \<Rightarrow> settings \<Rightarrow> (string \<Rightarrow> exn + 'a) \<Rightarrow> graph_tokens \<Rightarrow> (exn + 'a) \<times> graph_tokens" where
  "with_graph_token rm w st f tokens =
     (case graph_get_token rm w (get_graph_token_manager st tokens) of
        (Inl e, tm) \<Rightarrow> (Inl e, Some tm)
      | (Inr token, tm) \<Rightarrow> (f token, Some tm))"

definition graph_get ::
  "remote \<Rightarrow> world \<Rightarrow> settings \<Rightarrow> string \<Rightarrow> (string \<times> string) list \<Rightarrow> graph_tokens \<Rightarrow> (exn + json) \<times> graph_tokens" where
  "graph_get rm w st path params =
     with_graph_token rm w st (graph_get_url rm w (graph_base @ path @ ''?'' @ urlencode params))"

definition graph_get_text ::
  "remote \<Rightarrow> world \<Rightarrow> settings \<Rightarrow> string \<Rightarrow> (string \<times> string) list \<Rightarrow> (string \<times> string) list \<Rightarrow> graph_tokens \<Rightarrow>
   (exn + string) \<times> graph_tokens" where
  "graph_get_text rm w st path params headers =
     with_graph_token rm w st (\<lambda>token.
       let query = urlencode params in
       case http rm ''GET'' (graph_base @ path @ (if query \<noteq> [] then ''?'' @ query else []))
              ([(''Authorization'', ''Bearer '' @ token), (''Accept'', ''text/plain'')] @ headers) [] of
         HttpResponse _ text \<Rightarrow> Inr text
       | HttpStatusError code text \<Rightarrow>
           Inl (GraphRequestError (''Microsoft Graph request failed with HTTP '' @ str_int code @ '': '' @ clip 500 text))
       | HttpRequestError _ _ \<Rightarrow> Inl (GraphRequestError ''Microsoft Graph request failed''))"

section \<open>Values\<close>

text \<open>\<open>for x in value\<close>: the members of a list, the characters of a text, the keys of an object.\<close>

definition iterate :: "json \<Rightarrow> exn + json list" where
  "iterate v =
     (case v of
        JList xs \<Rightarrow> Inr xs
      | JStr s \<Rightarrow> Inr (List.map (\<lambda>c. JStr [c]) s)
      | JDict kvs \<Rightarrow> Inr (List.map (\<lambda>(k, _). JStr k) kvs)
      | _ \<Rightarrow> Inl (PyError ''TypeError''))"

text \<open>\<open>str(d.get(k1) or d.get(k2) or ... or fallback).strip()\<close>\<close>

definition attr_text :: "json \<Rightarrow> string list \<Rightarrow> string \<Rightarrow> exn + string" where
  "attr_text d keys fallback =
     (case d of
        JDict kvs \<Rightarrow> Inr (strip (py_str (foldr (\<lambda>k v. or_json (dict_get kvs k) v) keys (JStr fallback))))
      | _ \<Rightarrow> Inl (PyError ''AttributeError''))"

text \<open>\<open>data.get("value", [])\<close>, iterated\<close>

definition value_items :: "json \<Rightarrow> exn + json list" where
  "value_items data =
     (case data of
        JDict kvs \<Rightarrow> iterate (case map_of kvs ''value'' of None \<Rightarrow> JList [] | Some v \<Rightarrow> v)
      | _ \<Rightarrow> Inl (PyError ''AttributeError''))"

text \<open>A loop over items that may raise: the first exception ends it.\<close>

fun each :: "('a \<Rightarrow> exn + 'b list) \<Rightarrow> 'a list \<Rightarrow> exn + 'b list" where
  "each f [] = Inr []"
| "each f (x # xs) =
     (case f x of Inl e \<Rightarrow> Inl e | Inr ys \<Rightarrow> (case each f xs of Inl e \<Rightarrow> Inl e | Inr zs \<Rightarrow> Inr (ys @ zs)))"

definition bind_sum :: "exn + 'a \<Rightarrow> ('a \<Rightarrow> exn + 'b) \<Rightarrow> exn + 'b" where
  "bind_sum r f = (case r of Inl e \<Rightarrow> Inl e | Inr x \<Rightarrow> f x)"

section \<open>Pages\<close>

definition MAX_GRAPH_PAGINATION_PAGES :: nat where
  "MAX_GRAPH_PAGINATION_PAGES = 25"

text \<open>
  The generator with the loop that consumes it: \<open>step\<close> is the body of that loop, and tells
  whether it returns. A page is asked for only when the one before it is used up.
\<close>

fun walk_pages ::
  "(string \<Rightarrow> exn + json) \<Rightarrow> (json \<Rightarrow> 'a \<Rightarrow> exn + 'a \<times> bool) \<Rightarrow> nat \<Rightarrow> string \<Rightarrow> 'a \<Rightarrow> exn + 'a" where
  "walk_pages get step 0 url acc =
     (if url = [] then Inr acc
      else Inl (GraphRequestError ''Microsoft Graph pagination exceeded the safety limit''))"
| "walk_pages get step (Suc n) url acc =
     (if url = [] then Inr acc
      else bind_sum (get url) (\<lambda>data. bind_sum (step data acc) (\<lambda>(acc, stop).
        if stop then Inr acc
        else bind_sum (reply_str data ''@odata.nextLink'') (\<lambda>next_url. walk_pages get step n next_url acc))))"

definition iter_graph_pages ::
  "remote \<Rightarrow> world \<Rightarrow> settings \<Rightarrow> string \<Rightarrow> (string \<times> string) list \<Rightarrow> (json \<Rightarrow> 'a \<Rightarrow> exn + 'a \<times> bool) \<Rightarrow> 'a \<Rightarrow> graph_tokens \<Rightarrow>
   (exn + 'a) \<times> graph_tokens" where
  "iter_graph_pages rm w st path params step acc =
     with_graph_token rm w st (\<lambda>token.
       walk_pages (\<lambda>url. graph_get_url rm w url token) step MAX_GRAPH_PAGINATION_PAGES
         (graph_base @ path @ ''?'' @ urlencode params) acc)"

definition graph_get_pages ::
  "remote \<Rightarrow> world \<Rightarrow> settings \<Rightarrow> string \<Rightarrow> (string \<times> string) list \<Rightarrow> graph_tokens \<Rightarrow>
   (exn + json list) \<times> graph_tokens" where
  "graph_get_pages rm w st path params =
     iter_graph_pages rm w st path params (\<lambda>data acc. Inr (acc @ [data], False)) []"

section \<open>Targets\<close>

record graph_target =
  gt_kind :: string
  gt_id :: string
  gt_display_name :: string
  gt_subtitle :: string
  gt_team_id :: "string option"
  gt_team_name :: "string option"
  gt_channel_id :: "string option"
  gt_mail :: string
  gt_security_enabled :: "bool option"
  gt_group_types :: "string list"

definition graph_target_of :: "string \<Rightarrow> string \<Rightarrow> string \<Rightarrow> string \<Rightarrow> graph_target" where
  "graph_target_of kind i display_name subtitle =
     \<lparr>gt_kind = kind, gt_id = i, gt_display_name = display_name, gt_subtitle = subtitle, gt_team_id = None,
      gt_team_name = None, gt_channel_id = None, gt_mail = [], gt_security_enabled = None, gt_group_types = []\<rparr>"

text \<open>A lookup by id: the name of the object, its id, and its subtitle; no name, no target.\<close>

definition named_target ::
  "string \<Rightarrow> string list \<Rightarrow> string list \<Rightarrow> string \<Rightarrow> json \<Rightarrow> exn + graph_target option" where
  "named_target kind name_keys subtitle_keys i data =
     bind_sum (attr_text data name_keys []) (\<lambda>display_name.
     bind_sum (attr_text data [''id''] i) (\<lambda>resolved_id.
       if display_name = [] then Inr None
       else bind_sum (attr_text data subtitle_keys []) (\<lambda>subtitle.
         Inr (Some (graph_target_of kind resolved_id display_name subtitle)))))"

definition lookup_target ::
  "remote \<Rightarrow> world \<Rightarrow> settings \<Rightarrow> string \<Rightarrow> string \<Rightarrow> (json \<Rightarrow> exn + 'a) \<Rightarrow> graph_tokens \<Rightarrow> (exn + 'a) \<times> graph_tokens" where
  "lookup_target rm w st path select f tokens =
     (case graph_get rm w st path [(''$select'', select)] tokens of (r, tokens) \<Rightarrow> (bind_sum r f, tokens))"

definition get_user_target ::
  "remote \<Rightarrow> world \<Rightarrow> settings \<Rightarrow> string \<Rightarrow> graph_tokens \<Rightarrow> (exn + graph_target option) \<times> graph_tokens" where
  "get_user_target rm w st user_id tokens =
     (let user_id = strip user_id in
      if user_id = [] then (Inr None, tokens)
      else lookup_target rm w st (''/users/'' @ quote user_id) ''id,displayName,userPrincipalName,mail''
        (named_target ''user'' [''displayName'', ''userPrincipalName''] [''mail'', ''userPrincipalName''] user_id) tokens)"

definition get_team_target ::
  "remote \<Rightarrow> world \<Rightarrow> settings \<Rightarrow> string \<Rightarrow> graph_tokens \<Rightarrow> (exn + graph_target option) \<times> graph_tokens" where
  "get_team_target rm w st team_id tokens =
     (let team_id = strip team_id in
      if team_id = [] then (Inr None, tokens)
      else lookup_target rm w st (''/teams/'' @ quote team_id) ''id,displayName,description''
        (\<lambda>data. bind_sum (named_target ''team'' [''displayName''] [''description'', ''mailNickname''] team_id data)
          (\<lambda>t. Inr (map_option (\<lambda>t. t\<lparr>gt_team_id := Some (gt_id t), gt_team_name := Some (gt_display_name t)\<rparr>) t))) tokens)"

definition get_channel_target ::
  "remote \<Rightarrow> world \<Rightarrow> settings \<Rightarrow> string \<Rightarrow> string \<Rightarrow> graph_tokens \<Rightarrow> (exn + graph_target option) \<times> graph_tokens" where
  "get_channel_target rm w st team_id channel_id tokens =
     (let team_id = strip team_id; channel_id = strip channel_id in
      if team_id = [] \<or> channel_id = [] then (Inr None, tokens)
      else lookup_target rm w st (''/teams/'' @ quote team_id @ ''/channels/'' @ quote channel_id)
        ''id,displayName,description,membershipType''
        (\<lambda>data. bind_sum (named_target ''channel'' [''displayName''] [''description'', ''membershipType''] channel_id data)
          (\<lambda>t. Inr (map_option (\<lambda>t. t\<lparr>gt_team_id := Some team_id, gt_channel_id := Some (gt_id t)\<rparr>) t))) tokens)"

section \<open>Searches\<close>

definition odata_string :: "string \<Rightarrow> string" where
  "odata_string value = concat (List.map (\<lambda>c. if c = CHR 0x27 then [CHR 0x27, CHR 0x27] else [c]) value)"

definition starts_filter :: "string list \<Rightarrow> string \<Rightarrow> string" where
  "starts_filter columns query =
     join '' or '' (List.map (\<lambda>c. ''startswith('' @ c @ '','' @ [CHR 0x27] @ odata_string query @ [CHR 0x27] @ '')'') columns)"

text \<open>The targets of a listing: an entry without a name or an id is left out.\<close>

definition listed_target ::
  "string \<Rightarrow> string list \<Rightarrow> string list \<Rightarrow> json \<Rightarrow> exn + graph_target list" where
  "listed_target kind name_keys subtitle_keys entry =
     bind_sum (attr_text entry name_keys []) (\<lambda>display_name.
     bind_sum (attr_text entry [''id''] []) (\<lambda>i.
       if display_name = [] \<or> i = [] then Inr []
       else bind_sum (attr_text entry subtitle_keys []) (\<lambda>subtitle.
         Inr [graph_target_of kind i display_name subtitle])))"

definition search_listing ::
  "remote \<Rightarrow> world \<Rightarrow> settings \<Rightarrow> string \<Rightarrow> string \<Rightarrow> string list \<Rightarrow> string \<Rightarrow> int \<Rightarrow> (json \<Rightarrow> exn + graph_target list) \<Rightarrow>
   graph_tokens \<Rightarrow> (exn + graph_target list) \<times> graph_tokens" where
  "search_listing rm w st path select columns query limit f tokens =
     (case graph_get rm w st path [(''$top'', str_int limit), (''$select'', select), (''$filter'', starts_filter columns query)]
             tokens of
        (r, tokens) \<Rightarrow> (bind_sum r (\<lambda>data. bind_sum (value_items data) (each f)), tokens))"

definition search_users ::
  "remote \<Rightarrow> world \<Rightarrow> settings \<Rightarrow> string \<Rightarrow> int \<Rightarrow> graph_tokens \<Rightarrow> (exn + graph_target list) \<times> graph_tokens" where
  "search_users rm w st query limit =
     search_listing rm w st ''/users'' ''id,displayName,userPrincipalName,mail''
       [''displayName'', ''mail'', ''userPrincipalName''] query limit
       (listed_target ''user'' [''displayName'', ''userPrincipalName''] [''mail'', ''userPrincipalName''])"

definition search_teams ::
  "remote \<Rightarrow> world \<Rightarrow> settings \<Rightarrow> string \<Rightarrow> int \<Rightarrow> graph_tokens \<Rightarrow> (exn + graph_target list) \<times> graph_tokens" where
  "search_teams rm w st query limit =
     search_listing rm w st ''/teams'' ''id,displayName,description'' [''displayName''] query limit
       (\<lambda>entry. bind_sum (listed_target ''team'' [''displayName''] [''description'', ''mailNickname''] entry) (\<lambda>ts.
          Inr (List.map (\<lambda>t. t\<lparr>gt_team_id := Some (gt_id t), gt_team_name := Some (gt_display_name t)\<rparr>) ts)))"

text \<open>\<open>group.get("groupTypes", [])\<close>, each as stripped text; empty ones are dropped.\<close>

definition group_types_of :: "json \<Rightarrow> exn + string list" where
  "group_types_of entry =
     (case entry of
        JDict kvs \<Rightarrow> bind_sum (iterate (case map_of kvs ''groupTypes'' of None \<Rightarrow> JList [] | Some v \<Rightarrow> v))
          (\<lambda>vs. Inr (List.filter (\<lambda>t. t \<noteq> []) (List.map (\<lambda>v. strip (py_str v)) vs)))
      | _ \<Rightarrow> Inl (PyError ''AttributeError''))"

definition search_group :: "json \<Rightarrow> exn + graph_target list" where
  "search_group entry =
     bind_sum (attr_text entry [''displayName'', ''mailNickname''] []) (\<lambda>display_name.
     bind_sum (attr_text entry [''id''] []) (\<lambda>i.
       if display_name = [] \<or> i = [] then Inr []
       else bind_sum (group_types_of entry) (\<lambda>types.
         bind_sum (attr_text entry [''mail''] []) (\<lambda>mail.
         bind_sum (attr_text entry [''mailNickname''] []) (\<lambda>nickname.
         bind_sum (get_attr entry ''securityEnabled'') (\<lambda>security.
           Inr [(graph_target_of ''group'' i display_name
               (join ('' '' @ [CHR 0xB7] @ '' '')
                 ((if mail \<noteq> [] then [mail] else if nickname \<noteq> [] then [nickname] else []) @
                  [if ''Unified'' \<in> set types then ''Microsoft 365 group'' else ''Security group''])))
             \<lparr>gt_mail := mail, gt_security_enabled := Some (truthy security), gt_group_types := types\<rparr>]))))))"

definition search_groups ::
  "remote \<Rightarrow> world \<Rightarrow> settings \<Rightarrow> string \<Rightarrow> int \<Rightarrow> graph_tokens \<Rightarrow> (exn + graph_target list) \<times> graph_tokens" where
  "search_groups rm w st query limit =
     search_listing rm w st ''/groups'' ''id,displayName,mail,mailNickname,securityEnabled,groupTypes''
       [''displayName'', ''mail'', ''mailNickname''] query limit search_group"

definition search_targets ::
  "remote \<Rightarrow> world \<Rightarrow> settings \<Rightarrow> string \<Rightarrow> string \<Rightarrow> int \<Rightarrow> graph_tokens \<Rightarrow> (exn + graph_target list) \<times> graph_tokens" where
  "search_targets rm w st kind query limit tokens =
     (let q = strip query in
      if length q < 2 then (Inr [], tokens)
      else if kind = ''user'' then search_users rm w st q limit tokens
      else if kind = ''group'' then search_groups rm w st q limit tokens
      else search_teams rm w st q limit tokens)"

text \<open>The loop of \<open>list_team_channels\<close> stops with the entry that fills the list.\<close>

fun take_channels :: "string \<Rightarrow> string \<Rightarrow> int \<Rightarrow> json list \<Rightarrow> graph_target list \<Rightarrow> exn + graph_target list" where
  "take_channels team_id needle limit [] found = Inr found"
| "take_channels team_id needle limit (channel # rest) found =
     bind_sum (attr_text channel [''displayName''] []) (\<lambda>display_name.
       if display_name = [] then take_channels team_id needle limit rest found
       else bind_sum (reply_str channel ''description'') (\<lambda>description.
         if needle \<noteq> [] \<and> \<not> contains needle (lower display_name) \<and> \<not> contains needle (lower description)
         then take_channels team_id needle limit rest found
         else bind_sum (attr_text channel [''id''] []) (\<lambda>i.
           bind_sum (attr_text channel [''description'', ''membershipType''] []) (\<lambda>subtitle.
             let found = found @ [(graph_target_of ''channel'' i display_name subtitle)
                   \<lparr>gt_team_id := Some team_id, gt_channel_id := Some i\<rparr>]
             in if limit \<le> int (length found) then Inr found
                else take_channels team_id needle limit rest found))))"

definition list_team_channels ::
  "remote \<Rightarrow> world \<Rightarrow> settings \<Rightarrow> string \<Rightarrow> string \<Rightarrow> int \<Rightarrow> graph_tokens \<Rightarrow> (exn + graph_target list) \<times> graph_tokens" where
  "list_team_channels rm w st team_id query limit tokens =
     (let team_id = strip team_id in
      if team_id = [] then (Inr [], tokens)
      else (case graph_get rm w st (''/teams/'' @ quote team_id @ ''/channels'')
                   [(''$select'', ''id,displayName,description,membershipType'')] tokens of
        (r, tokens) \<Rightarrow>
          (bind_sum r (\<lambda>data. bind_sum (value_items data) (\<lambda>cs.
             take_channels team_id (lower (strip query)) limit cs [])), tokens)))"

section \<open>Groups\<close>

record group_member =
  gm_id :: string
  gm_display_name :: string
  gm_user_principal_name :: string
  gm_mail :: string

record group_member_page =
  gp_items :: "group_member list"
  gp_offset :: int
  gp_limit :: int
  gp_has_more :: bool

text \<open>\<open>list(dict.fromkeys(xs))\<close>\<close>

fun first_occurrences :: "'a list \<Rightarrow> 'a list" where
  "first_occurrences [] = []"
| "first_occurrences (x # xs) = x # List.filter (\<lambda>y. y \<noteq> x) (first_occurrences xs)"

definition group_ids_of_page :: "json \<Rightarrow> exn + string list" where
  "group_ids_of_page data =
     bind_sum (value_items data) (each (\<lambda>group. bind_sum (attr_text group [''id''] []) (\<lambda>i.
       Inr (if i = [] then [] else [lower i]))))"

definition list_user_transitive_group_ids ::
  "remote \<Rightarrow> world \<Rightarrow> settings \<Rightarrow> string \<Rightarrow> graph_tokens \<Rightarrow> (exn + string list) \<times> graph_tokens" where
  "list_user_transitive_group_ids rm w st user_id tokens =
     (let user_id = strip user_id in
      if user_id = [] then (Inr [], tokens)
      else (case graph_get_pages rm w st (''/users/'' @ quote user_id @ ''/transitiveMemberOf/microsoft.graph.group'')
                   [(''$select'', ''id''), (''$top'', ''999'')] tokens of
        (r, tokens) \<Rightarrow>
          (bind_sum r (\<lambda>pages. bind_sum (each group_ids_of_page pages) (\<lambda>ids. Inr (first_occurrences ids))), tokens)))"

text \<open>The member of an entry, where it has an id and a name and matches the query.\<close>

definition matched_member :: "string \<Rightarrow> json \<Rightarrow> exn + group_member list" where
  "matched_member needle entry =
     bind_sum (attr_text entry [''id''] []) (\<lambda>i.
     bind_sum (attr_text entry [''displayName'', ''userPrincipalName''] []) (\<lambda>display_name.
     bind_sum (attr_text entry [''userPrincipalName''] []) (\<lambda>principal.
     bind_sum (attr_text entry [''mail''] []) (\<lambda>mail.
       if i = [] \<or> display_name = [] then Inr []
       else if needle \<noteq> [] \<and> \<not> contains needle (lower (join '' '' [display_name, principal, mail])) then Inr []
       else Inr [\<lparr>gm_id = i, gm_display_name = display_name, gm_user_principal_name = principal, gm_mail = mail\<rparr>]))))"

text \<open>The loops over the entries of a page: the members kept so far, the number of matches so
  far, and whether the function returns.\<close>

fun take_members ::
  "nat \<Rightarrow> nat \<Rightarrow> string \<Rightarrow> json list \<Rightarrow> group_member list \<times> nat \<Rightarrow> exn + (group_member list \<times> nat) \<times> bool" where
  "take_members limit offset needle [] acc = Inr (acc, False)"
| "take_members limit offset needle (entry # rest) acc =
     bind_sum (matched_member needle entry) (\<lambda>found.
       case found of
         [] \<Rightarrow> take_members limit offset needle rest acc
       | m # _ \<Rightarrow>
           (let (members, matched) = acc in
            if matched < offset then take_members limit offset needle rest (members, matched + 1)
            else if limit < length members + 1 then Inr ((members @ [m], matched + 1), True)
            else take_members limit offset needle rest (members @ [m], matched + 1)))"

definition list_group_transitive_members ::
  "remote \<Rightarrow> world \<Rightarrow> settings \<Rightarrow> string \<Rightarrow> string \<Rightarrow> int \<Rightarrow> int \<Rightarrow> graph_tokens \<Rightarrow>
   (exn + group_member_page) \<times> graph_tokens" where
  "list_group_transitive_members rm w st group_id query limit offset tokens =
     (let group_id = strip group_id in
      if group_id = [] then (Inr \<lparr>gp_items = [], gp_offset = offset, gp_limit = limit, gp_has_more = False\<rparr>, tokens)
      else
        (let limit = max 1 (min limit 200); offset = max offset 0; needle = lower (strip query) in
         case iter_graph_pages rm w st (''/groups/'' @ quote group_id @ ''/transitiveMembers/microsoft.graph.user'')
                [(''$select'', ''id,displayName,userPrincipalName,mail''), (''$top'', ''999'')]
                (\<lambda>data acc. bind_sum (value_items data) (\<lambda>entries. take_members (nat limit) (nat offset) needle entries acc))
                ([], 0) tokens of
           (r, tokens) \<Rightarrow>
             (bind_sum r (\<lambda>(members, _). Inr \<lparr>gp_items = take (nat limit) members, gp_offset = offset, gp_limit = limit,
                gp_has_more = nat limit < length members\<rparr>), tokens)))"

definition count_group_transitive_user_members ::
  "remote \<Rightarrow> world \<Rightarrow> settings \<Rightarrow> string \<Rightarrow> graph_tokens \<Rightarrow> (exn + int) \<times> graph_tokens" where
  "count_group_transitive_user_members rm w st group_id tokens =
     (let group_id = strip group_id in
      if group_id = [] then (Inr 0, tokens)
      else (case graph_get_text rm w st (''/groups/'' @ quote group_id @ ''/transitiveMembers/microsoft.graph.user/$count'')
                   [] [(''ConsistencyLevel'', ''eventual'')] tokens of
        (r, tokens) \<Rightarrow>
          (bind_sum r (\<lambda>raw. case parse_int (strip raw) of
             Some n \<Rightarrow> Inr (max n 0)
           | None \<Rightarrow> Inl (GraphRequestError ''Microsoft Graph group member count response was not numeric'')), tokens)))"

section \<open>Lemmas\<close>

lemma bind_sum_simps [simp]: "bind_sum (Inl e) f = Inl e" "bind_sum (Inr x) f = f x"
  by (simp_all add: bind_sum_def)

lemma bind_sum_Inr: "bind_sum r f = Inr y \<longleftrightarrow> (\<exists>x. r = Inr x \<and> f x = Inr y)"
  by (cases r) auto

lemma each_Inr_Cons: "each f (x # xs) = Inr zs \<longleftrightarrow> (\<exists>as bs. f x = Inr as \<and> each f xs = Inr bs \<and> zs = as @ bs)"
  by (auto split: sum.splits)

lemma each_append: "each f (xs @ ys) = bind_sum (each f xs) (\<lambda>as. bind_sum (each f ys) (\<lambda>bs. Inr (as @ bs)))"
proof (induction xs)
  case Nil
  then show ?case by (cases "each f ys") simp_all
next
  case (Cons x xs)
  then show ?case by (cases "f x"; cases "each f xs"; cases "each f ys") simp_all
qed

text \<open>The consumer over a list of pages.\<close>

fun fold_pages :: "(json \<Rightarrow> 'a \<Rightarrow> exn + 'a \<times> bool) \<Rightarrow> json list \<Rightarrow> 'a \<Rightarrow> exn + 'a" where
  "fold_pages step [] acc = Inr acc"
| "fold_pages step (p # ps) acc =
     bind_sum (step p acc) (\<lambda>(acc, stop). if stop then Inr acc else fold_pages step ps acc)"

lemma collect_pages:
  "walk_pages get (\<lambda>data acc. Inr (acc @ [data], False)) n url acc = Inr res \<Longrightarrow>
   \<exists>ps. res = acc @ ps \<and> length ps \<le> n \<and> (\<forall>step (a :: 'a). walk_pages get step n url a = fold_pages step ps a)"
proof (induction n arbitrary: url acc)
  case 0
  then show ?case by (auto split: if_splits)
next
  case (Suc n)
  show ?case
  proof (cases "url = []")
    case False
    then obtain data next_url where d: "get url = Inr data" "reply_str data ''@odata.nextLink'' = Inr next_url"
      "walk_pages get (\<lambda>data acc. Inr (acc @ [data], False)) n next_url (acc @ [data]) = Inr res"
      using Suc.prems by (auto simp: bind_sum_Inr)
    from Suc.IH [OF d(3)] obtain ps where ps: "res = (acc @ [data]) @ ps" "length ps \<le> n"
      "\<forall>step (a :: 'a). walk_pages get step n next_url a = fold_pages step ps a"
      by (elim exE conjE)
    show ?thesis
      by (rule exI [of _ "data # ps"]) (use False d ps in \<open>simp cong: if_cong\<close>)
  qed (use Suc.prems in auto)
qed

text \<open>Taking members from all entries is taking them from the list of all matches.\<close>

lemma take_members_spec:
  assumes "each (matched_member needle) entries = Inr ms" and "length members = matched - offset" and "length members \<le> limit"
  shows "take_members limit offset needle entries (members, matched) =
    (let all = members @ drop (offset - matched) ms
     in if limit < length all then Inr ((take (Suc limit) all, offset + Suc limit), True)
        else Inr ((all, matched + length ms), False))"
  using assms
proof (induction entries arbitrary: ms members matched)
  case Nil
  then show ?case by simp
next
  case (Cons entry entries)
  then obtain found rest where f: "matched_member needle entry = Inr found" "each (matched_member needle) entries = Inr rest"
    "ms = found @ rest" by (auto simp: each_Inr_Cons simp del: each.simps)
  have one: "found = [] \<or> (\<exists>m. found = [m])"
    using f(1) by (auto simp: matched_member_def bind_sum_Inr split: if_splits)
  show ?case
  proof (cases "found = []")
    case True
    then have "ms = rest" using f(3) by simp
    then show ?thesis using Cons.IH [OF f(2) Cons.prems(2,3)] f(1) True by (simp add: Let_def)
  next
    case False
    then obtain m where m: "found = [m]" using one by auto
    show ?thesis
    proof (cases "matched < offset")
      case True
      then have "members = []" "offset - matched = Suc (offset - Suc matched)" using Cons.prems(2) by auto
      then show ?thesis using Cons.IH [OF f(2), of "[]" "Suc matched"] f m True by (simp add: Let_def)
    next
      case at: False
      then show ?thesis
      proof (cases "limit < length members + 1")
        case True
        then have "limit = length members" "matched = limit + offset" using at Cons.prems(2,3) by auto
        then show ?thesis
          using f m at Cons.prems(2) by (simp add: Let_def)
      next
        case False
        have "length (members @ [m]) = Suc matched - offset" using at Cons.prems(2) by simp
        then show ?thesis
          using Cons.IH [OF f(2), of "members @ [m]" "Suc matched"] f m at False by (simp add: Let_def)
      qed
    qed
  qed
qed

text \<open>The list of all matches, and the page cut out of it.\<close>

definition all_matches :: "string \<Rightarrow> json list \<Rightarrow> exn + group_member list" where
  "all_matches needle pages = each (\<lambda>p. bind_sum (value_items p) (each (matched_member needle))) pages"

lemma fold_take_members:
  assumes "all_matches needle pages = Inr ms" and "length members = matched - offset" and "length members \<le> limit"
  shows "\<exists>k. fold_pages (\<lambda>data acc. bind_sum (value_items data) (\<lambda>entries. take_members limit offset needle entries acc))
      pages (members, matched) = Inr (take (Suc limit) (members @ drop (offset - matched) ms), k)"
  using assms
proof (induction pages arbitrary: ms members matched)
  case Nil
  then show ?case by (simp add: all_matches_def)
next
  case (Cons p pages)
  then obtain entries found rest where f: "value_items p = Inr entries" "each (matched_member needle) entries = Inr found"
    "all_matches needle pages = Inr rest" "ms = found @ rest"
    by (auto simp: all_matches_def each_Inr_Cons bind_sum_Inr simp del: each.simps)
  let ?all = "members @ drop (offset - matched) found"
  note spec = take_members_spec [OF f(2) Cons.prems(2,3)]
  show ?case
  proof (cases "limit < length ?all")
    case True
    then have "take (Suc limit) (members @ drop (offset - matched) ms) = take (Suc limit) ?all"
      using f(4) by auto
    then show ?thesis using True f(1) spec by (simp add: Let_def)
  next
    case False
    have "length ?all = matched + length found - offset"
      using Cons.prems(2) by auto
    moreover have all: "?all @ drop (offset - (matched + length found)) rest = members @ drop (offset - matched) ms"
      using f(4) by simp
    ultimately obtain k where "fold_pages (\<lambda>data acc. bind_sum (value_items data) (\<lambda>entries. take_members limit offset needle entries acc))
        pages (?all, matched + length found) = Inr (take (Suc limit) (members @ drop (offset - matched) ms), k)"
      using Cons.IH [OF f(3), of ?all "matched + length found"] False unfolding all by auto
    then show ?thesis using False f(1) spec by (simp add: Let_def del: take_append)
  qed
qed

text \<open>A listing whose every page names a next one is cut off at the limit.\<close>

lemma endless_walk:
  assumes "\<And>u. u \<noteq> [] \<Longrightarrow> \<exists>data v. get u = Inr data \<and> reply_str data ''@odata.nextLink'' = Inr v \<and> v \<noteq> []"
    and "url \<noteq> []"
  shows "walk_pages get (\<lambda>data acc. Inr (f data acc, False)) n url acc =
    Inl (GraphRequestError ''Microsoft Graph pagination exceeded the safety limit'')"
  using assms(2)
proof (induction n arbitrary: url acc)
  case (Suc n)
  obtain data v where "get url = Inr data" "reply_str data ''@odata.nextLink'' = Inr v" "v \<noteq> []"
    using assms(1) [OF Suc.prems] by blast
  then show ?case using Suc by simp
qed simp

definition graph_cached :: "graph_token_manager \<Rightarrow> (string \<times> instant) option" where
  "graph_cached tm = (case (gm_access_token tm, gm_expires_at tm) of (Some t, Some e) \<Rightarrow> Some (t, e) | _ \<Rightarrow> None)"

interpretation app_tokens: token_cache graph_get_token graph_cached graph_refresh_window
proof
  fix rm w m t e m' x
  show "graph_cached m = Some (t, e) \<Longrightarrow> t \<noteq> [] \<Longrightarrow> graph_refresh_window < e - utcnow w \<Longrightarrow>
      graph_get_token rm w m = (Inr t, m)"
    by (simp add: graph_cached_def graph_get_token_def split: option.splits)
  show "graph_get_token rm w m = (Inr t, m') \<Longrightarrow> t \<noteq> [] \<and> map_option fst (graph_cached m') = Some t"
    by (auto simp: graph_cached_def graph_get_token_def Let_def split: option.splits sum.splits if_splits)
  show "graph_get_token rm w m = (Inl x, m') \<Longrightarrow> m' = m"
    by (auto simp: graph_get_token_def Let_def split: option.splits sum.splits if_splits)
qed

section \<open>Properties\<close>

text \<open>A page of group members is the slice of all matches from the offset on, of at most the
  limit, and \<open>has_more\<close> tells whether matches follow it, although the directory is read lazily,
  only as far as the page needs.\<close>

theorem group_member_page_is_slice:
  assumes "graph_get_pages rm w st (''/groups/'' @ quote (strip group_id) @ ''/transitiveMembers/microsoft.graph.user'')
      [(''$select'', ''id,displayName,userPrincipalName,mail''), (''$top'', ''999'')] tokens = (Inr pages, tokens')"
    and "all_matches (lower (strip query)) pages = Inr ms" and "strip group_id \<noteq> []"
  shows "list_group_transitive_members rm w st group_id query limit offset tokens =
    (let n = nat (max 1 (min limit 200)); k = nat (max offset 0) in
     (Inr \<lparr>gp_items = take n (drop k ms), gp_offset = max offset 0, gp_limit = max 1 (min limit 200),
           gp_has_more = k + n < length ms\<rparr>, tokens'))"
proof -
  define n k where nk: "n = nat (max 1 (min limit 200))" "k = nat (max offset 0)"
  obtain c where slice: "fold_pages (\<lambda>data acc. bind_sum (value_items data) (\<lambda>entries.
      take_members n k (lower (strip query)) entries acc)) pages ([], 0) = Inr (take (Suc n) (drop k ms), c)"
    using fold_take_members [OF assms(2), of "[]" 0 k n] by auto
  have more: "n < length (take (Suc n) (drop k ms)) \<longleftrightarrow> k + n < length ms" by auto
  obtain token tm where t: "graph_get_token rm w (get_graph_token_manager st tokens) = (Inr token, tm)" "tokens' = Some tm"
    and pages: "walk_pages (\<lambda>url. graph_get_url rm w url token) (\<lambda>data acc. Inr (acc @ [data], False)) MAX_GRAPH_PAGINATION_PAGES
      (graph_base @ ''/groups/'' @ quote (strip group_id) @ ''/transitiveMembers/microsoft.graph.user'' @ ''?'' @
        urlencode [(''$select'', ''id,displayName,userPrincipalName,mail''), (''$top'', ''999'')]) [] = Inr pages"
    using assms(1) by (auto simp: graph_get_pages_def iter_graph_pages_def with_graph_token_def split: prod.splits sum.splits)
  have walk: "walk_pages (\<lambda>url. graph_get_url rm w url token) step MAX_GRAPH_PAGINATION_PAGES
      (graph_base @ ''/groups/'' @ quote (strip group_id) @ ''/transitiveMembers/microsoft.graph.user'' @ ''?'' @
        urlencode [(''$select'', ''id,displayName,userPrincipalName,mail''), (''$top'', ''999'')]) a = fold_pages step pages a"
    for step and a :: "group_member list \<times> nat"
    using collect_pages [OF pages, where 'a = "group_member list \<times> nat"] by fastforce
  have cut: "take n (take (Suc n) (drop k ms)) = take n (drop k ms)" by (simp add: min_def)
  show ?thesis
    by (simp only: list_group_transitive_members_def iter_graph_pages_def with_graph_token_def Let_def t assms(3) if_False
        append_assoc nk [symmetric] walk slice bind_sum_simps prod.case sum.case more cut)
qed


definition sample_app_tokens :: graph_token_manager where
  "sample_app_tokens = \<lparr>gm_settings = default_settings, gm_access_token = Some ''abc'', gm_expires_at = Some (seconds 3600)\<rparr>"

lemma sample_app_token: "graph_get_token rm (sample_world\<lparr>json_loads := f\<rparr>)
    (get_graph_token_manager st (Some sample_app_tokens)) = (Inr ''abc'', sample_app_tokens)"
  by (simp add: graph_get_token_def get_graph_token_manager_def sample_app_tokens_def sample_world_def seconds_def
      graph_refresh_window_def)

definition replying :: "json \<Rightarrow> world" where
  "replying v = sample_world\<lparr>json_loads := (\<lambda>_. JsonValue v)\<rparr>"

lemma replying_url: "graph_get_url (sample_remote (\<lambda>_ _. HttpResponse 200 ''x'')) (replying v) url token = Inr v"
  by (simp add: graph_get_url_def sample_remote_def replying_def parse_json_def)


definition sample_page :: json where
  "sample_page = JDict [(''value'', JList
     [JDict [(''id'', JStr ''1''), (''displayName'', JStr ''Ada'')], JDict [(''id'', JStr ''2'')],
      JDict [(''id'', JStr ''3''), (''displayName'', JStr ''Eve'')]])]"

definition sample_members :: "group_member list" where
  "sample_members =
     [\<lparr>gm_id = ''1'', gm_display_name = ''Ada'', gm_user_principal_name = [], gm_mail = []\<rparr>,
      \<lparr>gm_id = ''3'', gm_display_name = ''Eve'', gm_user_principal_name = [], gm_mail = []\<rparr>]"

lemma sample_matches: "all_matches (lower (strip [])) [sample_page] = Inr sample_members"
  by code_simp

lemma sample_listing: "graph_get_pages (sample_remote (\<lambda>_ _. HttpResponse 200 ''x'')) (replying sample_page)
    default_settings path params (Some sample_app_tokens) = (Inr [sample_page], Some sample_app_tokens)"
proof -
  have link: "reply_str sample_page ''@odata.nextLink'' = Inr []"
    by (simp add: sample_page_def reply_str_def get_attr_def dict_get_def or_json_def truthy_def py_str_def)
  have t: "graph_get_token rm (replying sample_page) (get_graph_token_manager st (Some sample_app_tokens)) = (Inr ''abc'', sample_app_tokens)"
    for rm st unfolding replying_def by (rule sample_app_token)
  show ?thesis
    by (simp add: graph_get_pages_def iter_graph_pages_def with_graph_token_def t replying_url link graph_base_def
        MAX_GRAPH_PAGINATION_PAGES_def numeral_eq_Suc)
qed

theorem group_member_page_is_slice_witness:
  "list_group_transitive_members (sample_remote (\<lambda>_ _. HttpResponse 200 ''x'')) (replying sample_page) default_settings
      ''g'' [] 1 0 (Some sample_app_tokens) =
    (let n = nat (max 1 (min 1 200)); k = nat (max 0 0) in
     (Inr \<lparr>gp_items = take n (drop k sample_members), gp_offset = max 0 0, gp_limit = max 1 (min 1 200),
           gp_has_more = k + n < length sample_members\<rparr>, Some sample_app_tokens))"
  by (rule group_member_page_is_slice [OF sample_listing sample_matches]) (simp add: strip_no_space py_space_def)

end
