(* ===== verification/Graph_Lookup.thy ===== *)
theory Graph_Lookup
  imports Graph_Auth Graph_Targets
begin

text \<open>
  \<open>services/bot_conversation_members.py\<close> and \<open>services/graph_delegated_lookup.py\<close>: who is in
  a conversation, which chats the service user has, and the one-on-one chat with a user. The
  first reads with the token of the bot, the second with the delegated token.
\<close>

section \<open>Members\<close>

record conversation_member =
  cm_id :: string
  cm_name :: string
  cm_aad_object_id :: string
  cm_email :: string
  cm_user_principal_name :: string

definition member_dict :: "conversation_member \<Rightarrow> json" where
  "member_dict m =
     JDict [(''id'', JStr (cm_id m)), (''name'', JStr (cm_name m)), (''aad_object_id'', JStr (cm_aad_object_id m)),
       (''email'', JStr (cm_email m)), (''user_principal_name'', JStr (cm_user_principal_name m))]"

record members_result =
  mr_members :: "conversation_member list"
  mr_member_summary :: string
  mr_member_count :: int

definition stripped_str :: "json \<Rightarrow> string" where
  "stripped_str v = (case v of JStr s \<Rightarrow> strip s | _ \<Rightarrow> [])"

definition member_from_raw :: "(string \<times> json) list \<Rightarrow> conversation_member" where
  "member_from_raw raw =
     \<lparr>cm_id = stripped_str (dict_get raw ''id''), cm_name = stripped_str (dict_get raw ''name''),
      cm_aad_object_id = or_str (stripped_str (dict_get raw ''aadObjectId'')) (stripped_str (dict_get raw ''objectId'')),
      cm_email = stripped_str (dict_get raw ''email''),
      cm_user_principal_name = stripped_str (dict_get raw ''userPrincipalName'')\<rparr>"

definition member_label :: "conversation_member \<Rightarrow> string" where
  "member_label m = or_str (cm_name m) (or_str (cm_user_principal_name m) (or_str (cm_email m) (cm_id m)))"

text \<open>The loop over the labels, with the set of the lower-case labels seen.\<close>

fun distinct_labels :: "conversation_member list \<Rightarrow> string list \<Rightarrow> string list" where
  "distinct_labels [] seen = []"
| "distinct_labels (m # ms) seen =
     (let label = member_label m in
      if label = [] then distinct_labels ms seen
      else if lower label \<in> set seen then distinct_labels ms seen
      else label # distinct_labels ms (lower label # seen))"

definition labels_summary :: "nat \<Rightarrow> string list \<Rightarrow> string" where
  "labels_summary visible_count labels =
     (let visible = take visible_count labels; remaining = length labels - length visible
      in join '', '' visible @ (if 0 < remaining then '' + '' @ str_nat remaining else []))"

definition summarize_members :: "conversation_member list \<Rightarrow> string" where
  "summarize_members members =
     (let labels = distinct_labels members [] in
      if labels = [] then [] else clip 500 (labels_summary 3 labels))"

definition serialize_members :: "conversation_member list \<Rightarrow> json" where
  "serialize_members members = JList (List.map member_dict (take 50 members))"

definition named_members :: "conversation_member list \<Rightarrow> conversation_member list" where
  "named_members = List.filter (\<lambda>m. cm_id m \<noteq> [] \<or> cm_name m \<noteq> [] \<or> cm_email m \<noteq> [] \<or> cm_user_principal_name m \<noteq> [])"

definition members_result_of :: "conversation_member list \<Rightarrow> members_result" where
  "members_result_of members =
     (let members = named_members members in
      \<lparr>mr_members = members, mr_member_summary = summarize_members members, mr_member_count = int (length members)\<rparr>)"

definition dict_items :: "json list \<Rightarrow> (string \<times> json) list list" where
  "dict_items vs = concat (List.map (\<lambda>v. case v of JDict kvs \<Rightarrow> [kvs] | _ \<Rightarrow> []) vs)"

definition bot_members_reply :: "remote \<Rightarrow> world \<Rightarrow> string \<Rightarrow> string \<Rightarrow> string \<Rightarrow> exn + members_result" where
  "bot_members_reply rm w service_url conversation_id token =
     (let failed = Inl (BotConversationMembersError ''Bot Framework member lookup failed'') in
      case http rm ''GET'' (service_url @ ''/v3/conversations/'' @ quote conversation_id @ ''/members'')
             [(''Authorization'', ''Bearer '' @ token), (''Accept'', ''application/json'')] [] of
        HttpResponse _ text \<Rightarrow>
          (case parse_json w (or_str text ''[]'') of
             Inl None \<Rightarrow> failed
           | Inl (Some e) \<Rightarrow> Inl e
           | Inr (JList body) \<Rightarrow> Inr (members_result_of (List.map member_from_raw (dict_items body)))
           | Inr _ \<Rightarrow> Inl (BotConversationMembersError ''Bot Framework member lookup returned an invalid response''))
      | HttpStatusError code text \<Rightarrow>
          Inl (BotConversationMembersError (''Bot Framework member lookup failed with HTTP '' @ str_int code @ '': '' @ clip 300 text))
      | HttpRequestError _ _ \<Rightarrow> failed)"

definition fetch_bot_conversation_members ::
  "remote \<Rightarrow> world \<Rightarrow> settings \<Rightarrow> string \<Rightarrow> string \<Rightarrow> bot_token_manager option \<Rightarrow>
   (exn + members_result) \<times> bot_token_manager option" where
  "fetch_bot_conversation_members rm w st service_url conversation_id tokens =
     (let service_url = rstrip_char (CHR ''/'') (strip service_url); conversation_id = strip conversation_id in
      if service_url = [] \<or> conversation_id = []
      then (Inl (BotConversationMembersError ''Bot service URL and conversation ID are required for member lookup''), tokens)
      else (case get_token rm w (get_token_manager st tokens) of
        (Inl e, tm) \<Rightarrow> (Inl e, Some tm)
      | (Inr token, tm) \<Rightarrow> (bot_members_reply rm w service_url conversation_id token, Some tm)))"

section \<open>Reading with the delegated token\<close>

definition not_connected :: exn where
  "not_connected = GraphDelegatedLookupError
     ''Delegated Graph delivery is not connected or the service-user token cannot be refreshed.'' None"

definition lookup_token :: "remote \<Rightarrow> world \<Rightarrow> settings \<Rightarrow> string \<Rightarrow> db \<Rightarrow> (exn + delegated_token) \<times> db" where
  "lookup_token rm w st org db =
     (case refresh_delegated_access_token rm w st org db of
        (Inl (GraphDelegatedAuthError _), db') \<Rightarrow> (Inl not_connected, db')
      | res \<Rightarrow> res)"

definition safe_error_message :: "world \<Rightarrow> string \<Rightarrow> exn + string" where
  "safe_error_message w text =
     (case parse_json w text of
        Inl None \<Rightarrow> Inr ''The Graph response could not be parsed.''
      | Inl (Some e) \<Rightarrow> Inl e
      | Inr (JDict kvs) \<Rightarrow>
          (case dict_get kvs ''error'' of
             JDict err \<Rightarrow>
               (let message = strip (py_str (or_json (dict_get err ''message'') (JStr ''Microsoft Graph returned an error.'')));
                    code = strip (py_str (or_json (dict_get err ''code'') (JStr [])))
                in Inr (if code \<noteq> [] then code @ '': '' @ message else message))
           | _ \<Rightarrow> Inr ''Microsoft Graph returned an error.'')
      | Inr _ \<Rightarrow> Inr ''Microsoft Graph returned an error.'')"

text \<open>The reply of \<open>_graph_get\<close> and \<open>_graph_post_json\<close>; what is not an object counts as an empty one.\<close>

definition delegated_reply :: "world \<Rightarrow> string \<Rightarrow> bool \<Rightarrow> http_reply \<Rightarrow> exn + (string \<times> json) list" where
  "delegated_reply w what empty_ok reply =
     (let failed = Inl (GraphDelegatedLookupError (''Microsoft Graph '' @ what @ '' failed.'') None) in
      case reply of
        HttpResponse _ text \<Rightarrow>
          (case (if empty_ok \<and> text = [] then Inr (JDict []) else parse_json w text) of
             Inl None \<Rightarrow> failed
           | Inl (Some e) \<Rightarrow> Inl e
           | Inr (JDict kvs) \<Rightarrow> Inr kvs
           | Inr _ \<Rightarrow> Inr [])
      | HttpStatusError code text \<Rightarrow>
          (case safe_error_message w text of
             Inl e \<Rightarrow> Inl e
           | Inr message \<Rightarrow>
               Inl (GraphDelegatedLookupError
                 (''Microsoft Graph '' @ what @ '' failed with HTTP '' @ str_int code @ '': '' @ message) (Some code)))
      | HttpRequestError _ _ \<Rightarrow> failed)"

definition delegated_get :: "remote \<Rightarrow> world \<Rightarrow> string \<Rightarrow> string \<Rightarrow> (string \<times> string) list \<Rightarrow> exn + (string \<times> json) list" where
  "delegated_get rm w path access_token params =
     (let query = urlencode params in
      delegated_reply w ''chat lookup'' False
        (http rm ''GET'' (graph_base @ path @ (if query \<noteq> [] then ''?'' else []) @ query)
          [(''Authorization'', ''Bearer '' @ access_token), (''Accept'', ''application/json'')] []))"

definition delegated_post :: "remote \<Rightarrow> world \<Rightarrow> string \<Rightarrow> string \<Rightarrow> json \<Rightarrow> exn + (string \<times> json) list" where
  "delegated_post rm w path access_token payload =
     delegated_reply w ''one-on-one chat creation'' True
       (http rm ''POST'' (graph_base @ path)
         [(''Authorization'', ''Bearer '' @ access_token), (''Accept'', ''application/json''),
          (''Content-Type'', ''application/json'')] (dumps_items True payload))"

definition current_user_id :: "remote \<Rightarrow> world \<Rightarrow> string \<Rightarrow> exn + string" where
  "current_user_id rm w access_token =
     bind_sum (delegated_get rm w ''/me'' access_token [(''$select'', ''id'')]) (\<lambda>data. attr_text (JDict data) [''id''] [])"

section \<open>The one-on-one chat\<close>

record one_on_one_chat =
  oc_id :: string
  oc_user_id :: string
  oc_user_display_name :: string
  oc_user_principal_name :: string

definition conversation_member_json :: "string \<Rightarrow> json" where
  "conversation_member_json user_id =
     JDict [(''@odata.type'', JStr ''#microsoft.graph.aadUserConversationMember''), (''roles'', JList [JStr ''owner'']),
       (''user@odata.bind'', JStr (graph_base @ ''/users('' @ [CHR 0x27] @ odata_string user_id @ [CHR 0x27] @ '')''))]"

definition one_on_one_chat_payload :: "string \<Rightarrow> string \<Rightarrow> exn + json" where
  "one_on_one_chat_payload service_user_id target_user_id =
     (let service_user_id = strip service_user_id; target_user_id = strip target_user_id in
      if service_user_id = []
      then Inl (GraphDelegatedLookupError
        ''Delegated Graph service-user metadata is incomplete. Reconnect the service user.'' None)
      else Inr (JDict [(''chatType'', JStr ''oneOnOne''),
        (''members'', JList [conversation_member_json service_user_id, conversation_member_json target_user_id])]))"

definition looks_like_graph_chat_id :: "string \<Rightarrow> bool" where
  "looks_like_graph_chat_id value =
     (let normalized = lower (strip value) in startswith normalized ''19:'' \<or> contains ''@thread.'' normalized)"

definition create_chat ::
  "remote \<Rightarrow> world \<Rightarrow> delegated_token \<Rightarrow> string \<Rightarrow> string \<Rightarrow> string \<Rightarrow> exn + one_on_one_chat" where
  "create_chat rm w token user_id display_name upn =
     (let known = strip (dg_service_user_id (dt_diagnostics token)) in
      bind_sum (if known = [] then current_user_id rm w (dt_access_token token) else Inr known) (\<lambda>service_user_id.
        if service_user_id \<noteq> [] \<and> lower service_user_id = lower user_id
        then Inl (GraphDelegatedLookupError ''The Graph route target cannot be the connected service user.'' None)
        else bind_sum (one_on_one_chat_payload
            (or_str service_user_id (strip (dg_service_user_principal_name (dt_diagnostics token)))) user_id) (\<lambda>payload.
          bind_sum (delegated_post rm w ''/chats'' (dt_access_token token) payload) (\<lambda>body.
          bind_sum (attr_text (JDict body) [''id''] []) (\<lambda>chat_id.
            if chat_id = []
            then Inl (GraphDelegatedLookupError ''Microsoft Graph did not return a chat ID for the one-on-one chat.'' None)
            else Inr \<lparr>oc_id = chat_id, oc_user_id = user_id, oc_user_display_name = strip display_name,
                      oc_user_principal_name = strip upn\<rparr>)))))"

definition create_or_get_one_on_one_chat ::
  "remote \<Rightarrow> world \<Rightarrow> settings \<Rightarrow> string \<Rightarrow> string \<Rightarrow> string \<Rightarrow> string \<Rightarrow> db \<Rightarrow> (exn + one_on_one_chat) \<times> db" where
  "create_or_get_one_on_one_chat rm w st org user_id display_name upn db =
     (let user_id = strip user_id in
      if user_id = []
      then (Inl (GraphDelegatedLookupError ''A Microsoft Graph user ID or user principal name is required.'' None), db)
      else if looks_like_graph_chat_id user_id
      then (Inl (GraphDelegatedLookupError
        ''A one-on-one route requires a Microsoft 365 user ID or UPN, not an existing Teams chat ID.'' None), db)
      else (case lookup_token rm w st org db of
        (Inl e, db') \<Rightarrow> (Inl e, db')
      | (Inr token, db') \<Rightarrow> (create_chat rm w token user_id display_name upn, db')))"

section \<open>The members of a chat\<close>

definition dict_text :: "(string \<times> json) list \<Rightarrow> string list \<Rightarrow> string" where
  "dict_text kvs keys = strip (py_str (foldr (\<lambda>k v. or_json (dict_get kvs k) v) keys (JStr [])))"

definition bot_member_from_graph_member :: "(string \<times> json) list \<Rightarrow> conversation_member" where
  "bot_member_from_graph_member raw =
     \<lparr>cm_id = dict_text raw [''id'', ''userId''], cm_name = dict_text raw [''displayName''],
      cm_aad_object_id = dict_text raw [''userId''], cm_email = dict_text raw [''email''],
      cm_user_principal_name = dict_text raw [''userPrincipalName'', ''email'']\<rparr>"

definition fetch_service_user_chat_members ::
  "remote \<Rightarrow> world \<Rightarrow> settings \<Rightarrow> string \<Rightarrow> string \<Rightarrow> db \<Rightarrow> (exn + members_result) \<times> db" where
  "fetch_service_user_chat_members rm w st org chat_id db =
     (let chat_id = strip chat_id in
      if chat_id = [] then (Inl (GraphDelegatedLookupError ''A Microsoft Graph chat ID is required.'' None), db)
      else (case lookup_token rm w st org db of
        (Inl e, db') \<Rightarrow> (Inl e, db')
      | (Inr token, db') \<Rightarrow>
          (bind_sum (delegated_get rm w (''/chats/'' @ quote chat_id @ ''/members'') (dt_access_token token) []) (\<lambda>data.
             case dict_get data ''value'' of
               JList raw \<Rightarrow> Inr (members_result_of (List.map bot_member_from_graph_member (dict_items raw)))
             | _ \<Rightarrow> Inl (GraphDelegatedLookupError ''Microsoft Graph chat members response was invalid.'' None)), db')))"

section \<open>The chats of the service user\<close>

record chat_member =
  ch_user_id :: string
  ch_display_name :: string
  ch_email :: string

record delegated_chat =
  dc_id :: string
  dc_display_name :: string
  dc_subtitle :: string

definition chat_list_params :: "int \<Rightarrow> bool \<Rightarrow> bool \<Rightarrow> (string \<times> string) list" where
  "chat_list_params limit include_ordering include_members =
     [(''$top'', str_int limit), (''$select'', ''id,topic,chatType'')] @
     (if include_members then [(''$expand'', ''members'')] else []) @
     (if include_ordering then [(''$orderby'', ''lastMessagePreview/createdDateTime desc'')] else [])"

definition is_orderby_rejection :: "string \<Rightarrow> int option \<Rightarrow> bool" where
  "is_orderby_rejection message status \<longleftrightarrow>
     status = Some 400 \<and> (contains ''order by'' (lower message) \<or> contains ''orderby'' (lower message))"

definition is_member_expand_rejection :: "string \<Rightarrow> int option \<Rightarrow> bool" where
  "is_member_expand_rejection message status \<longleftrightarrow>
     (status = Some 400 \<or> status = Some 403) \<and> (contains ''expand'' (lower message) \<or> contains ''member'' (lower message))"

text \<open>
  The loop of \<open>_list_chats_with_fallbacks\<close>: it drops the ordering, the members, or both, at
  most one at a time and each at most once, so \<open>attempted\<close> never holds the next combination.
\<close>

function list_chats_loop ::
  "(bool \<Rightarrow> bool \<Rightarrow> exn + (string \<times> json) list) \<Rightarrow> bool \<Rightarrow> bool \<Rightarrow> exn + (string \<times> json) list" where
  "list_chats_loop get ord members =
     (case get ord members of
        Inr data \<Rightarrow> Inr data
      | Inl (GraphDelegatedLookupError message status) \<Rightarrow>
          if ord \<and> is_orderby_rejection message status then list_chats_loop get False members
          else if members \<and> is_member_expand_rejection message status then list_chats_loop get ord False
          else Inl (GraphDelegatedLookupError message status)
      | Inl e \<Rightarrow> Inl e)"
  by pat_completeness auto
termination
  by (relation "measure (\<lambda>(_, ord, members). of_bool ord + of_bool members)") auto

definition list_chats_with_fallbacks :: "remote \<Rightarrow> world \<Rightarrow> string \<Rightarrow> int \<Rightarrow> exn + (string \<times> json) list" where
  "list_chats_with_fallbacks rm w access_token limit =
     list_chats_loop (\<lambda>ord members.
       delegated_get rm w ''/me/chats'' access_token (chat_list_params limit ord members)) True True"

definition chat_members :: "(string \<times> json) list \<Rightarrow> chat_member list" where
  "chat_members chat =
     (case dict_get chat ''members'' of
        JList raw \<Rightarrow> List.filter (\<lambda>m. ch_user_id m \<noteq> [] \<or> ch_display_name m \<noteq> [] \<or> ch_email m \<noteq> [])
          (List.map (\<lambda>m. \<lparr>ch_user_id = dict_text m [''userId''], ch_display_name = dict_text m [''displayName''],
             ch_email = dict_text m [''email'', ''userPrincipalName'']\<rparr>) (dict_items raw))
      | _ \<Rightarrow> [])"

definition short_id :: "string \<Rightarrow> string" where
  "short_id value = (let value = strip value in if 11 < length value then take 8 value @ ''...'' else value)"

definition chat_member_label :: "chat_member \<Rightarrow> string" where
  "chat_member_label m = or_str (ch_display_name m) (or_str (ch_email m) (short_id (ch_user_id m)))"

definition is_service_user_member :: "chat_member \<Rightarrow> string \<Rightarrow> string \<Rightarrow> bool" where
  "is_service_user_member m service_user_id service_upn \<longleftrightarrow>
     (lower service_user_id \<noteq> [] \<and> lower (ch_user_id m) = lower service_user_id) \<or>
     (lower service_upn \<noteq> [] \<and> lower (ch_email m) = lower service_upn)"

definition other_one_on_one_member :: "chat_member list \<Rightarrow> string \<Rightarrow> string \<Rightarrow> chat_member option" where
  "other_one_on_one_member members service_user_id service_upn =
     (case fetch (\<lambda>m. \<not> is_service_user_member m service_user_id service_upn) members of
        Some m \<Rightarrow> Some m
      | None \<Rightarrow> (case members of [m] \<Rightarrow> Some m | _ \<Rightarrow> None))"

definition member_summary :: "chat_member list \<Rightarrow> string \<Rightarrow> string \<Rightarrow> string" where
  "member_summary members service_user_id service_upn =
     (let others = List.filter (\<lambda>m. \<not> is_service_user_member m service_user_id service_upn) members;
          labels = List.filter (\<lambda>l. l \<noteq> []) (List.map chat_member_label (if others \<noteq> [] then others else members))
      in if labels = [] then [] else labels_summary 3 labels)"

definition chat_type_label :: "string \<Rightarrow> string" where
  "chat_type_label chat_type =
     (if chat_type = ''oneOnOne'' then ''1:1 chat'' else if chat_type = ''meeting'' then ''Meeting chat'' else ''Group chat'')"

definition chat_subtitle :: "string \<Rightarrow> chat_member list \<Rightarrow> string" where
  "chat_subtitle chat_type members =
     (if members = [] then or_str chat_type ''chat''
      else (if chat_type \<in> {''group'', ''meeting'', ''oneOnOne''} then chat_type_label chat_type else or_str chat_type ''chat'') @
        '' - '' @ str_nat (length members) @ '' '' @ (if length members = 1 then ''member'' else ''members''))"

definition chat_display :: "string \<Rightarrow> string \<Rightarrow> chat_member list \<Rightarrow> string \<Rightarrow> string \<Rightarrow> string \<times> string" where
  "chat_display chat_type topic members service_user_id service_upn =
     (let fallback =
        (let summary = member_summary members service_user_id service_upn in
         if chat_type = ''group'' \<and> topic = [] \<and> summary \<noteq> [] then (summary, chat_subtitle chat_type members)
         else (or_str topic (chat_type_label chat_type), chat_subtitle chat_type members))
      in if chat_type = ''oneOnOne'' then
           (case other_one_on_one_member members service_user_id service_upn of
              Some m \<Rightarrow> (chat_member_label m, if ch_email m \<noteq> [] then ''1:1 chat - '' @ ch_email m else ''1:1 chat'')
            | None \<Rightarrow> fallback)
         else fallback)"

definition chat_haystack :: "string \<Rightarrow> string \<Rightarrow> string \<Rightarrow> string \<times> string \<Rightarrow> chat_member list \<Rightarrow> string" where
  "chat_haystack i topic chat_type shown members =
     lower (join '' '' ([i, topic, chat_type, fst shown, snd shown] @
       concat (List.map (\<lambda>m. [ch_user_id m, ch_display_name m, ch_email m]) members)))"

text \<open>A chat of the listing, where it has an id and matches.\<close>

definition listed_chat :: "string \<Rightarrow> string \<Rightarrow> string \<Rightarrow> (string \<times> json) list \<Rightarrow> delegated_chat option" where
  "listed_chat needle service_user_id service_upn chat =
     (let i = dict_text chat [''id'']; chat_type = dict_text chat [''chatType'']; topic = dict_text chat [''topic''];
          members = chat_members chat; shown = chat_display chat_type topic members service_user_id service_upn
      in if i = [] then None
         else if needle \<noteq> [] \<and> \<not> contains needle (chat_haystack i topic chat_type shown members) then None
         else Some \<lparr>dc_id = i, dc_display_name = fst shown, dc_subtitle = snd shown\<rparr>)"

definition list_service_user_chats ::
  "remote \<Rightarrow> world \<Rightarrow> settings \<Rightarrow> string \<Rightarrow> string \<Rightarrow> int \<Rightarrow> db \<Rightarrow> (exn + delegated_chat list) \<times> db" where
  "list_service_user_chats rm w st org query limit db =
     (case lookup_token rm w st org db of
        (Inl e, db') \<Rightarrow> (Inl e, db')
      | (Inr token, db') \<Rightarrow>
          (let normalized_limit = max 1 (min limit 50); t = dt_access_token token;
               known = strip (dg_service_user_id (dt_diagnostics token));
               upn = strip (dg_service_user_principal_name (dt_diagnostics token)) in
           (bind_sum (list_chats_with_fallbacks rm w t normalized_limit) (\<lambda>data.
              bind_sum (if known \<noteq> [] then Inr known
                        else (case current_user_id rm w t of
                          Inl (GraphDelegatedLookupError _ _) \<Rightarrow> Inr []
                        | r \<Rightarrow> r)) (\<lambda>service_user_id.
              bind_sum (value_items (JDict data)) (\<lambda>items.
                Inr (take (nat normalized_limit)
                  (List.map_filter (listed_chat (lower (strip query)) service_user_id upn) (dict_items items)))))), db')))"

section \<open>Lemmas\<close>

text \<open>The lookups reach the database through the refresh of the token only.\<close>

lemma lookup_token_db: "snd (lookup_token rm w st org db) = snd (refresh_delegated_access_token rm w st org db)"
  by (auto simp: lookup_token_def split: prod.splits sum.splits exn.splits)

text \<open>The error replies of Graph are \<open>GraphDelegatedLookupError\<close>s; anything else raised is an exception
  of the interpreter.\<close>

definition lookup_raised :: "exn \<Rightarrow> bool" where
  "lookup_raised e = (case e of GraphDelegatedLookupError _ _ \<Rightarrow> True | PyError _ \<Rightarrow> True | _ \<Rightarrow> False)"

lemma py_raised_lookup: "py_raised e \<Longrightarrow> lookup_raised e"
  by (auto simp: py_raised_def lookup_raised_def split: exn.splits)

lemma delegated_reply_error: "delegated_reply w what empty_ok reply = Inl e \<Longrightarrow> lookup_raised e"
  by (auto simp: delegated_reply_def safe_error_message_def Let_def lookup_raised_def
      split: http_reply.splits sum.splits option.splits json.splits if_splits
      dest!: parse_json_error py_raised_lookup)

end
