(* ===== verification/Ip_Address.thy ===== *)
theory Ip_Address
  imports Prelude
begin

text \<open>
  What the backend uses of Python's \<open>ipaddress\<close>: reading and printing IPv4 and IPv6
  addresses (with scope identifiers) and networks given by a prefix length, a netmask or a
  host mask, and membership of an address in a network. Reading a printed value gives the
  value back, which is what the stored allowlists rest on.
\<close>

section \<open>Hexadecimal\<close>

definition hex_digit :: "nat \<Rightarrow> char" where
  "hex_digit d = (if d < 10 then char_of (48 + d) else char_of (87 + d))"

definition hex_val :: "char \<Rightarrow> nat option" where
  "hex_val c = (let n = of_char c in
     if 48 \<le> n \<and> n \<le> 57 then Some (n - 48)
     else if 97 \<le> n \<and> n \<le> 102 then Some (n - 87)
     else if 65 \<le> n \<and> n \<le> 70 then Some (n - 55) else None)"

fun hex_str :: "nat \<Rightarrow> string" where
  "hex_str n = (if n < 16 then [hex_digit n] else hex_str (n div 16) @ [hex_digit (n mod 16)])"

declare hex_str.simps [simp del]

definition hex_num :: "string \<Rightarrow> nat" where
  "hex_num s = foldl (\<lambda>n c. 16 * n + the (hex_val c)) 0 s"

section \<open>IPv4 addresses\<close>

definition parse_octet :: "string \<Rightarrow> nat option" where
  "parse_octet s =
     (if s = [] \<or> \<not> list_all is_digit s \<or> 3 < length s \<or> (1 < length s \<and> hd s = CHR ''0'') then None
      else if 255 < digits_val s then None else Some (digits_val s))"

definition parse_v4 :: "string \<Rightarrow> nat option" where
  "parse_v4 s =
     (case split_on (CHR ''.'') s of
        [a, b, c, d] \<Rightarrow>
          (case (parse_octet a, parse_octet b, parse_octet c, parse_octet d) of
             (Some w, Some x, Some y, Some z) \<Rightarrow> Some (((w * 256 + x) * 256 + y) * 256 + z)
           | _ \<Rightarrow> None)
      | _ \<Rightarrow> None)"

definition print_v4 :: "nat \<Rightarrow> string" where
  "print_v4 n = join ''.''
     [str_nat (n div 16777216), str_nat (n div 65536 mod 256), str_nat (n div 256 mod 256), str_nat (n mod 256)]"

section \<open>IPv6 addresses\<close>

definition parse_hextet :: "string \<Rightarrow> nat option" where
  "parse_hextet s =
     (if s = [] \<or> 4 < length s \<or> list_ex (\<lambda>c. hex_val c = None) s then None else Some (hex_num s))"

fun parse_hextets :: "nat \<Rightarrow> string list \<Rightarrow> nat option" where
  "parse_hextets n [] = Some n"
| "parse_hextets n (s # ss) =
     (case parse_hextet s of None \<Rightarrow> None | Some h \<Rightarrow> parse_hextets (n * 65536 + h) ss)"

text \<open>A trailing dotted quad is replaced by its two hextets.\<close>

definition expand_v4 :: "string list \<Rightarrow> string list option" where
  "expand_v4 parts =
     (if CHR ''.'' \<in> set (last parts) then
        (case parse_v4 (last parts) of
           None \<Rightarrow> None
         | Some n \<Rightarrow> Some (butlast parts @ [hex_str (n div 65536), hex_str (n mod 65536)]))
      else Some parts)"

text \<open>The positions of the empty words in a list that starts at position \<open>i\<close>.\<close>

fun empties :: "nat \<Rightarrow> string list \<Rightarrow> nat list" where
  "empties i [] = []"
| "empties i (s # ss) = (if s = [] then [i] else []) @ empties (Suc i) ss"

text \<open>The number of leading and trailing hextets and of those \<open>::\<close> stands for.\<close>

definition hextet_counts :: "string list \<Rightarrow> (nat \<times> nat \<times> nat) option" where
  "hextet_counts parts =
     (case empties 1 (butlast (tl parts)) of
        [] \<Rightarrow> if length parts \<noteq> 8 \<or> hd parts = [] \<or> last parts = [] then None else Some (8, 0, 0)
      | [skip] \<Rightarrow>
          (let hi = skip; lo = length parts - skip - 1;
               hi' = (if hd parts = [] then hi - 1 else hi);
               lo' = (if last parts = [] then lo - 1 else lo)
           in if (hd parts = [] \<and> hi' \<noteq> 0) \<or> (last parts = [] \<and> lo' \<noteq> 0) \<or> 8 < hi' + lo' + 1 then None
              else Some (hi', 8 - (hi' + lo'), lo'))
      | _ \<Rightarrow> None)"

definition parse_v6_parts :: "string list \<Rightarrow> nat option" where
  "parse_v6_parts parts =
     (if length parts < 3 then None
      else (case expand_v4 parts of
        None \<Rightarrow> None
      | Some parts \<Rightarrow>
          if 9 < length parts then None
          else (case hextet_counts parts of
            None \<Rightarrow> None
          | Some (hi, skipped, lo) \<Rightarrow>
              (case parse_hextets 0 (take hi parts) of
                 None \<Rightarrow> None
               | Some n \<Rightarrow> parse_hextets (n * 65536 ^ skipped) (drop (length parts - lo) parts)))))"

definition parse_v6_int :: "string \<Rightarrow> nat option" where
  "parse_v6_int s = parse_v6_parts (split_on (CHR '':'') s)"

definition hextets :: "nat \<Rightarrow> nat list" where
  "hextets n = List.map (\<lambda>i. n div 65536 ^ i mod 65536) [7, 6, 5, 4, 3, 2, 1, 0]"

text \<open>The longest run of zero words, the first of equal ones: \<open>(start, length)\<close>. The state of the
  loop is the position, the run being read and the best run so far.\<close>

fun zero_run :: "nat \<Rightarrow> nat \<Rightarrow> nat \<times> nat \<Rightarrow> string list \<Rightarrow> nat \<times> nat" where
  "zero_run i cur best [] = best"
| "zero_run i cur best (s # ss) =
     (if s = ''0''
      then zero_run (Suc i) (Suc cur) (if snd best < Suc cur then (i - cur, Suc cur) else best) ss
      else zero_run (Suc i) 0 best ss)"

definition compress :: "string list \<Rightarrow> string list" where
  "compress ss =
     (let (start, len) = zero_run 0 0 (0, 0) ss in
      if 1 < len then
        (if start = 0 then [[]] else []) @ take start ss @ [[]] @ drop (start + len) ss @
        (if start + len = length ss then [[]] else [])
      else ss)"

definition print_v6_int :: "nat \<Rightarrow> string" where
  "print_v6_int n = join '':'' (compress (List.map hex_str (hextets n)))"

section \<open>Addresses and networks\<close>

datatype ip_addr = V4 nat | V6 nat "string option"

datatype ip_net = Net4 nat nat | Net6 nat "string option" nat

text \<open>\<open>addr, sep, scope = s.partition("%")\<close> with the checks of \<open>IPv6Address\<close>.\<close>

definition parse_v6 :: "string \<Rightarrow> (nat \<times> string option) option" where
  "parse_v6 s =
     (if CHR ''/'' \<in> set s then None
      else if CHR ''%'' \<notin> set s then map_option (\<lambda>n. (n, None)) (parse_v6_int s)
      else (let addr = takeWhile (\<lambda>c. c \<noteq> CHR ''%'') s;
                scope = tl (dropWhile (\<lambda>c. c \<noteq> CHR ''%'') s)
            in if scope = [] \<or> CHR ''%'' \<in> set scope then None
               else map_option (\<lambda>n. (n, Some scope)) (parse_v6_int addr)))"

definition print_v6 :: "nat \<Rightarrow> string option \<Rightarrow> string" where
  "print_v6 n scope = print_v6_int n @ (case scope of None \<Rightarrow> [] | Some z \<Rightarrow> ''%'' @ z)"

text \<open>\<open>ipaddress.ip_address(s)\<close>; \<^const>\<open>None\<close> is its \<open>ValueError\<close>.\<close>

definition ip_address :: "string \<Rightarrow> ip_addr option" where
  "ip_address s =
     (case parse_v4 s of
        Some n \<Rightarrow> Some (V4 n)
      | None \<Rightarrow> map_option (\<lambda>(n, z). V6 n z) (parse_v6 s))"

fun str_addr :: "ip_addr \<Rightarrow> string" where
  "str_addr (V4 n) = print_v4 n"
| "str_addr (V6 n z) = print_v6 n z"

definition parse_prefix :: "nat \<Rightarrow> string \<Rightarrow> nat option" where
  "parse_prefix width s =
     (if s = [] \<or> \<not> list_all is_digit s \<or> width < digits_val s then None else Some (digits_val s))"

text \<open>The prefix length whose netmask is the given number.\<close>

definition prefix_of_mask :: "nat \<Rightarrow> nat option" where
  "prefix_of_mask netmask = List.find (\<lambda>p. netmask = 2 ^ 32 - 2 ^ (32 - p)) [0..<33]"

definition parse_mask_v4 :: "string \<Rightarrow> nat option" where
  "parse_mask_v4 s =
     (case parse_prefix 32 s of
        Some p \<Rightarrow> Some p
      | None \<Rightarrow>
          (case parse_v4 s of
             None \<Rightarrow> None
           | Some n \<Rightarrow>
               (case prefix_of_mask n of Some p \<Rightarrow> Some p | None \<Rightarrow> prefix_of_mask (2 ^ 32 - 1 - n))))"

text \<open>\<open>n & netmask\<close>: the low \<open>h\<close> bits cleared.\<close>

definition clear_host :: "nat \<Rightarrow> nat \<Rightarrow> nat" where
  "clear_host h n = n div 2 ^ h * 2 ^ h"

definition network_v4 :: "string \<Rightarrow> nat option \<Rightarrow> ip_net option" where
  "network_v4 addr prefix_len =
     (case (parse_v4 addr, prefix_len) of
        (Some n, Some p) \<Rightarrow> Some (Net4 (clear_host (32 - p) n) p)
      | _ \<Rightarrow> None)"

text \<open>The scope survives only where no host bit is set.\<close>

definition network_v6 :: "string \<Rightarrow> nat option \<Rightarrow> ip_net option" where
  "network_v6 addr prefix_len =
     (case (parse_v6 addr, prefix_len) of
        (Some (n, z), Some p) \<Rightarrow>
          Some (if clear_host (128 - p) n = n then Net6 n z p else Net6 (clear_host (128 - p) n) None p)
      | _ \<Rightarrow> None)"

text \<open>\<open>ipaddress.ip_network(s, strict=False)\<close>\<close>

definition ip_network :: "string \<Rightarrow> ip_net option" where
  "ip_network s =
     (case split_on (CHR ''/'') s of
        [addr] \<Rightarrow>
          (case network_v4 addr (Some 32) of Some n \<Rightarrow> Some n | None \<Rightarrow> network_v6 addr (Some 128))
      | [addr, msk] \<Rightarrow>
          (case network_v4 addr (parse_mask_v4 msk) of
             Some n \<Rightarrow> Some n
           | None \<Rightarrow> network_v6 addr (parse_prefix 128 msk))
      | _ \<Rightarrow> None)"

fun str_net :: "ip_net \<Rightarrow> string" where
  "str_net (Net4 n p) = print_v4 n @ ''/'' @ str_nat p"
| "str_net (Net6 n z p) = print_v6 n z @ ''/'' @ str_nat p"

text \<open>\<open>address in network\<close>\<close>

fun ip_in :: "ip_addr \<Rightarrow> ip_net \<Rightarrow> bool" where
  "ip_in (V4 a) (Net4 n p) \<longleftrightarrow> clear_host (32 - p) a = n"
| "ip_in (V6 a z) (Net6 n y p) \<longleftrightarrow> clear_host (128 - p) a = n"
| "ip_in _ _ \<longleftrightarrow> False"

section \<open>Reading printed addresses\<close>

lemma is_digit_no_sep:
  "is_digit c \<Longrightarrow> c \<noteq> CHR ''.'' \<and> c \<noteq> CHR '':'' \<and> c \<noteq> CHR ''/'' \<and> c \<noteq> CHR ''%'' \<and> c \<noteq> CHR '',''"
  by (auto simp: is_digit_def)

lemma str_nat_no_sep [simp]:
  "CHR ''.'' \<notin> set (str_nat n)" "CHR '':'' \<notin> set (str_nat n)" "CHR ''/'' \<notin> set (str_nat n)"
  "CHR ''%'' \<notin> set (str_nat n)" "CHR '','' \<notin> set (str_nat n)"
  using str_nat_digits is_digit_no_sep by blast+

lemma str_nat_all_digits [simp]: "list_all is_digit (str_nat n)"
  using str_nat_digits by (auto simp: list_all_iff)

lemma str_nat_hd: "n \<noteq> 0 \<Longrightarrow> hd (str_nat n) \<noteq> CHR ''0''"
proof (induction n rule: str_nat.induct)
  case (1 n)
  show ?case
  proof (cases "n < 10")
    case True
    then have "(of_char (digit_char n) :: nat) \<noteq> of_char CHR ''0''" using 1(2) by simp
    then have "digit_char n \<noteq> CHR ''0''" by metis
    then show ?thesis using True by (simp add: str_nat.simps [of n])
  next
    case False
    then show ?thesis using 1(1) by (simp add: str_nat.simps [of n])
  qed
qed

lemma length_str_nat_octet: "n < 256 \<Longrightarrow> length (str_nat n) \<le> 3"
  by (simp add: str_nat.simps [of n] str_nat.simps [of "n div 10"] str_nat.simps [of "n div 10 div 10"])

lemma str_nat_small: "n < 10 \<Longrightarrow> str_nat n = [digit_char n]"
  by (simp add: str_nat.simps)

lemma parse_octet_str_nat [simp]: "n < 256 \<Longrightarrow> parse_octet (str_nat n) = Some n"
  using length_str_nat_octet [of n] str_nat_hd [of n] digits_val_str_nat [of n] str_nat_small [of n]
  by (cases "n < 10") (auto simp: parse_octet_def)

lemma div_step: "n div (a * b) * b + n div a mod b = n div (a::nat)"
  by (simp add: div_mult2_eq)

lemma parse_octet_bound: "parse_octet s = Some n \<Longrightarrow> n < 256"
  by (auto simp: parse_octet_def split: if_splits)

lemma parse_v4_print_v4 [simp]: "n < 2 ^ 32 \<Longrightarrow> parse_v4 (print_v4 n) = Some n"
proof -
  assume n: "n < 2 ^ 32"
  let ?ws = "[str_nat (n div 16777216), str_nat (n div 65536 mod 256), str_nat (n div 256 mod 256), str_nat (n mod 256)]"
  have "split_on (CHR ''.'') (print_v4 n) = ?ws"
    unfolding print_v4_def by (rule split_on_join) simp_all
  moreover have "((n div 16777216 * 256 + n div 65536 mod 256) * 256 + n div 256 mod 256) * 256 + n mod 256 = n"
    using div_step [of n 65536 256] div_step [of n 256 256] div_step [of n 1 256] by simp
  moreover have "n div 16777216 < 256" using n by simp
  ultimately show ?thesis using n by (simp add: parse_v4_def)
qed

lemma parse_v4_bound: "parse_v4 s = Some n \<Longrightarrow> n < 2 ^ 32"
  by (auto simp: parse_v4_def split: list.splits option.splits dest!: parse_octet_bound)

lemma print_v4_chars: "c \<in> set (print_v4 n) \<Longrightarrow> is_digit c \<or> c = CHR ''.''"
  by (auto simp: print_v4_def dest: str_nat_digits)

lemma hex_val_hex_digit [simp]: "d < 16 \<Longrightarrow> hex_val (hex_digit d) = Some d"
  by (auto simp: hex_val_def hex_digit_def Let_def)

lemma hex_str_chars: "c \<in> set (hex_str n) \<Longrightarrow> hex_val c \<noteq> None"
  by (induction n rule: hex_str.induct) (subst (asm) hex_str.simps, auto split: if_splits)

lemma hex_char_no_sep:
  "hex_val c \<noteq> None \<Longrightarrow> c \<noteq> CHR ''.'' \<and> c \<noteq> CHR '':'' \<and> c \<noteq> CHR ''/'' \<and> c \<noteq> CHR ''%'' \<and> c \<noteq> CHR '','' \<and> \<not> py_space c"
  by (auto simp: hex_val_def py_space_def Let_def)

lemma hex_str_no_sep [simp]:
  "CHR ''.'' \<notin> set (hex_str n)" "CHR '':'' \<notin> set (hex_str n)"
  using hex_str_chars hex_char_no_sep by blast+

lemma hex_str_nonempty [simp]: "hex_str n \<noteq> []"
  by (subst hex_str.simps) simp

lemma hex_num_hex_str [simp]: "hex_num (hex_str n) = n"
proof (induction n rule: hex_str.induct)
  case (1 n)
  then show ?case
    by (cases "n < 16") (simp_all add: hex_str.simps [of n] hex_num_def)
qed

lemma hex_digit_0 [simp]: "hex_digit 0 = CHR ''0''"
  using char_of_char [of "CHR ''0''", where 'a = nat] by (simp add: hex_digit_def del: char_of_char)

lemma hex_str_0 [simp]: "hex_str n = ''0'' \<longleftrightarrow> n = 0"
proof
  assume "hex_str n = ''0''"
  then have "hex_num (hex_str n) = hex_num ''0''" by simp
  also have "hex_num ''0'' = 0" by (simp add: hex_num_def hex_val_def)
  finally show "n = 0" by simp
qed (simp add: hex_str.simps)

lemma length_hex_str: "n < 65536 \<Longrightarrow> length (hex_str n) \<le> 4"
  by (simp add: hex_str.simps [of n] hex_str.simps [of "n div 16"] hex_str.simps [of "n div 256"]
      hex_str.simps [of "n div 4096"] div_mult2_eq [symmetric])

lemma parse_hextet_hex_str [simp]: "n < 65536 \<Longrightarrow> parse_hextet (hex_str n) = Some n"
  using length_hex_str [of n] hex_str_chars [of _ n] by (auto simp: parse_hextet_def list_ex_iff)

lemma hex_val_bound: "hex_val c = Some d \<Longrightarrow> d < 16"
  by (auto simp: hex_val_def Let_def split: if_splits)

lemma hex_num_bound: "\<forall>c \<in> set s. hex_val c \<noteq> None \<Longrightarrow> hex_num s < 16 ^ length s"
proof (induction s rule: rev_induct)
  case (snoc c s)
  then obtain d where "hex_val c = Some d" "d < 16" using hex_val_bound by auto
  with snoc show ?case by (simp add: hex_num_def)
qed (simp add: hex_num_def)

lemma parse_hextet_bound: "parse_hextet s = Some h \<Longrightarrow> h < 65536"
proof -
  assume p: "parse_hextet s = Some h"
  then have "hex_num s < 16 ^ length s" "length s \<le> 4" "h = hex_num s"
    by (auto simp: parse_hextet_def list_ex_iff intro!: hex_num_bound split: if_splits)
  moreover have "(16::nat) ^ length s \<le> 16 ^ 4" using \<open>length s \<le> 4\<close> by (intro power_increasing) auto
  ultimately show ?thesis by simp
qed

lemma parse_hextets_append:
  "parse_hextets n (xs @ ys) = (case parse_hextets n xs of None \<Rightarrow> None | Some m \<Rightarrow> parse_hextets m ys)"
  by (induction xs arbitrary: n) (auto split: option.splits)

lemma parse_hextets_zeros: "parse_hextets n (replicate k ''0'') = Some (n * 65536 ^ k)"
proof (induction k arbitrary: n)
  case (Suc k)
  have "parse_hextet ''0'' = Some 0" by (simp add: parse_hextet_def hex_val_def hex_num_def)
  then show ?case using Suc by (simp add: mult.assoc)
qed simp

lemma length_hextets [simp]: "length (hextets n) = 8"
  by (simp add: hextets_def)

lemma hextets_bound: "h \<in> set (hextets n) \<Longrightarrow> h < 65536"
  by (auto simp: hextets_def)

lemma parse_hextets_map:
  "\<forall>h \<in> set hs. h < 65536 \<Longrightarrow>
   parse_hextets n (List.map hex_str hs) = Some (foldl (\<lambda>m h. m * 65536 + h) n hs)"
  by (induction hs arbitrary: n) simp_all

lemma foldl_hextets: "n < 2 ^ 128 \<Longrightarrow> foldl (\<lambda>m h. m * 65536 + h) 0 (hextets n) = n"
proof -
  assume n: "n < 2 ^ 128"
  define q where "q i = n div 65536 ^ i" for i
  have step: "q j * 65536 + q i mod 65536 = q i" if "j = Suc i" for i j
    unfolding that using div_step [of n "65536 ^ i" 65536] by (simp add: q_def mult.commute)
  have top: "q 7 mod 65536 = q 7"
    using n by (simp add: q_def)
  have eqs: "q 7 * 65536 + q 6 mod 65536 = q 6" "q 6 * 65536 + q 5 mod 65536 = q 5"
    "q 5 * 65536 + q 4 mod 65536 = q 4" "q 4 * 65536 + q 3 mod 65536 = q 3"
    "q 3 * 65536 + q 2 mod 65536 = q 2" "q 2 * 65536 + q 1 mod 65536 = q 1"
    "q 1 * 65536 + q 0 mod 65536 = q 0"
    by (simp_all add: step)
  have "hextets n = List.map (\<lambda>i. q i mod 65536) [7, 6, 5, 4, 3, 2, 1, 0]"
    by (simp add: hextets_def q_def)
  then show ?thesis using top eqs by (simp add: q_def [of 0])
qed

text \<open>The run the loop settles on consists of zero words and lies in the list.\<close>

definition run_ok :: "string list \<Rightarrow> nat \<times> nat \<Rightarrow> bool" where
  "run_ok ss r \<longleftrightarrow> fst r + snd r \<le> length ss \<and> take (snd r) (drop (fst r) ss) = replicate (snd r) ''0''"

lemma run_ok_append: "run_ok ss r \<Longrightarrow> run_ok (ss @ ts) r"
  by (auto simp: run_ok_def)

lemma zero_run_ok:
  assumes "i = length done" and "cur \<le> i" and "drop (i - cur) done = replicate cur ''0''" and "run_ok done best"
  shows "run_ok (done @ ss) (zero_run i cur best ss)"
  using assms
proof (induction i cur best ss arbitrary: "done" rule: zero_run.induct)
  case (2 i cur best s ss)
  show ?case
  proof (cases "s = ''0''")
    case True
    have r: "drop (i - cur) (done @ [s]) = replicate (Suc cur) ''0''"
      using 2 True by (simp add: replicate_append_same)
    then have "run_ok (done @ [s]) (i - cur, Suc cur)"
      using 2 by (simp add: run_ok_def)
    then have b: "run_ok (done @ [s]) (if snd best < Suc cur then (i - cur, Suc cur) else best)"
      using 2 run_ok_append by simp
    have "run_ok ((done @ [s]) @ ss) (zero_run (Suc i) (Suc cur) (if snd best < Suc cur then (i - cur, Suc cur) else best) ss)"
      using True 2(3-6) r b by (intro 2(1)) simp_all
    then show ?thesis using True by simp
  next
    case False
    have "run_ok ((done @ [s]) @ ss) (zero_run (Suc i) 0 best ss)"
      using False 2(3-6) by (intro 2(2)) (simp_all add: run_ok_append)
    then show ?thesis using False by simp
  qed
qed simp

lemma zero_run_whole: "run_ok ss (zero_run 0 0 (0, 0) ss)"
  using zero_run_ok [of 0 "[]" 0 "(0, 0)" ss] by (simp add: run_ok_def)

lemma empties_none: "\<forall>s \<in> set ss. s \<noteq> [] \<Longrightarrow> empties i ss = []"
  by (induction ss arbitrary: i) simp_all

lemma empties_append: "empties i (xs @ ys) = empties i xs @ empties (i + length xs) ys"
  by (induction xs arbitrary: i) simp_all

text \<open>The words around \<open>::\<close> are told apart from the empty ones that border it.\<close>

definition elided :: "string list \<Rightarrow> string list \<Rightarrow> string list" where
  "elided A B = (if A = [] then [[]] else []) @ A @ [[]] @ B @ (if B = [] then [[]] else [])"

lemma hextet_counts_elided:
  assumes "\<forall>s \<in> set A. s \<noteq> []" and "\<forall>s \<in> set B. s \<noteq> []" and "length A + length B \<le> 7"
  shows "hextet_counts (elided A B) = Some (length A, 8 - (length A + length B), length B)"
proof -
  have B: "\<forall>s \<in> set (butlast B). s \<noteq> []" using assms(2) by (auto dest: in_set_butlastD)
  have A: "\<forall>s \<in> set (tl A). s \<noteq> []" using assms(1) by (cases A) auto
  show ?thesis
  proof (cases "A = []"; cases "B = []")
    assume "A = []" "B = []" then show ?thesis by (simp add: elided_def hextet_counts_def)
  next
    assume c: "A = []" "B \<noteq> []"
    then show ?thesis
      using assms B by (auto simp: elided_def hextet_counts_def empties_none Let_def)
  next
    assume c: "A \<noteq> []" "B = []"
    then show ?thesis
      using assms A by (auto simp: elided_def hextet_counts_def empties_none empties_append Let_def butlast_append)
  next
    assume c: "A \<noteq> []" "B \<noteq> []"
    then have "length A + 1 \<le> 8" "1 \<le> length A" using assms(3) by (auto simp: Suc_le_eq)
    with c show ?thesis
      using assms A B
      by (auto simp: elided_def hextet_counts_def empties_none empties_append Let_def butlast_append)
  qed
qed

lemma elided_parts:
  "take (length A) (elided A B) = A" "drop (length (elided A B) - length B) (elided A B) = B"
  "length (elided A B) \<le> length A + length B + 3" "3 \<le> length (elided A B)"
  by (cases A; cases B; simp add: elided_def)+

lemma last_compress_no_dot:
  "\<forall>s \<in> set ss. CHR ''.'' \<notin> set s \<Longrightarrow> ss \<noteq> [] \<Longrightarrow> expand_v4 ss = Some ss"
  using last_in_set by (auto simp: expand_v4_def)

lemma parse_v6_parts_elided:
  assumes "\<forall>s \<in> set (A @ B). s \<noteq> [] \<and> CHR ''.'' \<notin> set s" and "length A + length B \<le> 6"
    and "parse_hextets 0 (A @ replicate (8 - (length A + length B)) ''0'' @ B) = Some n"
  shows "parse_v6_parts (elided A B) = Some n"
proof -
  obtain m where m: "parse_hextets 0 A = Some m"
    using assms(3) by (auto simp: parse_hextets_append split: option.splits)
  have "parse_hextets (m * 65536 ^ (8 - (length A + length B))) B = Some n"
    using assms(3) m by (simp add: parse_hextets_append parse_hextets_zeros)
  moreover have "expand_v4 (elided A B) = Some (elided A B)"
    using assms(1) by (intro last_compress_no_dot) (auto simp: elided_def split: if_splits)
  moreover have "length (elided A B) \<le> 9" using assms(2) elided_parts(3) [of A B] by linarith
  moreover have "hextet_counts (elided A B) = Some (length A, 8 - (length A + length B), length B)"
    using assms(1,2) by (intro hextet_counts_elided) auto
  ultimately show ?thesis
    using m elided_parts(4) [of A B] by (simp add: parse_v6_parts_def elided_parts(1,2))
qed

lemma parse_v6_parts_compress:
  assumes "length ss = 8" and "\<forall>s \<in> set ss. s \<noteq> [] \<and> CHR ''.'' \<notin> set s" and "parse_hextets 0 ss = Some n"
  shows "parse_v6_parts (compress ss) = Some n"
proof -
  obtain start len where z: "zero_run 0 0 (0, 0) ss = (start, len)" by fastforce
  then have ok: "start + len \<le> 8" "take len (drop start ss) = replicate len ''0''"
    using zero_run_whole [of ss] assms(1) by (auto simp: run_ok_def)
  show ?thesis
  proof (cases "1 < len")
    case True
    let ?A = "take start ss" and ?B = "drop (start + len) ss"
    have ss: "ss = ?A @ replicate len ''0'' @ ?B"
      using ok by (metis add.commute append_take_drop_id drop_drop)
    have c: "compress ss = elided ?A ?B"
      using z True assms(1) ok(1) by (auto simp: compress_def elided_def)
    have l: "length ?A = start" "length ?B = 8 - (start + len)" using assms(1) ok by auto
    then have r: "8 - (length ?A + length ?B) = len" using ok by simp
    have "parse_hextets 0 (?A @ replicate (8 - (length ?A + length ?B)) ''0'' @ ?B) = Some n"
      unfolding r using ss assms(3) by simp
    then show ?thesis
      unfolding c using assms(2) l ok True
      by (intro parse_v6_parts_elided) (auto dest: in_set_takeD in_set_dropD)
  next
    case False
    have e: "\<forall>s \<in> set (butlast (tl ss)). s \<noteq> []"
      using assms(2) by (metis in_set_butlastD list.set_sel(2) tl_Nil)
    have "ss \<noteq> []" using assms(1) by auto
    then have "hextet_counts ss = Some (8, 0, 0)"
      using assms(1,2) e by (simp add: hextet_counts_def empties_none)
    moreover have "expand_v4 ss = Some ss" using assms(2) \<open>ss \<noteq> []\<close> by (simp add: last_compress_no_dot)
    ultimately show ?thesis using z False assms by (simp add: compress_def parse_v6_parts_def)
  qed
qed

lemma compress_nonempty: "ss \<noteq> [] \<Longrightarrow> compress ss \<noteq> []"
  by (auto simp: compress_def split: prod.splits)

lemma set_compress: "s \<in> set (compress ss) \<Longrightarrow> s \<in> set ss \<or> s = []"
  by (auto simp: compress_def Let_def split: prod.splits if_splits dest: in_set_takeD in_set_dropD)

lemma parse_v6_int_print [simp]: "n < 2 ^ 128 \<Longrightarrow> parse_v6_int (print_v6_int n) = Some n"
proof -
  assume n: "n < 2 ^ 128"
  let ?ss = "List.map hex_str (hextets n)"
  have "compress ?ss \<noteq> []" by (rule compress_nonempty) (metis length_hextets length_map list.size(3) zero_neq_numeral)
  then have "split_on (CHR '':'') (print_v6_int n) = compress ?ss"
    unfolding print_v6_int_def by (intro split_on_join) (auto dest!: set_compress)
  moreover have "parse_hextets 0 ?ss = Some n"
    using n foldl_hextets parse_hextets_map [of "hextets n" 0] hextets_bound by simp
  then have "parse_v6_parts (compress ?ss) = Some n" by (intro parse_v6_parts_compress) auto
  ultimately show ?thesis by (simp add: parse_v6_int_def)
qed

lemma parse_v6_int_colon: "parse_v6_int s = Some n \<Longrightarrow> CHR '':'' \<in> set s"
  by (rule ccontr) (auto simp: parse_v6_int_def parse_v6_parts_def split_on_no_sep)

lemma join_split_on: "join [d] (split_on d s) = s"
proof (induction s)
  case (Cons c cs)
  then show ?case by (cases "split_on d cs"; cases "tl (split_on d cs)") auto
qed simp

lemma set_join: "set (join [d] ws) \<subseteq> insert d (\<Union> (set ` set ws))"
  by (induction "[d]" ws rule: join.induct) auto

lemma parse_octet_digits: "parse_octet s = Some n \<Longrightarrow> c \<in> set s \<Longrightarrow> is_digit c"
  by (auto simp: parse_octet_def list_all_iff split: if_splits)

lemma parse_v4_chars: "parse_v4 s = Some n \<Longrightarrow> c \<in> set s \<Longrightarrow> is_digit c \<or> c = CHR ''.''"
proof -
  assume p: "parse_v4 s = Some n" and c: "c \<in> set s"
  obtain a b d e where ws: "split_on (CHR ''.'') s = [a, b, d, e]"
    using p by (auto simp: parse_v4_def split: list.splits)
  have oct: "parse_octet w \<noteq> None" if "w \<in> {a, b, d, e}" for w
    using p ws that by (auto simp: parse_v4_def split: option.splits)
  have "c \<in> insert (CHR ''.'') (\<Union> (set ` set (split_on (CHR ''.'') s)))"
    using c set_join [of "CHR ''.''" "split_on (CHR ''.'') s"] by (auto simp only: join_split_on)
  then consider "c = CHR ''.''" | w where "w \<in> {a, b, d, e}" "c \<in> set w"
    unfolding ws by auto
  then show ?thesis
  proof cases
    case (2 w)
    then show ?thesis using oct [of w] parse_octet_digits [of w] by auto
  qed simp
qed

lemma parse_v4_None: "c \<in> set s \<Longrightarrow> \<not> is_digit c \<Longrightarrow> c \<noteq> CHR ''.'' \<Longrightarrow> parse_v4 s = None"
  using parse_v4_chars by (cases "parse_v4 s") auto

lemma print_v6_int_chars: "c \<in> set (print_v6_int n) \<Longrightarrow> hex_val c \<noteq> None \<or> c = CHR '':''"
proof -
  assume "c \<in> set (print_v6_int n)"
  then have "c \<in> insert (CHR '':'') (\<Union> (set ` set (compress (List.map hex_str (hextets n)))))"
    using set_join [of "CHR '':''" "compress (List.map hex_str (hextets n))"]
    unfolding print_v6_int_def by blast
  then consider "c = CHR '':''" | s where "s \<in> set (compress (List.map hex_str (hextets n)))" "c \<in> set s"
    by auto
  then show ?thesis by cases (auto dest!: set_compress dest: hex_str_chars)
qed

section \<open>Well-formed values\<close>

text \<open>A scope identifier is not empty and holds neither \<open>%\<close> nor \<open>/\<close>.\<close>

definition scope_ok :: "string option \<Rightarrow> bool" where
  "scope_ok z = (case z of None \<Rightarrow> True | Some s \<Rightarrow> s \<noteq> [] \<and> CHR ''%'' \<notin> set s \<and> CHR ''/'' \<notin> set s)"

fun addr_ok :: "ip_addr \<Rightarrow> bool" where
  "addr_ok (V4 n) \<longleftrightarrow> n < 2 ^ 32"
| "addr_ok (V6 n z) \<longleftrightarrow> n < 2 ^ 128 \<and> scope_ok z"

fun net_ok :: "ip_net \<Rightarrow> bool" where
  "net_ok (Net4 n p) \<longleftrightarrow> n < 2 ^ 32 \<and> p \<le> 32 \<and> clear_host (32 - p) n = n"
| "net_ok (Net6 n z p) \<longleftrightarrow> n < 2 ^ 128 \<and> scope_ok z \<and> p \<le> 128 \<and> clear_host (128 - p) n = n"

lemma clear_host_idem [simp]: "clear_host h (clear_host h n) = clear_host h n"
  by (simp add: clear_host_def)

lemma clear_host_le: "clear_host h n \<le> n"
  by (simp add: clear_host_def)

lemma clear_host_0 [simp]: "clear_host 0 n = n"
  by (simp add: clear_host_def)

lemma clear_host_eq_iff: "clear_host h a = clear_host h b \<longleftrightarrow> a div 2 ^ h = b div 2 ^ h"
  by (simp add: clear_host_def)

lemma print_v6_no_sep:
  "scope_ok z \<Longrightarrow> CHR ''/'' \<notin> set (print_v6 n z)"
  by (auto simp: print_v6_def scope_ok_def dest!: print_v6_int_chars hex_char_no_sep split: option.splits)

lemma parse_v6_print_v6 [simp]:
  assumes "n < 2 ^ 128" and "scope_ok z"
  shows "parse_v6 (print_v6 n z) = Some (n, z)"
proof -
  have np: "\<forall>c \<in> set (print_v6_int n). c \<noteq> CHR ''%''"
    using print_v6_int_chars hex_char_no_sep by fastforce
  show ?thesis
  proof (cases z)
    case None
    then show ?thesis using assms np print_v6_no_sep [of None n] by (auto simp: parse_v6_def print_v6_def)
  next
    case (Some s)
    have "takeWhile (\<lambda>c. c \<noteq> CHR ''%'') (print_v6_int n @ CHR ''%'' # s) = print_v6_int n"
      "dropWhile (\<lambda>c. c \<noteq> CHR ''%'') (print_v6_int n @ CHR ''%'' # s) = CHR ''%'' # s"
      using np by simp_all
    then show ?thesis
      using Some assms print_v6_no_sep [of z n] by (simp add: parse_v6_def print_v6_def scope_ok_def)
  qed
qed

lemma parse_v4_print_v6 [simp]: "n < 2 ^ 128 \<Longrightarrow> parse_v4 (print_v6 n z) = None"
proof -
  assume "n < 2 ^ 128"
  then have "CHR '':'' \<in> set (print_v6_int n)" using parse_v6_int_colon parse_v6_int_print by blast
  then show ?thesis by (intro parse_v4_None [of "CHR '':''"]) (auto simp: print_v6_def is_digit_def)
qed

text \<open>Reading what was printed.\<close>

lemma ip_address_str_addr: "addr_ok a \<Longrightarrow> ip_address (str_addr a) = Some a"
  by (cases a) (simp_all add: ip_address_def)

lemma print_v4_no_sep [simp]: "CHR ''/'' \<notin> set (print_v4 n)" "CHR '':'' \<notin> set (print_v4 n)"
  using print_v4_chars is_digit_no_sep by fastforce+

lemma parse_prefix_str_nat [simp]: "p \<le> w \<Longrightarrow> parse_prefix w (str_nat p) = Some p"
  by (simp add: parse_prefix_def)

lemma ip_network_str_net: "net_ok n \<Longrightarrow> ip_network (str_net n) = Some n"
  by (cases n) (simp_all add: ip_network_def split_on_append_sep split_on_no_sep print_v6_no_sep
      network_v4_def network_v6_def parse_mask_v4_def)

lemma parse_hextets_bound:
  "parse_hextets n ss = Some m \<Longrightarrow> n < 65536 ^ k \<Longrightarrow> m < 65536 ^ (k + length ss)"
proof (induction n ss arbitrary: k rule: parse_hextets.induct)
  case (2 n s ss)
  then obtain h where h: "parse_hextet s = Some h" "parse_hextets (n * 65536 + h) ss = Some m"
    by (auto split: option.splits)
  then have "h < 65536" using parse_hextet_bound by blast
  then have "n * 65536 + h < 65536 ^ Suc k" using 2(3) by (simp add: less_eq_Suc_le)
  then show ?case using 2(1) [OF h(1) h(2)] by fastforce
qed simp

lemma hextet_counts_sum: "hextet_counts ss = Some (hi, sk, lo) \<Longrightarrow> hi + sk + lo = 8"
  by (auto simp: hextet_counts_def Let_def split: list.splits if_splits)

lemma parse_v6_int_bound: "parse_v6_int s = Some n \<Longrightarrow> n < 2 ^ 128"
proof -
  assume "parse_v6_int s = Some n"
  then obtain ss hi sk lo m where
    c: "hextet_counts ss = Some (hi, sk, lo)" and
    m: "parse_hextets 0 (take hi ss) = Some m" and
    n: "parse_hextets (m * 65536 ^ sk) (drop (length ss - lo) ss) = Some n"
    by (auto simp: parse_v6_int_def parse_v6_parts_def split: if_splits option.splits)
  have "m < 65536 ^ length (take hi ss)"
    using parse_hextets_bound [OF m, of 0] by simp
  also have "(65536::nat) ^ length (take hi ss) \<le> 65536 ^ hi" by (intro power_increasing) auto
  finally have "m < 65536 ^ hi" .
  then have "m * 65536 ^ sk < 65536 ^ (hi + sk)" by (simp add: power_add)
  from parse_hextets_bound [OF n this]
  have "n < 65536 ^ (hi + sk + length (drop (length ss - lo) ss))" .
  also have "(65536::nat) ^ (hi + sk + length (drop (length ss - lo) ss)) \<le> 65536 ^ 8"
    using hextet_counts_sum [OF c] by (intro power_increasing) auto
  finally show ?thesis by simp
qed

lemma set_tl_subset: "set (tl xs) \<subseteq> set xs"
  by (cases xs) auto

lemma parse_v6_cases:
  assumes "parse_v6 s = Some (n, z)"
  obtains "z = None" "parse_v6_int s = Some n"
  | addr zone where "z = Some zone" "zone \<noteq> []" "CHR ''%'' \<notin> set zone" "CHR ''/'' \<notin> set s"
      "set zone \<subseteq> set s" "parse_v6_int addr = Some n"
proof (cases "CHR ''%'' \<in> set s")
  case True
  let ?r = "dropWhile (\<lambda>c. c \<noteq> CHR ''%'') s" and ?a = "takeWhile (\<lambda>c. c \<noteq> CHR ''%'') s"
  have sub: "set (tl ?r) \<subseteq> set s"
    by (rule subset_trans [OF set_tl_subset set_dropWhile_subset])
  have ns: "CHR ''/'' \<notin> set s"
    using assms unfolding parse_v6_def by (cases "CHR ''/'' \<in> set s") simp_all
  have e: "parse_v6 s = (if tl ?r = [] \<or> CHR ''%'' \<in> set (tl ?r) then None
      else map_option (\<lambda>n. (n, Some (tl ?r))) (parse_v6_int ?a))"
    unfolding parse_v6_def Let_def using ns True by simp
  have c: "\<not> (tl ?r = [] \<or> CHR ''%'' \<in> set (tl ?r))"
    using assms unfolding e by (rule contrapos_pn) simp
  then have "map_option (\<lambda>n. (n, Some (tl ?r))) (parse_v6_int ?a) = Some (n, z)"
    using assms unfolding e by (simp only: if_False)
  then have "z = Some (tl ?r)" "parse_v6_int ?a = Some n" by auto
  then show ?thesis using that(2) [of "tl ?r" ?a] c ns sub by blast
next
  case False
  then show ?thesis using that(1) assms by (auto simp: parse_v6_def split: if_splits)
qed

lemma parse_v6_ok: "parse_v6 s = Some (n, z) \<Longrightarrow> n < 2 ^ 128 \<and> scope_ok z"
proof (erule parse_v6_cases)
  fix addr zone assume "z = Some zone" "zone \<noteq> []" "CHR ''%'' \<notin> set zone" "CHR ''/'' \<notin> set s"
    "set zone \<subseteq> set s" "parse_v6_int addr = Some n"
  moreover from this have "n < 2 ^ 128" using parse_v6_int_bound by blast
  ultimately show ?thesis by (simp add: scope_ok_def subset_iff) blast
next
  assume "z = None" "parse_v6_int s = Some n"
  then show ?thesis using parse_v6_int_bound [of s n] by (simp add: scope_ok_def)
qed

lemma parse_v6_scope: "parse_v6 s = Some (n, Some z) \<Longrightarrow> set z \<subseteq> set s"
  by (erule parse_v6_cases) simp_all

lemma ip_address_ok: "ip_address s = Some a \<Longrightarrow> addr_ok a"
  using parse_v4_bound parse_v6_ok by (cases a) (auto simp: ip_address_def split: option.splits)

lemma parse_prefix_bound: "parse_prefix w s = Some p \<Longrightarrow> p \<le> w"
  by (auto simp: parse_prefix_def split: if_splits)

lemma prefix_of_mask_bound: "prefix_of_mask m = Some p \<Longrightarrow> p \<le> 32"
  by (auto simp: prefix_of_mask_def find_Some_iff)

lemma parse_mask_v4_bound: "parse_mask_v4 s = Some p \<Longrightarrow> p \<le> 32"
  by (auto simp: parse_mask_v4_def prefix_of_mask_bound dest: parse_prefix_bound split: option.splits)

lemma network_v4_ok: "network_v4 s p = Some n \<Longrightarrow> (\<And>q. p = Some q \<Longrightarrow> q \<le> 32) \<Longrightarrow> net_ok n"
  using order_le_less_trans [OF clear_host_le parse_v4_bound]
  by (auto simp: network_v4_def split: option.splits)

lemma network_v6_ok: "network_v6 s p = Some n \<Longrightarrow> (\<And>q. p = Some q \<Longrightarrow> q \<le> 128) \<Longrightarrow> net_ok n"
proof -
  assume n: "network_v6 s p = Some n" and q: "\<And>q. p = Some q \<Longrightarrow> q \<le> 128"
  obtain m z k where mz: "parse_v6 s = Some (m, z)" "p = Some k"
    using n by (auto simp: network_v6_def split: option.splits)
  have "clear_host (128 - k) m < 2 ^ 128"
    using clear_host_le [of "128 - k" m] parse_v6_ok [OF mz(1)] by linarith
  then show ?thesis
    using n mz q [OF mz(2)] parse_v6_ok [OF mz(1)] by (auto simp: network_v6_def scope_ok_def split: if_splits)
qed

lemma ip_network_ok: "ip_network s = Some n \<Longrightarrow> net_ok n"
  by (auto simp: ip_network_def split: list.splits option.splits
      dest: network_v4_ok network_v6_ok parse_mask_v4_bound parse_prefix_bound)

text \<open>The characters of a printed value are its own or come from the scope that was read.\<close>

definition addr_char :: "char \<Rightarrow> bool" where
  "addr_char c \<longleftrightarrow> hex_val c \<noteq> None \<or> c \<in> {CHR ''.'', CHR '':'', CHR ''%'', CHR ''/''}"

lemma addr_char_no_sep: "addr_char c \<Longrightarrow> \<not> py_space c \<and> c \<noteq> CHR '',''"
proof (cases "hex_val c = None")
  case True
  moreover assume "addr_char c"
  ultimately have "c = CHR ''.'' \<or> c = CHR '':'' \<or> c = CHR ''%'' \<or> c = CHR ''/''" by (simp add: addr_char_def)
  then show ?thesis by (elim disjE) (simp_all add: py_space_def)
next
  case False
  then show ?thesis using hex_char_no_sep [of c] by blast
qed

lemma digit_addr_char: "is_digit c \<Longrightarrow> addr_char c"
  by (auto simp: addr_char_def is_digit_def hex_val_def Let_def)

lemma print_v6_chars: "c \<in> set (print_v6 n z) \<Longrightarrow> addr_char c \<or> (\<exists>s. z = Some s \<and> c \<in> set s)"
  by (auto simp: print_v6_def addr_char_def dest: print_v6_int_chars split: option.splits)

lemma print_v4_addr_chars: "c \<in> set (print_v4 n) \<Longrightarrow> addr_char c"
  using print_v4_chars digit_addr_char by (fastforce simp: addr_char_def)

lemma str_addr_chars:
  assumes "ip_address s = Some a" and "c \<in> set (str_addr a)"
  shows "addr_char c \<or> c \<in> set s"
proof (cases a)
  case (V4 n)
  then show ?thesis using assms(2) print_v4_addr_chars by simp
next
  case (V6 n z)
  then have "parse_v6 s = Some (n, z)"
    using assms(1) by (auto simp: ip_address_def split: option.splits)
  then show ?thesis using V6 assms(2) print_v6_chars [of c n z] parse_v6_scope by fastforce
qed

lemma network_v6_scope: "network_v6 s p = Some (Net6 n (Some z) k) \<Longrightarrow> set z \<subseteq> set s"
  using parse_v6_scope [of s n z] by (cases p) (auto simp: network_v6_def split: option.splits if_splits)

lemma str_net_chars:
  assumes "ip_network s = Some n" and "c \<in> set (str_net n)"
  shows "addr_char c \<or> c \<in> set s"
proof (cases n)
  case (Net4 m p)
  then show ?thesis
    using assms(2) print_v4_addr_chars [of c m] str_nat_digits [of c p] digit_addr_char [of c]
    by (auto simp: addr_char_def)
next
  case (Net6 m z p)
  have "set y \<subseteq> set s" if zy: "z = Some y" for y
  proof -
    have "\<exists>a \<in> set (split_on (CHR ''/'') s). \<exists>q. network_v6 a q = Some n"
      using assms(1) Net6
      by (auto simp: ip_network_def network_v4_def split: list.splits option.splits)
    then obtain a q where "a \<in> set (split_on (CHR ''/'') s)" "network_v6 a q = Some (Net6 m (Some y) p)"
      using Net6 zy by blast
    then show ?thesis using network_v6_scope [of a q m y p] set_split_on [of a] by blast
  qed
  then show ?thesis
    using Net6 assms(2) print_v6_chars [of c m z] str_nat_digits [of c p] digit_addr_char [of c]
    by (auto simp: addr_char_def)
qed

text \<open>Membership compares the bits the prefix length keeps.\<close>

lemma ip_in_v4: "net_ok (Net4 n p) \<Longrightarrow> ip_in (V4 a) (Net4 n p) \<longleftrightarrow> a div 2 ^ (32 - p) = n div 2 ^ (32 - p)"
  using clear_host_eq_iff [of "32 - p" a n] by simp

lemma ip_in_v6: "net_ok (Net6 n y p) \<Longrightarrow> ip_in (V6 a z) (Net6 n y p) \<longleftrightarrow> a div 2 ^ (128 - p) = n div 2 ^ (128 - p)"
  using clear_host_eq_iff [of "128 - p" a n] by simp

end
