(* ===== verification/Urls.thy ===== *)
theory Urls
  imports Ip_Address
begin

text \<open>
  \<open>urllib.parse.urlparse\<close> as the settings use it: scheme, network location, path, parameters, query
  and fragment of a URL. \<^const>\<open>None\<close> is the \<open>ValueError\<close> of a bracketed host that is no IPv6
  address.
\<close>

record url_parts =
  url_scheme :: string
  url_netloc :: string
  url_path :: string
  url_params :: string
  url_query :: string
  url_fragment :: string

text \<open>\<open>s.partition(d)\<close> without the separator\<close>

definition before_char :: "char \<Rightarrow> string \<Rightarrow> string" where
  "before_char d s = takeWhile (\<lambda>c. c \<noteq> d) s"

definition after_char :: "char \<Rightarrow> string \<Rightarrow> string" where
  "after_char d s = tl (dropWhile (\<lambda>c. c \<noteq> d) s)"

definition c0_or_space :: "char \<Rightarrow> bool" where
  "c0_or_space c \<longleftrightarrow> (of_char c :: nat) \<le> 32"

definition scheme_char :: "char \<Rightarrow> bool" where
  "scheme_char c = (let n = (of_char c :: nat) in
     (65 \<le> n \<and> n \<le> 90) \<or> (97 \<le> n \<and> n \<le> 122) \<or> (48 \<le> n \<and> n \<le> 57) \<or> c \<in> {CHR ''+'', CHR ''-'', CHR ''.''})"

definition ascii_alpha :: "char \<Rightarrow> bool" where
  "ascii_alpha c = (let n = (of_char c :: nat) in (65 \<le> n \<and> n \<le> 90) \<or> (97 \<le> n \<and> n \<le> 122))"

definition split_scheme :: "string \<Rightarrow> string \<times> string" where
  "split_scheme url =
     (let s = before_char (CHR '':'') url in
      if CHR '':'' \<in> set url \<and> s \<noteq> [] \<and> ascii_alpha (hd s) \<and> list_all scheme_char s
      then (lower s, after_char (CHR '':'') url)
      else ([], url))"

definition hex_digit :: "char \<Rightarrow> bool" where
  "hex_digit c = (let n = (of_char c :: nat) in
     (48 \<le> n \<and> n \<le> 57) \<or> (65 \<le> n \<and> n \<le> 70) \<or> (97 \<le> n \<and> n \<le> 102))"

text \<open>\<open>v[a-fA-F0-9]+\..+\<close>; a line feed cannot be in the text any more.\<close>

definition ip_future :: "string \<Rightarrow> bool" where
  "ip_future host \<longleftrightarrow>
     (let version = before_char (CHR ''.'') (tl host) in
      version \<noteq> [] \<and> list_all hex_digit version \<and> after_char (CHR ''.'') host \<noteq> [])"

definition bracketed_host_ok :: "string \<Rightarrow> bool" where
  "bracketed_host_ok host \<longleftrightarrow>
     (if startswith host ''v'' then ip_future host
      else (case ip_address host of Some (V6 n z) \<Rightarrow> True | _ \<Rightarrow> False))"

text \<open>\<open>rpartition("@")[2]\<close>\<close>

definition after_last :: "char \<Rightarrow> string \<Rightarrow> string" where
  "after_last d s = rev (takeWhile (\<lambda>c. c \<noteq> d) (rev s))"

definition bracketed_netloc_ok :: "string \<Rightarrow> bool" where
  "bracketed_netloc_ok netloc \<longleftrightarrow>
     (let host = after_last (CHR ''@'') netloc in
      if CHR ''['' \<in> set host
      then (let bracketed = after_char (CHR ''['') host; port = after_char (CHR '']'') bracketed
            in before_char (CHR ''['') host = [] \<and> (port = [] \<or> startswith port '':'') \<and>
               bracketed_host_ok (before_char (CHR '']'') bracketed))
      else bracketed_host_ok (before_char (CHR '':'') host))"

definition netloc_ok :: "string \<Rightarrow> bool" where
  "netloc_ok netloc \<longleftrightarrow>
     (if CHR ''['' \<in> set netloc \<and> CHR '']'' \<in> set netloc then bracketed_netloc_ok netloc
      else CHR ''['' \<notin> set netloc \<and> CHR '']'' \<notin> set netloc)"

definition netloc_end :: "char \<Rightarrow> bool" where
  "netloc_end c \<longleftrightarrow> c \<in> {CHR ''/'', CHR ''?'', CHR ''#''}"

definition USES_PARAMS :: "string list" where
  "USES_PARAMS = [[], ''ftp'', ''hdl'', ''prospero'', ''http'', ''https'', ''shttp'', ''rtsp'', ''rtsps'', ''sip'', ''sips'', ''mms'',
     ''sftp'', ''tel'']"

text \<open>The parameters follow the first semicolon of the last segment.\<close>

definition split_params :: "string \<Rightarrow> string \<times> string" where
  "split_params path =
     (let segment = after_last (CHR ''/'') path in
      if CHR '';'' \<in> set segment
      then (take (length path - length segment) path @ before_char (CHR '';'') segment, after_char (CHR '';'') segment)
      else (path, []))"

definition cleaned :: "string \<Rightarrow> string" where
  "cleaned text = List.filter (\<lambda>c. c \<notin> {CHR 0x09, CHR 0x0A, CHR 0x0D}) (dropWhile c0_or_space text)"

definition split_netloc :: "string \<Rightarrow> string \<times> string" where
  "split_netloc rest =
     (if startswith rest ''//''
      then (takeWhile (\<lambda>c. \<not> netloc_end c) (drop 2 rest), dropWhile (\<lambda>c. \<not> netloc_end c) (drop 2 rest))
      else ([], rest))"

definition urlparse :: "string \<Rightarrow> url_parts option" where
  "urlparse text =
     (let (scheme, rest) = split_scheme (cleaned text); (netloc, rest) = split_netloc rest in
      if \<not> netloc_ok netloc then None
      else (let fragment = after_char (CHR ''#'') rest; rest = before_char (CHR ''#'') rest;
                query = after_char (CHR ''?'') rest; path = before_char (CHR ''?'') rest;
                (path, params) = (if scheme \<in> set USES_PARAMS then split_params path else (path, []))
            in Some \<lparr>url_scheme = scheme, url_netloc = netloc, url_path = path, url_params = params,
                 url_query = query, url_fragment = fragment\<rparr>))"

section \<open>Facts\<close>

lemma after_char_absent [simp]: "d \<notin> set s \<Longrightarrow> after_char d s = []"
  unfolding after_char_def by (metis (mono_tags, lifting) dropWhile_eq_Nil_conv list.sel(2))

lemma before_char_absent [simp]: "d \<notin> set s \<Longrightarrow> before_char d s = s"
  unfolding before_char_def by (metis (mono_tags, lifting) takeWhile_eq_all_conv)

lemma before_char_free: "d \<notin> set (before_char d s)"
  using set_takeWhileD by (fastforce simp: before_char_def)

lemma before_after: "d \<in> set s \<Longrightarrow> s = before_char d s @ d # after_char d s"
  unfolding before_char_def after_char_def by (induction s) auto

lemma before_char_append: "d \<notin> set s \<Longrightarrow> before_char d (s @ d # t) = s"
  unfolding before_char_def by (induction s) auto

lemma after_char_append: "d \<notin> set s \<Longrightarrow> after_char d (s @ d # t) = t"
  unfolding after_char_def by (induction s) auto

section \<open>URLs with a scheme and a network location\<close>

definition absolute :: "string \<Rightarrow> string \<Rightarrow> string \<Rightarrow> string \<Rightarrow> bool" where
  "absolute p netloc tail url \<longleftrightarrow>
     url = p @ ''://'' @ netloc @ tail \<and> p \<noteq> [] \<and> ascii_alpha (hd p) \<and> list_all scheme_char p \<and>
     netloc \<noteq> [] \<and> list_all (\<lambda>c. \<not> netloc_end c) netloc \<and> netloc_ok netloc \<and> (tail = [] \<or> netloc_end (hd tail))"

lemma scheme_char_not_colon: "list_all scheme_char p \<Longrightarrow> CHR '':'' \<notin> set p"
  by (auto simp: list_all_iff scheme_char_def Let_def)

lemma takeWhile_up_to:
  "list_all P xs \<Longrightarrow> ys = [] \<or> \<not> P (hd ys) \<Longrightarrow> takeWhile P (xs @ ys) = xs \<and> dropWhile P (xs @ ys) = ys"
  by (induction xs) (cases ys; auto)+

lemma urlparse_absolute:
  assumes "absolute p netloc tail (cleaned text)"
  shows "\<exists>u. urlparse text = Some u \<and> url_scheme u = lower p \<and> url_netloc u = netloc"
    "tail = [] \<Longrightarrow> urlparse text = Some \<lparr>url_scheme = lower p, url_netloc = netloc, url_path = [], url_params = [],
      url_query = [], url_fragment = []\<rparr>"
proof -
  have p: "p \<noteq> []" "ascii_alpha (hd p)" "list_all scheme_char p" and n: "netloc_ok netloc" "list_all (\<lambda>c. \<not> netloc_end c) netloc"
    and t: "tail = [] \<or> netloc_end (hd tail)" and url: "cleaned text = p @ CHR '':'' # ''//'' @ netloc @ tail"
    using assms by (simp_all add: absolute_def)
  have colon: "CHR '':'' \<notin> set p" by (rule scheme_char_not_colon [OF p(3)])
  have s: "split_scheme (cleaned text) = (lower p, ''//'' @ netloc @ tail)"
    unfolding url split_scheme_def Let_def before_char_append [OF colon] after_char_append [OF colon] using p by simp
  have w: "takeWhile (\<lambda>c. \<not> netloc_end c) (netloc @ tail) = netloc" "dropWhile (\<lambda>c. \<not> netloc_end c) (netloc @ tail) = tail"
    using takeWhile_up_to [OF n(2), of tail] t by simp_all
  have l: "split_netloc (CHR ''/'' # CHR ''/'' # netloc @ tail) = (netloc, tail)"
    using w by (simp add: split_netloc_def startswith_def)
  note parse = urlparse_def Let_def s l
  show "\<exists>u. urlparse text = Some u \<and> url_scheme u = lower p \<and> url_netloc u = netloc"
    using n(1) by (simp add: parse split: prod.splits)
  show "urlparse text = Some \<lparr>url_scheme = lower p, url_netloc = netloc, url_path = [], url_params = [],
      url_query = [], url_fragment = []\<rparr>" if "tail = []"
    using n(1) that l [unfolded that append_Nil2] by (simp add: urlparse_def Let_def s split_params_def after_last_def)
qed

lemma absolute_urlparse:
  assumes "urlparse text = Some u" and "url_scheme u \<noteq> []" and "url_netloc u \<noteq> []"
  shows "\<exists>p tail. absolute p (url_netloc u) tail (cleaned text) \<and> lower p = url_scheme u"
proof -
  obtain scheme rest where s: "split_scheme (cleaned text) = (scheme, rest)" by (rule prod.exhaust)
  let ?p = "before_char (CHR '':'') (cleaned text)"
  obtain netloc tail where l: "split_netloc rest = (netloc, tail)" by (rule prod.exhaust)
  note parse = urlparse_def Let_def s l
  have u: "url_scheme u = scheme" "url_netloc u = netloc" "netloc_ok netloc"
    using assms(1) by (auto simp: parse split: prod.splits if_splits)
  then have scheme: "url_scheme u = scheme" and ok: "netloc_ok (url_netloc u)" and slashes: "startswith rest ''//''"
    and netloc: "url_netloc u = takeWhile (\<lambda>c. \<not> netloc_end c) (drop 2 rest)"
    using l assms(3) by (auto simp: split_netloc_def split: if_splits)
  have p: "CHR '':'' \<in> set (cleaned text)" "?p \<noteq> []" "ascii_alpha (hd ?p)" "list_all scheme_char ?p"
    "scheme = lower ?p" "rest = after_char (CHR '':'') (cleaned text)"
    using s assms(2) scheme by (auto simp: split_scheme_def Let_def split: if_splits)
  let ?tail = "dropWhile (\<lambda>c. \<not> netloc_end c) (drop 2 rest)"
  have "rest = ''//'' @ drop 2 rest"
    using slashes append_take_drop_id [of 2 rest] by (simp add: startswith_def numeral_2_eq_2)
  also have "drop 2 rest = url_netloc u @ ?tail" unfolding netloc by simp
  finally have "cleaned text = ?p @ ''://'' @ url_netloc u @ ?tail"
    using before_after [OF p(1)] p(6) by simp
  moreover have "?tail = [] \<or> netloc_end (hd ?tail)"
    using hd_dropWhile [of "\<lambda>c. \<not> netloc_end c" "drop 2 rest"] by auto
  moreover have "list_all (\<lambda>c. \<not> netloc_end c) (url_netloc u)"
    unfolding netloc list_all_iff by (auto dest: set_takeWhileD)
  ultimately show ?thesis
    using p(2-5) assms(3) ok scheme by (intro exI [of _ ?p] exI [of _ ?tail]) (simp add: absolute_def)
qed

text \<open>The location of a URL survives when slashes are cut off its end.\<close>

lemma cleaned_slashes:
  assumes "cleaned (n @ replicate k (CHR ''/'')) = c # cs" and "c \<noteq> CHR ''/''"
  shows "cleaned (n @ replicate k (CHR ''/'')) = cleaned n @ replicate k (CHR ''/'')"
proof -
  have slash: "\<not> c0_or_space (CHR ''/'')" by (simp add: c0_or_space_def)
  have "\<exists>x \<in> set n. \<not> c0_or_space x"
  proof (rule ccontr)
    assume "\<not> ?thesis"
    then have "dropWhile c0_or_space (n @ replicate k (CHR ''/'')) = dropWhile c0_or_space (replicate k (CHR ''/''))"
      by (simp add: dropWhile_append2)
    also have "\<dots> = replicate k (CHR ''/'')" using slash by (cases k) simp_all
    finally have "cleaned (n @ replicate k (CHR ''/'')) = replicate k (CHR ''/'')" by (simp add: cleaned_def)
    then show False using assms by (cases k) simp_all
  qed
  then obtain x where "x \<in> set n" "\<not> c0_or_space x" by blast
  then show ?thesis by (simp add: cleaned_def dropWhile_append1)
qed

lemma absolute_cut:
  assumes "absolute p netloc tail (m @ replicate k (CHR ''/''))"
  shows "\<exists>tail'. absolute p netloc tail' m"
proof -
  let ?base = "p @ ''://'' @ netloc"
  have url: "m @ replicate k (CHR ''/'') = ?base @ tail" and netloc: "netloc \<noteq> []" "list_all (\<lambda>c. \<not> netloc_end c) netloc"
    using assms by (simp_all add: absolute_def)
  obtain t where t: "m = ?base @ t \<and> t @ replicate k (CHR ''/'') = tail \<or> m @ t = ?base \<and> replicate k (CHR ''/'') = t @ tail"
    using append_eq_append_conv2 [THEN iffD1, OF url] by blast
  have inside: ?thesis if "m = ?base @ t'" "t' @ replicate k (CHR ''/'') = tail" for t'
  proof -
    have "t' = [] \<or> netloc_end (hd t')" using that(2) assms by (cases t') (auto simp: absolute_def)
    then show ?thesis using assms that(1) by (auto simp: absolute_def)
  qed
  from t show ?thesis
  proof (elim disjE conjE)
    assume b: "m @ t = ?base" "replicate k (CHR ''/'') = t @ tail"
    show ?thesis
    proof (cases "t = []")
      case True
      then show ?thesis using inside [of "[]"] b by simp
    next
      case False
      have "last ?base = last t" unfolding b(1) [symmetric] using False by simp
      moreover have "last t \<in> set (replicate k (CHR ''/''))" unfolding b(2) using False by simp
      ultimately have "last netloc = CHR ''/''" using netloc(1) by simp
      moreover have "\<not> netloc_end (last netloc)" using netloc by (simp add: list_all_iff)
      ultimately show ?thesis by (simp add: netloc_end_def)
    qed
  qed (rule inside)
qed

lemma urlparse_cut_slashes:
  assumes "urlparse (n @ replicate k (CHR ''/'')) = Some u" and "url_scheme u \<noteq> []" and "url_netloc u \<noteq> []"
  shows "\<exists>u'. urlparse n = Some u' \<and> url_scheme u' = url_scheme u \<and> url_netloc u' = url_netloc u"
proof -
  obtain p tail where a: "absolute p (url_netloc u) tail (cleaned (n @ replicate k (CHR ''/'')))" "lower p = url_scheme u"
    using absolute_urlparse [OF assms] by blast
  obtain c cs where c: "p = c # cs" "ascii_alpha c" using a(1) by (cases p) (auto simp: absolute_def)
  have "c \<noteq> CHR ''/''" using c(2) by (auto simp: ascii_alpha_def Let_def)
  moreover have "\<exists>ds. cleaned (n @ replicate k (CHR ''/'')) = c # ds" using a(1) c(1) by (auto simp: absolute_def)
  ultimately have "cleaned (n @ replicate k (CHR ''/'')) = cleaned n @ replicate k (CHR ''/'')" using cleaned_slashes by blast
  then obtain tail' where "absolute p (url_netloc u) tail' (cleaned n)" using absolute_cut a(1) by fastforce
  then show ?thesis using urlparse_absolute(1) a(2) by fastforce
qed

text \<open>An origin reads as itself.\<close>

lemma urlparse_origin:
  assumes "urlparse text = Some u" and "url_scheme u \<in> {''http'', ''https''}" and "url_netloc u \<noteq> []"
  shows "urlparse (url_scheme u @ ''://'' @ url_netloc u) = Some \<lparr>url_scheme = url_scheme u, url_netloc = url_netloc u,
    url_path = [], url_params = [], url_query = [], url_fragment = []\<rparr>"
    "set (url_netloc u) \<subseteq> set text"
proof -
  obtain p tail where a: "absolute p (url_netloc u) tail (cleaned text)" "lower p = url_scheme u"
    using absolute_urlparse [OF assms(1) _ assms(3)] assms(2) by auto
  let ?o = "url_scheme u @ ''://'' @ url_netloc u"
  have clean: "set (cleaned text) \<subseteq> set text - {CHR 0x09, CHR 0x0A, CHR 0x0D}"
    by (auto simp: cleaned_def dest: set_dropWhileD)
  then have n: "set (url_netloc u) \<subseteq> set text - {CHR 0x09, CHR 0x0A, CHR 0x0D}" using a(1) by (auto simp: absolute_def)
  then show "set (url_netloc u) \<subseteq> set text" by blast
  have "List.filter (\<lambda>c. c \<notin> {CHR 0x09, CHR 0x0A, CHR 0x0D}) (url_netloc u) = url_netloc u"
    using n by (simp add: filter_id_conv subset_iff)
  then have "cleaned ?o = ?o" using assms(2) by (auto simp: cleaned_def c0_or_space_def)
  moreover have "absolute (url_scheme u) (url_netloc u) [] ?o"
    using a(1) assms(2) by (auto simp: absolute_def ascii_alpha_def scheme_char_def)
  moreover have "lower (url_scheme u) = url_scheme u"
    using assms(2) by (auto simp: lower_def lower_char_def)
  ultimately show "urlparse ?o = Some \<lparr>url_scheme = url_scheme u, url_netloc = url_netloc u,
    url_path = [], url_params = [], url_query = [], url_fragment = []\<rparr>"
    using urlparse_absolute(2) [of "url_scheme u" "url_netloc u" "[]" ?o] by simp
qed

end
