(* ===== verification/Settings_Overrides.thy ===== *)
theory Settings_Overrides
  imports Graph_Lookup Urls "HOL-Library.AList"
begin

text \<open>
  \<open>core/settings_overrides.py\<close>: settings stored in the database over those of the environment, with
  the copy of them that the process keeps, and the handlers of \<open>routers/admin.py\<close> over them.
\<close>

section \<open>Definitions of settings\<close>

datatype setting_type = TString | TInt | TUrl | TEnum | TSecret | TBool

datatype setting_source = Environment | Application

record setting_definition =
  sd_key :: string
  sd_label :: string
  sd_type :: setting_type
  sd_is_secret :: bool
  sd_enum_values :: "string list"
  sd_source :: setting_source

definition setting_def :: "string \<Rightarrow> string \<Rightarrow> setting_type \<Rightarrow> bool \<Rightarrow> setting_definition" where
  "setting_def key label type secret = \<lparr>sd_key = key, sd_label = label, sd_type = type, sd_is_secret = secret,
     sd_enum_values = [], sd_source = Environment\<rparr>"

definition APPLICATION_SETTINGS :: "setting_definition list" where
  "APPLICATION_SETTINGS = List.map (\<lambda>d. d\<lparr>sd_source := Application\<rparr>)
     [setting_def ''bot_framework_enabled'' ''Bot Framework enabled'' TBool False,
      setting_def ''graph_lookup_enabled'' ''Graph lookup enabled'' TBool False,
      setting_def ''graph_delivery_enabled'' ''Graph delivery enabled'' TBool False,
      setting_def ''webhook_url_reveal_ttl_hours'' ''Webhook URL reveal link lifetime'' TInt False]"

definition OVERRIDABLE_SETTINGS :: "setting_definition list" where
  "OVERRIDABLE_SETTINGS =
     [setting_def ''webhook_max_payload_bytes'' ''Webhook payload limit'' TInt False,
      setting_def ''webhook_abuse_blocking_enabled'' ''Webhook abuse blocking'' TBool False,
      setting_def ''webhook_abuse_failure_limit'' ''Webhook abuse failure limit'' TInt False,
      setting_def ''webhook_abuse_window_minutes'' ''Webhook abuse window'' TInt False,
      setting_def ''log_retention_days'' ''Log retention'' TInt False,
      setting_def ''log_cleanup_interval_minutes'' ''Log cleanup interval'' TInt False,
      setting_def ''event_debug_previews_enabled'' ''Event debug previews'' TBool False,
      setting_def ''trust_x_forwarded_for'' ''Trust X-Forwarded-For'' TBool False,
      setting_def ''session_secure_cookie'' ''Secure session cookie'' TBool False,
      setting_def ''cors_origins'' ''CORS origins'' TString False,
      setting_def ''app_public_base_url'' ''Public URL'' TUrl False,
      setting_def ''frontend_base_url'' ''Frontend URL'' TUrl False,
      setting_def ''ms_app_tenant_id'' ''Microsoft tenant ID'' TString False,
      setting_def ''ms_app_client_id'' ''Microsoft client ID'' TString False,
      setting_def ''ms_app_client_secret'' ''Microsoft client secret'' TSecret True]"

definition SETTING_DEFINITIONS :: "setting_definition list" where
  "SETTING_DEFINITIONS = APPLICATION_SETTINGS @ OVERRIDABLE_SETTINGS"

definition setting_named :: "string \<Rightarrow> setting_definition option" where
  "setting_named key = fetch (\<lambda>d. sd_key d = key) SETTING_DEFINITIONS"

section \<open>Values as they are stored\<close>

text \<open>\<open>int(raw)\<close>, which refuses numbers of more than 4300 digits.\<close>

definition setting_int :: "string \<Rightarrow> int option" where
  "setting_int raw = (if 4300 < length (List.filter is_digit raw) then None else parse_int raw)"

definition int_bounds :: "string \<Rightarrow> int \<Rightarrow> string option" where
  "int_bounds key n =
     (if key = ''webhook_max_payload_bytes'' \<and> n < 1024 then Some ''Payload limit must be at least 1024''
      else if key = ''webhook_abuse_failure_limit'' \<and> n < 1 then Some ''Failure limit must be at least 1''
      else if key = ''webhook_abuse_window_minutes'' \<and> n < 1 then Some ''Value must be at least 1''
      else if key = ''webhook_url_reveal_ttl_hours'' \<and> \<not> (1 \<le> n \<and> n \<le> 168)
      then Some ''Reveal link lifetime must be between 1 and 168 hours''
      else if key = ''log_retention_days'' \<and> n < 0 then Some ''Retention must be zero or greater''
      else if key = ''log_cleanup_interval_minutes'' \<and> n < 1 then Some ''Cleanup interval must be at least 1''
      else None)"

definition http_origin :: "url_parts \<Rightarrow> bool" where
  "http_origin u \<longleftrightarrow> url_scheme u \<in> {''http'', ''https''} \<and> url_netloc u \<noteq> []"

text \<open>A URL that \<open>urlparse\<close> refuses raises \<open>ValueError\<close>, which nothing catches.\<close>

definition INVALID_URL :: exn where
  "INVALID_URL = ValueError ''Invalid IPv6 URL''"

definition cors_origin :: "string \<Rightarrow> exn + string" where
  "cors_origin candidate =
     (case urlparse candidate of
        None \<Rightarrow> Inl INVALID_URL
      | Some u \<Rightarrow>
          if \<not> http_origin u
          then Inl (HTTPException 400 ''CORS origins must be comma-separated HTTP or HTTPS origins'')
          else if url_params u \<noteq> [] \<or> url_query u \<noteq> [] \<or> url_fragment u \<noteq> [] \<or> url_path u \<notin> {[], ''/''}
          then Inl (HTTPException 400 ''CORS origins must contain scheme, host, and optional port only'')
          else Inr (lower (url_scheme u) @ ''://'' @ url_netloc u))"

fun cors_from :: "string list \<Rightarrow> string list \<Rightarrow> exn + string list" where
  "cors_from origins [] = Inr origins"
| "cors_from origins (part # parts) =
     (if strip part = [] then cors_from origins parts
      else (case cors_origin (strip part) of
        Inl e \<Rightarrow> Inl e
      | Inr origin \<Rightarrow> cors_from (if origin \<in> set origins then origins else origins @ [origin]) parts))"

definition normalize_cors_origins :: "string \<Rightarrow> exn + string" where
  "normalize_cors_origins value =
     (case cors_from [] (split_on (CHR '','') value) of
        Inl e \<Rightarrow> Inl e
      | Inr origins \<Rightarrow>
          if origins = [] then Inl (HTTPException 400 ''CORS origins must list at least one HTTP or HTTPS origin'')
          else Inr (join '','' origins))"

definition validate_and_normalize :: "string \<Rightarrow> string \<Rightarrow> exn + string" where
  "validate_and_normalize key value =
     (case setting_named key of
        None \<Rightarrow> Inl (HTTPException 404 ''Unknown setting'')
      | Some d \<Rightarrow>
          (let raw = strip value in
           case sd_type d of
             TSecret \<Rightarrow> if raw = [] then Inl (HTTPException 400 ''Secret value is required'') else Inr raw
           | TInt \<Rightarrow>
               (case setting_int raw of
                  None \<Rightarrow> Inl (HTTPException 400 ''Value must be an integer'')
                | Some n \<Rightarrow> (case int_bounds key n of
                    Some detail \<Rightarrow> Inl (HTTPException 400 detail)
                  | None \<Rightarrow> Inr (str_int n)))
           | TBool \<Rightarrow>
               if lower raw \<in> {''true'', ''1'', ''yes'', ''on'', ''enabled''} then Inr ''true''
               else if lower raw \<in> {''false'', ''0'', ''no'', ''off'', ''disabled''} then Inr ''false''
               else Inl (HTTPException 400 ''Value must be true or false'')
           | TEnum \<Rightarrow>
               if lower raw \<in> set (sd_enum_values d) then Inr (lower raw)
               else Inl (HTTPException 400 (''Value must be one of: '' @ join '', '' (sd_enum_values d)))
           | TUrl \<Rightarrow>
               if raw = [] then Inr []
               else (case urlparse raw of
                  None \<Rightarrow> Inl INVALID_URL
                | Some u \<Rightarrow>
                    if http_origin u then Inr (rstrip_char (CHR ''/'') raw)
                    else Inl (HTTPException 400 ''Value must be a valid HTTP URL''))
           | TString \<Rightarrow> if key = ''cors_origins'' then normalize_cors_origins raw else Inr raw))"

text \<open>The message a stored secret that does not decrypt is refused with.\<close>

definition decrypt_override :: "remote \<Rightarrow> settings \<Rightarrow> string \<Rightarrow> exn + string" where
  "decrypt_override rm env value =
     (case decrypt_secret rm env value of
        Inr text \<Rightarrow> Inr text
      | Inl e \<Rightarrow> Inl (HTTPException 500
          (''Stored secret override could not be decrypted with the current SETTINGS_ENC_KEY. '' @
           ''Keep the previous key or re-enter the affected secret.'')))"

definition stored_value :: "remote \<Rightarrow> settings \<Rightarrow> app_setting \<Rightarrow> exn + string" where
  "stored_value rm env row = (if st_is_secret row then decrypt_override rm env (st_value row) else Inr (st_value row))"

definition serialize_for_storage :: "remote \<Rightarrow> settings \<Rightarrow> string \<Rightarrow> string \<Rightarrow> exn + string" where
  "serialize_for_storage rm env key value =
     (case setting_named key of
        None \<Rightarrow> Inl (PyError ''KeyError'')
      | Some d \<Rightarrow>
          (case validate_and_normalize key value of
             Inl e \<Rightarrow> Inl e
           | Inr normalized \<Rightarrow> if sd_is_secret d then encrypt_secret rm env normalized else Inr normalized))"

section \<open>Effective settings\<close>

datatype setting_value = IntValue int | BoolValue bool | StrValue string

definition coerce_for_settings :: "string \<Rightarrow> string \<Rightarrow> exn + setting_value" where
  "coerce_for_settings key value =
     (case setting_named key of
        None \<Rightarrow> Inl (PyError ''KeyError'')
      | Some d \<Rightarrow>
          (case sd_type d of
             TInt \<Rightarrow> (case setting_int value of
                 None \<Rightarrow> Inl (ValueError ''invalid literal for int() with base 10'')
               | Some n \<Rightarrow> Inr (IntValue n))
           | TBool \<Rightarrow> Inr (BoolValue (lower (strip value) = ''true''))
           | _ \<Rightarrow> Inr (StrValue value)))"

text \<open>\<open>model_copy(update={key: value})\<close> for one key of \<open>OVERRIDABLE_SETTINGS\<close>\<close>

definition put_int :: "string \<Rightarrow> int \<Rightarrow> settings \<Rightarrow> settings" where
  "put_int key n s =
     (if key = ''webhook_max_payload_bytes'' then s\<lparr>webhook_max_payload_bytes := n\<rparr>
      else if key = ''webhook_abuse_failure_limit'' then s\<lparr>webhook_abuse_failure_limit := n\<rparr>
      else if key = ''webhook_abuse_window_minutes'' then s\<lparr>webhook_abuse_window_minutes := n\<rparr>
      else if key = ''log_retention_days'' then s\<lparr>log_retention_days := n\<rparr>
      else if key = ''log_cleanup_interval_minutes'' then s\<lparr>log_cleanup_interval_minutes := n\<rparr>
      else s)"

definition put_bool :: "string \<Rightarrow> bool \<Rightarrow> settings \<Rightarrow> settings" where
  "put_bool key b s =
     (if key = ''webhook_abuse_blocking_enabled'' then s\<lparr>webhook_abuse_blocking_enabled := b\<rparr>
      else if key = ''event_debug_previews_enabled'' then s\<lparr>event_debug_previews_enabled := b\<rparr>
      else if key = ''trust_x_forwarded_for'' then s\<lparr>trust_x_forwarded_for := b\<rparr>
      else if key = ''session_secure_cookie'' then s\<lparr>session_secure_cookie := b\<rparr>
      else s)"

definition put_str :: "string \<Rightarrow> string \<Rightarrow> settings \<Rightarrow> settings" where
  "put_str key t s =
     (if key = ''cors_origins'' then s\<lparr>cors_origins := t\<rparr>
      else if key = ''app_public_base_url'' then s\<lparr>app_public_base_url := t\<rparr>
      else if key = ''frontend_base_url'' then s\<lparr>frontend_base_url := t\<rparr>
      else if key = ''ms_app_tenant_id'' then s\<lparr>ms_app_tenant_id := t\<rparr>
      else if key = ''ms_app_client_id'' then s\<lparr>ms_app_client_id := t\<rparr>
      else if key = ''ms_app_client_secret'' then s\<lparr>ms_app_client_secret := t\<rparr>
      else s)"

definition put_value :: "string \<Rightarrow> setting_value \<Rightarrow> settings \<Rightarrow> settings" where
  "put_value key v s =
     (case v of IntValue n \<Rightarrow> put_int key n s | BoolValue b \<Rightarrow> put_bool key b s | StrValue t \<Rightarrow> put_str key t s)"

definition is_environment_override :: "string \<Rightarrow> bool" where
  "is_environment_override key = (key \<in> set (List.map sd_key OVERRIDABLE_SETTINGS))"

text \<open>The cache is a dictionary of plain values.\<close>

type_synonym overrides = "(string \<times> string) list"

fun env_updates :: "overrides \<Rightarrow> settings \<Rightarrow> exn + settings" where
  "env_updates [] s = Inr s"
| "env_updates ((key, value) # rest) s =
     (if \<not> is_environment_override key then env_updates rest s
      else (case coerce_for_settings key value of
        Inl e \<Rightarrow> Inl e
      | Inr v \<Rightarrow> env_updates rest (put_value key v s)))"

definition cached_bool :: "overrides \<Rightarrow> string \<Rightarrow> bool option" where
  "cached_bool cached key = map_option (\<lambda>v. lower (strip v) = ''true'') (map_of cached key)"

definition get_effective_settings :: "settings \<Rightarrow> overrides \<Rightarrow> exn + settings" where
  "get_effective_settings env cached =
     (if cached = [] then Inr env
      else (case env_updates cached env of
        Inl e \<Rightarrow> Inl e
      | Inr s \<Rightarrow>
          (let with_ttl = (\<lambda>ttl. Inr (use_delivery_feature_settings s (cached_bool cached ''bot_framework_enabled'')
                 (cached_bool cached ''graph_lookup_enabled'') (cached_bool cached ''graph_delivery_enabled'') ttl))
           in case map_of cached ''webhook_url_reveal_ttl_hours'' of
                None \<Rightarrow> with_ttl None
              | Some v \<Rightarrow> (case setting_int v of
                  None \<Rightarrow> Inl (ValueError ''invalid literal for int() with base 10'')
                | Some n \<Rightarrow> with_ttl (Some n)))))"

section \<open>Setting and clearing\<close>

fun loaded_overrides :: "remote \<Rightarrow> settings \<Rightarrow> app_setting list \<Rightarrow> exn + overrides" where
  "loaded_overrides rm env [] = Inr []"
| "loaded_overrides rm env (row # rows) =
     (if setting_named (st_key row) = None then loaded_overrides rm env rows
      else (case stored_value rm env row of
        Inl e \<Rightarrow> Inl e
      | Inr v \<Rightarrow> (case loaded_overrides rm env rows of
          Inl e \<Rightarrow> Inl e
        | Inr rest \<Rightarrow> Inr ((st_key row, v) # rest))))"

text \<open>The new content of the cache, which stays as it is if a row cannot be read.\<close>

definition load_overrides :: "remote \<Rightarrow> settings \<Rightarrow> db \<Rightarrow> exn + overrides" where
  "load_overrides rm env db = loaded_overrides rm env (app_settings db)"

definition reset_override_state :: overrides where
  "reset_override_state = []"

definition hypothetical_settings :: "overrides \<Rightarrow> string \<Rightarrow> string option \<Rightarrow> overrides" where
  "hypothetical_settings cached key value =
     (case value of None \<Rightarrow> AList.delete key cached | Some v \<Rightarrow> AList.update key v cached)"

definition validate_feature_dependency :: "overrides \<Rightarrow> exn option" where
  "validate_feature_dependency cached =
     (let lookup = (case cached_bool cached ''graph_lookup_enabled'' of None \<Rightarrow> True | Some b \<Rightarrow> b);
          delivery = (case cached_bool cached ''graph_delivery_enabled'' of None \<Rightarrow> True | Some b \<Rightarrow> b)
      in if delivery \<and> \<not> lookup then Some (HTTPException 400 ''Graph delivery requires Graph lookup to be enabled'')
         else None)"

definition setting_row :: "string \<Rightarrow> app_setting list \<Rightarrow> app_setting option" where
  "setting_row key rows = fetch (\<lambda>r. st_key r = key) rows"

definition put_row :: "world \<Rightarrow> string \<Rightarrow> string \<Rightarrow> bool \<Rightarrow> string option \<Rightarrow> app_setting list \<Rightarrow> app_setting list" where
  "put_row w key value secret by rows =
     (let row = \<lparr>st_key = key, st_value = value, st_is_secret = secret, st_updated_at = utcnow w, st_updated_by_id = by\<rparr>
      in if setting_row key rows = None then rows @ [row] else save_row st_key row rows)"

text \<open>
  A new frontend URL is also the allowed origin, where no origins are stored or those stored are the
  frontend URL before.
\<close>

definition follow_frontend ::
  "remote \<Rightarrow> world \<Rightarrow> settings \<Rightarrow> string \<Rightarrow> string \<Rightarrow> string option \<Rightarrow> app_setting list \<Rightarrow> exn + app_setting list" where
  "follow_frontend rm w env previous url by rows =
     (case setting_row ''cors_origins'' rows of
        None \<Rightarrow> (case serialize_for_storage rm env ''cors_origins'' url of
            Inl e \<Rightarrow> Inl e
          | Inr v \<Rightarrow> Inr (put_row w ''cors_origins'' v False by rows))
      | Some row \<Rightarrow>
          (case stored_value rm env row of
             Inl e \<Rightarrow> Inl e
           | Inr v \<Rightarrow>
               if v = previous
               then (case serialize_for_storage rm env ''cors_origins'' url of
                  Inl e \<Rightarrow> Inl e
                | Inr v \<Rightarrow> Inr (put_row w ''cors_origins'' v (st_is_secret row) by rows))
               else Inr rows))"

definition previous_frontend_url :: "settings \<Rightarrow> overrides \<Rightarrow> string \<Rightarrow> exn + string" where
  "previous_frontend_url env cached key =
     (if key \<noteq> ''frontend_base_url'' then Inr []
      else (case get_effective_settings env cached of
        Inl e \<Rightarrow> Inl e
      | Inr s \<Rightarrow> Inr (rstrip_char (CHR ''/'') (frontend_base_url s))))"

definition new_rows ::
  "remote \<Rightarrow> world \<Rightarrow> settings \<Rightarrow> overrides \<Rightarrow> string \<Rightarrow> string \<Rightarrow> string option \<Rightarrow> app_setting list \<Rightarrow>
   exn + app_setting list" where
  "new_rows rm w env cached key value by rows =
     (case setting_named key of
        None \<Rightarrow> Inl (HTTPException 404 ''Unknown setting'')
      | Some d \<Rightarrow>
          (case previous_frontend_url env cached key of
             Inl e \<Rightarrow> Inl e
           | Inr previous \<Rightarrow>
               (case validate_and_normalize key value of
                  Inl e \<Rightarrow> Inl e
                | Inr normalized \<Rightarrow>
                    (case serialize_for_storage rm env key normalized of
                       Inl e \<Rightarrow> Inl e
                     | Inr stored \<Rightarrow>
                         (case validate_feature_dependency (hypothetical_settings cached key (Some normalized)) of
                            Some e \<Rightarrow> Inl e
                          | None \<Rightarrow>
                              (let rows = put_row w key stored (sd_is_secret d) by rows in
                               if key = ''frontend_base_url'' then follow_frontend rm w env previous normalized by rows
                               else Inr rows))))))"

text \<open>The rows and the cache after the operation; nothing of them changes if it raises.\<close>

definition set_override ::
  "remote \<Rightarrow> world \<Rightarrow> settings \<Rightarrow> string \<Rightarrow> string \<Rightarrow> string option \<Rightarrow> db \<times> overrides \<Rightarrow> exn + db \<times> overrides" where
  "set_override rm w env key value by s =
     (case new_rows rm w env (snd s) key value by (app_settings (fst s)) of
        Inl e \<Rightarrow> Inl e
      | Inr rows \<Rightarrow>
          (let db = (fst s)\<lparr>app_settings := rows\<rparr> in
           case load_overrides rm env db of Inl e \<Rightarrow> Inl e | Inr cached \<Rightarrow> Inr (db, cached)))"

definition clear_override :: "remote \<Rightarrow> settings \<Rightarrow> string \<Rightarrow> db \<times> overrides \<Rightarrow> exn + db \<times> overrides" where
  "clear_override rm env key s =
     (if setting_named key = None then Inl (HTTPException 404 ''Unknown setting'')
      else (case validate_feature_dependency (hypothetical_settings (snd s) key None) of
        Some e \<Rightarrow> Inl e
      | None \<Rightarrow>
          (let db = (fst s)\<lparr>app_settings := delete_rows (\<lambda>r. st_key r = key) (app_settings (fst s))\<rparr> in
           case load_overrides rm env db of Inl e \<Rightarrow> Inl e | Inr cached \<Rightarrow> Inr (db, cached))))"

definition is_overridden :: "overrides \<Rightarrow> string \<Rightarrow> bool" where
  "is_overridden cached key \<longleftrightarrow> is_environment_override key \<and> map_of cached key \<noteq> None"

text \<open>Both token caches of the process are dropped when a setting changes.\<close>

definition on_change :: "bot_token_manager option \<times> graph_tokens \<Rightarrow> bot_token_manager option \<times> graph_tokens" where
  "on_change caches = (reset_bot_token_manager (fst caches), reset_graph_token_manager (snd caches))"

section \<open>Listing\<close>

definition mask_secret :: "string \<Rightarrow> string" where
  "mask_secret value = (if strip value \<noteq> [] then ''configured'' else ''missing'')"

definition display_value :: "setting_definition \<Rightarrow> string \<Rightarrow> string" where
  "display_value d value =
     (if sd_is_secret d then mask_secret value
      else if sd_type d = TBool
      then (if lower (strip value) \<in> {''true'', ''1'', ''yes'', ''on''} then ''true'' else ''false'')
      else value)"

text \<open>\<open>getattr(settings, key)\<close>, for the keys that have a definition\<close>

definition setting_fields :: "settings \<Rightarrow> (string \<times> setting_value) list" where
  "setting_fields s =
     [(''bot_framework_enabled'', BoolValue (bot_framework_enabled s)),
      (''graph_lookup_enabled'', BoolValue (graph_lookup_enabled s)),
      (''graph_delivery_enabled'', BoolValue (graph_delivery_enabled s)),
      (''webhook_url_reveal_ttl_hours'', IntValue (webhook_url_reveal_ttl_hours s)),
      (''webhook_max_payload_bytes'', IntValue (webhook_max_payload_bytes s)),
      (''webhook_abuse_blocking_enabled'', BoolValue (webhook_abuse_blocking_enabled s)),
      (''webhook_abuse_failure_limit'', IntValue (webhook_abuse_failure_limit s)),
      (''webhook_abuse_window_minutes'', IntValue (webhook_abuse_window_minutes s)),
      (''log_retention_days'', IntValue (log_retention_days s)),
      (''log_cleanup_interval_minutes'', IntValue (log_cleanup_interval_minutes s)),
      (''event_debug_previews_enabled'', BoolValue (event_debug_previews_enabled s)),
      (''trust_x_forwarded_for'', BoolValue (trust_x_forwarded_for s)),
      (''session_secure_cookie'', BoolValue (session_secure_cookie s)),
      (''cors_origins'', StrValue (cors_origins s)),
      (''app_public_base_url'', StrValue (app_public_base_url s)),
      (''frontend_base_url'', StrValue (frontend_base_url s)),
      (''ms_app_tenant_id'', StrValue (ms_app_tenant_id s)),
      (''ms_app_client_id'', StrValue (ms_app_client_id s)),
      (''ms_app_client_secret'', StrValue (ms_app_client_secret s))]"

definition get_value :: "settings \<Rightarrow> string \<Rightarrow> setting_value option" where
  "get_value s = map_of (setting_fields s)"

definition env_value :: "settings \<Rightarrow> string \<Rightarrow> string" where
  "env_value s key =
     (case get_value s key of
        Some (BoolValue b) \<Rightarrow> if b then ''true'' else ''false''
      | Some (IntValue n) \<Rightarrow> str_int n
      | Some (StrValue t) \<Rightarrow> t
      | None \<Rightarrow> [])"

record setting_item =
  si_key :: string
  si_label :: string
  si_type :: setting_type
  si_enum_values :: "string list"
  si_env_default :: string
  si_effective_value :: string
  si_is_overridden :: bool
  si_source :: setting_source

definition setting_item_of :: "settings \<Rightarrow> settings \<Rightarrow> overrides \<Rightarrow> setting_definition \<Rightarrow> setting_item" where
  "setting_item_of env st cached d =
     \<lparr>si_key = sd_key d, si_label = sd_label d, si_type = sd_type d, si_enum_values = sd_enum_values d,
      si_env_default = display_value d (env_value env (sd_key d)),
      si_effective_value = display_value d (env_value st (sd_key d)),
      si_is_overridden = is_overridden cached (sd_key d), si_source = sd_source d\<rparr>"

definition list_setting_items :: "settings \<Rightarrow> overrides \<Rightarrow> exn + setting_item list" where
  "list_setting_items env cached =
     (case get_effective_settings env cached of
        Inl e \<Rightarrow> Inl e
      | Inr st \<Rightarrow> Inr (List.map (setting_item_of env st cached) SETTING_DEFINITIONS))"

section \<open>Handlers\<close>

text \<open>
  The audit entry is reported under the settings as they are then. Setting and clearing load the cache
  before the commit, which is taken to succeed; the listing comes after it.
\<close>

definition update_setting ::
  "remote \<Rightarrow> world \<Rightarrow> settings \<Rightarrow> user \<Rightarrow> string \<Rightarrow> string \<Rightarrow> db \<times> overrides \<Rightarrow> (exn + setting_item) \<times> db \<times> overrides" where
  "update_setting rm w env admin key value s =
     (if 4000 < length value then (Inl (HTTPException 422 []), s)
      else (case set_override rm w env key value (Some (u_id admin)) s of
        Inl e \<Rightarrow> (Inl e, s)
      | Inr (db, cached) \<Rightarrow>
          (case get_effective_settings env cached of
             Inl e \<Rightarrow> (Inl e, fst s, cached)
           | Inr st \<Rightarrow>
               (let db = record_audit w st
                      (if is_environment_override key then ''settings.override.set'' else ''settings.application.set'')
                      ''user'' (Some (u_id admin)) (Some (u_organization_id admin)) [(''key'', JStr key)] db
                in case list_setting_items env cached of
                     Inl e \<Rightarrow> (Inl e, db, cached)
                   | Inr items \<Rightarrow> (case fetch (\<lambda>i. si_key i = key) items of
                       None \<Rightarrow> (Inl (HTTPException 404 ''Unknown setting''), db, cached)
                     | Some item \<Rightarrow> (Inr item, db, cached))))))"

definition reset_setting ::
  "remote \<Rightarrow> world \<Rightarrow> settings \<Rightarrow> user \<Rightarrow> string \<Rightarrow> db \<times> overrides \<Rightarrow> (exn + unit) \<times> db \<times> overrides" where
  "reset_setting rm w env admin key s =
     (case clear_override rm env key s of
        Inl e \<Rightarrow> (Inl e, s)
      | Inr (db, cached) \<Rightarrow>
          (case get_effective_settings env cached of
             Inl e \<Rightarrow> (Inl e, fst s, cached)
           | Inr st \<Rightarrow>
               (Inr (), record_audit w st
                  (if is_environment_override key then ''settings.override.reset'' else ''settings.application.reset'')
                  ''user'' (Some (u_id admin)) (Some (u_organization_id admin)) [(''key'', JStr key)] db, cached)))"

end
