(* ===== verification/Settings_Guarantees.thy ===== *)
theory Settings_Guarantees
  imports Settings_Overrides
begin

text \<open>
  What stored settings guarantee: values are kept in the form the validation leaves them in, so that
  the effective settings can always be computed and stay within their bounds, and a setting reads as
  what was set.
\<close>

section \<open>Numbers print back within their digits\<close>

lemma concat_split_on: "concat (split_on d s) = List.filter (\<lambda>c. c \<noteq> d) s"
  by (induction s) (auto split: list.splits)

lemma digits_val_snoc: "digits_val (ds @ [c]) = 10 * digits_val ds + digit_val c"
  by (simp add: digits_val_def)

lemma digits_val_bound: "list_all is_digit ds \<Longrightarrow> digits_val ds < 10 ^ length ds"
proof (induction ds rule: rev_induct)
  case (snoc c ds)
  then have "digits_val ds < 10 ^ length ds" "is_digit c" by simp_all
  moreover from this(2) have "digit_val c \<le> 9" unfolding digit_val_def is_digit_def by linarith
  ultimately have "digits_val ds < 10 ^ length ds" "digit_val c \<le> 9" by simp_all
  then show ?case by (simp add: digits_val_snoc)
qed (simp add: digits_val_def)

lemma length_str_nat: "n < 10 ^ k \<Longrightarrow> 0 < k \<Longrightarrow> length (str_nat n) \<le> k"
proof (induction k arbitrary: n)
  case (Suc k)
  show ?case
  proof (cases "n < 10")
    case False
    then have "0 < k" using Suc.prems by (cases k) simp_all
    moreover have "n div 10 < 10 ^ k" using Suc.prems(1) by (simp add: less_mult_imp_div_less)
    ultimately have "length (str_nat (n div 10)) \<le> k" by (rule Suc.IH [rotated])
    then show ?thesis using False by (simp add: str_nat.simps [of n])
  qed (simp add: str_nat.simps [of n])
qed simp

lemma int_literal_digits:
  assumes "int_literal s = Some n"
  shows "length (str_nat n) \<le> length (List.filter is_digit s)"
proof -
  let ?ws = "split_on (CHR ''_'') s"
  have ws: "list_all (\<lambda>w. w \<noteq> [] \<and> list_all is_digit w) ?ws" and n: "n = digits_val (concat ?ws)"
    using assms by (auto simp: int_literal_def Let_def split: if_splits)
  have all: "list_all is_digit (concat ?ws)" using ws by (auto simp: list_all_iff)
  have "concat ?ws \<noteq> []"
    using ws by (cases ?ws) (auto simp: list_all_iff)
  then have "length (str_nat n) \<le> length (concat ?ws)"
    using length_str_nat [of n "length (concat ?ws)"] digits_val_bound [OF all] n by simp
  moreover have "List.filter is_digit s = concat ?ws"
    unfolding concat_split_on
  proof (rule filter_cong [OF refl])
    fix c assume "c \<in> set s"
    then show "is_digit c \<longleftrightarrow> c \<noteq> CHR ''_''"
      using all digit_not_sign [of c] unfolding concat_split_on list_all_iff by auto
  qed
  ultimately show ?thesis by simp
qed

lemma filter_digits_strip: "length (List.filter is_digit (strip s)) \<le> length (List.filter is_digit s)"
proof -
  have shorter: "length (List.filter P (dropWhile Q xs)) \<le> length (List.filter P xs)" for P Q and xs :: string
    by (induction xs) auto
  have turned: "length (List.filter P (rev xs)) = length (List.filter P xs)" for P and xs :: string
    by (simp add: rev_filter [symmetric])
  have "length (List.filter is_digit (strip s)) \<le> length (List.filter is_digit (dropWhile py_space s))"
    using shorter [of is_digit py_space "rev (dropWhile py_space s)"]
    by (simp only: strip_def lstrip_def rstrip_def turned)
  also have "\<dots> \<le> length (List.filter is_digit s)" by (rule shorter)
  finally show ?thesis .
qed

lemma is_digit_minus [simp]: "\<not> is_digit (CHR ''-'')" "\<not> is_digit (CHR ''+'')"
  using digit_not_sign by blast+

lemma filter_digits_str_int: "length (List.filter is_digit (str_int n)) = length (str_nat (nat \<bar>n\<bar>))"
proof -
  have "List.filter is_digit (str_nat k) = str_nat k" for k
    using str_nat_digits by (simp add: filter_id_conv)
  then show ?thesis by (simp add: str_int_def)
qed

lemma setting_int_prints:
  assumes "setting_int raw = Some n"
  shows "setting_int (str_int n) = Some n"
proof -
  have few: "length (List.filter is_digit raw) \<le> 4300" and p: "parse_int raw = Some n"
    using assms by (simp_all add: setting_int_def split: if_splits)
  obtain c cs where c: "strip raw = c # cs" using p by (cases "strip raw") (simp_all add: parse_int_def)
  obtain m t where m: "int_literal t = Some m" "nat \<bar>n\<bar> = m" "length (List.filter is_digit t) \<le> length (List.filter is_digit (c # cs))"
    using p c by (auto simp: parse_int_def split: if_splits)
  have "length (str_nat (nat \<bar>n\<bar>)) \<le> 4300"
    using int_literal_digits [OF m(1)] m(2,3) filter_digits_strip [of raw] few c by simp
  then show ?thesis by (simp add: setting_int_def filter_digits_str_int)
qed

section \<open>What is stored and what it means\<close>

lemmas setting_defs = SETTING_DEFINITIONS_def APPLICATION_SETTINGS_def OVERRIDABLE_SETTINGS_def setting_def_def

lemma setting_named_row: "setting_named key = Some d \<Longrightarrow> d \<in> set SETTING_DEFINITIONS \<and> sd_key d = key"
  using fetch_Some [of "\<lambda>d. sd_key d = key" SETTING_DEFINITIONS d] by (simp add: setting_named_def)

lemma definitions_plain:
  "d \<in> set SETTING_DEFINITIONS \<Longrightarrow> sd_enum_values d = [] \<and> (sd_is_secret d \<longleftrightarrow> sd_type d = TSecret) \<and> sd_type d \<noteq> TEnum"
proof -
  have "list_all (\<lambda>d. sd_enum_values d = [] \<and> (sd_is_secret d \<longleftrightarrow> sd_type d = TSecret) \<and> sd_type d \<noteq> TEnum) SETTING_DEFINITIONS"
    by (simp add: setting_defs)
  then show "d \<in> set SETTING_DEFINITIONS \<Longrightarrow> ?thesis" by (simp add: list_all_iff)
qed

lemma named_overridable: "is_environment_override key \<Longrightarrow> setting_named key \<noteq> None"
  by (auto simp: is_environment_override_def setting_named_def fetch_None SETTING_DEFINITIONS_def
      simp del: fetch_append not_None_eq)

text \<open>A value in the form the validation leaves it in, and what it means.\<close>

definition stored_form :: "string \<Rightarrow> string \<Rightarrow> bool" where
  "stored_form key v \<longleftrightarrow> (\<exists>raw. validate_and_normalize key raw = Inr v)"

definition meaning :: "string \<Rightarrow> string \<Rightarrow> setting_value option" where
  "meaning key v = (case coerce_for_settings key v of Inl e \<Rightarrow> None | Inr x \<Rightarrow> Some x)"

lemma bool_texts: "lower (strip ''true'') = ''true''" "lower (strip ''false'') = ''false''"
  by code_simp+

lemma stored_form_cases:
  assumes "stored_form key v"
  obtains d where "setting_named key = Some d" "sd_type d = TInt" "\<exists>n. v = str_int n \<and> setting_int v = Some n \<and> int_bounds key n = None"
  | d where "setting_named key = Some d" "sd_type d = TBool" "v = ''true'' \<or> v = ''false''"
  | d where "setting_named key = Some d" "sd_type d \<in> {TString, TUrl, TSecret}"
proof -
  obtain raw d where raw: "validate_and_normalize key raw = Inr v" and d: "setting_named key = Some d"
    using assms by (auto simp: stored_form_def validate_and_normalize_def split: option.splits)
  show ?thesis
  proof (cases "sd_type d")
    case TInt
    then have "\<exists>n. v = str_int n \<and> setting_int v = Some n \<and> int_bounds key n = None"
      using raw d setting_int_prints [of "strip raw"]
      by (auto simp: validate_and_normalize_def Let_def split: option.splits)
    then show ?thesis using that(1) [OF d TInt] by blast
  next
    case TBool
    then have "v = ''true'' \<or> v = ''false''"
      using raw d by (auto simp: validate_and_normalize_def Let_def split: if_splits)
    then show ?thesis using that(2) [OF d TBool] by blast
  next
    case TEnum
    then show ?thesis using definitions_plain setting_named_row [OF d] by blast
  qed (use that(3) [OF d] in auto)
qed

lemma stored_form_coerces:
  assumes "stored_form key v"
  shows "\<exists>x. coerce_for_settings key v = Inr x"
  using assms by (rule stored_form_cases) (auto simp: coerce_for_settings_def)

lemma map_of_entry:
  "distinct (List.map fst xs) \<Longrightarrow> i < length xs \<Longrightarrow> map_of (xs[i := (fst (xs ! i), v)]) = (map_of xs)(fst (xs ! i) \<mapsto> v)"
proof (induction xs arbitrary: i)
  case (Cons x xs)
  show ?case
  proof (cases i)
    case (Suc j)
    then have "fst (xs ! j) \<in> fst ` set xs" using Cons.prems(2) by simp
    moreover have "fst x \<notin> fst ` set xs" using Cons.prems(1) by simp
    ultimately have "fst (xs ! j) \<noteq> fst x" by metis
    then show ?thesis using Cons Suc by (cases x) (auto simp: fun_upd_twist)
  qed (cases x, auto)
qed simp

lemma setting_fields_keys:
  "List.map fst (setting_fields s) = List.map sd_key SETTING_DEFINITIONS"
  by (simp add: setting_fields_def setting_defs)

lemma setting_keys_distinct: "distinct (List.map sd_key SETTING_DEFINITIONS)"
  by (simp add: setting_defs)

lemma set_field:
  assumes "setting_fields s' = (setting_fields s)[i := (k, v)]" and "i < 19" and "k = fst (setting_fields s ! i)"
  shows "get_value s' = (get_value s)(k \<mapsto> v)"
proof -
  have "distinct (List.map fst (setting_fields s))" using setting_keys_distinct unfolding setting_fields_keys .
  moreover have "length (setting_fields s) = 19" by (simp add: setting_fields_def)
  ultimately show ?thesis
    using map_of_entry [of "setting_fields s" i v] assms unfolding get_value_def by simp
qed

lemma get_value_upd:
  "get_value (s\<lparr>bot_framework_enabled := b\<rparr>) = (get_value s)(''bot_framework_enabled'' \<mapsto> BoolValue b)"
  "get_value (s\<lparr>graph_lookup_enabled := b\<rparr>) = (get_value s)(''graph_lookup_enabled'' \<mapsto> BoolValue b)"
  "get_value (s\<lparr>graph_delivery_enabled := b\<rparr>) = (get_value s)(''graph_delivery_enabled'' \<mapsto> BoolValue b)"
  "get_value (s\<lparr>webhook_url_reveal_ttl_hours := n\<rparr>) = (get_value s)(''webhook_url_reveal_ttl_hours'' \<mapsto> IntValue n)"
  "get_value (s\<lparr>webhook_max_payload_bytes := n\<rparr>) = (get_value s)(''webhook_max_payload_bytes'' \<mapsto> IntValue n)"
  "get_value (s\<lparr>webhook_abuse_blocking_enabled := b\<rparr>) = (get_value s)(''webhook_abuse_blocking_enabled'' \<mapsto> BoolValue b)"
  "get_value (s\<lparr>webhook_abuse_failure_limit := n\<rparr>) = (get_value s)(''webhook_abuse_failure_limit'' \<mapsto> IntValue n)"
  "get_value (s\<lparr>webhook_abuse_window_minutes := n\<rparr>) = (get_value s)(''webhook_abuse_window_minutes'' \<mapsto> IntValue n)"
  "get_value (s\<lparr>log_retention_days := n\<rparr>) = (get_value s)(''log_retention_days'' \<mapsto> IntValue n)"
  "get_value (s\<lparr>log_cleanup_interval_minutes := n\<rparr>) = (get_value s)(''log_cleanup_interval_minutes'' \<mapsto> IntValue n)"
  "get_value (s\<lparr>event_debug_previews_enabled := b\<rparr>) = (get_value s)(''event_debug_previews_enabled'' \<mapsto> BoolValue b)"
  "get_value (s\<lparr>trust_x_forwarded_for := b\<rparr>) = (get_value s)(''trust_x_forwarded_for'' \<mapsto> BoolValue b)"
  "get_value (s\<lparr>session_secure_cookie := b\<rparr>) = (get_value s)(''session_secure_cookie'' \<mapsto> BoolValue b)"
  "get_value (s\<lparr>cors_origins := t\<rparr>) = (get_value s)(''cors_origins'' \<mapsto> StrValue t)"
  "get_value (s\<lparr>app_public_base_url := t\<rparr>) = (get_value s)(''app_public_base_url'' \<mapsto> StrValue t)"
  "get_value (s\<lparr>frontend_base_url := t\<rparr>) = (get_value s)(''frontend_base_url'' \<mapsto> StrValue t)"
  "get_value (s\<lparr>ms_app_tenant_id := t\<rparr>) = (get_value s)(''ms_app_tenant_id'' \<mapsto> StrValue t)"
  "get_value (s\<lparr>ms_app_client_id := t\<rparr>) = (get_value s)(''ms_app_client_id'' \<mapsto> StrValue t)"
  "get_value (s\<lparr>ms_app_client_secret := t\<rparr>) = (get_value s)(''ms_app_client_secret'' \<mapsto> StrValue t)"
  by ((rule set_field [where i = 0]; simp add: setting_fields_def),
    (rule set_field [where i = 1]; simp add: setting_fields_def),
    (rule set_field [where i = 2]; simp add: setting_fields_def),
    (rule set_field [where i = 3]; simp add: setting_fields_def),
    (rule set_field [where i = 4]; simp add: setting_fields_def),
    (rule set_field [where i = 5]; simp add: setting_fields_def),
    (rule set_field [where i = 6]; simp add: setting_fields_def),
    (rule set_field [where i = 7]; simp add: setting_fields_def),
    (rule set_field [where i = 8]; simp add: setting_fields_def),
    (rule set_field [where i = 9]; simp add: setting_fields_def),
    (rule set_field [where i = 10]; simp add: setting_fields_def),
    (rule set_field [where i = 11]; simp add: setting_fields_def),
    (rule set_field [where i = 12]; simp add: setting_fields_def),
    (rule set_field [where i = 13]; simp add: setting_fields_def),
    (rule set_field [where i = 14]; simp add: setting_fields_def),
    (rule set_field [where i = 15]; simp add: setting_fields_def),
    (rule set_field [where i = 16]; simp add: setting_fields_def),
    (rule set_field [where i = 17]; simp add: setting_fields_def),
    (rule set_field [where i = 18]; simp add: setting_fields_def))

text \<open>Reading an attribute after an update.\<close>

lemma get_put_same:
  assumes "is_environment_override key" and "coerce_for_settings key v = Inr x"
  shows "get_value (put_value key x s) key = Some x"
proof -
  have "key \<in> set (List.map sd_key OVERRIDABLE_SETTINGS)" using assms(1) by (simp add: is_environment_override_def)
  then show ?thesis
    using assms(2)
    by (simp only: OVERRIDABLE_SETTINGS_def setting_def_def list.map setting_definition.simps list.set insert_iff empty_iff simp_thms)
      (elim disjE; simp add: coerce_for_settings_def setting_named_def setting_defs put_value_def split: option.splits;
        auto simp: put_int_def put_bool_def put_str_def get_value_upd)
qed

lemma put_int_other: "k \<noteq> key \<Longrightarrow> get_value (put_int key n s) k = get_value s k"
proof (cases "key \<in> {''webhook_max_payload_bytes'', ''webhook_abuse_failure_limit'', ''webhook_abuse_window_minutes'',
    ''log_retention_days'', ''log_cleanup_interval_minutes''}")
  case True
  then have "get_value (put_int key n s) = (get_value s)(key \<mapsto> IntValue n)"
    by (elim insertE emptyE; simp add: put_int_def get_value_upd)
  then show "k \<noteq> key \<Longrightarrow> ?thesis" by (simp only: fun_upd_apply if_False)
next
  case False
  then have "put_int key n s = s" by (simp only: insert_iff empty_iff de_Morgan_disj simp_thms put_int_def if_False)
  then show "k \<noteq> key \<Longrightarrow> ?thesis" by (simp only:)
qed

lemma put_bool_other: "k \<noteq> key \<Longrightarrow> get_value (put_bool key b s) k = get_value s k"
proof (cases "key \<in> {''webhook_abuse_blocking_enabled'', ''event_debug_previews_enabled'', ''trust_x_forwarded_for'',
    ''session_secure_cookie''}")
  case True
  then have "get_value (put_bool key b s) = (get_value s)(key \<mapsto> BoolValue b)"
    by (elim insertE emptyE; simp add: put_bool_def get_value_upd)
  then show "k \<noteq> key \<Longrightarrow> ?thesis" by (simp only: fun_upd_apply if_False)
next
  case False
  then have "put_bool key b s = s" by (simp only: insert_iff empty_iff de_Morgan_disj simp_thms put_bool_def if_False)
  then show "k \<noteq> key \<Longrightarrow> ?thesis" by (simp only:)
qed

lemma put_str_other: "k \<noteq> key \<Longrightarrow> get_value (put_str key t s) k = get_value s k"
proof (cases "key \<in> {''cors_origins'', ''app_public_base_url'', ''frontend_base_url'',
    ''ms_app_tenant_id'', ''ms_app_client_id'', ''ms_app_client_secret''}")
  case True
  then have "get_value (put_str key t s) = (get_value s)(key \<mapsto> StrValue t)"
    by (elim insertE emptyE; simp add: put_str_def get_value_upd)
  then show "k \<noteq> key \<Longrightarrow> ?thesis" by (simp only: fun_upd_apply if_False)
next
  case False
  then have "put_str key t s = s" by (simp only: insert_iff empty_iff de_Morgan_disj simp_thms put_str_def if_False)
  then show "k \<noteq> key \<Longrightarrow> ?thesis" by (simp only:)
qed

lemma get_put_other: "k \<noteq> key \<Longrightarrow> get_value (put_value key x s) k = get_value s k"
  by (cases x) (simp_all add: put_value_def put_int_other put_bool_other put_str_other)

lemma env_updates_value:
  assumes "distinct (List.map fst cached)" and "\<And>k v. (k, v) \<in> set cached \<Longrightarrow> stored_form k v"
  shows "\<exists>s'. env_updates cached s = Inr s' \<and> (\<forall>k. get_value s' k =
    (if is_environment_override k \<and> map_of cached k \<noteq> None then meaning k (the (map_of cached k)) else get_value s k))"
  using assms
proof (induction cached arbitrary: s)
  case (Cons kv rest)
  obtain key v where kv: "kv = (key, v)" by (rule prod.exhaust)
  have new: "map_of rest key = None" using Cons.prems(1) kv by (simp add: map_of_eq_None_iff)
  have IH: "\<exists>s'. env_updates rest s = Inr s' \<and> (\<forall>k. get_value s' k =
    (if is_environment_override k \<and> map_of rest k \<noteq> None then meaning k (the (map_of rest k)) else get_value s k))" for s
    using Cons.IH Cons.prems by simp
  show ?case
  proof (cases "is_environment_override key")
    case False
    then show ?thesis using IH [of s] kv by auto
  next
    case True
    obtain x where x: "coerce_for_settings key v = Inr x" using stored_form_coerces Cons.prems(2) kv by fastforce
    obtain s' where s': "env_updates rest (put_value key x s) = Inr s'" "\<And>k. get_value s' k =
      (if is_environment_override k \<and> map_of rest k \<noteq> None then meaning k (the (map_of rest k))
       else get_value (put_value key x s) k)"
      using IH [of "put_value key x s"] by blast
    have "get_value s' k = (if is_environment_override k \<and> map_of (kv # rest) k \<noteq> None
      then meaning k (the (map_of (kv # rest) k)) else get_value s k)" for k
    proof (cases "k = key")
      case same: True
      then show ?thesis using s'(2) [of key] new True kv get_put_same [OF True x, of s] x by (simp add: meaning_def)
    next
      case False
      then show ?thesis using s'(2) [of k] kv get_put_other [OF False, of x s] by (cases "map_of rest k") simp_all
    qed
    then show ?thesis using s'(1) True kv x by simp
  qed
qed simp

definition cached_ok :: "overrides \<Rightarrow> bool" where
  "cached_ok cached \<longleftrightarrow> distinct (List.map fst cached) \<and> (\<forall>(k, v) \<in> set cached. stored_form k v)"

definition effective_value :: "settings \<Rightarrow> overrides \<Rightarrow> string \<Rightarrow> setting_value option" where
  "effective_value env cached k = (case map_of cached k of None \<Rightarrow> get_value env k | Some v \<Rightarrow> meaning k v)"

lemma features_value:
  assumes "s' = use_delivery_feature_settings s bf gl gd ttl"
  shows "get_value s' ''bot_framework_enabled'' = (case bf of None \<Rightarrow> get_value s ''bot_framework_enabled'' | Some b \<Rightarrow> Some (BoolValue b))"
    "get_value s' ''graph_lookup_enabled'' = (case gl of None \<Rightarrow> get_value s ''graph_lookup_enabled'' | Some b \<Rightarrow> Some (BoolValue b))"
    "get_value s' ''graph_delivery_enabled'' = (case gd of None \<Rightarrow> get_value s ''graph_delivery_enabled'' | Some b \<Rightarrow> Some (BoolValue b))"
    "get_value s' ''webhook_url_reveal_ttl_hours'' =
      (case ttl of None \<Rightarrow> get_value s ''webhook_url_reveal_ttl_hours'' | Some n \<Rightarrow> Some (IntValue n))"
    "is_environment_override k \<Longrightarrow> get_value s' k = get_value s k"
proof -
  note unfold = assms use_delivery_feature_settings_def Let_def
  show "get_value s' ''bot_framework_enabled'' = (case bf of None \<Rightarrow> get_value s ''bot_framework_enabled'' | Some b \<Rightarrow> Some (BoolValue b))"
    unfolding unfold by (cases bf; cases gl; cases gd; cases ttl; simp add: get_value_upd)
  show "get_value s' ''graph_lookup_enabled'' = (case gl of None \<Rightarrow> get_value s ''graph_lookup_enabled'' | Some b \<Rightarrow> Some (BoolValue b))"
    unfolding unfold by (cases bf; cases gl; cases gd; cases ttl; simp add: get_value_upd)
  show "get_value s' ''graph_delivery_enabled'' = (case gd of None \<Rightarrow> get_value s ''graph_delivery_enabled'' | Some b \<Rightarrow> Some (BoolValue b))"
    unfolding unfold by (cases bf; cases gl; cases gd; cases ttl; simp add: get_value_upd)
  show "get_value s' ''webhook_url_reveal_ttl_hours'' =
      (case ttl of None \<Rightarrow> get_value s ''webhook_url_reveal_ttl_hours'' | Some n \<Rightarrow> Some (IntValue n))"
    unfolding unfold by (cases bf; cases gl; cases gd; cases ttl; simp add: get_value_upd)
  show "get_value s' k = get_value s k" if "is_environment_override k"
  proof -
    have "k \<notin> {''bot_framework_enabled'', ''graph_lookup_enabled'', ''graph_delivery_enabled'', ''webhook_url_reveal_ttl_hours''}"
      using that by (auto simp: is_environment_override_def OVERRIDABLE_SETTINGS_def setting_def_def)
    then show ?thesis unfolding unfold by (cases bf; cases gl; cases gd; cases ttl; simp add: get_value_upd)
  qed
qed

lemma cached_bool_meaning:
  assumes "\<And>k v. (k, v) \<in> set cached \<Longrightarrow> stored_form k v" and "setting_named key = Some d" and "sd_type d = TBool"
  shows "cached_bool cached key = None \<Longrightarrow> map_of cached key = None"
    "cached_bool cached key = Some b \<Longrightarrow> \<exists>v. map_of cached key = Some v \<and> meaning key v = Some (BoolValue b)"
  using assms(2,3) by (auto simp: cached_bool_def meaning_def coerce_for_settings_def)

lemma application_keys:
  "\<exists>d. setting_named ''bot_framework_enabled'' = Some d \<and> sd_type d = TBool"
  "\<exists>d. setting_named ''graph_lookup_enabled'' = Some d \<and> sd_type d = TBool"
  "\<exists>d. setting_named ''graph_delivery_enabled'' = Some d \<and> sd_type d = TBool"
  "\<exists>d. setting_named ''webhook_url_reveal_ttl_hours'' = Some d \<and> sd_type d = TInt"
  by (simp_all add: setting_named_def setting_defs)

lemma named_key_cases:
  assumes "setting_named k \<noteq> None"
  shows "is_environment_override k \<or> k = ''bot_framework_enabled'' \<or> k = ''graph_lookup_enabled'' \<or>
    k = ''graph_delivery_enabled'' \<or> k = ''webhook_url_reveal_ttl_hours''"
proof -
  obtain d where d: "d \<in> set SETTING_DEFINITIONS" "sd_key d = k" using setting_named_row assms by blast
  show ?thesis
  proof (cases "d \<in> set OVERRIDABLE_SETTINGS")
    case True
    then show ?thesis using d(2) by (auto simp: is_environment_override_def)
  next
    case False
    then have "d \<in> set APPLICATION_SETTINGS" using d(1) by (simp add: SETTING_DEFINITIONS_def)
    then show ?thesis using d(2) by (auto simp: APPLICATION_SETTINGS_def setting_def_def)
  qed
qed

text \<open>In the form the validation leaves values in, the overrides never fail to apply, and every
  setting has the value stored for it or else that of the environment.\<close>

lemma effective_settings:
  assumes "cached_ok cached"
  shows "\<exists>st. get_effective_settings env cached = Inr st \<and>
    (\<forall>k. setting_named k \<noteq> None \<longrightarrow> get_value st k = effective_value env cached k)"
proof (cases "cached = []")
  case True
  then show ?thesis by (simp add: get_effective_settings_def effective_value_def)
next
  case False
  have ok: "distinct (List.map fst cached)" "\<And>k v. (k, v) \<in> set cached \<Longrightarrow> stored_form k v"
    using assms by (auto simp: cached_ok_def)
  obtain s where s: "env_updates cached env = Inr s" "\<And>k. get_value s k =
    (if is_environment_override k \<and> map_of cached k \<noteq> None then meaning k (the (map_of cached k)) else get_value env k)"
    using env_updates_value [OF ok] by blast
  obtain ttl where ttl: "(case map_of cached ''webhook_url_reveal_ttl_hours'' of None \<Rightarrow> ttl = None
      | Some v \<Rightarrow> setting_int v = ttl \<and> ttl \<noteq> None)"
  proof (cases "map_of cached ''webhook_url_reveal_ttl_hours''")
    case (Some v)
    then have "stored_form ''webhook_url_reveal_ttl_hours'' v" using ok(2) map_of_SomeD by metis
    then have "setting_int v \<noteq> None"
      using application_keys(4) by (auto elim!: stored_form_cases)
    then show ?thesis using that Some by simp
  qed (use that in simp)
  let ?st = "use_delivery_feature_settings s (cached_bool cached ''bot_framework_enabled'')
    (cached_bool cached ''graph_lookup_enabled'') (cached_bool cached ''graph_delivery_enabled'') ttl"
  have e: "get_effective_settings env cached = Inr ?st"
    using False s(1) ttl by (auto simp: get_effective_settings_def Let_def split: option.splits)
  have flag: "(case cached_bool cached k of None \<Rightarrow> get_value s k | Some b \<Rightarrow> Some (BoolValue b)) = effective_value env cached k"
    if ex: "\<exists>d. setting_named k = Some d \<and> sd_type d = TBool" and ne: "\<not> is_environment_override k" for k
  proof -
    obtain d where d: "setting_named k = Some d" "sd_type d = TBool" using ex by blast
    show ?thesis
      using s(2) [of k] ne cached_bool_meaning [OF ok(2) d]
      by (cases "cached_bool cached k") (fastforce simp: effective_value_def)+
  qed
  have application: "\<not> is_environment_override ''bot_framework_enabled''" "\<not> is_environment_override ''graph_lookup_enabled''"
    "\<not> is_environment_override ''graph_delivery_enabled''" "\<not> is_environment_override ''webhook_url_reveal_ttl_hours''"
    by (simp_all add: is_environment_override_def OVERRIDABLE_SETTINGS_def setting_def_def)
  have hours: "(case ttl of None \<Rightarrow> get_value s ''webhook_url_reveal_ttl_hours'' | Some n \<Rightarrow> Some (IntValue n)) =
    effective_value env cached ''webhook_url_reveal_ttl_hours''"
    using ttl s(2) [of "''webhook_url_reveal_ttl_hours''"] application(4) application_keys(4)
    by (auto simp: effective_value_def meaning_def coerce_for_settings_def split: option.splits)
  note f = features_value [OF refl, where s = s and bf = "cached_bool cached ''bot_framework_enabled''"
      and gl = "cached_bool cached ''graph_lookup_enabled''" and gd = "cached_bool cached ''graph_delivery_enabled''" and ttl = ttl]
  have "get_value ?st k = effective_value env cached k" if "setting_named k \<noteq> None" for k
    using named_key_cases [OF that]
  proof (elim disjE)
    assume k: "is_environment_override k"
    then show ?thesis unfolding f(5) [OF k] s(2) by (auto simp: effective_value_def)
  next
    assume k: "k = ''bot_framework_enabled''"
    show ?thesis unfolding k f(1) by (rule flag [OF application_keys(1) application(1)])
  next
    assume k: "k = ''graph_lookup_enabled''"
    show ?thesis unfolding k f(2) by (rule flag [OF application_keys(2) application(2)])
  next
    assume k: "k = ''graph_delivery_enabled''"
    show ?thesis unfolding k f(3) by (rule flag [OF application_keys(3) application(3)])
  next
    assume k: "k = ''webhook_url_reveal_ttl_hours''"
    show ?thesis unfolding k f(4) by (rule hours)
  qed
  then show ?thesis using e by blast
qed

section \<open>What setting and clearing do\<close>

text \<open>The cipher gives back what was encrypted under the same key.\<close>

definition fernet_sound :: "remote \<Rightarrow> bool" where
  "fernet_sound rm \<longleftrightarrow> (\<forall>key text. fernet_decrypt rm key (fernet_encrypt rm key text) = Some text)"

lemma loaded_overrides_map:
  assumes "loaded_overrides rm env rows = Inr cached" and "distinct (List.map st_key rows)"
  shows "distinct (List.map fst cached)"
    "map_of cached k = (if setting_named k = None then None else (case setting_row k rows of None \<Rightarrow> None
       | Some r \<Rightarrow> (case stored_value rm env r of Inl e \<Rightarrow> None | Inr v \<Rightarrow> Some v)))"
proof -
  have "distinct (List.map fst cached) \<and> set (List.map fst cached) \<subseteq> set (List.map st_key rows) \<and> map_of cached k =
    (if setting_named k = None then None else (case setting_row k rows of None \<Rightarrow> None
       | Some r \<Rightarrow> (case stored_value rm env r of Inl e \<Rightarrow> None | Inr v \<Rightarrow> Some v)))"
    using assms
  proof (induction rows arbitrary: cached)
    case (Cons r rows)
    show ?case
    proof (cases "setting_named (st_key r) = None")
      case True
      then show ?thesis using Cons by (auto simp: setting_row_def)
    next
      case False
      then obtain v rest where v: "stored_value rm env r = Inr v" and rest: "loaded_overrides rm env rows = Inr rest"
        and c: "cached = (st_key r, v) # rest"
        using Cons.prems(1) by (auto split: sum.splits)
      have new: "st_key r \<notin> set (List.map st_key rows)" using Cons.prems(2) by simp
      have IH: "distinct (List.map fst rest)" "set (List.map fst rest) \<subseteq> set (List.map st_key rows)"
        "map_of rest k = (if setting_named k = None then None else (case setting_row k rows of None \<Rightarrow> None
          | Some r \<Rightarrow> (case stored_value rm env r of Inl e \<Rightarrow> None | Inr v \<Rightarrow> Some v)))"
        using Cons.IH [OF rest] Cons.prems(2) by simp_all
      have "st_key r \<notin> set (List.map fst rest)" using new IH(2) by blast
      then show ?thesis
        using IH v False unfolding c by (auto simp: setting_row_def)
    qed
  qed (simp add: setting_row_def)
  then show "distinct (List.map fst cached)"
    "map_of cached k = (if setting_named k = None then None else (case setting_row k rows of None \<Rightarrow> None
       | Some r \<Rightarrow> (case stored_value rm env r of Inl e \<Rightarrow> None | Inr v \<Rightarrow> Some v)))"
    by blast+
qed

lemma setting_row_key: "setting_row key rows = Some r \<Longrightarrow> st_key r = key \<and> r \<in> set rows"
  using fetch_Some [of "\<lambda>r. st_key r = key" rows r] by (simp add: setting_row_def)

lemma setting_row_put:
  "setting_row k (put_row w key value secret by rows) =
    (if k = key then Some \<lparr>st_key = key, st_value = value, st_is_secret = secret, st_updated_at = utcnow w, st_updated_by_id = by\<rparr>
     else setting_row k rows)"
proof -
  let ?row = "\<lparr>st_key = key, st_value = value, st_is_secret = secret, st_updated_at = utcnow w, st_updated_by_id = by\<rparr>"
  have new: "setting_row k (rows @ [?row]) = (if k = key then Some ?row else setting_row k rows)" if "setting_row key rows = None"
    using that by (auto simp: setting_row_def split: option.splits)
  have "setting_row key (save_row st_key ?row rows) = Some ?row" if "setting_row key rows \<noteq> None"
    using that by (induction rows) (auto simp: setting_row_def save_row_def)
  moreover have "setting_row k (save_row st_key ?row rows) = setting_row k rows" if "k \<noteq> key"
    using that by (induction rows) (auto simp: setting_row_def save_row_def)
  ultimately have old: "setting_row k (save_row st_key ?row rows) = (if k = key then Some ?row else setting_row k rows)"
    if "setting_row key rows \<noteq> None"
    using that by (cases "k = key") simp_all
  show ?thesis
    using new old unfolding put_row_def Let_def by (cases "setting_row key rows = None") auto
qed

lemma put_row_distinct: "distinct (List.map st_key rows) \<Longrightarrow> distinct (List.map st_key (put_row w key value secret by rows))"
proof (cases "setting_row key rows = None")
  case True
  then have "key \<notin> st_key ` set rows" by (auto simp: setting_row_def fetch_None)
  then show "distinct (List.map st_key rows) \<Longrightarrow> ?thesis" using True by (simp add: put_row_def)
next
  case False
  have "List.map st_key (save_row st_key r rows) = List.map st_key rows" for r
    by (simp add: save_row_def update_rows_def)
  then show "distinct (List.map st_key rows) \<Longrightarrow> ?thesis" using False by (auto simp: put_row_def Let_def)
qed

lemma serialize_reads_back:
  assumes "serialize_for_storage rm env key v = Inr stored" and "fernet_sound rm" and "setting_named key = Some d"
    and "st_value r = stored" and "st_is_secret r = sd_is_secret d"
  shows "\<exists>n. validate_and_normalize key v = Inr n \<and> stored_value rm env r = Inr n"
proof -
  obtain n where n: "validate_and_normalize key v = Inr n"
    "(if sd_is_secret d then encrypt_secret rm env n else Inr n) = Inr stored"
    using assms(1,3) by (auto simp: serialize_for_storage_def split: sum.splits)
  show ?thesis
  proof (cases "sd_is_secret d")
    case True
    then obtain source where source: "fernet_source env = Inr source" "stored = fernet_encrypt rm source n"
      using n(2) by (auto simp: encrypt_secret_def split: sum.splits)
    then have "stored_value rm env r = Inr n"
      using True assms(2,4,5) by (simp add: stored_value_def decrypt_override_def decrypt_secret_def fernet_sound_def)
    then show ?thesis using n(1) by blast
  qed (use n assms(4,5) in \<open>simp add: stored_value_def\<close>)
qed

section \<open>The state of the overrides\<close>

definition plain_value :: "remote \<Rightarrow> settings \<Rightarrow> app_setting list \<Rightarrow> string \<Rightarrow> string option" where
  "plain_value rm env rows k =
     (case setting_row k rows of None \<Rightarrow> None
      | Some r \<Rightarrow> (case stored_value rm env r of Inl e \<Rightarrow> None | Inr v \<Rightarrow> Some v))"

definition secrets_marked :: "app_setting list \<Rightarrow> bool" where
  "secrets_marked rows \<longleftrightarrow>
     (\<forall>r \<in> set rows. \<forall>d. setting_named (st_key r) = Some d \<longrightarrow> st_is_secret r = sd_is_secret d)"

text \<open>
  Keys are unique, the cache is what the rows hold, every value is in stored form, and delivery through
  Graph is on only where the lookup is.
\<close>

definition overrides_ok :: "remote \<Rightarrow> settings \<Rightarrow> db \<times> overrides \<Rightarrow> bool" where
  "overrides_ok rm env s \<longleftrightarrow>
     distinct (List.map st_key (app_settings (fst s))) \<and> secrets_marked (app_settings (fst s)) \<and>
     load_overrides rm env (fst s) = Inr (snd s) \<and> cached_ok (snd s) \<and> validate_feature_dependency (snd s) = None"

lemma overrides_okD:
  assumes "overrides_ok rm env s"
  shows "distinct (List.map st_key (app_settings (fst s)))" "secrets_marked (app_settings (fst s))"
    "loaded_overrides rm env (app_settings (fst s)) = Inr (snd s)" "cached_ok (snd s)"
    "validate_feature_dependency (snd s) = None"
  using assms by (simp_all add: overrides_ok_def load_overrides_def)

lemma loaded_plain:
  assumes "loaded_overrides rm env rows = Inr cached" and "distinct (List.map st_key rows)"
  shows "map_of cached k = (if setting_named k = None then None else plain_value rm env rows k)"
  using loaded_overrides_map(2) [OF assms] by (simp add: plain_value_def)

lemma plain_value_put:
  assumes "serialize_for_storage rm env key v = Inr stored" and "fernet_sound rm" and "setting_named key = Some d"
    and "secret = sd_is_secret d"
  shows "\<exists>n. validate_and_normalize key v = Inr n \<and>
    (\<forall>k. plain_value rm env (put_row w key stored secret by rows) k = (if k = key then Some n else plain_value rm env rows k))"
proof -
  let ?row = "\<lparr>st_key = key, st_value = stored, st_is_secret = secret, st_updated_at = utcnow w, st_updated_by_id = by\<rparr>"
  obtain n where "validate_and_normalize key v = Inr n" "stored_value rm env ?row = Inr n"
    using serialize_reads_back [OF assms(1-3), of ?row] assms(4) by auto
  then show ?thesis by (auto simp: plain_value_def setting_row_put)
qed

lemma secrets_marked_put:
  "secrets_marked rows \<Longrightarrow> setting_named key = Some d \<Longrightarrow> secret = sd_is_secret d \<Longrightarrow>
    secrets_marked (put_row w key v secret by rows)"
  by (auto simp: secrets_marked_def put_row_def Let_def set_save_row)

lemma cors_definition: "\<exists>d. setting_named ''cors_origins'' = Some d \<and> sd_type d = TString \<and> \<not> sd_is_secret d"
  by (simp add: setting_named_def setting_defs)

text \<open>The rows that setting leads to, as plain values.\<close>

lemma new_rows_plain:
  assumes "new_rows rm w env cached key value by rows = Inr rows'" and "fernet_sound rm"
    and "distinct (List.map st_key rows)" and "secrets_marked rows"
  obtains d n1 n2 where "setting_named key = Some d" "validate_and_normalize key value = Inr n1" "validate_and_normalize key n1 = Inr n2"
    "validate_feature_dependency (AList.update key n1 cached) = None"
    "distinct (List.map st_key rows')" "secrets_marked rows'" "plain_value rm env rows' key = Some n2"
    "\<And>k. k \<noteq> key \<Longrightarrow> plain_value rm env rows' k = plain_value rm env rows k \<or>
      (key = ''frontend_base_url'' \<and> k = ''cors_origins'' \<and>
       (\<exists>c. validate_and_normalize k n1 = Inr c \<and> plain_value rm env rows' k = Some c))"
proof -
  obtain d where d: "setting_named key = Some d" using assms(1) by (auto simp: new_rows_def split: option.splits)
  obtain previous where previous: "previous_frontend_url env cached key = Inr previous"
    using assms(1) d by (auto simp: new_rows_def split: sum.splits)
  obtain n1 where n1: "validate_and_normalize key value = Inr n1"
    using assms(1) d previous by (auto simp: new_rows_def split: sum.splits)
  obtain stored where stored: "serialize_for_storage rm env key n1 = Inr stored"
    using assms(1) d previous n1 by (auto simp: new_rows_def split: sum.splits)
  have feature: "validate_feature_dependency (AList.update key n1 cached) = None"
    using assms(1) d previous n1 stored by (auto simp: new_rows_def hypothetical_settings_def split: option.splits)
  let ?rows = "put_row w key stored (sd_is_secret d) by rows"
  have last: "(if key = ''frontend_base_url'' then follow_frontend rm w env previous n1 by ?rows else Inr ?rows) = Inr rows'"
    using assms(1) by (simp add: new_rows_def d previous n1 stored feature hypothetical_settings_def Let_def)
  obtain n2 where n2: "validate_and_normalize key n1 = Inr n2"
    "\<And>k. plain_value rm env ?rows k = (if k = key then Some n2 else plain_value rm env rows k)"
    using plain_value_put [OF stored assms(2) d refl, of w "by" rows] by blast
  have ok: "distinct (List.map st_key ?rows)" "secrets_marked ?rows"
    using assms(3,4) d by (simp_all add: put_row_distinct secrets_marked_put)
  obtain c where c: "setting_named ''cors_origins'' = Some c" "\<not> sd_is_secret c" using cors_definition by blast
  have "rows' = ?rows \<or> key = ''frontend_base_url'' \<and>
    (\<exists>v. serialize_for_storage rm env ''cors_origins'' n1 = Inr v \<and> rows' = put_row w ''cors_origins'' v False by ?rows)"
  proof (cases "key = ''frontend_base_url''")
    case True
    then have f: "follow_frontend rm w env previous n1 by ?rows = Inr rows'" using last by simp
    show ?thesis
    proof (cases "setting_row ''cors_origins'' ?rows")
      case None
      then show ?thesis using f True by (auto simp: follow_frontend_def split: sum.splits)
    next
      case (Some row)
      then have "\<not> st_is_secret row"
        using setting_row_key [OF Some] ok(2) c unfolding secrets_marked_def by metis
      then show ?thesis using f True Some by (auto simp: follow_frontend_def split: sum.splits if_splits)
    qed
  qed (use last in simp)
  then show ?thesis
  proof (elim disjE conjE exE)
    assume "rows' = ?rows"
    then show ?thesis using that [OF d n1 n2(1) feature] ok n2(2) by simp
  next
    fix v assume key: "key = ''frontend_base_url''" and v: "serialize_for_storage rm env ''cors_origins'' n1 = Inr v"
      and rows': "rows' = put_row w ''cors_origins'' v False by ?rows"
    obtain n where n: "validate_and_normalize ''cors_origins'' n1 = Inr n"
      "\<And>k. plain_value rm env rows' k = (if k = ''cors_origins'' then Some n else plain_value rm env ?rows k)"
      using plain_value_put [OF v assms(2) c(1), of False w "by" ?rows] c(2) unfolding rows' by blast
    show ?thesis
      using that [OF d n1 n2(1) feature] ok n n2(2) c key
      unfolding rows' by (auto simp: put_row_distinct secrets_marked_put)
  qed
qed

lemma plain_cached_ok:
  assumes "loaded_overrides rm env rows = Inr cached" and "distinct (List.map st_key rows)"
    and "\<And>k v. setting_named k \<noteq> None \<Longrightarrow> plain_value rm env rows k = Some v \<Longrightarrow> stored_form k v"
  shows "cached_ok cached"
proof -
  have d: "distinct (List.map fst cached)" using loaded_overrides_map(1) [OF assms(1,2)] .
  moreover have "stored_form k v" if "(k, v) \<in> set cached" for k v
  proof -
    have "map_of cached k = Some v" using that d by simp
    then show ?thesis using loaded_plain [OF assms(1,2), of k] assms(3) [of k v] by (simp split: if_splits)
  qed
  ultimately show ?thesis by (auto simp: cached_ok_def)
qed

lemma cached_stored_form: "cached_ok cached \<Longrightarrow> map_of cached k = Some v \<Longrightarrow> stored_form k v"
  by (auto simp: cached_ok_def dest: map_of_SomeD)

lemma overrides_stored_form:
  assumes "overrides_ok rm env s" and "setting_named k \<noteq> None" and "plain_value rm env (app_settings (fst s)) k = Some v"
  shows "stored_form k v"
  using assms loaded_plain [OF overrides_okD(3,1) [OF assms(1)], of k] cached_stored_form [OF overrides_okD(4) [OF assms(1)]]
  by auto

lemma bool_stable:
  assumes "setting_named key = Some d" and "sd_type d = TBool" and "validate_and_normalize key v = Inr n"
  shows "validate_and_normalize key n = Inr n"
proof -
  have "n = ''true'' \<or> n = ''false''"
    using assms by (auto simp: validate_and_normalize_def Let_def split: if_splits)
  moreover have "lower (strip ''true'') = ''true''" "lower (strip ''false'') = ''false''" by code_simp+
  ultimately show ?thesis using assms(1,2) by (auto simp: validate_and_normalize_def Let_def)
qed

lemma feature_dependency_cong:
  assumes "map_of a ''graph_lookup_enabled'' = map_of b ''graph_lookup_enabled''"
    and "map_of a ''graph_delivery_enabled'' = map_of b ''graph_delivery_enabled''"
  shows "validate_feature_dependency a = validate_feature_dependency b"
  using assms by (simp add: validate_feature_dependency_def cached_bool_def)

text \<open>Setting keeps the state in order, and nothing but the setting and the origins that follow it changes.\<close>

lemma set_override_result:
  assumes "set_override rm w env key value by s = Inr s'" and "fernet_sound rm" and ok: "overrides_ok rm env s"
  obtains n1 n2 where "validate_and_normalize key value = Inr n1" "validate_and_normalize key n1 = Inr n2"
    "overrides_ok rm env s'" "map_of (snd s') key = Some n2" "setting_named key \<noteq> None"
    "\<And>k. k \<noteq> key \<Longrightarrow> map_of (snd s') k = map_of (snd s) k \<or> key = ''frontend_base_url'' \<and> k = ''cors_origins''"
proof -
  note s = overrides_okD [OF ok]
  obtain rows' where rows': "new_rows rm w env (snd s) key value by (app_settings (fst s)) = Inr rows'"
    using assms(1) by (auto simp: set_override_def split: sum.splits)
  have s': "app_settings (fst s') = rows'" "load_overrides rm env (fst s') = Inr (snd s')"
    using assms(1) rows' by (auto simp: set_override_def Let_def split: sum.splits)
  then have load: "loaded_overrides rm env rows' = Inr (snd s')" by (simp add: load_overrides_def)
  obtain d n1 n2 where d: "setting_named key = Some d" and n: "validate_and_normalize key value = Inr n1"
      "validate_and_normalize key n1 = Inr n2"
    and feature: "validate_feature_dependency (AList.update key n1 (snd s)) = None"
    and rows: "distinct (List.map st_key rows')" "secrets_marked rows'" "plain_value rm env rows' key = Some n2"
    and other: "\<And>k. k \<noteq> key \<Longrightarrow> plain_value rm env rows' k = plain_value rm env (app_settings (fst s)) k \<or>
      (key = ''frontend_base_url'' \<and> k = ''cors_origins'' \<and>
       (\<exists>c. validate_and_normalize k n1 = Inr c \<and> plain_value rm env rows' k = Some c))"
    using new_rows_plain [OF rows' assms(2) s(1,2)] by blast
  have here: "map_of (snd s') key = Some n2" using loaded_plain [OF load rows(1), of key] d rows(3) by simp
  have there: "map_of (snd s') k = map_of (snd s) k \<or> key = ''frontend_base_url'' \<and> k = ''cors_origins''" if "k \<noteq> key" for k
    using other [OF that] loaded_plain [OF load rows(1), of k] loaded_plain [OF s(3,1), of k] by auto
  have "cached_ok (snd s')"
  proof (rule plain_cached_ok [OF load rows(1)])
    fix k v assume k: "setting_named k \<noteq> None" "plain_value rm env rows' k = Some v"
    show "stored_form k v"
    proof (cases "k = key")
      case True
      then show ?thesis using k(2) rows(3) n(2) by (auto simp: stored_form_def)
    next
      case False
      then show ?thesis using other [OF False] overrides_stored_form [OF ok k(1)] k(2) by (auto simp: stored_form_def)
    qed
  qed
  moreover have "validate_feature_dependency (snd s') = None"
  proof -
    have same: "map_of (snd s') k = map_of (AList.update key n1 (snd s)) k"
      if flag: "\<exists>d. setting_named k = Some d \<and> sd_type d = TBool" and cors: "k \<noteq> ''cors_origins''" for k
    proof (cases "k = key")
      case True
      then obtain d where "setting_named key = Some d" "sd_type d = TBool" using flag by blast
      then have "n2 = n1" using bool_stable [OF _ _ n(1)] n(2) by auto
      then show ?thesis using True here by (simp add: update_conv')
    next
      case False
      then show ?thesis using there [OF False] cors by (simp add: update_conv')
    qed
    have "validate_feature_dependency (snd s') = validate_feature_dependency (AList.update key n1 (snd s))"
      by (rule feature_dependency_cong) (rule same; use application_keys in simp)+
    then show ?thesis using feature by simp
  qed
  ultimately have "overrides_ok rm env s'" using rows(1,2) s' by (simp add: overrides_ok_def)
  then show ?thesis using that [OF n _ here _ there] d by simp
qed

lemma clear_override_result:
  assumes "clear_override rm env key s = Inr s'" and ok: "overrides_ok rm env s"
  shows "overrides_ok rm env s'" "map_of (snd s') k = (if k = key then None else map_of (snd s) k)"
proof -
  note s = overrides_okD [OF ok]
  let ?rows = "delete_rows (\<lambda>r. st_key r = key) (app_settings (fst s))"
  have s': "app_settings (fst s') = ?rows" "load_overrides rm env (fst s') = Inr (snd s')"
    and feature: "validate_feature_dependency (AList.delete key (snd s)) = None"
    using assms(1) by (auto simp: clear_override_def hypothetical_settings_def Let_def split: if_splits option.splits sum.splits)
  then have load: "loaded_overrides rm env ?rows = Inr (snd s')" by (simp add: load_overrides_def)
  have rows: "distinct (List.map st_key ?rows)" "secrets_marked ?rows"
    using s(1,2) by (auto simp: secrets_marked_def delete_rows_def distinct_map_filter)
  have row: "setting_row k ?rows = (if k = key then None else setting_row k (app_settings (fst s)))" for k
    unfolding setting_row_def by (auto intro!: fetch_delete_all fetch_delete_other)
  have plain: "plain_value rm env ?rows k = (if k = key then None else plain_value rm env (app_settings (fst s)) k)" for k
    by (simp add: plain_value_def row)
  have "map_of (snd s') k = (if k = key then None else map_of (snd s) k)" for k
    using loaded_plain [OF load rows(1), of k] loaded_plain [OF s(3,1), of k] plain [of k] by auto
  moreover from this have "validate_feature_dependency (snd s') = validate_feature_dependency (AList.delete key (snd s))"
    by (intro feature_dependency_cong) (simp_all add: delete_conv')
  moreover have "cached_ok (snd s')"
    by (rule plain_cached_ok [OF load rows(1)]) (simp add: plain overrides_stored_form [OF ok] split: if_splits)
  ultimately show "overrides_ok rm env s'" "map_of (snd s') k = (if k = key then None else map_of (snd s) k)"
    using feature rows s' by (simp_all add: overrides_ok_def)
qed

section \<open>Values keep their form\<close>

text \<open>URLs and origins with white space inside are left out: cutting a slash off can leave a space at
  the end, which the next validation strips.\<close>

definition stable_text :: "string \<Rightarrow> string \<Rightarrow> bool" where
  "stable_text key n \<longleftrightarrow>
     key \<notin> {''cors_origins'', ''app_public_base_url'', ''frontend_base_url''} \<or> list_all (\<lambda>c. \<not> py_space c) n"

lemma rstrip_char_split: "\<exists>k. raw = rstrip_char d raw @ replicate k d"
proof -
  have "rev raw = takeWhile (\<lambda>c. c = d) (rev raw) @ dropWhile (\<lambda>c. c = d) (rev raw)" by simp
  moreover have "takeWhile (\<lambda>c. c = d) xs = replicate (length (takeWhile (\<lambda>c. c = d) xs)) d" for xs
    by (induction xs) auto
  ultimately have "raw = rev (dropWhile (\<lambda>c. c = d) (rev raw)) @ rev (replicate (length (takeWhile (\<lambda>c. c = d) (rev raw))) d)"
    by (metis rev_append rev_rev_ident)
  then show ?thesis unfolding rstrip_char_def by (metis rev_replicate)
qed

lemma rstrip_char_idem [simp]: "rstrip_char d (rstrip_char d s) = rstrip_char d s"
proof -
  have "dropWhile (\<lambda>c. c = d) (dropWhile (\<lambda>c. c = d) xs) = dropWhile (\<lambda>c. c = d) xs" for xs
    by (induction xs) auto
  then show ?thesis by (simp add: rstrip_char_def)
qed

lemma cors_origin_fixed:
  assumes "cors_origin candidate = Inr origin"
  shows "cors_origin origin = Inr origin" "set origin \<subseteq> set candidate \<union> set ''https://''" "origin \<noteq> []"
proof -
  obtain u where u: "urlparse candidate = Some u" "http_origin u" "origin = lower (url_scheme u) @ ''://'' @ url_netloc u"
    using assms by (auto simp: cors_origin_def split: option.splits if_splits)
  have h: "url_scheme u \<in> {''http'', ''https''}" "url_netloc u \<noteq> []" using u(2) by (simp_all add: http_origin_def)
  then have "lower (url_scheme u) = url_scheme u" by (auto simp: lower_def lower_char_def)
  then have o: "origin = url_scheme u @ ''://'' @ url_netloc u" using u(3) by simp
  note p = urlparse_origin [OF u(1) h]
  show "cors_origin origin = Inr origin"
    using p(1) h \<open>lower (url_scheme u) = url_scheme u\<close> by (simp add: cors_origin_def o http_origin_def)
  show "set origin \<subseteq> set candidate \<union> set ''https://''" using p(2) h(1) by (auto simp: o)
  show "origin \<noteq> []" by (simp add: o)
qed

lemma cors_from_origins:
  assumes "cors_from origins parts = Inr result" and "\<And>p. p \<in> set parts \<Longrightarrow> CHR '','' \<notin> set p"
    and "distinct origins" and "\<And>x. x \<in> set origins \<Longrightarrow> cors_origin x = Inr x \<and> CHR '','' \<notin> set x \<and> x \<noteq> []"
  shows "distinct result \<and> (\<forall>x \<in> set result. cors_origin x = Inr x \<and> CHR '','' \<notin> set x \<and> x \<noteq> [])"
  using assms
proof (induction origins parts rule: cors_from.induct)
  case (2 origins part parts)
  have parts: "\<And>p. p \<in> set parts \<Longrightarrow> CHR '','' \<notin> set p" using 2(4) by simp
  show ?case
  proof (cases "strip part = []")
    case True
    then have "cors_from origins parts = Inr result" using 2(3) by simp
    then show ?thesis by (rule 2(1) [OF True _ parts 2(5,6)])
  next
    case False
    then obtain origin where o: "cors_origin (strip part) = Inr origin" using 2(3) by (auto split: sum.splits)
    have new: "cors_origin origin = Inr origin" "CHR '','' \<notin> set origin" "origin \<noteq> []"
      using cors_origin_fixed [OF o] 2(4) [of part] set_strip_subset [of part] by auto
    let ?origins = "if origin \<in> set origins then origins else origins @ [origin]"
    have "cors_from ?origins parts = Inr result" using 2(3) False o by simp
    moreover have "distinct ?origins" using 2(5) by simp
    moreover have "cors_origin x = Inr x \<and> CHR '','' \<notin> set x \<and> x \<noteq> []" if "x \<in> set ?origins" for x
      using that new 2(6) by (auto split: if_splits)
    ultimately show ?thesis using 2(2) [OF False o _ parts] by blast
  qed
qed simp

lemma cors_from_fixed:
  assumes "\<And>x. x \<in> set xs \<Longrightarrow> cors_origin x = Inr x \<and> strip x = x \<and> x \<noteq> []" and "distinct (acc @ xs)"
  shows "cors_from acc xs = Inr (acc @ xs)"
  using assms by (induction xs arbitrary: acc) auto

lemma cors_stable:
  assumes "normalize_cors_origins raw = Inr n" and "list_all (\<lambda>c. \<not> py_space c) n"
  shows "normalize_cors_origins n = Inr n"
proof -
  obtain origins where o: "cors_from [] (split_on (CHR '','') raw) = Inr origins" "origins \<noteq> []" "n = join '','' origins"
    using assms(1) by (auto simp: normalize_cors_origins_def split: sum.splits if_splits)
  have r: "distinct origins" "\<forall>x \<in> set origins. cors_origin x = Inr x \<and> CHR '','' \<notin> set x \<and> x \<noteq> []"
    using cors_from_origins [OF o(1)] set_split_on by auto
  have s: "split_on (CHR '','') n = origins" unfolding o(3) using split_on_join [OF o(2)] r(2) by simp
  have "strip x = x" if "x \<in> set origins" for x
  proof (rule strip_no_space)
    show "\<forall>c \<in> set x. \<not> py_space c" using that assms(2) set_split_on [of x "CHR '',''" n] s by (auto simp: list_all_iff)
  qed
  then have "cors_from [] origins = Inr ([] @ origins)" using r by (intro cors_from_fixed) auto
  then show ?thesis using s o by (simp add: normalize_cors_origins_def)
qed

lemma url_stable:
  assumes "urlparse raw = Some u" and "http_origin u" and "n = rstrip_char (CHR ''/'') raw"
  shows "n \<noteq> []" "\<exists>u. urlparse n = Some u \<and> http_origin u"
proof -
  obtain k where k: "raw = n @ replicate k (CHR ''/'')" using rstrip_char_split [of raw] assms(3) by metis
  have "url_scheme u \<noteq> []" "url_netloc u \<noteq> []" using assms(2) by (auto simp: http_origin_def)
  then obtain v where v: "urlparse n = Some v" "url_scheme v = url_scheme u" "url_netloc v = url_netloc u"
    using urlparse_cut_slashes [of n k u] assms(1) k by auto
  then show "\<exists>u. urlparse n = Some u \<and> http_origin u" using assms(2) by (auto simp: http_origin_def)
  have "urlparse [] = Some u' \<Longrightarrow> url_netloc u' = []" for u'
    by (simp add: urlparse_def cleaned_def split_scheme_def split_netloc_def startswith_def before_char_def Let_def split: prod.splits if_splits)
      (auto simp: split_params_def)
  then show "n \<noteq> []" using v \<open>url_netloc u \<noteq> []\<close> by auto
qed

lemma stored_form_is_stable_value:
  assumes "validate_and_normalize key v = Inr n" and "stable_text key n"
  shows "validate_and_normalize key n = Inr n"
proof -
  obtain d where d: "setting_named key = Some d" using assms(1) by (auto simp: validate_and_normalize_def split: option.splits)
  have url_key: "key \<in> {''app_public_base_url'', ''frontend_base_url''}" if "sd_type d = TUrl"
    using setting_named_row [OF d] that by (auto simp: setting_defs)
  show ?thesis
  proof (cases "sd_type d")
    case TString
    show ?thesis
    proof (cases "key = ''cors_origins''")
      case True
      then have "list_all (\<lambda>c. \<not> py_space c) n" using assms(2) by (simp add: stable_text_def)
      moreover from this have "strip n = n" by (intro strip_no_space) (simp add: list_all_iff)
      ultimately show ?thesis
        using assms(1) d TString True cors_stable [of "strip v" n] by (simp add: validate_and_normalize_def)
    qed (use assms(1) d TString in \<open>auto simp: validate_and_normalize_def\<close>)
  next
    case TInt
    then obtain k where k: "setting_int (strip v) = Some k" "int_bounds key k = None" "n = str_int k"
      using assms(1) d by (auto simp: validate_and_normalize_def Let_def split: option.splits)
    then show ?thesis using d TInt setting_int_prints [OF k(1)] by (simp add: validate_and_normalize_def)
  next
    case TUrl
    show ?thesis
    proof (cases "strip v = []")
      case True
      then show ?thesis using assms(1) d TUrl by (simp add: validate_and_normalize_def)
    next
      case False
      then obtain u where u: "urlparse (strip v) = Some u" "http_origin u" "n = rstrip_char (CHR ''/'') (strip v)"
        using assms(1) d TUrl by (auto simp: validate_and_normalize_def Let_def split: option.splits if_splits)
      have "strip n = n"
        using assms(2) url_key [OF TUrl] by (intro strip_no_space) (auto simp: stable_text_def list_all_iff)
      then show ?thesis using url_stable [OF u] u(3) d TUrl by (auto simp: validate_and_normalize_def)
    qed
  next
    case TEnum
    then show ?thesis using definitions_plain setting_named_row [OF d] by blast
  next
    case TSecret
    then show ?thesis using assms(1) d by (auto simp: validate_and_normalize_def Let_def split: if_splits)
  next
    case TBool
    then show ?thesis using bool_stable [OF d _ assms(1)] by simp
  qed
qed

text \<open>A value that the validation has put in its stored form is left alone by a second validation,
  for every kind of setting: numbers, switches, secrets, URLs and lists of origins. Setting a value
  validates twice, and what is stored is what was checked.\<close>

theorem stored_form_is_stable:
  assumes "validate_and_normalize key v = Inr n" and "stable_text key n"
  shows "validate_and_normalize key n = Inr n"
  using assms by (rule stored_form_is_stable_value)

section \<open>Every history of settings\<close>

inductive setting_step :: "remote \<Rightarrow> settings \<Rightarrow> db \<times> overrides \<Rightarrow> db \<times> overrides \<Rightarrow> bool" for rm env where
  set: "setting_step rm env s (snd (update_setting rm w env admin key value s))"
| reset: "setting_step rm env s (snd (reset_setting rm w env admin key s))"

lemma overrides_ok_frame: "overrides_ok rm env (db, cached) \<Longrightarrow> app_settings db' = app_settings db \<Longrightarrow> overrides_ok rm env (db', cached)"
  by (simp add: overrides_ok_def load_overrides_def)

lemma update_setting_cases:
  assumes "fernet_sound rm" and "overrides_ok rm env s"
  shows "(\<exists>e. update_setting rm w env admin key given s = (Inl e, s) \<and>
      (set_override rm w env key given (Some (u_id admin)) s = Inl e \<or> 4000 < length given)) \<or>
    (\<exists>s1 db item. set_override rm w env key given (Some (u_id admin)) s = Inr s1 \<and> overrides_ok rm env s1 \<and>
      app_settings db = app_settings (fst s1) \<and> update_setting rm w env admin key given s = (Inr item, db, snd s1))"
proof (cases "set_override rm w env key given (Some (u_id admin)) s")
  case (Inl e)
  then show ?thesis by (simp add: update_setting_def)
next
  case (Inr s1)
  obtain db1 cached where s1: "s1 = (db1, cached)" by (rule prod.exhaust)
  obtain n where ok: "overrides_ok rm env s1" and named: "setting_named key \<noteq> None"
    by (rule set_override_result [OF Inr assms])
  obtain st where st: "get_effective_settings env cached = Inr st"
    using effective_settings [OF overrides_okD(4) [OF ok], of env] s1 by auto
  have "fetch (\<lambda>i. si_key i = key) (List.map (setting_item_of env st cached) ds) \<noteq> None"
    if "fetch (\<lambda>d. sd_key d = key) ds \<noteq> None" for ds
    using that by (induction ds) (auto simp: setting_item_of_def)
  then obtain item where "fetch (\<lambda>i. si_key i = key) (List.map (setting_item_of env st cached) SETTING_DEFINITIONS) = Some item"
    using named unfolding setting_named_def by blast
  then show ?thesis
    using Inr s1 st ok by (auto simp: update_setting_def Let_def list_setting_items_def)
qed

lemma reset_setting_cases:
  assumes "overrides_ok rm env s"
  shows "(\<exists>e. reset_setting rm w env admin key s = (Inl e, s)) \<or>
    (\<exists>s1 db. clear_override rm env key s = Inr s1 \<and> overrides_ok rm env s1 \<and>
      app_settings db = app_settings (fst s1) \<and> reset_setting rm w env admin key s = (Inr (), db, snd s1))"
proof (cases "clear_override rm env key s")
  case (Inl e)
  then show ?thesis by (simp add: reset_setting_def)
next
  case (Inr s1)
  obtain db1 cached where s1: "s1 = (db1, cached)" by (rule prod.exhaust)
  have ok: "overrides_ok rm env s1" by (rule clear_override_result(1) [OF Inr assms])
  obtain st where "get_effective_settings env cached = Inr st"
    using effective_settings [OF overrides_okD(4) [OF ok], of env] s1 by auto
  then show ?thesis using Inr s1 ok by (auto simp: reset_setting_def)
qed

lemma setting_step_ok: "setting_step rm env s s' \<Longrightarrow> fernet_sound rm \<Longrightarrow> overrides_ok rm env s \<Longrightarrow> overrides_ok rm env s'"
proof (induction rule: setting_step.induct)
  case (set s w admin key "value")
  show ?case using update_setting_cases [OF set, of w admin key "value"] set(2) overrides_ok_frame by fastforce
next
  case (reset s w admin key)
  show ?case using reset_setting_cases [OF reset(2), of w admin key] reset(2) overrides_ok_frame by fastforce
qed

lemma setting_steps_ok:
  "(setting_step rm env)\<^sup>*\<^sup>* s s' \<Longrightarrow> fernet_sound rm \<Longrightarrow> overrides_ok rm env s \<Longrightarrow> overrides_ok rm env s'"
  by (induction rule: rtranclp_induct) (auto intro: setting_step_ok)

lemma overrides_ok_empty: "app_settings db = [] \<Longrightarrow> overrides_ok rm env (db, [])"
  by (simp add: overrides_ok_def secrets_marked_def load_overrides_def cached_ok_def validate_feature_dependency_def cached_bool_def)

text \<open>The bounds the code relies on.\<close>

definition settings_in_bounds :: "settings \<Rightarrow> bool" where
  "settings_in_bounds st \<longleftrightarrow>
     1024 \<le> webhook_max_payload_bytes st \<and> 1 \<le> webhook_abuse_failure_limit st \<and> 1 \<le> webhook_abuse_window_minutes st \<and>
     1 \<le> webhook_url_reveal_ttl_hours st \<and> webhook_url_reveal_ttl_hours st \<le> 168 \<and>
     0 \<le> log_retention_days st \<and> 1 \<le> log_cleanup_interval_minutes st \<and>
     (graph_delivery_enabled st \<longrightarrow> graph_lookup_enabled st)"

lemma value_fields:
  "get_value s ''webhook_max_payload_bytes'' = Some (IntValue (webhook_max_payload_bytes s))"
  "get_value s ''webhook_abuse_failure_limit'' = Some (IntValue (webhook_abuse_failure_limit s))"
  "get_value s ''webhook_abuse_window_minutes'' = Some (IntValue (webhook_abuse_window_minutes s))"
  "get_value s ''webhook_url_reveal_ttl_hours'' = Some (IntValue (webhook_url_reveal_ttl_hours s))"
  "get_value s ''log_retention_days'' = Some (IntValue (log_retention_days s))"
  "get_value s ''log_cleanup_interval_minutes'' = Some (IntValue (log_cleanup_interval_minutes s))"
  "get_value s ''graph_lookup_enabled'' = Some (BoolValue (graph_lookup_enabled s))"
  "get_value s ''graph_delivery_enabled'' = Some (BoolValue (graph_delivery_enabled s))"
  by (simp_all add: get_value_def setting_fields_def)

lemma int_keys:
  "list_all (\<lambda>k. \<exists>d. setting_named k = Some d \<and> sd_type d = TInt)
     [''webhook_max_payload_bytes'', ''webhook_abuse_failure_limit'', ''webhook_abuse_window_minutes'',
      ''webhook_url_reveal_ttl_hours'', ''log_retention_days'', ''log_cleanup_interval_minutes'']"
  by (simp add: setting_named_def setting_defs)

lemma int_value_bounded:
  assumes "cached_ok cached" and "\<exists>d. setting_named k = Some d \<and> sd_type d = TInt" and "effective_value env cached k = Some (IntValue n)"
    and "get_value env k = Some (IntValue m)"
  shows "n = m \<or> int_bounds k n = None"
proof (cases "map_of cached k")
  case (Some v)
  show ?thesis
    by (rule stored_form_cases [OF cached_stored_form [OF assms(1) Some]])
      (use assms(2,3) Some in \<open>auto simp: effective_value_def meaning_def coerce_for_settings_def\<close>)
qed (use assms(3,4) in \<open>simp add: effective_value_def\<close>)

lemma features_in_order:
  assumes "validate_feature_dependency cached = None" and "graph_lookup_enabled env"
    and "effective_value env cached ''graph_lookup_enabled'' = Some (BoolValue lookup)"
    and "effective_value env cached ''graph_delivery_enabled'' = Some (BoolValue delivery)"
    and "delivery"
  shows "lookup"
proof -
  obtain dl dd where d: "setting_named ''graph_lookup_enabled'' = Some dl" "sd_type dl = TBool"
      "setting_named ''graph_delivery_enabled'' = Some dd" "sd_type dd = TBool"
    using application_keys(2,3) by blast
  have l: "lookup = (case cached_bool cached ''graph_lookup_enabled'' of None \<Rightarrow> True | Some b \<Rightarrow> b)"
    using assms(2,3) d(1,2) by (auto simp: effective_value_def cached_bool_def meaning_def coerce_for_settings_def value_fields
        split: option.splits)
  have "(case cached_bool cached ''graph_delivery_enabled'' of None \<Rightarrow> True | Some b \<Rightarrow> b)"
    using assms(4,5) d(3,4) by (auto simp: effective_value_def cached_bool_def meaning_def coerce_for_settings_def value_fields
        split: option.splits)
  then show ?thesis using assms(1) l by (simp add: validate_feature_dependency_def Let_def split: if_splits)
qed

lemma effective_in_bounds:
  assumes "cached_ok cached" and "validate_feature_dependency cached = None" and "settings_in_bounds env" and "graph_lookup_enabled env"
    and "get_effective_settings env cached = Inr st"
  shows "settings_in_bounds st"
proof -
  have val: "get_value st k = effective_value env cached k" if "setting_named k \<noteq> None" for k
    using effective_settings [OF assms(1), of env] assms(5) that by auto
  have int: "n = m \<or> int_bounds k n = None"
    if "\<exists>d. setting_named k = Some d \<and> sd_type d = TInt" "get_value st k = Some (IntValue n)" "get_value env k = Some (IntValue m)" for k n m
  proof -
    have "effective_value env cached k = Some (IntValue n)" using val [of k] that(1,2) by auto
    then show ?thesis by (rule int_value_bounded [OF assms(1) that(1) _ that(3)])
  qed
  have "effective_value env cached ''graph_lookup_enabled'' = Some (BoolValue (graph_lookup_enabled st))"
    "effective_value env cached ''graph_delivery_enabled'' = Some (BoolValue (graph_delivery_enabled st))"
    using val [of "''graph_lookup_enabled''"] val [of "''graph_delivery_enabled''"] application_keys(2,3)
    by (auto simp: value_fields)
  then have "graph_delivery_enabled st \<Longrightarrow> graph_lookup_enabled st" by (rule features_in_order [OF assms(2,4)])
  moreover have "1024 \<le> webhook_max_payload_bytes st" "1 \<le> webhook_abuse_failure_limit st" "1 \<le> webhook_abuse_window_minutes st"
    "1 \<le> webhook_url_reveal_ttl_hours st \<and> webhook_url_reveal_ttl_hours st \<le> 168" "0 \<le> log_retention_days st"
    "1 \<le> log_cleanup_interval_minutes st"
    using int [OF _ value_fields(1) value_fields(1)] int [OF _ value_fields(2) value_fields(2)]
      int [OF _ value_fields(3) value_fields(3)] int [OF _ value_fields(4) value_fields(4)]
      int [OF _ value_fields(5) value_fields(5)] int [OF _ value_fields(6) value_fields(6)] int_keys assms(3)
    by (simp_all add: settings_in_bounds_def int_bounds_def split: if_splits)
  ultimately show ?thesis by (simp add: settings_in_bounds_def)
qed

text \<open>C25: whatever administrators set and reset, and in whatever order, the effective settings can be
  computed, every number in them is within the bounds the code relies on, and delivery through Graph
  is never on without the lookup it needs.\<close>

theorem settings_stay_in_bounds:
  assumes "fernet_sound rm" and "settings_in_bounds env" and "graph_lookup_enabled env"
    and "app_settings db = []" and "(setting_step rm env)\<^sup>*\<^sup>* (db, []) s"
  shows "\<exists>st. get_effective_settings env (snd s) = Inr st \<and> settings_in_bounds st"
proof -
  have ok: "overrides_ok rm env s"
    by (rule setting_steps_ok [OF assms(5,1) overrides_ok_empty [OF assms(4)]])
  obtain st where "get_effective_settings env (snd s) = Inr st"
    using effective_settings [OF overrides_okD(4) [OF ok], of env] by blast
  then show ?thesis using effective_in_bounds [OF overrides_okD(4,5) [OF ok] assms(2,3)] by blast
qed

text \<open>C26: a setting reads as it was set. After a successful update the setting has the value that was
  given, in its normal form, and no other setting has changed, but for the allowed origins where the
  frontend URL was set.\<close>

theorem setting_reads_as_set:
  assumes "fernet_sound rm" and "overrides_ok rm env s"
    and "update_setting rm w env admin key value s = (Inr item, s')"
    and "validate_and_normalize key value = Inr n" and "stable_text key n"
  shows "\<exists>st st'. get_effective_settings env (snd s) = Inr st \<and> get_effective_settings env (snd s') = Inr st' \<and>
    get_value st' key = meaning key n \<and>
    {k. setting_named k \<noteq> None \<and> get_value st' k \<noteq> get_value st k} \<subseteq>
      (if key = ''frontend_base_url'' then {key, ''cors_origins''} else {key})"
proof -
  obtain s1 where s1: "set_override rm w env key value (Some (u_id admin)) s = Inr s1" "snd s' = snd s1"
    using update_setting_cases [OF assms(1,2), of w admin key "value"] assms(3) by auto
  obtain n1 n2 where n1: "validate_and_normalize key value = Inr n1" and n2: "validate_and_normalize key n1 = Inr n2"
    and ok: "overrides_ok rm env s1" and here: "map_of (snd s1) key = Some n2" and named: "setting_named key \<noteq> None"
    and other: "\<And>k. k \<noteq> key \<Longrightarrow> map_of (snd s1) k = map_of (snd s) k \<or> key = ''frontend_base_url'' \<and> k = ''cors_origins''"
    using set_override_result [OF s1(1) assms(1,2)] by blast
  have n: "n1 = n" "n2 = n" using n1 n2 assms(4) stored_form_is_stable_value [OF assms(4,5)] by auto
  obtain st where st: "get_effective_settings env (snd s) = Inr st"
    "\<And>k. setting_named k \<noteq> None \<Longrightarrow> get_value st k = effective_value env (snd s) k"
    using effective_settings [OF overrides_okD(4) [OF assms(2)], of env] by blast
  obtain st' where st': "get_effective_settings env (snd s1) = Inr st'"
    "\<And>k. setting_named k \<noteq> None \<Longrightarrow> get_value st' k = effective_value env (snd s1) k"
    using effective_settings [OF overrides_okD(4) [OF ok], of env] by blast
  have "get_value st' key = meaning key n" using st'(2) [OF named] here n by (simp add: effective_value_def)
  moreover have "get_value st' k = get_value st k"
    if "setting_named k \<noteq> None" "k \<noteq> key" "\<not> (key = ''frontend_base_url'' \<and> k = ''cors_origins'')" for k
    using st(2) [OF that(1)] st'(2) [OF that(1)] other [OF that(2)] that(3) by (simp add: effective_value_def)
  ultimately show ?thesis
    using st(1) st'(1) unfolding s1(2) by (intro exI [of _ st] exI [of _ st']) auto
qed

section \<open>Closed examples\<close>

definition sample_vault :: remote where
  "sample_vault = (sample_remote (\<lambda>_ _. HttpStatusError 500 []))\<lparr>fernet_encrypt := \<lambda>k t. t, fernet_decrypt := \<lambda>k t. Some t\<rparr>"

lemma sample_vault_sound: "fernet_sound sample_vault"
  by (simp add: fernet_sound_def sample_vault_def)

lemma default_settings_in_bounds: "settings_in_bounds default_settings"
  by (simp add: settings_in_bounds_def default_settings_def)

lemma sample_number: "validate_and_normalize ''log_retention_days'' '' +0_14'' = Inr ''14''"
  by code_simp

lemma sample_update:
  "\<exists>item db. update_setting sample_vault sample_world default_settings sample_admin ''log_retention_days'' '' +0_14'' (empty_db, []) =
    (Inr item, db, [(''log_retention_days'', ''14'')])"
proof -
  have n: "setting_named ''log_retention_days'' = Some (setting_def ''log_retention_days'' ''Log retention'' TInt False)"
    by (simp add: setting_named_def setting_defs)
  have v: "validate_and_normalize ''log_retention_days'' ''14'' = Inr ''14''" by code_simp
  have r: "new_rows sample_vault sample_world default_settings [] ''log_retention_days'' '' +0_14'' (Some (u_id sample_admin)) [] =
    Inr [\<lparr>st_key = ''log_retention_days'', st_value = ''14'', st_is_secret = False, st_updated_at = utcnow sample_world,
      st_updated_by_id = Some (u_id sample_admin)\<rparr>]"
    using sample_number v n
    by (simp add: new_rows_def previous_frontend_url_def serialize_for_storage_def setting_def_def hypothetical_settings_def
        validate_feature_dependency_def cached_bool_def put_row_def setting_row_def)
  have "set_override sample_vault sample_world default_settings ''log_retention_days'' '' +0_14'' (Some (u_id sample_admin)) (empty_db, []) =
    Inr (empty_db\<lparr>app_settings := [\<lparr>st_key = ''log_retention_days'', st_value = ''14'', st_is_secret = False,
      st_updated_at = utcnow sample_world, st_updated_by_id = Some (u_id sample_admin)\<rparr>]\<rparr>, [(''log_retention_days'', ''14'')])"
    using r n by (simp add: set_override_def load_overrides_def stored_value_def empty_db_def)
  then show ?thesis
    using update_setting_cases [OF sample_vault_sound overrides_ok_empty [of empty_db], where env = default_settings
      and w = sample_world and admin = sample_admin and key = "''log_retention_days''" and given = "'' +0_14''"] by (auto simp: empty_db_def)
qed

text \<open>An address in brackets that is no address ends the request with a server error, instead of the
  refusal the code has for invalid URLs.\<close>

lemma bracketed_url_raises: "validate_and_normalize ''frontend_base_url'' ''http://[x'' = Inl (ValueError ''Invalid IPv6 URL'')"
  by code_simp

text \<open>A frontend URL with a path is refused as an origin, so it cannot be set while no origins are stored.\<close>

lemma frontend_path_refused:
  "follow_frontend sample_vault sample_world default_settings [] ''http://a/b'' None [] =
    Inl (HTTPException 400 ''CORS origins must contain scheme, host, and optional port only'')"
  "validate_and_normalize ''frontend_base_url'' ''http://a/b'' = Inr ''http://a/b''"
  by code_simp+

section \<open>Witnesses\<close>

theorem stored_form_is_stable_witness: "validate_and_normalize ''log_retention_days'' ''14'' = Inr ''14''"
  by (rule stored_form_is_stable [OF sample_number]) (simp add: stable_text_def)

theorem settings_stay_in_bounds_witness:
  "\<exists>st. get_effective_settings default_settings (snd (snd (update_setting sample_vault sample_world default_settings sample_admin
     ''log_retention_days'' '' +0_14'' (empty_db, [])))) = Inr st \<and> settings_in_bounds st"
  by (rule settings_stay_in_bounds [OF sample_vault_sound default_settings_in_bounds _ _ r_into_rtranclp,
        where db = empty_db, OF _ _ setting_step.set])
    (simp_all add: default_settings_def empty_db_def)

theorem setting_reads_as_set_witness:
  "\<exists>st'. get_effective_settings default_settings [(''log_retention_days'', ''14'')] = Inr st' \<and>
     get_value st' ''log_retention_days'' = meaning ''log_retention_days'' ''14''"
proof -
  obtain item db where u: "update_setting sample_vault sample_world default_settings sample_admin ''log_retention_days'' '' +0_14''
    (empty_db, []) = (Inr item, db, [(''log_retention_days'', ''14'')])"
    using sample_update by blast
  show ?thesis
    using setting_reads_as_set [OF sample_vault_sound overrides_ok_empty u sample_number]
    by (auto simp: stable_text_def empty_db_def)
qed

end
