(* ===== verification/Accounts.thy ===== *)
theory Accounts
  imports Audit_Log
begin

text \<open>
  Sign-in: the secrets of \<open>security.py\<close>, the guards of \<open>deps.py\<close> that every handler of the
  admin API depends on, the handlers of \<open>routers/auth.py\<close>, and the administration of users in
  \<open>routers/admin.py\<close>.
\<close>

section \<open>Secrets\<close>

text \<open>
  The key derivation \<open>pbkdf2_hmac\<close>, hex encoded, as a function of password and salt, and what a
  request draws from the generator: a session token, a CSRF token, and the salts of the password and
  of the CSRF token. Salts are hex digits.
\<close>

record entropy =
  kdf :: "string \<Rightarrow> string \<Rightarrow> string"
  new_session_token :: string
  new_csrf_token :: string
  csrf_salt :: string
  password_salt :: string

definition hash_secret :: "entropy \<Rightarrow> string \<Rightarrow> string \<Rightarrow> string" where
  "hash_secret en salt value = salt @ CHR ''$'' # kdf en value salt"

text \<open>\<open>encoded.split("$", 1)\<close>, where there is a separator\<close>

definition split_salt :: "string \<Rightarrow> (string \<times> string) option" where
  "split_salt encoded =
     (case dropWhile (\<lambda>c. c \<noteq> CHR ''$'') encoded of
        [] \<Rightarrow> None
      | _ # digest \<Rightarrow> Some (takeWhile (\<lambda>c. c \<noteq> CHR ''$'') encoded, digest))"

definition verify_secret :: "entropy \<Rightarrow> string \<Rightarrow> string option \<Rightarrow> bool" where
  "verify_secret en value encoded =
     (case encoded of
        None \<Rightarrow> False
      | Some e \<Rightarrow> (case split_salt e of None \<Rightarrow> False | Some (salt, digest) \<Rightarrow> kdf en value salt = digest))"

definition session_expiry :: "world \<Rightarrow> int \<Rightarrow> instant" where
  "session_expiry w h = utcnow w + hours h"

section \<open>Guards\<close>

text \<open>What the guards read of a request: the session cookie and the CSRF header.\<close>

record browser =
  session_cookie :: "string option"
  csrf_header :: "string option"

text \<open>A refused request leaves a log entry, written in a transaction of its own.\<close>

definition auth_event :: "string \<Rightarrow> string \<Rightarrow> string \<Rightarrow> string \<Rightarrow> string \<Rightarrow> event_args" where
  "auth_event category event_type message severity reason =
     (event ''warning'' category event_type message ''system'')
       \<lparr>ea_security := [(''severity'', JStr severity), (''reason'', JStr reason)]\<rparr>"

definition user_actor :: "string \<Rightarrow> (string \<times> json) list" where
  "user_actor i = [(''type'', JStr ''user''), (''id'', JStr i)]"

definition get_current_session :: "world \<Rightarrow> settings \<Rightarrow> browser \<Rightarrow> db \<Rightarrow> (exn + session_row) \<times> db" where
  "get_current_session w st br db =
     (case opt_str (session_cookie br) of
        [] \<Rightarrow> (Inl (HTTPException 401 ''Missing session''),
          emit_event w st (auth_event ''auth'' ''auth.session.missing''
            ''Request was rejected because no session cookie was present.'' ''low'' ''missing_session'') db)
      | token \<Rightarrow>
          (case fetch (\<lambda>s. se_session_token_hash s = lookup_secret_hash w token) (sessions db) of
             None \<Rightarrow> (Inl (HTTPException 401 ''Invalid session''),
               emit_event w st (auth_event ''auth'' ''auth.session.invalid''
                 ''Request was rejected because the session token was invalid.'' ''medium'' ''invalid_session'') db)
           | Some s \<Rightarrow>
               if se_revoked_at s \<noteq> None \<or> se_expires_at s \<le> utcnow w
               then (Inl (HTTPException 401 ''Expired session''),
                 emit_event w st ((auth_event ''auth'' ''auth.session.expired''
                   ''Request was rejected because the session is expired or revoked.'' ''low'' ''expired_session'')
                   \<lparr>ea_actor := user_actor (se_user_id s)\<rparr>) db)
               else (Inr s, db)))"

definition get_current_user :: "world \<Rightarrow> settings \<Rightarrow> session_row \<Rightarrow> db \<Rightarrow> (exn + user) \<times> db" where
  "get_current_user w st s db =
     (let refused = (Inl (HTTPException 401 ''User inactive''),
            emit_event w st ((auth_event ''auth'' ''auth.user.inactive''
              ''Request was rejected because the user is inactive.'' ''medium'' ''inactive_user'')
              \<lparr>ea_actor := user_actor (se_user_id s)\<rparr>) db)
      in case fetch (\<lambda>u. u_id u = se_user_id s) (users db) of
           None \<Rightarrow> refused
         | Some u \<Rightarrow> if u_is_active u then (Inr u, db) else refused)"

definition require_admin :: "world \<Rightarrow> settings \<Rightarrow> user \<Rightarrow> db \<Rightarrow> (exn + user) \<times> db" where
  "require_admin w st u db =
     (if u_is_admin u then (Inr u, db)
      else (Inl (HTTPException 403 ''Admin access required''),
        emit_event w st ((auth_event ''security'' ''auth.permission.denied''
          ''Admin-only request was rejected for a non-admin user.'' ''medium'' ''admin_required'')
          \<lparr>ea_actor := user_actor (u_id u) @ [(''displayName'', JStr (u_display_name u))]\<rparr>) db))"

definition require_csrf :: "entropy \<Rightarrow> world \<Rightarrow> settings \<Rightarrow> browser \<Rightarrow> session_row \<Rightarrow> db \<Rightarrow> (exn + string) \<times> db" where
  "require_csrf en w st br s db =
     (let token = opt_str (csrf_header br) in
      if token = [] \<or> \<not> verify_secret en token (Some (se_csrf_token_hash s))
      then (Inl (HTTPException 403 ''Invalid CSRF token''),
        emit_event w st ((auth_event ''security'' ''auth.csrf.invalid''
          ''Authenticated write was rejected because the CSRF token was missing or invalid.'' ''medium'' ''invalid_csrf'')
          \<lparr>ea_actor := user_actor (se_user_id s)\<rparr>) db)
      else (Inr token, db))"

text \<open>
  The dependencies of a handler, as the framework resolves them: those of the route first, each
  once, and the handler only when all of them returned.
\<close>

definition guarded :: "(db \<Rightarrow> (exn + 'g) \<times> db) \<Rightarrow> ('g \<Rightarrow> db \<Rightarrow> (exn + 'a) \<times> db) \<Rightarrow> db \<Rightarrow> (exn + 'a) \<times> db" where
  "guarded guard handler db =
     (case guard db of (Inl e, db') \<Rightarrow> (Inl e, db') | (Inr g, db') \<Rightarrow> handler g db')"

definition signed_in ::
  "world \<Rightarrow> settings \<Rightarrow> browser \<Rightarrow> (session_row \<Rightarrow> user \<Rightarrow> db \<Rightarrow> (exn + 'a) \<times> db) \<Rightarrow> db \<Rightarrow> (exn + 'a) \<times> db" where
  "signed_in w st br handler =
     guarded (get_current_session w st br) (\<lambda>s. guarded (get_current_user w st s) (handler s))"

definition admin_read ::
  "world \<Rightarrow> settings \<Rightarrow> browser \<Rightarrow> (user \<Rightarrow> db \<Rightarrow> (exn + 'a) \<times> db) \<Rightarrow> db \<Rightarrow> (exn + 'a) \<times> db" where
  "admin_read w st br handler = signed_in w st br (\<lambda>s u. guarded (require_admin w st u) handler)"

definition csrf_write ::
  "entropy \<Rightarrow> world \<Rightarrow> settings \<Rightarrow> browser \<Rightarrow> (session_row \<Rightarrow> db \<Rightarrow> (exn + 'a) \<times> db) \<Rightarrow> db \<Rightarrow> (exn + 'a) \<times> db" where
  "csrf_write en w st br handler =
     guarded (get_current_session w st br) (\<lambda>s. guarded (require_csrf en w st br s) (\<lambda>_. handler s))"

definition admin_write ::
  "entropy \<Rightarrow> world \<Rightarrow> settings \<Rightarrow> browser \<Rightarrow> (session_row \<Rightarrow> user \<Rightarrow> db \<Rightarrow> (exn + 'a) \<times> db) \<Rightarrow> db \<Rightarrow>
   (exn + 'a) \<times> db" where
  "admin_write en w st br handler =
     csrf_write en w st br (\<lambda>s. guarded (get_current_user w st s) (\<lambda>u. guarded (require_admin w st u) (handler s)))"

section \<open>Sessions\<close>

text \<open>The new session row is written by the next flush, which raises if its token is in use.\<close>

definition issue_session :: "entropy \<Rightarrow> world \<Rightarrow> settings \<Rightarrow> user \<Rightarrow> db \<Rightarrow> exn + db" where
  "issue_session en w env u db =
     (let row = \<lparr>se_id = new_id db, se_user_id = u_id u,
            se_session_token_hash = lookup_secret_hash w (new_session_token en),
            se_csrf_token_hash = hash_secret en (csrf_salt en) (new_csrf_token en),
            se_expires_at = session_expiry w (session_ttl_hours env), se_revoked_at = None\<rparr>
      in if list_ex (\<lambda>s. se_session_token_hash s = se_session_token_hash row) (sessions db) then Inl IntegrityError
         else Inr (db\<lparr>sessions := sessions db @ [row], next_id := Suc (next_id db)\<rparr>))"

record user_out =
  uo_id :: string
  uo_organization_id :: string
  uo_email :: string
  uo_display_name :: string
  uo_is_admin :: bool
  uo_is_active :: bool

definition user_out_of :: "user \<Rightarrow> user_out" where
  "user_out_of u = \<lparr>uo_id = u_id u, uo_organization_id = u_organization_id u, uo_email = u_email u,
     uo_display_name = u_display_name u, uo_is_admin = u_is_admin u, uo_is_active = u_is_active u\<rparr>"

text \<open>The answer of the sign-in handlers with the cookie it sets.\<close>

record session_response =
  sr_user :: user_out
  sr_csrf_token :: string
  sr_cookie :: "string option"

definition normalize_email :: "string \<Rightarrow> exn + string" where
  "normalize_email email =
     (let value = lower (strip email) in
      if contains ''@'' value then Inr value else Inl (HTTPException 400 ''A valid email address is required''))"

definition default_organization :: "settings \<Rightarrow> db \<Rightarrow> organization \<times> db" where
  "default_organization env db =
     (case fetch (\<lambda>org. o_slug org = default_org_slug env) (organizations db) of
        Some org \<Rightarrow> (org, db)
      | None \<Rightarrow>
          (let org = \<lparr>o_id = new_id db, o_slug = default_org_slug env, o_name = default_org_name env\<rparr>
           in (org, db\<lparr>organizations := organizations db @ [org], next_id := Suc (next_id db)\<rparr>)))"

definition admin_exists :: "string \<Rightarrow> db \<Rightarrow> bool" where
  "admin_exists org db = (fetch (\<lambda>u. u_organization_id u = org \<and> u_is_admin u) (users db) \<noteq> None)"

definition setup_status :: "settings \<Rightarrow> db \<Rightarrow> (bool \<times> bool) \<times> db" where
  "setup_status env db =
     (let (org, db') = default_organization env db; exists = admin_exists (o_id org) db'
      in ((\<not> exists, exists), db'))"

record first_admin_in =
  fa_email :: string
  fa_display_name :: string
  fa_password :: string

definition new_user :: "entropy \<Rightarrow> string \<Rightarrow> string \<Rightarrow> string \<Rightarrow> string \<Rightarrow> bool \<Rightarrow> bool \<Rightarrow> db \<Rightarrow> user" where
  "new_user en org email display_name password is_admin is_active db =
     \<lparr>u_id = new_id db, u_organization_id = org, u_email = email, u_display_name = strip display_name,
      u_password_hash = Some (hash_secret en (password_salt en) password), u_is_admin = is_admin,
      u_is_active = is_active\<rparr>"

definition add_user :: "user \<Rightarrow> db \<Rightarrow> db" where
  "add_user u db = db\<lparr>users := users db @ [u], next_id := Suc (next_id db)\<rparr>"

text \<open>A handler that raises leaves the database as it was: nothing of it is committed.\<close>

definition create_first_admin ::
  "entropy \<Rightarrow> world \<Rightarrow> settings \<Rightarrow> settings \<Rightarrow> first_admin_in \<Rightarrow> db \<Rightarrow> (exn + session_response) \<times> db" where
  "create_first_admin en w st env p db0 =
     (let (org, db) = default_organization env db0 in
      if admin_exists (o_id org) db
      then (Inl (HTTPException 409 ''Initial setup has already been completed''), db0)
      else (case normalize_email (fa_email p) of
        Inl e \<Rightarrow> (Inl e, db0)
      | Inr email \<Rightarrow>
          if fetch (\<lambda>u. u_organization_id u = o_id org \<and> u_email u = email) (users db) \<noteq> None
          then (Inl (HTTPException 409 ''A user with this email already exists''), db0)
          else (let u = new_user en (o_id org) email (fa_display_name p) (fa_password p) True True db in
            case issue_session en w env u (add_user u db) of
              Inl e \<Rightarrow> (Inl e, db0)
            | Inr db' \<Rightarrow>
                (Inr \<lparr>sr_user = user_out_of u, sr_csrf_token = new_csrf_token en, sr_cookie = Some (new_session_token en)\<rparr>,
                 record_audit w st ''setup.first_admin.created'' ''user'' (Some (u_id u)) (Some (o_id org))
                   [(''user_id'', JStr (u_id u)), (''email'', JStr (u_email u))] db'))))"

definition login :: "entropy \<Rightarrow> world \<Rightarrow> settings \<Rightarrow> settings \<Rightarrow> string \<Rightarrow> string \<Rightarrow> db \<Rightarrow> (exn + session_response) \<times> db" where
  "login en w st env email password db =
     (let email = lower (strip email);
          found = fetch (\<lambda>u. u_email u = email \<and> u_is_active u) (users db);
          refused = (Inl (HTTPException 401 ''Invalid credentials''),
            emit_event w st ((auth_event ''auth'' ''auth.login.failure'' ''Login attempt failed.'' ''medium'' ''invalid_credentials'')
              \<lparr>ea_actor := [(''type'', JStr ''external'')],
                ea_target := [(''type'', JStr ''user''), (''id'', JStr (case found of None \<Rightarrow> [] | Some u \<Rightarrow> u_id u)),
                  (''email'', JStr email)]\<rparr>) db)
      in case found of
           None \<Rightarrow> refused
         | Some u \<Rightarrow>
             if \<not> verify_secret en password (u_password_hash u) then refused
             else (case issue_session en w env u db of
               Inl e \<Rightarrow> (Inl e, db)
             | Inr db' \<Rightarrow>
                 (Inr \<lparr>sr_user = user_out_of u, sr_csrf_token = new_csrf_token en, sr_cookie = Some (new_session_token en)\<rparr>,
                  record_audit w st ''auth.login.success'' ''user'' (Some (u_id u)) (Some (u_organization_id u))
                    [(''email'', JStr (u_email u))] db')))"

definition save_session :: "session_row \<Rightarrow> db \<Rightarrow> db" where
  "save_session s db = db\<lparr>sessions := save_row se_id s (sessions db)\<rparr>"

definition logout :: "entropy \<Rightarrow> world \<Rightarrow> settings \<Rightarrow> browser \<Rightarrow> db \<Rightarrow> (exn + unit) \<times> db" where
  "logout en w st br =
     csrf_write en w st br (\<lambda>s db.
       (Inr (), record_audit w st ''auth.logout'' ''user'' (Some (se_user_id s)) None [(''session_id'', JStr (se_id s))]
          (save_session (s\<lparr>se_revoked_at := Some (utcnow w)\<rparr>) db)))"

definition refresh_csrf_token :: "entropy \<Rightarrow> session_row \<Rightarrow> db \<Rightarrow> string \<times> db" where
  "refresh_csrf_token en s db =
     (new_csrf_token en, save_session (s\<lparr>se_csrf_token_hash := hash_secret en (csrf_salt en) (new_csrf_token en)\<rparr>) db)"

definition me :: "entropy \<Rightarrow> world \<Rightarrow> settings \<Rightarrow> browser \<Rightarrow> db \<Rightarrow> (exn + session_response) \<times> db" where
  "me en w st br =
     signed_in w st br (\<lambda>s u db.
       case refresh_csrf_token en s db of (token, db') \<Rightarrow>
         (Inr \<lparr>sr_user = user_out_of u, sr_csrf_token = token, sr_cookie = None\<rparr>, db'))"

section \<open>Request bodies\<close>

definition within :: "nat \<Rightarrow> nat \<Rightarrow> string \<Rightarrow> bool" where
  "within low high s \<longleftrightarrow> low \<le> length s \<and> length s \<le> high"

definition checked_body :: "bool \<Rightarrow> 'p \<Rightarrow> exn + 'p" where
  "checked_body valid p = (if valid then Inr p else Inl (HTTPException 422 []))"

definition check_login :: "string \<times> string \<Rightarrow> exn + string \<times> string" where
  "check_login p = checked_body (within 8 200 (snd p)) p"

definition check_first_admin :: "first_admin_in \<Rightarrow> exn + first_admin_in" where
  "check_first_admin p =
     checked_body (within 3 255 (fa_email p) \<and> within 1 255 (fa_display_name p) \<and> within 8 200 (fa_password p)) p"

record user_create_in =
  uc_email :: string
  uc_display_name :: string
  uc_password :: string
  uc_is_admin :: bool
  uc_is_active :: bool

definition check_user_create :: "user_create_in \<Rightarrow> exn + user_create_in" where
  "check_user_create p =
     checked_body (within 3 255 (uc_email p) \<and> within 1 255 (uc_display_name p) \<and> within 8 200 (uc_password p)) p"

record user_update_in =
  uu_email :: "string option"
  uu_display_name :: "string option"
  uu_is_admin :: "bool option"
  uu_is_active :: "bool option"

definition check_user_update :: "user_update_in \<Rightarrow> exn + user_update_in" where
  "check_user_update p =
     checked_body
       ((case uu_email p of None \<Rightarrow> True | Some e \<Rightarrow> within 3 255 e) \<and>
        (case uu_display_name p of None \<Rightarrow> True | Some n \<Rightarrow> within 1 255 n) \<and>
        (uu_email p \<noteq> None \<or> uu_display_name p \<noteq> None \<or> uu_is_admin p \<noteq> None \<or> uu_is_active p \<noteq> None)) p"

definition check_password :: "string \<Rightarrow> exn + string" where
  "check_password password = checked_body (within 8 200 password) password"

section \<open>Administration of users\<close>

definition admin_audit :: "world \<Rightarrow> settings \<Rightarrow> string \<Rightarrow> user \<Rightarrow> (string \<times> json) list \<Rightarrow> db \<Rightarrow> db" where
  "admin_audit w st action admin metadata db =
     record_audit w st action ''user'' (Some (u_id admin)) (Some (u_organization_id admin)) metadata db"

text \<open>Rows are kept in the order of their creation; the listing has the newest first.\<close>

definition list_users :: "user \<Rightarrow> db \<Rightarrow> user_out list" where
  "list_users admin db =
     List.map user_out_of (rev (List.filter (\<lambda>u. u_organization_id u = u_organization_id admin) (users db)))"

definition get_org_user :: "string \<Rightarrow> string \<Rightarrow> db \<Rightarrow> exn + user" where
  "get_org_user org i db =
     (case fetch (\<lambda>u. u_id u = i \<and> u_organization_id u = org) (users db) of
        None \<Rightarrow> Inl (HTTPException 404 ''User not found'')
      | Some u \<Rightarrow> Inr u)"

definition ensure_user_email_available :: "string \<Rightarrow> string \<Rightarrow> string option \<Rightarrow> db \<Rightarrow> exn option" where
  "ensure_user_email_available org email i db =
     (case fetch (\<lambda>u. u_organization_id u = org \<and> u_email u = email) (users db) of
        None \<Rightarrow> None
      | Some u \<Rightarrow> if Some (u_id u) = i then None else Some (HTTPException 409 ''A user with this email already exists''))"

definition active_admins :: "string \<Rightarrow> db \<Rightarrow> user list" where
  "active_admins org db = List.filter (\<lambda>u. u_organization_id u = org \<and> u_is_admin u \<and> u_is_active u) (users db)"

definition ensure_user_update_allowed :: "user \<Rightarrow> user \<Rightarrow> bool \<Rightarrow> bool \<Rightarrow> db \<Rightarrow> exn option" where
  "ensure_user_update_allowed actor u next_is_admin next_is_active db =
     (if u_id u = u_id actor \<and> \<not> next_is_admin then Some (HTTPException 400 ''You cannot remove your own admin access'')
      else if u_id u = u_id actor \<and> \<not> next_is_active then Some (HTTPException 400 ''You cannot deactivate your own user'')
      else if u_is_admin u \<and> u_is_active u \<and> (\<not> next_is_admin \<or> \<not> next_is_active) \<and>
        length (active_admins (u_organization_id actor) db) \<le> 1
      then Some (HTTPException 400 ''At least one active admin is required'')
      else None)"

definition revoke_user_sessions :: "world \<Rightarrow> string \<Rightarrow> string option \<Rightarrow> db \<Rightarrow> nat \<times> db" where
  "revoke_user_sessions w user_id except db =
     (let mine = (\<lambda>s. se_user_id s = user_id \<and> se_revoked_at s = None \<and> Some (se_id s) \<noteq> except)
      in (length (List.filter mine (sessions db)),
          db\<lparr>sessions := update_rows mine (\<lambda>s. s\<lparr>se_revoked_at := Some (utcnow w)\<rparr>) (sessions db)\<rparr>))"

definition record_session_revocation :: "world \<Rightarrow> settings \<Rightarrow> user \<Rightarrow> user \<Rightarrow> nat \<Rightarrow> string \<Rightarrow> db \<Rightarrow> db" where
  "record_session_revocation w st admin u n reason db =
     (if n = 0 then db
      else admin_audit w st ''admin.user.sessions_revoked'' admin
        [(''user_id'', JStr (u_id u)), (''email'', JStr (u_email u)), (''count'', JInt (int n)), (''reason'', JStr reason)] db)"

definition create_user ::
  "entropy \<Rightarrow> world \<Rightarrow> settings \<Rightarrow> user \<Rightarrow> user_create_in \<Rightarrow> db \<Rightarrow> (exn + user_out) \<times> db" where
  "create_user en w st admin p db =
     (let org = u_organization_id admin in
      case normalize_email (uc_email p) of
        Inl e \<Rightarrow> (Inl e, db)
      | Inr email \<Rightarrow>
          (case ensure_user_email_available org email None db of
             Some e \<Rightarrow> (Inl e, db)
           | None \<Rightarrow>
               (let u = new_user en org email (uc_display_name p) (uc_password p) (uc_is_admin p) (uc_is_active p) db in
                (Inr (user_out_of u),
                 admin_audit w st ''admin.user.created'' admin
                   [(''user_id'', JStr (u_id u)), (''email'', JStr (u_email u)), (''is_admin'', JBool (u_is_admin u)),
                    (''is_active'', JBool (u_is_active u))] (add_user u db)))))"

definition user_facts :: "user \<Rightarrow> json" where
  "user_facts u = JDict [(''email'', JStr (u_email u)), (''display_name'', JStr (u_display_name u)),
     (''is_admin'', JBool (u_is_admin u)), (''is_active'', JBool (u_is_active u))]"

definition save_user :: "user \<Rightarrow> db \<Rightarrow> db" where
  "save_user u db = db\<lparr>users := save_row u_id u (users db)\<rparr>"

definition apply_user_update :: "user_update_in \<Rightarrow> string \<Rightarrow> user \<Rightarrow> user" where
  "apply_user_update p email u =
     u\<lparr>u_email := email,
       u_display_name := (case uu_display_name p of None \<Rightarrow> u_display_name u | Some n \<Rightarrow> strip n),
       u_is_admin := (case uu_is_admin p of None \<Rightarrow> u_is_admin u | Some b \<Rightarrow> b),
       u_is_active := (case uu_is_active p of None \<Rightarrow> u_is_active u | Some b \<Rightarrow> b)\<rparr>"

definition update_user ::
  "world \<Rightarrow> settings \<Rightarrow> user \<Rightarrow> string \<Rightarrow> user_update_in \<Rightarrow> db \<Rightarrow> (exn + user_out) \<times> db" where
  "update_user w st admin i p db =
     (let org = u_organization_id admin in
      case get_org_user org i db of
        Inl e \<Rightarrow> (Inl e, db)
      | Inr u \<Rightarrow>
          (case (case uu_email p of None \<Rightarrow> Inr (u_email u) | Some e \<Rightarrow> normalize_email e) of
             Inl e \<Rightarrow> (Inl e, db)
           | Inr email \<Rightarrow>
               (let u' = apply_user_update p email u in
                case (if email \<noteq> u_email u then ensure_user_email_available org email (Some (u_id u)) db else None) of
                  Some e \<Rightarrow> (Inl e, db)
                | None \<Rightarrow>
                    (case ensure_user_update_allowed admin u (u_is_admin u') (u_is_active u') db of
                       Some e \<Rightarrow> (Inl e, db)
                     | None \<Rightarrow>
                         (let (n, db') = (if u_is_active u' then (0, save_user u' db)
                                          else revoke_user_sessions w (u_id u) None (save_user u' db));
                              db' = admin_audit w st ''admin.user.updated'' admin
                                [(''user_id'', JStr (u_id u)), (''before'', user_facts u), (''after'', user_facts u')] db'
                          in (Inr (user_out_of u'), record_session_revocation w st admin u' n ''user_deactivated'' db'))))))"

definition update_user_password ::
  "entropy \<Rightarrow> world \<Rightarrow> settings \<Rightarrow> user \<Rightarrow> session_row \<Rightarrow> string \<Rightarrow> string \<Rightarrow> db \<Rightarrow> (exn + user_out) \<times> db" where
  "update_user_password en w st admin current i password db =
     (case get_org_user (u_organization_id admin) i db of
        Inl e \<Rightarrow> (Inl e, db)
      | Inr u \<Rightarrow>
          (let u' = u\<lparr>u_password_hash := Some (hash_secret en (password_salt en) password)\<rparr>;
               (n, db') = revoke_user_sessions w (u_id u) (if u_id u = u_id admin then Some (se_id current) else None)
                 (save_user u' db);
               db' = admin_audit w st ''admin.user.password_changed'' admin
                 [(''user_id'', JStr (u_id u)), (''email'', JStr (u_email u))] db'
           in (Inr (user_out_of u'), record_session_revocation w st admin u' n ''password_changed'' db')))"

section \<open>Secrets verify\<close>

lemma split_salt_hash:
  assumes "CHR ''$'' \<notin> set salt"
  shows "split_salt (hash_secret en salt value) = Some (salt, kdf en value salt)"
proof -
  have "\<And>x. x \<in> set salt \<Longrightarrow> x \<noteq> CHR ''$''" using assms by auto
  then show ?thesis
    by (simp add: split_salt_def hash_secret_def dropWhile_append2 takeWhile_append2)
qed

lemma verify_hash:
  "CHR ''$'' \<notin> set salt \<Longrightarrow> verify_secret en v (Some (hash_secret en salt value)) \<longleftrightarrow> kdf en v salt = kdf en value salt"
  by (simp add: verify_secret_def split_salt_hash)

section \<open>What the guards let through\<close>

definition live_session :: "world \<Rightarrow> browser \<Rightarrow> db \<Rightarrow> session_row option" where
  "live_session w br db =
     (if opt_str (session_cookie br) = [] then None
      else case fetch (\<lambda>s. se_session_token_hash s = lookup_secret_hash w (opt_str (session_cookie br))) (sessions db) of
        None \<Rightarrow> None
      | Some s \<Rightarrow> if se_revoked_at s = None \<and> utcnow w < se_expires_at s then Some s else None)"

definition live_admin :: "session_row \<Rightarrow> db \<Rightarrow> user option" where
  "live_admin s db =
     (case fetch (\<lambda>u. u_id u = se_user_id s) (users db) of
        None \<Rightarrow> None
      | Some u \<Rightarrow> if u_is_active u \<and> u_is_admin u then Some u else None)"

text \<open>A refusal: an error of the client and one more log entry.\<close>

definition refusal :: "db \<Rightarrow> (exn + 'a) \<times> db \<Rightarrow> bool" where
  "refusal db r \<longleftrightarrow> (\<exists>code message entry. code \<in> {401, 403} \<and> fst r = Inl (HTTPException code message) \<and>
     snd r = db\<lparr>event_log := event_log db @ [entry], next_id := Suc (next_id db)\<rparr>)"

lemma refusal_event: "code \<in> {401, 403} \<Longrightarrow> refusal db (Inl (HTTPException code message), emit_event w st e db)"
  by (auto simp: refusal_def emit_event_def)

lemma current_session_cases:
  "(\<exists>s. live_session w br db = Some s \<and> get_current_session w st br db = (Inr s, db)) \<or>
   (live_session w br db = None \<and> (\<exists>e db'. get_current_session w st br db = (Inl e, db') \<and>
     refusal db (Inl e :: exn + 'a, db')))"
  by (cases "opt_str (session_cookie br)")
    (auto simp: get_current_session_def live_session_def intro: refusal_event split: option.splits)

lemma admin_guard_cases:
  "(\<exists>u. live_admin s db = Some u \<and> guarded (get_current_user w st s) (\<lambda>u. guarded (require_admin w st u) h) db = h u db) \<or>
   (live_admin s db = None \<and> refusal db (guarded (get_current_user w st s) (\<lambda>u. guarded (require_admin w st u) h) db))"
  by (auto simp: guarded_def get_current_user_def require_admin_def live_admin_def Let_def intro: refusal_event
      split: option.splits)

section \<open>The tables of accounts\<close>

definition accounts_ok :: "db \<Rightarrow> bool" where
  "accounts_ok db \<longleftrightarrow>
     fresh_ids u_id (next_id db) (users db) \<and> distinct (List.map (\<lambda>u. (u_organization_id u, u_email u)) (users db)) \<and>
     fresh_ids se_id (next_id db) (sessions db) \<and> distinct (List.map se_session_token_hash (sessions db))"

interpretation account_rows: table_invariant "\<lambda>db. (users db, sessions db)" accounts_ok
  by unfold_locales (auto simp: accounts_ok_def intro: fresh_ids_mono)

lemma accounts_okD:
  assumes "accounts_ok db"
  shows "fresh_ids u_id (next_id db) (users db)" "distinct (List.map (\<lambda>u. (u_organization_id u, u_email u)) (users db))"
    "fresh_ids se_id (next_id db) (sessions db)" "distinct (List.map se_session_token_hash (sessions db))"
  using assms by (simp_all add: accounts_ok_def)

lemma default_organization_frame:
  assumes "default_organization env db = (org, db')"
  shows "users db' = users db" "sessions db' = sessions db" "next_id db \<le> next_id db'"
    "fetch (\<lambda>org. o_slug org = default_org_slug env) (organizations db') = Some org"
  using assms by (auto simp: default_organization_def Let_def fetch_append split: option.splits)

lemma default_organization_ok: "accounts_ok db \<Longrightarrow> default_organization env db = (org, db') \<Longrightarrow> accounts_ok db'"
  using default_organization_frame [of env db org db'] by (auto intro: account_rows.inv_frame)

lemma add_user_ok:
  assumes "accounts_ok db" and "u_id u = new_id db"
    and "fetch (\<lambda>x. u_organization_id x = u_organization_id u \<and> u_email x = u_email u) (users db) = None"
  shows "accounts_ok (add_user u db)"
  using assms fetch_None [of "\<lambda>x. u_organization_id x = u_organization_id u \<and> u_email x = u_email u" "users db"]
  by (auto simp: accounts_ok_def add_user_def new_id_def intro: fresh_ids_snoc)

lemma issue_session_row:
  assumes "issue_session en w env u db = Inr db'"
  shows "\<exists>row. db' = db\<lparr>sessions := sessions db @ [row], next_id := Suc (next_id db)\<rparr> \<and>
    row = \<lparr>se_id = new_id db, se_user_id = u_id u,
      se_session_token_hash = lookup_secret_hash w (new_session_token en),
      se_csrf_token_hash = hash_secret en (csrf_salt en) (new_csrf_token en),
      se_expires_at = session_expiry w (session_ttl_hours env), se_revoked_at = None\<rparr> \<and>
    (\<forall>s \<in> set (sessions db). se_session_token_hash s \<noteq> lookup_secret_hash w (new_session_token en))"
  using assms by (auto simp: issue_session_def Let_def list_ex_iff split: if_splits)

lemma issue_session_ok:
  assumes "accounts_ok db" and "issue_session en w env u db = Inr db'"
  shows "accounts_ok db'" "users db' = users db" "organizations db' = organizations db"
proof -
  obtain row where row: "db' = db\<lparr>sessions := sessions db @ [row], next_id := Suc (next_id db)\<rparr>" "se_id row = new_id db"
    "\<forall>s \<in> set (sessions db). se_session_token_hash s \<noteq> se_session_token_hash row"
    using issue_session_row [OF assms(2)] by auto
  note ok = accounts_okD [OF assms(1)]
  have "fresh_ids se_id (Suc (next_id db)) (sessions db @ [row])"
    using fresh_ids_snoc [OF ok(3), of row] row(2) by (simp add: new_id_def)
  then show "accounts_ok db'"
    using ok row(1) distinct_column_snoc [OF ok(4) row(3)] by (simp add: accounts_ok_def)
qed (use issue_session_row [OF assms(2)] in auto)

lemma save_session_ok:
  assumes "accounts_ok db" and "s \<in> set (sessions db)" and "se_id s' = se_id s"
    and "se_session_token_hash s' = se_session_token_hash s"
  shows "accounts_ok (save_session s' db)"
proof -
  note ok = accounts_okD [OF assms(1)]
  have "x = s" if "x \<in> set (sessions db)" "se_id x = se_id s" for x
    using fresh_ids_inject [OF ok(3) that(1) assms(2) that(2)] .
  then have "List.map se_session_token_hash (save_row se_id s' (sessions db)) = List.map se_session_token_hash (sessions db)"
    using assms(3,4) by (auto simp: save_row_def update_rows_def)
  then show ?thesis using ok by (simp add: accounts_ok_def save_session_def fresh_ids_save)
qed

lemma save_user_ok:
  assumes "accounts_ok db" and "u \<in> set (users db)" and "u_id u' = u_id u" and "u_organization_id u' = u_organization_id u"
    and "u_email u' = u_email u \<or> fetch (\<lambda>x. u_organization_id x = u_organization_id u \<and> u_email x = u_email u') (users db) = None \<or>
      (\<exists>x. fetch (\<lambda>x. u_organization_id x = u_organization_id u \<and> u_email x = u_email u') (users db) = Some x \<and> u_id x = u_id u)"
  shows "accounts_ok (save_user u' db)"
proof -
  note ok = accounts_okD [OF assms(1)]
  let ?key = "\<lambda>u. (u_organization_id u, u_email u)"
  have other: "?key x \<noteq> ?key u'" if x: "x \<in> set (users db)" "u_id x \<noteq> u_id u" for x
  proof
    assume same: "?key x = ?key u'"
    let ?P = "\<lambda>x. u_organization_id x = u_organization_id u \<and> u_email x = u_email u'"
    show False
      using assms(5)
    proof (elim disjE exE conjE)
      assume "u_email u' = u_email u"
      then have "?key x = ?key u" using same assms(4) by simp
      then show False using distinct_column_inject [OF ok(2) x(1) assms(2)] x(2) by simp
    next
      assume "fetch ?P (users db) = None"
      then show False using same assms(4) x(1) fetch_None [of ?P "users db"] by auto
    next
      fix y assume y: "fetch ?P (users db) = Some y" "u_id y = u_id u"
      then have "?key y = ?key x" "y \<in> set (users db)" using same assms(4) fetch_Some [OF y(1)] by auto
      then show False using distinct_column_inject [OF ok(2) _ x(1)] y(2) x(2) by auto
    qed
  qed
  have "distinct (List.map ?key (save_row u_id u' (users db)))"
    using distinct_save_row [OF ok(1,2), of u'] other assms(3) by simp
  then show ?thesis using ok by (simp add: accounts_ok_def save_user_def fresh_ids_save)
qed

section \<open>What every operation on accounts keeps\<close>

definition dead_hashes :: "db \<Rightarrow> string set" where
  "dead_hashes db = se_session_token_hash ` {s \<in> set (sessions db). se_revoked_at s \<noteq> None}"

definition accounts_kept :: "db \<Rightarrow> db \<Rightarrow> bool" where
  "accounts_kept a b \<longleftrightarrow>
     (accounts_ok a \<longrightarrow>
       accounts_ok b \<and> dead_hashes a \<subseteq> dead_hashes b \<and>
       (\<forall>org. active_admins org a \<noteq> [] \<longrightarrow> active_admins org b \<noteq> []) \<and>
       (\<forall>slug org. fetch (\<lambda>x. o_slug x = slug) (organizations a) = Some org \<longrightarrow>
          fetch (\<lambda>x. o_slug x = slug) (organizations b) = Some org))"

lemma accounts_kept_refl [simp]: "accounts_kept a a"
  by (simp add: accounts_kept_def)

lemma accounts_kept_trans [trans]: "accounts_kept a b \<Longrightarrow> accounts_kept b c \<Longrightarrow> accounts_kept a c"
  unfolding accounts_kept_def by blast

lemma accounts_kept_frame:
  assumes "users b = users a" and "sessions b = sessions a" and "organizations b = organizations a" and "next_id a \<le> next_id b"
  shows "accounts_kept a b"
  using assms account_rows.inv_frame [of a b]
  by (simp add: accounts_kept_def dead_hashes_def active_admins_def)

lemma accounts_kept_event [simp]: "accounts_kept a (emit_event w st e a)"
  by (rule accounts_kept_frame) simp_all

lemma accounts_kept_audit [simp]: "accounts_kept a (record_audit w st x t i org m a)"
  by (rule accounts_kept_frame) simp_all

lemma accounts_kept_audited: "accounts_kept a b \<Longrightarrow> accounts_kept a (record_audit w st x t i org m b)"
  by (erule accounts_kept_trans) simp

lemma default_organization_kept:
  assumes "default_organization env db = (org, db')"
  shows "accounts_kept db db'"
proof -
  note frame = default_organization_frame [OF assms]
  have "fetch (\<lambda>x. o_slug x = slug) (organizations db') = Some r" if "fetch (\<lambda>x. o_slug x = slug) (organizations db) = Some r"
    for slug r
    using assms that by (auto simp: default_organization_def Let_def split: option.splits)
  then show ?thesis
    using default_organization_ok [OF _ assms] frame
    by (simp add: accounts_kept_def dead_hashes_def active_admins_def)
qed

lemma add_user_kept:
  assumes "u_id u = new_id db"
    and "fetch (\<lambda>x. u_organization_id x = u_organization_id u \<and> u_email x = u_email u) (users db) = None"
  shows "accounts_kept db (add_user u db)"
  using add_user_ok [OF _ assms] by (auto simp: accounts_kept_def dead_hashes_def active_admins_def add_user_def)

lemma issue_session_kept: "issue_session en w env u db = Inr db' \<Longrightarrow> accounts_kept db db'"
  using issue_session_ok [of db en w env u db'] issue_session_row [of en w env u db db']
  by (auto simp: accounts_kept_def dead_hashes_def active_admins_def)

lemma save_session_kept:
  assumes "s \<in> set (sessions db)" and "se_id s' = se_id s" and "se_session_token_hash s' = se_session_token_hash s"
    and "se_revoked_at s = None"
  shows "accounts_kept db (save_session s' db)"
proof -
  have "dead_hashes db \<subseteq> dead_hashes (save_session s' db)" if "accounts_ok db"
  proof -
    have "x \<in> set (sessions (save_session s' db))" if x: "x \<in> set (sessions db)" "se_revoked_at x \<noteq> None" for x
    proof -
      have "se_id x \<noteq> se_id s" using fresh_ids_inject [OF accounts_okD(3) [OF \<open>accounts_ok db\<close>] x(1) assms(1)] x(2) assms(4) by auto
      then show ?thesis using x(1) assms(2) save_row_frame [of se_id x s' "sessions db"] by (simp add: save_session_def)
    qed
    then show ?thesis unfolding dead_hashes_def by blast
  qed
  then show ?thesis
    using save_session_ok [OF _ assms(1-3)] by (simp add: accounts_kept_def active_admins_def save_session_def)
qed

lemma revoke_user_sessions_kept: "accounts_kept db (snd (revoke_user_sessions w i except db))"
proof -
  have "accounts_ok (snd (revoke_user_sessions w i except db))" if "accounts_ok db"
    using accounts_okD [OF that]
    by (simp add: accounts_ok_def revoke_user_sessions_def Let_def fresh_ids_update map_update_rows)
  moreover have "dead_hashes db \<subseteq> dead_hashes (snd (revoke_user_sessions w i except db))"
    by (force simp: dead_hashes_def revoke_user_sessions_def Let_def set_update_rows)
  ultimately show ?thesis
    by (simp add: accounts_kept_def active_admins_def revoke_user_sessions_def Let_def)
qed

lemma save_user_kept:
  assumes "u \<in> set (users db)" and "u_id u' = u_id u" and "u_organization_id u' = u_organization_id u"
    and "u_email u' = u_email u \<or> fetch (\<lambda>x. u_organization_id x = u_organization_id u \<and> u_email x = u_email u') (users db) = None \<or>
      (\<exists>x. fetch (\<lambda>x. u_organization_id x = u_organization_id u \<and> u_email x = u_email u') (users db) = Some x \<and> u_id x = u_id u)"
    and "u_is_admin u' \<and> u_is_active u' \<or> \<not> (u_is_admin u \<and> u_is_active u) \<or>
      (\<exists>x \<in> set (active_admins (u_organization_id u) db). u_id x \<noteq> u_id u)"
  shows "accounts_kept db (save_user u' db)"
proof -
  have "active_admins org (save_user u' db) \<noteq> []" if ok: "accounts_ok db" and ne: "active_admins org db \<noteq> []" for org
  proof -
    have kept: "x \<in> set (active_admins org (save_user u' db))" if "x \<in> set (active_admins org db)" "u_id x \<noteq> u_id u" for x
      using that assms(2) save_row_frame [of u_id x u' "users db"] by (simp add: active_admins_def save_user_def)
    have new: "u' \<in> set (users (save_user u' db))"
      using assms(1,2) by (auto simp: save_user_def set_save_row)
    obtain x where x: "x \<in> set (active_admins org db)" using ne by (cases "active_admins org db") auto
    show ?thesis
    proof (cases "u_id x = u_id u")
      case True
      then have "x = u" using fresh_ids_inject [OF accounts_okD(1) [OF ok] _ assms(1)] x by (simp add: active_admins_def)
      then have "u' \<in> set (active_admins org (save_user u' db)) \<or> (\<exists>y \<in> set (active_admins org db). u_id y \<noteq> u_id u)"
        using x new assms(3,5) by (auto simp: active_admins_def)
      then show ?thesis using kept by (metis list.set_intros(1) list.exhaust empty_iff list.set(1))
    next
      case False
      then show ?thesis using kept [OF x] by auto
    qed
  qed
  then show ?thesis
    using save_user_ok [OF _ assms(1-4)] by (simp add: accounts_kept_def dead_hashes_def save_user_def)
qed

section \<open>The guards, once and for all\<close>

lemma live_session_row:
  assumes "live_session w br db = Some s"
  shows "s \<in> set (sessions db)" "se_revoked_at s = None" "utcnow w < se_expires_at s"
    "se_session_token_hash s = lookup_secret_hash w (opt_str (session_cookie br))"
  using assms fetch_Some [of "\<lambda>s. se_session_token_hash s = lookup_secret_hash w (opt_str (session_cookie br))" "sessions db" s]
  by (auto simp: live_session_def split: option.splits if_splits)

lemma live_admin_row:
  assumes "live_admin s db = Some u"
  shows "u \<in> set (users db)" "u_id u = se_user_id s" "u \<in> set (active_admins (u_organization_id u) db)"
  using assms fetch_Some [of "\<lambda>u. u_id u = se_user_id s" "users db" u]
  by (auto simp: live_admin_def active_admins_def split: option.splits if_splits)

definition csrf_accepted :: "entropy \<Rightarrow> browser \<Rightarrow> session_row \<Rightarrow> bool" where
  "csrf_accepted en br s \<longleftrightarrow>
     opt_str (csrf_header br) \<noteq> [] \<and> verify_secret en (opt_str (csrf_header br)) (Some (se_csrf_token_hash s))"

lemma refusal_cast: "refusal db (Inl e :: exn + 'a, db') \<Longrightarrow> refusal db (Inl e :: exn + 'b, db')"
  by (simp add: refusal_def)

lemma guarded_session:
  "case live_session w br db of
     None \<Rightarrow> refusal db (guarded (get_current_session w st br) h db)
   | Some s \<Rightarrow> guarded (get_current_session w st br) h db = h s db"
  using current_session_cases [where w = w and br = br and db = db and st = st and 'a = 'a] by (auto simp: guarded_def)

lemma guarded_csrf:
  "if csrf_accepted en br s then guarded (require_csrf en w st br s) h db = h (opt_str (csrf_header br)) db
   else refusal db (guarded (require_csrf en w st br s) h db)"
  by (auto simp: guarded_def require_csrf_def csrf_accepted_def Let_def intro: refusal_event)

lemma csrf_write_cases:
  "case live_session w br db of
     None \<Rightarrow> refusal db (csrf_write en w st br h db)
   | Some s \<Rightarrow> if csrf_accepted en br s then csrf_write en w st br h db = h s db
      else refusal db (csrf_write en w st br h db)"
  using guarded_session [where w = w and br = br and db = db and st = st and h = "\<lambda>s. guarded (require_csrf en w st br s) (\<lambda>_. h s)"]
    guarded_csrf [where en = en and br = br and w = w and st = st and db = db and s = s and h = "\<lambda>_. h s" for s]
  by (auto simp: csrf_write_def split: option.splits if_splits)

lemma admin_write_cases:
  "case live_session w br db of
     None \<Rightarrow> refusal db (admin_write en w st br h db)
   | Some s \<Rightarrow>
       if \<not> csrf_accepted en br s then refusal db (admin_write en w st br h db)
       else (case live_admin s db of
          None \<Rightarrow> refusal db (admin_write en w st br h db)
        | Some u \<Rightarrow> admin_write en w st br h db = h s u db)"
proof -
  let ?k = "\<lambda>s. guarded (get_current_user w st s) (\<lambda>u. guarded (require_admin w st u) (h s))"
  have eq: "admin_write en w st br h db = csrf_write en w st br ?k db" by (simp add: admin_write_def)
  show ?thesis
  proof (cases "live_session w br db")
    case None
    then show ?thesis using csrf_write_cases [where w = w and br = br and db = db and en = en and st = st and h = ?k] unfolding eq by simp
  next
    case (Some s)
    note c = csrf_write_cases [where w = w and br = br and db = db and en = en and st = st and h = ?k]
    note a = admin_guard_cases [where s = s and db = db and w = w and st = st and h = "h s"]
    show ?thesis
      using c a unfolding eq Some by (cases "csrf_accepted en br s") (auto split: option.splits)
  qed
qed

lemma user_guard_cases:
  "(\<exists>u \<in> set (users db). u_id u = se_user_id s \<and> u_is_active u \<and> guarded (get_current_user w st s) h db = h u db) \<or>
   refusal db (guarded (get_current_user w st s) h db)"
proof (cases "fetch (\<lambda>u. u_id u = se_user_id s) (users db)")
  case None
  then show ?thesis by (simp add: guarded_def get_current_user_def Let_def refusal_event)
next
  case (Some u)
  then show ?thesis
    using fetch_Some [OF Some] by (cases "u_is_active u") (auto simp: guarded_def get_current_user_def Let_def refusal_event)
qed

lemma signed_in_cases:
  "(\<exists>s. live_session w br db = Some s \<and> (\<exists>u \<in> set (users db). u_id u = se_user_id s \<and> u_is_active u \<and>
      signed_in w st br h db = h s u db)) \<or> refusal db (signed_in w st br h db)"
proof (cases "live_session w br db")
  case None
  then show ?thesis
    using guarded_session [where w = w and br = br and db = db and st = st and h = "\<lambda>s. guarded (get_current_user w st s) (h s)"]
    by (simp add: signed_in_def)
next
  case (Some s)
  then have eq: "signed_in w st br h db = guarded (get_current_user w st s) (h s) db"
    using guarded_session [where w = w and br = br and db = db and st = st and h = "\<lambda>s. guarded (get_current_user w st s) (h s)"]
    by (simp add: signed_in_def)
  show ?thesis
    unfolding eq using Some user_guard_cases [where s = s and h = "h s" and db = db and w = w and st = st] by blast
qed

lemma refusal_kept: "refusal db r \<Longrightarrow> accounts_kept db (snd r)"
  by (auto simp: refusal_def intro!: accounts_kept_frame)

lemma csrf_write_kept:
  assumes "\<And>s. live_session w br db = Some s \<Longrightarrow> accounts_kept db (snd (h s db))"
  shows "accounts_kept db (snd (csrf_write en w st br h db))"
  using csrf_write_cases [where w = w and br = br and db = db and en = en and st = st and h = h] assms by (auto split: option.splits if_splits intro: refusal_kept)

lemma admin_write_kept:
  assumes "\<And>s u. live_session w br db = Some s \<Longrightarrow> live_admin s db = Some u \<Longrightarrow> accounts_kept db (snd (h s u db))"
  shows "accounts_kept db (snd (admin_write en w st br h db))"
  using admin_write_cases [where w = w and br = br and db = db and en = en and st = st and h = h] assms by (auto split: option.splits if_splits intro: refusal_kept)

section \<open>The handlers keep accounts in order\<close>

lemma setup_status_kept: "accounts_kept db (snd (setup_status env db))"
  by (auto simp: setup_status_def Let_def intro: default_organization_kept split: prod.splits)

lemma new_user_columns [simp]:
  "u_id (new_user en org email n p a b db) = new_id db" "u_organization_id (new_user en org email n p a b db) = org"
  "u_email (new_user en org email n p a b db) = email" "u_is_admin (new_user en org email n p a b db) = a"
  "u_is_active (new_user en org email n p a b db) = b"
  "u_password_hash (new_user en org email n p a b db) = Some (hash_secret en (password_salt en) p)"
  by (simp_all add: new_user_def)

lemma create_first_admin_result:
  assumes "create_first_admin en w st env p db0 = (Inr out, db1)"
  obtains org db email db' u where "default_organization env db0 = (org, db)" "\<not> admin_exists (o_id org) db"
    "normalize_email (fa_email p) = Inr email"
    "fetch (\<lambda>u. u_organization_id u = o_id org \<and> u_email u = email) (users db) = None"
    "u = new_user en (o_id org) email (fa_display_name p) (fa_password p) True True db"
    "issue_session en w env u (add_user u db) = Inr db'"
    "db1 = record_audit w st ''setup.first_admin.created'' ''user'' (Some (u_id u)) (Some (o_id org))
       [(''user_id'', JStr (u_id u)), (''email'', JStr (u_email u))] db'"
proof -
  obtain org db where org: "default_organization env db0 = (org, db)" by (rule prod.exhaust)
  have "\<not> admin_exists (o_id org) db"
    using assms by (auto simp: create_first_admin_def org split: if_splits)
  moreover obtain email where "normalize_email (fa_email p) = Inr email"
    using assms by (auto simp: create_first_admin_def org split: if_splits sum.splits)
  ultimately show ?thesis
    using assms that [OF org] by (auto simp: create_first_admin_def org Let_def split: if_splits sum.splits)
qed

lemma create_first_admin_refused: "create_first_admin en w st env p db = (Inl e, db1) \<Longrightarrow> db1 = db"
  by (auto simp: create_first_admin_def Let_def split: prod.splits if_splits sum.splits)

lemma create_first_admin_kept: "accounts_kept db (snd (create_first_admin en w st env p db))"
proof (cases "create_first_admin en w st env p db")
  case (Pair r db1)
  show ?thesis
  proof (cases r)
    case (Inl e)
    then show ?thesis using Pair create_first_admin_refused by fastforce
  next
    case (Inr out)
    then have "create_first_admin en w st env p db = (Inr out, db1)" using Pair by simp
    then show ?thesis
    proof (rule create_first_admin_result)
      fix org db2 email db' u
      assume 1: "default_organization env db = (org, db2)"
        and 2: "fetch (\<lambda>u. u_organization_id u = o_id org \<and> u_email u = email) (users db2) = None"
        and u: "u = new_user en (o_id org) email (fa_display_name p) (fa_password p) True True db2"
        and 3: "issue_session en w env u (add_user u db2) = Inr db'"
        and 4: "db1 = record_audit w st ''setup.first_admin.created'' ''user'' (Some (u_id u)) (Some (o_id org))
          [(''user_id'', JStr (u_id u)), (''email'', JStr (u_email u))] db'"
      have "accounts_kept db db2" by (rule default_organization_kept [OF 1])
      also have "accounts_kept db2 (add_user u db2)" by (rule add_user_kept) (simp_all add: u 2)
      also have "accounts_kept \<dots> db'" by (rule issue_session_kept [OF 3])
      finally show ?thesis using Pair 4 by (simp add: accounts_kept_audited)
    qed
  qed
qed

lemma login_result:
  assumes "login en w st env email password db = (Inr out, db1)"
  obtains u db' where "fetch (\<lambda>u. u_email u = lower (strip email) \<and> u_is_active u) (users db) = Some u"
    "verify_secret en password (u_password_hash u)" "issue_session en w env u db = Inr db'"
    "out = \<lparr>sr_user = user_out_of u, sr_csrf_token = new_csrf_token en, sr_cookie = Some (new_session_token en)\<rparr>"
    "db1 = record_audit w st ''auth.login.success'' ''user'' (Some (u_id u)) (Some (u_organization_id u))
       [(''email'', JStr (u_email u))] db'"
  using assms that by (auto simp: login_def Let_def split: option.splits if_splits sum.splits)

lemma login_kept: "accounts_kept db (snd (login en w st env email password db))"
proof (cases "fetch (\<lambda>u. u_email u = lower (strip email) \<and> u_is_active u) (users db)")
  case None
  then show ?thesis by (simp add: login_def Let_def)
next
  case (Some u)
  show ?thesis
    by (cases "issue_session en w env u db")
      (simp_all add: login_def Let_def Some accounts_kept_audited issue_session_kept)
qed

lemma logout_kept: "accounts_kept db (snd (logout en w st br db))"
  unfolding logout_def
proof (rule csrf_write_kept)
  fix s assume "live_session w br db = Some s"
  note row = live_session_row [OF this]
  have "accounts_kept db (save_session (s\<lparr>se_revoked_at := Some (utcnow w)\<rparr>) db)"
    by (rule save_session_kept [OF row(1)]) (simp_all add: row(2))
  then show "accounts_kept db (snd (Inr (), record_audit w st ''auth.logout'' ''user'' (Some (se_user_id s)) None
    [(''session_id'', JStr (se_id s))] (save_session (s\<lparr>se_revoked_at := Some (utcnow w)\<rparr>) db)))"
    by (simp add: accounts_kept_audited)
qed

lemma refresh_csrf_token_kept:
  assumes "live_session w br db = Some s" and "refresh_csrf_token en s db = (token, db')"
  shows "accounts_kept db db'"
proof -
  note row = live_session_row [OF assms(1)]
  have "accounts_kept db (save_session (s\<lparr>se_csrf_token_hash := x\<rparr>) db)" for x
    by (rule save_session_kept [OF row(1)]) (simp_all add: row(2))
  then show ?thesis using assms(2) by (auto simp: refresh_csrf_token_def)
qed

lemma me_result:
  "(\<exists>s u token db'. live_session w br db = Some s \<and> refresh_csrf_token en s db = (token, db') \<and>
      me en w st br db = (Inr \<lparr>sr_user = user_out_of u, sr_csrf_token = token, sr_cookie = None\<rparr>, db')) \<or>
   refusal db (me en w st br db)"
  unfolding me_def
  using signed_in_cases [where w = w and br = br and db = db and st = st and h = "\<lambda>s u db.
    case refresh_csrf_token en s db of (token, db') \<Rightarrow>
      (Inr \<lparr>sr_user = user_out_of u, sr_csrf_token = token, sr_cookie = None\<rparr>, db')"]
  by (auto simp: refresh_csrf_token_def)

lemma me_kept: "accounts_kept db (snd (me en w st br db))"
  using me_result [of w br db en st] by (auto intro: refusal_kept refresh_csrf_token_kept)

lemma create_user_kept: "accounts_kept db (snd (create_user en w st admin p db))"
proof (cases "normalize_email (uc_email p)")
  case (Inl e)
  then show ?thesis by (simp add: create_user_def Let_def)
next
  case (Inr email)
  show ?thesis
  proof (cases "ensure_user_email_available (u_organization_id admin) email None db")
    case None
    then have "fetch (\<lambda>u. u_organization_id u = u_organization_id admin \<and> u_email u = email) (users db) = None"
      by (auto simp: ensure_user_email_available_def split: option.splits)
    then show ?thesis
      by (simp add: create_user_def Let_def Inr None admin_audit_def accounts_kept_audited add_user_kept)
  qed (simp add: create_user_def Let_def Inr)
qed

lemma get_org_user_row: "get_org_user org i db = Inr u \<Longrightarrow> u \<in> set (users db) \<and> u_id u = i \<and> u_organization_id u = org"
  using fetch_Some [of "\<lambda>u. u_id u = i \<and> u_organization_id u = org" "users db" u]
  by (auto simp: get_org_user_def split: option.splits)

lemma revocation_kept: "accounts_kept a b \<Longrightarrow> accounts_kept a (record_session_revocation w st admin u n reason b)"
  by (simp add: record_session_revocation_def admin_audit_def accounts_kept_audited)

lemma revoked_kept:
  "accounts_kept a b \<Longrightarrow> revoke_user_sessions w i except b = (n, c) \<Longrightarrow> accounts_kept a c"
  using accounts_kept_trans [OF _ revoke_user_sessions_kept [of b w i except]] by simp

lemma update_user_password_kept:
  "accounts_kept db (snd (update_user_password en w st admin current i password db))"
proof (cases "get_org_user (u_organization_id admin) i db")
  case (Inr u)
  let ?u = "u\<lparr>u_password_hash := Some (hash_secret en (password_salt en) password)\<rparr>"
  have saved: "accounts_kept db (save_user ?u db)"
    using get_org_user_row [OF Inr] by (intro save_user_kept [of u]) auto
  obtain n db' where r: "revoke_user_sessions w (u_id u) (if u_id u = u_id admin then Some (se_id current) else None)
    (save_user ?u db) = (n, db')" by (rule prod.exhaust)
  have "update_user_password en w st admin current i password db = (Inr (user_out_of ?u),
    record_session_revocation w st admin ?u n ''password_changed'' (admin_audit w st ''admin.user.password_changed'' admin
      [(''user_id'', JStr (u_id u)), (''email'', JStr (u_email u))] db'))"
    unfolding update_user_password_def Inr Let_def sum.case r prod.case ..
  then show ?thesis
    using revoked_kept [OF saved r] by (simp add: revocation_kept accounts_kept_audited admin_audit_def)
qed (simp add: update_user_password_def)

text \<open>An update that is carried out, with the checks it passed.\<close>

lemma update_user_result:
  assumes "update_user w st admin i p db = (Inr out, db1)"
  obtains u email n db' where "get_org_user (u_organization_id admin) i db = Inr u"
    "email = u_email u \<or> ensure_user_email_available (u_organization_id admin) email (Some (u_id u)) db = None"
    "ensure_user_update_allowed admin u (u_is_admin (apply_user_update p email u)) (u_is_active (apply_user_update p email u)) db = None"
    "(n, db') = (if u_is_active (apply_user_update p email u) then (0, save_user (apply_user_update p email u) db)
       else revoke_user_sessions w (u_id u) None (save_user (apply_user_update p email u) db))"
    "out = user_out_of (apply_user_update p email u)"
    "db1 = record_session_revocation w st admin (apply_user_update p email u) n ''user_deactivated''
       (admin_audit w st ''admin.user.updated'' admin
          [(''user_id'', JStr (u_id u)), (''before'', user_facts u), (''after'', user_facts (apply_user_update p email u))] db')"
proof -
  obtain u where u: "get_org_user (u_organization_id admin) i db = Inr u"
    using assms by (cases "get_org_user (u_organization_id admin) i db") (simp_all add: update_user_def Let_def)
  obtain email where e: "(case uu_email p of None \<Rightarrow> Inr (u_email u) | Some e \<Rightarrow> normalize_email e) = Inr email"
    using assms u by (cases "case uu_email p of None \<Rightarrow> Inr (u_email u) | Some e \<Rightarrow> normalize_email e")
      (simp_all add: update_user_def Let_def)
  let ?u = "apply_user_update p email u"
  have 1: "(if email \<noteq> u_email u then ensure_user_email_available (u_organization_id admin) email (Some (u_id u)) db else None) = None"
    using assms u e by (auto simp: update_user_def Let_def split: option.splits)
  have 2: "ensure_user_update_allowed admin u (u_is_admin ?u) (u_is_active ?u) db = None"
    using assms u e 1 by (auto simp: update_user_def Let_def split: option.splits)
  obtain n db' where 3: "(if u_is_active ?u then (0, save_user ?u db)
    else revoke_user_sessions w (u_id u) None (save_user ?u db)) = (n, db')" by (rule prod.exhaust)
  have "update_user w st admin i p db = (Inr (user_out_of ?u),
    record_session_revocation w st admin ?u n ''user_deactivated''
      (admin_audit w st ''admin.user.updated'' admin
        [(''user_id'', JStr (u_id u)), (''before'', user_facts u), (''after'', user_facts ?u)] db'))"
    unfolding update_user_def Let_def u e 1 2 3 sum.case option.case prod.case ..
  then show ?thesis
    using assms 1 that [OF u _ 2 3 [symmetric]] by (simp split: if_splits)
qed

lemma update_user_refused: "update_user w st admin i p db = (Inl e, db1) \<Longrightarrow> db1 = db"
  by (auto simp: update_user_def Let_def split: sum.splits option.splits prod.splits)

lemma update_user_kept:
  assumes admin: "admin \<in> set (active_admins (u_organization_id admin) db)"
  shows "accounts_kept db (snd (update_user w st admin i p db))"
proof (cases "update_user w st admin i p db")
  case (Pair r db1)
  show ?thesis
  proof (cases r)
    case (Inl e)
    then show ?thesis using Pair update_user_refused by fastforce
  next
    case (Inr out)
    then have "update_user w st admin i p db = (Inr out, db1)" using Pair by simp
    then show ?thesis
    proof (rule update_user_result)
      fix u email n db'
      let ?u = "apply_user_update p email u"
      assume u: "get_org_user (u_organization_id admin) i db = Inr u"
        and e: "email = u_email u \<or> ensure_user_email_available (u_organization_id admin) email (Some (u_id u)) db = None"
        and a: "ensure_user_update_allowed admin u (u_is_admin ?u) (u_is_active ?u) db = None"
        and s: "(n, db') = (if u_is_active ?u then (0, save_user ?u db)
          else revoke_user_sessions w (u_id u) None (save_user ?u db))"
        and db1: "db1 = record_session_revocation w st admin ?u n ''user_deactivated''
          (admin_audit w st ''admin.user.updated'' admin
            [(''user_id'', JStr (u_id u)), (''before'', user_facts u), (''after'', user_facts ?u)] db')"
      note row = get_org_user_row [OF u]
      have same: "u_id ?u = u_id u" "u_organization_id ?u = u_organization_id u" "u_email ?u = email"
        by (simp_all add: apply_user_update_def)
      have "u_is_admin ?u \<and> u_is_active ?u \<or> u_id admin \<noteq> u_id u"
        using a by (auto simp: ensure_user_update_allowed_def split: if_splits)
      then have "accounts_kept db (save_user ?u db)"
        using row e admin
        by (intro save_user_kept [of u]) (auto simp: same ensure_user_email_available_def split: option.splits if_splits)
      then have "accounts_kept db db'"
        using s revoked_kept [of db "save_user ?u db" w "u_id u" None n db'] by (auto split: if_splits)
      then show ?thesis using Pair db1 by (simp add: revocation_kept accounts_kept_audited admin_audit_def)
    qed
  qed
qed

section \<open>Runs of the sign-in and user administration endpoints\<close>

inductive account_step :: "settings \<Rightarrow> db \<Rightarrow> db \<Rightarrow> bool" for env where
  "account_step env db (snd (setup_status env db))"
| "account_step env db (snd (create_first_admin en w st env fa db))"
| "account_step env db (snd (login en w st env email password db))"
| "account_step env db (snd (logout en w st br db))"
| "account_step env db (snd (me en w st br db))"
| "account_step env db (snd (admin_write en w st br (\<lambda>_ u. create_user en w st u uc) db))"
| "account_step env db (snd (admin_write en w st br (\<lambda>_ u. update_user w st u i uu) db))"
| "account_step env db (snd (admin_write en w st br (\<lambda>s u. update_user_password en w st u s i password) db))"

lemma account_step_kept: "account_step env a b \<Longrightarrow> accounts_kept a b"
  by (induction rule: account_step.induct)
    (auto intro!: setup_status_kept create_first_admin_kept login_kept logout_kept me_kept admin_write_kept
      create_user_kept update_user_kept update_user_password_kept dest: live_admin_row)

lemma account_steps_kept: "(account_step env)\<^sup>*\<^sup>* a b \<Longrightarrow> accounts_kept a b"
  by (induction rule: rtranclp_induct) (auto intro: accounts_kept_trans account_step_kept)

section \<open>Properties\<close>


lemma default_organization_known:
  "fetch (\<lambda>org. o_slug org = default_org_slug env) (organizations db) = Some org \<Longrightarrow> default_organization env db = (org, db)"
  by (simp add: default_organization_def)

lemma first_admin_is_admin:
  assumes "create_first_admin en w st env p db = (Inr out, db1)"
  shows "\<exists>org. fetch (\<lambda>x. o_slug x = default_org_slug env) (organizations db1) = Some org \<and> active_admins (o_id org) db1 \<noteq> []"
  using assms
proof (rule create_first_admin_result)
  fix org db2 email db' u
  assume 1: "default_organization env db = (org, db2)"
    and u: "u = new_user en (o_id org) email (fa_display_name p) (fa_password p) True True db2"
    and 3: "issue_session en w env u (add_user u db2) = Inr db'"
    and 4: "db1 = record_audit w st ''setup.first_admin.created'' ''user'' (Some (u_id u)) (Some (o_id org))
      [(''user_id'', JStr (u_id u)), (''email'', JStr (u_email u))] db'"
  obtain row where db': "db' = (add_user u db2)\<lparr>sessions := sessions db2 @ [row], next_id := Suc (next_id (add_user u db2))\<rparr>"
    using issue_session_row [OF 3] by (auto simp: add_user_def)
  have "fetch (\<lambda>x. o_slug x = default_org_slug env) (organizations db1) = Some org"
    using default_organization_frame(4) [OF 1] by (simp add: 4 db' add_user_def)
  moreover have "u \<in> set (active_admins (o_id org) db1)"
    by (simp add: 4 db' add_user_def active_admins_def u)
  ultimately show ?thesis by (intro exI [of _ org]) auto
qed

text \<open>C23: the initial setup can be done once. After it has succeeded, no sequence of setup, sign-in,
  sign-out and user administration requests, of whatever users, leaves the default organization
  without an active administrator, and every later setup request is answered with 409 and changes
  nothing.\<close>

theorem setup_happens_once:
  assumes "accounts_ok db" and "create_first_admin en w st env p db = (Inr out, db1)"
    and "(account_step env)\<^sup>*\<^sup>* db1 db2"
  shows "create_first_admin en' w' st' env p' db2 =
      (Inl (HTTPException 409 ''Initial setup has already been completed''), db2) \<and>
    (\<exists>org. fetch (\<lambda>x. o_slug x = default_org_slug env) (organizations db2) = Some org \<and> active_admins (o_id org) db2 \<noteq> [])"
proof -
  have "accounts_ok db1"
    using create_first_admin_kept [of db en w st env p] assms(1,2) by (simp add: accounts_kept_def)
  then obtain org where org: "fetch (\<lambda>x. o_slug x = default_org_slug env) (organizations db2) = Some org"
    "active_admins (o_id org) db2 \<noteq> []"
    using first_admin_is_admin [OF assms(2)] account_steps_kept [OF assms(3)] unfolding accounts_kept_def by blast
  have "admin_exists (o_id org) db2"
    using org(2) by (auto simp: admin_exists_def active_admins_def fetch_None filter_empty_conv)
  then show ?thesis
    using org default_organization_known [OF org(1)] by (simp add: create_first_admin_def)
qed

lemma dead_hash_refused:
  assumes "accounts_ok db" and "lookup_secret_hash w token \<in> dead_hashes db" and "token \<noteq> []"
    and "session_cookie br = Some token"
  shows "fst (get_current_session w st br db) = Inl (HTTPException 401 ''Expired session'')"
proof -
  obtain s where s: "s \<in> set (sessions db)" "se_session_token_hash s = lookup_secret_hash w token" "se_revoked_at s \<noteq> None"
    using assms(2) by (auto simp: dead_hashes_def)
  have "fetch (\<lambda>x. se_session_token_hash x = lookup_secret_hash w token) (sessions db) = Some s"
    using fetch_distinct [OF accounts_okD(4) [OF assms(1)] s(1)] s(2) by simp
  then show ?thesis
    using s(3) assms(3,4) by (cases token) (simp_all add: get_current_session_def opt_str_def)
qed

lemma dead_hashes_run:
  assumes "accounts_ok a" and "(account_step env)\<^sup>*\<^sup>* a b" and "x \<in> dead_hashes a"
  shows "accounts_ok b" "x \<in> dead_hashes b"
  using account_steps_kept [OF assms(2)] assms(1,3) unfolding accounts_kept_def by blast+

lemma logout_result:
  assumes "logout en w st br db = (Inr (), db1)"
  obtains s where "live_session w br db = Some s"
    "db1 = record_audit w st ''auth.logout'' ''user'' (Some (se_user_id s)) None [(''session_id'', JStr (se_id s))]
      (save_session (s\<lparr>se_revoked_at := Some (utcnow w)\<rparr>) db)"
  using csrf_write_cases [where w = w and br = br and db = db and en = en and st = st and h = "\<lambda>s db. (Inr (),
      record_audit w st ''auth.logout'' ''user'' (Some (se_user_id s)) None [(''session_id'', JStr (se_id s))]
        (save_session (s\<lparr>se_revoked_at := Some (utcnow w)\<rparr>) db))"] assms that
  by (auto simp: logout_def refusal_def split: option.splits if_splits)

text \<open>Signing out is final. The cookie of a session that was signed out is refused as expired in
  every state that later sign-ins, sign-outs and user administration lead to.\<close>

theorem signed_out_stays_signed_out:
  assumes "accounts_ok db" and "logout en w st br db = (Inr (), db1)" and "(account_step env)\<^sup>*\<^sup>* db1 db2"
    and "sha256 w' = sha256 w"
  shows "fst (get_current_session w' st' br db2) = Inl (HTTPException 401 ''Expired session'')"
proof -
  obtain s where s: "live_session w br db = Some s"
    and db1: "db1 = record_audit w st ''auth.logout'' ''user'' (Some (se_user_id s)) None [(''session_id'', JStr (se_id s))]
      (save_session (s\<lparr>se_revoked_at := Some (utcnow w)\<rparr>) db)"
    by (rule logout_result [OF assms(2)])
  obtain token where token: "session_cookie br = Some token" "token \<noteq> []"
    using s by (auto simp: live_session_def opt_str_def split: if_splits option.splits)
  have ok: "accounts_ok db1"
    using logout_kept [of db en w st br] assms(1,2) by (simp add: accounts_kept_def)
  have "s\<lparr>se_revoked_at := Some (utcnow w)\<rparr> \<in> set (sessions db1)"
    using live_session_row(1) [OF s] by (force simp: db1 save_session_def set_save_row)
  then have "lookup_secret_hash w token \<in> dead_hashes db1"
    using live_session_row(4) [OF s] token(1) by (force simp: dead_hashes_def opt_str_def)
  then show ?thesis
    using dead_hash_refused [OF _ _ token(2,1)] dead_hashes_run [OF ok assms(3)] assms(4)
    by (simp add: lookup_secret_hash_def)
qed

lemma dead_hashesI:
  "s \<in> set (sessions db) \<Longrightarrow> se_revoked_at s \<noteq> None \<Longrightarrow> x = se_session_token_hash s \<Longrightarrow> x \<in> dead_hashes db"
  by (auto simp: dead_hashes_def)

lemma revoke_all_dead:
  assumes "revoke_user_sessions w i None db = (n, db')" and "s \<in> set (sessions db)" and "se_user_id s = i"
  shows "se_session_token_hash s \<in> dead_hashes db'"
proof (cases "se_revoked_at s")
  case None
  then have "s\<lparr>se_revoked_at := Some (utcnow w)\<rparr> \<in> set (sessions db')"
    using assms by (force simp: revoke_user_sessions_def Let_def set_update_rows)
  then show ?thesis by (rule dead_hashesI) simp_all
next
  case (Some t)
  then have "s \<in> set (sessions db')"
    using assms by (force simp: revoke_user_sessions_def Let_def set_update_rows)
  then show ?thesis by (rule dead_hashesI) (simp_all add: Some)
qed

lemma dead_hashes_audit [simp]:
  "dead_hashes (record_audit w st x t i org m db) = dead_hashes db"
  "dead_hashes (record_session_revocation w st admin u n reason db) = dead_hashes db"
  "dead_hashes (save_user u db) = dead_hashes db"
  by (simp_all add: dead_hashes_def record_session_revocation_def admin_audit_def save_user_def)

text \<open>Deactivating a user locks them out for good: whatever sessions the user had are refused in
  every later state, also after the user is activated again or changes the password, so that only a
  new sign-in lets them back.\<close>

theorem deactivation_ends_sessions:
  assumes "accounts_ok db" and "admin \<in> set (active_admins (u_organization_id admin) db)"
    and "update_user w st admin i p db = (Inr out, db1)" and "\<not> uo_is_active out"
    and "s \<in> set (sessions db)" and "se_user_id s = i"
    and "(account_step env)\<^sup>*\<^sup>* db1 db2"
    and "lookup_secret_hash w' token = se_session_token_hash s" and "token \<noteq> []"
  shows "fst (get_current_session w' st' \<lparr>session_cookie = Some token, csrf_header = h\<rparr> db2) =
    Inl (HTTPException 401 ''Expired session'')"
proof -
  have ok: "accounts_ok db1"
    using update_user_kept [OF assms(2), of w st i p] assms(1,3) by (simp add: accounts_kept_def)
  have "se_session_token_hash s \<in> dead_hashes db1"
    using assms(3)
  proof (rule update_user_result)
    fix u email n db'
    let ?u = "apply_user_update p email u"
    assume u: "get_org_user (u_organization_id admin) i db = Inr u"
      and r: "(n, db') = (if u_is_active ?u then (0, save_user ?u db) else revoke_user_sessions w (u_id u) None (save_user ?u db))"
      and out: "out = user_out_of ?u"
      and db1: "db1 = record_session_revocation w st admin ?u n ''user_deactivated''
       (admin_audit w st ''admin.user.updated'' admin
          [(''user_id'', JStr (u_id u)), (''before'', user_facts u), (''after'', user_facts ?u)] db')"
    have "revoke_user_sessions w i None (save_user ?u db) = (n, db')"
      using r out assms(4) get_org_user_row [OF u] by (simp add: user_out_of_def)
    then have "se_session_token_hash s \<in> dead_hashes db'"
      by (rule revoke_all_dead) (simp_all add: save_user_def assms(5,6))
    then show ?thesis by (simp add: db1 admin_audit_def)
  qed
  then show ?thesis
    using dead_hash_refused [OF _ _ assms(9), of db2 w' "\<lparr>session_cookie = Some token, csrf_header = h\<rparr>"]
      dead_hashes_run [OF ok assms(7)] assms(8) by simp
qed

text \<open>C24: a sign-in works. The session that a sign-in opens for an administrator lets that user write
  with the cookie and the CSRF token of the answer, until the session expires.\<close>

theorem sign_in_opens_admin_session:
  assumes "accounts_ok db" and "login en w st env email password db = (Inr out, db1)"
    and "uo_is_admin (sr_user out)" and "CHR ''$'' \<notin> set (csrf_salt en)"
    and "new_session_token en \<noteq> []" and "new_csrf_token en \<noteq> []"
    and "sha256 w' = sha256 w" and "kdf en' = kdf en" and "utcnow w' < utcnow w + hours (session_ttl_hours env)"
  shows "\<exists>s u. user_out_of u = sr_user out \<and>
    admin_write en' w' st' \<lparr>session_cookie = sr_cookie out, csrf_header = Some (sr_csrf_token out)\<rparr> h db1 = h s u db1"
  using assms(2)
proof (rule login_result)
  fix u db'
  assume u: "fetch (\<lambda>u. u_email u = lower (strip email) \<and> u_is_active u) (users db) = Some u"
    and i: "issue_session en w env u db = Inr db'"
    and out: "out = \<lparr>sr_user = user_out_of u, sr_csrf_token = new_csrf_token en, sr_cookie = Some (new_session_token en)\<rparr>"
    and db1: "db1 = record_audit w st ''auth.login.success'' ''user'' (Some (u_id u)) (Some (u_organization_id u))
       [(''email'', JStr (u_email u))] db'"
  let ?br = "\<lparr>session_cookie = sr_cookie out, csrf_header = Some (sr_csrf_token out)\<rparr>"
  obtain row where db': "db' = db\<lparr>sessions := sessions db @ [row], next_id := Suc (next_id db)\<rparr>"
    and row: "row = \<lparr>se_id = new_id db, se_user_id = u_id u,
      se_session_token_hash = lookup_secret_hash w (new_session_token en),
      se_csrf_token_hash = hash_secret en (csrf_salt en) (new_csrf_token en),
      se_expires_at = session_expiry w (session_ttl_hours env), se_revoked_at = None\<rparr>"
    and new: "\<forall>s \<in> set (sessions db). se_session_token_hash s \<noteq> lookup_secret_hash w (new_session_token en)"
    using issue_session_row [OF i] by blast
  have "fetch (\<lambda>s. se_session_token_hash s = lookup_secret_hash w' (new_session_token en)) (sessions db1) = Some row"
    using new fetch_None [of "\<lambda>s. se_session_token_hash s = lookup_secret_hash w (new_session_token en)" "sessions db"]
    by (simp add: db1 db' row assms(7) lookup_secret_hash_def)
  then have s: "live_session w' ?br db1 = Some row"
    using assms(5,9) by (simp add: live_session_def out opt_str_def row session_expiry_def)
  have c: "csrf_accepted en' ?br row"
    using assms(4,6,8) by (simp add: csrf_accepted_def out opt_str_def row verify_secret_def split_salt_hash)
  have "u_is_active u" "u \<in> set (users db)" using fetch_Some [OF u] by simp_all
  moreover have "fetch (\<lambda>x. u_id x = u_id u) (users db1) = Some u"
    using fetch_distinct [of u_id "users db" u] accounts_okD(1) [OF assms(1)] \<open>u \<in> set (users db)\<close>
    by (simp add: db1 db' fresh_ids_def)
  ultimately have a: "live_admin row db1 = Some u"
    using assms(3) by (simp add: live_admin_def row out user_out_of_def)
  have "admin_write en' w' st' ?br h db1 = h row u db1"
    using admin_write_cases [where w = w' and br = ?br and db = db1 and en = en' and st = st' and h = h] s c a by simp
  then show ?thesis unfolding out by (intro exI [of _ row] exI [of _ u]) simp
qed

text \<open>An account that an administrator creates can be used. A user created active signs in with
  the chosen password and any spelling of the address that differs in case and surrounding space,
  unless an active user of that address exists in another organization or the drawn session token is
  taken.\<close>

theorem created_user_can_sign_in:
  assumes "accounts_ok db" and "create_user en w st admin p db = (Inr out, db1)" and "uc_is_active p"
    and "lower (strip email) = uo_email out"
    and "fetch (\<lambda>u. u_email u = uo_email out \<and> u_is_active u) (users db) = None"
    and "CHR ''$'' \<notin> set (password_salt en)" and "kdf en' = kdf en"
    and "lookup_secret_hash w' (new_session_token en') \<notin> set (List.map se_session_token_hash (sessions db))"
  shows "\<exists>db2. login en' w' st' env email (uc_password p) db1 =
    (Inr \<lparr>sr_user = out, sr_csrf_token = new_csrf_token en', sr_cookie = Some (new_session_token en')\<rparr>, db2)"
proof -
  obtain m where m: "normalize_email (uc_email p) = Inr m"
    using assms(2) by (cases "normalize_email (uc_email p)") (simp_all add: create_user_def Let_def)
  let ?u = "new_user en (u_organization_id admin) m (uc_display_name p) (uc_password p) (uc_is_admin p) (uc_is_active p) db"
  have out: "out = user_out_of ?u" and tables: "users db1 = users db @ [?u]" "sessions db1 = sessions db"
    using assms(2) m by (auto simp: create_user_def Let_def admin_audit_def add_user_def split: option.splits)
  have "fetch (\<lambda>u. u_email u = lower (strip email) \<and> u_is_active u) (users db1) = Some ?u"
    using assms(3-5) by (simp add: tables out user_out_of_def)
  moreover have "verify_secret en' (uc_password p) (u_password_hash ?u)"
    using assms(6,7) by (simp add: verify_secret_def split_salt_hash)
  moreover have "\<not> (\<exists>s \<in> set (sessions db). se_session_token_hash s = lookup_secret_hash w' (new_session_token en'))"
    using assms(8) by (metis image_eqI list.set_map)
  then have "\<exists>db'. issue_session en' w' env ?u db1 = Inr db'"
    by (simp add: issue_session_def Let_def tables list_ex_iff)
  ultimately show ?thesis by (auto simp: login_def Let_def out)
qed

section \<open>Closed examples\<close>

definition sample_entropy :: entropy where
  "sample_entropy = \<lparr>kdf = (\<lambda>p s. p @ s), new_session_token = ''t'', new_csrf_token = ''c'', csrf_salt = ''0a'',
     password_salt = ''0b''\<rparr>"

definition sample_accounts :: db where
  "sample_accounts = snd (create_first_admin sample_entropy sample_world default_settings default_settings
     \<lparr>fa_email = ''a@b'', fa_display_name = ''A'', fa_password = ''password''\<rparr> empty_db)"

lemma sample_setup:
  "create_first_admin sample_entropy sample_world default_settings default_settings
     \<lparr>fa_email = ''a@b'', fa_display_name = ''A'', fa_password = ''password''\<rparr> empty_db =
   (Inr \<lparr>sr_user = \<lparr>uo_id = str_nat 1, uo_organization_id = str_nat 0, uo_email = ''a@b'', uo_display_name = ''A'',
      uo_is_admin = True, uo_is_active = True\<rparr>, sr_csrf_token = ''c'', sr_cookie = Some ''t''\<rparr>, sample_accounts)"
proof -
  have "normalize_email ''a@b'' = Inr ''a@b''" "strip ''A'' = ''A''" by code_simp+
  then show ?thesis
    unfolding sample_accounts_def
    by (simp add: create_first_admin_def default_organization_def empty_db_def admin_exists_def Let_def add_user_def
        issue_session_def new_user_def user_out_of_def new_id_def sample_entropy_def)
qed

lemma sample_accounts_tables:
  "users sample_accounts = [\<lparr>u_id = str_nat 1, u_organization_id = str_nat 0, u_email = ''a@b'', u_display_name = ''A'',
     u_password_hash = Some ''0b$password0b'', u_is_admin = True, u_is_active = True\<rparr>]"
  "sessions sample_accounts = [\<lparr>se_id = str_nat 2, se_user_id = str_nat 1, se_session_token_hash = ''t'',
     se_csrf_token_hash = ''0a$c0a'', se_expires_at = session_expiry sample_world (session_ttl_hours default_settings),
     se_revoked_at = None\<rparr>]"
  "accounts_ok sample_accounts"
proof -
  have v: "normalize_email ''a@b'' = Inr ''a@b''" "strip ''A'' = ''A''" by code_simp+
  note unfold = sample_accounts_def create_first_admin_def default_organization_def empty_db_def admin_exists_def Let_def
    add_user_def issue_session_def new_user_def new_id_def sample_entropy_def hash_secret_def lookup_secret_hash_def
    sample_world_def
  show "users sample_accounts = [\<lparr>u_id = str_nat 1, u_organization_id = str_nat 0, u_email = ''a@b'', u_display_name = ''A'',
     u_password_hash = Some ''0b$password0b'', u_is_admin = True, u_is_active = True\<rparr>]"
    "sessions sample_accounts = [\<lparr>se_id = str_nat 2, se_user_id = str_nat 1, se_session_token_hash = ''t'',
     se_csrf_token_hash = ''0a$c0a'', se_expires_at = session_expiry sample_world (session_ttl_hours default_settings),
     se_revoked_at = None\<rparr>]"
    using v by (simp_all add: unfold numeral_2_eq_2)
  have "accounts_ok empty_db" by (simp add: accounts_ok_def empty_db_def)
  then show "accounts_ok sample_accounts"
    using create_first_admin_kept [of empty_db] unfolding sample_accounts_def accounts_kept_def by blast
qed

definition sample_browser :: browser where
  "sample_browser = \<lparr>session_cookie = Some ''t'', csrf_header = Some ''c''\<rparr>"

lemma sample_logout: "fst (logout sample_entropy sample_world default_settings sample_browser sample_accounts) = Inr ()"
proof -
  have e: "session_expiry sample_world (session_ttl_hours default_settings) > 0" by code_simp
  have v: "verify_secret sample_entropy ''c'' (Some ''0a$c0a'')" by code_simp
  show ?thesis
    using e v
    by (simp add: logout_def csrf_write_def guarded_def get_current_session_def require_csrf_def sample_browser_def
        opt_str_def sample_accounts_tables(2) sample_world_def lookup_secret_hash_def Let_def)
qed

definition sample_second :: user_create_in where
  "sample_second = \<lparr>uc_email = ''c@d'', uc_display_name = ''C'', uc_password = ''password'', uc_is_admin = False,
     uc_is_active = True\<rparr>"

definition sample_user :: user where
  "sample_user = \<lparr>u_id = str_nat 1, u_organization_id = str_nat 0, u_email = ''a@b'', u_display_name = ''A'',
     u_password_hash = Some ''0b$password0b'', u_is_admin = True, u_is_active = True\<rparr>"

lemma sample_create:
  "\<exists>db1. create_user sample_entropy sample_world default_settings sample_user sample_second sample_accounts =
    (Inr \<lparr>uo_id = new_id sample_accounts, uo_organization_id = str_nat 0, uo_email = ''c@d'', uo_display_name = ''C'',
      uo_is_admin = False, uo_is_active = True\<rparr>, db1)"
proof -
  have v: "normalize_email ''c@d'' = Inr ''c@d''" "strip ''C'' = ''C''" by code_simp+
  then show ?thesis
    by (simp add: create_user_def sample_second_def Let_def ensure_user_email_available_def sample_accounts_tables(1)
        new_user_def user_out_of_def sample_user_def)
qed

text \<open>Two administrators of one organization, the second with a session\<close>

definition sample_session :: session_row where
  "sample_session = \<lparr>se_id = str_nat 3, se_user_id = str_nat 2, se_session_token_hash = ''x'', se_csrf_token_hash = ''y'',
       se_expires_at = 9, se_revoked_at = None\<rparr>"

definition sample_pair :: db where
  "sample_pair = empty_db\<lparr>users := [sample_user, sample_user\<lparr>u_id := str_nat 2, u_email := ''c@d''\<rparr>],
     sessions := [sample_session], next_id := 4\<rparr>"

lemma sample_pair_ok: "accounts_ok sample_pair"
  by (simp add: accounts_ok_def fresh_ids_def sample_pair_def sample_user_def sample_session_def)

lemma sample_deactivation:
  "fst (update_user sample_world default_settings sample_user (str_nat 2)
     \<lparr>uu_email = None, uu_display_name = None, uu_is_admin = None, uu_is_active = Some False\<rparr> sample_pair) =
   Inr \<lparr>uo_id = str_nat 2, uo_organization_id = str_nat 0, uo_email = ''c@d'', uo_display_name = ''A'', uo_is_admin = True,
     uo_is_active = False\<rparr>"
  by (simp add: update_user_def Let_def get_org_user_def sample_pair_def sample_user_def apply_user_update_def
      ensure_user_update_allowed_def active_admins_def user_out_of_def revoke_user_sessions_def)

section \<open>Witnesses\<close>

theorem setup_happens_once_witness:
  "\<exists>org. fetch (\<lambda>x. o_slug x = default_org_slug default_settings) (organizations sample_accounts) = Some org \<and>
     active_admins (o_id org) sample_accounts \<noteq> []"
  using setup_happens_once [OF _ sample_setup rtranclp.rtrancl_refl, THEN conjunct2]
  by (simp add: accounts_ok_def empty_db_def)

theorem signed_out_stays_signed_out_witness:
  "\<exists>db1. logout sample_entropy sample_world default_settings sample_browser sample_accounts = (Inr (), db1) \<and>
     fst (get_current_session sample_world default_settings sample_browser db1) =
       Inl (HTTPException 401 ''Expired session'')"
proof (intro exI conjI)
  let ?db = "snd (logout sample_entropy sample_world default_settings sample_browser sample_accounts)"
  show out: "logout sample_entropy sample_world default_settings sample_browser sample_accounts = (Inr (), ?db)"
    using sample_logout by (metis prod.collapse)
  show "fst (get_current_session sample_world default_settings sample_browser ?db) = Inl (HTTPException 401 ''Expired session'')"
    by (rule signed_out_stays_signed_out [OF sample_accounts_tables(3) out rtranclp.rtrancl_refl refl])
qed

theorem deactivation_ends_sessions_witness:
  "\<exists>out db1. update_user sample_world default_settings sample_user (str_nat 2)
     \<lparr>uu_email = None, uu_display_name = None, uu_is_admin = None, uu_is_active = Some False\<rparr> sample_pair = (Inr out, db1) \<and>
   fst (get_current_session sample_world default_settings \<lparr>session_cookie = Some ''x'', csrf_header = None\<rparr> db1) =
     Inl (HTTPException 401 ''Expired session'')"
proof -
  let ?r = "update_user sample_world default_settings sample_user (str_nat 2)
     \<lparr>uu_email = None, uu_display_name = None, uu_is_admin = None, uu_is_active = Some False\<rparr> sample_pair"
  obtain out where out: "fst ?r = Inr out" "\<not> uo_is_active out" using sample_deactivation by simp
  then have r: "?r = (Inr out, snd ?r)" by (metis prod.collapse)
  have "fst (get_current_session sample_world default_settings \<lparr>session_cookie = Some ''x'', csrf_header = None\<rparr> (snd ?r)) =
    Inl (HTTPException 401 ''Expired session'')"
    by (rule deactivation_ends_sessions [where s = sample_session, OF sample_pair_ok _ r out(2) _ _ rtranclp.rtrancl_refl])
      (simp_all add: sample_session_def sample_pair_def sample_user_def active_admins_def lookup_secret_hash_def sample_world_def)
  then show ?thesis using r by metis
qed

lemma sample_login:
  "\<exists>db1. login sample_entropy (sample_world\<lparr>sha256 := \<lambda>s. s @ ''2''\<rparr>) default_settings default_settings ''a@b'' ''password''
     sample_accounts = (Inr \<lparr>sr_user = user_out_of sample_user, sr_csrf_token = ''c'', sr_cookie = Some ''t''\<rparr>, db1)"
proof -
  have "lower (strip ''a@b'') = ''a@b''" "verify_secret sample_entropy ''password'' (Some ''0b$password0b'')" by code_simp+
  then show ?thesis
    by (simp add: login_def sample_accounts_tables Let_def issue_session_def lookup_secret_hash_def user_out_of_def
        sample_user_def sample_entropy_def)
qed

theorem sign_in_opens_admin_session_witness:
  "\<exists>out db1 s u. login sample_entropy (sample_world\<lparr>sha256 := \<lambda>s. s @ ''2''\<rparr>) default_settings default_settings ''a@b'' ''password''
     sample_accounts = (Inr out, db1) \<and>
   user_out_of u = sr_user out \<and>
   admin_write sample_entropy (sample_world\<lparr>sha256 := \<lambda>s. s @ ''2''\<rparr>) default_settings
     \<lparr>session_cookie = sr_cookie out, csrf_header = Some (sr_csrf_token out)\<rparr> (\<lambda>_ u db. (Inr (u_id u), db)) db1 =
     (Inr (u_id u), db1)"
proof -
  obtain db1 where l: "login sample_entropy (sample_world\<lparr>sha256 := \<lambda>s. s @ ''2''\<rparr>) default_settings default_settings
    ''a@b'' ''password'' sample_accounts = (Inr \<lparr>sr_user = user_out_of sample_user, sr_csrf_token = ''c'',
      sr_cookie = Some ''t''\<rparr>, db1)"
    using sample_login by blast
  have h: "hours (session_ttl_hours default_settings) > 0" by code_simp
  show ?thesis
    using l sign_in_opens_admin_session [OF sample_accounts_tables(3) l, of "sample_world\<lparr>sha256 := \<lambda>s. s @ ''2''\<rparr>"
      sample_entropy default_settings "\<lambda>_ u db. (Inr (u_id u), db)"] h
    by (fastforce simp: user_out_of_def sample_user_def sample_entropy_def sample_world_def)
qed

theorem created_user_can_sign_in_witness:
  "\<exists>out db1 db2. create_user sample_entropy sample_world default_settings sample_user sample_second sample_accounts = (Inr out, db1) \<and>
   login (sample_entropy\<lparr>new_session_token := ''u''\<rparr>) sample_world default_settings default_settings '' C@D'' ''password'' db1 =
     (Inr \<lparr>sr_user = out, sr_csrf_token = ''c'', sr_cookie = Some ''u''\<rparr>, db2)"
proof -
  obtain out db1 where c: "create_user sample_entropy sample_world default_settings sample_user sample_second sample_accounts = (Inr out, db1)"
    and e: "uo_email out = ''c@d''" using sample_create by auto
  have "lower (strip '' C@D'') = ''c@d''" by code_simp
  then show ?thesis
    using c created_user_can_sign_in [OF sample_accounts_tables(3) c, of "'' C@D''" "sample_entropy\<lparr>new_session_token := ''u''\<rparr>"
      sample_world default_settings default_settings] e
    by (auto simp: sample_second_def sample_accounts_tables sample_entropy_def lookup_secret_hash_def sample_world_def)
qed

section \<open>One address in two organizations\<close>

text \<open>Addresses are unique within an organization, but a sign-in looks for the address in all of them and
  tries the password against the first user found: the other one cannot sign in.\<close>

lemma login_ignores_organization:
  "fst (login sample_entropy sample_world default_settings default_settings ''a@b'' ''correct''
     (empty_db\<lparr>users := [sample_user,
        sample_user\<lparr>u_id := str_nat 2, u_organization_id := ''other'', u_password_hash := Some ''0b$correct0b''\<rparr>]\<rparr>)) =
   Inl (HTTPException 401 ''Invalid credentials'')"
proof -
  have "lower (strip ''a@b'') = ''a@b''" "\<not> verify_secret sample_entropy ''correct'' (Some ''0b$password0b'')" by code_simp+
  then show ?thesis by (simp add: login_def Let_def sample_user_def)
qed

end
