(* ===== verification/Client_Ip.thy ===== *)
theory Client_Ip
  imports Config Ip_Address
begin

text \<open>
  Which address a request comes from and which addresses a route accepts:
  \<open>services/client_ip_allowlist.py\<close>, \<open>core/proxy_trust.py\<close> and the client resolution of
  \<open>routers/webhook_routes.py\<close>. The lists are kept in a canonical text form; the locale
  \<open>canonical_form\<close> states what the loops that build such a form rely on, and the two
  loops are instances of it.
\<close>

section \<open>Canonical lists\<close>

text \<open>The loop the normalisers share: skip empty words, canonicalise, keep the first of equal ones.\<close>

fun collect :: "(string \<Rightarrow> string option) \<Rightarrow> string list \<Rightarrow> string list \<Rightarrow> string list option" where
  "collect canon acc [] = Some acc"
| "collect canon acc (c # cs) =
     (if c = [] then collect canon acc cs
      else (case canon c of
        None \<Rightarrow> None
      | Some n \<Rightarrow> collect canon (if n \<in> set acc then acc else acc @ [n]) cs))"

lemma collect_None: "collect canon acc cs = None \<longleftrightarrow> (\<exists>c \<in> set cs. c \<noteq> [] \<and> canon c = None)"
  by (induction canon acc cs rule: collect.induct) (auto split: option.splits)

lemma set_collect:
  "collect canon acc cs = Some ns \<Longrightarrow> set ns = set acc \<union> {n. \<exists>c \<in> set cs. c \<noteq> [] \<and> canon c = Some n}"
  by (induction canon acc cs rule: collect.induct) (auto split: option.splits if_splits)

lemma distinct_collect: "collect canon acc cs = Some ns \<Longrightarrow> distinct acc \<Longrightarrow> distinct ns"
  by (induction canon acc cs rule: collect.induct) (auto split: option.splits if_splits)

lemma collect_fixed:
  "distinct (acc @ ns) \<Longrightarrow> \<forall>n \<in> set ns. n \<noteq> [] \<and> canon n = Some n \<Longrightarrow> collect canon acc ns = Some (acc @ ns)"
  by (induction ns arbitrary: acc) auto

text \<open>What a canonical form promises: it is read back unchanged, it is not empty and brings in no separator.\<close>

locale canonical_form =
  fixes canon :: "string \<Rightarrow> string option" and sep :: "char \<Rightarrow> bool"
  assumes canon_fixed: "canon c = Some n \<Longrightarrow> canon n = Some n"
    and canon_nonempty: "canon c = Some n \<Longrightarrow> n \<noteq> []"
    and canon_chars: "canon c = Some n \<Longrightarrow> x \<in> set n \<Longrightarrow> sep x \<Longrightarrow> x \<in> set c"
begin

lemma collect_entries:
  assumes "collect canon [] cs = Some ns" and "\<forall>c \<in> set cs. \<forall>x \<in> set c. \<not> sep x"
  shows "\<forall>n \<in> set ns. n \<noteq> [] \<and> canon n = Some n \<and> (\<forall>x \<in> set n. \<not> sep x)"
  using set_collect [OF assms(1)] assms(2) canon_fixed canon_nonempty canon_chars by fastforce

lemma collected: "collect canon [] cs = Some ns \<Longrightarrow> \<forall>n \<in> set ns. n \<noteq> [] \<and> canon n = Some n"
  using set_collect [of canon "[]" cs ns] canon_fixed canon_nonempty by fastforce

lemma collect_idem: "collect canon [] cs = Some ns \<Longrightarrow> collect canon [] ns = Some ns"
  using collected distinct_collect [of canon "[]" cs ns] collect_fixed [of "[]" ns canon] by simp

end

section \<open>The allowlist of a route\<close>

definition CLIENT_IP_ACCESS_MODES :: "string list" where
  "CLIENT_IP_ACCESS_MODES = [''public'', ''restricted'']"

definition normalize_client_ip_access_mode :: "string \<Rightarrow> exn + string" where
  "normalize_client_ip_access_mode value =
     (let mode = lower (strip (or_str value ''public'')) in
      if mode \<notin> set CLIENT_IP_ACCESS_MODES
      then Inl (ValueError ''Client IP access mode must be public or restricted'')
      else Inr mode)"

definition list_sep :: "char \<Rightarrow> bool" where
  "list_sep c \<longleftrightarrow> py_space c \<or> c = CHR '',''"

text \<open>\<open>re.split(r"[\s,]+", s)\<close>\<close>

function split_seps :: "string \<Rightarrow> string list" where
  "split_seps s =
     (let w = takeWhile (\<lambda>c. \<not> list_sep c) s; r = dropWhile (\<lambda>c. \<not> list_sep c) s in
      if r = [] then [w] else w # split_seps (dropWhile list_sep r))"
  by pat_completeness auto
termination
proof (relation "measure length", goal_cases)
  case (2 s w r)
  then have r: "r \<noteq> []" by simp
  then have "list_sep (hd r)" using 2(2) hd_dropWhile [of "\<lambda>c. \<not> list_sep c" s] by simp
  with r have "length (dropWhile list_sep r) < length r"
    by (cases r) (auto intro: le_imp_less_Suc length_dropWhile_le)
  also have "length r \<le> length s" using 2 by (simp add: length_dropWhile_le)
  finally show ?case by simp
qed simp

declare split_seps.simps [simp del]

definition entry_canon :: "string \<Rightarrow> string option" where
  "entry_canon candidate =
     (if CHR ''/'' \<in> set candidate then map_option str_net (ip_network candidate)
      else map_option str_addr (ip_address candidate))"

definition normalize_client_ip_allowlist :: "string \<Rightarrow> exn + string" where
  "normalize_client_ip_allowlist value =
     (case collect entry_canon [] (split_seps (strip value)) of
        None \<Rightarrow> Inl (ValueError ''Client IP allowlist must contain only IP addresses or CIDR ranges'')
      | Some entries \<Rightarrow> Inr (join [CHR 0x0A] entries))"

text \<open>\<open>s.splitlines()\<close>\<close>

definition line_break :: "char \<Rightarrow> bool" where
  "line_break c \<longleftrightarrow>
     c \<in> {CHR 0x0A, CHR 0x0B, CHR 0x0C, CHR 0x0D, CHR 0x1C, CHR 0x1D, CHR 0x1E, CHR 0x85}"

fun splitlines_from :: "string \<Rightarrow> string \<Rightarrow> string list" where
  "splitlines_from cur [] = (if cur = [] then [] else [rev cur])"
| "splitlines_from cur (c # cs) =
     (if line_break c
      then rev cur # (if c = CHR 0x0D \<and> cs \<noteq> [] \<and> hd cs = CHR 0x0A
                      then splitlines_from [] (tl cs) else splitlines_from [] cs)
      else splitlines_from (c # cur) cs)"

definition splitlines :: "string \<Rightarrow> string list" where
  "splitlines s = splitlines_from [] s"

text \<open>\<open>ip_network\<close> on every line; its \<open>ValueError\<close> names the line.\<close>

fun parse_networks :: "string list \<Rightarrow> exn + ip_net list" where
  "parse_networks [] = Inr []"
| "parse_networks (entry # entries) =
     (case ip_network entry of
        None \<Rightarrow> Inl (ValueError (CHR 0x27 # entry @ CHR 0x27 # '' does not appear to be an IPv4 or IPv6 network''))
      | Some n \<Rightarrow> (case parse_networks entries of Inl e \<Rightarrow> Inl e | Inr ns \<Rightarrow> Inr (n # ns)))"

definition client_ip_allowlist_networks :: "string \<Rightarrow> exn + ip_net list" where
  "client_ip_allowlist_networks value =
     (case normalize_client_ip_allowlist value of
        Inl e \<Rightarrow> Inl e
      | Inr normalized \<Rightarrow> parse_networks (splitlines normalized))"

definition client_ip_allowed :: "string \<Rightarrow> string \<Rightarrow> exn + bool" where
  "client_ip_allowed client_host allowlist =
     (if strip client_host = [] then Inr False
      else (case ip_address (strip client_host) of
        None \<Rightarrow> Inr False
      | Some client_ip \<Rightarrow>
          (case client_ip_allowlist_networks allowlist of
             Inl e \<Rightarrow> Inl e
           | Inr networks \<Rightarrow> Inr (list_ex (ip_in client_ip) networks))))"

section \<open>The trusted proxies\<close>

definition network_canon :: "string \<Rightarrow> string option" where
  "network_canon candidate = map_option str_net (ip_network candidate)"

definition normalize_proxy_ip_list :: "string \<Rightarrow> exn + string" where
  "normalize_proxy_ip_list value =
     (if value = [] then Inr []
      else (case collect network_canon [] (List.map strip (split_on (CHR '','') value)) of
        None \<Rightarrow> Inl (ValueError ''does not appear to be an IPv4 or IPv6 network'')
      | Some networks \<Rightarrow> Inr (join '','' networks)))"

definition combined_trusted_proxy_ips :: "string \<Rightarrow> string \<Rightarrow> exn + string" where
  "combined_trusted_proxy_ips compose_subnet trusted =
     normalize_proxy_ip_list
       (join '','' (List.filter (\<lambda>part. strip part \<noteq> []) [compose_subnet, trusted]))"

section \<open>The client of a request\<close>

text \<open>
  What the handlers read of a request: the peer address, the method, the path, the headers
  (by lower-case name, the first of equal ones) and the chunks of the body.
\<close>

record request =
  rq_client_host :: "string option"
  rq_method :: string
  rq_path :: string
  rq_headers :: "(string \<times> string) list"
  rq_stream :: "string list"

definition header :: "request \<Rightarrow> string \<Rightarrow> string \<Rightarrow> string" where
  "header rq name fallback = (case map_of (rq_headers rq) name of None \<Rightarrow> fallback | Some v \<Rightarrow> v)"

fun trusted_from :: "string list \<Rightarrow> ip_net list option" where
  "trusted_from [] = Some []"
| "trusted_from (c # cs) =
     (if c = [] then trusted_from cs
      else (case ip_network c of
        None \<Rightarrow> None
      | Some n \<Rightarrow> map_option (\<lambda>ns. n # ns) (trusted_from cs)))"

text \<open>One bad entry makes the whole list empty.\<close>

definition trusted_proxy_networks :: "string \<Rightarrow> ip_net list" where
  "trusted_proxy_networks value =
     (case trusted_from (List.map strip (split_on (CHR '','') value)) of None \<Rightarrow> [] | Some ns \<Rightarrow> ns)"

fun chain_from :: "string list \<Rightarrow> ip_addr list option" where
  "chain_from [] = Some []"
| "chain_from (c # cs) =
     (if c = [] then None
      else (case ip_address c of
        None \<Rightarrow> None
      | Some a \<Rightarrow> map_option (\<lambda>hosts. a # hosts) (chain_from cs)))"

definition forwarded_host_chain :: "string \<Rightarrow> ip_addr list" where
  "forwarded_host_chain value =
     (case chain_from (List.map strip (split_on (CHR '','') value)) of None \<Rightarrow> [] | Some hosts \<Rightarrow> hosts)"

definition ip_in_networks :: "ip_addr \<Rightarrow> ip_net list \<Rightarrow> bool" where
  "ip_in_networks host networks \<longleftrightarrow> list_ex (ip_in host) networks"

definition host_in_networks :: "string \<Rightarrow> ip_net list \<Rightarrow> bool" where
  "host_in_networks host networks \<longleftrightarrow>
     host \<noteq> [] \<and> networks \<noteq> [] \<and>
     (case ip_address host of None \<Rightarrow> False | Some a \<Rightarrow> ip_in_networks a networks)"

text \<open>The last hop that is not a trusted proxy, else the first hop.\<close>

definition pick_forwarded :: "ip_net list \<Rightarrow> ip_addr list \<Rightarrow> ip_addr" where
  "pick_forwarded networks hosts =
     (case List.find (\<lambda>a. \<not> ip_in_networks a networks) (rev hosts) of
        Some a \<Rightarrow> a
      | None \<Rightarrow> hd hosts)"

text \<open>Returns client host, peer, the header and the source of the answer.\<close>

definition resolve_client_host ::
  "settings \<Rightarrow> request \<Rightarrow> exn + (string \<times> string \<times> string \<times> string)" where
  "resolve_client_host st rq =
     (let direct = (case rq_client_host rq of None \<Rightarrow> [] | Some h \<Rightarrow> h);
          xff = header rq ''x-forwarded-for'' []
      in case combined_trusted_proxy_ips (compose_app_subnet st) (trusted_proxy_ips st) of
           Inl e \<Rightarrow> Inl e
         | Inr trusted \<Rightarrow>
             (let networks = trusted_proxy_networks trusted in
              if \<not> trust_x_forwarded_for st \<or> strip xff = [] \<or> \<not> host_in_networks direct networks
              then Inr (direct, direct, xff, ''direct'')
              else (let hosts = forwarded_host_chain xff in
                if hosts = [] then Inr (direct, direct, xff, ''direct'')
                else Inr (str_addr (pick_forwarded networks hosts), direct, xff, ''x_forwarded_for''))))"

section \<open>Lemmas\<close>

lemma py_space_list_sep [simp]: "py_space c \<Longrightarrow> list_sep c"
  by (simp add: list_sep_def)

lemma addr_char_not_list_sep: "addr_char c \<Longrightarrow> \<not> list_sep c"
  using addr_char_no_sep by (auto simp: list_sep_def)

lemma str_addr_no_slash: "addr_ok a \<Longrightarrow> CHR ''/'' \<notin> set (str_addr a)"
  by (cases a) (simp_all add: print_v6_no_sep)

lemma str_net_slash: "CHR ''/'' \<in> set (str_net n)"
  by (cases n) simp_all

lemma print_v4_nonempty [simp]: "print_v4 n \<noteq> []"
  by (simp add: print_v4_def)

lemma str_addr_nonempty: "ip_address s = Some a \<Longrightarrow> str_addr a \<noteq> []"
proof
  assume a: "ip_address s = Some a" "str_addr a = []"
  then have "ip_address [] = Some a" using ip_address_str_addr ip_address_ok by metis
  then show False
    by (simp add: ip_address_def parse_v4_def parse_v6_def parse_v6_int_def parse_v6_parts_def)
qed

lemma str_net_nonempty: "str_net n \<noteq> []"
  by (cases n) simp_all

text \<open>The allowlist entries and the proxy networks are canonical forms.\<close>

interpretation client_entries: canonical_form entry_canon list_sep
proof
  fix c n x
  assume e: "entry_canon c = Some n"
  show "entry_canon n = Some n"
  proof (cases "CHR ''/'' \<in> set c")
    case True
    then obtain k where "ip_network c = Some k" "n = str_net k" using e by (auto simp: entry_canon_def)
    then show ?thesis
      using ip_network_str_net [OF ip_network_ok] str_net_slash [of k] by (simp add: entry_canon_def)
  next
    case False
    then obtain a where "ip_address c = Some a" "n = str_addr a" using e by (auto simp: entry_canon_def)
    then show ?thesis
      using ip_address_str_addr [OF ip_address_ok] str_addr_no_slash [OF ip_address_ok] by (simp add: entry_canon_def)
  qed
  show "n \<noteq> []"
    using e str_addr_nonempty str_net_nonempty by (auto simp: entry_canon_def split: if_splits)
  show "x \<in> set n \<Longrightarrow> list_sep x \<Longrightarrow> x \<in> set c"
    using e str_addr_chars [of c _ x] str_net_chars [of c _ x] addr_char_not_list_sep [of x]
    by (auto simp: entry_canon_def split: if_splits)
qed

interpretation proxy_entries: canonical_form network_canon "\<lambda>c. c = CHR '',''"
proof
  fix c n x
  assume e: "network_canon c = Some n"
  then obtain k where k: "ip_network c = Some k" "n = str_net k" by (auto simp: network_canon_def)
  then show "network_canon n = Some n" "n \<noteq> []"
    using ip_network_str_net [OF ip_network_ok] str_net_nonempty by (simp_all add: network_canon_def)
  show "x \<in> set n \<Longrightarrow> x = CHR '','' \<Longrightarrow> x \<in> set c"
    using k str_net_chars [of c _ x] addr_char_no_sep [of x] by auto
qed

lemma split_seps_words: "w \<in> set (split_seps s) \<Longrightarrow> x \<in> set w \<Longrightarrow> \<not> list_sep x"
proof (induction s rule: split_seps.induct)
  case (1 s)
  then show ?case
    by (subst (asm) (2) split_seps.simps) (auto simp: Let_def split: if_splits dest: set_takeWhileD)
qed

lemma split_seps_word: "\<forall>x \<in> set w. \<not> list_sep x \<Longrightarrow> split_seps w = [w]"
  by (subst split_seps.simps) (simp add: takeWhile_eq_all_conv [THEN iffD2] dropWhile_eq_Nil_conv [THEN iffD2])

lemma takeWhile_upto: "\<forall>x \<in> set w. P x \<Longrightarrow> \<not> P d \<Longrightarrow> takeWhile P (w @ d # t) = w"
  by (induction w) auto

lemma dropWhile_upto: "\<forall>x \<in> set w. P x \<Longrightarrow> \<not> P d \<Longrightarrow> dropWhile P (w @ d # t) = d # t"
  by (induction w) auto

lemma split_seps_cons:
  assumes "\<forall>x \<in> set w. \<not> list_sep x" and "list_sep d" and "t \<noteq> []" and "\<not> list_sep (hd t)"
  shows "split_seps (w @ d # t) = w # split_seps t"
proof -
  have "dropWhile list_sep (d # t) = t" using assms by (cases t) auto
  then show ?thesis
    using assms by (subst split_seps.simps) (simp add: takeWhile_upto dropWhile_upto Let_def)
qed

definition sep_free :: "string \<Rightarrow> bool" where
  "sep_free w \<longleftrightarrow> w \<noteq> [] \<and> (\<forall>x \<in> set w. \<not> list_sep x)"

lemma hd_join: "w \<noteq> [] \<Longrightarrow> hd (join s (w # ws)) = hd w"
  by (cases ws) auto

lemma split_seps_join:
  "\<forall>w \<in> set ws. sep_free w \<Longrightarrow> list_sep d \<Longrightarrow> ws \<noteq> [] \<Longrightarrow> split_seps (join [d] ws) = ws"
proof (induction "[d]" ws rule: join.induct)
  case (3 x y xs)
  have "sep_free y" using 3 by simp
  then have "\<not> list_sep (hd (join [d] (y # xs)))" by (simp add: hd_join sep_free_def)
  moreover have "join [d] (y # xs) \<noteq> []"
    using join_nonempty_member [of y] 3(2) by (simp add: sep_free_def)
  ultimately show ?case using 3 by (simp add: sep_free_def split_seps_cons del: join.simps(3)) (simp add: split_seps_cons)
qed (auto simp: sep_free_def split_seps_word)

lemma join_Cons_nonempty [simp]: "w \<noteq> [] \<Longrightarrow> join s (w # ws) \<noteq> []"
  by (cases ws) auto

lemma last_join: "\<forall>w \<in> set ws. w \<noteq> [] \<Longrightarrow> ws \<noteq> [] \<Longrightarrow> last (join s ws) = last (last ws)"
  by (induction s ws rule: join.induct) auto

lemma strip_join:
  assumes "\<forall>w \<in> set ws. w \<noteq> [] \<and> \<not> py_space (hd w) \<and> \<not> py_space (last w)"
  shows "strip (join s ws) = join s ws"
proof (cases ws)
  case (Cons w ws')
  then show ?thesis using assms by (intro strip_fixed) (simp_all add: hd_join last_join)
qed simp

lemma sep_free_ends: "sep_free w \<Longrightarrow> w \<noteq> [] \<and> \<not> py_space (hd w) \<and> \<not> py_space (last w)"
  by (auto simp: sep_free_def dest: py_space_list_sep)

lemma splitlines_from_word:
  "\<forall>x \<in> set w. \<not> line_break x \<Longrightarrow> splitlines_from cur (w @ t) = splitlines_from (rev w @ cur) t"
  by (induction w arbitrary: cur) auto

lemma line_break_space: "line_break c \<Longrightarrow> list_sep c"
  by (auto simp: line_break_def list_sep_def py_space_def)

lemma splitlines_join:
  "\<forall>w \<in> set ws. sep_free w \<Longrightarrow> splitlines (join [CHR 0x0A] ws) = ws"
proof (induction "[CHR 0x0A]" ws rule: join.induct)
  case (2 x)
  then have "\<forall>c \<in> set x. \<not> line_break c" "x \<noteq> []" using line_break_space by (auto simp: sep_free_def)
  then show ?case using splitlines_from_word [of x "[]" "[]"] by (simp add: splitlines_def)
next
  case (3 x y xs)
  then have "\<forall>c \<in> set x. \<not> line_break c" using line_break_space by (auto simp: sep_free_def)
  then show ?case using 3 by (simp add: splitlines_def splitlines_from_word line_break_def)
qed (simp add: splitlines_def)

text \<open>Every canonical entry is a network, the one the entry denotes.\<close>

lemma network_of_addr: "addr_ok a \<Longrightarrow>
  ip_network (str_addr a) = Some (case a of V4 n \<Rightarrow> Net4 n 32 | V6 n z \<Rightarrow> Net6 n z 128)"
  by (cases a) (simp_all add: ip_network_def split_on_no_sep print_v6_no_sep network_v4_def network_v6_def)

lemma network_of_word: "CHR ''/'' \<notin> set c \<Longrightarrow>
  ip_network c = map_option (\<lambda>a. case a of V4 n \<Rightarrow> Net4 n 32 | V6 n z \<Rightarrow> Net6 n z 128) (ip_address c)"
  by (auto simp: ip_network_def split_on_no_sep network_v4_def network_v6_def ip_address_def split: option.splits)

lemma entry_canon_network: "entry_canon c = Some n \<Longrightarrow> ip_network n = ip_network c \<and> ip_network c \<noteq> None"
proof (cases "CHR ''/'' \<in> set c")
  case True
  assume "entry_canon c = Some n"
  then obtain k where "ip_network c = Some k" "n = str_net k" using True by (auto simp: entry_canon_def)
  then show ?thesis using ip_network_str_net [OF ip_network_ok] by simp
next
  case False
  assume "entry_canon c = Some n"
  then obtain a where "ip_address c = Some a" "n = str_addr a" using False by (auto simp: entry_canon_def)
  then show ?thesis using network_of_addr [OF ip_address_ok] network_of_word [OF False] by simp
qed

text \<open>What a successful normalisation of an allowlist leaves.\<close>

lemma normalize_allowlist_entries:
  assumes "normalize_client_ip_allowlist value = Inr s"
  obtains ns where "collect entry_canon [] (split_seps (strip value)) = Some ns" "s = join [CHR 0x0A] ns"
    "\<forall>n \<in> set ns. sep_free n \<and> entry_canon n = Some n"
proof -
  obtain ns where ns: "collect entry_canon [] (split_seps (strip value)) = Some ns" "s = join [CHR 0x0A] ns"
    using assms by (auto simp: normalize_client_ip_allowlist_def split: option.splits)
  have "\<forall>n \<in> set ns. sep_free n \<and> entry_canon n = Some n"
    using client_entries.collect_entries [OF ns(1)] split_seps_words by (auto simp: sep_free_def)
  then show ?thesis using that ns by blast
qed

lemma split_seps_Nil [simp]: "split_seps [] = [[]]"
  by (simp add: split_seps.simps)

lemma split_strip_join:
  assumes "\<forall>n \<in> set ns. sep_free n" and "ns \<noteq> []"
  shows "split_seps (strip (join [CHR 0x0A] ns)) = ns"
  using assms strip_join [of ns] sep_free_ends by (simp add: split_seps_join list_sep_def py_space_def)

lemma parse_networks_map:
  "\<forall>n \<in> set ns. ip_network n \<noteq> None \<Longrightarrow> parse_networks ns = Inr (List.map (\<lambda>n. the (ip_network n)) ns)"
  by (induction ns) auto

text \<open>Once an allowlist is normalised, reading its networks cannot fail.\<close>

lemma allowlist_networks:
  assumes "normalize_client_ip_allowlist value = Inr s"
  obtains networks where "client_ip_allowlist_networks value = Inr networks"
    "set networks = {n. \<exists>c \<in> set (split_seps (strip value)). c \<noteq> [] \<and> ip_network c = Some n}"
proof -
  obtain ns where ns: "collect entry_canon [] (split_seps (strip value)) = Some ns" "s = join [CHR 0x0A] ns"
    "\<forall>n \<in> set ns. sep_free n \<and> entry_canon n = Some n"
    using normalize_allowlist_entries [OF assms] .
  let ?cs = "split_seps (strip value)"
  have lines: "splitlines s = ns" using ns by (simp add: splitlines_join)
  have nets: "\<forall>n \<in> set ns. ip_network n \<noteq> None" using ns(3) entry_canon_network by blast
  have mem: "set ns = {n. \<exists>c \<in> set ?cs. c \<noteq> [] \<and> entry_canon c = Some n}"
    using set_collect [OF ns(1)] by simp
  have total: "\<forall>c \<in> set ?cs. c \<noteq> [] \<longrightarrow> entry_canon c \<noteq> None"
    using collect_None [of entry_canon "[]" ?cs] ns(1) by auto
  let ?nets = "List.map (\<lambda>n. the (ip_network n)) ns"
  have "client_ip_allowlist_networks value = Inr ?nets"
    using assms lines parse_networks_map [OF nets] by (simp add: client_ip_allowlist_networks_def)
  moreover have "set ?nets = {n. \<exists>c \<in> set ?cs. c \<noteq> [] \<and> ip_network c = Some n}"
  proof (intro set_eqI iffI)
    fix k assume "k \<in> set ?nets"
    then obtain n c where "c \<in> set ?cs" "c \<noteq> []" "entry_canon c = Some n" "k = the (ip_network n)"
      using mem by auto
    then show "k \<in> {n. \<exists>c \<in> set ?cs. c \<noteq> [] \<and> ip_network c = Some n}"
      using entry_canon_network [of c n] by auto
  next
    fix k assume "k \<in> {n. \<exists>c \<in> set ?cs. c \<noteq> [] \<and> ip_network c = Some n}"
    then obtain c where c: "c \<in> set ?cs" "c \<noteq> []" "ip_network c = Some k" by auto
    then obtain n where n: "entry_canon c = Some n" using total by auto
    then have "n \<in> set ns" "the (ip_network n) = k" using mem c entry_canon_network [OF n] by auto
    then show "k \<in> set ?nets" by auto
  qed
  ultimately show ?thesis using that by blast
qed

lemma allowlist_networks_error:
  "client_ip_allowlist_networks value = Inl e \<longleftrightarrow> normalize_client_ip_allowlist value = Inl e"
proof (cases "normalize_client_ip_allowlist value")
  case (Inr s)
  obtain networks where "client_ip_allowlist_networks value = Inr networks"
    using allowlist_networks [OF Inr] .
  then show ?thesis using Inr by simp
qed (simp add: client_ip_allowlist_networks_def)

lemma normalize_entry:
  "sep_free n \<Longrightarrow> entry_canon n = Some n \<Longrightarrow> normalize_client_ip_allowlist n = Inr n"
  using strip_join [of "[n]" "[]"] sep_free_ends [of n] split_seps_word [of n]
  by (simp add: normalize_client_ip_allowlist_def sep_free_def)

lemma str_net4_chars: "x \<in> set (str_net (Net4 n p)) \<Longrightarrow> addr_char x"
  using print_v4_addr_chars [of x n] str_nat_digits [of x p] digit_addr_char [of x]
  by (auto simp: addr_char_def)

lemma sep_free_str_net4: "sep_free (str_net (Net4 n p))"
  using str_net_nonempty str_net4_chars addr_char_not_list_sep unfolding sep_free_def by blast

lemma normalize_net4: "net_ok (Net4 n p) \<Longrightarrow> normalize_client_ip_allowlist (str_net (Net4 n p)) = Inr (str_net (Net4 n p))"
  using str_net_slash [of "Net4 n p"]
  by (intro normalize_entry sep_free_str_net4) (simp add: entry_canon_def ip_network_str_net del: str_net.simps)

text \<open>The chain of a header with hops put in front.\<close>

lemma map_strip_split_append:
  "split_on d (s @ d # t) = split_on d s @ split_on d t"
proof (induction s)
  case (Cons c s)
  then show ?case by (cases "split_on d s") auto
qed simp

lemma chain_from_append:
  "chain_from (xs @ ys) = (case (chain_from xs, chain_from ys) of (Some as, Some bs) \<Rightarrow> Some (as @ bs) | _ \<Rightarrow> None)"
  by (induction xs rule: chain_from.induct) (auto split: option.splits)

lemma chain_nonempty: "chain_from xs = Some as \<Longrightarrow> xs \<noteq> [] \<Longrightarrow> as \<noteq> []"
  by (cases xs) (auto split: option.splits if_splits)

lemma forwarded_chain_append:
  assumes "forwarded_host_chain s \<noteq> []" and "forwarded_host_chain t \<noteq> []"
  shows "forwarded_host_chain (s @ CHR '','' # t) = forwarded_host_chain s @ forwarded_host_chain t"
  using assms by (auto simp: forwarded_host_chain_def map_strip_split_append chain_from_append split: option.splits)

lemma strip_empty_space: "strip s = [] \<Longrightarrow> c \<in> set s \<Longrightarrow> py_space c"
proof -
  assume "strip s = []" and c: "c \<in> set s"
  then have "\<forall>x \<in> set (dropWhile py_space s). py_space x"
    by (simp add: strip_def rstrip_def lstrip_def dropWhile_eq_Nil_conv)
  moreover have "c \<in> set (takeWhile py_space s) \<or> c \<in> set (dropWhile py_space s)"
    using c by (metis Un_iff set_append takeWhile_dropWhile_id)
  ultimately show ?thesis using set_takeWhileD [of c py_space s] by blast
qed

lemma forwarded_chain_space: "strip s = [] \<Longrightarrow> forwarded_host_chain s = []"
proof -
  assume s: "strip s = []"
  then have "CHR '','' \<notin> set s" using strip_empty_space [of s "CHR '',''"] by (auto simp: py_space_def)
  then show ?thesis using s by (simp add: forwarded_host_chain_def split_on_no_sep)
qed

lemma pick_forwarded_append:
  assumes "\<exists>a \<in> set bs. \<not> ip_in_networks a ns"
  shows "pick_forwarded ns (as @ bs) = pick_forwarded ns bs"
proof -
  have f: "List.find P (xs @ ys) = (case List.find P xs of Some a \<Rightarrow> Some a | None \<Rightarrow> List.find P ys)" for P and xs ys :: "ip_addr list"
    by (induction xs) auto
  have "List.find (\<lambda>a. \<not> ip_in_networks a ns) (rev bs) \<noteq> None"
    using assms by (auto simp: find_None_iff)
  then show ?thesis by (auto simp: pick_forwarded_def f split: option.splits)
qed

text \<open>
  A malformed hop in front empties the chain: the request counts as one of the proxy itself,
  so that the client's own address is neither blocked nor checked.
\<close>

lemma malformed_hop_hides_client:
  assumes "combined_trusted_proxy_ips (compose_app_subnet st) (trusted_proxy_ips st) = Inr trusted"
    and "header rq ''x-forwarded-for'' [] = hops @ CHR '','' # rest" and "forwarded_host_chain hops = []"
    and "rq_client_host rq = Some peer"
  shows "resolve_client_host st rq = Inr (peer, peer, hops @ CHR '','' # rest, ''direct'')"
proof -
  have "forwarded_host_chain (hops @ CHR '','' # rest) = []"
    using assms(3) chain_nonempty [of "List.map strip (split_on (CHR '','') hops)"]
    by (auto simp: forwarded_host_chain_def map_strip_split_append chain_from_append split: option.splits)
  then show ?thesis using assms by (simp add: resolve_client_host_def Let_def)
qed

lemma normalize_nil_allowlist [simp]: "normalize_client_ip_allowlist [] = Inr []"
  by (simp add: normalize_client_ip_allowlist_def)

lemma allowlist_text_fixed: "normalize_client_ip_allowlist v = Inr s \<Longrightarrow> normalize_client_ip_allowlist s = Inr s"
proof -
  assume v: "normalize_client_ip_allowlist v = Inr s"
  obtain ns where ns: "collect entry_canon [] (split_seps (strip v)) = Some ns" "s = join [CHR 0x0A] ns"
    "\<forall>n \<in> set ns. sep_free n \<and> entry_canon n = Some n"
    using normalize_allowlist_entries [OF v] .
  show ?thesis
  proof (cases "ns = []")
    case False
    then have "split_seps (strip s) = ns" using ns(2,3) split_strip_join by blast
    then show ?thesis
      using client_entries.collect_idem [OF ns(1)] ns(2) by (simp add: normalize_client_ip_allowlist_def)
  qed (use ns(2) in simp)
qed

section \<open>Properties\<close>

text \<open>A normalised allowlist is in normal form: normalising it again returns it unchanged, so
  that storing, editing and showing a route never drifts its allowlist.\<close>

theorem allowlist_normal_form:
  assumes "normalize_client_ip_allowlist value = Inr s"
  shows "normalize_client_ip_allowlist s = Inr s"
  using assms by (rule allowlist_text_fixed)

text \<open>C38: a client is let in exactly when its host is an address and some entry of the allowlist, as
  the admin wrote it, denotes a network that contains it; canonical text, the order and
  duplicates of the entries make no difference.\<close>

theorem client_ip_allowed_iff:
  assumes "normalize_client_ip_allowlist allowlist = Inr s"
  shows "client_ip_allowed host allowlist =
    Inr (strip host \<noteq> [] \<and> (case ip_address (strip host) of
       None \<Rightarrow> False
     | Some a \<Rightarrow> \<exists>c \<in> set (split_seps (strip allowlist)). c \<noteq> [] \<and>
         (case ip_network c of None \<Rightarrow> False | Some n \<Rightarrow> ip_in a n)))"
proof -
  obtain networks where "client_ip_allowlist_networks allowlist = Inr networks"
    "set networks = {n. \<exists>c \<in> set (split_seps (strip allowlist)). c \<noteq> [] \<and> ip_network c = Some n}"
    using allowlist_networks [OF assms] .
  then show ?thesis
    by (fastforce simp: client_ip_allowed_def list_ex_iff split: option.splits)
qed

theorem client_ip_allowed_iff_witness:
  "client_ip_allowed ''10.1.2.3'' (str_net (Net4 167772160 8)) =
    Inr (strip ''10.1.2.3'' \<noteq> [] \<and> (case ip_address (strip ''10.1.2.3'') of
       None \<Rightarrow> False
     | Some a \<Rightarrow> \<exists>c \<in> set (split_seps (strip (str_net (Net4 167772160 8)))). c \<noteq> [] \<and>
         (case ip_network c of None \<Rightarrow> False | Some n \<Rightarrow> ip_in a n)))"
  by (rule client_ip_allowed_iff) (rule normalize_net4, simp add: clear_host_def)

theorem allowlist_normal_form_witness:
  "normalize_client_ip_allowlist (str_net (Net4 167772160 8)) = Inr (str_net (Net4 167772160 8))"
  by (rule allowlist_normal_form [of "str_net (Net4 167772160 8)"])
    (rule normalize_net4, simp add: clear_host_def)


definition sample_request :: "string \<Rightarrow> request" where
  "sample_request xff = \<lparr>rq_client_host = Some ''172.30.0.2'', rq_method = ''POST'', rq_path = ''/'',
     rq_headers = [(''x-forwarded-for'', xff)], rq_stream = []\<rparr>"

lemmas ip_eval = parse_v4_def parse_octet_def digits_val_def digit_val_def is_digit_def

lemma compose_subnet_network: "ip_network ''172.30.0.0/24'' = Some (Net4 2887647232 24)"
  by (simp add: ip_network_def network_v4_def parse_mask_v4_def parse_prefix_def ip_eval clear_host_def)

lemma compose_subnet_text: "str_net (Net4 2887647232 24) = ''172.30.0.0/24''"
  by (simp add: print_v4_def str_nat.simps digit_char_def char_of_digits)

lemma compose_subnet_trusted:
  "combined_trusted_proxy_ips ''172.30.0.0/24'' [] = Inr ''172.30.0.0/24''"
  "trusted_proxy_networks ''172.30.0.0/24'' = [Net4 2887647232 24]"
  by (simp_all add: combined_trusted_proxy_ips_def normalize_proxy_ip_list_def network_canon_def trusted_proxy_networks_def
      compose_subnet_network compose_subnet_text strip_no_space py_space_def del: str_net.simps)


end
