(* ===== verification/Graph_Delivery.thy ===== *)
theory Graph_Delivery
  imports Graph_Auth Client_Ip
begin

text \<open>
  \<open>services/teams_graph_delivery.py\<close>: delivery through Microsoft Graph with the delegated
  credential. A \<open>GraphDeliveryError\<close> carries a structured result and is rewritten before it
  is raised again, so it is a record of its own; every other exception is an \<open>exn\<close>.
\<close>

record graph_delivery_error =
  ge_message :: string
  ge_error_type :: string
  ge_status_code :: "int option"
  ge_code :: string
  ge_text :: string
  ge_result :: "(string \<times> json) list"

definition graph_error :: "string \<Rightarrow> string \<Rightarrow> graph_delivery_error" where
  "graph_error message error_type =
     \<lparr>ge_message = message, ge_error_type = error_type, ge_status_code = None, ge_code = [], ge_text = [],
      ge_result = []\<rparr>"

datatype 'a graph_outcome = Sent 'a | Refused graph_delivery_error | Raised exn

record graph_delivery_result =
  gr_mode :: string
  gr_status_code :: int
  gr_message_id :: json
  gr_target :: "(string \<times> string) list"
  gr_request :: "(string \<times> json) list"

definition str_dict :: "(string \<times> string) list \<Rightarrow> json" where
  "str_dict d = JDict (List.map (\<lambda>(k, v). (k, JStr v)) d)"

definition graph_result_dict :: "graph_delivery_result \<Rightarrow> (string \<times> json) list" where
  "graph_result_dict r =
     [(''backend'', JStr ''graph''), (''mode'', JStr (gr_mode r)), (''status_code'', JInt (gr_status_code r)),
      (''message_id'', gr_message_id r), (''target'', str_dict (gr_target r)), (''request'', JDict (gr_request r))]"

section \<open>The message\<close>

definition plain_text_to_html :: "string \<Rightarrow> string" where
  "plain_text_to_html value = join ''<br>'' (List.map html_escape (splitlines value))"

definition message_html :: "normalized_message \<Rightarrow> string" where
  "message_html m =
     (let lines =
        (if msg_title m \<noteq> [] then [''<strong>'' @ html_escape (msg_title m) @ ''</strong>''] else []) @
        (if msg_text m \<noteq> [] then [plain_text_to_html (msg_text m)] else []) @
        (if msg_status m \<noteq> [] then [''<strong>Status:</strong> '' @ html_escape (msg_status m)] else []) @
        (if msg_severity m \<noteq> [] \<and> msg_severity m \<noteq> ''info''
         then [''<strong>Severity:</strong> '' @ html_escape (msg_severity m)] else [])
      in or_str (join ''<br><br>'' lines) ''<strong>Webhook message</strong>'')"

definition adaptive_attachment :: "nat \<Rightarrow> json \<Rightarrow> json list" where
  "adaptive_attachment index attachment =
     (case attachment of
        JDict d \<Rightarrow>
          (if dict_get d ''contentType'' \<noteq> JStr ''application/vnd.microsoft.card.adaptive'' then []
           else (case dict_get d ''content'' of
             JDict content \<Rightarrow>
               [JDict [(''id'', JStr (str_nat index)),
                  (''contentType'', JStr ''application/vnd.microsoft.card.adaptive''),
                  (''contentUrl'', JNull), (''content'', JStr (dumps_items False (JDict content))),
                  (''name'', JStr ''Adaptive Card'')]]
           | _ \<Rightarrow> []))
      | _ \<Rightarrow> [])"

fun adaptive_from :: "nat \<Rightarrow> json list \<Rightarrow> json list" where
  "adaptive_from index [] = []"
| "adaptive_from index (a # rest) = adaptive_attachment index a @ adaptive_from (Suc index) rest"

text \<open>
  An activity is kept only where its attachments are a list (\<open>is_bot_activity_with_attachments\<close>),
  so the iteration is over a list.
\<close>

definition adaptive_card_attachments :: "normalized_message \<Rightarrow> json list" where
  "adaptive_card_attachments m =
     (case msg_activity m of
        Some (JDict activity) \<Rightarrow>
          (case or_json (dict_get activity ''attachments'') (JList []) of
             JList xs \<Rightarrow> adaptive_from 1 xs
           | _ \<Rightarrow> [])
      | _ \<Rightarrow> [])"

definition build_chat_message_payload :: "normalized_message \<Rightarrow> bool \<Rightarrow> (string \<times> json) list" where
  "build_chat_message_payload m include_attachments =
     (let attachments = (if include_attachments then adaptive_card_attachments m else []) in
      [(''body'', JDict [(''contentType'', JStr ''html''), (''content'', JStr (message_html m))])] @
      (if attachments \<noteq> [] then [(''attachments'', JList attachments)] else []))"

definition payload_attachments :: "(string \<times> json) list \<Rightarrow> json list" where
  "payload_attachments payload = (case dict_get payload ''attachments'' of JList xs \<Rightarrow> xs | _ \<Rightarrow> [])"

definition safe_request_summary :: "(string \<times> json) list \<Rightarrow> (string \<times> json) list" where
  "safe_request_summary payload =
     [(''content_type'', (case dict_get payload ''body'' of JDict b \<Rightarrow> dict_get b ''contentType'' | _ \<Rightarrow> JStr [])),
      (''has_attachments'', JBool (payload_attachments payload \<noteq> [])),
      (''attachment_count'', JInt (int (length (payload_attachments payload))))]"

section \<open>The target\<close>

definition target_for_route :: "webhook_route \<Rightarrow> (string \<times> string) list graph_outcome" where
  "target_for_route r =
     (let kind = strip (r_graph_target_kind r) in
      if kind = ''channel'' then
        (if strip (r_graph_team_id r) = [] \<or> strip (r_graph_channel_id r) = []
         then Refused (graph_error ''Graph channel delivery requires a team ID and channel ID.'' ''validation_error'')
         else Sent [(''kind'', ''channel''), (''team_id'', strip (r_graph_team_id r)),
           (''team_name'', strip (r_graph_team_name r)), (''channel_id'', strip (r_graph_channel_id r)),
           (''target_name'', strip (r_target_name r))])
      else if kind = ''chat'' then
        (if strip (r_graph_target_id r) = []
         then Refused (graph_error ''Graph chat delivery requires an existing chat ID.'' ''validation_error'')
         else Sent [(''kind'', ''chat''), (''chat_id'', strip (r_graph_target_id r)),
           (''target_name'', strip (r_target_name r))])
      else if kind = ''user''
      then Refused (graph_error
        ''Graph user and 1:1 delivery is not supported in V1. Select an existing chat or channel.'' ''unsupported_target'')
      else Refused (graph_error ''Graph delivery supports channel and existing chat targets in V1.'' ''unsupported_target''))"

definition target_get :: "(string \<times> string) list \<Rightarrow> string \<Rightarrow> string" where
  "target_get target key = (case map_of target key of None \<Rightarrow> [] | Some v \<Rightarrow> v)"

definition endpoint_for_target :: "(string \<times> string) list \<Rightarrow> string" where
  "endpoint_for_target target =
     (if target_get target ''kind'' = ''channel''
      then ''/teams/'' @ quote (target_get target ''team_id'') @ ''/channels/'' @
        quote (target_get target ''channel_id'') @ ''/messages''
      else ''/chats/'' @ quote (target_get target ''chat_id'') @ ''/messages'')"

definition service_user_label :: "delegated_diagnostics \<Rightarrow> string" where
  "service_user_label d =
     (let principal = strip (dg_service_user_principal_name d);
          display_name = strip (dg_service_user_display_name d)
      in if principal \<noteq> [] \<and> display_name \<noteq> [] then display_name @ '' ('' @ principal @ '')''
         else if principal \<noteq> [] then principal
         else if display_name \<noteq> [] then display_name
         else ''configured in Settings'')"

definition target_label :: "(string \<times> string) list \<Rightarrow> string" where
  "target_label target =
     (let team_name = strip (target_get target ''team_name'');
          channel_name = strip (target_get target ''target_name'')
      in if team_name \<noteq> [] \<and> startswith (lower channel_name) (lower team_name @ '' /'') then channel_name
         else if team_name \<noteq> [] \<and> channel_name \<noteq> [] then team_name @ '' / '' @ channel_name
         else or_str channel_name (or_str team_name ''the selected channel''))"

definition operator_message_for_error ::
  "graph_delivery_error \<Rightarrow> (string \<times> string) list \<Rightarrow> delegated_diagnostics \<Rightarrow> string" where
  "operator_message_for_error e target d =
     (if ge_status_code e \<noteq> Some 403 \<or> target_get target ''kind'' \<noteq> ''channel'' then []
      else ''Microsoft Graph denied channel delivery to '' @ target_label target @ '' with HTTP 403. '' @
        ''Add the connected Graph service user '' @ service_user_label d @
        '' to the target Team/channel and verify delegated '' @
        ''ChannelMessage.Send consent, then run Send test again.'')"

definition apply_operator_guidance ::
  "graph_delivery_error \<Rightarrow> (string \<times> string) list \<Rightarrow> delegated_diagnostics \<Rightarrow> graph_delivery_error" where
  "apply_operator_guidance e target d =
     (let message = operator_message_for_error e target d in
      if message = [] then e
      else e\<lparr>ge_error_type := ''graph_channel_access_denied'', ge_message := message\<rparr>)"

definition error_result :: "graph_delivery_error \<Rightarrow> (string \<times> string) list \<Rightarrow> (string \<times> json) list" where
  "error_result e target =
     [(''backend'', JStr ''graph''), (''target'', str_dict target), (''error_type'', JStr (ge_error_type e))] @
     (case ge_status_code e of None \<Rightarrow> [] | Some c \<Rightarrow> [(''status_code'', JInt c)]) @
     (if ge_code e \<noteq> [] then [(''graph_error_code'', JStr (ge_code e))] else []) @
     (if ge_text e \<noteq> [] then [(''graph_error_message'', JStr (ge_text e))] else []) @
     (if ge_message e \<noteq> [] then [(''operator_message'', JStr (ge_message e))] else [])"

section \<open>Sending\<close>

definition safe_graph_error_details :: "world \<Rightarrow> string \<Rightarrow> exn + string \<times> string" where
  "safe_graph_error_details w text =
     (case parse_json w text of
        Inl None \<Rightarrow> Inr ([], ''The Graph response could not be parsed.'')
      | Inl (Some e) \<Rightarrow> Inl e
      | Inr body \<Rightarrow> Inr (case body of
          JDict kvs \<Rightarrow>
            (case dict_get kvs ''error'' of
               JDict err \<Rightarrow>
                 (let message = strip (py_str (or_json (dict_get err ''message'')
                        (JStr ''Microsoft Graph returned an error.'')));
                      code = strip (py_str (or_json (dict_get err ''code'') (JStr [])))
                  in (code, if code \<noteq> [] then code @ '': '' @ message else message))
             | _ \<Rightarrow> ([], ''Microsoft Graph returned an error.''))
        | _ \<Rightarrow> ([], ''Microsoft Graph returned an error.'')))"

definition graph_post_json ::
  "remote \<Rightarrow> world \<Rightarrow> string \<Rightarrow> string \<Rightarrow> (string \<times> json) list \<Rightarrow> (int \<times> (string \<times> json) list) graph_outcome" where
  "graph_post_json rm w path access_token payload =
     (let failed = Refused (graph_error ''Microsoft Graph delivery failed.'' ''graph_request_error'') in
      case http rm ''POST'' (''https://graph.microsoft.com/v1.0'' @ path)
             [(''Authorization'', ''Bearer '' @ access_token), (''Content-Type'', ''application/json'')]
             (dumps_items True (JDict payload)) of
        HttpResponse status text \<Rightarrow>
          (case (if text = [] then Inr (JDict []) else parse_json w text) of
             Inl None \<Rightarrow> failed
           | Inl (Some e) \<Rightarrow> Raised e
           | Inr body \<Rightarrow> Sent (status, (case body of JDict kvs \<Rightarrow> kvs | _ \<Rightarrow> [])))
      | HttpStatusError code text \<Rightarrow>
          (case safe_graph_error_details w text of
             Inl e \<Rightarrow> Raised e
           | Inr (graph_code, safe_message) \<Rightarrow>
               Refused ((graph_error (''Microsoft Graph delivery failed with HTTP '' @ str_int code @ '': '' @ safe_message)
                   ''graph_http_error'')
                 \<lparr>ge_status_code := Some code, ge_code := graph_code, ge_text := safe_message\<rparr>))
      | HttpRequestError _ _ \<Rightarrow> failed)"

definition should_retry_without_attachments :: "graph_delivery_error \<Rightarrow> (string \<times> json) list \<Rightarrow> bool" where
  "should_retry_without_attachments e payload \<longleftrightarrow> ge_status_code e = Some 400 \<and> payload_attachments payload \<noteq> []"

definition delegated_token_for ::
  "remote \<Rightarrow> world \<Rightarrow> settings \<Rightarrow> string \<Rightarrow> db \<Rightarrow> delegated_token graph_outcome \<times> db" where
  "delegated_token_for rm w st org db =
     (case refresh_delegated_access_token rm w st org db of
        (Inr token, db') \<Rightarrow> (Sent token, db')
      | (Inl (GraphDelegatedAuthError message), db') \<Rightarrow>
          (Refused (graph_error ''Delegated Graph delivery is not ready. Reconnect the service user in Settings.'' ''auth_error''),
           emit_event w st ((integration_event ''error'' ''graph.delivery.auth_error''
               ''Delegated Graph delivery token refresh failed.'')
             \<lparr>ea_target := [(''type'', JStr ''app''), (''organization_id'', JStr org)],
              ea_security := [(''severity'', JStr ''high''), (''reason'', JStr ''graph_delegated_auth_error'')],
              ea_raw := [(''exception_type'', JStr ''GraphDelegatedAuthError''), (''exception'', JStr message)]\<rparr>) db')
      | (Inl e, db') \<Rightarrow> (Raised e, db'))"

definition event_target :: "webhook_route \<Rightarrow> (string \<times> string) list \<Rightarrow> (string \<times> json) list" where
  "event_target r target =
     [(''type'', JStr (or_str (target_get target ''kind'') ''message'')),
      (''id'', JStr (or_str (target_get target ''channel_id'') (target_get target ''chat_id''))),
      (''route_id'', JStr (r_id r))]"

definition emit_graph_delivery_error ::
  "world \<Rightarrow> settings \<Rightarrow> webhook_route \<Rightarrow> (string \<times> string) list \<Rightarrow> graph_delivery_error \<Rightarrow> db \<Rightarrow> db" where
  "emit_graph_delivery_error w st r target e db =
     emit_event w st ((integration_event ''error'' (''graph.delivery.'' @ ge_error_type e) (ge_message e))
       \<lparr>ea_target := event_target r target,
        ea_http := [(''method'', JStr ''POST''),
          (''status_code'', (case ge_status_code e of None \<Rightarrow> JNull | Some c \<Rightarrow> JInt c))],
        ea_security := [(''severity'', JStr ''medium''), (''reason'', JStr (ge_error_type e))],
        ea_raw := [(''graph_error_code'', JStr (ge_code e)), (''graph_error_message'', JStr (ge_text e)),
          (''result'', JDict (ge_result e))]\<rparr>) db"

definition graph_refused ::
  "world \<Rightarrow> settings \<Rightarrow> webhook_route \<Rightarrow> (string \<times> string) list \<Rightarrow> delegated_token \<Rightarrow> graph_delivery_error \<Rightarrow> db \<Rightarrow>
   graph_delivery_result graph_outcome \<times> db" where
  "graph_refused w st r target token e db =
     (let e = apply_operator_guidance e target (dt_diagnostics token);
          e = e\<lparr>ge_result := error_result e target\<rparr>
      in (Refused e, emit_graph_delivery_error w st r target e db))"

definition graph_sent ::
  "world \<Rightarrow> settings \<Rightarrow> webhook_route \<Rightarrow> (string \<times> string) list \<Rightarrow> (string \<times> json) list \<Rightarrow> int \<times> (string \<times> json) list \<Rightarrow> db \<Rightarrow>
   graph_delivery_result graph_outcome \<times> db" where
  "graph_sent w st r target payload response db =
     (let (status, body) = response;
          message_id = (case map_of body ''id'' of None \<Rightarrow> JStr [] | Some v \<Rightarrow> v)
      in (Sent \<lparr>gr_mode = ''real'', gr_status_code = status, gr_message_id = message_id, gr_target = target,
                gr_request = safe_request_summary payload\<rparr>,
          emit_event w st ((integration_event ''info'' ''graph.delivery.sent''
              (''Microsoft Graph delivery completed with HTTP '' @ str_int status @ ''.''))
            \<lparr>ea_target := event_target r target,
             ea_http := [(''method'', JStr ''POST''), (''path'', JStr (endpoint_for_target target)),
               (''status_code'', JInt status)],
             ea_raw := [(''message_id'', message_id)]\<rparr>) db))"

definition post_graph_message ::
  "remote \<Rightarrow> world \<Rightarrow> settings \<Rightarrow> webhook_route \<Rightarrow> (string \<times> string) list \<Rightarrow> normalized_message \<Rightarrow> delegated_token \<Rightarrow> db \<Rightarrow>
   graph_delivery_result graph_outcome \<times> db" where
  "post_graph_message rm w st r target m token db =
     (let endpoint = endpoint_for_target target; payload = build_chat_message_payload m True in
      case graph_post_json rm w endpoint (dt_access_token token) payload of
        Sent response \<Rightarrow> graph_sent w st r target payload response db
      | Raised e \<Rightarrow> (Raised e, db)
      | Refused e \<Rightarrow>
          if \<not> should_retry_without_attachments e payload then graph_refused w st r target token e db
          else (let fallback = build_chat_message_payload m False in
            case graph_post_json rm w endpoint (dt_access_token token) fallback of
              Sent response \<Rightarrow> graph_sent w st r target fallback response db
            | Raised e \<Rightarrow> (Raised e, db)
            | Refused e \<Rightarrow> graph_refused w st r target token e db))"

definition send_graph_message ::
  "remote \<Rightarrow> world \<Rightarrow> settings \<Rightarrow> string \<Rightarrow> webhook_route \<Rightarrow> normalized_message \<Rightarrow> db \<Rightarrow>
   graph_delivery_result graph_outcome \<times> db" where
  "send_graph_message rm w st org r m db =
     (case target_for_route r of
        Refused e \<Rightarrow> (Refused e, db)
      | Raised e \<Rightarrow> (Raised e, db)
      | Sent target \<Rightarrow>
          (case delegated_token_for rm w st org db of
             (Refused e, db') \<Rightarrow> (Refused e, db')
           | (Raised e, db') \<Rightarrow> (Raised e, db')
           | (Sent token, db') \<Rightarrow> post_graph_message rm w st r target m token db'))"

section \<open>Lemmas\<close>

text \<open>What sending a message may change: the credential, and what is reported.\<close>

definition sending_frame :: "db \<Rightarrow> db \<Rightarrow> bool" where
  "sending_frame a b \<longleftrightarrow>
     (\<exists>cs es n. b = a\<lparr>credentials := cs, event_log := event_log a @ es, next_id := n\<rparr> \<and> next_id a \<le> n)"

lemma sending_frame_refl [simp]: "sending_frame a a"
  unfolding sending_frame_def
  by (rule exI [of _ "credentials a"], rule exI [of _ "[]"], rule exI [of _ "next_id a"]) simp

lemma sending_frame_trans [trans]: "sending_frame a b \<Longrightarrow> sending_frame b c \<Longrightarrow> sending_frame a c"
  unfolding sending_frame_def by fastforce

lemma logged_sending_frame: "logged a b \<Longrightarrow> sending_frame a b"
  unfolding logged_def sending_frame_def
  by (elim exE conjE, intro exI [of _ "credentials a"]) fastforce

lemma sending_frame_emit [simp]: "sending_frame db (emit_event w st e db)"
  by (rule logged_sending_frame) simp

lemma sending_frame_save [simp]: "sending_frame db (save_credential c db)"
  unfolding sending_frame_def save_credential_def
  by (rule exI, rule exI [of _ "[]"], rule exI [of _ "next_id db"]) simp

lemma sending_frame_tables:
  assumes "sending_frame a b"
  shows "routes b = routes a" "deliveries b = deliveries a" "buckets b = buckets a" "reveals b = reveals a"
    "users b = users a" "organizations b = organizations a" "pendings b = pendings a" "audits b = audits a"
    "next_id a \<le> next_id b"
  using assms by (auto simp: sending_frame_def)

lemma refresh_frame: "sending_frame db (snd (refresh_delegated_access_token rm w st org db))"
  by (auto simp: refresh_delegated_access_token_def refresh_failed_def Let_def
      split: option.splits sum.splits exn.splits)

lemma delegated_token_for_frame: "delegated_token_for rm w st org db = (r, db') \<Longrightarrow> sending_frame db db'"
  using refresh_frame [of db rm w st org]
  by (auto simp: delegated_token_for_def intro: sending_frame_trans sending_frame_emit
      split: prod.splits sum.splits exn.splits)

lemma post_graph_message_frame: "sending_frame db (snd (post_graph_message rm w st r t m k db))"
  by (auto simp: post_graph_message_def graph_sent_def graph_refused_def emit_graph_delivery_error_def Let_def
      split: graph_outcome.splits prod.splits)

lemma send_graph_message_frame: "send_graph_message rm w st org r m db = (o', db') \<Longrightarrow> sending_frame db db'"
  using post_graph_message_frame
  by (auto simp: send_graph_message_def split: graph_outcome.splits prod.splits
      intro: delegated_token_for_frame sending_frame_trans)
    (metis delegated_token_for_frame sending_frame_trans snd_conv)+

text \<open>
  Missing app registration settings end a Graph delivery with an exception that the callers of
  \<open>send_graph_message\<close> do not catch; so does a refresh token that cannot be decrypted.
\<close>

lemma missing_registration_raises:
  assumes "target_for_route r = Sent target" and "missing_registration st \<noteq> []"
  shows "\<exists>message. send_graph_message rm w st org r m db = (Raised (GraphDelegatedConfigError message), db)"
  using assms by (simp add: send_graph_message_def delegated_token_for_def refresh_delegated_access_token_def
      require_app_registration_def)

text \<open>The markup of a message: every \<open><\<close> opens one of the tags the backend writes itself.\<close>

definition own_tags :: "string list" where
  "own_tags = [''<strong>'', ''</strong>'', ''<br>'']"

fun markup_ok :: "string \<Rightarrow> bool" where
  "markup_ok [] = True"
| "markup_ok (c # cs) = ((c = CHR ''<'' \<longrightarrow> list_ex (startswith (c # cs)) own_tags) \<and> markup_ok cs)"

lemma startswith_append: "startswith s p \<Longrightarrow> startswith (s @ t) p"
  by (simp add: startswith_def) (metis append_take_drop_id append.assoc length_take min.absorb_iff2 nat_le_linear take_all take_append append_Nil2 diff_is_0_eq' take0)

lemma markup_append: "markup_ok s \<Longrightarrow> markup_ok t \<Longrightarrow> markup_ok (s @ t)"
proof (induction s)
  case (Cons c s)
  then show ?case using startswith_append [of "c # s" _ t] by (auto simp: list_ex_iff)
qed simp

lemma markup_plain: "CHR ''<'' \<notin> set s \<Longrightarrow> markup_ok s"
  by (induction s) auto

lemma markup_escape [simp]: "markup_ok (html_escape s)"
  using html_escape_safe [of _ s] by (intro markup_plain) auto

lemma markup_join: "\<forall>w \<in> set ws. markup_ok w \<Longrightarrow> markup_ok sep \<Longrightarrow> markup_ok (join sep ws)"
  by (induction sep ws rule: join.induct) (auto intro: markup_append)

lemma markup_tags:
  "markup_ok ''<strong>''" "markup_ok ''</strong>''" "markup_ok ''<br>''" "markup_ok ''<br><br>''"
  "markup_ok ''<strong>Status:</strong> ''" "markup_ok ''<strong>Severity:</strong> ''"
  "markup_ok ''<strong>Webhook message</strong>''"
  by code_simp+

declare markup_ok.simps(2) [simp del]

lemma markup_strong: "markup_ok s \<Longrightarrow> markup_ok (''<strong>'' @ s @ ''</strong>'')"
  by (intro markup_append markup_tags)

lemma quote_split: "split_on (CHR ''/'') (quote s) = [quote s]"
  by (simp add: split_on_no_sep)

section \<open>Properties\<close>

text \<open>C31: the text of a message cannot inject markup into the HTML sent to Teams: whatever the
  webhook caller put into title, text, status and severity, every opening bracket of the
  HTML belongs to a tag of the backend's own.\<close>

theorem message_html_no_injection: "markup_ok (message_html m)"
proof -
  have "markup_ok (plain_text_to_html s)" for s
    unfolding plain_text_to_html_def by (rule markup_join) (auto simp: markup_tags)
  then show ?thesis
    unfolding message_html_def Let_def or_str_def
    by (auto simp del: append.simps append_Cons simp: markup_tags intro!: markup_join markup_tags markup_append markup_strong)
qed

text \<open>C32: the address of a Graph post is confined to the messages of one channel or one chat: no
  identifier of a route, whatever its characters, adds or removes a segment of the path.\<close>

theorem endpoint_confined:
  "split_on (CHR ''/'') (endpoint_for_target target) =
     (if target_get target ''kind'' = ''channel''
      then [[], ''teams'', quote (target_get target ''team_id''), ''channels'',
        quote (target_get target ''channel_id''), ''messages'']
      else [[], ''chats'', quote (target_get target ''chat_id''), ''messages''])"
proof -
  have seg: "split_on (CHR ''/'') (quote a @ CHR ''/'' # rest) = quote a # split_on (CHR ''/'') rest" for a rest
    by (rule split_on_append_sep) simp
  show ?thesis by (simp add: endpoint_for_target_def seg)
qed

end
