(* ===== verification/Abuse.thy ===== *)
theory Abuse
  imports Audit_Log
begin

text \<open>
  \<open>services/webhook_abuse.py\<close>: clients that keep failing are blocked. A failed attempt is
  counted in one bucket for the client and, where the route is known, in one for the client
  at that route; a bucket that reaches the limit within its window is blocked, each time for
  longer. The admin operations on the buckets (\<open>routers/admin.py\<close>) are here too.

  The model runs one transaction at a time: the recovery from a second transaction inserting
  the same bucket between the lookup and the insert has no counterpart.
\<close>

section \<open>Keys\<close>

definition BLOCKED_WEBHOOK_DETAIL :: string where
  "BLOCKED_WEBHOOK_DETAIL = ''Too many failed webhook attempts''"

definition SCOPE_IP :: string where "SCOPE_IP = ''ip''"

definition SCOPE_IP_ROUTE :: string where "SCOPE_IP_ROUTE = ''ip_route''"

definition bucket_scopes :: "string option \<Rightarrow> (string \<times> string option) list" where
  "bucket_scopes route_token_hash =
     [(SCOPE_IP, None)] @
     (case route_token_hash of None \<Rightarrow> [] | Some h \<Rightarrow> if h \<noteq> [] then [(SCOPE_IP_ROUTE, Some h)] else [])"

definition client_hash :: "world \<Rightarrow> settings \<Rightarrow> string \<Rightarrow> string" where
  "client_hash w st client_host =
     hmac_sha256 w (fst (ensure_session_secret (generated_secret w) st)) client_host"

definition bucket_key :: "world \<Rightarrow> string \<Rightarrow> string \<Rightarrow> string option \<Rightarrow> string" where
  "bucket_key w scope ch route_token_hash =
     sha256 w (scope @ '':'' @ ch @ '':'' @ opt_str route_token_hash)"

definition stored_client_host :: "string \<Rightarrow> string" where
  "stored_client_host client_host = clip 255 (strip client_host)"

definition block_duration :: "settings \<Rightarrow> int \<Rightarrow> duration" where
  "block_duration st block_count =
     (let mins =
        (if block_count \<le> 1 then webhook_abuse_initial_block_minutes st
         else if block_count = 2 then 60
         else min (webhook_abuse_max_block_minutes st) (60 * 2 ^ nat (block_count - 2)))
      in minutes (min mins (webhook_abuse_max_block_minutes st)))"

section \<open>Buckets\<close>

definition find_bucket ::
  "world \<Rightarrow> settings \<Rightarrow> string \<Rightarrow> string \<Rightarrow> string option \<Rightarrow> db \<Rightarrow> abuse_bucket option" where
  "find_bucket w st client_host scope route_token_hash db =
     fetch (\<lambda>b. ab_bucket_key b = bucket_key w scope (client_hash w st client_host) route_token_hash) (buckets db)"

definition new_bucket ::
  "world \<Rightarrow> settings \<Rightarrow> string \<Rightarrow> string \<Rightarrow> string option \<Rightarrow> string \<Rightarrow> abuse_bucket" where
  "new_bucket w st client_host scope route_token_hash i =
     \<lparr>ab_id = i,
      ab_bucket_key = bucket_key w scope (client_hash w st client_host) route_token_hash,
      ab_scope = scope, ab_client_hash = client_hash w st client_host,
      ab_last_client_host = stored_client_host client_host,
      ab_route_token_hash = route_token_hash, ab_failure_count = 0, ab_block_count = 0,
      ab_window_started_at = utcnow w, ab_blocked_until = None, ab_last_reason = [],
      ab_last_seen_at = utcnow w, ab_created_at = utcnow w\<rparr>"

definition get_or_create_bucket ::
  "world \<Rightarrow> settings \<Rightarrow> string \<Rightarrow> string \<Rightarrow> string option \<Rightarrow> db \<Rightarrow> abuse_bucket \<times> db" where
  "get_or_create_bucket w st client_host scope route_token_hash db =
     (case find_bucket w st client_host scope route_token_hash db of
        Some bucket \<Rightarrow> (bucket, db)
      | None \<Rightarrow>
          (let bucket = new_bucket w st client_host scope route_token_hash (new_id db)
           in (bucket, db\<lparr>buckets := buckets db @ [bucket], next_id := Suc (next_id db)\<rparr>)))"

definition save_bucket :: "abuse_bucket \<Rightarrow> db \<Rightarrow> db" where
  "save_bucket b db = db\<lparr>buckets := save_row ab_id b (buckets db)\<rparr>"

section \<open>Checking\<close>

text \<open>The keys \<open>_load_buckets\<close> selects by.\<close>

definition loaded_keys :: "world \<Rightarrow> settings \<Rightarrow> string \<Rightarrow> string option \<Rightarrow> string list" where
  "loaded_keys w st client_host route_token_hash =
     List.map (\<lambda>(scope, h). bucket_key w scope (client_hash w st client_host) h) (bucket_scopes route_token_hash)"

definition load_buckets :: "world \<Rightarrow> settings \<Rightarrow> string \<Rightarrow> string option \<Rightarrow> db \<Rightarrow> abuse_bucket list" where
  "load_buckets w st client_host route_token_hash db =
     List.filter (\<lambda>b. ab_bucket_key b \<in> set (loaded_keys w st client_host route_token_hash)) (buckets db)"

text \<open>The loop body: the bucket is marked as seen, and kept when its block outlasts the one held.\<close>

definition touch_bucket :: "instant \<Rightarrow> string \<Rightarrow> abuse_bucket \<Rightarrow> abuse_bucket" where
  "touch_bucket now client_host b =
     b\<lparr>ab_last_client_host := stored_client_host client_host, ab_last_seen_at := now\<rparr>"

definition pick_blocked :: "instant \<Rightarrow> abuse_bucket \<Rightarrow> abuse_bucket option \<Rightarrow> abuse_bucket option" where
  "pick_blocked now b blocked =
     (case ensure_utc (ab_blocked_until b) of
        None \<Rightarrow> blocked
      | Some u \<Rightarrow>
          if now < u then
            (case blocked of
               None \<Rightarrow> Some b
             | Some b0 \<Rightarrow>
                 if (case ensure_utc (ab_blocked_until b0) of Some u0 \<Rightarrow> u0 | None \<Rightarrow> now) < u
                 then Some b else blocked)
          else blocked)"

text \<open>What becomes of the bucket: an expired block is lifted and the window starts again.\<close>

definition expire_bucket :: "instant \<Rightarrow> abuse_bucket \<Rightarrow> abuse_bucket" where
  "expire_bucket now b =
     (case ensure_utc (ab_blocked_until b) of
        None \<Rightarrow> b
      | Some u \<Rightarrow>
          if now < u then b
          else b\<lparr>ab_blocked_until := None, ab_failure_count := 0, ab_window_started_at := now,
                 ab_last_seen_at := now\<rparr>)"

definition check_block ::
  "world \<Rightarrow> settings \<Rightarrow> string \<Rightarrow> string option \<Rightarrow> db \<Rightarrow> abuse_bucket option \<times> db" where
  "check_block w st client_host route_token_hash db =
     (if \<not> webhook_abuse_blocking_enabled st then (None, db)
      else
        (let now = utcnow w;
             keys = loaded_keys w st client_host route_token_hash;
             touched = List.map (touch_bucket now client_host) (load_buckets w st client_host route_token_hash db)
         in (fold (pick_blocked now) touched None,
             db\<lparr>buckets := update_rows (\<lambda>b. ab_bucket_key b \<in> set keys)
                  (\<lambda>b. expire_bucket now (touch_bucket now client_host b)) (buckets db)\<rparr>)))"

section \<open>Recording\<close>

definition abuse_event :: "string \<Rightarrow> string \<Rightarrow> string \<Rightarrow> string \<Rightarrow> string \<Rightarrow> string \<Rightarrow> string option \<Rightarrow> string \<Rightarrow> event_args" where
  "abuse_event event_type message client_host reason severity scope route_token_hash i =
     (event ''warning'' ''security'' event_type message ''abuse'')
       \<lparr>ea_source := [(''ip'', JStr client_host)],
        ea_security := [(''severity'', JStr severity), (''reason'', JStr reason)],
        ea_target := [(''type'', JStr ''webhook''), (''scope'', JStr scope),
          (''route_fingerprint'', JStr (clip 12 (opt_str route_token_hash)))],
        ea_domain_event_id := Some i\<rparr>"

text \<open>The counting of one failure in a bucket, up to the blocking.\<close>

definition count_failure :: "settings \<Rightarrow> instant \<Rightarrow> string \<Rightarrow> string \<Rightarrow> abuse_bucket \<Rightarrow> abuse_bucket" where
  "count_failure st now client_host reason bucket =
     (let bucket =
        (if minutes (webhook_abuse_window_minutes st) < now - ab_window_started_at bucket
         then bucket\<lparr>ab_failure_count := 0, ab_window_started_at := now\<rparr> else bucket)
      in bucket\<lparr>ab_failure_count := ab_failure_count bucket + 1, ab_last_reason := clip 120 reason,
           ab_last_client_host := stored_client_host client_host, ab_last_seen_at := now\<rparr>)"

definition block_bucket :: "settings \<Rightarrow> instant \<Rightarrow> abuse_bucket \<Rightarrow> abuse_bucket" where
  "block_bucket st now bucket =
     (if webhook_abuse_failure_limit st \<le> ab_failure_count bucket
      then bucket\<lparr>ab_block_count := ab_block_count bucket + 1,
             ab_blocked_until := Some (now + block_duration st (ab_block_count bucket + 1))\<rparr>
      else bucket)"

definition record_scope_failure ::
  "world \<Rightarrow> settings \<Rightarrow> string \<Rightarrow> string option \<Rightarrow> string \<Rightarrow> string \<times> string option \<Rightarrow>
   abuse_bucket list \<times> db \<Rightarrow> abuse_bucket list \<times> db" where
  "record_scope_failure w st client_host route_token_hash reason scoped acc =
     (let (scope, scoped_hash) = scoped; (recorded, db) = acc; now = utcnow w;
          (bucket, db) = get_or_create_bucket w st client_host scope scoped_hash db;
          bucket = block_bucket st now (count_failure st now client_host reason bucket);
          db = save_bucket bucket db;
          db = (if webhook_abuse_failure_limit st \<le> ab_failure_count bucket
            then emit_event w st
              ((abuse_event ''webhook_abuse.client_blocked''
                  ''Webhook client was blocked after repeated failed attempts.''
                  client_host reason ''medium'' scope route_token_hash (ab_id bucket))
                \<lparr>ea_raw := [(''failure_count'', JInt (ab_failure_count bucket)),
                          (''block_count'', JInt (ab_block_count bucket))]\<rparr>) db
            else emit_event w st
              (abuse_event ''webhook_abuse.failure_recorded''
                 ''Failed webhook attempt was recorded for abuse tracking.''
                 client_host reason ''low'' scope route_token_hash (ab_id bucket)) db)
      in (recorded @ [bucket], db))"

definition record_failure ::
  "world \<Rightarrow> settings \<Rightarrow> string \<Rightarrow> string option \<Rightarrow> string \<Rightarrow> db \<Rightarrow> abuse_bucket list \<times> db" where
  "record_failure w st client_host route_token_hash reason db =
     (if \<not> webhook_abuse_blocking_enabled st then ([], db)
      else fold (record_scope_failure w st client_host route_token_hash reason)
             (bucket_scopes route_token_hash) ([], db))"

definition record_success :: "world \<Rightarrow> settings \<Rightarrow> string \<Rightarrow> string option \<Rightarrow> db \<Rightarrow> db" where
  "record_success w st client_host route_token_hash db =
     (if opt_str route_token_hash = [] \<or> \<not> webhook_abuse_blocking_enabled st then db
      else (case find_bucket w st client_host SCOPE_IP_ROUTE route_token_hash db of
              None \<Rightarrow> db
            | Some bucket \<Rightarrow>
                save_bucket (bucket\<lparr>ab_failure_count := 0, ab_window_started_at := utcnow w,
                  ab_blocked_until := None, ab_last_client_host := stored_client_host client_host,
                  ab_last_seen_at := utcnow w\<rparr>) db))"

section \<open>Administration\<close>

definition unblock_bucket :: "world \<Rightarrow> settings \<Rightarrow> string \<Rightarrow> db \<Rightarrow> abuse_bucket option \<times> db" where
  "unblock_bucket w st bucket_id db =
     (case fetch (\<lambda>b. ab_id b = bucket_id) (buckets db) of
        None \<Rightarrow> (None, db)
      | Some bucket \<Rightarrow>
          (let bucket = bucket\<lparr>ab_failure_count := 0, ab_blocked_until := None,
                 ab_window_started_at := utcnow w, ab_last_seen_at := utcnow w\<rparr>
           in (Some bucket,
               emit_event w st
                 ((event ''info'' ''security'' ''webhook_abuse.client_unblocked''
                     ''Webhook abuse bucket was manually unblocked.'' ''abuse'')
                   \<lparr>ea_source := [(''ip'', JStr (ab_last_client_host bucket))],
                    ea_target := [(''type'', JStr ''webhook''), (''scope'', JStr (ab_scope bucket)),
                      (''route_fingerprint'', JStr (clip 12 (opt_str (ab_route_token_hash bucket))))],
                    ea_security := [(''severity'', JStr ''low''), (''reason'', JStr ''manual_unblock'')],
                    ea_domain_event_id := Some (ab_id bucket)\<rparr>)
                 (save_bucket bucket db))))"

text \<open>The number of deleted buckets, the cutoff and the new state. The event's \<open>cutoff\<close> text is
  the argument \<open>isoformat\<close> applied to it.\<close>

definition cleanup_buckets :: "(instant \<Rightarrow> string) \<Rightarrow> world \<Rightarrow> settings \<Rightarrow> db \<Rightarrow> nat \<times> instant \<times> db" where
  "cleanup_buckets isoformat w st db =
     (let cutoff = utcnow w - days (webhook_abuse_cleanup_days st);
          kept = delete_rows (\<lambda>b. ab_last_seen_at b < cutoff \<and> ab_blocked_until b = None) (buckets db);
          deleted = length (buckets db) - length kept;
          db = db\<lparr>buckets := kept\<rparr>
      in (deleted, cutoff,
          if deleted \<noteq> 0 then
            emit_event w st
              ((event ''info'' ''security'' ''webhook_abuse.cleanup''
                  ''Inactive webhook abuse buckets were cleaned up.'' ''abuse'')
                \<lparr>ea_raw := [(''deleted'', JInt (int deleted)), (''cutoff'', JStr (isoformat cutoff))]\<rparr>) db
          else db))"

text \<open>\<open>GET /admin/webhook-abuse-buckets\<close>: the buckets worth showing, latest first.\<close>

definition list_webhook_abuse_buckets :: "world \<Rightarrow> settings \<Rightarrow> nat \<Rightarrow> db \<Rightarrow> abuse_bucket list" where
  "list_webhook_abuse_buckets w st limit db =
     (let now = utcnow w;
          observed_cutoff = now - minutes (webhook_abuse_window_minutes st)
      in take limit (sort_key (\<lambda>b. - ab_last_seen_at b)
           (List.filter (\<lambda>b. (case ab_blocked_until b of Some u \<Rightarrow> now < u | None \<Rightarrow> False) \<or>
              (0 < ab_failure_count b \<and> observed_cutoff \<le> ab_window_started_at b)) (buckets db))))"

text \<open>\<open>DELETE /admin/webhook-abuse-buckets/{bucket_id}\<close> by an admin of an organization.\<close>

definition reset_webhook_abuse_bucket ::
  "world \<Rightarrow> settings \<Rightarrow> user \<Rightarrow> string \<Rightarrow> db \<Rightarrow> (exn + abuse_bucket) \<times> db" where
  "reset_webhook_abuse_bucket w st admin bucket_id db =
     (case unblock_bucket w st bucket_id db of
        (None, db') \<Rightarrow> (Inl (HTTPException 404 ''Webhook abuse bucket not found''), db)
      | (Some bucket, db') \<Rightarrow>
          (Inr bucket,
           record_audit w st ''webhook_abuse_bucket.reset'' ''user'' (Some (u_id admin))
             (Some (u_organization_id admin))
             [(''bucket_id'', JStr (ab_id bucket)), (''scope'', JStr (ab_scope bucket))] db'))"

definition cleanup_webhook_abuse_buckets ::
  "(instant \<Rightarrow> string) \<Rightarrow> world \<Rightarrow> settings \<Rightarrow> user \<Rightarrow> db \<Rightarrow> (nat \<times> int \<times> instant) \<times> db" where
  "cleanup_webhook_abuse_buckets isoformat w st admin db =
     (let (deleted, cutoff, db) = cleanup_buckets isoformat w st db
      in ((deleted, webhook_abuse_cleanup_days st, cutoff),
          record_audit w st ''webhook_abuse_bucket.cleanup'' ''user'' (Some (u_id admin))
            (Some (u_organization_id admin))
            [(''deleted'', JInt (int deleted)), (''cleanup_days'', JInt (webhook_abuse_cleanup_days st))] db))"

section \<open>The bucket invariant\<close>

definition bucket_counts_ok :: "abuse_bucket \<Rightarrow> bool" where
  "bucket_counts_ok b \<longleftrightarrow> 0 \<le> ab_failure_count b \<and> 0 \<le> ab_block_count b"

definition buckets_ok :: "db \<Rightarrow> bool" where
  "buckets_ok db \<longleftrightarrow> fresh_ids ab_id (next_id db) (buckets db) \<and>
     distinct (List.map ab_bucket_key (buckets db)) \<and> list_all bucket_counts_ok (buckets db)"

interpretation bucket_rows: table_invariant buckets buckets_ok
  by unfold_locales (auto simp: buckets_ok_def intro: fresh_ids_mono)

lemma buckets_okD:
  assumes "buckets_ok db"
  shows "fresh_ids ab_id (next_id db) (buckets db)" "distinct (List.map ab_bucket_key (buckets db))"
    "b \<in> set (buckets db) \<Longrightarrow> bucket_counts_ok b"
    "b \<in> set (buckets db) \<Longrightarrow> b' \<in> set (buckets db) \<Longrightarrow> ab_bucket_key b = ab_bucket_key b' \<Longrightarrow> b = b'"
    "b \<in> set (buckets db) \<Longrightarrow> b' \<in> set (buckets db) \<Longrightarrow> ab_id b = ab_id b' \<Longrightarrow> b = b'"
  using assms fresh_ids_inject
  by (auto simp: buckets_ok_def list_all_iff distinct_map inj_on_def)

lemma buckets_ok_update:
  assumes "buckets_ok db"
    and "\<And>b. b \<in> set (buckets db) \<Longrightarrow> P b \<Longrightarrow>
      ab_id (f b) = ab_id b \<and> ab_bucket_key (f b) = ab_bucket_key b \<and> (bucket_counts_ok b \<longrightarrow> bucket_counts_ok (f b))"
  shows "buckets_ok (db\<lparr>buckets := update_rows P f (buckets db)\<rparr>)"
proof -
  have keys: "List.map g (update_rows P f (buckets db)) = List.map g (buckets db)"
    if "\<And>b. b \<in> set (buckets db) \<Longrightarrow> P b \<Longrightarrow> g (f b) = g b" for g :: "abuse_bucket \<Rightarrow> string"
    using that by (auto simp: update_rows_def)
  have "fresh_ids ab_id (next_id db) (update_rows P f (buckets db))"
    using buckets_okD(1) [OF assms(1)] assms(2) keys [of ab_id]
    by (auto simp: fresh_ids_def set_update_rows)
  then show ?thesis
    using buckets_okD(2,3) [OF assms(1)] assms(2) keys [of ab_bucket_key]
    by (auto simp: buckets_ok_def list_all_iff set_update_rows)
qed

lemma save_bucket_ok:
  assumes "buckets_ok db" and "b0 \<in> set (buckets db)" and "ab_id b = ab_id b0"
    and "ab_bucket_key b = ab_bucket_key b0" and "bucket_counts_ok b"
  shows "buckets_ok (save_bucket b db)"
  unfolding save_bucket_def save_row_def
  by (rule buckets_ok_update [OF assms(1)]) (use assms buckets_okD(5) [OF assms(1) _ assms(2)] in auto)

lemma find_bucket_Some:
  "find_bucket w st h scope rth db = Some b \<Longrightarrow>
   b \<in> set (buckets db) \<and> ab_bucket_key b = bucket_key w scope (client_hash w st h) rth"
  by (auto simp: find_bucket_def dest: fetch_Some)

lemma get_or_create_bucket_ok:
  assumes "buckets_ok db" and "get_or_create_bucket w st h scope rth db = (b, db')"
  shows "buckets_ok db'" and "b \<in> set (buckets db')"
    and "ab_bucket_key b = bucket_key w scope (client_hash w st h) rth"
proof -
  have "buckets_ok db' \<and> b \<in> set (buckets db') \<and> ab_bucket_key b = bucket_key w scope (client_hash w st h) rth"
  proof (cases "find_bucket w st h scope rth db")
    case None
    let ?b = "new_bucket w st h scope rth (new_id db)"
    have "bucket_key w scope (client_hash w st h) rth \<notin> ab_bucket_key ` set (buckets db)"
      using None by (auto simp: find_bucket_def fetch_None)
    moreover have "fresh_ids ab_id (Suc (next_id db)) (buckets db @ [?b])"
      using buckets_okD(1) [OF assms(1)] by (rule fresh_ids_snoc) (simp add: new_bucket_def new_id_def)
    moreover have "ab_bucket_key ?b = bucket_key w scope (client_hash w st h) rth" "bucket_counts_ok ?b"
      by (simp_all add: new_bucket_def bucket_counts_ok_def)
    ultimately show ?thesis
      using assms None by (auto simp: get_or_create_bucket_def buckets_ok_def Let_def)
  next
    case (Some b0)
    then show ?thesis using assms find_bucket_Some [OF Some] by (simp add: get_or_create_bucket_def)
  qed
  then show "buckets_ok db'" "b \<in> set (buckets db')"
    "ab_bucket_key b = bucket_key w scope (client_hash w st h) rth" by auto
qed

lemma count_failure_fields [simp]:
  "ab_id (count_failure st now h r b) = ab_id b"
  "ab_bucket_key (count_failure st now h r b) = ab_bucket_key b"
  "ab_block_count (count_failure st now h r b) = ab_block_count b"
  "ab_blocked_until (count_failure st now h r b) = ab_blocked_until b"
  by (simp_all add: count_failure_def Let_def)

lemma block_bucket_fields [simp]:
  "ab_id (block_bucket st now b) = ab_id b"
  "ab_bucket_key (block_bucket st now b) = ab_bucket_key b"
  "ab_failure_count (block_bucket st now b) = ab_failure_count b"
  "ab_window_started_at (block_bucket st now b) = ab_window_started_at b"
  by (simp_all add: block_bucket_def)

lemma counted_ok: "bucket_counts_ok b \<Longrightarrow> bucket_counts_ok (block_bucket st now (count_failure st now h r b))"
  by (auto simp: bucket_counts_ok_def block_bucket_def count_failure_def Let_def)

lemma record_scope_failure_db:
  assumes "get_or_create_bucket w st h (fst sc) (snd sc) db = (b, db1)"
  shows "buckets (snd (record_scope_failure w st h rth reason sc (xs, db))) =
      buckets (save_bucket (block_bucket st (utcnow w) (count_failure st (utcnow w) h reason b)) db1)"
    and "next_id (snd (record_scope_failure w st h rth reason sc (xs, db))) = Suc (next_id db1)"
  using assms by (simp_all add: record_scope_failure_def Let_def split_beta save_bucket_def)

lemma record_scope_failure_ok:
  assumes "buckets_ok (snd acc)"
  shows "buckets_ok (snd (record_scope_failure w st h rth reason sc acc))"
proof -
  obtain b db1 where g: "get_or_create_bucket w st h (fst sc) (snd sc) (snd acc) = (b, db1)"
    by fastforce
  note ok = get_or_create_bucket_ok [OF assms g]
  have "buckets_ok (save_bucket (block_bucket st (utcnow w) (count_failure st (utcnow w) h reason b)) db1)"
    using ok buckets_okD(3) [OF ok(1,2)] by (intro save_bucket_ok [OF ok(1,2)]) (simp_all add: counted_ok)
  then show ?thesis
    by (rule bucket_rows.inv_frame)
      (use record_scope_failure_db [OF g, of rth reason "fst acc"] in \<open>simp_all add: save_bucket_def\<close>)
qed

lemma record_failure_ok: "buckets_ok db \<Longrightarrow> buckets_ok (snd (record_failure w st h rth reason db))"
proof -
  have "buckets_ok (snd acc) \<Longrightarrow> buckets_ok (snd (fold (record_scope_failure w st h rth reason) scs acc))" for scs acc
    by (induction scs arbitrary: acc) (simp_all add: record_scope_failure_ok)
  then show "buckets_ok db \<Longrightarrow> ?thesis" by (simp add: record_failure_def)
qed

lemma record_success_ok: "buckets_ok db \<Longrightarrow> buckets_ok (record_success w st h rth db)"
  by (auto simp: record_success_def bucket_counts_ok_def dest!: find_bucket_Some
      intro!: save_bucket_ok dest: buckets_okD(3) split: option.splits)

lemma expire_touch_fields [simp]:
  "ab_id (expire_bucket now (touch_bucket now h b)) = ab_id b"
  "ab_bucket_key (expire_bucket now (touch_bucket now h b)) = ab_bucket_key b"
  by (simp_all add: expire_bucket_def touch_bucket_def split: option.splits)

lemma check_block_ok: "buckets_ok db \<Longrightarrow> buckets_ok (snd (check_block w st h rth db))"
  by (auto simp: check_block_def Let_def bucket_counts_ok_def expire_bucket_def touch_bucket_def
      intro!: buckets_ok_update split: option.splits)

lemma unblock_bucket_ok: "buckets_ok db \<Longrightarrow> buckets_ok (snd (unblock_bucket w st i db))"
  by (auto simp: unblock_bucket_def Let_def bucket_counts_ok_def dest!: fetch_Some
      intro!: save_bucket_ok bucket_rows.inv_event dest: buckets_okD(3) split: option.splits)

lemma cleanup_buckets_ok: "buckets_ok db \<Longrightarrow> buckets_ok (snd (snd (cleanup_buckets f w st db)))"
proof -
  assume ok: "buckets_ok db"
  have "buckets_ok (db\<lparr>buckets := delete_rows P (buckets db)\<rparr>)" for P
    using ok fresh_ids_delete by (auto simp: buckets_ok_def list_all_iff delete_rows_def distinct_map_filter)
  then show ?thesis by (auto simp: cleanup_buckets_def Let_def)
qed

section \<open>Blocking\<close>

definition block_active :: "instant \<Rightarrow> abuse_bucket \<Rightarrow> bool" where
  "block_active now b = (case ab_blocked_until b of None \<Rightarrow> False | Some u \<Rightarrow> now < u)"

definition blocked_end :: "instant \<Rightarrow> abuse_bucket \<Rightarrow> instant" where
  "blocked_end now b = (case ab_blocked_until b of None \<Rightarrow> now | Some u \<Rightarrow> u)"

lemma pick_blocked_eq:
  "pick_blocked now b acc =
     (if \<not> block_active now b then acc
      else (case acc of None \<Rightarrow> Some b
            | Some b0 \<Rightarrow> if blocked_end now b0 < blocked_end now b then Some b else acc))"
  by (auto simp: pick_blocked_def block_active_def blocked_end_def split: option.splits)

lemma fold_pick_None: "fold (pick_blocked now) bs acc = None \<longleftrightarrow> acc = None \<and> (\<forall>b \<in> set bs. \<not> block_active now b)"
  by (induction bs arbitrary: acc) (auto simp: pick_blocked_eq split: option.splits)

lemma fold_pick_Some:
  "fold (pick_blocked now) bs acc = Some b \<Longrightarrow>
   (b \<in> set bs \<and> block_active now b \<or> acc = Some b) \<and>
   (\<forall>b' \<in> set bs. block_active now b' \<longrightarrow> blocked_end now b' \<le> blocked_end now b) \<and>
   (\<forall>b0. acc = Some b0 \<longrightarrow> blocked_end now b0 \<le> blocked_end now b)"
proof (induction bs arbitrary: acc)
  case (Cons x bs)
  then have "fold (pick_blocked now) bs (pick_blocked now x acc) = Some b" by simp
  note IH = Cons.IH [OF this]
  show ?case
    by (cases "block_active now x"; cases acc) (use IH in \<open>auto simp: pick_blocked_eq split: if_splits\<close>)
qed simp

lemma touch_blocked [simp]:
  "block_active now (touch_bucket t h b) = block_active now b"
  "blocked_end now (touch_bucket t h b) = blocked_end now b"
  "ab_blocked_until (touch_bucket t h b) = ab_blocked_until b"
  "ab_failure_count (touch_bucket t h b) = ab_failure_count b"
  "ab_bucket_key (touch_bucket t h b) = ab_bucket_key b"
  by (simp_all add: block_active_def blocked_end_def touch_bucket_def)

lemma set_load_buckets:
  "b \<in> set (load_buckets w st h rth db) \<longleftrightarrow> b \<in> set (buckets db) \<and> ab_bucket_key b \<in> set (loaded_keys w st h rth)"
  by (auto simp: load_buckets_def)

lemma check_block_None:
  assumes "webhook_abuse_blocking_enabled st"
  shows "fst (check_block w st h rth db) = None \<longleftrightarrow>
    (\<forall>b \<in> set (load_buckets w st h rth db). \<not> block_active (utcnow w) b)"
  using assms by (simp add: check_block_def Let_def fold_pick_None)

lemma find_bucket_key_cong:
  "find_bucket (w\<lparr>utcnow := t\<rparr>) st h scope rth db = find_bucket w st h scope rth db"
  "loaded_keys (w\<lparr>utcnow := t\<rparr>) st h rth = loaded_keys w st h rth"
  by (simp_all add: find_bucket_def loaded_keys_def bucket_key_def client_hash_def)

lemma loaded_keys_ip [simp]:
  "loaded_keys w st h None = [bucket_key w SCOPE_IP (client_hash w st h) None]"
  by (simp add: loaded_keys_def bucket_scopes_def)

text \<open>With unique keys, what a lookup returns is the only bucket with its key.\<close>

lemma find_bucket_iff:
  assumes "buckets_ok db"
  shows "find_bucket w st h scope rth db = Some b \<longleftrightarrow>
    b \<in> set (buckets db) \<and> ab_bucket_key b = bucket_key w scope (client_hash w st h) rth"
proof
  assume b: "b \<in> set (buckets db) \<and> ab_bucket_key b = bucket_key w scope (client_hash w st h) rth"
  then obtain b' where b': "find_bucket w st h scope rth db = Some b'"
    by (cases "find_bucket w st h scope rth db") (auto simp: find_bucket_def fetch_None)
  then have "b' = b" using find_bucket_Some [OF b'] b buckets_okD(4) [OF assms] by auto
  then show "find_bucket w st h scope rth db = Some b" using b' by simp
qed (rule find_bucket_Some)

lemma check_block_ip_iff:
  assumes "buckets_ok db" and "webhook_abuse_blocking_enabled st" and "find_bucket w st h SCOPE_IP None db = Some b"
  shows "fst (check_block w st h None db) \<noteq> None \<longleftrightarrow> block_active (utcnow w) b"
proof -
  have "set (load_buckets w st h None db) = {b}"
    using assms(3) by (auto simp: set_load_buckets find_bucket_iff [OF assms(1)] intro: buckets_okD(4) [OF assms(1)])
  then show ?thesis using check_block_None [OF assms(2)] by simp
qed

lemma record_failure_find:
  assumes ok: "buckets_ok db" and en: "webhook_abuse_blocking_enabled st"
  shows "find_bucket w st h SCOPE_IP None (snd (record_failure w st h None r db)) =
    Some (block_bucket st (utcnow w) (count_failure st (utcnow w) h r (fst (get_or_create_bucket w st h SCOPE_IP None db))))"
proof -
  obtain b db1 where g: "get_or_create_bucket w st h SCOPE_IP None db = (b, db1)" by fastforce
  note b = get_or_create_bucket_ok [OF ok g]
  let ?b = "block_bucket st (utcnow w) (count_failure st (utcnow w) h r b)"
  have rf: "snd (record_failure w st h None r db) = snd (record_scope_failure w st h None r (SCOPE_IP, None) ([], db))"
    using en by (simp add: record_failure_def bucket_scopes_def)
  have "?b \<in> set (buckets (save_bucket ?b db1))"
    using b(2) by (auto simp: save_bucket_def set_save_row)
  then have "?b \<in> set (buckets (snd (record_failure w st h None r db)))"
    using record_scope_failure_db(1) [of w st h "(SCOPE_IP, None)" db b db1 None r "[]"] g rf by simp
  then show ?thesis
    using find_bucket_iff [OF record_failure_ok [OF ok]] b(3) g by simp
qed

lemma block_duration_pos:
  assumes "0 < webhook_abuse_initial_block_minutes st" and "0 < webhook_abuse_max_block_minutes st"
  shows "0 < block_duration st n"
  using assms by (simp add: block_duration_def Let_def)

section \<open>Repeated failures\<close>

fun fail_run :: "world \<Rightarrow> settings \<Rightarrow> string \<Rightarrow> string \<Rightarrow> instant list \<Rightarrow> db \<Rightarrow> db" where
  "fail_run w st h r [] db = db"
| "fail_run w st h r (t # ts) db =
     fail_run w st h r ts (snd (record_failure (w\<lparr>utcnow := t\<rparr>) st h None r db))"

text \<open>After \<open>n\<close> failures since \<open>t0\<close>, the last one at \<open>t\<close>.\<close>

definition tracked :: "world \<Rightarrow> settings \<Rightarrow> string \<Rightarrow> instant \<Rightarrow> nat \<Rightarrow> instant \<Rightarrow> db \<Rightarrow> bool" where
  "tracked w st h t0 n t db \<longleftrightarrow> buckets_ok db \<and>
     (\<exists>b. find_bucket w st h SCOPE_IP None db = Some b \<and> ab_failure_count b = int n \<and>
        ab_window_started_at b = t0 \<and>
        (if int n < webhook_abuse_failure_limit st then ab_blocked_until b = None
         else block_active t b))"

lemma counted_bucket:
  assumes "now - ab_window_started_at b \<le> minutes (webhook_abuse_window_minutes st)"
    and "0 < webhook_abuse_initial_block_minutes st" and "0 < webhook_abuse_max_block_minutes st"
  shows "ab_failure_count (block_bucket st now (count_failure st now h r b)) = ab_failure_count b + 1"
    and "ab_window_started_at (block_bucket st now (count_failure st now h r b)) = ab_window_started_at b"
    and "ab_failure_count b + 1 < webhook_abuse_failure_limit st \<Longrightarrow>
      ab_blocked_until (block_bucket st now (count_failure st now h r b)) = ab_blocked_until b"
    and "webhook_abuse_failure_limit st \<le> ab_failure_count b + 1 \<Longrightarrow>
      block_active now (block_bucket st now (count_failure st now h r b))"
  using assms block_duration_pos [OF assms(2,3)]
  by (simp_all add: count_failure_def block_bucket_def block_active_def Let_def)

lemma tracked_step:
  assumes "tracked w st h t0 n t db" and "t' - t0 \<le> minutes (webhook_abuse_window_minutes st)"
    and "webhook_abuse_blocking_enabled st"
    and "0 < webhook_abuse_initial_block_minutes st" and "0 < webhook_abuse_max_block_minutes st"
  shows "tracked w st h t0 (Suc n) t' (snd (record_failure (w\<lparr>utcnow := t'\<rparr>) st h None r db))"
proof -
  obtain b where ok: "buckets_ok db" and b: "find_bucket w st h SCOPE_IP None db = Some b"
      "ab_failure_count b = int n" "ab_window_started_at b = t0"
      "if int n < webhook_abuse_failure_limit st then ab_blocked_until b = None else block_active t b"
    using assms(1) by (auto simp: tracked_def)
  have "fst (get_or_create_bucket (w\<lparr>utcnow := t'\<rparr>) st h SCOPE_IP None db) = b"
    using b(1) by (simp add: get_or_create_bucket_def find_bucket_key_cong)
  then have "find_bucket w st h SCOPE_IP None (snd (record_failure (w\<lparr>utcnow := t'\<rparr>) st h None r db)) =
      Some (block_bucket st t' (count_failure st t' h r b))"
    using record_failure_find [OF ok assms(3), of "w\<lparr>utcnow := t'\<rparr>" h r] by (simp add: find_bucket_key_cong)
  then show ?thesis
    using record_failure_ok [OF ok] counted_bucket [of t' b st h r] b assms(2,4,5)
    by (auto simp: tracked_def split: if_splits)
qed

lemma tracked_run:
  assumes "tracked w st h t0 n t db" and "webhook_abuse_blocking_enabled st"
    and "0 < webhook_abuse_initial_block_minutes st" and "0 < webhook_abuse_max_block_minutes st"
    and "\<forall>t' \<in> set ts. t' - t0 \<le> minutes (webhook_abuse_window_minutes st)"
  shows "tracked w st h t0 (n + length ts) (last (t # ts)) (fail_run w st h r ts db)"
  using assms(1,5)
proof (induction ts arbitrary: n t db)
  case (Cons t' ts)
  have "tracked w st h t0 (Suc n) t' (snd (record_failure (w\<lparr>utcnow := t'\<rparr>) st h None r db))"
    using Cons.prems assms(2-4) by (intro tracked_step) auto
  then show ?case using Cons.IH [of "Suc n" t'] Cons.prems(2) by simp
qed simp

lemma tracked_first:
  assumes "buckets_ok db" and "find_bucket w st h SCOPE_IP None db = None"
    and "webhook_abuse_blocking_enabled st"
    and "0 < webhook_abuse_initial_block_minutes st" and "0 < webhook_abuse_max_block_minutes st"
    and "0 \<le> webhook_abuse_window_minutes st"
  shows "tracked w st h t0 1 t0 (snd (record_failure (w\<lparr>utcnow := t0\<rparr>) st h None r db))"
proof -
  let ?b = "new_bucket (w\<lparr>utcnow := t0\<rparr>) st h SCOPE_IP None (new_id db)"
  have b: "ab_failure_count ?b = 0" "ab_window_started_at ?b = t0" "ab_blocked_until ?b = None"
    by (simp_all add: new_bucket_def)
  have w: "0 \<le> minutes (webhook_abuse_window_minutes st)" using assms(6) by (simp add: minutes_def)
  have "fst (get_or_create_bucket (w\<lparr>utcnow := t0\<rparr>) st h SCOPE_IP None db) = ?b"
    using assms(2) by (simp add: get_or_create_bucket_def find_bucket_key_cong Let_def)
  then have "find_bucket w st h SCOPE_IP None (snd (record_failure (w\<lparr>utcnow := t0\<rparr>) st h None r db)) =
      Some (block_bucket st t0 (count_failure st t0 h r ?b))"
    using record_failure_find [OF assms(1,3), of "w\<lparr>utcnow := t0\<rparr>" h r] by (simp add: find_bucket_key_cong)
  then show ?thesis
    using record_failure_ok [OF assms(1)] counted_bucket [of t0 ?b st h r] b w assms(4,5)
    by (auto simp: tracked_def split: if_splits)
qed

section \<open>Isolation\<close>

lemma save_bucket_other_key:
  assumes "buckets_ok db" and "b0 \<in> set (buckets db)" and "ab_id b = ab_id b0" and "ab_bucket_key b = ab_bucket_key b0"
    and "ab_bucket_key x \<noteq> ab_bucket_key b"
  shows "x \<in> set (buckets (save_bucket b db)) \<longleftrightarrow> x \<in> set (buckets db)"
  using assms buckets_okD(5) [OF assms(1) _ assms(2)] by (auto simp: save_bucket_def set_save_row)

lemma record_scope_failure_other_key:
  assumes "buckets_ok (snd acc)" and "ab_bucket_key x \<noteq> bucket_key w (fst sc) (client_hash w st h) (snd sc)"
  shows "x \<in> set (buckets (snd (record_scope_failure w st h rth r sc acc))) \<longleftrightarrow> x \<in> set (buckets (snd acc))"
proof -
  obtain b db1 where g: "get_or_create_bucket w st h (fst sc) (snd sc) (snd acc) = (b, db1)" by fastforce
  note ok = get_or_create_bucket_ok [OF assms(1) g]
  have "x \<in> set (buckets db1) \<longleftrightarrow> x \<in> set (buckets (snd acc))"
    using g assms(2) by (auto simp: get_or_create_bucket_def Let_def new_bucket_def split: option.splits)
  then show ?thesis
    using record_scope_failure_db(1) [OF g, of rth r "fst acc"] assms(2) ok(3)
      save_bucket_other_key [OF ok(1,2), of "block_bucket st (utcnow w) (count_failure st (utcnow w) h r b)" x]
    by simp
qed

lemma record_failure_other_key:
  assumes "buckets_ok db" and "ab_bucket_key x \<notin> set (loaded_keys w st h rth)"
  shows "x \<in> set (buckets (snd (record_failure w st h rth r db))) \<longleftrightarrow> x \<in> set (buckets db)"
proof -
  have "x \<in> set (buckets (snd (fold (record_scope_failure w st h rth r) scs acc))) \<longleftrightarrow> x \<in> set (buckets (snd acc))"
    if "set scs \<subseteq> set (bucket_scopes rth)" "buckets_ok (snd acc)" for scs acc
    using that
  proof (induction scs arbitrary: acc)
    case (Cons sc scs)
    then have "ab_bucket_key x \<noteq> bucket_key w (fst sc) (client_hash w st h) (snd sc)"
      using assms(2) by (force simp: loaded_keys_def)
    then show ?case
      using Cons record_scope_failure_ok record_scope_failure_other_key by simp
  qed simp
  then show ?thesis using assms(1) by (simp add: record_failure_def)
qed

lemma record_success_other_key:
  assumes "buckets_ok db" and "ab_bucket_key x \<notin> set (loaded_keys w st h rth)"
  shows "x \<in> set (buckets (record_success w st h rth db)) \<longleftrightarrow> x \<in> set (buckets db)"
proof (cases "opt_str rth = [] \<or> \<not> webhook_abuse_blocking_enabled st \<or> find_bucket w st h SCOPE_IP_ROUTE rth db = None")
  case False
  then obtain b where b: "find_bucket w st h SCOPE_IP_ROUTE rth db = Some b" by auto
  have "bucket_key w SCOPE_IP_ROUTE (client_hash w st h) rth \<in> set (loaded_keys w st h rth)"
    using False by (auto simp: loaded_keys_def bucket_scopes_def opt_str_def split: option.splits)
  with assms(2) have "ab_bucket_key x \<noteq> ab_bucket_key b" using find_bucket_Some [OF b] by auto
  then have "x \<in> set (buckets (save_bucket (b\<lparr>ab_failure_count := 0, ab_window_started_at := utcnow w,
      ab_blocked_until := None, ab_last_client_host := stored_client_host h,
      ab_last_seen_at := utcnow w\<rparr>) db)) \<longleftrightarrow> x \<in> set (buckets db)"
    using find_bucket_Some [OF b] by (intro save_bucket_other_key [OF assms(1)]) auto
  then show ?thesis using False b by (simp add: record_success_def)
qed (auto simp: record_success_def)

lemma check_block_other_key:
  assumes "ab_bucket_key x \<notin> set (loaded_keys w st h rth)"
  shows "x \<in> set (buckets (snd (check_block w st h rth db))) \<longleftrightarrow> x \<in> set (buckets db)"
  using assms by (auto simp: check_block_def Let_def set_update_rows)

section \<open>Properties\<close>

text \<open>A client is refused exactly when one of the buckets that apply to it, its own or the one
  for the route it calls, is blocked beyond the present; and the decision returned is the
  bucket whose block lasts longest.\<close>

theorem check_block_decision:
  assumes "webhook_abuse_blocking_enabled st"
  shows "case fst (check_block w st h rth db) of
      None \<Rightarrow> \<forall>b \<in> set (load_buckets w st h rth db). \<not> block_active (utcnow w) b
    | Some b \<Rightarrow> (\<exists>b0 \<in> set (load_buckets w st h rth db). b = touch_bucket (utcnow w) h b0) \<and>
        block_active (utcnow w) b \<and>
        (\<forall>b' \<in> set (load_buckets w st h rth db). block_active (utcnow w) b' \<longrightarrow>
           blocked_end (utcnow w) b' \<le> blocked_end (utcnow w) b)"
proof (cases "fst (check_block w st h rth db)")
  case None
  then show ?thesis using check_block_None [OF assms, of w h rth db] by simp
next
  case (Some b)
  then have "fold (pick_blocked (utcnow w)) (List.map (touch_bucket (utcnow w) h) (load_buckets w st h rth db)) None = Some b"
    using assms by (simp add: check_block_def Let_def)
  from fold_pick_Some [OF this] Some show ?thesis by auto
qed


definition sample_blocked :: db where
  "sample_blocked = empty_db\<lparr>buckets :=
     [(new_bucket sample_world default_settings ''10.0.0.9'' SCOPE_IP None (str_nat 0))\<lparr>ab_blocked_until := Some 5\<rparr>],
     next_id := 1\<rparr>"

theorem check_block_decision_witness:
  "case fst (check_block sample_world default_settings ''10.0.0.9'' None sample_blocked) of
      None \<Rightarrow> \<forall>b \<in> set (load_buckets sample_world default_settings ''10.0.0.9'' None sample_blocked).
        \<not> block_active (utcnow sample_world) b
    | Some b \<Rightarrow> (\<exists>b0 \<in> set (load_buckets sample_world default_settings ''10.0.0.9'' None sample_blocked).
          b = touch_bucket (utcnow sample_world) ''10.0.0.9'' b0) \<and>
        block_active (utcnow sample_world) b \<and>
        (\<forall>b' \<in> set (load_buckets sample_world default_settings ''10.0.0.9'' None sample_blocked).
           block_active (utcnow sample_world) b' \<longrightarrow>
           blocked_end (utcnow sample_world) b' \<le> blocked_end (utcnow sample_world) b)"
  by (rule check_block_decision) (simp add: default_settings_def)


text \<open>What one client does, failing, succeeding or merely being checked, leaves every bucket of
  the other clients, and of this client at other routes, as it was.\<close>

theorem abuse_isolation:
  assumes "buckets_ok db" and "ab_bucket_key x \<notin> set (loaded_keys w st h rth)"
  shows "(x \<in> set (buckets (snd (record_failure w st h rth r db))) \<longleftrightarrow> x \<in> set (buckets db)) \<and>
    (x \<in> set (buckets (record_success w st h rth db)) \<longleftrightarrow> x \<in> set (buckets db)) \<and>
    (x \<in> set (buckets (snd (check_block w st h rth db))) \<longleftrightarrow> x \<in> set (buckets db))"
  using record_failure_other_key [OF assms] record_success_other_key [OF assms]
    check_block_other_key [OF assms(2)] by simp

definition sample_bucket :: abuse_bucket where
  "sample_bucket = (new_bucket sample_world default_settings ''10.0.0.7'' SCOPE_IP None ''0'')\<lparr>ab_failure_count := 4\<rparr>"

theorem abuse_isolation_witness:
  "(sample_bucket \<in> set (buckets (snd (record_failure sample_world default_settings ''10.0.0.9'' None ''x'' empty_db)))
      \<longleftrightarrow> sample_bucket \<in> set (buckets empty_db)) \<and>
   (sample_bucket \<in> set (buckets (record_success sample_world default_settings ''10.0.0.9'' None empty_db))
      \<longleftrightarrow> sample_bucket \<in> set (buckets empty_db)) \<and>
   (sample_bucket \<in> set (buckets (snd (check_block sample_world default_settings ''10.0.0.9'' None empty_db)))
      \<longleftrightarrow> sample_bucket \<in> set (buckets empty_db))"
  by (rule abuse_isolation)
    (simp_all add: buckets_ok_def empty_db_def sample_bucket_def new_bucket_def bucket_key_def client_hash_def sample_world_def)

text \<open>every block lasts, but never longer than the configured maximum; and as long as the first
  block is at most an hour, no later block is shorter than an earlier one.\<close>

theorem block_duration_escalates:
  assumes "0 < webhook_abuse_initial_block_minutes st" and "webhook_abuse_initial_block_minutes st \<le> 60"
    and "0 < webhook_abuse_max_block_minutes st" and "m \<le> n"
  shows "0 < block_duration st m \<and> block_duration st m \<le> block_duration st n \<and>
    block_duration st n \<le> minutes (webhook_abuse_max_block_minutes st)"
proof -
  obtain p q :: int where pq: "2 ^ nat (m - 2) = p" "2 ^ nat (n - 2) = q" by simp
  have "(1::int) \<le> 2 ^ nat (n - 2)" by simp
  then have q: "1 \<le> q" using pq by simp
  have "(2::int) ^ nat (m - 2) \<le> 2 ^ nat (n - 2)"
    using assms(4) by (intro power_increasing) auto
  then have "p \<le> q" using pq by simp
  with q show ?thesis
    using assms block_duration_pos [OF assms(1,3), of m]
    by (auto simp: block_duration_def Let_def pq)
qed

theorem block_duration_escalates_witness:
  "0 < block_duration default_settings 1 \<and> block_duration default_settings 1 \<le> block_duration default_settings 4 \<and>
   block_duration default_settings 4 \<le> minutes (webhook_abuse_max_block_minutes default_settings)"
  by (rule block_duration_escalates) (simp_all add: default_settings_def)

text \<open>With a first block of more than an hour the second one is shorter: 60 minutes are built in.\<close>

lemma second_block_shorter:
  "block_duration (default_settings\<lparr>webhook_abuse_initial_block_minutes := 90\<rparr>) 2 <
   block_duration (default_settings\<lparr>webhook_abuse_initial_block_minutes := 90\<rparr>) 1"
  by (simp add: block_duration_def default_settings_def minutes_def)

text \<open>Every operation on the buckets, those of the relay and those of the admin, keeps them
  well formed: keys and identifiers are unique, counters are not negative.\<close>

theorem abuse_operations_keep_buckets_ok:
  assumes "buckets_ok db"
  shows "buckets_ok (snd (check_block w st h rth db)) \<and> buckets_ok (snd (record_failure w st h rth r db)) \<and>
    buckets_ok (record_success w st h rth db) \<and> buckets_ok (snd (reset_webhook_abuse_bucket w st admin i db)) \<and>
    buckets_ok (snd (cleanup_webhook_abuse_buckets f w st admin db))"
  using check_block_ok [OF assms] record_failure_ok [OF assms] record_success_ok [OF assms]
    unblock_bucket_ok [OF assms, of w st i] cleanup_buckets_ok [OF assms, of f w st] assms
  by (auto simp: reset_webhook_abuse_bucket_def cleanup_webhook_abuse_buckets_def split_beta split: option.splits)

theorem abuse_operations_keep_buckets_ok_witness:
  "buckets_ok (snd (check_block sample_world default_settings ''10.0.0.9'' (Some ''h'') sample_blocked)) \<and>
   buckets_ok (snd (record_failure sample_world default_settings ''10.0.0.9'' (Some ''h'') ''x'' sample_blocked)) \<and>
   buckets_ok (record_success sample_world default_settings ''10.0.0.9'' (Some ''h'') sample_blocked) \<and>
   buckets_ok (snd (reset_webhook_abuse_bucket sample_world default_settings sample_admin ''0'' sample_blocked)) \<and>
   buckets_ok (snd (cleanup_webhook_abuse_buckets (\<lambda>_. []) sample_world default_settings sample_admin sample_blocked))"
  by (rule abuse_operations_keep_buckets_ok)
    (simp add: buckets_ok_def sample_blocked_def empty_db_def fresh_ids_def new_bucket_def bucket_counts_ok_def str_nat.simps digit_char_def)

text \<open>
  The cleanup takes only buckets without a block. A client that was blocked and never came
  back keeps its bucket: only a further request of the same client lifts an expired block.
\<close>

lemma cleanup_keeps_expired_blocks:
  "b \<in> set (buckets db) \<Longrightarrow> ab_blocked_until b = Some u \<Longrightarrow>
   b \<in> set (buckets (snd (snd (cleanup_buckets f w st db))))"
  by (auto simp: cleanup_buckets_def Let_def)

end
