(* ===== verification/Route_Rules.thy ===== *)
theory Route_Rules
  imports Graph_Delivery Abuse
begin

text \<open>
  The rules of \<open>routers/webhook_routes.py\<close> a route is checked against: which backend it uses
  and whether that is enabled, whether its target is complete, which clients it accepts and
  whether its name is free. The handlers that keep routes and the relay both use them.
\<close>

section \<open>Backend\<close>

definition route_delivery_backend :: "webhook_route \<Rightarrow> string" where
  "route_delivery_backend r = or_str (strip (r_delivery_backend r)) ''bot_framework''"

definition delivery_backend_disabled_message :: "string \<Rightarrow> settings \<Rightarrow> string" where
  "delivery_backend_disabled_message backend st =
     (if backend = ''bot_framework'' \<and> \<not> bot_framework_enabled st then ''Bot Framework delivery is disabled''
      else if backend = ''graph'' \<and> \<not> graph_lookup_enabled st
      then ''Microsoft Graph delivery requires Graph lookup to be enabled''
      else if backend = ''graph'' \<and> \<not> graph_delivery_enabled st then ''Microsoft Graph delivery is disabled''
      else [])"

definition route_feature_disabled_message :: "webhook_route \<Rightarrow> settings \<Rightarrow> string" where
  "route_feature_disabled_message r st = delivery_backend_disabled_message (route_delivery_backend r) st"

definition ensure_delivery_backend_feature_enabled :: "string \<Rightarrow> settings \<Rightarrow> exn option" where
  "ensure_delivery_backend_feature_enabled backend st =
     (let message = delivery_backend_disabled_message backend st in
      if message \<noteq> [] then Some (HTTPException 409 message) else None)"

definition ensure_route_feature_enabled :: "webhook_route \<Rightarrow> settings \<Rightarrow> exn option" where
  "ensure_route_feature_enabled r st = ensure_delivery_backend_feature_enabled (route_delivery_backend r) st"

definition ensure_graph_lookup_enabled :: "settings \<Rightarrow> exn option" where
  "ensure_graph_lookup_enabled st =
     (if \<not> graph_lookup_enabled st then Some (HTTPException 409 ''Microsoft Graph lookup is disabled'') else None)"

section \<open>Target\<close>

definition validate_graph_target :: "webhook_route \<Rightarrow> exn option" where
  "validate_graph_target r =
     (let kind = strip (r_graph_target_kind r) in
      if kind = ''channel'' \<and> (strip (r_graph_team_id r) = [] \<or> strip (r_graph_channel_id r) = [])
      then Some (HTTPException 400 ''Graph channel routes require a team ID and channel ID'')
      else if kind = ''chat'' \<and> strip (r_graph_target_id r) = []
      then Some (HTTPException 400 ''Graph chat routes require an existing chat ID'')
      else if kind \<noteq> ''channel'' \<and> kind \<noteq> ''chat''
      then Some (HTTPException 400 ''Graph delivery supports channel and existing chat targets in V1'')
      else None)"

definition validate_target :: "webhook_route \<Rightarrow> exn option" where
  "validate_target r =
     (let backend = route_delivery_backend r in
      if backend \<noteq> ''bot_framework'' \<and> backend \<noteq> ''graph''
      then Some (HTTPException 400 ''Unsupported delivery backend'')
      else if r_target_type r \<noteq> ''bot_conversation'' then Some (HTTPException 400 ''Unsupported target type'')
      else if strip (r_target_name r) = [] then Some (HTTPException 400 ''Target name is required'')
      else if backend = ''bot_framework'' \<and> (strip (r_bot_service_url r) = [] \<or> strip (r_bot_conversation_id r) = [])
      then Some (HTTPException 400 ''Bot service URL and conversation ID are required'')
      else if backend = ''graph'' then validate_graph_target r
      else None)"

definition route_member_target_key :: "webhook_route \<Rightarrow> string \<times> string \<times> string \<times> string" where
  "route_member_target_key r =
     (if route_delivery_backend r = ''graph''
      then (''graph'', strip (r_graph_target_kind r), strip (r_graph_target_id r), [])
      else (route_delivery_backend r, strip (r_bot_service_url r), strip (r_bot_conversation_id r), []))"

definition clear_route_members :: "webhook_route \<Rightarrow> webhook_route" where
  "clear_route_members r =
     r\<lparr>r_member_summary := [], r_member_count := 0, r_member_list_json := JList [],
       r_members_refreshed_at := None, r_members_lookup_error := []\<rparr>"

section \<open>Client addresses\<close>

definition validate_client_ip_access :: "webhook_route \<Rightarrow> exn + webhook_route" where
  "validate_client_ip_access r =
     (case normalize_client_ip_access_mode (r_client_ip_access_mode r) of
        Inl (ValueError message) \<Rightarrow> Inl (HTTPException 400 message)
      | Inl e \<Rightarrow> Inl e
      | Inr mode \<Rightarrow>
          (case normalize_client_ip_allowlist (r_client_ip_allowlist r) of
             Inl (ValueError message) \<Rightarrow> Inl (HTTPException 400 message)
           | Inl e \<Rightarrow> Inl e
           | Inr allowlist \<Rightarrow>
               if mode = ''public''
               then Inr (r\<lparr>r_client_ip_access_mode := mode, r_client_ip_allowlist := []\<rparr>)
               else if mode = ''restricted'' \<and> allowlist = []
               then Inl (HTTPException 400 ''Restricted routes require at least one client IP or CIDR range'')
               else Inr (r\<lparr>r_client_ip_access_mode := mode, r_client_ip_allowlist := allowlist\<rparr>)))"

definition route_allows_client_ip :: "webhook_route \<Rightarrow> string \<Rightarrow> exn + bool" where
  "route_allows_client_ip r client_host =
     (let mode = (case normalize_client_ip_access_mode (r_client_ip_access_mode r) of
            Inl _ \<Rightarrow> ''public'' | Inr mode \<Rightarrow> mode)
      in if mode = ''public'' then Inr True
         else client_ip_allowed client_host (r_client_ip_allowlist r))"

section \<open>Lookups\<close>

definition get_org_route :: "string \<Rightarrow> string \<Rightarrow> db \<Rightarrow> exn + webhook_route" where
  "get_org_route org route_id db =
     (case fetch (\<lambda>r. r_id r = route_id \<and> r_organization_id r = org) (routes db) of
        None \<Rightarrow> Inl (HTTPException 404 ''Webhook route not found'')
      | Some r \<Rightarrow> Inr r)"

text \<open>\<open>route_id\<close> is the route that may keep the name.\<close>

definition ensure_route_name_available ::
  "db \<Rightarrow> string \<Rightarrow> string \<Rightarrow> string \<Rightarrow> string option \<Rightarrow> exn option" where
  "ensure_route_name_available db org name backend route_id =
     (case fetch (\<lambda>r. r_organization_id r = org \<and> r_name r = name \<and> r_delivery_backend r = backend \<and>
                     Some (r_id r) \<noteq> route_id) (routes db) of
        None \<Rightarrow> None
      | Some _ \<Rightarrow> Some (HTTPException 409 ''Webhook route name already exists for this delivery backend''))"

definition build_webhook_url :: "settings \<Rightarrow> string \<Rightarrow> string" where
  "build_webhook_url st route_token =
     rstrip_char (CHR ''/'') (app_public_base_url st) @ rstrip_char (CHR ''/'') (api_v1_prefix st) @
     ''/webhooks/'' @ route_token"

text \<open>Flushing a changed route stamps it.\<close>

definition save_route :: "world \<Rightarrow> webhook_route \<Rightarrow> db \<Rightarrow> db" where
  "save_route w r db = db\<lparr>routes := save_row r_id (r\<lparr>r_updated_at := utcnow w\<rparr>) (routes db)\<rparr>"

section \<open>Lemmas\<close>

lemma route_delivery_backend_nonempty [simp]: "route_delivery_backend r \<noteq> []"
  by (simp add: route_delivery_backend_def)

lemma access_mode_cases:
  "normalize_client_ip_access_mode v = Inr m \<Longrightarrow> m = ''public'' \<or> m = ''restricted''"
  by (auto simp: normalize_client_ip_access_mode_def CLIENT_IP_ACCESS_MODES_def Let_def split: if_splits)

lemma access_mode_error:
  "normalize_client_ip_access_mode v = Inl e \<Longrightarrow> e = ValueError ''Client IP access mode must be public or restricted''"
  by (auto simp: normalize_client_ip_access_mode_def Let_def split: if_splits)

lemma access_mode_fixed [simp]:
  "normalize_client_ip_access_mode ''public'' = Inr ''public''"
  "normalize_client_ip_access_mode ''restricted'' = Inr ''restricted''"
  by (simp_all add: normalize_client_ip_access_mode_def CLIENT_IP_ACCESS_MODES_def or_str_def strip_no_space py_space_def
      lower_def lower_char_def Let_def)

text \<open>The access settings a stored route should have: in normal form, and complete.\<close>

definition ip_access_ok :: "webhook_route \<Rightarrow> bool" where
  "ip_access_ok r \<longleftrightarrow>
     (r_client_ip_access_mode r = ''public'' \<and> r_client_ip_allowlist r = []) \<or>
     (r_client_ip_access_mode r = ''restricted'' \<and> r_client_ip_allowlist r \<noteq> [] \<and>
      normalize_client_ip_allowlist (r_client_ip_allowlist r) = Inr (r_client_ip_allowlist r))"

lemma validate_client_ip_access_ok:
  assumes "validate_client_ip_access r = Inr r'"
  shows "ip_access_ok r'" and "\<exists>m a. r' = r\<lparr>r_client_ip_access_mode := m, r_client_ip_allowlist := a\<rparr>"
  using assms access_mode_cases [of "r_client_ip_access_mode r"]
  by (auto simp: validate_client_ip_access_def ip_access_ok_def intro: allowlist_text_fixed
      split: sum.splits exn.splits if_splits)

lemma allowlist_error: "normalize_client_ip_allowlist v = Inl e \<Longrightarrow>
    e = ValueError ''Client IP allowlist must contain only IP addresses or CIDR ranges''"
  by (auto simp: normalize_client_ip_allowlist_def split: option.splits)

lemma client_ip_allowed_total: "normalize_client_ip_allowlist a = Inr s \<Longrightarrow> \<exists>b. client_ip_allowed h a = Inr b"
proof -
  assume a: "normalize_client_ip_allowlist a = Inr s"
  obtain networks where "client_ip_allowlist_networks a = Inr networks"
    using allowlist_networks [OF a] by blast
  then show ?thesis by (cases "ip_address (strip h)") (auto simp: client_ip_allowed_def)
qed

lemma route_allows_total: "ip_access_ok r \<Longrightarrow> \<exists>b. route_allows_client_ip r h = Inr b"
  by (auto simp: ip_access_ok_def route_allows_client_ip_def intro: client_ip_allowed_total)

text \<open>A route whose stored mode is not one of the two is open to every client.\<close>

lemma unknown_mode_is_public:
  "normalize_client_ip_access_mode (r_client_ip_access_mode r) = Inl e \<Longrightarrow> route_allows_client_ip r h = Inr True"
  by (simp add: route_allows_client_ip_def)

end
