(* ===== verification/Relay.thy ===== *)
theory Relay
  imports Route_Rules "HOL-Library.Product_Lexorder"
begin

text \<open>
  The relay itself, \<open>receive_webhook\<close> of \<open>routers/webhook_routes.py\<close>: a request is checked
  against the abuse limiter, read up to the size limit, resolved to its route, checked
  against the rules of the route, normalised, reserved under its idempotency key and
  delivered; every outcome leaves a delivery event.

  The state is the database with the cached bot token. A request runs alone. Its commits are
  explicit: what a handler has not committed when it ends with an exception is dropped.
\<close>

section \<open>The body\<close>

datatype body_result = Body string | TooLarge string

fun read_chunks :: "nat \<Rightarrow> string \<Rightarrow> string list \<Rightarrow> body_result" where
  "read_chunks limit body [] = Body body"
| "read_chunks limit body (chunk # rest) =
     (if chunk = [] then read_chunks limit body rest
      else if limit < length body + length chunk
      then TooLarge (body @ take (limit - length body) chunk)
      else read_chunks limit (body @ chunk) rest)"

definition read_limited_body :: "request \<Rightarrow> int \<Rightarrow> body_result" where
  "read_limited_body rq max_bytes =
     (let limit = max 0 max_bytes;
          content_length = strip (header rq ''content-length'' []);
          declared = (if content_length = [] then 0
                      else (case parse_int content_length of None \<Rightarrow> 0 | Some n \<Rightarrow> n))
      in if limit < declared then TooLarge []
         else read_chunks (nat limit) [] (rq_stream rq))"

section \<open>Delivery events\<close>

definition string_value :: "(string \<times> json) list \<Rightarrow> string \<Rightarrow> string" where
  "string_value d key = (case dict_get d key of JStr s \<Rightarrow> strip s | _ \<Rightarrow> [])"

definition get_or_empty :: "(string \<times> json) list \<Rightarrow> string \<Rightarrow> json" where
  "get_or_empty d key = (case map_of d key of None \<Rightarrow> JStr [] | Some v \<Rightarrow> v)"

text \<open>What \<open>_record_event\<close> is told.\<close>

record event_facts =
  ef_status :: string
  ef_metadata :: "(string \<times> json) list"
  ef_message :: "(string \<times> json) list"
  ef_result :: "(string \<times> json) list"
  ef_error :: string

definition fill_event ::
  "webhook_route option \<Rightarrow> string option \<Rightarrow> event_facts \<Rightarrow> string option \<Rightarrow> delivery_event \<Rightarrow> delivery_event" where
  "fill_event r token_hash f key d =
     d\<lparr>d_organization_id := map_option r_organization_id r, d_route_id := map_option r_id r,
       d_route_token_hash := token_hash,
       d_idempotency_key := (case key of None \<Rightarrow> d_idempotency_key d | Some k \<Rightarrow> Some k),
       d_status := ef_status f, d_request_metadata_json := JDict (ef_metadata f),
       d_normalized_message_json := JDict (ef_message f), d_delivery_result_json := JDict (ef_result f),
       d_error := clip 1000 (ef_error f)\<rparr>"

definition blank_event :: "world \<Rightarrow> string \<Rightarrow> delivery_event" where
  "blank_event w i =
     \<lparr>d_id = i, d_organization_id = None, d_route_id = None, d_route_token_hash = None, d_idempotency_key = None,
      d_status = [], d_request_metadata_json = JDict [], d_normalized_message_json = JDict [],
      d_delivery_result_json = JDict [], d_error = [], d_created_at = utcnow w\<rparr>"

definition delivery_log :: "webhook_route option \<Rightarrow> event_facts \<Rightarrow> string \<Rightarrow> event_args" where
  "delivery_log r f event_id =
     (let meta = ef_metadata f; status = ef_status f;
          backend = or_str (string_value (ef_result f) ''backend'')
            (case r of None \<Rightarrow> [] | Some r \<Rightarrow> route_delivery_backend r)
      in (event (if status = ''failed'' then ''error'' else if status = ''rejected'' then ''warning'' else ''info'')
            ''webhook'' (''webhook.delivery.'' @ status) (''Webhook delivery '' @ status) ''webhook_delivery'')
          \<lparr>ea_user_message := (if status = ''delivered'' then ''Webhook delivered'' else ''Webhook could not be delivered''),
           ea_target := [(''type'', JStr ''webhook''),
             (''id'', JStr (case r of None \<Rightarrow> [] | Some r \<Rightarrow> r_id r)),
             (''name'', JStr (case r of None \<Rightarrow> [] | Some r \<Rightarrow> r_name r)), (''backend'', JStr backend)],
           ea_source := [(''ip'', get_or_empty meta ''client_host''), (''user_agent'', get_or_empty meta ''user_agent''),
             (''x_forwarded_for'', get_or_empty meta ''x_forwarded_for'')],
           ea_http := [(''method'', get_or_empty meta ''method''),
             (''path'', JStr (sanitize_path (py_str (get_or_empty meta ''path'')))),
             (''content_type'', get_or_empty meta ''content_type''),
             (''content_length'', get_or_empty meta ''content_length'')],
           ea_security := [(''severity'', JStr (if status = ''rejected'' then ''medium'' else ''low'')),
             (''reason'', JStr (clip 160 (ef_error f)))],
           ea_raw := [(''delivery_result'', JDict (ef_result f)), (''normalized_message'', JDict (ef_message f))],
           ea_domain_event_id := Some event_id\<rparr>)"

text \<open>The partial unique index on route and idempotency key.\<close>

definition key_taken :: "webhook_route option \<Rightarrow> string option \<Rightarrow> db \<Rightarrow> bool" where
  "key_taken r key db =
     (case (r, key) of
        (Some r, Some k) \<Rightarrow> list_ex (\<lambda>d. d_route_id d = Some (r_id r) \<and> d_idempotency_key d = Some k) (deliveries db)
      | _ \<Rightarrow> False)"

text \<open>\<open>_record_event\<close> with \<open>event=None\<close>: the insert may violate the unique index.\<close>

definition record_new_event ::
  "world \<Rightarrow> settings \<Rightarrow> webhook_route option \<Rightarrow> string option \<Rightarrow> event_facts \<Rightarrow> string option \<Rightarrow> db \<Rightarrow>
   (exn + delivery_event) \<times> db" where
  "record_new_event w st r token_hash f key db =
     (if key_taken r key db then (Inl IntegrityError, db)
      else (let d = fill_event r token_hash f key (blank_event w (new_id db)) in
        (Inr d, emit_event w st (delivery_log r f (d_id d))
           (db\<lparr>deliveries := deliveries db @ [d], next_id := Suc (next_id db)\<rparr>))))"

text \<open>\<open>_record_event\<close> on an event that exists.\<close>

definition update_event ::
  "world \<Rightarrow> settings \<Rightarrow> webhook_route \<Rightarrow> event_facts \<Rightarrow> delivery_event \<Rightarrow> db \<Rightarrow> delivery_event \<times> db" where
  "update_event w st r f d db =
     (let d = fill_event (Some r) (Some (r_route_token_hash r)) f None d in
      (d, emit_event w st (delivery_log (Some r) f (d_id d))
            (db\<lparr>deliveries := save_row d_id d (deliveries db)\<rparr>)))"

definition record_event ::
  "world \<Rightarrow> settings \<Rightarrow> webhook_route \<Rightarrow> event_facts \<Rightarrow> delivery_event option \<Rightarrow> db \<Rightarrow>
   (exn + delivery_event) \<times> db" where
  "record_event w st r f ev db =
     (case ev of
        None \<Rightarrow> record_new_event w st (Some r) (Some (r_route_token_hash r)) f None db
      | Some d \<Rightarrow> (case update_event w st r f d db of (d, db) \<Rightarrow> (Inr d, db)))"

definition request_metadata ::
  "world \<Rightarrow> string \<times> string \<times> string \<times> string \<Rightarrow> request \<Rightarrow> string \<Rightarrow> string \<Rightarrow> (string \<times> json) list" where
  "request_metadata w resolved rq body idempotency_key =
     (let (client_host, direct, xff, source) = resolved in
      [(''trigger'', JStr ''external_webhook''), (''method'', JStr (rq_method rq)), (''path'', JStr (rq_path rq)),
       (''content_type'', JStr (header rq ''content-type'' [])),
       (''content_length'', JStr (header rq ''content-length'' (str_nat (length body)))),
       (''client_host'', JStr client_host), (''direct_client_host'', JStr direct), (''x_forwarded_for'', JStr xff),
       (''client_host_source'', JStr source), (''user_agent'', JStr (header rq ''user-agent'' [])),
       (''idempotency_key'', JStr idempotency_key), (''payload_preview'', JStr (payload_preview (utf8_decode w) body 2000))])"

section \<open>Idempotency\<close>

definition idempotency_char :: "char \<Rightarrow> bool" where
  "idempotency_char c = (let n = (of_char c :: nat) in
     (65 \<le> n \<and> n \<le> 90) \<or> (97 \<le> n \<and> n \<le> 122) \<or> (48 \<le> n \<and> n \<le> 57) \<or>
     c \<in> {CHR ''.'', CHR ''_'', CHR '':'', CHR ''-''})"

definition request_idempotency_key :: "request \<Rightarrow> string" where
  "request_idempotency_key rq =
     (let candidate = strip (header rq ''idempotency-key'' []) in
      if candidate = [] \<or> \<not> (list_all idempotency_char candidate \<and> 8 \<le> length candidate \<and> length candidate \<le> 120)
      then [] else clip 120 candidate)"

text \<open>\<open>ORDER BY created_at DESC, id DESC\<close>\<close>

definition newest_first :: "delivery_event list \<Rightarrow> delivery_event list" where
  "newest_first ds = rev (sort_key (\<lambda>d. (d_created_at d, d_id d)) ds)"

definition metadata_key :: "delivery_event \<Rightarrow> json" where
  "metadata_key d = (case d_request_metadata_json d of JDict kvs \<Rightarrow> dict_get kvs ''idempotency_key'' | _ \<Rightarrow> JNull)"

text \<open>
  The second query narrows the rows to those whose metadata text contains the key before the
  loop compares the key itself; a row the loop accepts passes that filter, so it is left out.
\<close>

definition find_idempotent_delivery :: "webhook_route \<Rightarrow> string \<Rightarrow> db \<Rightarrow> delivery_event option" where
  "find_idempotent_delivery r key db =
     (let mine = List.filter (\<lambda>d. d_route_id d = Some (r_id r) \<and>
            d_route_token_hash d = Some (r_route_token_hash r)) (deliveries db)
      in case newest_first (List.filter (\<lambda>d. d_idempotency_key d = Some key) mine) of
           d # _ \<Rightarrow> Some d
         | [] \<Rightarrow> fetch (\<lambda>d. metadata_key d = JStr key)
             (newest_first (List.filter (\<lambda>d. d_idempotency_key d = None) mine)))"

definition IDEMPOTENCY_PENDING_STALE_AFTER :: duration where
  "IDEMPOTENCY_PENDING_STALE_AFTER = minutes 15"

definition pending_delivery_is_stale :: "world \<Rightarrow> delivery_event \<Rightarrow> bool" where
  "pending_delivery_is_stale w d \<longleftrightarrow> IDEMPOTENCY_PENDING_STALE_AFTER < utcnow w - d_created_at d"

definition idempotent_delivery_outcome :: "world \<Rightarrow> delivery_event \<Rightarrow> exn + delivery_event \<times> bool" where
  "idempotent_delivery_outcome w d =
     (if d_status d = ''failed'' then Inl (HTTPException 502 (d_error d))
      else if d_status d = ''pending'' \<and> \<not> pending_delivery_is_stale w d
      then Inl (HTTPException 409 ''Webhook delivery is already being processed'')
      else Inr (d, d_status d = ''pending''))"

definition pending_facts ::
  "webhook_route \<Rightarrow> (string \<times> json) list \<Rightarrow> normalized_message \<Rightarrow> event_facts" where
  "pending_facts r meta m =
     \<lparr>ef_status = ''pending'', ef_metadata = meta,
      ef_message = (case to_dict m of JDict kvs \<Rightarrow> kvs | _ \<Rightarrow> []),
      ef_result = [(''backend'', JStr (route_delivery_backend r))], ef_error = []\<rparr>"

definition reserve_idempotent_delivery ::
  "world \<Rightarrow> settings \<Rightarrow> webhook_route \<Rightarrow> string \<Rightarrow> (string \<times> json) list \<Rightarrow> normalized_message \<Rightarrow> db \<Rightarrow>
   (exn + delivery_event \<times> bool) \<times> db" where
  "reserve_idempotent_delivery w st r key meta m db =
     (case find_idempotent_delivery r key db of
        Some d \<Rightarrow> (idempotent_delivery_outcome w d, db)
      | None \<Rightarrow>
          (case record_new_event w st (Some r) (Some (r_route_token_hash r)) (pending_facts r meta m) (Some key) db of
             (Inr d, db') \<Rightarrow> (Inr (d, True), db')
           | (Inl e, _) \<Rightarrow>
               (case find_idempotent_delivery r key db of
                  None \<Rightarrow> (Inl e, db)
                | Some d \<Rightarrow> (idempotent_delivery_outcome w d, db))))"

section \<open>Delivery\<close>

type_synonym relay_state = "db \<times> bot_token_manager option"

definition delivery_facts ::
  "string \<Rightarrow> (string \<times> json) list \<Rightarrow> normalized_message \<Rightarrow> (string \<times> json) list \<Rightarrow> string \<Rightarrow> event_facts" where
  "delivery_facts status meta m result err =
     \<lparr>ef_status = status, ef_metadata = meta, ef_message = (case to_dict m of JDict kvs \<Rightarrow> kvs | _ \<Rightarrow> []),
      ef_result = result, ef_error = err\<rparr>"

definition stamp_delivery :: "world \<Rightarrow> string \<Rightarrow> webhook_route \<Rightarrow> webhook_route" where
  "stamp_delivery w status r = r\<lparr>r_last_delivery_status := Some status, r_last_delivery_at := Some (utcnow w)\<rparr>"

text \<open>The route and the event are flushed together.\<close>

definition record_outcome ::
  "world \<Rightarrow> settings \<Rightarrow> webhook_route \<Rightarrow> event_facts \<Rightarrow> delivery_event option \<Rightarrow> db \<Rightarrow>
   (exn + delivery_event) \<times> db" where
  "record_outcome w st r f ev db = record_event w st r f ev (save_route w (stamp_delivery w (ef_status f) r) db)"

definition record_failed_delivery ::
  "world \<Rightarrow> settings \<Rightarrow> webhook_route \<Rightarrow> normalized_message \<Rightarrow> (string \<times> json) list \<Rightarrow> string \<Rightarrow>
   (string \<times> json) list \<Rightarrow> delivery_event option \<Rightarrow> db \<Rightarrow> (exn + delivery_event) \<times> db" where
  "record_failed_delivery w st r m meta err result ev db =
     record_outcome w st r (delivery_facts ''failed'' meta m result err) ev db"

definition deliver_by_graph ::
  "remote \<Rightarrow> world \<Rightarrow> settings \<Rightarrow> webhook_route \<Rightarrow> normalized_message \<Rightarrow> (string \<times> json) list \<Rightarrow>
   delivery_event option \<Rightarrow> db \<Rightarrow> (exn + delivery_event) \<times> db" where
  "deliver_by_graph rm w st r m meta ev db =
     (case send_graph_message rm w st (r_organization_id r) r m db of
        (Sent result, db) \<Rightarrow>
          record_outcome w st r (delivery_facts ''delivered'' meta m (graph_result_dict result) []) ev db
      | (Refused e, db) \<Rightarrow>
          record_failed_delivery w st r m meta (ge_message e)
            (if ge_result e \<noteq> [] then ge_result e
             else [(''backend'', JStr ''graph''), (''error_type'', JStr (ge_error_type e))]) ev db
      | (Raised e, db) \<Rightarrow> (Inl e, db))"

definition deliver_by_bot ::
  "remote \<Rightarrow> world \<Rightarrow> settings \<Rightarrow> webhook_route \<Rightarrow> normalized_message \<Rightarrow> (string \<times> json) list \<Rightarrow>
   delivery_event option \<Rightarrow> relay_state \<Rightarrow> (exn + delivery_event) \<times> relay_state" where
  "deliver_by_bot rm w st r m meta ev s =
     (case send_bot_activity rm w st (r_bot_service_url r) (r_bot_conversation_id r) m s of
        (Inr result, db, tokens) \<Rightarrow>
          (case record_outcome w st r
                  (delivery_facts ''delivered'' meta m (bot_result_dict result @ [(''backend'', JStr ''bot_framework'')]) [])
                  ev db of (res, db) \<Rightarrow> (res, db, tokens))
      | (Inl (BotDeliveryError message), db, tokens) \<Rightarrow>
          (case record_failed_delivery w st r m meta message [(''backend'', JStr ''bot_framework'')] ev db of
             (res, db) \<Rightarrow> (res, db, tokens))
      | (Inl e, s) \<Rightarrow> (Inl e, s))"

definition deliver_to_route ::
  "remote \<Rightarrow> world \<Rightarrow> settings \<Rightarrow> webhook_route \<Rightarrow> normalized_message \<Rightarrow> (string \<times> json) list \<Rightarrow>
   delivery_event option \<Rightarrow> relay_state \<Rightarrow> (exn + delivery_event) \<times> relay_state" where
  "deliver_to_route rm w st r m meta ev s =
     (let backend = route_delivery_backend r; (db, tokens) = s in
      if backend = ''graph'' then
        (case deliver_by_graph rm w st r m meta ev db of (res, db) \<Rightarrow> (res, db, tokens))
      else if backend \<noteq> ''bot_framework'' then
        (case record_failed_delivery w st r m meta (''Unsupported delivery backend: '' @ backend)
                [(''backend'', JStr backend)] ev db of (res, db) \<Rightarrow> (res, db, tokens))
      else deliver_by_bot rm w st r m meta ev s)"

section \<open>The handlers\<close>

record delivery_out =
  do_ok :: bool
  do_status :: string
  do_route_id :: string
  do_delivery_event_id :: string
  do_message :: string

definition rejected_facts :: "(string \<times> json) list \<Rightarrow> string \<Rightarrow> event_facts" where
  "rejected_facts meta err =
     \<lparr>ef_status = ''rejected'', ef_metadata = meta, ef_message = [], ef_result = [], ef_error = err\<rparr>"

text \<open>A request that is refused before its route is known, and one that its route refuses.\<close>

definition reject_unrouted ::
  "world \<Rightarrow> settings \<Rightarrow> string \<Rightarrow> string option \<Rightarrow> string \<Rightarrow> string \<Rightarrow> (string \<times> json) list \<Rightarrow> string \<Rightarrow> db \<Rightarrow> db" where
  "reject_unrouted w st client_host counted token_hash reason meta err db =
     snd (record_new_event w st None (Some token_hash) (rejected_facts meta err) None
       (snd (record_failure w st client_host counted reason db)))"

definition reject_routed ::
  "world \<Rightarrow> settings \<Rightarrow> string \<Rightarrow> string \<Rightarrow> webhook_route \<Rightarrow> string \<Rightarrow> (string \<times> json) list \<Rightarrow> string \<Rightarrow> nat \<Rightarrow> db \<Rightarrow>
   (exn + delivery_out) \<times> db" where
  "reject_routed w st client_host token_hash r reason meta err code db =
     (case record_new_event w st (Some r) (Some token_hash) (rejected_facts meta err) None
             (snd (record_failure w st client_host (Some token_hash) reason db)) of
        (Inl e, db') \<Rightarrow> (Inl e, db)
      | (Inr d, db') \<Rightarrow> (Inl (HTTPException code (d_error d)), save_route w (stamp_delivery w ''rejected'' r) db'))"

definition delivered_out :: "webhook_route \<Rightarrow> delivery_event \<Rightarrow> string \<Rightarrow> delivery_out" where
  "delivered_out r d message =
     \<lparr>do_ok = True, do_status = ''delivered'', do_route_id = r_id r, do_delivery_event_id = d_id d, do_message = message\<rparr>"

text \<open>From the reservation on: commit it, deliver, commit the outcome.\<close>

definition deliver_reserved ::
  "remote \<Rightarrow> world \<Rightarrow> settings \<Rightarrow> string \<Rightarrow> string \<Rightarrow> webhook_route \<Rightarrow> normalized_message \<Rightarrow> (string \<times> json) list \<Rightarrow>
   delivery_event \<Rightarrow> relay_state \<Rightarrow> (exn + delivery_out) \<times> relay_state" where
  "deliver_reserved rm w st client_host token_hash r m meta d s =
     (let (db, tokens) = s;
          committed = record_success w st client_host (Some token_hash) db
      in case deliver_to_route rm w st r m meta (Some d) (committed, tokens) of
           (Inl e, _, tokens') \<Rightarrow> (Inl e, committed, tokens')
         | (Inr d', db', tokens') \<Rightarrow>
             (if d_status d' = ''failed'' then Inl (HTTPException 502 (d_error d'))
              else Inr (delivered_out r d' ''Webhook delivered''), db', tokens'))"

definition accept_webhook ::
  "remote \<Rightarrow> world \<Rightarrow> settings \<Rightarrow> string \<Rightarrow> string \<Rightarrow> webhook_route \<Rightarrow> normalized_message \<Rightarrow> (string \<times> json) list \<Rightarrow>
   string \<Rightarrow> db \<Rightarrow> relay_state \<Rightarrow> (exn + delivery_out) \<times> relay_state" where
  "accept_webhook rm w st client_host token_hash r m meta key db s =
     (if key \<noteq> [] then
        (case reserve_idempotent_delivery w st r key meta m db of
           (Inl e, _) \<Rightarrow> (Inl e, s)
         | (Inr (d, should_deliver), db') \<Rightarrow>
             if \<not> should_deliver
             then (Inr \<lparr>do_ok = (d_status d = ''delivered''), do_status = d_status d, do_route_id = r_id r,
                        do_delivery_event_id = d_id d, do_message = ''Webhook delivery already processed''\<rparr>, s)
             else deliver_reserved rm w st client_host token_hash r m meta d (db', snd s))
      else
        (case record_new_event w st (Some r) (Some (r_route_token_hash r)) (pending_facts r meta m) None db of
           (Inl e, _) \<Rightarrow> (Inl e, s)
         | (Inr d, db') \<Rightarrow> deliver_reserved rm w st client_host token_hash r m meta d (db', snd s)))"

text \<open>The checks of a request whose route was found; \<open>s\<close> is the committed state to fall back to.\<close>

definition handle_routed ::
  "remote \<Rightarrow> world \<Rightarrow> settings \<Rightarrow> string \<Rightarrow> string \<Rightarrow> request \<Rightarrow> string \<Rightarrow> (string \<times> json) list \<Rightarrow> string \<Rightarrow>
   webhook_route \<Rightarrow> db \<Rightarrow> relay_state \<Rightarrow> (exn + delivery_out) \<times> relay_state" where
  "handle_routed rm w st client_host token_hash rq body meta key r db s =
     (let reject = (\<lambda>reason err code.
            case reject_routed w st client_host token_hash r reason meta err code db of (res, db') \<Rightarrow> (res, db', snd s));
          disabled = route_feature_disabled_message r st
      in if \<not> r_is_active r then reject ''route_disabled'' ''Webhook route is disabled'' 409
         else if disabled \<noteq> [] then reject ''delivery_backend_disabled'' disabled 409
         else (case route_allows_client_ip r client_host of
           Inl e \<Rightarrow> (Inl e, s)
         | Inr False \<Rightarrow> reject ''client_ip_not_allowed'' ''Client IP is not allowed for this webhook route'' 403
         | Inr True \<Rightarrow>
             (case normalize_webhook_payload (utf8_decode w) (json_loads w) body (map_of (rq_headers rq) ''content-type'') of
                Inl (WebhookPayloadError message) \<Rightarrow> reject ''invalid_payload'' message 400
              | Inl e \<Rightarrow> (Inl e, s)
              | Inr m \<Rightarrow> accept_webhook rm w st client_host token_hash r m meta key db s)))"

definition receive_webhook ::
  "remote \<Rightarrow> world \<Rightarrow> settings \<Rightarrow> string \<Rightarrow> request \<Rightarrow> relay_state \<Rightarrow> (exn + delivery_out) \<times> relay_state" where
  "receive_webhook rm w st route_token rq s =
     (let token_hash = lookup_secret_hash w route_token in
      case resolve_client_host st rq of
        Inl e \<Rightarrow> (Inl e, s)
      | Inr resolved \<Rightarrow>
          (let client_host = fst resolved in
           case check_block w st client_host (Some token_hash) (fst s) of
             (Some _, db) \<Rightarrow> (Inl (HTTPException 429 BLOCKED_WEBHOOK_DETAIL), db, snd s)
           | (None, db) \<Rightarrow>
               (let key = request_idempotency_key rq in
                case read_limited_body rq (webhook_max_payload_bytes st) of
                  TooLarge partial_body \<Rightarrow>
                    (let err = ''Payload exceeds '' @ str_int (webhook_max_payload_bytes st) @ '' bytes'' in
                     (Inl (HTTPException 400 (clip 1000 err)),
                      reject_unrouted w st client_host (Some token_hash) token_hash ''payload_too_large''
                        (request_metadata w resolved rq partial_body key) err db, snd s))
                | Body body \<Rightarrow>
                    (let meta = request_metadata w resolved rq body key in
                     case fetch (\<lambda>r. r_route_token_hash r = token_hash) (routes db) of
                       None \<Rightarrow>
                         (Inl (HTTPException 404 ''Webhook route not found''),
                          reject_unrouted w st client_host None token_hash ''unknown_route'' meta
                            ''Unknown webhook route'' db, snd s)
                     | Some r \<Rightarrow> handle_routed rm w st client_host token_hash rq body meta key r db s))))"

section \<open>Lemmas on looking up a key\<close>

lemma insort_key_map:
  "f (g x) = f x \<Longrightarrow> \<forall>y \<in> set xs. f (g y) = f y \<Longrightarrow> insort_key f (g x) (List.map g xs) = List.map g (insort_key f x xs)"
  by (induction xs) auto

lemma sort_key_map:
  "\<forall>x \<in> set xs. f (g x) = f x \<Longrightarrow> sort_key f (List.map g xs) = List.map g (sort_key f xs)"
proof (induction xs)
  case (Cons x xs)
  have "insort_key f (g x) (List.map g (sort_key f xs)) = List.map g (insort_key f x (sort_key f xs))"
    using Cons.prems by (intro insort_key_map) auto
  then show ?case using Cons by simp
qed simp

lemma filter_map_same: "\<forall>x \<in> set xs. P (g x) = P x \<Longrightarrow> List.filter P (List.map g xs) = List.map g (List.filter P xs)"
  by (induction xs) auto

lemma fetch_map: "\<forall>x \<in> set xs. P (g x) = P x \<Longrightarrow> fetch P (List.map g xs) = map_option g (fetch P xs)"
  by (induction xs) auto

lemma set_newest_first [simp]: "set (newest_first ds) = set ds"
  by (simp add: newest_first_def)

lemma newest_first_map:
  "\<forall>d \<in> set ds. d_created_at (g d) = d_created_at d \<and> d_id (g d) = d_id d \<Longrightarrow>
   newest_first (List.map g ds) = List.map g (newest_first ds)"
  by (simp add: newest_first_def sort_key_map rev_map)

lemma newest_first_Nil_iff [simp]: "newest_first ds = [] \<longleftrightarrow> ds = []"
  using set_newest_first [of ds] by (metis set_empty)

lemma newest_first_Nil [simp]: "newest_first [] = []"
  by simp

text \<open>The lookup as a function of the rows.\<close>

definition key_rows :: "webhook_route \<Rightarrow> string option \<Rightarrow> delivery_event list \<Rightarrow> delivery_event list" where
  "key_rows r key ds = List.filter (\<lambda>d. d_route_id d = Some (r_id r) \<and>
     d_route_token_hash d = Some (r_route_token_hash r) \<and> d_idempotency_key d = key) ds"

lemma find_idempotent_rows:
  "find_idempotent_delivery r key db =
     (case newest_first (key_rows r (Some key) (deliveries db)) of
        d # _ \<Rightarrow> Some d
      | [] \<Rightarrow> fetch (\<lambda>d. metadata_key d = JStr key) (newest_first (key_rows r None (deliveries db))))"
proof -
  have rows: "List.filter (\<lambda>d. d_idempotency_key d = k) (List.filter (\<lambda>d. d_route_id d = Some (r_id r) \<and>
      d_route_token_hash d = Some (r_route_token_hash r)) ds) = key_rows r k ds" for k ds
    unfolding key_rows_def by (induction ds) auto
  show ?thesis by (simp only: find_idempotent_delivery_def Let_def rows)
qed

lemma find_idempotent_Some:
  assumes "find_idempotent_delivery r key db = Some d"
  shows "d \<in> set (deliveries db)" "d_route_id d = Some (r_id r)" "d_route_token_hash d = Some (r_route_token_hash r)"
    "d_idempotency_key d = Some key \<or> (d_idempotency_key d = None \<and> metadata_key d = JStr key)"
proof -
  have "d \<in> set (newest_first (key_rows r (Some key) (deliveries db))) \<or>
      (d \<in> set (newest_first (key_rows r None (deliveries db))) \<and> metadata_key d = JStr key)"
    using assms unfolding find_idempotent_rows
    by (cases "newest_first (key_rows r (Some key) (deliveries db))") (auto dest: fetch_Some)
  then show "d \<in> set (deliveries db)" "d_route_id d = Some (r_id r)" "d_route_token_hash d = Some (r_route_token_hash r)"
    "d_idempotency_key d = Some key \<or> (d_idempotency_key d = None \<and> metadata_key d = JStr key)"
    by (auto simp: key_rows_def)
qed

lemma find_idempotent_None:
  "find_idempotent_delivery r key db = None \<Longrightarrow> key_rows r (Some key) (deliveries db) = []"
  unfolding find_idempotent_rows
  by (cases "newest_first (key_rows r (Some key) (deliveries db))") auto

lemma find_idempotent_cong:
  "r_id r = r_id r' \<Longrightarrow> r_route_token_hash r = r_route_token_hash r' \<Longrightarrow> deliveries db = deliveries db' \<Longrightarrow>
   find_idempotent_delivery r key db = find_idempotent_delivery r' key db'"
  by (simp add: find_idempotent_delivery_def)

text \<open>Changing rows in what the lookup does not read changes only the row it returns.\<close>

lemma find_idempotent_map:
  assumes "\<forall>x \<in> set (deliveries db). d_id (g x) = d_id x \<and> d_route_id (g x) = d_route_id x \<and>
      d_route_token_hash (g x) = d_route_token_hash x \<and> d_idempotency_key (g x) = d_idempotency_key x \<and>
      d_created_at (g x) = d_created_at x \<and>
      (d_idempotency_key x = None \<longrightarrow> (metadata_key (g x) = JStr key) = (metadata_key x = JStr key))"
    and "deliveries db' = List.map g (deliveries db)"
  shows "find_idempotent_delivery r key db' = map_option g (find_idempotent_delivery r key db)"
proof -
  have rows: "key_rows r k (deliveries db') = List.map g (key_rows r k (deliveries db))" for k
    unfolding key_rows_def assms(2) using assms(1) by (intro filter_map_same) auto
  have sub: "set (key_rows r k (deliveries db)) \<subseteq> set (deliveries db)" for k
    by (auto simp: key_rows_def)
  have newest: "newest_first (key_rows r k (deliveries db')) = List.map g (newest_first (key_rows r k (deliveries db)))" for k
    unfolding rows using assms(1) sub [of k] by (intro newest_first_map) blast
  have "fetch (\<lambda>d. metadata_key d = JStr key) (List.map g (newest_first (key_rows r None (deliveries db)))) =
      map_option g (fetch (\<lambda>d. metadata_key d = JStr key) (newest_first (key_rows r None (deliveries db))))"
    using assms(1) by (intro fetch_map) (auto simp: key_rows_def)
  then show ?thesis
    unfolding find_idempotent_rows newest
    by (cases "newest_first (key_rows r (Some key) (deliveries db))") simp_all
qed

lemma find_idempotent_new:
  assumes "key_rows r (Some key) (deliveries db) = []"
    and "deliveries db' = deliveries db @ [d]" and "d_route_id d = Some (r_id r)"
    and "d_route_token_hash d = Some (r_route_token_hash r)" and "d_idempotency_key d = Some key"
  shows "find_idempotent_delivery r key db' = Some d"
proof -
  have "key_rows r (Some key) (deliveries db') = [d]"
    using assms by (simp add: key_rows_def)
  then show ?thesis by (simp add: find_idempotent_rows newest_first_def)
qed

section \<open>Lemmas on recording\<close>

lemma fill_event_fields [simp]:
  "d_id (fill_event r h f k d) = d_id d" "d_created_at (fill_event r h f k d) = d_created_at d"
  "d_route_id (fill_event r h f k d) = map_option r_id r" "d_route_token_hash (fill_event r h f k d) = h"
  "d_status (fill_event r h f k d) = ef_status f"
  "d_idempotency_key (fill_event r h f k d) = (case k of None \<Rightarrow> d_idempotency_key d | Some k \<Rightarrow> Some k)"
  "metadata_key (fill_event r h f k d) = dict_get (ef_metadata f) ''idempotency_key''"
  "d_error (fill_event r h f k d) = clip 1000 (ef_error f)"
  by (simp_all add: fill_event_def metadata_key_def)

lemma blank_event_fields [simp]: "d_id (blank_event w i) = i" "d_created_at (blank_event w i) = utcnow w"
    "d_idempotency_key (blank_event w i) = None"
  by (simp_all add: blank_event_def)

lemma request_metadata_key [simp]:
  "dict_get (request_metadata w resolved rq body key) ''idempotency_key'' = JStr key"
  by (simp add: request_metadata_def split: prod.splits)

lemma record_new_event_Inr:
  assumes "record_new_event w st r h f key db = (Inr d, db')"
  shows "d = fill_event r h f key (blank_event w (new_id db))" "deliveries db' = deliveries db @ [d]"
    "routes db' = routes db" "buckets db' = buckets db" "next_id db' = Suc (Suc (next_id db))"
    "\<not> key_taken r key db" "credentials db' = credentials db" "pendings db' = pendings db"
  using assms by (auto simp: record_new_event_def Let_def split: if_splits)

lemma record_new_event_unkeyed [simp]:
  "fst (record_new_event w st r h f None db) \<noteq> Inl e"
  by (auto simp: record_new_event_def key_taken_def Let_def split: option.splits)

lemma update_event_fields:
  assumes "update_event w st r f d db = (d', db')"
  shows "d' = fill_event (Some r) (Some (r_route_token_hash r)) f None d"
    "deliveries db' = save_row d_id d' (deliveries db)" "routes db' = routes db" "buckets db' = buckets db"
    "next_id db' = Suc (next_id db)"
  using assms by (auto simp: update_event_def Let_def)

text \<open>Every way a delivery can end, of a reserved event or with a new one: two outcomes, or an
  uncaught exception.\<close>

definition delivery_recorded ::
  "world \<Rightarrow> settings \<Rightarrow> webhook_route \<Rightarrow> (string \<times> json) list \<Rightarrow> delivery_event option \<Rightarrow> db \<Rightarrow> delivery_event \<Rightarrow> db \<Rightarrow> bool" where
  "delivery_recorded w st r meta ev db d' db' \<longleftrightarrow>
     (\<exists>f db1. sending_frame db db1 \<and> ef_metadata f = meta \<and>
        (ef_status f = ''delivered'' \<or> ef_status f = ''failed'') \<and>
        record_event w st r f ev (save_route w (stamp_delivery w (ef_status f) r) db1) = (Inr d', db'))"

lemma record_event_Some: "record_event w st r f (Some d) db = (Inr d', db') \<longleftrightarrow> update_event w st r f d db = (d', db')"
  by (auto simp: record_event_def split: prod.splits)

lemma record_event_None:
  "record_event w st r f None db = record_new_event w st (Some r) (Some (r_route_token_hash r)) f None db"
  by (simp add: record_event_def)

lemma record_outcome_recorded:
  assumes "record_outcome w st r (delivery_facts s meta m res err) ev db1 = (Inr d', db')"
    and "sending_frame db db1" and "s = ''delivered'' \<or> s = ''failed''"
  shows "delivery_recorded w st r meta ev db d' db'"
  using assms unfolding delivery_recorded_def
  by (intro exI [of _ "delivery_facts s meta m res err"] exI [of _ db1])
    (auto simp: record_outcome_def delivery_facts_def)

lemma deliver_by_graph_recorded:
  assumes "deliver_by_graph rm w st r m meta ev db = (Inr d', db')"
  shows "delivery_recorded w st r meta ev db d' db'"
proof -
  obtain res db1 where send: "send_graph_message rm w st (r_organization_id r) r m db = (res, db1)" by fastforce
  note fr = send_graph_message_frame [OF send]
  show ?thesis
    using assms send by (cases res)
      (auto simp: deliver_by_graph_def record_failed_delivery_def intro: record_outcome_recorded [OF _ fr])
qed

lemma deliver_by_bot_recorded:
  assumes "deliver_by_bot rm w st r m meta ev (db, tk) = (Inr d', db', tk')"
  shows "delivery_recorded w st r meta ev db d' db'"
proof -
  obtain res db1 tk1 where send:
    "send_bot_activity rm w st (r_bot_service_url r) (r_bot_conversation_id r) m (db, tk) = (res, db1, tk1)"
    by (metis prod_cases3)
  note fr = logged_sending_frame [OF send_bot_activity_logged [OF send]]
  show ?thesis
  proof (cases res)
    case (Inl e)
    then show ?thesis
      using assms send by (cases e) (auto simp: deliver_by_bot_def record_failed_delivery_def split: prod.splits
          intro: record_outcome_recorded [OF _ fr])
  next
    case (Inr x)
    then show ?thesis
      using assms send by (auto simp: deliver_by_bot_def split: prod.splits intro: record_outcome_recorded [OF _ fr])
  qed
qed

lemma deliver_to_route_recorded:
  assumes "deliver_to_route rm w st r m meta ev (db, tk) = (Inr d', db', tk')"
  shows "delivery_recorded w st r meta ev db d' db'"
  using assms
  by (auto simp: deliver_to_route_def Let_def record_failed_delivery_def split: if_splits prod.splits
      intro: deliver_by_graph_recorded deliver_by_bot_recorded record_outcome_recorded [OF _ sending_frame_refl])

end
