(* ===== verification/Relay_Invariant.thy ===== *)
theory Relay_Invariant
  imports Relay
begin

text \<open>
  What every request to the relay keeps: the keys of its tables stay unique, the routes stay
  the same routes, and a delivery event whose outcome is recorded is never written again.
  The facts are proved for the steps a request is made of and composed along
  \<open>receive_webhook\<close>.
\<close>

section \<open>The invariant\<close>

definition events_ok :: "db \<Rightarrow> bool" where
  "events_ok db \<longleftrightarrow> fresh_ids d_id (next_id db) (deliveries db) \<and>
     (\<forall>d \<in> set (deliveries db). \<forall>e \<in> set (deliveries db).
        d_route_id d = d_route_id e \<and> d_idempotency_key d = d_idempotency_key e \<longrightarrow>
        d_route_id d = None \<or> d_idempotency_key d = None \<or> d = e)"

definition routes_ok :: "db \<Rightarrow> bool" where
  "routes_ok db \<longleftrightarrow> fresh_ids r_id (next_id db) (routes db) \<and> distinct (List.map r_route_token_hash (routes db))"

definition relay_ok :: "db \<Rightarrow> bool" where
  "relay_ok db \<longleftrightarrow> buckets_ok db \<and> routes_ok db \<and> events_ok db"

text \<open>What identifies the routes.\<close>

definition route_keys :: "db \<Rightarrow> (string \<times> string) list" where
  "route_keys db = List.map (\<lambda>r. (r_id r, r_route_token_hash r)) (routes db)"

text \<open>All of a route but the outcome of its last delivery.\<close>

definition route_core :: "webhook_route \<Rightarrow> webhook_route" where
  "route_core r = r\<lparr>r_last_delivery_status := None, r_last_delivery_at := None, r_updated_at := 0\<rparr>"

definition route_cores :: "db \<Rightarrow> webhook_route list" where
  "route_cores db = List.map route_core (routes db)"

lemma route_cores_columns:
  assumes "route_cores b = route_cores a" and "\<And>r. g (route_core r) = g r"
  shows "List.map g (routes b) = List.map g (routes a)"
proof -
  have "List.map g (routes db) = List.map g (route_cores db)" for db
    by (simp add: route_cores_def assms(2))
  then show ?thesis by (simp add: assms(1))
qed

lemma route_core_same [simp]:
  "r_id (route_core r) = r_id r" "r_route_token_hash (route_core r) = r_route_token_hash r"
  by (simp_all add: route_core_def)

lemma route_cores_keys: "route_cores b = route_cores a \<Longrightarrow> route_keys b = route_keys a"
  unfolding route_keys_def by (erule route_cores_columns) simp

interpretation event_rows: table_invariant deliveries events_ok
  by unfold_locales (auto simp: events_ok_def intro: fresh_ids_mono)

interpretation route_rows: table_invariant routes routes_ok
  by unfold_locales (auto simp: routes_ok_def intro: fresh_ids_mono)

section \<open>Steps\<close>

text \<open>A step of the relay: under the invariant it keeps the invariant, the identities of the
  routes and the finished events.\<close>

definition relay_step :: "db \<Rightarrow> db \<Rightarrow> bool" where
  "relay_step a b \<longleftrightarrow> (relay_ok a \<longrightarrow> relay_ok b \<and> route_cores b = route_cores a \<and> next_id a \<le> next_id b \<and>
     (\<forall>d \<in> set (deliveries a). d_status d \<noteq> ''pending'' \<longrightarrow> d \<in> set (deliveries b)))"

lemma relay_step_refl [simp]: "relay_step a a"
  by (simp add: relay_step_def)

lemma relay_step_trans [trans]: "relay_step a b \<Longrightarrow> relay_step b c \<Longrightarrow> relay_step a c"
  by (auto simp: relay_step_def)

text \<open>Steps that leave the tables of the relay alone but the buckets.\<close>

definition bucket_frame :: "db \<Rightarrow> db \<Rightarrow> bool" where
  "bucket_frame a b \<longleftrightarrow>
     (\<exists>bs es n. b = a\<lparr>buckets := bs, event_log := event_log a @ es, next_id := n\<rparr> \<and> next_id a \<le> n)"

lemma bucket_frame_refl [simp]: "bucket_frame a a"
  unfolding bucket_frame_def
  by (rule exI [of _ "buckets a"], rule exI [of _ "[]"], rule exI [of _ "next_id a"]) simp

lemma bucket_frame_trans [trans]: "bucket_frame a b \<Longrightarrow> bucket_frame b c \<Longrightarrow> bucket_frame a c"
  unfolding bucket_frame_def by fastforce

lemma bucket_frame_emit [simp]: "bucket_frame db (emit_event w st e db)"
  unfolding bucket_frame_def emit_event_def
  by (rule exI [of _ "buckets db"], rule exI, rule exI [of _ "Suc (next_id db)"]) simp

lemma bucket_frame_buckets [simp]: "bucket_frame db (db\<lparr>buckets := bs\<rparr>)"
  unfolding bucket_frame_def
  by (rule exI [of _ bs], rule exI [of _ "[]"], rule exI [of _ "next_id db"]) simp

lemma bucket_frame_new [simp]: "bucket_frame db (db\<lparr>buckets := bs, next_id := Suc (next_id db)\<rparr>)"
  unfolding bucket_frame_def
  by (rule exI [of _ bs], rule exI [of _ "[]"], rule exI [of _ "Suc (next_id db)"]) simp

lemma bucket_frame_more [intro]:
  "bucket_frame a db \<Longrightarrow> bucket_frame a (emit_event w st e db)"
  "bucket_frame a db \<Longrightarrow> bucket_frame a (db\<lparr>buckets := bs\<rparr>)"
  by (auto intro: bucket_frame_trans)

lemma bucket_frame_tables:
  assumes "bucket_frame a b"
  shows "routes b = routes a" "deliveries b = deliveries a" "next_id a \<le> next_id b"
    "reveals b = reveals a" "credentials b = credentials a"
  using assms by (auto simp: bucket_frame_def)

lemma get_or_create_bucket_frame: "bucket_frame db (snd (get_or_create_bucket w st h scope rth db))"
  by (simp add: get_or_create_bucket_def Let_def split: option.splits)

lemma record_scope_failure_frame: "bucket_frame (snd acc) (snd (record_scope_failure w st h rth reason sc acc))"
proof -
  obtain b db1 where g: "get_or_create_bucket w st h (fst sc) (snd sc) (snd acc) = (b, db1)"
    by fastforce
  have "bucket_frame (snd acc) db1"
    using get_or_create_bucket_frame [of "snd acc" w st h "fst sc" "snd sc"] g by simp
  then show ?thesis
    using g by (auto simp: record_scope_failure_def Let_def split_beta save_bucket_def)
qed

lemma record_failure_frame: "bucket_frame db (snd (record_failure w st h rth reason db))"
proof -
  have "bucket_frame (snd acc) (snd (fold (record_scope_failure w st h rth reason) scs acc))" for scs acc
  proof (induction scs arbitrary: acc)
    case (Cons sc scs)
    show ?case
      using bucket_frame_trans [OF record_scope_failure_frame Cons.IH] by simp
  qed simp
  from this [of "([], db)"] show ?thesis by (simp add: record_failure_def)
qed

lemma record_success_frame: "bucket_frame db (record_success w st h rth db)"
  by (simp add: record_success_def save_bucket_def split: option.splits)

lemma check_block_frame: "bucket_frame db (snd (check_block w st h rth db))"
  by (simp add: check_block_def Let_def)

lemma bucket_frame_step:
  assumes "bucket_frame a b" and "buckets_ok a \<Longrightarrow> buckets_ok b"
  shows "relay_step a b"
  using assms bucket_frame_tables [OF assms(1)]
  by (auto simp: relay_step_def relay_ok_def route_cores_def intro: event_rows.inv_frame route_rows.inv_frame)

lemmas abuse_steps =
  bucket_frame_step [OF record_failure_frame record_failure_ok]
  bucket_frame_step [OF record_success_frame record_success_ok]
  bucket_frame_step [OF check_block_frame check_block_ok]

lemma sending_frame_step: "sending_frame a b \<Longrightarrow> relay_step a b"
  using sending_frame_tables [of a b]
  by (auto simp: relay_step_def relay_ok_def route_cores_def
      intro: event_rows.inv_frame route_rows.inv_frame bucket_rows.inv_frame)

section \<open>Writing routes and events\<close>

text \<open>A route is written back with its identity.\<close>

lemma save_route_step:
  assumes "r0 \<in> set (routes db)" and "route_core r = route_core r0"
  shows "relay_step db (save_route w r db)"
proof -
  have same: "r_id r = r_id r0" using assms(2) by (metis route_core_same(1))
  have stamp: "route_core (r\<lparr>r_updated_at := t\<rparr>) = route_core r" for t by (simp add: route_core_def)
  { assume ok: "relay_ok db"
    then have fresh: "fresh_ids r_id (next_id db) (routes db)" by (simp add: relay_ok_def routes_ok_def)
    have cores: "route_cores (save_route w r db) = route_cores db"
      using assms same stamp fresh_ids_inject [OF fresh _ assms(1)]
      by (auto simp: route_cores_def save_route_def save_row_def update_rows_def)
    have "List.map r_route_token_hash (routes (save_route w r db)) = List.map r_route_token_hash (routes db)"
      by (rule route_cores_columns [OF cores]) simp
    then have "routes_ok (save_route w r db)"
      using ok fresh_ids_save [OF fresh] by (simp add: relay_ok_def routes_ok_def save_route_def)
    moreover have "buckets_ok (save_route w r db)" "events_ok (save_route w r db)"
      using ok by (auto simp: relay_ok_def save_route_def intro: bucket_rows.inv_frame event_rows.inv_frame)
    ultimately have "relay_ok (save_route w r db)" by (simp add: relay_ok_def)
    note this cores }
  then show ?thesis by (simp add: relay_step_def save_route_def)
qed

lemma record_new_event_step: "relay_step db (snd (record_new_event w st r h f key db))"
proof (cases "record_new_event w st r h f key db")
  case (Pair res db')
  show ?thesis
  proof (cases res)
    case (Inl e)
    then show ?thesis using Pair by (auto simp: record_new_event_def Let_def split: if_splits)
  next
    case (Inr d)
    note rec = record_new_event_Inr [OF Pair [unfolded Inr]]
    { assume ok: "relay_ok db"
      then have fresh: "fresh_ids d_id (next_id db) (deliveries db)" by (simp add: relay_ok_def events_ok_def)
      have "fresh_ids d_id (Suc (next_id db)) (deliveries db')"
        unfolding rec(2) using fresh by (rule fresh_ids_snoc) (simp add: rec(1) new_id_def)
      moreover have "d_route_id d = None \<or> d_idempotency_key d = None"
        if "x \<in> set (deliveries db)" "d_route_id x = d_route_id d" "d_idempotency_key x = d_idempotency_key d" for x
        using that rec(6) by (auto simp: rec(1) key_taken_def list_ex_iff split: option.splits)
      ultimately have "events_ok db'"
        using ok unfolding events_ok_def relay_ok_def rec(2,5) by (auto simp: eq_commute)
      moreover have "buckets_ok db'" "routes_ok db'"
        using ok rec by (auto simp: relay_ok_def intro: bucket_rows.inv_frame route_rows.inv_frame)
      ultimately have "relay_ok db'" by (simp add: relay_ok_def) }
    then show ?thesis using Pair rec by (simp add: relay_step_def route_cores_def)
  qed
qed

lemma recorded_step: "record_new_event w st r h f key db = (res, db') \<Longrightarrow> relay_step db db'"
  using record_new_event_step [of db w st r h f key] by simp

text \<open>An event whose outcome is still open may be filled in, for the route it belongs to.\<close>

lemma update_event_step:
  assumes "update_event w st r f d db = (d', db')" and "d \<in> set (deliveries db)"
    and "d_route_id d = Some (r_id r)" and "d_status d = ''pending''"
  shows "relay_step db db'"
proof -
  note up = update_event_fields [OF assms(1)]
  have same: "d_id d' = d_id d" "d_route_id d' = d_route_id d" "d_idempotency_key d' = d_idempotency_key d"
    using assms(3) by (simp_all add: up(1))
  { assume ok: "relay_ok db"
    then have fresh: "fresh_ids d_id (next_id db) (deliveries db)" by (simp add: relay_ok_def events_ok_def)
    have rows: "x \<in> set (deliveries db') \<longleftrightarrow> (x \<in> set (deliveries db) \<and> d_id x \<noteq> d_id d) \<or> x = d'" for x
      using assms(2) same(1) by (auto simp: up(2) set_save_row)
    have "fresh_ids d_id (next_id db') (deliveries db')"
      unfolding up(2,5) using fresh by (intro fresh_ids_Suc fresh_ids_save)
    moreover have "d_route_id x = None \<or> d_idempotency_key x = None \<or> x = y"
      if xy: "x \<in> set (deliveries db')" "y \<in> set (deliveries db')" "d_route_id x = d_route_id y"
        "d_idempotency_key x = d_idempotency_key y" for x y
    proof -
      have unique: "d_route_id u = None \<or> d_idempotency_key u = None \<or> u = v"
        if "u \<in> set (deliveries db)" "v \<in> set (deliveries db)" "d_route_id u = d_route_id v"
          "d_idempotency_key u = d_idempotency_key v" for u v
        using that ok unfolding relay_ok_def events_ok_def by blast
      show ?thesis
        using xy(1,2) unfolding rows
      proof (elim disjE conjE)
        assume "x \<in> set (deliveries db)" "y \<in> set (deliveries db)"
        then show ?thesis using unique xy(3,4) by blast
      next
        assume "x \<in> set (deliveries db)" "d_id x \<noteq> d_id d" "y = d'"
        then show ?thesis using unique [of x d] xy(3,4) assms(2) same by auto
      next
        assume "y \<in> set (deliveries db)" "d_id y \<noteq> d_id d" "x = d'"
        then show ?thesis using unique [of d y] xy(3,4) assms(2) same by auto
      qed simp
    qed
    ultimately have "events_ok db'"
      unfolding events_ok_def by blast
    moreover have "buckets_ok db'" "routes_ok db'"
      using ok up by (auto simp: relay_ok_def intro: bucket_rows.inv_frame route_rows.inv_frame)
    ultimately have "relay_ok db'" by (simp add: relay_ok_def)
    moreover have "x \<in> set (deliveries db')" if "x \<in> set (deliveries db)" "d_status x \<noteq> ''pending''" for x
      using that assms(4) fresh_ids_inject [OF fresh that(1) assms(2)] by (auto simp: rows)
    moreover note calculation }
  then show ?thesis using up by (auto simp: relay_step_def route_cores_def)
qed

section \<open>The steps of a request\<close>

lemma delivery_recorded_step:
  assumes "delivery_recorded w st r meta (Some d) db d' db'" and "r \<in> set (routes db)" and "d \<in> set (deliveries db)"
    and "d_route_id d = Some (r_id r)" and "d_status d = ''pending''"
  shows "relay_step db db'"
proof -
  obtain f db1 where fr: "sending_frame db db1"
    and up: "update_event w st r f d (save_route w (stamp_delivery w (ef_status f) r) db1) = (d', db')"
    using assms(1) by (auto simp: delivery_recorded_def record_event_Some)
  note tabs = sending_frame_tables [OF fr]
  have "relay_step db db1" by (rule sending_frame_step [OF fr])
  also have "relay_step db1 (save_route w (stamp_delivery w (ef_status f) r) db1)"
    using assms(2) tabs(1) by (intro save_route_step [of r]) (simp_all add: stamp_delivery_def route_core_def)
  also have "relay_step (save_route w (stamp_delivery w (ef_status f) r) db1) db'"
    using assms(3-) tabs(2) by (intro update_event_step [OF up]) (simp_all add: save_route_def)
  finally show ?thesis .
qed

lemma deliver_reserved_step:
  assumes "r \<in> set (routes (fst s))" and "d \<in> set (deliveries (fst s))" and "d_route_id d = Some (r_id r)"
    and "d_status d = ''pending''"
  shows "relay_step (fst s) (fst (snd (deliver_reserved rm w st h th r m meta d s)))"
proof -
  obtain db tk where s: "s = (db, tk)" by fastforce
  let ?c = "record_success w st h (Some th) db"
  have c: "relay_step db ?c" "routes ?c = routes db" "deliveries ?c = deliveries db"
    using abuse_steps(2) bucket_frame_tables [OF record_success_frame] by auto
  show ?thesis
  proof (cases "deliver_to_route rm w st r m meta (Some d) (?c, tk)")
    case (fields res db' tk')
    then show ?thesis
    proof (cases res)
      case (Inl e)
      then show ?thesis using fields c by (simp add: deliver_reserved_def s Let_def)
    next
      case (Inr d')
      have "relay_step ?c db'"
        using fields Inr assms s c by (intro delivery_recorded_step [OF deliver_to_route_recorded]) auto
      then show ?thesis
        using fields Inr c by (auto simp: deliver_reserved_def s Let_def intro: relay_step_trans)
    qed
  qed
qed

lemma outcome_cases:
  "idempotent_delivery_outcome w d = Inr (d', b) \<Longrightarrow> d' = d \<and> b = (d_status d = ''pending'') \<and> d_status d \<noteq> ''failed''"
  by (auto simp: idempotent_delivery_outcome_def split: if_splits)

lemma pending_facts_status [simp]: "ef_status (pending_facts r meta m) = ''pending''"
  "ef_metadata (pending_facts r meta m) = meta"
  by (simp_all add: pending_facts_def)

text \<open>A reservation ends with an event of the route; when it is to be delivered, the event is pending.\<close>

lemma reserve_cases:
  assumes "reserve_idempotent_delivery w st r key meta m db = (Inr (d, deliver), db')"
  obtains (found) "find_idempotent_delivery r key db = Some d" "db' = db" "deliver = (d_status d = ''pending'')"
      "d_status d \<noteq> ''failed''"
  | (reserved) "find_idempotent_delivery r key db = None" "deliver"
      "record_new_event w st (Some r) (Some (r_route_token_hash r)) (pending_facts r meta m) (Some key) db = (Inr d, db')"
  using assms outcome_cases
  by (auto simp: reserve_idempotent_delivery_def split: option.splits prod.splits sum.splits)

lemma reserve_pending:
  assumes "reserve_idempotent_delivery w st r key meta m db = (Inr (d, True), db')"
  shows "relay_step db db'" "d \<in> set (deliveries db')" "d_route_id d = Some (r_id r)" "d_status d = ''pending''"
    "routes db' = routes db"
proof -
  have "relay_step db db' \<and> d \<in> set (deliveries db') \<and> d_route_id d = Some (r_id r) \<and> d_status d = ''pending'' \<and>
      routes db' = routes db"
    using assms
  proof (cases rule: reserve_cases)
    case found
    then show ?thesis using find_idempotent_Some [OF found(1)] by auto
  next
    case reserved
    then show ?thesis
      using record_new_event_Inr [OF reserved(3)] recorded_step [OF reserved(3)] by simp
  qed
  then show "relay_step db db'" "d \<in> set (deliveries db')" "d_route_id d = Some (r_id r)" "d_status d = ''pending''"
    "routes db' = routes db" by auto
qed

lemma accept_webhook_step:
  assumes "r \<in> set (routes db)" and "relay_step (fst s) db"
  shows "relay_step (fst s) (fst (snd (accept_webhook rm w st h th r m meta key db s)))"
proof -
  have deliver: "relay_step (fst s) (fst (snd (deliver_reserved rm w st h th r m meta d (db', snd s))))"
    if "relay_step db db'" "d \<in> set (deliveries db')" "d_route_id d = Some (r_id r)" "d_status d = ''pending''"
      "routes db' = routes db" for d db'
    using relay_step_trans [OF assms(2) relay_step_trans [OF that(1)]] that assms(1)
      deliver_reserved_step [of r "(db', snd s)" d rm w st h th m meta] by simp
  show ?thesis
  proof (cases "key = []")
    case True
    obtain res db' where new: "record_new_event w st (Some r) (Some (r_route_token_hash r)) (pending_facts r meta m) None db = (res, db')"
      by fastforce
    show ?thesis
    proof (cases res)
      case (Inl e)
      then show ?thesis using True new by (simp add: accept_webhook_def)
    next
      case (Inr d)
      note rec = record_new_event_Inr [OF new [unfolded Inr]]
      have "relay_step (fst s) (fst (snd (deliver_reserved rm w st h th r m meta d (db', snd s))))"
        using rec recorded_step [OF new] by (intro deliver) (simp_all add: rec(1))
      then show ?thesis using True new Inr by (simp add: accept_webhook_def)
    qed
  next
    case False
    obtain res db' where new: "reserve_idempotent_delivery w st r key meta m db = (res, db')" by fastforce
    show ?thesis
    proof (cases res)
      case (Inl e)
      then show ?thesis using False new by (simp add: accept_webhook_def)
    next
      case (Inr x)
      obtain d b where x: "x = (d, b)" by fastforce
      show ?thesis
      proof (cases b)
        case True
        have "reserve_idempotent_delivery w st r key meta m db = (Inr (d, True), db')"
          using new Inr x True by simp
        from deliver [OF reserve_pending [OF this]] show ?thesis
          using False new Inr x True by (simp add: accept_webhook_def)
      qed (use False new Inr x in \<open>simp add: accept_webhook_def\<close>)
    qed
  qed
qed

lemma reject_unrouted_step: "relay_step db (reject_unrouted w st h c th reason meta err db)"
  unfolding reject_unrouted_def by (rule relay_step_trans [OF abuse_steps(1) record_new_event_step])

lemma reject_routed_step:
  assumes "r \<in> set (routes db)"
  shows "relay_step db (snd (reject_routed w st h th r reason meta err code db))"
proof -
  let ?f = "snd (record_failure w st h (Some th) reason db)"
  obtain res db' where new: "record_new_event w st (Some r) (Some th) (rejected_facts meta err) None ?f = (res, db')"
    by fastforce
  have s: "relay_step db ?f" "relay_step ?f db'"
    using abuse_steps(1) recorded_step [OF new] by auto
  show ?thesis
  proof (cases res)
    case (Inr d)
    have "r \<in> set (routes db')"
      using record_new_event_Inr(3) [OF new [unfolded Inr]] bucket_frame_tables(1) [OF record_failure_frame] assms by simp
    then have "relay_step db' (save_route w (stamp_delivery w ''rejected'' r) db')"
      by (rule save_route_step) (simp_all add: stamp_delivery_def route_core_def)
    then show ?thesis using s new Inr by (auto simp: reject_routed_def intro: relay_step_trans)
  qed (use new in \<open>simp add: reject_routed_def\<close>)
qed

lemma handle_routed_step:
  assumes "r \<in> set (routes db)" and "relay_step (fst s) db"
  shows "relay_step (fst s) (fst (snd (handle_routed rm w st h th rq body meta key r db s)))"
proof -
  have reject: "relay_step (fst s) (snd (reject_routed w st h th r reason meta err code db))" for reason err code
    using relay_step_trans [OF assms(2) reject_routed_step [OF assms(1)]] .
  show ?thesis
    using reject accept_webhook_step [OF assms]
    by (simp add: handle_routed_def Let_def split_beta split: sum.split bool.split exn.split)
qed

lemma receive_webhook_step: "relay_step (fst s) (fst (snd (receive_webhook rm w st tok rq s)))"
proof (cases "resolve_client_host st rq")
  case (Inr resolved)
  let ?h = "fst resolved" and ?th = "lookup_secret_hash w tok"
  obtain blocked db where chk: "check_block w st ?h (Some ?th) (fst s) = (blocked, db)" by fastforce
  have db: "relay_step (fst s) db"
    using abuse_steps(3) [of "fst s" w st ?h "Some ?th"] chk by simp
  show ?thesis
  proof (cases blocked)
    case None
    have unrouted: "relay_step (fst s) (reject_unrouted w st ?h c ?th reason meta err db)" for c reason meta err
      by (rule relay_step_trans [OF db reject_unrouted_step])
    show ?thesis
    proof (cases "read_limited_body rq (webhook_max_payload_bytes st)")
      case (TooLarge part)
      then show ?thesis using Inr chk None unrouted by (simp add: receive_webhook_def Let_def)
    next
      case (Body body)
      show ?thesis
      proof (cases "fetch (\<lambda>r. r_route_token_hash r = ?th) (routes db)")
        case None': None
        then show ?thesis using Inr chk None Body unrouted by (simp add: receive_webhook_def Let_def)
      next
        case (Some r)
        then have "r \<in> set (routes db)" by (simp add: fetch_Some)
        then show ?thesis
          using handle_routed_step [OF _ db] Inr chk None Body Some by (simp add: receive_webhook_def Let_def)
      qed
    qed
  qed (use Inr chk db in \<open>simp add: receive_webhook_def Let_def\<close>)
qed (simp add: receive_webhook_def Let_def)

text \<open>A delivery with no event to fill in, as a test of a route makes it.\<close>

lemma new_delivery_step:
  assumes "deliver_to_route rm w st r m meta None (db, tk) = (Inr d', db', tk')" and "r \<in> set (routes db)"
  shows "relay_step db db'"
proof -
  obtain f db1 where fr: "sending_frame db db1"
    and new: "record_new_event w st (Some r) (Some (r_route_token_hash r)) f None
      (save_route w (stamp_delivery w (ef_status f) r) db1) = (Inr d', db')"
    using deliver_to_route_recorded [OF assms(1)] by (auto simp: delivery_recorded_def record_event_None)
  have "relay_step db db1" by (rule sending_frame_step [OF fr])
  also have "relay_step db1 (save_route w (stamp_delivery w (ef_status f) r) db1)"
    using assms(2) sending_frame_tables [OF fr] by (intro save_route_step [of r]) (simp_all add: stamp_delivery_def route_core_def)
  also have "relay_step (save_route w (stamp_delivery w (ef_status f) r) db1) db'"
    by (rule recorded_step [OF new])
  finally show ?thesis .
qed

end
