(* ===== verification/Graph_Names.thy ===== *)
theory Graph_Names
  imports Graph_Lookup
begin

text \<open>
  \<open>services/graph_name_resolution.py\<close>: display names of Graph objects written into routes and
  conversation references. A lookup that fails ends the resolution of a row with an exception,
  but the names found before it stay in the row; the row is returned with the exception.
\<close>

section \<open>Names\<close>

definition target_name_of :: "(exn + graph_target option) \<times> graph_tokens \<Rightarrow> (exn + string) \<times> graph_tokens" where
  "target_name_of found =
     (case found of (r, tokens) \<Rightarrow>
        (bind_sum r (\<lambda>t. Inr (case t of None \<Rightarrow> [] | Some t \<Rightarrow> gt_display_name t)), tokens))"

definition safe_team_name :: "remote \<Rightarrow> world \<Rightarrow> settings \<Rightarrow> string \<Rightarrow> graph_tokens \<Rightarrow> (exn + string) \<times> graph_tokens" where
  "safe_team_name rm w st team_id tokens = target_name_of (get_team_target rm w st team_id tokens)"

definition safe_channel_name ::
  "remote \<Rightarrow> world \<Rightarrow> settings \<Rightarrow> string \<Rightarrow> string \<Rightarrow> graph_tokens \<Rightarrow> (exn + string) \<times> graph_tokens" where
  "safe_channel_name rm w st team_id channel_id tokens = target_name_of (get_channel_target rm w st team_id channel_id tokens)"

definition safe_user_name :: "remote \<Rightarrow> world \<Rightarrow> settings \<Rightarrow> string \<Rightarrow> graph_tokens \<Rightarrow> (exn + string) \<times> graph_tokens" where
  "safe_user_name rm w st user_id tokens = target_name_of (get_user_target rm w st user_id tokens)"

text \<open>
  One column: looked up where it is wanted, written where the name is new. The state of a
  resolution is the row, whether it changed, and the token manager.
\<close>

type_synonym 'r naming = "(exn + bool) \<times> 'r \<times> graph_tokens"

definition name_step ::
  "('r \<Rightarrow> bool) \<Rightarrow> ('r \<Rightarrow> graph_tokens \<Rightarrow> (exn + string) \<times> graph_tokens) \<Rightarrow> ('r \<Rightarrow> string) \<Rightarrow> (string \<Rightarrow> 'r \<Rightarrow> 'r) \<Rightarrow>
   'r naming \<Rightarrow> 'r naming" where
  "name_step wanted search column write s =
     (case s of
        (Inl e, row, tokens) \<Rightarrow> (Inl e, row, tokens)
      | (Inr changed, row, tokens) \<Rightarrow>
          if \<not> wanted row then (Inr changed, row, tokens)
          else (case search row tokens of
             (Inl e, tokens) \<Rightarrow> (Inl e, row, tokens)
           | (Inr name, tokens) \<Rightarrow>
               if name \<noteq> [] \<and> column row \<noteq> name then (Inr True, write name row, tokens)
               else (Inr changed, row, tokens)))"

section \<open>References\<close>

definition resolve_reference_graph_names ::
  "remote \<Rightarrow> world \<Rightarrow> settings \<Rightarrow> bool \<Rightarrow> conversation_reference \<Rightarrow> graph_tokens \<Rightarrow> conversation_reference naming" where
  "resolve_reference_graph_names rm w st force ref tokens =
     name_step (\<lambda>c. cr_graph_user_id c \<noteq> [] \<and> (force \<or> cr_user_name c = []))
       (\<lambda>c. safe_user_name rm w st (cr_graph_user_id c)) cr_user_name (\<lambda>n c. c\<lparr>cr_user_name := n\<rparr>)
     (name_step (\<lambda>c. cr_graph_team_id c \<noteq> [] \<and> cr_channel_id c \<noteq> [] \<and> (force \<or> cr_channel_name c = []))
       (\<lambda>c. safe_channel_name rm w st (cr_graph_team_id c) (cr_channel_id c)) cr_channel_name (\<lambda>n c. c\<lparr>cr_channel_name := n\<rparr>)
     (name_step (\<lambda>c. cr_graph_team_id c \<noteq> [] \<and> (force \<or> cr_team_name c = []))
       (\<lambda>c. safe_team_name rm w st (cr_graph_team_id c)) cr_team_name (\<lambda>n c. c\<lparr>cr_team_name := n\<rparr>)
     (Inr False, ref, tokens)))"

text \<open>The wrapper that gives up on configuration and request errors.\<close>

definition name_error :: "exn \<Rightarrow> bool" where
  "name_error e = (case e of GraphConfigError _ \<Rightarrow> True | GraphRequestError _ \<Rightarrow> True | _ \<Rightarrow> False)"

definition try_naming :: "'r naming \<Rightarrow> 'r naming" where
  "try_naming s = (case s of (Inl e, row, tokens) \<Rightarrow> (if name_error e then Inr False else Inl e, row, tokens) | _ \<Rightarrow> s)"

definition try_resolve_reference_graph_names ::
  "remote \<Rightarrow> world \<Rightarrow> settings \<Rightarrow> bool \<Rightarrow> conversation_reference \<Rightarrow> graph_tokens \<Rightarrow> conversation_reference naming" where
  "try_resolve_reference_graph_names rm w st force ref tokens =
     try_naming (resolve_reference_graph_names rm w st force ref tokens)"

section \<open>Routes\<close>

text \<open>The channel is looked up once the team is named; \<open>target_name\<close> is read before that.\<close>

definition route_channel_name ::
  "remote \<Rightarrow> world \<Rightarrow> settings \<Rightarrow> bool \<Rightarrow> string \<Rightarrow> webhook_route \<Rightarrow> graph_tokens \<Rightarrow> (exn + string) \<times> graph_tokens" where
  "route_channel_name rm w st force target_name r tokens =
     (let should_resolve = force \<or> (r_graph_target_kind r = ''channel'' \<and>
            (r_graph_team_name r = [] \<or> \<not> contains '' / '' target_name))
      in if r_graph_team_id r \<noteq> [] \<and> r_graph_channel_id r \<noteq> [] \<and> should_resolve
         then safe_channel_name rm w st (r_graph_team_id r) (r_graph_channel_id r) tokens
         else (Inr [], tokens))"

definition name_target ::
  "remote \<Rightarrow> world \<Rightarrow> settings \<Rightarrow> bool \<Rightarrow> string \<Rightarrow> bool \<Rightarrow> webhook_route \<Rightarrow> graph_tokens \<Rightarrow> webhook_route naming" where
  "name_target rm w st force channel_name changed r tokens =
     (if r_graph_target_kind r = ''channel'' \<and> r_graph_team_name r \<noteq> [] \<and> channel_name \<noteq> [] then
        (let target_name = r_graph_team_name r @ '' / '' @ channel_name in
         if r_target_name r \<noteq> target_name then (Inr True, r\<lparr>r_target_name := target_name\<rparr>, tokens)
         else (Inr changed, r, tokens))
      else if r_graph_target_kind r = ''team'' \<and> r_graph_team_name r \<noteq> [] \<and> r_target_name r \<noteq> r_graph_team_name r
      then (Inr True, r\<lparr>r_target_name := r_graph_team_name r\<rparr>, tokens)
      else name_step (\<lambda>r. r_graph_target_kind r = ''user'' \<and> r_graph_target_id r \<noteq> [] \<and> (force \<or> r_target_name r = []))
        (\<lambda>r. safe_user_name rm w st (r_graph_target_id r)) r_target_name (\<lambda>n r. r\<lparr>r_target_name := n\<rparr>)
        (Inr changed, r, tokens))"

definition resolve_route_graph_names ::
  "remote \<Rightarrow> world \<Rightarrow> settings \<Rightarrow> bool \<Rightarrow> webhook_route \<Rightarrow> graph_tokens \<Rightarrow> webhook_route naming" where
  "resolve_route_graph_names rm w st force r tokens =
     (let target_name = strip (r_target_name r) in
      case name_step (\<lambda>r. r_graph_team_id r \<noteq> [] \<and> (force \<or> r_graph_team_name r = []))
             (\<lambda>r. safe_team_name rm w st (r_graph_team_id r)) r_graph_team_name (\<lambda>n r. r\<lparr>r_graph_team_name := n\<rparr>)
             (Inr False, r, tokens) of
        (Inl e, r, tokens) \<Rightarrow> (Inl e, r, tokens)
      | (Inr changed, r, tokens) \<Rightarrow>
          (case route_channel_name rm w st force target_name r tokens of
             (Inl e, tokens) \<Rightarrow> (Inl e, r, tokens)
           | (Inr channel_name, tokens) \<Rightarrow> name_target rm w st force channel_name changed r tokens))"

definition try_resolve_route_graph_names ::
  "remote \<Rightarrow> world \<Rightarrow> settings \<Rightarrow> bool \<Rightarrow> webhook_route \<Rightarrow> graph_tokens \<Rightarrow> webhook_route naming" where
  "try_resolve_route_graph_names rm w st force r tokens = try_naming (resolve_route_graph_names rm w st force r tokens)"

section \<open>All rows of an organization\<close>

text \<open>The loop over rows: it counts the changed ones and stops at the first exception.\<close>

fun name_rows ::
  "('r \<Rightarrow> graph_tokens \<Rightarrow> 'r naming) \<Rightarrow> 'r list \<Rightarrow> graph_tokens \<Rightarrow> exn option \<times> nat \<times> 'r list \<times> graph_tokens" where
  "name_rows resolve [] tokens = (None, 0, [], tokens)"
| "name_rows resolve (row # rows) tokens =
     (case resolve row tokens of
        (Inl e, row, tokens) \<Rightarrow> (Some e, 0, row # rows, tokens)
      | (Inr changed, row, tokens) \<Rightarrow>
          (case name_rows resolve rows tokens of
             (e, n, rows, tokens) \<Rightarrow> (e, n + of_bool changed, row # rows, tokens)))"

record name_refresh_result =
  nr_routes_checked :: nat
  nr_routes_updated :: nat
  nr_references_checked :: nat
  nr_references_updated :: nat
  nr_error :: string

definition exn_text :: "exn \<Rightarrow> string" where
  "exn_text e = (case e of
     HTTPException _ m \<Rightarrow> m | ValueError m \<Rightarrow> m | WebhookPayloadError m \<Rightarrow> m | BotDeliveryError m \<Rightarrow> m
   | GraphConfigError m \<Rightarrow> m | GraphRequestError m \<Rightarrow> m | GraphDelegatedConfigError m \<Rightarrow> m
   | GraphDelegatedAuthError m \<Rightarrow> m | ExpiredRefreshTokenError m \<Rightarrow> m | GraphDelegatedLookupError m _ \<Rightarrow> m
   | BotConversationMembersError m \<Rightarrow> m | _ \<Rightarrow> [])"

text \<open>Writing back what was changed stamps the row.\<close>

definition flush_rows :: "('r \<Rightarrow> 'r) \<Rightarrow> 'r list \<Rightarrow> 'r list \<Rightarrow> 'r list" where
  "flush_rows stamp old new = List.map2 (\<lambda>a b. if a = b then a else stamp b) old new"

definition refresh_graph_names ::
  "remote \<Rightarrow> world \<Rightarrow> settings \<Rightarrow> string \<Rightarrow> db \<times> graph_tokens \<Rightarrow> (exn + name_refresh_result) \<times> db \<times> graph_tokens" where
  "refresh_graph_names rm w st org s =
     (let (db, tokens) = s;
          mine = List.filter (\<lambda>r. r_organization_id r = org) (routes db);
          (ref_error, refs_updated, refs, tokens) =
            name_rows (resolve_reference_graph_names rm w st True) (references db) tokens;
          (error, updated, named, tokens) =
            (case ref_error of
               Some e \<Rightarrow> (Some e, 0, mine, tokens)
             | None \<Rightarrow> name_rows (resolve_route_graph_names rm w st True) mine tokens);
          result = \<lparr>nr_routes_checked = length mine, nr_routes_updated = updated,
            nr_references_checked = length (references db), nr_references_updated = refs_updated, nr_error = []\<rparr>;
          db' = db\<lparr>references := flush_rows (\<lambda>c. c\<lparr>cr_updated_at := utcnow w\<rparr>) (references db) refs,
            routes := fold (\<lambda>r rs. if r \<in> set mine then rs else save_row r_id (r\<lparr>r_updated_at := utcnow w\<rparr>) rs) named (routes db)\<rparr>
      in case error of
           None \<Rightarrow> (Inr result, db', tokens)
         | Some e \<Rightarrow>
             if name_error e then (Inr (result\<lparr>nr_error := exn_text e\<rparr>), db', tokens) else (Inl e, db, tokens))"

end
