(* ===== verification/Routes.thy ===== *)
theory Routes
  imports Relay_Invariant Graph_Names
begin

text \<open>
  The handlers of \<open>routers/webhook_routes.py\<close> by which admins keep the webhook routes, with the
  request bodies of \<open>schemas.py\<close> they take. A handler that ends with an exception has committed
  nothing but what the text says; the caches of the process keep their changes.
\<close>

section \<open>Request bodies\<close>

record route_create =
  wc_name :: string
  wc_is_active :: bool
  wc_delivery_backend :: string
  wc_client_ip_access_mode :: string
  wc_client_ip_allowlist :: string
  wc_target_type :: string
  wc_target_name :: string
  wc_bot_service_url :: string
  wc_bot_conversation_id :: string
  wc_graph_target_kind :: "string option"
  wc_graph_target_id :: string
  wc_graph_team_id :: string
  wc_graph_team_name :: string
  wc_graph_channel_id :: string
  wc_graph_user_id :: string
  wc_graph_user_display_name :: string
  wc_graph_user_principal_name :: string
  wc_bot_target_source :: string

record route_update =
  wu_name :: "string option"
  wu_is_active :: "bool option"
  wu_delivery_backend :: "string option"
  wu_client_ip_access_mode :: "string option"
  wu_client_ip_allowlist :: "string option"
  wu_target_type :: "string option"
  wu_target_name :: "string option"
  wu_bot_service_url :: "string option"
  wu_bot_conversation_id :: "string option"
  wu_graph_target_kind :: "string option"
  wu_graph_target_id :: "string option"
  wu_graph_team_id :: "string option"
  wu_graph_team_name :: "string option"
  wu_graph_channel_id :: "string option"
  wu_graph_user_id :: "string option"
  wu_graph_user_display_name :: "string option"
  wu_graph_user_principal_name :: "string option"
  wu_bot_target_source :: "string option"

text \<open>A body that is refused is answered with status 422; the report of pydantic is left out.\<close>

definition unprocessable :: exn where
  "unprocessable = HTTPException 422 []"

definition DELIVERY_BACKENDS :: "string list" where
  "DELIVERY_BACKENDS = [''bot_framework'', ''graph'']"

definition GRAPH_TARGET_KINDS :: "string list" where
  "GRAPH_TARGET_KINDS = [''user'', ''team'', ''channel'', ''chat'', ''group'']"

definition named :: "nat \<Rightarrow> string \<Rightarrow> bool" where
  "named limit s \<longleftrightarrow> 1 \<le> length s \<and> length s \<le> limit"

definition create_fields_ok :: "route_create \<Rightarrow> bool" where
  "create_fields_ok p \<longleftrightarrow>
     named 200 (wc_name p) \<and> wc_delivery_backend p \<in> set DELIVERY_BACKENDS \<and>
     wc_client_ip_access_mode p \<in> set CLIENT_IP_ACCESS_MODES \<and> length (wc_client_ip_allowlist p) \<le> 4000 \<and>
     wc_target_type p = ''bot_conversation'' \<and> named 200 (wc_target_name p) \<and>
     length (wc_bot_service_url p) \<le> 2000 \<and> length (wc_bot_conversation_id p) \<le> 2000 \<and>
     (case wc_graph_target_kind p of None \<Rightarrow> True | Some k \<Rightarrow> k \<in> set GRAPH_TARGET_KINDS) \<and>
     length (wc_graph_target_id p) \<le> 2000 \<and> length (wc_graph_team_id p) \<le> 2000 \<and>
     length (wc_graph_team_name p) \<le> 200 \<and> length (wc_graph_channel_id p) \<le> 2000 \<and>
     length (wc_graph_user_id p) \<le> 2000 \<and> length (wc_graph_user_display_name p) \<le> 255 \<and>
     length (wc_graph_user_principal_name p) \<le> 255 \<and> length (wc_bot_target_source p) \<le> 40"

definition check_route_create :: "route_create \<Rightarrow> exn + route_create" where
  "check_route_create p =
     (if \<not> create_fields_ok p then Inl unprocessable
      else (case (normalize_client_ip_access_mode (wc_client_ip_access_mode p),
                  normalize_client_ip_allowlist (wc_client_ip_allowlist p)) of
        (Inr mode, Inr allowlist) \<Rightarrow>
          (let allowlist = (if mode = ''public'' then [] else allowlist) in
           if mode = ''restricted'' \<and> allowlist = [] then Inl unprocessable
           else Inr (p\<lparr>wc_client_ip_access_mode := mode, wc_client_ip_allowlist := allowlist\<rparr>))
      | _ \<Rightarrow> Inl unprocessable))"

definition opt_all :: "('a \<Rightarrow> bool) \<Rightarrow> 'a option \<Rightarrow> bool" where
  "opt_all P v = (case v of None \<Rightarrow> True | Some x \<Rightarrow> P x)"

definition update_fields_ok :: "route_update \<Rightarrow> bool" where
  "update_fields_ok p \<longleftrightarrow>
     opt_all (named 200) (wu_name p) \<and> opt_all (\<lambda>b. b \<in> set DELIVERY_BACKENDS) (wu_delivery_backend p) \<and>
     opt_all (\<lambda>m. m \<in> set CLIENT_IP_ACCESS_MODES) (wu_client_ip_access_mode p) \<and>
     opt_all (\<lambda>s. length s \<le> 4000) (wu_client_ip_allowlist p) \<and>
     opt_all (\<lambda>t. t = ''bot_conversation'') (wu_target_type p) \<and> opt_all (named 200) (wu_target_name p) \<and>
     opt_all (\<lambda>s. length s \<le> 2000) (wu_bot_service_url p) \<and> opt_all (\<lambda>s. length s \<le> 2000) (wu_bot_conversation_id p) \<and>
     opt_all (\<lambda>k. k \<in> set GRAPH_TARGET_KINDS) (wu_graph_target_kind p) \<and>
     opt_all (\<lambda>s. length s \<le> 2000) (wu_graph_target_id p) \<and> opt_all (\<lambda>s. length s \<le> 2000) (wu_graph_team_id p) \<and>
     opt_all (\<lambda>s. length s \<le> 200) (wu_graph_team_name p) \<and> opt_all (\<lambda>s. length s \<le> 2000) (wu_graph_channel_id p) \<and>
     opt_all (\<lambda>s. length s \<le> 2000) (wu_graph_user_id p) \<and> opt_all (\<lambda>s. length s \<le> 255) (wu_graph_user_display_name p) \<and>
     opt_all (\<lambda>s. length s \<le> 255) (wu_graph_user_principal_name p) \<and>
     opt_all (\<lambda>s. length s \<le> 40) (wu_bot_target_source p)"

definition no_update :: route_update where
  "no_update = \<lparr>wu_name = None, wu_is_active = None, wu_delivery_backend = None, wu_client_ip_access_mode = None,
     wu_client_ip_allowlist = None, wu_target_type = None, wu_target_name = None, wu_bot_service_url = None,
     wu_bot_conversation_id = None, wu_graph_target_kind = None, wu_graph_target_id = None, wu_graph_team_id = None,
     wu_graph_team_name = None, wu_graph_channel_id = None, wu_graph_user_id = None,
     wu_graph_user_display_name = None, wu_graph_user_principal_name = None, wu_bot_target_source = None\<rparr>"

definition map_opt_sum :: "('a \<Rightarrow> exn + 'b) \<Rightarrow> 'a option \<Rightarrow> exn + 'b option" where
  "map_opt_sum f v = (case v of None \<Rightarrow> Inr None | Some x \<Rightarrow> bind_sum (f x) (\<lambda>y. Inr (Some y)))"

definition check_route_update :: "route_update \<Rightarrow> exn + route_update" where
  "check_route_update p =
     (if \<not> update_fields_ok p \<or> p = no_update then Inl unprocessable
      else (case (map_opt_sum normalize_client_ip_access_mode (wu_client_ip_access_mode p),
                  map_opt_sum normalize_client_ip_allowlist (wu_client_ip_allowlist p)) of
        (Inr mode, Inr allowlist) \<Rightarrow> Inr (p\<lparr>wu_client_ip_access_mode := mode, wu_client_ip_allowlist := allowlist\<rparr>)
      | _ \<Rightarrow> Inl unprocessable))"

section \<open>Answers\<close>

text \<open>The answer copies the columns of the row and adds what is computed; \<open>ro_row\<close> is the copied part.\<close>

record route_out =
  ro_row :: webhook_route
  ro_delivery_backend :: string
  ro_client_ip_access_mode :: string
  ro_client_ip_allowlist :: string
  ro_members :: "json list"
  ro_webhook_url :: "string option"
  ro_webhook_url_available :: bool

definition route_members :: "webhook_route \<Rightarrow> json list" where
  "route_members r = (case r_member_list_json r of JList xs \<Rightarrow> xs | _ \<Rightarrow> [])"

definition route_out_of :: "settings \<Rightarrow> webhook_route \<Rightarrow> exn + route_out" where
  "route_out_of st r =
     (let url = (if r_route_token r \<noteq> [] then Some (build_webhook_url st (r_route_token r)) else None) in
      bind_sum (normalize_client_ip_access_mode (r_client_ip_access_mode r)) (\<lambda>mode.
      bind_sum (normalize_client_ip_allowlist (r_client_ip_allowlist r)) (\<lambda>allowlist.
        Inr \<lparr>ro_row = r, ro_delivery_backend = route_delivery_backend r, ro_client_ip_access_mode = mode,
             ro_client_ip_allowlist = allowlist, ro_members = route_members r, ro_webhook_url = url,
             ro_webhook_url_available = (url \<noteq> None)\<rparr>)))"

definition list_webhook_routes :: "settings \<Rightarrow> user \<Rightarrow> db \<Rightarrow> exn + route_out list" where
  "list_webhook_routes st admin db =
     each (\<lambda>r. bind_sum (route_out_of st r) (\<lambda>out. Inr [out]))
       (sort_key (\<lambda>r. - r_updated_at r)
         (List.filter (\<lambda>r. r_organization_id r = u_organization_id admin) (routes db)))"

section \<open>Steps shared by the handlers\<close>

text \<open>The caches of the process.\<close>

record caches =
  bot_tokens :: "bot_token_manager option"
  app_tokens :: graph_tokens
  last_log_cleanup_at :: "instant option"

definition one_on_one_target :: "one_on_one_chat \<Rightarrow> webhook_route \<Rightarrow> webhook_route" where
  "one_on_one_target chat r =
     r\<lparr>r_graph_target_kind := ''chat'', r_graph_target_id := oc_id chat, r_graph_user_id := oc_user_id chat,
       r_graph_user_display_name := oc_user_display_name chat, r_graph_user_principal_name := oc_user_principal_name chat,
       r_graph_team_id := [], r_graph_team_name := [], r_graph_channel_id := [], r_bot_service_url := [],
       r_bot_conversation_id := [],
       r_bot_target_source := (if strip (r_bot_target_source r) = [] then ''graph_user_lookup'' else r_bot_target_source r)\<rparr>"

text \<open>
  The unique constraints of the table. A row that is attached to the session is written by every
  flush: the refresh of the delegated token flushes, and raises what the row violates.
\<close>

definition route_conflict :: "webhook_route \<Rightarrow> db \<Rightarrow> bool" where
  "route_conflict r db \<longleftrightarrow>
     list_ex (\<lambda>x. r_id x \<noteq> r_id r \<and>
       (r_route_token_hash x = r_route_token_hash r \<or>
        (r_organization_id x = r_organization_id r \<and> r_name x = r_name r \<and> r_delivery_backend x = r_delivery_backend r)))
       (routes db)"

definition refresh_flushes :: "exn + delegated_token \<Rightarrow> bool" where
  "refresh_flushes res =
     (case res of
        Inr _ \<Rightarrow> True
      | Inl (GraphDelegatedAuthError message) \<Rightarrow> message \<noteq> ''Delegated Graph delivery is not configured''
      | Inl _ \<Rightarrow> False)"

definition materialize_graph_user_target ::
  "remote \<Rightarrow> world \<Rightarrow> settings \<Rightarrow> string \<Rightarrow> bool \<Rightarrow> webhook_route \<Rightarrow> db \<Rightarrow> (exn + webhook_route) \<times> db" where
  "materialize_graph_user_target rm w st org attached r db =
     (if route_delivery_backend r \<noteq> ''graph'' \<or> strip (r_graph_target_kind r) \<noteq> ''user'' then (Inr r, db)
      else (let user_id = or_str (strip (r_graph_user_id r)) (strip (r_graph_target_id r)) in
        if user_id = [] then (Inl (HTTPException 400 ''Graph one-on-one routes require a user ID''), db)
        else if attached \<and> \<not> looks_like_graph_chat_id user_id \<and> route_conflict r db \<and>
          refresh_flushes (fst (refresh_delegated_access_token rm w st org db))
        then (Inl IntegrityError, db)
        else (case create_or_get_one_on_one_chat rm w st org user_id
                     (or_str (r_graph_user_display_name r) (r_target_name r)) (r_graph_user_principal_name r) db of
          (Inl (GraphDelegatedLookupError message _), db') \<Rightarrow> (Inl (HTTPException 502 message), db')
        | (Inl e, db') \<Rightarrow> (Inl e, db')
        | (Inr chat, db') \<Rightarrow> (Inr (one_on_one_target chat r), db'))))"

text \<open>From the checks to the name: what creating and updating a route have in common. \<open>touched\<close> is
  what an update does between materialising the target and resolving names.\<close>

definition prepare_route ::
  "remote \<Rightarrow> world \<Rightarrow> settings \<Rightarrow> string \<Rightarrow> string option \<Rightarrow> (webhook_route \<Rightarrow> webhook_route) \<Rightarrow> webhook_route \<Rightarrow>
   db \<times> graph_tokens \<Rightarrow> (exn + webhook_route) \<times> db \<times> graph_tokens" where
  "prepare_route rm w st org route_id touched r s =
     (let (db, tokens) = s in
      case ensure_route_feature_enabled r st of
        Some e \<Rightarrow> (Inl e, db, tokens)
      | None \<Rightarrow>
          (case validate_client_ip_access r of
             Inl e \<Rightarrow> (Inl e, db, tokens)
           | Inr r \<Rightarrow>
               (case materialize_graph_user_target rm w st org (route_id \<noteq> None) r db of
                  (Inl e, db) \<Rightarrow> (Inl e, db, tokens)
                | (Inr r, db) \<Rightarrow>
                    (case (if graph_lookup_enabled st
                           then try_resolve_route_graph_names rm w st False (touched r) tokens
                           else (Inr False, touched r, tokens)) of
                       (Inl e, _, tokens) \<Rightarrow> (Inl e, db, tokens)
                     | (Inr _, r, tokens) \<Rightarrow>
                         (case validate_target r of
                            Some e \<Rightarrow> (Inl e, db, tokens)
                          | None \<Rightarrow>
                              (case ensure_route_name_available db org (r_name r) (route_delivery_backend r) route_id of
                                 Some e \<Rightarrow> (Inl e, db, tokens)
                               | None \<Rightarrow> (Inr r, db, tokens)))))))"

definition route_audit :: "world \<Rightarrow> settings \<Rightarrow> user \<Rightarrow> string \<Rightarrow> (string \<times> json) list \<Rightarrow> db \<Rightarrow> db" where
  "route_audit w st admin action metadata db =
     record_audit w st action ''user'' (Some (u_id admin)) (Some (u_organization_id admin)) metadata db"

section \<open>Creating\<close>

definition new_route :: "world \<Rightarrow> user \<Rightarrow> route_create \<Rightarrow> webhook_route" where
  "new_route w admin p =
     \<lparr>r_id = [], r_organization_id = u_organization_id admin, r_created_by_id = Some (u_id admin),
      r_name = strip (wc_name p), r_is_active = wc_is_active p,
      r_route_token_hash = lookup_secret_hash w (generated_secret w), r_route_token = generated_secret w,
      r_delivery_backend = wc_delivery_backend p, r_client_ip_access_mode = wc_client_ip_access_mode p,
      r_client_ip_allowlist = wc_client_ip_allowlist p, r_target_type = wc_target_type p,
      r_target_name = strip (wc_target_name p), r_bot_service_url = strip (wc_bot_service_url p),
      r_bot_conversation_id = strip (wc_bot_conversation_id p),
      r_graph_target_kind = opt_str (wc_graph_target_kind p), r_graph_target_id = strip (wc_graph_target_id p),
      r_graph_team_id = strip (wc_graph_team_id p), r_graph_team_name = strip (wc_graph_team_name p),
      r_graph_channel_id = strip (wc_graph_channel_id p), r_graph_user_id = strip (wc_graph_user_id p),
      r_graph_user_display_name = strip (wc_graph_user_display_name p),
      r_graph_user_principal_name = strip (wc_graph_user_principal_name p), r_member_summary = [], r_member_count = 0,
      r_member_list_json = JList [], r_members_refreshed_at = None, r_members_lookup_error = [],
      r_bot_target_source = strip (wc_bot_target_source p), r_bot_registered_by_id = [], r_bot_registered_at = None,
      r_last_delivery_status = None, r_last_delivery_at = None, r_created_at = utcnow w, r_updated_at = utcnow w\<rparr>"

text \<open>The row gets its id when it is flushed.\<close>

definition create_webhook_route ::
  "remote \<Rightarrow> world \<Rightarrow> settings \<Rightarrow> user \<Rightarrow> route_create \<Rightarrow> db \<times> caches \<Rightarrow> (exn + route_out) \<times> db \<times> caches" where
  "create_webhook_route rm w st admin p s =
     (let (db0, cs) = s in
      case prepare_route rm w st (u_organization_id admin) None (\<lambda>r. r) (new_route w admin p) (db0, app_tokens cs) of
        (Inl e, _, tokens) \<Rightarrow> (Inl e, db0, cs\<lparr>app_tokens := tokens\<rparr>)
      | (Inr r, db, tokens) \<Rightarrow>
          (let r = r\<lparr>r_id := new_id db\<rparr>; cs = cs\<lparr>app_tokens := tokens\<rparr> in
           if route_conflict r db then (Inl (HTTPException 409 ''Webhook route name already exists''), db0, cs)
           else (route_out_of st r,
             route_audit w st admin ''webhook_route.created''
               [(''webhook_route_id'', JStr (r_id r)), (''name'', JStr (r_name r))]
               (db\<lparr>routes := routes db @ [r], next_id := Suc (next_id db)\<rparr>), cs)))"

section \<open>Updating\<close>

definition set_opt :: "'a option \<Rightarrow> ('a \<Rightarrow> 'r \<Rightarrow> 'r) \<Rightarrow> 'r \<Rightarrow> 'r" where
  "set_opt v f r = (case v of None \<Rightarrow> r | Some x \<Rightarrow> f x r)"

definition apply_update :: "route_update \<Rightarrow> webhook_route \<Rightarrow> webhook_route" where
  "apply_update p r =
     (let r = set_opt (wu_name p) (\<lambda>v r. r\<lparr>r_name := strip v\<rparr>) r;
          r = set_opt (wu_is_active p) (\<lambda>v r. r\<lparr>r_is_active := v\<rparr>) r;
          r = set_opt (wu_delivery_backend p) (\<lambda>v r. r\<lparr>r_delivery_backend := v\<rparr>) r;
          r = set_opt (wu_client_ip_access_mode p) (\<lambda>v r.
                if v = ''public'' then r\<lparr>r_client_ip_access_mode := v, r_client_ip_allowlist := []\<rparr>
                else r\<lparr>r_client_ip_access_mode := v\<rparr>) r;
          r = set_opt (wu_client_ip_allowlist p) (\<lambda>v r. r\<lparr>r_client_ip_allowlist := v\<rparr>) r;
          r = set_opt (wu_target_type p) (\<lambda>v r. r\<lparr>r_target_type := v\<rparr>) r;
          r = set_opt (wu_target_name p) (\<lambda>v r. r\<lparr>r_target_name := strip v\<rparr>) r;
          r = set_opt (wu_bot_service_url p) (\<lambda>v r. r\<lparr>r_bot_service_url := strip v\<rparr>) r;
          r = set_opt (wu_bot_conversation_id p) (\<lambda>v r. r\<lparr>r_bot_conversation_id := strip v\<rparr>) r;
          r = set_opt (wu_graph_target_kind p) (\<lambda>v r. r\<lparr>r_graph_target_kind := v\<rparr>) r;
          r = set_opt (wu_graph_target_id p) (\<lambda>v r. r\<lparr>r_graph_target_id := strip v\<rparr>) r;
          r = set_opt (wu_graph_team_id p) (\<lambda>v r. r\<lparr>r_graph_team_id := strip v\<rparr>) r;
          r = set_opt (wu_graph_team_name p) (\<lambda>v r. r\<lparr>r_graph_team_name := strip v\<rparr>) r;
          r = set_opt (wu_graph_channel_id p) (\<lambda>v r. r\<lparr>r_graph_channel_id := strip v\<rparr>) r;
          r = set_opt (wu_graph_user_id p) (\<lambda>v r. r\<lparr>r_graph_user_id := strip v\<rparr>) r;
          r = set_opt (wu_graph_user_display_name p) (\<lambda>v r. r\<lparr>r_graph_user_display_name := strip v\<rparr>) r;
          r = set_opt (wu_graph_user_principal_name p) (\<lambda>v r. r\<lparr>r_graph_user_principal_name := strip v\<rparr>) r
      in set_opt (wu_bot_target_source p) (\<lambda>v r. r\<lparr>r_bot_target_source := strip v\<rparr>) r)"

text \<open>A changed row is stamped when it is flushed; \<open>record_audit\<close> flushes it, outside the handler's
  \<open>try\<close>, so a violated constraint surfaces there and is not translated.\<close>

definition flush_route :: "world \<Rightarrow> webhook_route \<Rightarrow> webhook_route \<Rightarrow> db \<Rightarrow> webhook_route \<times> db" where
  "flush_route w old r db =
     (if r = old then (r, db)
      else (let r = r\<lparr>r_updated_at := utcnow w\<rparr> in (r, db\<lparr>routes := save_row r_id r (routes db)\<rparr>)))"

definition update_webhook_route ::
  "remote \<Rightarrow> world \<Rightarrow> settings \<Rightarrow> user \<Rightarrow> string \<Rightarrow> route_update \<Rightarrow> db \<times> caches \<Rightarrow>
   (exn + route_out) \<times> db \<times> caches" where
  "update_webhook_route rm w st admin route_id p s =
     (let (db0, cs) = s; org = u_organization_id admin in
      case get_org_route org route_id db0 of
        Inl e \<Rightarrow> (Inl e, s)
      | Inr old \<Rightarrow>
          (case ensure_delivery_backend_feature_enabled
                  (case wu_delivery_backend p of Some b \<Rightarrow> or_str b (route_delivery_backend old)
                   | None \<Rightarrow> route_delivery_backend old) st of
             Some e \<Rightarrow> (Inl e, s)
           | None \<Rightarrow>
               (case prepare_route rm w st org (Some (r_id old))
                       (\<lambda>r. if route_member_target_key r \<noteq> route_member_target_key old then clear_route_members r else r)
                       (apply_update p old) (db0, app_tokens cs) of
                  (Inl e, _, tokens) \<Rightarrow> (Inl e, db0, cs\<lparr>app_tokens := tokens\<rparr>)
                | (Inr r, db, tokens) \<Rightarrow>
                    (let cs = cs\<lparr>app_tokens := tokens\<rparr> in
                     if route_conflict r db then (Inl IntegrityError, db0, cs)
                     else (case flush_route w old r db of (r, db) \<Rightarrow>
                       (route_out_of st r,
                        route_audit w st admin ''webhook_route.updated'' [(''webhook_route_id'', JStr (r_id r))] db, cs))))))"

section \<open>Names and members\<close>

record name_refresh_out =
  no_ok :: bool
  no_result :: name_refresh_result

definition names_audit :: "world \<Rightarrow> settings \<Rightarrow> user \<Rightarrow> (string \<times> json) list \<Rightarrow> db \<Rightarrow> db" where
  "names_audit w st admin metadata db = route_audit w st admin ''webhook_route.graph_names_refreshed'' metadata db"

definition refresh_webhook_route_graph_names ::
  "remote \<Rightarrow> world \<Rightarrow> settings \<Rightarrow> user \<Rightarrow> db \<times> caches \<Rightarrow> (exn + name_refresh_out) \<times> db \<times> caches" where
  "refresh_webhook_route_graph_names rm w st admin s =
     (let (db0, cs) = s in
      case ensure_graph_lookup_enabled st of
        Some e \<Rightarrow> (Inl e, s)
      | None \<Rightarrow>
          (case refresh_graph_names rm w st (u_organization_id admin) (db0, app_tokens cs) of
             (Inl e, _, tokens) \<Rightarrow> (Inl e, db0, cs\<lparr>app_tokens := tokens\<rparr>)
           | (Inr result, db, tokens) \<Rightarrow>
               (let cs = cs\<lparr>app_tokens := tokens\<rparr> in
                if nr_error result \<noteq> [] then (Inr \<lparr>no_ok = False, no_result = result\<rparr>, db0, cs)
                else (Inr \<lparr>no_ok = True, no_result = result\<rparr>,
                  names_audit w st admin
                    [(''routes_checked'', JInt (int (nr_routes_checked result))),
                     (''routes_updated'', JInt (int (nr_routes_updated result))),
                     (''references_checked'', JInt (int (nr_references_checked result))),
                     (''references_updated'', JInt (int (nr_references_updated result)))] db, cs))))"

definition refresh_single_webhook_route_graph_names ::
  "remote \<Rightarrow> world \<Rightarrow> settings \<Rightarrow> user \<Rightarrow> string \<Rightarrow> db \<times> caches \<Rightarrow> (exn + name_refresh_out) \<times> db \<times> caches" where
  "refresh_single_webhook_route_graph_names rm w st admin route_id s =
     (let (db, cs) = s;
          result = \<lparr>nr_routes_checked = 1, nr_routes_updated = 0, nr_references_checked = 0,
            nr_references_updated = 0, nr_error = []\<rparr>
      in case get_org_route (u_organization_id admin) route_id db of
           Inl e \<Rightarrow> (Inl e, s)
         | Inr old \<Rightarrow>
             (case ensure_graph_lookup_enabled st of
                Some e \<Rightarrow> (Inl e, s)
              | None \<Rightarrow>
                  (case resolve_route_graph_names rm w st True old (app_tokens cs) of
                     (Inl e, _, tokens) \<Rightarrow>
                       (if name_error e then Inr \<lparr>no_ok = False, no_result = result\<lparr>nr_error := exn_text e\<rparr>\<rparr> else Inl e,
                        db, cs\<lparr>app_tokens := tokens\<rparr>)
                   | (Inr updated, r, tokens) \<Rightarrow>
                       (case flush_route w old r db of (r, db) \<Rightarrow>
                         (Inr \<lparr>no_ok = True, no_result = result\<lparr>nr_routes_updated := of_bool updated\<rparr>\<rparr>,
                          names_audit w st admin
                            [(''webhook_route_id'', JStr (r_id r)), (''name'', JStr (r_name r)),
                             (''routes_updated'', JInt (of_bool updated))] db, cs\<lparr>app_tokens := tokens\<rparr>)))))"

text \<open>
  The text of the exceptions \<open>_refresh_route_members\<close> catches; \<open>ValueError\<close> is also the class of
  a number the interpreter could not read.
\<close>

definition members_error_text :: "exn \<Rightarrow> string option" where
  "members_error_text e =
     (case e of
        BotConversationMembersError m \<Rightarrow> Some m
      | BotDeliveryError m \<Rightarrow> Some m
      | GraphDelegatedLookupError m _ \<Rightarrow> Some m
      | ValueError m \<Rightarrow> Some m
      | PyError t \<Rightarrow> if startswith t ''ValueError: '' then Some (drop 12 t) else None
      | _ \<Rightarrow> None)"

definition members_lookup ::
  "remote \<Rightarrow> world \<Rightarrow> settings \<Rightarrow> webhook_route \<Rightarrow> db \<times> bot_token_manager option \<Rightarrow>
   (exn + members_result) \<times> db \<times> bot_token_manager option" where
  "members_lookup rm w st r s =
     (let (db, tokens) = s; backend = route_delivery_backend r in
      if backend = ''graph'' \<and> strip (r_graph_target_kind r) = ''chat'' then
        (case fetch_service_user_chat_members rm w st (r_organization_id r) (r_graph_target_id r) db of
           (res, db) \<Rightarrow> (res, db, tokens))
      else if backend = ''bot_framework'' \<and> strip (r_bot_service_url r) \<noteq> [] \<and> strip (r_bot_conversation_id r) \<noteq> [] then
        (case fetch_bot_conversation_members rm w st (r_bot_service_url r) (r_bot_conversation_id r) tokens of
           (res, tokens) \<Rightarrow> (res, db, tokens))
      else (Inl (ValueError ''Member refresh is only available for Bot Framework conversations and Graph chat routes.''), s))"

definition refresh_route_members ::
  "remote \<Rightarrow> world \<Rightarrow> settings \<Rightarrow> webhook_route \<Rightarrow> db \<times> bot_token_manager option \<Rightarrow>
   (exn + webhook_route) \<times> db \<times> bot_token_manager option" where
  "refresh_route_members rm w st r s =
     (case members_lookup rm w st r s of
        (Inl e, s) \<Rightarrow>
          (case members_error_text e of
             None \<Rightarrow> (Inl e, s)
           | Some m \<Rightarrow> (Inr (r\<lparr>r_members_lookup_error := clip 1000 m, r_members_refreshed_at := Some (utcnow w),
               r_updated_at := utcnow w\<rparr>), s))
      | (Inr result, s) \<Rightarrow>
          (Inr (r\<lparr>r_member_summary := mr_member_summary result, r_member_count := mr_member_count result,
             r_member_list_json := serialize_members (mr_members result), r_members_lookup_error := [],
             r_members_refreshed_at := Some (utcnow w),
             r_target_name := (if mr_member_summary result \<noteq> [] then clip 200 (mr_member_summary result) else r_target_name r),
             r_updated_at := utcnow w\<rparr>), s))"

definition refresh_webhook_route_members ::
  "remote \<Rightarrow> world \<Rightarrow> settings \<Rightarrow> user \<Rightarrow> string \<Rightarrow> db \<times> caches \<Rightarrow> (exn + route_out) \<times> db \<times> caches" where
  "refresh_webhook_route_members rm w st admin route_id s =
     (let (db0, cs) = s in
      case get_org_route (u_organization_id admin) route_id db0 of
        Inl e \<Rightarrow> (Inl e, s)
      | Inr old \<Rightarrow>
          (case refresh_route_members rm w st old (db0, bot_tokens cs) of
             (Inl e, _, tokens) \<Rightarrow> (Inl e, db0, cs\<lparr>bot_tokens := tokens\<rparr>)
           | (Inr r, db, tokens) \<Rightarrow>
               (case flush_route w old r db of (r, db) \<Rightarrow>
                 (route_out_of st r,
                  route_audit w st admin ''webhook_route.members_refreshed''
                    [(''webhook_route_id'', JStr (r_id r)), (''name'', JStr (r_name r)),
                     (''member_count'', JInt (r_member_count r)), (''lookup_error'', JBool (r_members_lookup_error r \<noteq> []))] db,
                  cs\<lparr>bot_tokens := tokens\<rparr>))))"

section \<open>Deleting and replacing the URL\<close>

definition delete_webhook_route ::
  "world \<Rightarrow> settings \<Rightarrow> user \<Rightarrow> string \<Rightarrow> db \<Rightarrow> (exn + unit) \<times> db" where
  "delete_webhook_route w st admin route_id db =
     (case get_org_route (u_organization_id admin) route_id db of
        Inl e \<Rightarrow> (Inl e, db)
      | Inr r \<Rightarrow>
          (let db = db\<lparr>deliveries := update_rows (\<lambda>d. d_route_id d = Some (r_id r)) (\<lambda>d. d\<lparr>d_route_id := None\<rparr>) (deliveries db),
                 reveals := delete_rows (\<lambda>v. rv_route_id v = r_id r) (reveals db)\<rparr>;
               db = route_audit w st admin ''webhook_route.deleted''
                 [(''webhook_route_id'', JStr (r_id r)), (''name'', JStr (r_name r))] db
           in (Inr (), db\<lparr>routes := delete_rows (\<lambda>x. r_id x = r_id r) (routes db)\<rparr>)))"

definition regenerate_webhook_route_url ::
  "world \<Rightarrow> settings \<Rightarrow> user \<Rightarrow> string \<Rightarrow> db \<Rightarrow> (exn + route_out) \<times> db" where
  "regenerate_webhook_route_url w st admin route_id db =
     (case get_org_route (u_organization_id admin) route_id db of
        Inl e \<Rightarrow> (Inl e, db)
      | Inr old \<Rightarrow>
          (let r = old\<lparr>r_route_token := generated_secret w, r_route_token_hash := lookup_secret_hash w (generated_secret w)\<rparr> in
           if route_conflict r db then (Inl IntegrityError, db)
           else (case flush_route w old r db of (r, db) \<Rightarrow>
             (route_out_of st r,
              route_audit w st admin ''webhook_route.url_regenerated''
                [(''webhook_route_id'', JStr (r_id r)), (''name'', JStr (r_name r))] db))))"

section \<open>Testing\<close>

record test_request =
  tr_title :: string
  tr_text :: string
  tr_severity :: string

definition check_test_request :: "test_request \<Rightarrow> exn + test_request" where
  "check_test_request p =
     (if named 255 (tr_title p) \<and> named 2000 (tr_text p) \<and> length (tr_severity p) \<le> 40 then Inr p else Inl unprocessable)"

definition manual_test_metadata :: "webhook_route \<Rightarrow> (string \<times> json) list" where
  "manual_test_metadata r =
     [(''trigger'', JStr ''manual_test''),
      (''graph_target'', JDict [(''kind'', JStr (r_graph_target_kind r)), (''target_name'', JStr (r_target_name r)),
         (''target_id'', JStr (r_graph_target_id r)), (''team_id'', JStr (r_graph_team_id r)),
         (''team_name'', JStr (r_graph_team_name r)), (''channel_id'', JStr (r_graph_channel_id r)),
         (''user_id'', JStr (r_graph_user_id r)), (''user_display_name'', JStr (r_graph_user_display_name r)),
         (''user_principal_name'', JStr (r_graph_user_principal_name r))]),
      (''bot_target'', JDict [(''service_url'', JStr (r_bot_service_url r)), (''conversation_id'', JStr (r_bot_conversation_id r))])]"

definition test_message :: "test_request \<Rightarrow> normalized_message" where
  "test_message p =
     \<lparr>msg_title = strip (tr_title p), msg_text = strip (tr_text p), msg_severity = or_str (lower (strip (tr_severity p))) ''info'',
      msg_status = [], msg_raw_type = ''test'', msg_activity = None\<rparr>"

definition test_webhook_route ::
  "remote \<Rightarrow> world \<Rightarrow> settings \<Rightarrow> user \<Rightarrow> string \<Rightarrow> test_request \<Rightarrow> relay_state \<Rightarrow>
   (exn + delivery_out) \<times> relay_state" where
  "test_webhook_route rm w st admin route_id p s =
     (case get_org_route (u_organization_id admin) route_id (fst s) of
        Inl e \<Rightarrow> (Inl e, s)
      | Inr r \<Rightarrow>
          (case ensure_route_feature_enabled r st of
             Some e \<Rightarrow> (Inl e, s)
           | None \<Rightarrow>
               (case deliver_to_route rm w st r (test_message p) (manual_test_metadata r) None s of
                  (Inl e, _, tokens) \<Rightarrow> (Inl e, fst s, tokens)
                | (Inr d, db, tokens) \<Rightarrow>
                    (if d_status d = ''failed'' then Inl (HTTPException 502 (d_error d))
                     else Inr (delivered_out r d ''Test message delivered''),
                     route_audit w st admin ''webhook_route.tested''
                       [(''webhook_route_id'', JStr (r_id r)), (''status'', JStr (d_status d))] db, tokens))))"

section \<open>Revealing a URL\<close>

record reveal_out =
  vo_webhook_url :: string
  vo_route_name :: string
  vo_expires_at :: instant

definition reveal_webhook_url :: "world \<Rightarrow> settings \<Rightarrow> string \<Rightarrow> db \<Rightarrow> exn + reveal_out" where
  "reveal_webhook_url w st token db =
     (let not_found = Inl (HTTPException 404 ''Webhook URL reveal link is invalid or expired'') in
      case fetch (\<lambda>v. rv_token_hash v = lookup_secret_hash w token) (reveals db) of
        None \<Rightarrow> not_found
      | Some v \<Rightarrow>
          if rv_expires_at v \<le> utcnow w then not_found
          else (case fetch (\<lambda>r. r_id r = rv_route_id v \<and> r_organization_id r = rv_organization_id v) (routes db) of
            None \<Rightarrow> not_found
          | Some r \<Rightarrow>
              if r_route_token r = [] then not_found
              else Inr \<lparr>vo_webhook_url = build_webhook_url st (r_route_token r), vo_route_name = r_name r,
                        vo_expires_at = rv_expires_at v\<rparr>))"

end
