(* ===== verification/Bot_Activity.thy ===== *)
theory Bot_Activity
  imports Accounts Routes
begin

text \<open>
  The first part of \<open>routers/bot_messages.py\<close>: what is read from an activity that Teams posts, and
  how the text of a message or the button of a card is read as a command. What a call draws from
  outside beside \<^typ>\<open>world\<close> is in \<open>bot_env\<close>: the entity table of \<open>html.unescape\<close>, and the secrets of
  \<open>issue_plain_secret\<close>, one for each row, numbered by the key the row gets.
\<close>

record bot_env =
  html_unescape :: "string \<Rightarrow> string"
  drawn_secret :: "nat \<Rightarrow> string"

section \<open>Reading an activity\<close>

text \<open>The dictionary \<open>captured\<close>; \<open>member_summary\<close> is the key that only a reference adds.\<close>

record captured =
  ca_activity_type :: string
  ca_service_url :: string
  ca_conversation_id :: string
  ca_raw_conversation_id :: string
  ca_tenant_id :: string
  ca_team_id :: string
  ca_graph_team_id :: string
  ca_channel_id :: string
  ca_conversation_type :: string
  ca_is_group :: string
  ca_team_name :: string
  ca_channel_name :: string
  ca_from_id :: string
  ca_user_name :: string
  ca_graph_user_id :: string
  ca_recipient_id :: string
  ca_member_summary :: string

definition as_dict :: "json \<Rightarrow> (string \<times> json) list" where
  "as_dict value = (case value of JDict kvs \<Rightarrow> kvs | _ \<Rightarrow> [])"

definition bool_string :: "json \<Rightarrow> string" where
  "bool_string value = (if value = JBool True then ''true'' else [])"

text \<open>\<open>value.split(sep, 1)[0]\<close>: the text before the first occurrence.\<close>

fun text_before :: "string \<Rightarrow> string \<Rightarrow> string" where
  "text_before sep [] = []"
| "text_before sep (c # cs) = (if startswith (c # cs) sep then [] else c # text_before sep cs)"

definition normalize_conversation_id :: "string \<Rightarrow> string" where
  "normalize_conversation_id value =
     (if contains '';messageid='' value then text_before '';messageid='' value else value)"

definition extract_activity :: "(string \<times> json) list \<Rightarrow> captured" where
  "extract_activity activity =
     (let channel_data = as_dict (dict_get activity ''channelData'');
          conversation = as_dict (dict_get activity ''conversation'');
          sender = as_dict (dict_get activity ''from'');
          recipient = as_dict (dict_get activity ''recipient'');
          tenant = as_dict (dict_get channel_data ''tenant'');
          team = as_dict (dict_get channel_data ''team'');
          channel = as_dict (dict_get channel_data ''channel'');
          selected_channel = as_dict (dict_get (as_dict (dict_get channel_data ''settings'')) ''selectedChannel'');
          text = (\<lambda>d k. stripped_str (dict_get d k));
          conversation_id = normalize_conversation_id (text conversation ''id'');
          conversation_type = lower (text conversation ''conversationType'')
      in \<lparr>ca_activity_type = text activity ''type'', ca_service_url = text activity ''serviceUrl'',
          ca_conversation_id = conversation_id, ca_raw_conversation_id = text conversation ''id'',
          ca_tenant_id = or_str (text tenant ''id'') (text conversation ''tenantId''),
          ca_team_id = or_str (text team ''id'') (text channel_data ''teamsTeamId''),
          ca_graph_team_id = text team ''aadGroupId'',
          ca_channel_id = or_str (text channel ''id'') (or_str (text channel_data ''teamsChannelId'')
            (or_str (text selected_channel ''id'') (if conversation_type = ''channel'' then conversation_id else []))),
          ca_conversation_type = clip 40 conversation_type, ca_is_group = bool_string (dict_get conversation ''isGroup''),
          ca_team_name = clip 200 (text team ''name''),
          ca_channel_name = clip 200 (or_str (text channel ''name'') (or_str (text selected_channel ''name'') (text conversation ''name''))),
          ca_from_id = text sender ''id'', ca_user_name = clip 200 (text sender ''name''),
          ca_graph_user_id = text sender ''aadObjectId'', ca_recipient_id = text recipient ''id'', ca_member_summary = []\<rparr>)"

definition is_group_conversation :: "captured \<Rightarrow> bool" where
  "is_group_conversation ca \<longleftrightarrow>
     ca_is_group ca = ''true'' \<or> lower (ca_conversation_type ca) \<in> {''groupchat'', ''group'', ''chat''}"

definition scope_for :: "captured \<Rightarrow> string" where
  "scope_for ca =
     (if ca_conversation_type ca = ''personal'' then ''user''
      else if ca_team_id ca \<noteq> [] \<and> ca_channel_id ca \<noteq> [] then ''channel''
      else if ca_team_id ca \<noteq> [] then ''team''
      else if is_group_conversation ca then ''chat''
      else ''user'')"

section \<open>What is stored of it\<close>

fun truncate :: "json \<Rightarrow> json" where
  "truncate (JStr s) = JStr (clip 2000 s)"
| "truncate (JDict kvs) = JDict (List.map (\<lambda>(k, v). (k, truncate v)) kvs)"
| "truncate (JList xs) = JList (take 25 (List.map truncate xs))"
| "truncate v = v"

definition stored_activity_keys :: "string list" where
  "stored_activity_keys =
     [''type'', ''id'', ''timestamp'', ''serviceUrl'', ''channelId'', ''from'', ''conversation'', ''recipient'',
      ''channelData'', ''membersAdded'', ''membersRemoved'', ''name'']"

definition safe_activity :: "(string \<times> json) list \<Rightarrow> (string \<times> json) list" where
  "safe_activity activity =
     List.map (\<lambda>(k, v). (k, truncate v)) (List.filter (\<lambda>(k, v). k \<in> set stored_activity_keys) activity) @
     (case dict_get activity ''text'' of
        JStr t \<Rightarrow> (if t \<noteq> [] then [(''text_preview'', JStr (clip 200 t))] else [])
      | _ \<Rightarrow> [])"

section \<open>Commands\<close>

definition KNOWN_COMMANDS :: "string list" where
  "KNOWN_COMMANDS = [''register'', ''webhook'', ''disable'', ''enable'', ''delete'', ''info'', ''allowlist'', ''help'']"

definition SAFE_SUBMIT_COMMANDS :: "string list" where
  "SAFE_SUBMIT_COMMANDS = [''webhook'', ''disable'', ''enable'', ''info'', ''help'']"

text \<open>\<open>re.sub("<at>.*?</at>", "", text)\<close>, ignoring case: from the left, up to the nearest closing tag.\<close>

fun after_tag :: "string \<Rightarrow> string \<Rightarrow> string option" where
  "after_tag tag [] = None"
| "after_tag tag (c # cs) =
     (if startswith (lower (c # cs)) tag then Some (drop (length tag) (c # cs)) else after_tag tag cs)"

lemma after_tag_shorter: "after_tag tag s = Some rest \<Longrightarrow> length rest \<le> length s"
  by (induction s) (auto split: if_splits)

function without_mentions :: "string \<Rightarrow> string" where
  "without_mentions [] = []"
| "without_mentions (c # cs) =
     (case (if startswith (lower (c # cs)) ''<at>'' then after_tag ''</at>'' (drop 4 (c # cs)) else None) of
        Some rest \<Rightarrow> without_mentions rest
      | None \<Rightarrow> c # without_mentions cs)"
  by pat_completeness auto
termination
  by (relation "measure length") (auto split: if_splits dest!: after_tag_shorter)

text \<open>\<open>[A-Za-z][A-Za-z0-9_-]*\<close>, then the end or white space and the argument.\<close>

definition command_char :: "char \<Rightarrow> bool" where
  "command_char c \<longleftrightarrow> ascii_letter c \<or> is_digit c \<or> c = CHR ''_'' \<or> c = CHR ''-''"

definition split_words :: "string \<Rightarrow> string" where
  "split_words s = join '' '' (words_from [] s)"

definition parse_command :: "bot_env \<Rightarrow> string \<Rightarrow> (string \<times> string) option" where
  "parse_command be text =
     (let cleaned = strip (html_unescape be (without_mentions text));
          word = takeWhile command_char cleaned; rest = dropWhile command_char cleaned
      in if cleaned = [] \<or> hd cleaned = CHR ''/'' then None
         else if \<not> ascii_letter (hd cleaned) \<or> (rest \<noteq> [] \<and> \<not> py_space (hd rest)) then None
         else if lower word \<notin> set KNOWN_COMMANDS then None
         else Some (lower word, split_words rest))"

definition parse_submit_command :: "bot_env \<Rightarrow> (string \<times> json) list \<Rightarrow> (string \<times> string) option" where
  "parse_submit_command be value =
     (let command_value = strip (stripped_str (dict_get value ''command'')) in
      if command_value = [] then None
      else (let (command, embedded) =
                  (case parse_command be command_value of Some p \<Rightarrow> p | None \<Rightarrow> (lower command_value, []));
                route_name = or_str (stripped_str (dict_get value ''route_name'')) (or_str (stripped_str (dict_get value ''routeName''))
                  (or_str (stripped_str (dict_get value ''route'')) (stripped_str (dict_get value ''argument''))))
            in if command \<notin> set SAFE_SUBMIT_COMMANDS then None
               else Some (command, split_words (or_str route_name embedded))))"

definition parse_activity_command :: "bot_env \<Rightarrow> (string \<times> json) list \<Rightarrow> (string \<times> string) option" where
  "parse_activity_command be activity =
     (case parse_submit_command be (as_dict (dict_get activity ''value'')) of
        Some p \<Rightarrow> Some p
      | None \<Rightarrow> parse_command be (stripped_str (dict_get activity ''text'')))"

section \<open>Lemmas\<close>

lemma words_from_words: "v \<in> set (words_from cur s) \<Longrightarrow> \<forall>c \<in> set cur. \<not> py_space c \<Longrightarrow> v \<noteq> [] \<and> (\<forall>c \<in> set v. \<not> py_space c)"
  by (induction cur s rule: words_from.induct) (auto split: if_splits)

text \<open>Splitting what was put together from words gives the words back.\<close>

lemma words_from_append: "\<forall>c \<in> set v. \<not> py_space c \<Longrightarrow> words_from cur (v @ s) = words_from (rev v @ cur) s"
  by (induction v arbitrary: cur) auto

lemma words_from_join:
  "\<forall>v \<in> set ws. v \<noteq> [] \<and> (\<forall>c \<in> set v. \<not> py_space c) \<Longrightarrow> words_from [] (join '' '' ws) = ws"
proof (induction "'' ''" ws rule: join.induct)
  case (2 x)
  then show ?case using words_from_append [of x "[]" "[]"] by simp
next
  case (3 x y xs)
  have "py_space CHR '' ''" by (simp add: py_space_def)
  then show ?case using 3 words_from_append [of x "[]" "CHR '' '' # join '' '' (y # xs)"] by simp
qed simp

lemma split_words_idem [simp]: "split_words (split_words s) = split_words s"
  unfolding split_words_def using words_from_words [of _ "[]" s] by (subst words_from_join) auto

lemma split_words_Nil [simp]: "split_words [] = []"
  by (simp add: split_words_def)

lemma strip_split_words [simp]: "strip (split_words s) = split_words s"
proof (rule strip_fixed)
  let ?ws = "words_from [] s"
  have ws: "v \<noteq> [] \<and> (\<forall>c \<in> set v. \<not> py_space c)" if "v \<in> set ?ws" for v
    using words_from_words [OF that] by simp
  have "\<not> py_space (hd (join '' '' ws)) \<and> \<not> py_space (last (join '' '' ws))"
    if "ws \<noteq> []" "\<forall>v \<in> set ws. v \<noteq> [] \<and> (\<forall>c \<in> set v. \<not> py_space c)" for ws
    using that
  proof (induction "'' ''" ws rule: join.induct)
    case (3 x y xs)
    have "join '' '' (y # xs) \<noteq> []" using 3(3) join_nonempty_member [of y "y # xs" "'' ''"] by simp
    then show ?case using 3 by (auto simp: hd_append)
  qed (auto simp: hd_in_set last_in_set)
  moreover have "?ws \<noteq> []" if "split_words s \<noteq> []" using that by (auto simp: split_words_def)
  ultimately show "split_words s \<noteq> [] \<Longrightarrow> \<not> py_space (hd (split_words s))"
    "split_words s \<noteq> [] \<Longrightarrow> \<not> py_space (last (split_words s))"
    using ws by (auto simp: split_words_def)
qed

text \<open>What a command is: one of the known ones, its argument in words with single spaces.\<close>

lemma parse_command_known:
  "parse_command be text = Some (command, argument) \<Longrightarrow> command \<in> set KNOWN_COMMANDS \<and> split_words argument = argument"
  by (auto simp: parse_command_def Let_def split: if_splits)

lemma parse_submit_command_safe:
  "parse_submit_command be value = Some (command, argument) \<Longrightarrow> command \<in> set SAFE_SUBMIT_COMMANDS \<and> split_words argument = argument"
  by (auto simp: parse_submit_command_def Let_def split: if_splits prod.splits)

lemma safe_commands_known: "set SAFE_SUBMIT_COMMANDS \<subseteq> set KNOWN_COMMANDS"
  by (simp add: SAFE_SUBMIT_COMMANDS_def KNOWN_COMMANDS_def)

lemma parse_activity_command_known:
  assumes "parse_activity_command be activity = Some (command, argument)"
  shows "command \<in> set KNOWN_COMMANDS" "split_words argument = argument"
    "parse_submit_command be (as_dict (dict_get activity ''value'')) \<noteq> None \<Longrightarrow> command \<in> set SAFE_SUBMIT_COMMANDS"
proof -
  let ?v = "as_dict (dict_get activity ''value'')"
  have "command \<in> set KNOWN_COMMANDS \<and> split_words argument = argument \<and>
    (parse_submit_command be ?v \<noteq> None \<longrightarrow> command \<in> set SAFE_SUBMIT_COMMANDS)"
  proof (cases "parse_submit_command be ?v")
    case None
    then have "parse_command be (stripped_str (dict_get activity ''text'')) = Some (command, argument)"
      using assms by (simp add: parse_activity_command_def)
    from parse_command_known [OF this] None show ?thesis by simp
  next
    case (Some p)
    then have p: "p = (command, argument)" using assms by (simp add: parse_activity_command_def)
    have "command \<in> set SAFE_SUBMIT_COMMANDS" "split_words argument = argument"
      using parse_submit_command_safe Some unfolding p by blast+
    then show ?thesis using safe_commands_known by blast
  qed
  then show "command \<in> set KNOWN_COMMANDS" "split_words argument = argument"
    "parse_submit_command be ?v \<noteq> None \<Longrightarrow> command \<in> set SAFE_SUBMIT_COMMANDS" by simp_all
qed

end
