(* ===== verification/Bot_Access.thy ===== *)
theory Bot_Access
  imports Bot_Activity
begin

text \<open>
  Who may run which command: \<open>services/bot_access_roles.py\<close> and the authorization part of
  \<open>routers/bot_messages.py\<close>. A sender is known by the object id of the directory; permissions come
  from the row of the user and from the rows of the groups the directory places the user in, each
  through its role where it has one. Group memberships are kept for ten minutes.
\<close>

section \<open>Permissions and roles\<close>

definition permission_columns :: "(string \<times> (permissions \<Rightarrow> bool)) list" where
  "permission_columns =
     [(''can_view_routes'', can_view_routes), (''can_reveal_webhook_urls'', can_reveal_webhook_urls),
      (''can_manage_route_status'', can_manage_route_status), (''can_delete_routes'', can_delete_routes),
      (''can_manage_allowlist'', can_manage_allowlist),
      (''can_create_private_chat_routes'', can_create_private_chat_routes),
      (''can_create_channel_routes'', can_create_channel_routes)]"

definition BOT_PERMISSION_FIELDS :: "string list" where
  "BOT_PERMISSION_FIELDS = List.map fst permission_columns"

text \<open>\<open>bool(permissions.get(name))\<close>\<close>

definition has_permission :: "permissions \<Rightarrow> string \<Rightarrow> bool" where
  "has_permission p name = (case map_of permission_columns name of None \<Rightarrow> False | Some column \<Rightarrow> column p)"

definition permissions_json :: "permissions \<Rightarrow> json" where
  "permissions_json p = JDict (List.map (\<lambda>(name, column). (name, JBool (column p))) permission_columns)"

definition viewer_permissions :: permissions where
  "viewer_permissions =
     \<lparr>can_view_routes = True, can_reveal_webhook_urls = True, can_manage_route_status = False,
      can_delete_routes = False, can_manage_allowlist = False, can_create_private_chat_routes = False,
      can_create_channel_routes = False\<rparr>"

definition all_permissions :: permissions where
  "all_permissions =
     \<lparr>can_view_routes = True, can_reveal_webhook_urls = True, can_manage_route_status = True,
      can_delete_routes = True, can_manage_allowlist = True, can_create_private_chat_routes = True,
      can_create_channel_routes = True\<rparr>"

definition BOT_ACCESS_SYSTEM_ROLES :: "(string \<times> string \<times> string \<times> permissions) list" where
  "BOT_ACCESS_SYSTEM_ROLES =
     [(''route_viewer'', ''Route Viewer'', ''Can inspect routes and reveal webhook URLs.'', viewer_permissions),
      (''route_operator'', ''Route Operator'', ''Can fully operate bot-managed webhook routes.'', all_permissions)]"

text \<open>The unique constraints of the table: name and system key within an organization.\<close>

definition role_conflict :: "bot_access_role \<Rightarrow> db \<Rightarrow> bool" where
  "role_conflict r db \<longleftrightarrow>
     list_ex (\<lambda>x. ro_id x \<noteq> ro_id r \<and> ro_organization_id x = ro_organization_id r \<and>
       (ro_name x = ro_name r \<or> (ro_system_key r \<noteq> None \<and> ro_system_key x = ro_system_key r))) (bot_roles db)"

text \<open>One system role: created where it is missing, marked as one where it is not.\<close>

definition ensure_system_role ::
  "world \<Rightarrow> string \<Rightarrow> string option \<Rightarrow> string \<times> string \<times> string \<times> permissions \<Rightarrow>
   (string \<times> bot_access_role) list \<times> db \<Rightarrow> exn + (string \<times> bot_access_role) list \<times> db" where
  "ensure_system_role w org actor_id role s =
     (let (existing, db) = s; (system_key, name, description, permissions) = role in
      case map_of existing system_key of
        None \<Rightarrow>
          (let row = \<lparr>ro_id = new_id db, ro_organization_id = org, ro_name = name, ro_description = description,
                 ro_is_system = True, ro_system_key = Some system_key, ro_permissions = permissions,
                 ro_created_by_id = actor_id, ro_updated_by_id = actor_id, ro_created_at = utcnow w,
                 ro_updated_at = utcnow w\<rparr>
           in if role_conflict row db then Inl (PyError ''IntegrityError'')
              else Inr ((system_key, row) # existing, db\<lparr>bot_roles := bot_roles db @ [row], next_id := Suc (next_id db)\<rparr>))
      | Some row \<Rightarrow>
          Inr (if ro_is_system row then (existing, db)
               else (let row = row\<lparr>ro_is_system := True, ro_updated_at := utcnow w\<rparr>
                     in ((system_key, row) # existing, db\<lparr>bot_roles := save_row ro_id row (bot_roles db)\<rparr>))))"

fun ensure_system_roles ::
  "world \<Rightarrow> string \<Rightarrow> string option \<Rightarrow> (string \<times> string \<times> string \<times> permissions) list \<Rightarrow>
   (string \<times> bot_access_role) list \<times> db \<Rightarrow> exn + (string \<times> bot_access_role) list \<times> db" where
  "ensure_system_roles w org actor_id [] s = Inr s"
| "ensure_system_roles w org actor_id (role # roles) s =
     (case ensure_system_role w org actor_id role s of
        Inl e \<Rightarrow> Inl e
      | Inr s \<Rightarrow> ensure_system_roles w org actor_id roles s)"

definition ensure_bot_access_system_roles ::
  "world \<Rightarrow> string \<Rightarrow> string option \<Rightarrow> db \<Rightarrow> exn + (string \<times> bot_access_role) list \<times> db" where
  "ensure_bot_access_system_roles w org actor_id db =
     (let existing = List.map (\<lambda>r. (opt_str (ro_system_key r), r))
            (List.filter (\<lambda>r. ro_organization_id r = org \<and> ro_system_key r \<noteq> None \<and>
               opt_str (ro_system_key r) \<in> set (List.map fst BOT_ACCESS_SYSTEM_ROLES)) (bot_roles db))
      in ensure_system_roles w org actor_id BOT_ACCESS_SYSTEM_ROLES (rev existing, db))"

definition role_permissions :: "bot_access_role option \<Rightarrow> permissions option" where
  "role_permissions role = map_option ro_permissions role"

text \<open>The relationship \<open>access_role\<close> of a row with a \<open>role_id\<close>.\<close>

definition access_role :: "db \<Rightarrow> string option \<Rightarrow> bot_access_role option" where
  "access_role db role_id =
     (if opt_str role_id = [] then None else fetch (\<lambda>r. ro_id r = opt_str role_id) (bot_roles db))"

definition effective_bot_permissions :: "db \<Rightarrow> string option \<Rightarrow> permissions \<Rightarrow> permissions" where
  "effective_bot_permissions db role_id own =
     (case role_permissions (access_role db role_id) of Some p \<Rightarrow> p | None \<Rightarrow> own)"

definition user_permissions :: "db \<Rightarrow> bot_authorized_user \<Rightarrow> permissions" where
  "user_permissions db u = effective_bot_permissions db (bu_role_id u) (bu_permissions u)"

definition group_permissions :: "db \<Rightarrow> bot_authorized_group \<Rightarrow> permissions" where
  "group_permissions db g = effective_bot_permissions db (bg_role_id g) (bg_permissions g)"

definition union_bot_permissions :: "permissions list \<Rightarrow> permissions" where
  "union_bot_permissions sources =
     \<lparr>can_view_routes = list_ex can_view_routes sources,
      can_reveal_webhook_urls = list_ex can_reveal_webhook_urls sources,
      can_manage_route_status = list_ex can_manage_route_status sources,
      can_delete_routes = list_ex can_delete_routes sources,
      can_manage_allowlist = list_ex can_manage_allowlist sources,
      can_create_private_chat_routes = list_ex can_create_private_chat_routes sources,
      can_create_channel_routes = list_ex can_create_channel_routes sources\<rparr>"

section \<open>The groups of a sender\<close>

definition BOT_GROUP_MEMBERSHIP_CACHE_TTL :: duration where
  "BOT_GROUP_MEMBERSHIP_CACHE_TTL = minutes 10"

definition find_membership :: "string \<Rightarrow> string \<Rightarrow> db \<Rightarrow> group_membership_cache option" where
  "find_membership org aad_object_id db =
     fetch (\<lambda>c. gc_organization_id c = org \<and> gc_aad_object_id c = aad_object_id) (membership_cache db)"

definition cache_live :: "world \<Rightarrow> group_membership_cache \<Rightarrow> bool" where
  "cache_live w c = (case gc_expires_at c of None \<Rightarrow> False | Some e \<Rightarrow> utcnow w < e)"

definition save_membership :: "group_membership_cache \<Rightarrow> db \<Rightarrow> db" where
  "save_membership c db = db\<lparr>membership_cache := save_row gc_id c (membership_cache db)\<rparr>"

definition membership_failed :: "world \<Rightarrow> string \<Rightarrow> group_membership_cache option \<Rightarrow> db \<Rightarrow> db" where
  "membership_failed w message cache db =
     (case cache of
        None \<Rightarrow> db
      | Some c \<Rightarrow> save_membership (c\<lparr>gc_checked_at := Some (utcnow w), gc_last_error := message\<rparr>) db)"

definition membership_found :: "world \<Rightarrow> string \<Rightarrow> string \<Rightarrow> string list \<Rightarrow> group_membership_cache option \<Rightarrow> db \<Rightarrow> db" where
  "membership_found w org aad_object_id group_ids cache db =
     (let filled = (\<lambda>c. c\<lparr>gc_group_ids := group_ids, gc_checked_at := Some (utcnow w),
            gc_expires_at := Some (utcnow w + BOT_GROUP_MEMBERSHIP_CACHE_TTL), gc_last_error := []\<rparr>)
      in case cache of
           Some c \<Rightarrow> save_membership (filled c) db
         | None \<Rightarrow>
             db\<lparr>membership_cache := membership_cache db @ [filled \<lparr>gc_id = new_id db, gc_organization_id = org,
                  gc_aad_object_id = aad_object_id, gc_group_ids = [], gc_checked_at = None, gc_expires_at = None,
                  gc_last_error = []\<rparr>], next_id := Suc (next_id db)\<rparr>)"

definition bot_group_ids_for_sender ::
  "remote \<Rightarrow> world \<Rightarrow> settings \<Rightarrow> string \<Rightarrow> string \<Rightarrow> db \<times> graph_tokens \<Rightarrow>
   (exn + string list \<times> string \<times> string) \<times> db \<times> graph_tokens" where
  "bot_group_ids_for_sender rm w st org aad_object_id s =
     (let (db, tokens) = s; cache = find_membership org aad_object_id db;
          ask = (case list_user_transitive_group_ids rm w st aad_object_id tokens of
             (Inl e, tokens) \<Rightarrow>
               (if name_error e
                then (let message = clip 1000 (exn_text e)
                      in (Inr ([], ''error'', message), membership_failed w message cache db, tokens))
                else (Inl e, db, tokens))
           | (Inr group_ids, tokens) \<Rightarrow>
               (Inr (group_ids, ''miss'', []), membership_found w org aad_object_id group_ids cache db, tokens))
      in if fetch (\<lambda>g. bg_organization_id g = org \<and> bg_is_active g) (bot_groups db) = None
         then (Inr ([], ''not_configured'', []), s)
         else (case cache of
           Some c \<Rightarrow> if cache_live w c then (Inr (gc_group_ids c, ''hit'', gc_last_error c), s) else ask
         | None \<Rightarrow> ask))"

definition matching_bot_groups :: "db \<Rightarrow> string \<Rightarrow> string list \<Rightarrow> bot_authorized_group list" where
  "matching_bot_groups db org group_ids =
     (let ids = List.map (\<lambda>i. lower (strip i)) (List.filter (\<lambda>i. strip i \<noteq> []) group_ids) in
      if ids = [] then []
      else sort_key bg_display_name
        (List.filter (\<lambda>g. bg_organization_id g = org \<and> bg_is_active g \<and> bg_group_object_id g \<in> set ids) (bot_groups db)))"

section \<open>Authorization\<close>

definition allowlist_argument_is_write :: "string \<Rightarrow> bool" where
  "allowlist_argument_is_write argument \<longleftrightarrow>
     (let lowered = lower (strip argument) in
      lowered = ''public'' \<or> startswith lowered ''public '' \<or> lowered = ''restricted'' \<or> startswith lowered ''restricted '')"

definition required_bot_permission :: "string \<Rightarrow> string \<Rightarrow> captured \<Rightarrow> string" where
  "required_bot_permission command argument ca =
     (if command = ''help'' then []
      else if command = ''info'' then ''can_view_routes''
      else if command = ''webhook'' then ''can_reveal_webhook_urls''
      else if command = ''enable'' \<or> command = ''disable'' then ''can_manage_route_status''
      else if command = ''delete'' then ''can_delete_routes''
      else if command = ''register''
      then (if scope_for ca \<in> {''team'', ''channel''} then ''can_create_channel_routes'' else ''can_create_private_chat_routes'')
      else if command = ''allowlist''
      then (if allowlist_argument_is_write argument then ''can_manage_allowlist'' else ''can_view_routes'')
      else [])"

text \<open>\<open>BotCommandAuthorization\<close>; an empty dictionary of permissions is \<^const>\<open>None\<close>.\<close>

record bot_authorization =
  az_allowed :: bool
  az_status :: string
  az_reason :: string
  az_command :: string
  az_required_permission :: string
  az_bot_user :: "bot_authorized_user option"
  az_bot_groups :: "bot_authorized_group list"
  az_permissions :: "permissions option"
  az_cache_status :: string
  az_cache_error :: string

text \<open>\<open>__getattr__\<close>: a permission as an attribute.\<close>

definition permitted :: "bot_authorization \<Rightarrow> string \<Rightarrow> bool" where
  "permitted az name = (case az_permissions az of None \<Rightarrow> False | Some p \<Rightarrow> has_permission p name)"

definition denied_authorization :: "string \<Rightarrow> string \<Rightarrow> bot_authorization" where
  "denied_authorization command reason =
     \<lparr>az_allowed = False, az_status = ''denied'', az_reason = reason, az_command = command,
      az_required_permission = [], az_bot_user = None, az_bot_groups = [], az_permissions = None,
      az_cache_status = [], az_cache_error = []\<rparr>"

definition active_bot_user :: "string \<Rightarrow> string \<Rightarrow> db \<Rightarrow> bot_authorized_user option" where
  "active_bot_user org aad_object_id db =
     (case fetch (\<lambda>u. bu_organization_id u = org \<and> bu_aad_object_id u = aad_object_id) (bot_users db) of
        Some u \<Rightarrow> if bu_is_active u then Some u else None
      | None \<Rightarrow> None)"

definition touch_sources :: "world \<Rightarrow> bot_authorized_user option \<Rightarrow> bot_authorized_group list \<Rightarrow> db \<Rightarrow> db" where
  "touch_sources w user groups db =
     db\<lparr>bot_users := (case user of None \<Rightarrow> bot_users db
          | Some u \<Rightarrow> save_row bu_id (u\<lparr>bu_last_seen_at := Some (utcnow w), bu_updated_at := utcnow w\<rparr>) (bot_users db)),
        bot_groups := fold (\<lambda>g. save_row bg_id (g\<lparr>bg_last_matched_at := Some (utcnow w), bg_updated_at := utcnow w\<rparr>)) groups (bot_groups db)\<rparr>"

text \<open>What is decided once the groups are known; \<open>org\<close> is the id of the default organization.\<close>

definition decide_bot_command ::
  "world \<Rightarrow> captured \<Rightarrow> string \<times> string \<Rightarrow> string \<Rightarrow> bot_authorized_user option \<Rightarrow>
   string list \<times> string \<times> string \<Rightarrow> db \<Rightarrow> bot_authorization \<times> db" where
  "decide_bot_command w ca parsed org user found db =
     (let (command, argument) = parsed; (group_ids, cache_status, cache_error) = found;
          denied = (\<lambda>reason. (denied_authorization command reason)
            \<lparr>az_bot_user := user, az_cache_status := cache_status, az_cache_error := cache_error\<rparr>)
      in if cache_status = ''error'' \<and> user = None then (denied ''group_membership_lookup_unavailable'', db)
         else (let groups = (if cache_status = ''error'' then [] else matching_bot_groups db org group_ids);
                   permissions = union_bot_permissions
                     ((case user of None \<Rightarrow> [] | Some u \<Rightarrow> [user_permissions db u]) @ List.map (group_permissions db) groups);
                   known = (denied ''bot_user_not_authorized'')\<lparr>az_bot_groups := groups, az_permissions := Some permissions\<rparr>;
                   required = required_bot_permission command argument ca
               in if user = None \<and> groups = [] then (known, db)
                  else if required \<noteq> [] \<and> \<not> has_permission permissions required
                  then (known\<lparr>az_status := ''permission_denied'', az_reason := ''missing_'' @ required,
                          az_required_permission := required\<rparr>, db)
                  else (known\<lparr>az_allowed := True, az_status := ''authorized'', az_reason := ''authorized'',
                          az_required_permission := required\<rparr>, touch_sources w user groups db)))"

definition authorize_bot_command ::
  "remote \<Rightarrow> world \<Rightarrow> settings \<Rightarrow> captured \<Rightarrow> string \<times> string \<Rightarrow> db \<times> graph_tokens \<Rightarrow>
   (exn + bot_authorization) \<times> db \<times> graph_tokens" where
  "authorize_bot_command rm w st ca parsed s =
     (let aad_object_id = lower (strip (ca_graph_user_id ca)) in
      if aad_object_id = [] then (Inr (denied_authorization (fst parsed) ''missing_aad_object_id''), s)
      else (let (org, db) = default_organization st (fst s); user = active_bot_user (o_id org) aad_object_id db in
        case bot_group_ids_for_sender rm w st (o_id org) aad_object_id (db, snd s) of
          (Inl e, s) \<Rightarrow> (Inl e, s)
        | (Inr found, db, tokens) \<Rightarrow>
            (case decide_bot_command w ca parsed (o_id org) user found db of (az, db) \<Rightarrow> (Inr az, db, tokens))))"

section \<open>The audit of a command\<close>

definition direct_user_json :: "bot_authorized_user option \<Rightarrow> json" where
  "direct_user_json user =
     (case user of
        None \<Rightarrow> JNull
      | Some u \<Rightarrow> JDict [(''id'', JStr (bu_id u)), (''aad_object_id'', JStr (bu_aad_object_id u)),
          (''display_name'', JStr (bu_display_name u)), (''role'', JStr (bu_role u))])"

definition bot_group_json :: "bot_authorized_group \<Rightarrow> json" where
  "bot_group_json g =
     JDict [(''id'', JStr (bg_id g)), (''group_object_id'', JStr (bg_group_object_id g)),
       (''display_name'', JStr (bg_display_name g)), (''mail'', JStr (bg_mail g)), (''role'', JStr (bg_role g))]"

definition authorized_user_id :: "bot_authorization \<Rightarrow> string" where
  "authorized_user_id az = (case az_bot_user az of None \<Rightarrow> [] | Some u \<Rightarrow> bu_id u)"

definition command_audit_metadata :: "bot_authorization \<Rightarrow> captured \<Rightarrow> string \<times> string \<Rightarrow> (string \<times> json) list" where
  "command_audit_metadata az ca parsed =
     [(''command'', JStr (fst parsed)), (''argument'', JStr (snd parsed)), (''scope'', JStr (scope_for ca)),
      (''reason'', JStr (az_reason az)), (''required_permission'', JStr (az_required_permission az)),
      (''bot_authorized_user_id'', JStr (authorized_user_id az)),
      (''authorization_sources'', JDict
         [(''direct_user'', direct_user_json (az_bot_user az)), (''groups'', JList (List.map bot_group_json (az_bot_groups az))),
          (''cache_status'', JStr (az_cache_status az)), (''cache_error'', JStr (az_cache_error az)),
          (''permissions'', (case az_permissions az of None \<Rightarrow> JDict [] | Some p \<Rightarrow> permissions_json p)),
          (''allowed'', JBool (az_allowed az))]),
      (''aad_object_id'', JStr (ca_graph_user_id ca)), (''teams_user_id'', JStr (ca_from_id ca)),
      (''user_name'', JStr (ca_user_name ca)), (''conversation_id'', JStr (ca_conversation_id ca)),
      (''graph_team_id'', JStr (ca_graph_team_id ca)), (''channel_id'', JStr (ca_channel_id ca))]"

definition record_bot_command_authorization ::
  "world \<Rightarrow> settings \<Rightarrow> bot_authorization \<Rightarrow> captured \<Rightarrow> string \<times> string \<Rightarrow> db \<Rightarrow> db" where
  "record_bot_command_authorization w st az ca parsed db =
     (let action = (if az_status az = ''authorized'' then ''bot_command.authorized''
            else if az_status az = ''permission_denied'' then ''bot_command.permission_denied''
            else ''bot_command.denied'');
          actor = or_str (ca_graph_user_id ca) (ca_from_id ca);
          (org, db) = default_organization st db
      in record_audit w st action ''bot_command'' (if actor = [] then None else Some actor) (Some (o_id org))
           (command_audit_metadata az ca parsed) db)"

end
