(* ===== verification/Bot_Admin.thy ===== *)
theory Bot_Admin
  imports Bot_Access
begin

text \<open>
  The administration of bot access in \<open>routers/admin.py\<close>: roles, users and groups of the bot, what a
  row is granted by its role or by columns of its own, and how rows of older versions get their roles.
  A handler that raises leaves the database as it was; the unique constraints a flush can violate are
  those of the names of roles.
\<close>

section \<open>Request bodies\<close>

record role_create_in =
  rci_name :: string
  rci_description :: string
  rci_permissions :: permissions

text \<open>A permission that is set is an entry of the patch.\<close>

type_synonym permission_patch = "(string \<times> bool) list"

record role_update_in =
  rui_name :: "string option"
  rui_description :: "string option"
  rui_patch :: permission_patch

text \<open>\<open>role_id\<close> is missing, null or a text; the other fields of an update are missing or set.\<close>

record bot_user_create_in =
  buc_aad_object_id :: string
  buc_display_name :: string
  buc_user_principal_name :: string
  buc_role_id :: "string option"
  buc_role :: string
  buc_is_active :: bool
  buc_permissions :: permissions

record bot_user_update_in =
  buu_display_name :: "string option"
  buu_user_principal_name :: "string option"
  buu_role_id :: "string option option"
  buu_role :: "string option"
  buu_is_active :: "bool option"
  buu_patch :: permission_patch

record bot_group_create_in =
  bgc_group_object_id :: string
  bgc_display_name :: string
  bgc_mail :: string
  bgc_security_enabled :: bool
  bgc_group_types :: "string list"
  bgc_role_id :: "string option"
  bgc_role :: string
  bgc_is_active :: bool
  bgc_permissions :: permissions

record bot_group_update_in =
  bgu_display_name :: "string option"
  bgu_mail :: "string option"
  bgu_security_enabled :: "bool option"
  bgu_group_types :: "string list option"
  bgu_role_id :: "string option option"
  bgu_role :: "string option"
  bgu_is_active :: "bool option"
  bgu_patch :: permission_patch

definition length_opt :: "nat \<Rightarrow> nat \<Rightarrow> string option \<Rightarrow> bool" where
  "length_opt low high v = (case v of None \<Rightarrow> True | Some s \<Rightarrow> within low high s)"

definition check_role_create :: "role_create_in \<Rightarrow> exn + role_create_in" where
  "check_role_create p = checked_body (within 1 120 (rci_name p) \<and> length (rci_description p) \<le> 500) p"

definition check_role_update :: "role_update_in \<Rightarrow> exn + role_update_in" where
  "check_role_update p =
     checked_body (length_opt 1 120 (rui_name p) \<and> length_opt 0 500 (rui_description p) \<and>
       (rui_name p \<noteq> None \<or> rui_description p \<noteq> None \<or> rui_patch p \<noteq> [])) p"

definition check_bot_user_create :: "bot_user_create_in \<Rightarrow> exn + bot_user_create_in" where
  "check_bot_user_create p =
     checked_body (within 1 255 (buc_aad_object_id p) \<and> within 1 255 (buc_display_name p) \<and>
       length (buc_user_principal_name p) \<le> 255) p"

definition check_bot_user_update :: "bot_user_update_in \<Rightarrow> exn + bot_user_update_in" where
  "check_bot_user_update p =
     checked_body (length_opt 1 255 (buu_display_name p) \<and> length_opt 0 255 (buu_user_principal_name p) \<and>
       (buu_display_name p \<noteq> None \<or> buu_user_principal_name p \<noteq> None \<or> (buu_role_id p \<noteq> None \<and> buu_role_id p \<noteq> Some None) \<or>
        buu_role p \<noteq> None \<or> buu_is_active p \<noteq> None \<or> buu_patch p \<noteq> [])) p"

definition check_bot_group_create :: "bot_group_create_in \<Rightarrow> exn + bot_group_create_in" where
  "check_bot_group_create p =
     checked_body (within 1 255 (bgc_group_object_id p) \<and> within 1 255 (bgc_display_name p) \<and> length (bgc_mail p) \<le> 255) p"

definition check_bot_group_update :: "bot_group_update_in \<Rightarrow> exn + bot_group_update_in" where
  "check_bot_group_update p =
     checked_body (length_opt 1 255 (bgu_display_name p) \<and> length_opt 0 255 (bgu_mail p) \<and>
       (bgu_display_name p \<noteq> None \<or> bgu_mail p \<noteq> None \<or> bgu_security_enabled p \<noteq> None \<or> bgu_group_types p \<noteq> None \<or>
        (bgu_role_id p \<noteq> None \<and> bgu_role_id p \<noteq> Some None) \<or> bgu_role p \<noteq> None \<or> bgu_is_active p \<noteq> None \<or> bgu_patch p \<noteq> [])) p"

section \<open>Helpers\<close>

definition normalize_aad_object_id :: "string \<Rightarrow> exn + string" where
  "normalize_aad_object_id value =
     (let normalized = lower (strip value) in
      if normalized = [] then Inl (HTTPException 400 ''AAD object ID is required'') else Inr normalized)"

definition ensure_bot_user_available :: "string \<Rightarrow> string \<Rightarrow> db \<Rightarrow> exn option" where
  "ensure_bot_user_available org aad_object_id db =
     (if fetch (\<lambda>u. bu_organization_id u = org \<and> bu_aad_object_id u = aad_object_id) (bot_users db) \<noteq> None
      then Some (HTTPException 409 ''A bot access user with this AAD object ID already exists'') else None)"

definition ensure_bot_group_available :: "string \<Rightarrow> string \<Rightarrow> db \<Rightarrow> exn option" where
  "ensure_bot_group_available org group_object_id db =
     (if fetch (\<lambda>g. bg_organization_id g = org \<and> bg_group_object_id g = group_object_id) (bot_groups db) \<noteq> None
      then Some (HTTPException 409 ''A bot access group with this object ID already exists'') else None)"

definition found_or_404 :: "string \<Rightarrow> 'r option \<Rightarrow> exn + 'r" where
  "found_or_404 what row = (case row of None \<Rightarrow> Inl (HTTPException 404 (what @ '' not found'')) | Some r \<Rightarrow> Inr r)"

definition get_org_bot_user :: "string \<Rightarrow> string \<Rightarrow> db \<Rightarrow> exn + bot_authorized_user" where
  "get_org_bot_user org i db =
     found_or_404 ''Bot access user'' (fetch (\<lambda>u. bu_id u = i \<and> bu_organization_id u = org) (bot_users db))"

definition get_org_bot_group :: "string \<Rightarrow> string \<Rightarrow> db \<Rightarrow> exn + bot_authorized_group" where
  "get_org_bot_group org i db =
     found_or_404 ''Bot access group'' (fetch (\<lambda>g. bg_id g = i \<and> bg_organization_id g = org) (bot_groups db))"

definition get_org_bot_role :: "string \<Rightarrow> string \<Rightarrow> db \<Rightarrow> exn + bot_access_role" where
  "get_org_bot_role org i db =
     found_or_404 ''Bot access role'' (fetch (\<lambda>r. ro_id r = i \<and> ro_organization_id r = org) (bot_roles db))"

text \<open>Names of roles are compared without case.\<close>

definition ensure_bot_role_name_available :: "string \<Rightarrow> string \<Rightarrow> string option \<Rightarrow> db \<Rightarrow> exn option" where
  "ensure_bot_role_name_available org name existing_role_id db =
     (let normalized = strip name in
      if normalized = [] then Some (HTTPException 400 ''Bot access role name is required'')
      else (case fetch (\<lambda>r. ro_organization_id r = org \<and> lower (ro_name r) = lower normalized) (bot_roles db) of
              None \<Rightarrow> None
            | Some r \<Rightarrow> if Some (ro_id r) = existing_role_id then None
                else Some (HTTPException 409 ''A bot access role with this name already exists'')))"

definition get_system_bot_role :: "world \<Rightarrow> string \<Rightarrow> string \<Rightarrow> db \<Rightarrow> exn + bot_access_role option \<times> db" where
  "get_system_bot_role w org system_key db =
     (case ensure_bot_access_system_roles w org None db of
        Inl e \<Rightarrow> Inl e
      | Inr (roles, db) \<Rightarrow> Inr (map_of roles system_key, db))"

definition resolve_payload_bot_role ::
  "world \<Rightarrow> string \<Rightarrow> string option \<Rightarrow> string option \<Rightarrow> db \<Rightarrow> exn + bot_access_role option \<times> db" where
  "resolve_payload_bot_role w org role_id role db =
     (if opt_str role_id \<noteq> []
      then (case get_org_bot_role org (opt_str role_id) db of Inl e \<Rightarrow> Inl e | Inr r \<Rightarrow> Inr (Some r, db))
      else if opt_str role \<in> {''route_viewer'', ''viewer''} then get_system_bot_role w org ''route_viewer'' db
      else if opt_str role \<in> {''route_operator'', ''operator'', ''route_manager''} then get_system_bot_role w org ''route_operator'' db
      else Inr (None, db))"

definition role_label_for_grant :: "bot_access_role option \<Rightarrow> string option \<Rightarrow> string" where
  "role_label_for_grant role requested =
     (case role of
        None \<Rightarrow> or_str (opt_str requested) ''custom''
      | Some r \<Rightarrow> or_str (opt_str (ro_system_key r)) ''role'')"

definition patched :: "permission_patch \<Rightarrow> string \<Rightarrow> bool \<Rightarrow> bool" where
  "patched patch field old = (case map_of patch field of None \<Rightarrow> old | Some v \<Rightarrow> v)"

definition apply_patch :: "permission_patch \<Rightarrow> permissions \<Rightarrow> permissions" where
  "apply_patch patch p =
     \<lparr>can_view_routes = patched patch ''can_view_routes'' (can_view_routes p),
      can_reveal_webhook_urls = patched patch ''can_reveal_webhook_urls'' (can_reveal_webhook_urls p),
      can_manage_route_status = patched patch ''can_manage_route_status'' (can_manage_route_status p),
      can_delete_routes = patched patch ''can_delete_routes'' (can_delete_routes p),
      can_manage_allowlist = patched patch ''can_manage_allowlist'' (can_manage_allowlist p),
      can_create_private_chat_routes = patched patch ''can_create_private_chat_routes'' (can_create_private_chat_routes p),
      can_create_channel_routes = patched patch ''can_create_channel_routes'' (can_create_channel_routes p)\<rparr>"

text \<open>What users and groups have in common: the columns \<open>role_id\<close>, \<open>role\<close> and those of the permissions.\<close>

record grant =
  gr_role_id :: "string option"
  gr_role :: string
  gr_permissions :: permissions

definition grant_of_user :: "bot_authorized_user \<Rightarrow> grant" where
  "grant_of_user u = \<lparr>gr_role_id = bu_role_id u, gr_role = bu_role u, gr_permissions = bu_permissions u\<rparr>"

definition grant_of_group :: "bot_authorized_group \<Rightarrow> grant" where
  "grant_of_group g = \<lparr>gr_role_id = bg_role_id g, gr_role = bg_role g, gr_permissions = bg_permissions g\<rparr>"

definition grant_user :: "grant \<Rightarrow> bot_authorized_user \<Rightarrow> bot_authorized_user" where
  "grant_user gr u = u\<lparr>bu_role_id := gr_role_id gr, bu_role := gr_role gr, bu_permissions := gr_permissions gr\<rparr>"

definition grant_group :: "grant \<Rightarrow> bot_authorized_group \<Rightarrow> bot_authorized_group" where
  "grant_group gr g = g\<lparr>bg_role_id := gr_role_id gr, bg_role := gr_role gr, bg_permissions := gr_permissions gr\<rparr>"

text \<open>The grant of a new row: by a role, or by the columns of the body.\<close>

definition new_grant :: "bot_access_role option \<Rightarrow> string \<Rightarrow> permissions \<Rightarrow> grant" where
  "new_grant role requested own =
     \<lparr>gr_role_id = map_option ro_id role, gr_role = role_label_for_grant role (Some requested),
      gr_permissions = (case role_permissions role of Some p \<Rightarrow> p | None \<Rightarrow> own)\<rparr>"

text \<open>\<open>_infer_bot_role\<close>: the label of columns that are those of a system role.\<close>

definition system_role_of :: "string \<Rightarrow> string \<Rightarrow> db \<Rightarrow> bot_access_role option" where
  "system_role_of org system_key db =
     fetch (\<lambda>r. ro_organization_id r = org \<and> ro_system_key r = Some system_key) (bot_roles db)"

definition infer_bot_role :: "string \<Rightarrow> permissions \<Rightarrow> db \<Rightarrow> string" where
  "infer_bot_role org p db =
     (if role_permissions (system_role_of org ''route_viewer'' db) = Some p then ''route_viewer''
      else if role_permissions (system_role_of org ''route_operator'' db) = Some p then ''route_operator''
      else ''custom'')"

text \<open>The part of an update that is about the grant.\<close>

definition updated_grant ::
  "world \<Rightarrow> string \<Rightarrow> string option option \<Rightarrow> string option \<Rightarrow> permission_patch \<Rightarrow> grant \<Rightarrow> db \<Rightarrow> exn + grant \<times> db" where
  "updated_grant w org role_id role patch gr db =
     (let resolved = (if role_id \<noteq> None \<or> role \<noteq> None
            then (case resolve_payload_bot_role w org (case role_id of None \<Rightarrow> None | Some i \<Rightarrow> i) role db of
                Inl e \<Rightarrow> Inl e
              | Inr (r, db) \<Rightarrow>
                  Inr (gr\<lparr>gr_role_id := map_option ro_id r, gr_role := role_label_for_grant r role,
                         gr_permissions := (case role_permissions r of Some p \<Rightarrow> p | None \<Rightarrow> gr_permissions gr)\<rparr>,
                       if r = None then patch else [], db))
            else Inr (gr, patch, db))
      in case resolved of
           Inl e \<Rightarrow> Inl e
         | Inr (gr, patch, db) \<Rightarrow>
             (let gr = gr\<lparr>gr_permissions := apply_patch patch (gr_permissions gr)\<rparr> in
              Inr (if patch \<noteq> [] \<and> gr_role_id gr = None
                   then gr\<lparr>gr_role := infer_bot_role org (gr_permissions gr) db\<rparr> else gr, db)))"

section \<open>Old rows\<close>

definition backfilled :: "bot_access_role \<Rightarrow> bot_access_role \<Rightarrow> grant \<Rightarrow> grant" where
  "backfilled viewer operator gr =
     (if gr_role_id gr \<noteq> None \<or> gr_role gr = ''custom'' then gr
      else if gr_role gr \<in> {''viewer'', ''route_viewer''} \<and> gr_permissions gr = ro_permissions viewer
      then gr\<lparr>gr_role_id := Some (ro_id viewer), gr_role := or_str (opt_str (ro_system_key viewer)) ''route_viewer''\<rparr>
      else if gr_role gr \<in> {''operator'', ''route_operator'', ''route_manager''} \<and> gr_permissions gr = ro_permissions operator
      then gr\<lparr>gr_role_id := Some (ro_id operator), gr_role := or_str (opt_str (ro_system_key operator)) ''route_operator''\<rparr>
      else if gr_role gr \<in> {''viewer'', ''operator'', ''route_manager''} then gr\<lparr>gr_role := ''custom''\<rparr>
      else gr)"

text \<open>A row that changes is flushed with a new \<open>updated_at\<close>.\<close>

definition backfill_user :: "world \<Rightarrow> string \<Rightarrow> bot_access_role \<Rightarrow> bot_access_role \<Rightarrow> bot_authorized_user \<Rightarrow> bot_authorized_user" where
  "backfill_user w org viewer operator u =
     (let gr = backfilled viewer operator (grant_of_user u) in
      if bu_organization_id u \<noteq> org \<or> gr = grant_of_user u then u else (grant_user gr u)\<lparr>bu_updated_at := utcnow w\<rparr>)"

definition backfill_group :: "world \<Rightarrow> string \<Rightarrow> bot_access_role \<Rightarrow> bot_access_role \<Rightarrow> bot_authorized_group \<Rightarrow> bot_authorized_group" where
  "backfill_group w org viewer operator g =
     (let gr = backfilled viewer operator (grant_of_group g) in
      if bg_organization_id g \<noteq> org \<or> gr = grant_of_group g then g else (grant_group gr g)\<lparr>bg_updated_at := utcnow w\<rparr>)"

definition backfill_bot_access_role_assignments :: "world \<Rightarrow> string \<Rightarrow> db \<Rightarrow> exn + db" where
  "backfill_bot_access_role_assignments w org db =
     (case ensure_bot_access_system_roles w org None db of
        Inl e \<Rightarrow> Inl e
      | Inr (roles, db) \<Rightarrow>
          (case (map_of roles ''route_viewer'', map_of roles ''route_operator'') of
             (Some viewer, Some operator) \<Rightarrow>
               Inr (db\<lparr>bot_users := List.map (backfill_user w org viewer operator) (bot_users db),
                       bot_groups := List.map (backfill_group w org viewer operator) (bot_groups db)\<rparr>)
           | _ \<Rightarrow> Inl (PyError ''KeyError'')))"

section \<open>Audit facts\<close>

definition opt_json :: "string option \<Rightarrow> json" where
  "opt_json v = (case v of None \<Rightarrow> JNull | Some s \<Rightarrow> JStr s)"

definition bot_user_audit_metadata :: "bot_authorized_user \<Rightarrow> (string \<times> json) list" where
  "bot_user_audit_metadata u =
     [(''bot_user_id'', JStr (bu_id u)), (''aad_object_id'', JStr (bu_aad_object_id u)),
      (''display_name'', JStr (bu_display_name u)), (''user_principal_name'', JStr (bu_user_principal_name u)),
      (''role_id'', opt_json (bu_role_id u)), (''role'', JStr (bu_role u)), (''is_active'', JBool (bu_is_active u)),
      (''permissions'', permissions_json (bu_permissions u))]"

definition group_types :: "json \<Rightarrow> string list" where
  "group_types stored =
     (case stored of JList xs \<Rightarrow> List.filter (\<lambda>s. s \<noteq> []) (List.map (\<lambda>x. strip (py_str x)) xs) | _ \<Rightarrow> [])"

definition bot_group_audit_metadata :: "bot_authorized_group \<Rightarrow> (string \<times> json) list" where
  "bot_group_audit_metadata g =
     [(''bot_group_id'', JStr (bg_id g)), (''group_object_id'', JStr (bg_group_object_id g)),
      (''display_name'', JStr (bg_display_name g)), (''mail'', JStr (bg_mail g)),
      (''security_enabled'', JBool (bg_security_enabled g)),
      (''group_types'', JList (List.map JStr (group_types (bg_group_types_json g)))),
      (''role_id'', opt_json (bg_role_id g)), (''role'', JStr (bg_role g)), (''is_active'', JBool (bg_is_active g)),
      (''permissions'', permissions_json (bg_permissions g))]"

definition bot_role_audit_metadata :: "bot_access_role \<Rightarrow> (string \<times> json) list" where
  "bot_role_audit_metadata r =
     [(''bot_role_id'', JStr (ro_id r)), (''name'', JStr (ro_name r)), (''description'', JStr (ro_description r)),
      (''is_system'', JBool (ro_is_system r)), (''system_key'', opt_json (ro_system_key r)),
      (''permissions'', permissions_json (ro_permissions r))]"

definition changed :: "(string \<times> json) list \<Rightarrow> (string \<times> json) list \<Rightarrow> (string \<times> json) list" where
  "changed before now = [(''before'', JDict before), (''after'', JDict now)]"

definition serialize_group_types :: "string list \<Rightarrow> json" where
  "serialize_group_types xs = JList (List.map (\<lambda>x. JStr (strip x)) (List.filter (\<lambda>x. strip x \<noteq> []) xs))"

section \<open>Roles\<close>

definition roles_of_org :: "string \<Rightarrow> db \<Rightarrow> bot_access_role list" where
  "roles_of_org org db =
     sort_key (\<lambda>r. \<not> ro_is_system r) (sort_key ro_name (List.filter (\<lambda>r. ro_organization_id r = org) (bot_roles db)))"

definition list_bot_access_roles :: "world \<Rightarrow> user \<Rightarrow> db \<Rightarrow> (exn + bot_access_role list) \<times> db" where
  "list_bot_access_roles w admin db =
     (case ensure_bot_access_system_roles w (u_organization_id admin) (Some (u_id admin)) db of
        Inl e \<Rightarrow> (Inl e, db)
      | Inr (_, db) \<Rightarrow> (Inr (roles_of_org (u_organization_id admin) db), db))"

definition new_role :: "world \<Rightarrow> user \<Rightarrow> role_create_in \<Rightarrow> db \<Rightarrow> bot_access_role" where
  "new_role w admin p db =
     \<lparr>ro_id = new_id db, ro_organization_id = u_organization_id admin, ro_name = strip (rci_name p),
      ro_description = strip (rci_description p), ro_is_system = False, ro_system_key = None,
      ro_permissions = rci_permissions p, ro_created_by_id = Some (u_id admin), ro_updated_by_id = Some (u_id admin),
      ro_created_at = utcnow w, ro_updated_at = utcnow w\<rparr>"

definition create_bot_access_role ::
  "world \<Rightarrow> settings \<Rightarrow> user \<Rightarrow> role_create_in \<Rightarrow> db \<Rightarrow> (exn + bot_access_role) \<times> db" where
  "create_bot_access_role w st admin p db =
     (case ensure_bot_role_name_available (u_organization_id admin) (rci_name p) None db of
        Some e \<Rightarrow> (Inl e, db)
      | None \<Rightarrow>
          (let r = new_role w admin p db in
           if role_conflict r db then (Inl (PyError ''IntegrityError''), db)
           else (Inr r, admin_audit w st ''admin.bot_role.created'' admin (bot_role_audit_metadata r)
                   (db\<lparr>bot_roles := bot_roles db @ [r], next_id := Suc (next_id db)\<rparr>))))"

definition edited_role :: "world \<Rightarrow> user \<Rightarrow> role_update_in \<Rightarrow> bot_access_role \<Rightarrow> bot_access_role" where
  "edited_role w admin p r =
     r\<lparr>ro_name := (case rui_name p of None \<Rightarrow> ro_name r | Some n \<Rightarrow> strip n),
       ro_description := (case rui_description p of None \<Rightarrow> ro_description r | Some d \<Rightarrow> strip d),
       ro_permissions := apply_patch (rui_patch p) (ro_permissions r),
       ro_updated_by_id := Some (u_id admin), ro_updated_at := utcnow w\<rparr>"

text \<open>The columns of linked rows follow the role.\<close>

definition sync_linked_bot_role_grants :: "world \<Rightarrow> bot_access_role \<Rightarrow> db \<Rightarrow> db" where
  "sync_linked_bot_role_grants w r db =
     db\<lparr>bot_users := update_rows (\<lambda>u. bu_role_id u = Some (ro_id r))
          (\<lambda>u. u\<lparr>bu_permissions := ro_permissions r, bu_role := role_label_for_grant (Some r) None, bu_updated_at := utcnow w\<rparr>) (bot_users db),
        bot_groups := update_rows (\<lambda>g. bg_role_id g = Some (ro_id r))
          (\<lambda>g. g\<lparr>bg_permissions := ro_permissions r, bg_role := role_label_for_grant (Some r) None, bg_updated_at := utcnow w\<rparr>) (bot_groups db)\<rparr>"

definition save_role :: "bot_access_role \<Rightarrow> db \<Rightarrow> db" where
  "save_role r db = db\<lparr>bot_roles := save_row ro_id r (bot_roles db)\<rparr>"

definition update_bot_access_role ::
  "world \<Rightarrow> settings \<Rightarrow> user \<Rightarrow> string \<Rightarrow> role_update_in \<Rightarrow> db \<Rightarrow> (exn + bot_access_role) \<times> db" where
  "update_bot_access_role w st admin i p db =
     (case get_org_bot_role (u_organization_id admin) i db of
        Inl e \<Rightarrow> (Inl e, db)
      | Inr old \<Rightarrow>
          (case (case rui_name p of None \<Rightarrow> None
                 | Some n \<Rightarrow> ensure_bot_role_name_available (u_organization_id admin) n (Some (ro_id old)) db) of
             Some e \<Rightarrow> (Inl e, db)
           | None \<Rightarrow>
               (let r = edited_role w admin p old in
                if role_conflict r db then (Inl (PyError ''IntegrityError''), db)
                else (Inr r, admin_audit w st ''admin.bot_role.updated'' admin
                        (changed (bot_role_audit_metadata old) (bot_role_audit_metadata r))
                        (sync_linked_bot_role_grants w r (save_role r db))))))"

definition delete_bot_access_role :: "world \<Rightarrow> settings \<Rightarrow> user \<Rightarrow> string \<Rightarrow> db \<Rightarrow> (exn + unit) \<times> db" where
  "delete_bot_access_role w st admin i db =
     (case get_org_bot_role (u_organization_id admin) i db of
        Inl e \<Rightarrow> (Inl e, db)
      | Inr r \<Rightarrow>
          if ro_is_system r then (Inl (HTTPException 409 ''System bot access roles cannot be deleted''), db)
          else if list_ex (\<lambda>u. bu_role_id u = Some (ro_id r)) (bot_users db) \<or> list_ex (\<lambda>g. bg_role_id g = Some (ro_id r)) (bot_groups db)
          then (Inl (HTTPException 409 ''Bot access role is still assigned''), db)
          else (Inr (), admin_audit w st ''admin.bot_role.deleted'' admin (bot_role_audit_metadata r)
                  (db\<lparr>bot_roles := delete_rows (\<lambda>x. ro_id x = ro_id r) (bot_roles db)\<rparr>)))"

section \<open>Users\<close>

definition with_bot_access ::
  "world \<Rightarrow> user \<Rightarrow> (db \<Rightarrow> 'a) \<Rightarrow> db \<Rightarrow> (exn + 'a) \<times> db" where
  "with_bot_access w admin answer db =
     (case ensure_bot_access_system_roles w (u_organization_id admin) (Some (u_id admin)) db of
        Inl e \<Rightarrow> (Inl e, db)
      | Inr (_, db1) \<Rightarrow>
          (case backfill_bot_access_role_assignments w (u_organization_id admin) db1 of
             Inl e \<Rightarrow> (Inl e, db)
           | Inr db2 \<Rightarrow> (Inr (answer db2), db2)))"

definition list_bot_authorized_users :: "world \<Rightarrow> user \<Rightarrow> db \<Rightarrow> (exn + bot_authorized_user list) \<times> db" where
  "list_bot_authorized_users w admin =
     with_bot_access w admin (\<lambda>db. sort_key bu_display_name (sort_key (\<lambda>u. - bu_created_at u)
       (List.filter (\<lambda>u. bu_organization_id u = u_organization_id admin) (bot_users db))))"

definition new_bot_user :: "world \<Rightarrow> user \<Rightarrow> bot_user_create_in \<Rightarrow> string \<Rightarrow> grant \<Rightarrow> db \<Rightarrow> bot_authorized_user" where
  "new_bot_user w admin p aad_object_id gr db =
     \<lparr>bu_id = new_id db, bu_organization_id = u_organization_id admin, bu_aad_object_id = aad_object_id,
      bu_display_name = strip (buc_display_name p), bu_user_principal_name = strip (buc_user_principal_name p),
      bu_role_id = gr_role_id gr, bu_role = gr_role gr, bu_is_active = buc_is_active p, bu_permissions = gr_permissions gr,
      bu_created_by_id = Some (u_id admin), bu_updated_by_id = Some (u_id admin), bu_last_seen_at = None,
      bu_created_at = utcnow w, bu_updated_at = utcnow w\<rparr>"

definition create_bot_authorized_user ::
  "world \<Rightarrow> settings \<Rightarrow> user \<Rightarrow> bot_user_create_in \<Rightarrow> db \<Rightarrow> (exn + bot_authorized_user) \<times> db" where
  "create_bot_authorized_user w st admin p db =
     (case normalize_aad_object_id (buc_aad_object_id p) of
        Inl e \<Rightarrow> (Inl e, db)
      | Inr aad_object_id \<Rightarrow>
          (case ensure_bot_user_available (u_organization_id admin) aad_object_id db of
             Some e \<Rightarrow> (Inl e, db)
           | None \<Rightarrow>
               (case resolve_payload_bot_role w (u_organization_id admin) (buc_role_id p) (Some (buc_role p)) db of
                  Inl e \<Rightarrow> (Inl e, db)
                | Inr (role, db) \<Rightarrow>
                    (let u = new_bot_user w admin p aad_object_id (new_grant role (buc_role p) (buc_permissions p)) db in
                     (Inr u, admin_audit w st ''admin.bot_user.created'' admin (bot_user_audit_metadata u)
                        (db\<lparr>bot_users := bot_users db @ [u], next_id := Suc (next_id db)\<rparr>))))))"

definition set_from :: "('v \<Rightarrow> 'v) \<Rightarrow> 'v option \<Rightarrow> 'v \<Rightarrow> 'v" where
  "set_from f v old = (case v of None \<Rightarrow> old | Some x \<Rightarrow> f x)"

definition edited_bot_user :: "world \<Rightarrow> user \<Rightarrow> bot_user_update_in \<Rightarrow> grant \<Rightarrow> bot_authorized_user \<Rightarrow> bot_authorized_user" where
  "edited_bot_user w admin p gr u =
     (grant_user gr u)
       \<lparr>bu_display_name := set_from strip (buu_display_name p) (bu_display_name u),
        bu_user_principal_name := set_from strip (buu_user_principal_name p) (bu_user_principal_name u),
        bu_is_active := set_from (\<lambda>b. b) (buu_is_active p) (bu_is_active u),
        bu_updated_by_id := Some (u_id admin), bu_updated_at := utcnow w\<rparr>"

definition save_bot_user :: "bot_authorized_user \<Rightarrow> db \<Rightarrow> db" where
  "save_bot_user u db = db\<lparr>bot_users := save_row bu_id u (bot_users db)\<rparr>"

definition update_bot_authorized_user ::
  "world \<Rightarrow> settings \<Rightarrow> user \<Rightarrow> string \<Rightarrow> bot_user_update_in \<Rightarrow> db \<Rightarrow> (exn + bot_authorized_user) \<times> db" where
  "update_bot_authorized_user w st admin i p db =
     (case get_org_bot_user (u_organization_id admin) i db of
        Inl e \<Rightarrow> (Inl e, db)
      | Inr old \<Rightarrow>
          (case updated_grant w (u_organization_id admin) (buu_role_id p) (buu_role p) (buu_patch p) (grant_of_user old) db of
             Inl e \<Rightarrow> (Inl e, db)
           | Inr (gr, db) \<Rightarrow>
               (let u = edited_bot_user w admin p gr old in
                (Inr u, admin_audit w st ''admin.bot_user.updated'' admin
                   (changed (bot_user_audit_metadata old) (bot_user_audit_metadata u)) (save_bot_user u db)))))"

definition delete_bot_authorized_user :: "world \<Rightarrow> settings \<Rightarrow> user \<Rightarrow> string \<Rightarrow> db \<Rightarrow> (exn + unit) \<times> db" where
  "delete_bot_authorized_user w st admin i db =
     (case get_org_bot_user (u_organization_id admin) i db of
        Inl e \<Rightarrow> (Inl e, db)
      | Inr u \<Rightarrow>
          (Inr (), admin_audit w st ''admin.bot_user.deleted'' admin (bot_user_audit_metadata u)
             (db\<lparr>bot_users := delete_rows (\<lambda>x. bu_id x = bu_id u) (bot_users db)\<rparr>)))"

section \<open>Groups\<close>

definition list_bot_authorized_groups :: "world \<Rightarrow> user \<Rightarrow> db \<Rightarrow> (exn + bot_authorized_group list) \<times> db" where
  "list_bot_authorized_groups w admin =
     with_bot_access w admin (\<lambda>db. sort_key bg_display_name (sort_key (\<lambda>g. - bg_created_at g)
       (List.filter (\<lambda>g. bg_organization_id g = u_organization_id admin) (bot_groups db))))"

definition new_bot_group :: "world \<Rightarrow> user \<Rightarrow> bot_group_create_in \<Rightarrow> string \<Rightarrow> grant \<Rightarrow> db \<Rightarrow> bot_authorized_group" where
  "new_bot_group w admin p group_object_id gr db =
     \<lparr>bg_id = new_id db, bg_organization_id = u_organization_id admin, bg_group_object_id = group_object_id,
      bg_display_name = strip (bgc_display_name p), bg_mail = strip (bgc_mail p), bg_security_enabled = bgc_security_enabled p,
      bg_group_types_json = serialize_group_types (bgc_group_types p), bg_role_id = gr_role_id gr, bg_role = gr_role gr,
      bg_is_active = bgc_is_active p, bg_permissions = gr_permissions gr, bg_created_by_id = Some (u_id admin),
      bg_updated_by_id = Some (u_id admin), bg_last_matched_at = None, bg_created_at = utcnow w, bg_updated_at = utcnow w\<rparr>"

definition create_bot_authorized_group ::
  "world \<Rightarrow> settings \<Rightarrow> user \<Rightarrow> bot_group_create_in \<Rightarrow> db \<Rightarrow> (exn + bot_authorized_group) \<times> db" where
  "create_bot_authorized_group w st admin p db =
     (case normalize_aad_object_id (bgc_group_object_id p) of
        Inl e \<Rightarrow> (Inl e, db)
      | Inr group_object_id \<Rightarrow>
          (case ensure_bot_group_available (u_organization_id admin) group_object_id db of
             Some e \<Rightarrow> (Inl e, db)
           | None \<Rightarrow>
               (case resolve_payload_bot_role w (u_organization_id admin) (bgc_role_id p) (Some (bgc_role p)) db of
                  Inl e \<Rightarrow> (Inl e, db)
                | Inr (role, db) \<Rightarrow>
                    (let g = new_bot_group w admin p group_object_id (new_grant role (bgc_role p) (bgc_permissions p)) db in
                     (Inr g, admin_audit w st ''admin.bot_group.created'' admin (bot_group_audit_metadata g)
                        (db\<lparr>bot_groups := bot_groups db @ [g], next_id := Suc (next_id db)\<rparr>))))))"

definition edited_bot_group :: "world \<Rightarrow> user \<Rightarrow> bot_group_update_in \<Rightarrow> grant \<Rightarrow> bot_authorized_group \<Rightarrow> bot_authorized_group" where
  "edited_bot_group w admin p gr g =
     (grant_group gr g)
       \<lparr>bg_display_name := set_from strip (bgu_display_name p) (bg_display_name g),
        bg_mail := set_from strip (bgu_mail p) (bg_mail g),
        bg_security_enabled := set_from (\<lambda>b. b) (bgu_security_enabled p) (bg_security_enabled g),
        bg_group_types_json := (case bgu_group_types p of None \<Rightarrow> bg_group_types_json g | Some xs \<Rightarrow> serialize_group_types xs),
        bg_is_active := set_from (\<lambda>b. b) (bgu_is_active p) (bg_is_active g),
        bg_updated_by_id := Some (u_id admin), bg_updated_at := utcnow w\<rparr>"

definition save_bot_group :: "bot_authorized_group \<Rightarrow> db \<Rightarrow> db" where
  "save_bot_group g db = db\<lparr>bot_groups := save_row bg_id g (bot_groups db)\<rparr>"

definition update_bot_authorized_group ::
  "world \<Rightarrow> settings \<Rightarrow> user \<Rightarrow> string \<Rightarrow> bot_group_update_in \<Rightarrow> db \<Rightarrow> (exn + bot_authorized_group) \<times> db" where
  "update_bot_authorized_group w st admin i p db =
     (case get_org_bot_group (u_organization_id admin) i db of
        Inl e \<Rightarrow> (Inl e, db)
      | Inr old \<Rightarrow>
          (case updated_grant w (u_organization_id admin) (bgu_role_id p) (bgu_role p) (bgu_patch p) (grant_of_group old) db of
             Inl e \<Rightarrow> (Inl e, db)
           | Inr (gr, db) \<Rightarrow>
               (let g = edited_bot_group w admin p gr old in
                (Inr g, admin_audit w st ''admin.bot_group.updated'' admin
                   (changed (bot_group_audit_metadata old) (bot_group_audit_metadata g)) (save_bot_group g db)))))"

definition delete_bot_authorized_group :: "world \<Rightarrow> settings \<Rightarrow> user \<Rightarrow> string \<Rightarrow> db \<Rightarrow> (exn + unit) \<times> db" where
  "delete_bot_authorized_group w st admin i db =
     (case get_org_bot_group (u_organization_id admin) i db of
        Inl e \<Rightarrow> (Inl e, db)
      | Inr g \<Rightarrow>
          (Inr (), admin_audit w st ''admin.bot_group.deleted'' admin (bot_group_audit_metadata g)
             (db\<lparr>bot_groups := delete_rows (\<lambda>x. bg_id x = bg_id g) (bot_groups db)\<rparr>)))"

end
