(* ===== verification/Delivery_Log.thy ===== *)
theory Delivery_Log
  imports Routes
begin

text \<open>
  Reading and clearing the records: \<open>services/log_retention.py\<close> and the handlers of
  \<open>routers/webhook_routes.py\<close> that list delivery events, page by page.
\<close>

section \<open>Retention\<close>

record cleanup_result =
  cl_deleted_webhook_delivery_events :: nat
  cl_deleted_audit_events :: nat
  cl_deleted_bot_activity_events :: nat
  cl_deleted_event_log_entries :: nat
  cl_retention_days :: int
  cl_cutoff :: instant
  cl_skipped :: bool

definition cl_deleted :: "cleanup_result \<Rightarrow> nat" where
  "cl_deleted c = cl_deleted_webhook_delivery_events c + cl_deleted_audit_events c +
     cl_deleted_bot_activity_events c + cl_deleted_event_log_entries c"

definition older :: "instant \<Rightarrow> ('r \<Rightarrow> instant) \<Rightarrow> 'r list \<Rightarrow> 'r list" where
  "older cutoff created rows = List.filter (\<lambda>r. created r < cutoff) rows"

text \<open>The result, the new state and the time of the last cleanup the process remembers.\<close>

definition cleanup_log_events ::
  "world \<Rightarrow> settings \<Rightarrow> bool \<Rightarrow> db \<times> instant option \<Rightarrow> cleanup_result \<times> db \<times> instant option" where
  "cleanup_log_events w st force s =
     (let (db, cleaned_at) = s;
          retention_days = max 0 (log_retention_days st);
          interval_minutes = max 1 (log_cleanup_interval_minutes st);
          cutoff = utcnow w - days retention_days;
          too_soon = (case cleaned_at of None \<Rightarrow> False | Some t \<Rightarrow> utcnow w < t + minutes interval_minutes)
      in if \<not> force \<and> too_soon then
           (\<lparr>cl_deleted_webhook_delivery_events = 0, cl_deleted_audit_events = 0, cl_deleted_bot_activity_events = 0,
             cl_deleted_event_log_entries = 0, cl_retention_days = retention_days, cl_cutoff = cutoff, cl_skipped = True\<rparr>, s)
         else
           (\<lparr>cl_deleted_webhook_delivery_events = length (older cutoff d_created_at (deliveries db)),
             cl_deleted_audit_events = length (older cutoff au_created_at (audits db)),
             cl_deleted_bot_activity_events = length (older cutoff ae_created_at (activities db)),
             cl_deleted_event_log_entries = length (older cutoff ev_created_at (event_log db)),
             cl_retention_days = retention_days, cl_cutoff = cutoff, cl_skipped = False\<rparr>,
            db\<lparr>deliveries := delete_rows (\<lambda>d. d_created_at d < cutoff) (deliveries db),
               audits := delete_rows (\<lambda>a. au_created_at a < cutoff) (audits db),
               activities := delete_rows (\<lambda>a. ae_created_at a < cutoff) (activities db),
               event_log := delete_rows (\<lambda>e. ev_created_at e < cutoff) (event_log db)\<rparr>,
            Some (utcnow w)))"

definition cleanup_log_event_retention ::
  "world \<Rightarrow> settings \<Rightarrow> user \<Rightarrow> db \<times> caches \<Rightarrow> cleanup_result \<times> db \<times> caches" where
  "cleanup_log_event_retention w st admin s =
     (case cleanup_log_events w st True (fst s, last_log_cleanup_at (snd s)) of
        (result, db, cleaned_at) \<Rightarrow> (result, db, (snd s)\<lparr>last_log_cleanup_at := cleaned_at\<rparr>))"

section \<open>Events\<close>

record delivery_event_out =
  eo_id :: string
  eo_route_id :: "string option"
  eo_status :: string
  eo_request_metadata :: json
  eo_normalized_message :: json
  eo_delivery_result :: json
  eo_error :: string
  eo_created_at :: instant

definition delivery_event_out_of :: "delivery_event \<Rightarrow> delivery_event_out" where
  "delivery_event_out_of d =
     \<lparr>eo_id = d_id d, eo_route_id = d_route_id d, eo_status = d_status d,
      eo_request_metadata = d_request_metadata_json d, eo_normalized_message = d_normalized_message_json d,
      eo_delivery_result = d_delivery_result_json d, eo_error = d_error d, eo_created_at = d_created_at d\<rparr>"

record delivery_summary =
  su_id :: string
  su_route_id :: "string option"
  su_route_name :: string
  su_target_name :: string
  su_status :: string
  su_title :: string
  su_payload_type :: string
  su_delivery_backend :: string
  su_delivery_mode :: string
  su_status_code :: "int option"
  su_error :: string
  su_created_at :: instant

text \<open>\<open>isinstance(value, int)\<close> holds for a truth value too.\<close>

definition int_value :: "(string \<times> json) list \<Rightarrow> string \<Rightarrow> int option" where
  "int_value d key = (case dict_get d key of JInt i \<Rightarrow> Some i | JBool b \<Rightarrow> Some (of_bool b) | _ \<Rightarrow> None)"

definition dict_of :: "json \<Rightarrow> (string \<times> json) list" where
  "dict_of v = (case v of JDict kvs \<Rightarrow> kvs | _ \<Rightarrow> [])"

definition route_text :: "(webhook_route \<Rightarrow> string) \<Rightarrow> webhook_route option \<Rightarrow> string" where
  "route_text f r = (case r of None \<Rightarrow> [] | Some r \<Rightarrow> f r)"

definition delivery_event_summary_out :: "delivery_event \<times> webhook_route option \<Rightarrow> delivery_summary" where
  "delivery_event_summary_out row =
     (let (d, r) = row; message = dict_of (d_normalized_message_json d); result = dict_of (d_delivery_result_json d) in
      \<lparr>su_id = d_id d, su_route_id = d_route_id d, su_route_name = route_text r_name r,
       su_target_name = route_text r_target_name r, su_status = d_status d, su_title = string_value message ''title'',
       su_payload_type = string_value message ''raw_type'',
       su_delivery_backend = or_str (string_value result ''backend'') (route_text route_delivery_backend r),
       su_delivery_mode = string_value result ''mode'', su_status_code = int_value result ''status_code'',
       su_error = d_error d, su_created_at = d_created_at d\<rparr>)"

definition delivery_event_detail_out :: "delivery_event \<times> webhook_route option \<Rightarrow> delivery_event_out \<times> string \<times> string" where
  "delivery_event_detail_out row =
     (delivery_event_out_of (fst row), route_text r_name (snd row), route_text r_target_name (snd row))"

section \<open>Listing\<close>

definition list_webhook_route_deliveries ::
  "user \<Rightarrow> string \<Rightarrow> nat \<Rightarrow> string option \<Rightarrow> db \<Rightarrow> exn + delivery_event_out list" where
  "list_webhook_route_deliveries admin route_id limit status db =
     bind_sum (get_org_route (u_organization_id admin) route_id db) (\<lambda>r.
       Inr (List.map delivery_event_out_of (take limit (newest_first
         (List.filter (\<lambda>d. d_route_id d = Some (r_id r) \<and> (case status of None \<Rightarrow> True | Some s \<Rightarrow> d_status d = s))
           (deliveries db))))))"

text \<open>\<open>x LIKE pattern\<close> as the database matches it: a percent sign stands for any text, an
  underscore for any character. \<open>ilike\<close> compares in lower case.\<close>

fun sql_like :: "string \<Rightarrow> string \<Rightarrow> bool" where
  "sql_like [] s \<longleftrightarrow> s = []"
| "sql_like (p # ps) [] \<longleftrightarrow> p = CHR ''%'' \<and> sql_like ps []"
| "sql_like (p # ps) (c # s) \<longleftrightarrow>
     (if p = CHR ''%'' then sql_like ps (c # s) \<or> sql_like (p # ps) s
      else (p = CHR ''_'' \<or> p = c) \<and> sql_like ps s)"

definition sql_lower :: "string \<Rightarrow> string" where
  "sql_lower = List.map (\<lambda>c. let n = (of_char c :: nat) in if 65 \<le> n \<and> n \<le> 90 then char_of (n + 32) else c)"

definition ilike :: "string \<Rightarrow> string \<Rightarrow> bool" where
  "ilike text pattern = sql_like (sql_lower pattern) (sql_lower text)"

text \<open>The outer join: an event without a route is listed with none.\<close>

definition with_route :: "db \<Rightarrow> delivery_event \<Rightarrow> delivery_event \<times> webhook_route option" where
  "with_route db d =
     (d, case d_route_id d of None \<Rightarrow> None | Some i \<Rightarrow> fetch (\<lambda>r. r_id r = i) (routes db))"

definition matches_search :: "string \<Rightarrow> delivery_event \<times> webhook_route option \<Rightarrow> bool" where
  "matches_search search row =
     (let pattern = ''%'' @ search @ ''%''; (d, r) = row in
      ilike (d_error d) pattern \<or> ilike (dumps True (d_request_metadata_json d)) pattern \<or>
      ilike (dumps True (d_normalized_message_json d)) pattern \<or> ilike (dumps True (d_delivery_result_json d)) pattern \<or>
      (case r of None \<Rightarrow> False | Some r \<Rightarrow> ilike (r_name r) pattern \<or> ilike (r_target_name r) pattern))"

definition matching_events ::
  "string \<Rightarrow> string option \<Rightarrow> string option \<Rightarrow> string \<Rightarrow> db \<Rightarrow> (delivery_event \<times> webhook_route option) list" where
  "matching_events org status route_id search db =
     List.filter (\<lambda>row. search = [] \<or> matches_search search row)
       (List.map (with_route db) (newest_first
         (List.filter (\<lambda>d. d_organization_id d = Some org \<and>
            (case route_id of None \<Rightarrow> True | Some i \<Rightarrow> d_route_id d = Some i) \<and>
            (case status of None \<Rightarrow> True | Some s \<Rightarrow> d_status d = s)) (deliveries db))))"

record delivery_page =
  pg_items :: "delivery_summary list"
  pg_total :: nat
  pg_page :: nat
  pg_page_size :: nat
  pg_total_pages :: nat
  pg_retention_days :: int

definition page_of :: "nat \<Rightarrow> nat \<Rightarrow> 'a list \<Rightarrow> 'a list" where
  "page_of page page_size rows = take page_size (drop ((page - 1) * page_size) rows)"

definition delivery_page_of ::
  "nat \<Rightarrow> nat \<Rightarrow> int \<Rightarrow> (delivery_event \<times> webhook_route option) list \<Rightarrow> delivery_page" where
  "delivery_page_of page page_size retention_days rows =
     \<lparr>pg_items = List.map delivery_event_summary_out (page_of page page_size rows), pg_total = length rows,
      pg_page = page, pg_page_size = page_size, pg_total_pages = (length rows + page_size - 1) div page_size,
      pg_retention_days = retention_days\<rparr>"

text \<open>The records that are due are cleared, and that is committed, before anything is read.\<close>

definition list_webhook_delivery_events ::
  "world \<Rightarrow> settings \<Rightarrow> user \<Rightarrow> nat \<Rightarrow> nat \<Rightarrow> string option \<Rightarrow> string option \<Rightarrow> string \<Rightarrow> db \<times> caches \<Rightarrow>
   (exn + delivery_page) \<times> db \<times> caches" where
  "list_webhook_delivery_events w st admin page page_size status route_id q s =
     (case cleanup_log_events w st False (fst s, last_log_cleanup_at (snd s)) of
        (cleaned, db, cleaned_at) \<Rightarrow>
          (let s' = (db, (snd s)\<lparr>last_log_cleanup_at := cleaned_at\<rparr>); org = u_organization_id admin;
               listing = (\<lambda>route_id. Inr (delivery_page_of page page_size (cl_retention_days cleaned)
                 (matching_events org status route_id (strip q) db)))
           in case route_id of
                Some i \<Rightarrow>
                  (if i = [] then (listing None, s')
                   else (bind_sum (get_org_route org i db) (\<lambda>r. listing (Some (r_id r))), s'))
              | None \<Rightarrow> (listing None, s')))"

definition get_webhook_delivery_event ::
  "user \<Rightarrow> string \<Rightarrow> db \<Rightarrow> exn + delivery_event_out \<times> string \<times> string" where
  "get_webhook_delivery_event admin event_id db =
     (case fetch (\<lambda>d. d_id d = event_id \<and> d_organization_id d = Some (u_organization_id admin)) (deliveries db) of
        None \<Rightarrow> Inl (HTTPException 404 ''Delivery event not found'')
      | Some d \<Rightarrow> Inr (delivery_event_detail_out (with_route db d)))"

end
