(* ===== verification/Relay_Guarantees.thy ===== *)
theory Relay_Guarantees
  imports Relay_Invariant
begin

text \<open>
  What the relay promises its clients: a key is delivered at most once, a refused request
  reaches nobody and is recorded, and an answer says what its delivery event says. Beside the
  promises stand the cases in which the code keeps less than one might expect.
\<close>

section \<open>The reservation as a slot\<close>

text \<open>
  Abstractly, a key of a route is a slot: free, held by another URL of the same route (a URL
  that was replaced), held since some time, or closed with an outcome.
\<close>

datatype slot = Free | Foreign | Held instant string | Closed string string string

datatype decision = Deliver string | Replay string string | Conflict | Failure string | Collision

fun claim_slot :: "instant \<Rightarrow> string \<Rightarrow> slot \<Rightarrow> decision \<times> slot" where
  "claim_slot now fresh Free = (Deliver fresh, Held now fresh)"
| "claim_slot now fresh Foreign = (Collision, Foreign)"
| "claim_slot now fresh (Held t i) =
     (if minutes 15 < now - t then Deliver i else Conflict, Held t i)"
| "claim_slot now fresh (Closed i status err) =
     (if status = ''failed'' then Failure err else Replay i status, Closed i status err)"

definition slot_of :: "webhook_route \<Rightarrow> string \<Rightarrow> db \<Rightarrow> slot" where
  "slot_of r key db =
     (case find_idempotent_delivery r key db of
        None \<Rightarrow> if key_taken (Some r) (Some key) db then Foreign else Free
      | Some d \<Rightarrow> if d_status d = ''pending'' then Held (d_created_at d) (d_id d)
                  else Closed (d_id d) (d_status d) (d_error d))"

definition decision_of :: "exn + delivery_event \<times> bool \<Rightarrow> decision" where
  "decision_of res = (case res of
     Inr (d, True) \<Rightarrow> Deliver (d_id d)
   | Inr (d, False) \<Rightarrow> Replay (d_id d) (d_status d)
   | Inl e \<Rightarrow> if e = IntegrityError then Collision
              else if e = HTTPException 409 ''Webhook delivery is already being processed'' then Conflict
              else (case e of HTTPException c m \<Rightarrow> Failure m | _ \<Rightarrow> Collision))"

lemma slot_reserved:
  assumes "record_new_event w st (Some r) (Some (r_route_token_hash r)) (pending_facts r meta m) (Some key) db = (Inr d, db')"
    and "find_idempotent_delivery r key db = None"
  shows "slot_of r key db' = Held (utcnow w) (new_id db)"
proof -
  note rec = record_new_event_Inr [OF assms(1)]
  have "find_idempotent_delivery r key db' = Some d"
    by (rule find_idempotent_new [OF find_idempotent_None [OF assms(2)] rec(2)]) (simp_all add: rec(1))
  then show ?thesis by (simp add: slot_of_def rec(1))
qed

text \<open>C3: reserving a key is one step of the slot: a free key is taken and delivered, a held one
  is refused until the hold is fifteen minutes old and then delivered without renewing the hold,
  a closed one answers with its outcome, and a key held under a replaced URL of the route collides.\<close>

theorem reserve_refines_slot:
  "(case reserve_idempotent_delivery w st r key meta m db of
      (res, db') \<Rightarrow> (decision_of res, slot_of r key db') = claim_slot (utcnow w) (new_id db) (slot_of r key db))"
proof (cases "find_idempotent_delivery r key db")
  case None
  show ?thesis
  proof (cases "record_new_event w st (Some r) (Some (r_route_token_hash r)) (pending_facts r meta m) (Some key) db")
    case (Pair res db')
    show ?thesis
    proof (cases res)
      case (Inl e)
      then have "e = IntegrityError" "key_taken (Some r) (Some key) db"
        using Pair by (auto simp: record_new_event_def Let_def split: if_splits)
      then show ?thesis
        using None Pair Inl by (simp add: reserve_idempotent_delivery_def decision_of_def slot_of_def)
    next
      case (Inr d)
      note rec = record_new_event_Inr [OF Pair [unfolded Inr]]
      show ?thesis
        using None Pair Inr slot_reserved [OF Pair [unfolded Inr] None] rec(1,6)
        by (simp add: reserve_idempotent_delivery_def decision_of_def slot_of_def)
    qed
  qed
next
  case (Some d)
  then show ?thesis
    by (simp add: reserve_idempotent_delivery_def decision_of_def slot_of_def idempotent_delivery_outcome_def
        pending_delivery_is_stale_def IDEMPOTENCY_PENDING_STALE_AFTER_def)
qed

section \<open>The body\<close>

definition body_spec :: "int \<Rightarrow> string list \<Rightarrow> body_result \<Rightarrow> bool" where
  "body_spec max_bytes chunks res =
     (case res of
        Body b \<Rightarrow> b = concat chunks \<and> int (length b) \<le> max 0 max_bytes
      | TooLarge p \<Rightarrow> take (length p) (concat chunks) = p \<and> int (length p) \<le> max 0 max_bytes)"

lemma read_chunks_spec:
  "length body \<le> limit \<Longrightarrow>
   (case read_chunks limit body chunks of
      Body b \<Rightarrow> b = body @ concat chunks \<and> length b \<le> limit
    | TooLarge p \<Rightarrow> length p = limit \<and> take limit (body @ concat chunks) = p \<and> limit < length (body @ concat chunks))"
  by (induction limit body chunks rule: read_chunks.induct) (auto split: body_result.splits)

text \<open>C6: reading stops at the limit: what is handed on is the whole body and within the limit,
  and what is kept of a refused body is a beginning of it, within the limit too.\<close>

theorem read_limited_body_bounded:
  "body_spec max_bytes (rq_stream rq) (read_limited_body rq max_bytes)"
proof -
  have "(case read_chunks (nat (max 0 max_bytes)) [] (rq_stream rq) of
      Body b \<Rightarrow> b = concat (rq_stream rq) \<and> int (length b) \<le> max 0 max_bytes
    | TooLarge p \<Rightarrow> take (length p) (concat (rq_stream rq)) = p \<and> int (length p) \<le> max 0 max_bytes)"
    using read_chunks_spec [of "[]" "nat (max 0 max_bytes)" "rq_stream rq"]
    by (auto split: body_result.splits)
  then show ?thesis
    by (simp add: body_spec_def read_limited_body_def Let_def)
qed

section \<open>Refused requests\<close>

text \<open>What the client IP rule, the flags of the route and the payload have to say for a message
  to be passed on; the client is the one \<open>resolve_client_host\<close> finds.\<close>

definition passed_on :: "world \<Rightarrow> settings \<Rightarrow> string \<Rightarrow> request \<Rightarrow> db \<Rightarrow> bool" where
  "passed_on w st tok rq db =
     (case (resolve_client_host st rq, fetch (\<lambda>r. r_route_token_hash r = lookup_secret_hash w tok) (routes db),
            read_limited_body rq (webhook_max_payload_bytes st)) of
        (Inr resolved, Some r, Body body) \<Rightarrow>
          fst (check_block w st (fst resolved) (Some (lookup_secret_hash w tok)) db) = None \<and>
          r_is_active r \<and> route_feature_disabled_message r st = [] \<and>
          route_allows_client_ip r (fst resolved) = Inr True \<and>
          (case normalize_webhook_payload (utf8_decode w) (json_loads w) body (map_of (rq_headers rq) ''content-type'') of
             Inr _ \<Rightarrow> True | Inl _ \<Rightarrow> False)
      | _ \<Rightarrow> False)"

text \<open>The request as the fallback state and the checked state see it.\<close>

lemma receive_webhook_unfold:
  assumes "resolve_client_host st rq = Inr resolved"
    and "check_block w st (fst resolved) (Some (lookup_secret_hash w tok)) (fst s) = (None, db)"
    and "read_limited_body rq (webhook_max_payload_bytes st) = Body body"
    and "fetch (\<lambda>r. r_route_token_hash r = lookup_secret_hash w tok) (routes db) = Some r"
  shows "receive_webhook rm w st tok rq s =
      handle_routed rm w st (fst resolved) (lookup_secret_hash w tok) rq body
        (request_metadata w resolved rq body (request_idempotency_key rq)) (request_idempotency_key rq) r db s"
  using assms by (simp add: receive_webhook_def Let_def)

lemma check_block_tables:
  assumes "check_block w st h rth db = (b, db')"
  shows "routes db' = routes db" "deliveries db' = deliveries db"
  using bucket_frame_tables [OF check_block_frame [of db w st h rth]] assms by simp_all

lemma reject_routed_refuses: "\<exists>e db'. reject_routed w st h th r reason meta err code db = (Inl e, db')"
  by (cases "record_new_event w st (Some r) (Some th) (rejected_facts meta err) None
      (snd (record_failure w st h (Some th) reason db))")
    (auto simp: reject_routed_def split: sum.splits)

lemma handle_routed_refuses:
  assumes "\<not> (r_is_active r \<and> route_feature_disabled_message r st = [] \<and> route_allows_client_ip r h = Inr True \<and>
      (case normalize_webhook_payload (utf8_decode w) (json_loads w) body (map_of (rq_headers rq) ''content-type'') of
         Inr _ \<Rightarrow> True | Inl _ \<Rightarrow> False))"
  shows "\<exists>e db'. \<forall>rm. handle_routed rm w st h th rq body meta key r db s = (Inl e, db', snd s)"
proof -
  have reject: "\<exists>e db'. \<forall>rm :: remote. (case reject_routed w st h th r reason meta err code db of
      (res, db') \<Rightarrow> (res, db', snd s)) = (Inl e, db', snd s)" for reason err code
    using reject_routed_refuses [of w st h th r reason meta err code db] by auto
  have fallback: "\<exists>e' db'. \<forall>rm :: remote. (Inl e, s) = (Inl e', db', snd s)" for e
    by (rule exI [of _ e], rule exI [of _ "fst s"]) simp
  show ?thesis
  proof (cases "r_is_active r")
    case active: True
    show ?thesis
    proof (cases "route_feature_disabled_message r st = []")
      case enabled: True
      show ?thesis
      proof (cases "route_allows_client_ip r h")
        case (Inr allowed)
        show ?thesis
        proof (cases allowed)
          case True
          then obtain e where "normalize_webhook_payload (utf8_decode w) (json_loads w) body
              (map_of (rq_headers rq) ''content-type'') = Inl e"
            using assms active enabled Inr
            by (cases "normalize_webhook_payload (utf8_decode w) (json_loads w) body (map_of (rq_headers rq) ''content-type'')")
              simp_all
          then show ?thesis
            using reject fallback active enabled Inr True by (cases e) (simp_all add: handle_routed_def)
        qed (use reject active enabled Inr in \<open>simp add: handle_routed_def\<close>)
      qed (use fallback active enabled in \<open>simp add: handle_routed_def\<close>)
    qed (use reject active in \<open>simp add: handle_routed_def\<close>)
  qed (use reject in \<open>simp add: handle_routed_def\<close>)
qed

lemma receive_refused:
  assumes "\<not> passed_on w st tok rq (fst s)"
  shows "\<exists>e db'. \<forall>rm. receive_webhook rm w st tok rq s = (Inl e, db', snd s)"
proof (cases "resolve_client_host st rq")
  case (Inl e)
  then show ?thesis by (auto simp: receive_webhook_def Let_def) (metis prod.collapse)
next
  case (Inr resolved)
  let ?th = "lookup_secret_hash w tok"
  obtain blocked db where chk: "check_block w st (fst resolved) (Some ?th) (fst s) = (blocked, db)" by fastforce
  note tabs = check_block_tables [OF chk]
  show ?thesis
  proof (cases blocked)
    case None
    show ?thesis
    proof (cases "read_limited_body rq (webhook_max_payload_bytes st)")
      case (Body body)
      show ?thesis
      proof (cases "fetch (\<lambda>r. r_route_token_hash r = ?th) (routes db)")
        case (Some r)
        let ?meta = "request_metadata w resolved rq body (request_idempotency_key rq)"
        have "\<exists>e db'. \<forall>rm.
            handle_routed rm w st (fst resolved) ?th rq body ?meta (request_idempotency_key rq) r db s = (Inl e, db', snd s)"
          using chk None Body Some Inr tabs assms by (intro handle_routed_refuses) (simp add: passed_on_def)
        then show ?thesis
          by (simp add: receive_webhook_unfold [OF Inr chk [unfolded None] Body Some])
      qed (use Inr chk None Body in \<open>simp add: receive_webhook_def Let_def\<close>)
    qed (use Inr chk None in \<open>simp add: receive_webhook_def Let_def\<close>)
  qed (use Inr chk in \<open>simp add: receive_webhook_def Let_def\<close>)
qed

lemma receive_accepted:
  assumes "passed_on w st tok rq (fst s)"
  obtains resolved db body r m where
    "check_block w st (fst resolved) (Some (lookup_secret_hash w tok)) (fst s) = (None, db)"
    "fetch (\<lambda>r. r_route_token_hash r = lookup_secret_hash w tok) (routes db) = Some r"
    "\<And>rm. receive_webhook rm w st tok rq s =
      accept_webhook rm w st (fst resolved) (lookup_secret_hash w tok) r m
        (request_metadata w resolved rq body (request_idempotency_key rq)) (request_idempotency_key rq) db s"
proof -
  obtain resolved where res: "resolve_client_host st rq = Inr resolved"
    using assms by (auto simp: passed_on_def split: sum.splits)
  obtain r where r: "fetch (\<lambda>r. r_route_token_hash r = lookup_secret_hash w tok) (routes (fst s)) = Some r"
    using assms by (auto simp: passed_on_def split: sum.splits option.splits)
  obtain body where body: "read_limited_body rq (webhook_max_payload_bytes st) = Body body"
    using assms by (auto simp: passed_on_def split: sum.splits option.splits body_result.splits)
  obtain db where chk: "check_block w st (fst resolved) (Some (lookup_secret_hash w tok)) (fst s) = (None, db)"
    using assms by (cases "check_block w st (fst resolved) (Some (lookup_secret_hash w tok)) (fst s)")
      (simp add: passed_on_def res r body)
  have r': "fetch (\<lambda>r. r_route_token_hash r = lookup_secret_hash w tok) (routes db) = Some r"
    using r check_block_tables [OF chk] by simp
  obtain m where m: "normalize_webhook_payload (utf8_decode w) (json_loads w) body (map_of (rq_headers rq) ''content-type'') = Inr m"
    using assms by (auto simp: passed_on_def res r body split: sum.splits)
  have "receive_webhook rm w st tok rq s =
      accept_webhook rm w st (fst resolved) (lookup_secret_hash w tok) r m
        (request_metadata w resolved rq body (request_idempotency_key rq)) (request_idempotency_key rq) db s" for rm
    unfolding receive_webhook_unfold [OF res chk body r']
    using assms by (simp add: passed_on_def res r body m handle_routed_def)
  then show ?thesis by (rule that [OF chk r'])
qed

text \<open>C2: a request is refused without a call to any other service and without using the cached
  token, whatever those services would answer, unless its client is not blocked, its URL names
  an active route with its backend enabled that admits the client, and its payload is valid.\<close>

theorem refused_unless_passed_on:
  "if passed_on w st tok rq (fst s) then True
   else (\<exists>e db'. \<forall>rm. receive_webhook rm w st tok rq s = (Inl e, db', snd s))"
  using receive_refused [of w st tok rq s] by simp

section \<open>Runs of requests\<close>

text \<open>Requests served one after another, each with its own clock, settings and remote answers.\<close>

type_synonym call = "remote \<times> world \<times> settings \<times> string \<times> request"

fun serve_all :: "call list \<Rightarrow> relay_state \<Rightarrow> relay_state" where
  "serve_all [] s = s"
| "serve_all ((rm, w, st, tok, rq) # cs) s = serve_all cs (snd (receive_webhook rm w st tok rq s))"

lemma serve_all_step: "relay_step (fst s) (fst (serve_all cs s))"
proof (induction cs s rule: serve_all.induct)
  case (2 rm w st tok rq cs s)
  show ?case using relay_step_trans [OF receive_webhook_step 2] by simp
qed simp

text \<open>C4: no run of requests breaks the uniqueness of event ids, of a key within its route, of
  route ids, of URL hashes or of limiter buckets, changes anything of a route but the outcome of
  its last delivery, or changes a delivery event once its outcome is recorded.\<close>

theorem runs_keep_relay_ok:
  assumes "relay_ok (fst s)"
  shows "relay_ok (fst (serve_all cs s)) \<and> route_cores (fst (serve_all cs s)) = route_cores (fst s) \<and>
    {d \<in> set (deliveries (fst s)). d_status d \<noteq> ''pending''} \<subseteq> set (deliveries (fst (serve_all cs s)))"
  using serve_all_step [of s cs] assms by (auto simp: relay_step_def)

section \<open>At most once\<close>

text \<open>An event that holds its key answers every lookup of the key.\<close>

lemma find_settled:
  assumes "events_ok db" and "d \<in> set (deliveries db)" and "d_route_id d = Some (r_id r)"
    and "d_route_token_hash d = Some (r_route_token_hash r)" and "d_idempotency_key d = Some key"
  shows "find_idempotent_delivery r key db = Some d"
proof -
  have only: "e = d" if "e \<in> set (key_rows r (Some key) (deliveries db))" for e
  proof -
    have "e \<in> set (deliveries db)" "d_route_id e = d_route_id d" "d_idempotency_key e = d_idempotency_key d"
      using that assms(3,5) by (simp_all add: key_rows_def)
    then show ?thesis using assms unfolding events_ok_def by fastforce
  qed
  have mem: "d \<in> set (newest_first (key_rows r (Some key) (deliveries db)))"
    using assms by (simp add: key_rows_def)
  obtain e es where e: "newest_first (key_rows r (Some key) (deliveries db)) = e # es"
    using mem by (cases "newest_first (key_rows r (Some key) (deliveries db))") auto
  have "e \<in> set (newest_first (key_rows r (Some key) (deliveries db)))" unfolding e by simp
  then have "e = d" by (intro only) simp
  then show ?thesis using e by (simp add: find_idempotent_rows)
qed

definition settled :: "string \<Rightarrow> string \<Rightarrow> string \<Rightarrow> string \<Rightarrow> db \<Rightarrow> bool" where
  "settled event_id route_id th key db \<longleftrightarrow> (route_id, th) \<in> set (route_keys db) \<and>
     (\<exists>d \<in> set (deliveries db). d_id d = event_id \<and> d_route_id d = Some route_id \<and>
       d_route_token_hash d = Some th \<and> d_idempotency_key d = Some key \<and> d_status d = ''delivered'')"

lemma settled_step:
  assumes "relay_step a b" and "relay_ok a" and "settled i ri th key a"
  shows "settled i ri th key b"
proof -
  obtain d where d: "d \<in> set (deliveries a)" "d_id d = i" "d_route_id d = Some ri"
    "d_route_token_hash d = Some th" "d_idempotency_key d = Some key" "d_status d = ''delivered''"
    using assms(3) by (auto simp: settled_def)
  have kept: "\<forall>d \<in> set (deliveries a). d_status d \<noteq> ''pending'' \<longrightarrow> d \<in> set (deliveries b)" "route_cores b = route_cores a"
    using assms(1,2) by (simp_all add: relay_step_def)
  have "d_status d \<noteq> ''pending''" using d(6) by simp
  then have mem: "d \<in> set (deliveries b)" using kept(1) d(1) by blast
  have "(ri, th) \<in> set (route_keys b)"
    using assms(3) unfolding route_cores_keys [OF kept(2)] settled_def by (rule conjunct1)
  then show ?thesis using mem d(2-6) unfolding settled_def by blast
qed

lemma accept_settled:
  assumes "events_ok db" and "settled i (r_id r) (r_route_token_hash r) key db" and "key \<noteq> []"
  shows "\<exists>out. (\<forall>rm. accept_webhook rm w st h th r m meta key db s = (Inr out, s)) \<and>
    do_delivery_event_id out = i \<and> do_ok out"
proof -
  obtain d where d: "d \<in> set (deliveries db)" "d_id d = i" "d_route_id d = Some (r_id r)"
    "d_route_token_hash d = Some (r_route_token_hash r)" "d_idempotency_key d = Some key" "d_status d = ''delivered''"
    using assms(2) by (auto simp: settled_def)
  have "find_idempotent_delivery r key db = Some d"
    using d by (intro find_settled [OF assms(1)])
  then have "reserve_idempotent_delivery w st r key meta m db = (Inr (d, False), db)"
    using d(6) by (simp add: reserve_idempotent_delivery_def idempotent_delivery_outcome_def)
  then show ?thesis using assms(3) d by (simp add: accept_webhook_def)
qed

lemma receive_settled:
  assumes "relay_ok (fst s)" and "settled i ri (lookup_secret_hash w tok) (request_idempotency_key rq) (fst s)"
    and "request_idempotency_key rq \<noteq> []"
  shows "(\<exists>e db'. \<forall>rm. receive_webhook rm w st tok rq s = (Inl e, db', snd s)) \<or>
    (\<exists>out. (\<forall>rm. receive_webhook rm w st tok rq s = (Inr out, s)) \<and> do_delivery_event_id out = i \<and> do_ok out)"
proof (cases "passed_on w st tok rq (fst s)")
  case False
  from receive_refused [OF this] show ?thesis ..
next
  case True
  from True show ?thesis
  proof (cases rule: receive_accepted)
    case (1 resolved db body r m)
    note chk = 1(1) and r = 1(2) and rcv = 1(3)
    note tabs = check_block_tables [OF chk]
    have step: "relay_step (fst s) db"
      using abuse_steps(3) [of "fst s" w st "fst resolved" "Some (lookup_secret_hash w tok)"] chk by simp
    then have ok: "events_ok db" "distinct (List.map r_route_token_hash (routes db))"
      using assms(1) by (auto simp: relay_step_def relay_ok_def routes_ok_def)
    have set: "settled i ri (lookup_secret_hash w tok) (request_idempotency_key rq) db"
      by (rule settled_step [OF step assms(1,2)])
    then obtain r' where r': "r' \<in> set (routes db)" "r_id r' = ri" "r_route_token_hash r' = lookup_secret_hash w tok"
      by (auto simp: settled_def route_keys_def)
    have "r' = r"
      using fetch_distinct [OF ok(2) r'(1)] r r'(3) by simp
    then have "settled i (r_id r) (r_route_token_hash r) (request_idempotency_key rq) db"
      using set r' by simp
    from accept_settled [OF ok(1) this assms(3)] show ?thesis unfolding rcv by blast
  qed
qed

text \<open>A key that an answer reports delivered by this very request is settled; rows from before
  keys had a column of their own are left out.\<close>

definition no_legacy_pending :: "string \<Rightarrow> db \<Rightarrow> bool" where
  "no_legacy_pending key db \<longleftrightarrow>
     list_all (\<lambda>d. d_status d = ''pending'' \<and> d_idempotency_key d = None \<longrightarrow> metadata_key d \<noteq> JStr key) (deliveries db)"

lemma deliver_reserved_Inr:
  assumes "deliver_reserved rm w st h th r m meta d (db, tk) = (Inr out, s1)" and "d \<in> set (deliveries db)"
    and "r \<in> set (routes db)"
  obtains d' where "out = delivered_out r d' ''Webhook delivered''" "d' \<in> set (deliveries (fst s1))"
    "d_route_id d' = Some (r_id r)" "d_route_token_hash d' = Some (r_route_token_hash r)"
    "d_idempotency_key d' = d_idempotency_key d" "d_status d' = ''delivered''"
    "(r_id r, r_route_token_hash r) \<in> set (route_keys (fst s1))"
proof -
  let ?c = "record_success w st h (Some th) db"
  note tabs = bucket_frame_tables [OF record_success_frame [of db w st h "Some th"]]
  obtain d' db' tk' where del: "deliver_to_route rm w st r m meta (Some d) (?c, tk) = (Inr d', db', tk')"
    and out: "d_status d' \<noteq> ''failed''" "out = delivered_out r d' ''Webhook delivered''" "s1 = (db', tk')"
    using assms(1) by (cases s1) (auto simp: deliver_reserved_def Let_def split: prod.splits sum.splits if_splits)
  obtain f db1 where fr: "sending_frame ?c db1" and st: "ef_status f = ''delivered'' \<or> ef_status f = ''failed''"
    and up: "update_event w st r f d (save_route w (stamp_delivery w (ef_status f) r) db1) = (d', db')"
    using deliver_to_route_recorded [OF del] by (auto simp: delivery_recorded_def record_event_Some)
  note upf = update_event_fields [OF up] and frt = sending_frame_tables [OF fr]
  have "d' \<in> set (deliveries db')"
    using assms(2) tabs(2) frt(2) by (auto simp: upf(2) set_save_row save_route_def upf(1))
  moreover have "(stamp_delivery w (ef_status f) r)\<lparr>r_updated_at := utcnow w\<rparr> \<in> set (routes db')"
    using assms(3) tabs(1) frt(1) upf(3) by (auto simp: save_route_def set_save_row stamp_delivery_def)
  then have "(r_id r, r_route_token_hash r) \<in> set (route_keys db')"
    unfolding route_keys_def set_map by (rule rev_image_eqI) (simp add: stamp_delivery_def)
  ultimately show ?thesis
    using out st by (intro that [of d']) (auto simp: upf(1))
qed

lemma delivered_settles:
  assumes "receive_webhook rm w st tok rq s = (Inr out, s1)" and "do_message out = ''Webhook delivered''"
    and "request_idempotency_key rq \<noteq> []" and "no_legacy_pending (request_idempotency_key rq) (fst s)"
  shows "\<exists>ri. settled (do_delivery_event_id out) ri (lookup_secret_hash w tok) (request_idempotency_key rq) (fst s1)"
proof -
  have "passed_on w st tok rq (fst s)"
    using receive_refused [of w st tok rq s] assms(1) by fastforce
  then show ?thesis
  proof (cases rule: receive_accepted)
    case (1 resolved db body r m)
    let ?key = "request_idempotency_key rq"
    note tabs = check_block_tables [OF 1(1)]
    have r: "r \<in> set (routes db)" "r_route_token_hash r = lookup_secret_hash w tok"
      using fetch_Some [OF 1(2)] by auto
    obtain res db' where new: "reserve_idempotent_delivery w st r ?key
        (request_metadata w resolved rq body ?key) m db = (res, db')" by fastforce
    obtain d where res: "res = Inr (d, True)" and del: "deliver_reserved rm w st (fst resolved)
        (lookup_secret_hash w tok) r m (request_metadata w resolved rq body ?key) d (db', snd s) = (Inr out, s1)"
      using assms(1,2,3) 1(3) [of rm] new
      by (auto simp: accept_webhook_def split: sum.splits if_splits)
    note pend = reserve_pending [OF new [unfolded res]]
    have key: "d_idempotency_key d = Some ?key"
      using new [unfolded res]
    proof (cases rule: reserve_cases)
      case found
      then show ?thesis
        using find_idempotent_Some [OF found(1)] pend(4) assms(4) tabs(2)
        by (auto simp: no_legacy_pending_def list_all_iff)
    next
      case reserved
      then show ?thesis using record_new_event_Inr(1) [OF reserved(3)] by simp
    qed
    show ?thesis
    proof (rule deliver_reserved_Inr [OF del pend(2)])
      show "r \<in> set (routes db')" using r(1) pend(5) by simp
    next
      fix d' assume "out = delivered_out r d' ''Webhook delivered''" "d' \<in> set (deliveries (fst s1))"
        "d_route_id d' = Some (r_id r)" "d_route_token_hash d' = Some (r_route_token_hash r)"
        "d_idempotency_key d' = d_idempotency_key d" "d_status d' = ''delivered''"
        "(r_id r, r_route_token_hash r) \<in> set (route_keys (fst s1))"
      then show ?thesis
        using r(2) key unfolding settled_def delivered_out_def by (intro exI [of _ "r_id r"]) auto
    qed
  qed
qed

text \<open>C1: a key is delivered at most once: after a request with an idempotency key was answered
  as delivered, and after whatever requests came since, a request with that key on that URL is
  either refused or answered with the same event, the same way whatever other services would
  reply, and in the second case nothing changes.\<close>

theorem delivered_at_most_once:
  assumes "receive_webhook rm w st tok rq s = (Inr out, s1)" and "do_message out = ''Webhook delivered''"
    and "relay_ok (fst s)" and "request_idempotency_key rq \<noteq> []"
    and "no_legacy_pending (request_idempotency_key rq) (fst s)"
    and "request_idempotency_key rq' = request_idempotency_key rq"
    and "lookup_secret_hash w' tok' = lookup_secret_hash w tok"
  shows "(\<exists>e db'. \<forall>rm'. receive_webhook rm' w' st' tok' rq' (serve_all cs s1) = (Inl e, db', snd (serve_all cs s1))) \<or>
    (\<exists>out'. (\<forall>rm'. receive_webhook rm' w' st' tok' rq' (serve_all cs s1) = (Inr out', serve_all cs s1)) \<and>
       do_delivery_event_id out' = do_delivery_event_id out \<and> do_ok out')"
proof -
  obtain ri where first: "settled (do_delivery_event_id out) ri (lookup_secret_hash w tok) (request_idempotency_key rq) (fst s1)"
    using delivered_settles [OF assms(1,2,4,5)] by blast
  have ok: "relay_ok (fst s1)"
    using receive_webhook_step [of s rm w st tok rq] assms(1,3) by (simp add: relay_step_def)
  have later: "relay_ok (fst (serve_all cs s1))"
    using serve_all_step [of s1 cs] ok by (simp add: relay_step_def)
  show ?thesis
    using receive_settled [OF later, of "do_delivery_event_id out" ri w' tok' rq']
      settled_step [OF serve_all_step ok first] assms(4,6,7) by simp
qed

text \<open>C5: an answer with a body tells what the delivery event it names records.\<close>

theorem answer_matches_record:
  "case receive_webhook rm w st tok rq s of
     (Inl _, _) \<Rightarrow> True
   | (Inr out, s') \<Rightarrow> \<exists>d \<in> set (deliveries (fst s')). d_id d = do_delivery_event_id out \<and> d_status d = do_status out \<and>
       d_route_id d = Some (do_route_id out) \<and> (do_ok out \<longleftrightarrow> d_status d = ''delivered'')"
proof -
  obtain res s' where Pair: "receive_webhook rm w st tok rq s = (res, s')" by (rule prod.exhaust)
  show ?thesis
  proof (cases res)
    case (Inr out)
    then have "passed_on w st tok rq (fst s)"
      using receive_refused [of w st tok rq s] Pair by fastforce
    then show ?thesis
    proof (cases rule: receive_accepted)
      case (1 resolved db body r m)
      let ?key = "request_idempotency_key rq"
      let ?meta = "request_metadata w resolved rq body ?key"
      note tabs = check_block_tables [OF 1(1)]
      have r: "r \<in> set (routes db)" using fetch_Some [OF 1(2)] by auto
      have reserved: ?thesis if "deliver_reserved rm w st (fst resolved) (lookup_secret_hash w tok) r m ?meta d (db', snd s) = (Inr out, s')"
        "d \<in> set (deliveries db')" "routes db' = routes db" for d db'
        by (rule deliver_reserved_Inr [OF that(1,2)])
          (use r that(3) Pair Inr in \<open>auto simp: delivered_out_def\<close>)
      show ?thesis
      proof (cases "?key = []")
        case True
        obtain d db' where new: "record_new_event w st (Some r) (Some (r_route_token_hash r)) (pending_facts r ?meta m) None db = (Inr d, db')"
          by (auto simp: record_new_event_def key_taken_def Let_def)
        show ?thesis
          using Pair Inr 1(3) [of rm] True new record_new_event_Inr(2,3) [OF new]
          by (intro reserved [of d db']) (simp_all add: accept_webhook_def)
      next
        case False
        obtain d b db' where new: "reserve_idempotent_delivery w st r ?key ?meta m db = (Inr (d, b), db')"
          using Pair Inr 1(3) [of rm] False by (auto simp: accept_webhook_def split: sum.splits prod.splits)
        show ?thesis
        proof (cases b)
          case True
          then have "reserve_idempotent_delivery w st r ?key ?meta m db = (Inr (d, True), db')" using new by simp
          note pend = reserve_pending [OF this]
          show ?thesis
            using Pair Inr 1(3) [of rm] False new True pend by (intro reserved [of d db']) (simp_all add: accept_webhook_def)
        next
          case b: False
          have "find_idempotent_delivery r ?key db = Some d"
            using new b by (cases rule: reserve_cases) auto
          from find_idempotent_Some [OF this] show ?thesis
            using Pair Inr 1(3) [of rm] False new b tabs(2) by (auto simp: accept_webhook_def)
        qed
      qed
    qed
  qed (simp add: Pair)
qed

section \<open>A route in mock mode\<close>

lemma mock_delivers:
  assumes "passed_on w st tok rq (fst s)" and "bot_delivery_mode_normalized st = ''mock''"
    and "fetch (\<lambda>r. r_route_token_hash r = lookup_secret_hash w tok) (routes (fst s)) = Some r"
    and "route_delivery_backend r = ''bot_framework''"
    and "request_idempotency_key rq = [] \<or> slot_of r (request_idempotency_key rq) (fst s) = Free"
  shows "\<exists>out s1. (\<forall>rm. receive_webhook rm w st tok rq s = (Inr out, s1)) \<and> do_ok out \<and>
    do_message out = ''Webhook delivered''"
  using assms(1)
proof (cases rule: receive_accepted)
  case (1 resolved db body r' m)
  let ?key = "request_idempotency_key rq" and ?th = "lookup_secret_hash w tok"
  let ?meta = "request_metadata w resolved rq body ?key"
  note tabs = check_block_tables [OF 1(1)]
  have r: "r' = r" using 1(2) assms(3) tabs by simp
  have deliver: "\<exists>out s1. (\<forall>rm. deliver_reserved rm w st (fst resolved) ?th r m ?meta d (db', snd s) = (Inr out, s1)) \<and>
      do_ok out \<and> do_message out = ''Webhook delivered''" for d db'
    using assms(2,4)
    by (auto simp: deliver_reserved_def deliver_to_route_def deliver_by_bot_def send_bot_activity_def record_outcome_def
        record_event_def update_event_def delivery_facts_def delivered_out_def Let_def)
  show ?thesis
  proof (cases "?key = []")
    case True
    obtain d db' where "record_new_event w st (Some r) (Some (r_route_token_hash r)) (pending_facts r ?meta m) None db = (Inr d, db')"
      by (auto simp: record_new_event_def key_taken_def Let_def)
    then show ?thesis using deliver [of d db'] True unfolding 1(3) r by (simp add: accept_webhook_def)
  next
    case False
    then have "find_idempotent_delivery r ?key (fst s) = None" "\<not> key_taken (Some r) (Some ?key) (fst s)"
      using assms(5) by (auto simp: slot_of_def split: option.splits if_splits)
    then have free: "find_idempotent_delivery r ?key db = None" "\<not> key_taken (Some r) (Some ?key) db"
      using tabs(2) find_idempotent_cong [of r r "fst s" db ?key] by (simp_all add: key_taken_def)
    obtain d db' where "reserve_idempotent_delivery w st r ?key ?meta m db = (Inr (d, True), db')"
      using free by (auto simp: reserve_idempotent_delivery_def record_new_event_def Let_def)
    then show ?thesis using deliver [of d db'] False unfolding 1(3) r by (simp add: accept_webhook_def)
  qed
qed

definition sample_route :: webhook_route where
  "sample_route = \<lparr>r_id = ''0'', r_organization_id = ''o1'', r_created_by_id = None, r_name = ''Alerts'', r_is_active = True,
     r_route_token_hash = ''tok'', r_route_token = [], r_delivery_backend = ''bot_framework'',
     r_client_ip_access_mode = ''public'', r_client_ip_allowlist = [], r_target_type = ''bot_conversation'',
     r_target_name = ''Ops'', r_bot_service_url = ''https://smba/'', r_bot_conversation_id = ''c1'', r_graph_target_kind = [],
     r_graph_target_id = [], r_graph_team_id = [], r_graph_team_name = [], r_graph_channel_id = [], r_graph_user_id = [],
     r_graph_user_display_name = [], r_graph_user_principal_name = [], r_member_summary = [], r_member_count = 0,
     r_member_list_json = JList [], r_members_refreshed_at = None, r_members_lookup_error = [], r_bot_target_source = [],
     r_bot_registered_by_id = [], r_bot_registered_at = None, r_last_delivery_status = None, r_last_delivery_at = None,
     r_created_at = 0, r_updated_at = 0\<rparr>"

definition sample_relay :: db where
  "sample_relay = empty_db\<lparr>routes := [sample_route], next_id := 1\<rparr>"

definition sample_settings :: settings where
  "sample_settings = default_settings\<lparr>bot_delivery_mode := ''mock''\<rparr>"

definition keyed_request :: "string list \<Rightarrow> request" where
  "keyed_request chunks = \<lparr>rq_client_host = Some ''10.0.0.9'', rq_method = ''POST'', rq_path = ''/api/v1/webhooks/tok'',
     rq_headers = [(''idempotency-key'', ''key-0001''), (''content-type'', ''text/plain'')], rq_stream = chunks\<rparr>"

lemma sample_key: "request_idempotency_key (keyed_request chunks) = ''key-0001''"
  by (simp add: request_idempotency_key_def keyed_request_def header_def strip_no_space py_space_def idempotency_char_def clip_def Let_def)

lemma sample_relay_ok: "relay_ok sample_relay"
  by (simp add: sample_relay_def relay_ok_def buckets_ok_def routes_ok_def events_ok_def empty_db_def fresh_ids_def
      sample_route_def str_nat.simps digit_char_def char_of_digits)

lemma sample_client: "\<exists>x. resolve_client_host sample_settings (keyed_request chunks) = Inr (''10.0.0.9'', x)"
  by (simp add: resolve_client_host_def sample_settings_def default_settings_def keyed_request_def header_def
      compose_subnet_trusted, simp add: Let_def)

lemma sample_unblocked: "fst (check_block sample_world sample_settings h th sample_relay) = None"
  by (simp add: check_block_def sample_relay_def empty_db_def load_buckets_def Let_def)

lemma sample_message: "case normalize_webhook_payload (utf8_decode sample_world) (json_loads sample_world) ''hi'' (Some ''text/plain'') of
    Inr _ \<Rightarrow> True | Inl _ \<Rightarrow> False"
  by code_simp

lemma sample_passed_on: "passed_on sample_world sample_settings ''tok'' (keyed_request [''hi'']) sample_relay"
proof -
  obtain x where res: "resolve_client_host sample_settings (keyed_request [''hi'']) = Inr (''10.0.0.9'', x)"
    using sample_client by blast
  have body: "read_limited_body (keyed_request [''hi'']) (webhook_max_payload_bytes sample_settings) = Body ''hi''"
    by (simp add: read_limited_body_def keyed_request_def header_def sample_settings_def default_settings_def)
  have route: "fetch (\<lambda>r. r_route_token_hash r = lookup_secret_hash sample_world ''tok'') (routes sample_relay) = Some sample_route"
    by (simp add: sample_relay_def sample_route_def lookup_secret_hash_def sample_world_def)
  have ok: "r_is_active sample_route" "route_feature_disabled_message sample_route sample_settings = []"
      "route_allows_client_ip sample_route h = Inr True" for h
    by (simp_all add: sample_route_def route_feature_disabled_message_def delivery_backend_disabled_message_def
        sample_settings_def default_settings_def route_allows_client_ip_def route_delivery_backend_def strip_no_space py_space_def)
  have ct: "map_of (rq_headers (keyed_request [''hi''])) ''content-type'' = Some ''text/plain''"
    by (simp add: keyed_request_def)
  show ?thesis
    unfolding passed_on_def res body route ct using ok sample_unblocked sample_message by simp
qed


lemma sample_mock:
  "passed_on sample_world sample_settings ''tok'' (keyed_request [''hi'']) (fst (sample_relay, None))"
  "bot_delivery_mode_normalized sample_settings = ''mock''"
  "fetch (\<lambda>r. r_route_token_hash r = lookup_secret_hash sample_world ''tok'') (routes (fst (sample_relay, None))) = Some sample_route"
  "route_delivery_backend sample_route = ''bot_framework''"
  "request_idempotency_key (keyed_request [''hi'']) = [] \<or>
      slot_of sample_route (request_idempotency_key (keyed_request [''hi''])) (fst (sample_relay, None)) = Free"
proof -
  show "passed_on sample_world sample_settings ''tok'' (keyed_request [''hi'']) (fst (sample_relay, None))"
    using sample_passed_on by simp
  show "bot_delivery_mode_normalized sample_settings = ''mock''"
    by (simp add: sample_settings_def bot_delivery_mode_normalized_def strip_no_space py_space_def lower_def lower_char_def Let_def)
  show "fetch (\<lambda>r. r_route_token_hash r = lookup_secret_hash sample_world ''tok'') (routes (fst (sample_relay, None))) = Some sample_route"
    by (simp add: sample_relay_def sample_route_def lookup_secret_hash_def sample_world_def)
  show "route_delivery_backend sample_route = ''bot_framework''"
    by (simp add: sample_route_def route_delivery_backend_def strip_no_space py_space_def or_str_def)
  show "request_idempotency_key (keyed_request [''hi'']) = [] \<or>
      slot_of sample_route (request_idempotency_key (keyed_request [''hi''])) (fst (sample_relay, None)) = Free"
    by (simp add: sample_key slot_of_def find_idempotent_delivery_def key_taken_def sample_relay_def empty_db_def)
qed

lemma sample_delivers:
  "\<exists>out s1. (\<forall>rm. receive_webhook rm sample_world sample_settings ''tok'' (keyed_request [''hi'']) (sample_relay, None) = (Inr out, s1)) \<and>
     do_ok out \<and> do_message out = ''Webhook delivered''"
  using sample_mock by (intro mock_delivers [of _ _ _ _ "(sample_relay, None)" sample_route]) simp_all

theorem delivered_at_most_once_witness:
  "\<exists>(out :: delivery_out) s1. do_message out = ''Webhook delivered'' \<and>
    ((\<exists>e db'. \<forall>rm'. receive_webhook rm' sample_world default_settings ''tok'' (keyed_request [''other'']) (serve_all [] s1) =
        (Inl e, db', snd (serve_all [] s1))) \<or>
     (\<exists>out'. (\<forall>rm'. receive_webhook rm' sample_world default_settings ''tok'' (keyed_request [''other'']) (serve_all [] s1) =
        (Inr out', serve_all [] s1)) \<and> do_delivery_event_id out' = do_delivery_event_id out \<and> do_ok out'))"
proof -
  obtain out s1 where first: "receive_webhook (sample_remote (\<lambda>_ _. HttpStatusError 500 [])) sample_world sample_settings ''tok''
      (keyed_request [''hi'']) (sample_relay, None) = (Inr out, s1)" and out: "do_message out = ''Webhook delivered''"
    using sample_delivers by blast
  have "(\<exists>e db'. \<forall>rm'. receive_webhook rm' sample_world default_settings ''tok'' (keyed_request [''other'']) (serve_all [] s1) =
        (Inl e, db', snd (serve_all [] s1))) \<or>
     (\<exists>out'. (\<forall>rm'. receive_webhook rm' sample_world default_settings ''tok'' (keyed_request [''other'']) (serve_all [] s1) =
        (Inr out', serve_all [] s1)) \<and> do_delivery_event_id out' = do_delivery_event_id out \<and> do_ok out')"
    by (rule delivered_at_most_once [OF first out])
      (simp_all add: sample_key sample_relay_ok no_legacy_pending_def, simp add: sample_relay_def empty_db_def)
  with out show ?thesis by (intro exI [of _ out] exI [of _ s1] conjI)
qed

text \<open>In mock mode an accepted request whose key is free or missing is delivered.\<close>

theorem mock_route_delivers:
  assumes "passed_on w st tok rq (fst s)" and "bot_delivery_mode_normalized st = ''mock''"
    and "fetch (\<lambda>r. r_route_token_hash r = lookup_secret_hash w tok) (routes (fst s)) = Some r"
    and "route_delivery_backend r = ''bot_framework''"
    and "request_idempotency_key rq = [] \<or> slot_of r (request_idempotency_key rq) (fst s) = Free"
  shows "\<exists>out s1. (\<forall>rm. receive_webhook rm w st tok rq s = (Inr out, s1)) \<and> do_ok out \<and>
    do_message out = ''Webhook delivered''"
  using assms by (rule mock_delivers)

theorem mock_route_delivers_witness:
  "\<exists>out s1. (\<forall>rm. receive_webhook rm sample_world sample_settings ''tok'' (keyed_request [''hi'']) (sample_relay, None) = (Inr out, s1)) \<and>
     do_ok out \<and> do_message out = ''Webhook delivered''"
  using sample_mock by (intro mock_route_delivers [of _ _ _ _ "(sample_relay, None)" sample_route]) simp_all

theorem runs_keep_relay_ok_witness:
  "relay_ok (fst (serve_all [(sample_remote (\<lambda>_ _. HttpStatusError 500 []), sample_world, sample_settings, ''tok'', keyed_request [''hi''])]
      (sample_relay, None))) \<and>
   route_cores (fst (serve_all [(sample_remote (\<lambda>_ _. HttpStatusError 500 []), sample_world, sample_settings, ''tok'', keyed_request [''hi''])]
      (sample_relay, None))) = route_cores (fst (sample_relay, None :: bot_token_manager option)) \<and>
   {d \<in> set (deliveries (fst (sample_relay, None :: bot_token_manager option))). d_status d \<noteq> ''pending''} \<subseteq>
      set (deliveries (fst (serve_all [(sample_remote (\<lambda>_ _. HttpStatusError 500 []), sample_world, sample_settings, ''tok'',
        keyed_request [''hi''])] (sample_relay, None))))"
  by (rule runs_keep_relay_ok) (simp add: sample_relay_ok)

section \<open>Where less is kept\<close>

text \<open>A key of a route whose URL was replaced: the lookup under the new URL finds nothing and the
  insert violates the unique index, which ends the request with an exception.\<close>

lemma replaced_url_collides:
  "slot_of r key db = Foreign \<Longrightarrow> reserve_idempotent_delivery w st r key meta m db = (Inl IntegrityError, db)"
  by (auto simp: slot_of_def reserve_idempotent_delivery_def record_new_event_def split: option.splits if_splits)

text \<open>A hold older than fifteen minutes is not renewed: every retry that comes before the first
  one has finished is told to deliver too.\<close>

lemma stale_hold_delivers_twice:
  assumes "slot_of r key db = Held t i" and "minutes 15 < utcnow w - t"
  shows "\<exists>d. reserve_idempotent_delivery w st r key meta m db = (Inr (d, True), db) \<and> d_id d = i"
  using assms by (auto simp: slot_of_def reserve_idempotent_delivery_def idempotent_delivery_outcome_def
      pending_delivery_is_stale_def IDEMPOTENCY_PENDING_STALE_AFTER_def split: option.splits if_splits)

text \<open>A request that was rejected leaves its key in the metadata of its event, where the lookup of
  keys from before the column finds it: the corrected request with the same key is answered with
  the rejection and never delivered.\<close>

lemma rejected_key_is_burnt:
  assumes "key_rows r (Some key) (deliveries db) = []"
    and "newest_first (key_rows r None (deliveries db)) = d # ds" and "metadata_key d = JStr key"
    and "d_status d = ''rejected''"
  shows "reserve_idempotent_delivery w st r key meta m db = (Inr (d, False), db)"
  using assms by (simp add: reserve_idempotent_delivery_def find_idempotent_rows idempotent_delivery_outcome_def)

end
