(* ===== verification/Route_Guarantees.thy ===== *)
theory Route_Guarantees
  imports Delivery_Log Relay_Guarantees
begin

text \<open>
  What holds of the routes whatever admins and webhook clients do: the constraints of the tables,
  the validity of the address rules, the meaning of a URL that was replaced or deleted, and the
  separation of organizations. The handlers are steps of one relation on the database and the
  caches of the process; invariants are proved for runs of it.
\<close>

section \<open>The invariant\<close>

text \<open>What identifies a route to the outside: id, URL, and name within its organization.\<close>

definition route_ident :: "webhook_route \<Rightarrow> string \<times> string \<times> string \<times> string \<times> string" where
  "route_ident r = (r_id r, r_route_token_hash r, r_organization_id r, r_name r, r_delivery_backend r)"

definition name_key :: "webhook_route \<Rightarrow> string \<times> string \<times> string" where
  "name_key r = (r_organization_id r, r_name r, r_delivery_backend r)"

text \<open>Address rules in normal form, and a target of its backend with all it needs.\<close>

definition route_valid :: "webhook_route \<Rightarrow> bool" where
  "route_valid r \<longleftrightarrow> ip_access_ok r \<and> validate_target (r\<lparr>r_target_name := ''-''\<rparr>) = None"

lemma route_validI: "ip_access_ok r \<Longrightarrow> validate_target r = None \<Longrightarrow> route_valid r"
proof -
  have "strip ''-'' = ''-''" by (simp add: strip_def lstrip_def rstrip_def py_space_def)
  then have "strip ''-'' \<noteq> []" by simp
  moreover have "route_delivery_backend (r\<lparr>r_target_name := ''-''\<rparr>) = route_delivery_backend r"
    "validate_graph_target (r\<lparr>r_target_name := ''-''\<rparr>) = validate_graph_target r"
    by (simp_all add: route_delivery_backend_def validate_graph_target_def Let_def)
  moreover assume "ip_access_ok r" "validate_target r = None"
  ultimately show "route_valid r"
    by (simp add: route_valid_def validate_target_def Let_def ip_access_ok_def split: if_split_asm)
qed

lemma route_valid_update [simp]:
  "route_valid (r\<lparr>r_id := i\<rparr>) = route_valid r" "route_valid (r\<lparr>r_updated_at := t\<rparr>) = route_valid r"
  "route_valid (r\<lparr>r_route_token := tok, r_route_token_hash := h\<rparr>) = route_valid r"
  "route_valid (r\<lparr>r_target_name := n\<rparr>) = route_valid r" "route_valid (r\<lparr>r_graph_team_name := n\<rparr>) = route_valid r"
  "route_valid (r\<lparr>r_member_summary := n\<rparr>) = route_valid r" "route_valid (r\<lparr>r_member_count := c\<rparr>) = route_valid r"
  "route_valid (r\<lparr>r_member_list_json := j\<rparr>) = route_valid r" "route_valid (r\<lparr>r_members_lookup_error := n\<rparr>) = route_valid r"
  "route_valid (r\<lparr>r_members_refreshed_at := at\<rparr>) = route_valid r"
  "route_valid (r\<lparr>r_last_delivery_status := st\<rparr>) = route_valid r" "route_valid (r\<lparr>r_last_delivery_at := at\<rparr>) = route_valid r"
  by (simp_all add: route_valid_def ip_access_ok_def validate_target_def validate_graph_target_def
      route_delivery_backend_def Let_def)

definition store_ok :: "db \<Rightarrow> bool" where
  "store_ok db \<longleftrightarrow> relay_ok db \<and> distinct (List.map name_key (routes db)) \<and> (\<forall>r \<in> set (routes db). route_valid r)"

interpretation store_rows: table_invariant "\<lambda>db. (buckets db, routes db, deliveries db)" store_ok
  by unfold_locales (auto simp: store_ok_def relay_ok_def
      intro: bucket_rows.inv_frame route_rows.inv_frame event_rows.inv_frame)

lemma store_okD:
  assumes "store_ok db"
  shows "relay_ok db" "buckets_ok db" "events_ok db" "fresh_ids r_id (next_id db) (routes db)"
    "distinct (List.map r_route_token_hash (routes db))" "distinct (List.map name_key (routes db))"
    "r \<in> set (routes db) \<Longrightarrow> route_valid r"
  using assms by (auto simp: store_ok_def relay_ok_def routes_ok_def)

lemma store_okI:
  assumes "buckets_ok db" and "events_ok db" and "fresh_ids r_id (next_id db) (routes db)"
    and "distinct (List.map r_route_token_hash (routes db))" and "distinct (List.map name_key (routes db))"
    and "\<And>r. r \<in> set (routes db) \<Longrightarrow> route_valid r"
  shows "store_ok db"
  using assms by (simp add: store_ok_def relay_ok_def routes_ok_def)

lemma sending_frame_store: "sending_frame a b \<Longrightarrow> store_ok a \<Longrightarrow> store_ok b"
  using sending_frame_tables [of a b] by (auto intro: store_rows.inv_frame)

lemma bucket_frame_store: "bucket_frame a b \<Longrightarrow> buckets_ok b \<Longrightarrow> store_ok a \<Longrightarrow> store_ok b"
  using bucket_frame_tables [of a b]
  by (auto simp: store_ok_def relay_ok_def intro: route_rows.inv_frame event_rows.inv_frame)

section \<open>Writing routes\<close>

lemma no_conflict:
  assumes "\<not> route_conflict r db" and "x \<in> set (routes db)" and "r_id x \<noteq> r_id r"
  shows "r_route_token_hash x \<noteq> r_route_token_hash r" "name_key x \<noteq> name_key r"
  using assms by (auto simp: route_conflict_def list_ex_iff name_key_def)

lemma saved_route_ok:
  assumes "store_ok db" and "\<not> route_conflict r db" and "route_valid r"
  shows "store_ok (db\<lparr>routes := save_row r_id r (routes db)\<rparr>)"
proof (rule store_okI)
  note ok = store_okD [OF assms(1)]
  show "buckets_ok (db\<lparr>routes := save_row r_id r (routes db)\<rparr>)" "events_ok (db\<lparr>routes := save_row r_id r (routes db)\<rparr>)"
    using ok(2,3) by (auto intro: bucket_rows.inv_frame event_rows.inv_frame)
  show "fresh_ids r_id (next_id (db\<lparr>routes := save_row r_id r (routes db)\<rparr>)) (routes (db\<lparr>routes := save_row r_id r (routes db)\<rparr>))"
    using ok(4) by (simp add: fresh_ids_save)
  show "distinct (List.map r_route_token_hash (routes (db\<lparr>routes := save_row r_id r (routes db)\<rparr>)))"
    "distinct (List.map name_key (routes (db\<lparr>routes := save_row r_id r (routes db)\<rparr>)))"
    using distinct_save_row [OF ok(4,5), of r] distinct_save_row [OF ok(4,6), of r] no_conflict [OF assms(2)] by auto
  show "route_valid x" if "x \<in> set (routes (db\<lparr>routes := save_row r_id r (routes db)\<rparr>))" for x
    using that ok(7) assms(3) by (auto simp: set_save_row)
qed

lemma flush_route_ok:
  assumes "flush_route w old r db = (r', db')" and "store_ok db" and "\<not> route_conflict r db" and "route_valid r"
  shows "store_ok db'"
proof -
  have "\<not> route_conflict (r\<lparr>r_updated_at := utcnow w\<rparr>) db" "route_valid (r\<lparr>r_updated_at := utcnow w\<rparr>)"
    using assms(3,4) by (simp_all add: route_conflict_def)
  from saved_route_ok [OF assms(2) this] show ?thesis
    using assms(1,2) by (auto simp: flush_route_def Let_def split: if_splits)
qed

text \<open>A row with the identity of a stored one conflicts with no other.\<close>

lemma same_ident_no_conflict:
  assumes "store_ok db" and "old \<in> set (routes db)" and "route_ident r = route_ident old"
  shows "\<not> route_conflict r db"
proof -
  note ok = store_okD [OF assms(1)]
  have eq: "r_id r = r_id old" "r_route_token_hash r = r_route_token_hash old" "name_key r = name_key old"
    using assms(3) by (simp_all add: route_ident_def name_key_def)
  show ?thesis
  proof
    assume "route_conflict r db"
    then obtain x where x: "x \<in> set (routes db)" "r_id x \<noteq> r_id old"
      "r_route_token_hash x = r_route_token_hash old \<or> name_key x = name_key old"
      using eq by (auto simp: route_conflict_def list_ex_iff name_key_def)
    then have "x = old"
      using distinct_column_inject [OF ok(5) x(1) assms(2)] distinct_column_inject [OF ok(6) x(1) assms(2)] by (elim disjE)
    then show False using x(2) by simp
  qed
qed

lemma new_route_ok:
  assumes "store_ok db" and "\<not> route_conflict r db" and "r_id r = new_id db" and "route_valid r"
  shows "store_ok (db\<lparr>routes := routes db @ [r], next_id := Suc (next_id db)\<rparr>)"
proof (rule store_okI)
  note ok = store_okD [OF assms(1)]
  let ?db = "db\<lparr>routes := routes db @ [r], next_id := Suc (next_id db)\<rparr>"
  show "buckets_ok ?db" "events_ok ?db"
    using ok(2,3) by (auto intro: bucket_rows.inv_frame event_rows.inv_frame)
  show "fresh_ids r_id (next_id ?db) (routes ?db)"
    using fresh_ids_snoc [OF ok(4), of r] assms(3) by (simp add: new_id_def)
  have "r_id x \<noteq> r_id r" if "x \<in> set (routes db)" for x
    using that fresh_ids_new [OF ok(4)] assms(3) by (simp add: new_id_def)
  then have "\<forall>x \<in> set (routes db). r_route_token_hash x \<noteq> r_route_token_hash r" "\<forall>x \<in> set (routes db). name_key x \<noteq> name_key r"
    using no_conflict [OF assms(2)] by auto
  then show "distinct (List.map r_route_token_hash (routes ?db))" "distinct (List.map name_key (routes ?db))"
    using distinct_column_snoc [OF ok(5)] distinct_column_snoc [OF ok(6)] by simp_all
  show "route_valid x" if "x \<in> set (routes ?db)" for x
    using that ok(7) assms(4) by auto
qed

section \<open>Naming and preparing\<close>

text \<open>The naming of routes changes names of teams and targets only.\<close>

definition named_like :: "webhook_route \<Rightarrow> webhook_route \<Rightarrow> bool" where
  "named_like r r' \<longleftrightarrow>
     r'\<lparr>r_graph_team_name := [], r_target_name := []\<rparr> = r\<lparr>r_graph_team_name := [], r_target_name := []\<rparr>"

lemma named_like_refl [simp]: "named_like r r"
  by (simp add: named_like_def)

lemma named_like_write [simp]:
  "named_like a (r\<lparr>r_graph_team_name := t\<rparr>) = named_like a r" "named_like a (r\<lparr>r_target_name := n\<rparr>) = named_like a r"
  by (simp_all add: named_like_def)

lemma named_like_fields:
  assumes "named_like r r'"
  shows "route_ident r' = route_ident r" "ip_access_ok r' = ip_access_ok r" "r_route_token r' = r_route_token r"
proof -
  let ?blank = "\<lambda>r. r\<lparr>r_graph_team_name := [], r_target_name := []\<rparr>"
  have eq: "?blank r' = ?blank r" using assms by (simp add: named_like_def)
  have "route_ident (?blank x) = route_ident x" "ip_access_ok (?blank x) = ip_access_ok x" "r_route_token (?blank x) = r_route_token x"
    for x by (simp_all add: route_ident_def ip_access_ok_def)
  then show "route_ident r' = route_ident r" "ip_access_ok r' = ip_access_ok r" "r_route_token r' = r_route_token r"
    using eq by metis+
qed

lemma named_like_valid:
  assumes "named_like r r'"
  shows "route_valid r' = route_valid r"
proof -
  have "route_valid (r'\<lparr>r_graph_team_name := [], r_target_name := []\<rparr>) = route_valid (r\<lparr>r_graph_team_name := [], r_target_name := []\<rparr>)"
    using assms by (simp only: named_like_def)
  then show ?thesis by simp
qed

lemma name_step_like:
  assumes "named_like a r" and "\<And>n x. named_like a x \<Longrightarrow> named_like a (write n x)"
  shows "named_like a (fst (snd (name_step wanted search column write (res, r, tk))))"
  using assms by (auto simp: name_step_def split: sum.splits prod.splits)

lemma resolve_route_like: "named_like r (fst (snd (resolve_route_graph_names rm w st force r tk)))"
proof -
  let ?team = "name_step (\<lambda>r. r_graph_team_id r \<noteq> [] \<and> (force \<or> r_graph_team_name r = []))
             (\<lambda>r. safe_team_name rm w st (r_graph_team_id r)) r_graph_team_name (\<lambda>n r. r\<lparr>r_graph_team_name := n\<rparr>)
             (Inr False, r, tk)"
  obtain res r1 tk1 where team: "?team = (res, r1, tk1)" by (rule prod_cases3)
  have r1: "named_like r r1"
    using name_step_like [of r r "\<lambda>n r. r\<lparr>r_graph_team_name := n\<rparr>" "\<lambda>r. r_graph_team_id r \<noteq> [] \<and> (force \<or> r_graph_team_name r = [])"
        "\<lambda>r. safe_team_name rm w st (r_graph_team_id r)" r_graph_team_name "Inr False" tk] unfolding team by simp
  have target: "named_like r (fst (snd (name_target rm w st force c b r1 tk2)))" for c b tk2
    using r1 by (simp add: name_target_def Let_def name_step_like)
  show ?thesis
  proof (cases res)
    case (Inr b)
    obtain ch tk2 where "route_channel_name rm w st force (strip (r_target_name r)) r1 tk1 = (ch, tk2)" by fastforce
    then show ?thesis using team Inr r1 target by (cases ch) (simp_all add: resolve_route_graph_names_def)
  qed (use team r1 in \<open>simp add: resolve_route_graph_names_def\<close>)
qed

lemma try_resolve_route_like: "named_like r (fst (snd (try_resolve_route_graph_names rm w st force r tk)))"
  using resolve_route_like [of r rm w st force tk]
  by (auto simp: try_resolve_route_graph_names_def try_naming_def split: sum.splits prod.splits)

text \<open>Materialising the target keeps the identity of the route and touches the credentials only.\<close>

lemma lookup_token_frame: "sending_frame db (snd (lookup_token rm w st org db))"
  using refresh_frame by (simp add: lookup_token_db)

lemma materialize_frame: "materialize_graph_user_target rm w st org att r db = (res, db') \<Longrightarrow> sending_frame db db'"
proof -
  have "sending_frame db (snd (create_or_get_one_on_one_chat rm w st org u n p db))" for u n p
    using lookup_token_frame [of db rm w st org]
    by (auto simp: create_or_get_one_on_one_chat_def Let_def split: prod.splits sum.splits)
  then show "materialize_graph_user_target rm w st org att r db = (res, db') \<Longrightarrow> ?thesis"
    by (auto simp: materialize_graph_user_target_def Let_def split: if_splits prod.splits sum.splits exn.splits)
      (metis snd_conv)+
qed

definition kept_access :: "webhook_route \<Rightarrow> webhook_route \<Rightarrow> bool" where
  "kept_access r r' \<longleftrightarrow> route_ident r' = route_ident r \<and> r_route_token r' = r_route_token r \<and>
     (ip_access_ok r \<longrightarrow> ip_access_ok r')"

lemma kept_access_trans: "kept_access a b \<Longrightarrow> kept_access b c \<Longrightarrow> kept_access a c"
  by (simp add: kept_access_def)

lemma materialize_kept: "materialize_graph_user_target rm w st org att r db = (Inr r', db') \<Longrightarrow> kept_access r r'"
  by (auto simp: materialize_graph_user_target_def one_on_one_target_def kept_access_def route_ident_def ip_access_ok_def Let_def
      split: if_splits prod.splits sum.splits exn.splits)

lemma prepare_route_cases:
  assumes "prepare_route rm w st org rid touched r (db, tk) = (res, db', tk')" and "\<And>x. kept_access x (touched x)"
  shows "sending_frame db db'"
    and "res = Inr r' \<Longrightarrow> route_ident r' = route_ident r \<and> r_route_token r' = r_route_token r \<and> ip_access_ok r' \<and>
      validate_target r' = None \<and> ensure_route_name_available db' org (r_name r') (route_delivery_backend r') rid = None"
proof -
  have "sending_frame db db' \<and> (res = Inr r' \<longrightarrow> route_ident r' = route_ident r \<and> r_route_token r' = r_route_token r \<and>
      ip_access_ok r' \<and> validate_target r' = None \<and>
      ensure_route_name_available db' org (r_name r') (route_delivery_backend r') rid = None)"
  proof (cases "ensure_route_feature_enabled r st")
    case None
    show ?thesis
    proof (cases "validate_client_ip_access r")
      case (Inr r1)
      have r1: "ip_access_ok r1" "route_ident r1 = route_ident r" "r_route_token r1 = r_route_token r"
        using validate_client_ip_access_ok [OF Inr] by (auto simp: route_ident_def)
      obtain m db1 where mat: "materialize_graph_user_target rm w st org (rid \<noteq> None) r1 db = (m, db1)" by fastforce
      note frame = materialize_frame [OF mat]
      show ?thesis
      proof (cases m)
        case (Inl e)
        then show ?thesis using assms(1) None Inr mat frame by (auto simp: prepare_route_def)
      next
        case m: (Inr r2)
        have r2: "kept_access r1 (touched r2)"
          using materialize_kept [OF mat [unfolded m]] assms(2) kept_access_trans by blast
        obtain n r3 tk1 where names: "(if graph_lookup_enabled st then try_resolve_route_graph_names rm w st False (touched r2) tk
            else (Inr False, touched r2, tk)) = (n, r3, tk1)" by (rule prod_cases3)
        have "named_like (touched r2) r3"
          using names try_resolve_route_like [of "touched r2" rm w st False tk] by (auto split: if_splits)
        note r3 = named_like_fields [OF this]
        show ?thesis
          using assms(1) None Inr mat m names frame r1 r2 r3
          by (cases n) (auto simp: prepare_route_def kept_access_def split: option.splits)
      qed
    qed (use assms(1) None in \<open>auto simp: prepare_route_def\<close>)
  qed (use assms(1) in \<open>auto simp: prepare_route_def\<close>)
  then show "sending_frame db db'" "res = Inr r' \<Longrightarrow> route_ident r' = route_ident r \<and> r_route_token r' = r_route_token r \<and>
    ip_access_ok r' \<and> validate_target r' = None \<and> ensure_route_name_available db' org (r_name r') (route_delivery_backend r') rid = None"
    by blast+
qed

section \<open>The handlers keep the invariant\<close>

lemma get_org_route_Inr: "get_org_route org i db = Inr r \<longleftrightarrow> fetch (\<lambda>r. r_id r = i \<and> r_organization_id r = org) (routes db) = Some r"
  by (auto simp: get_org_route_def split: option.splits)

lemma get_org_routeD: "get_org_route org i db = Inr r \<Longrightarrow> r \<in> set (routes db) \<and> r_id r = i \<and> r_organization_id r = org"
  by (auto simp: get_org_route_Inr dest: fetch_Some)

lemma route_audit_ok: "store_ok db \<Longrightarrow> store_ok (route_audit w st admin a m db)"
  unfolding route_audit_def by (rule store_rows.inv_audit)

lemma create_ok:
  assumes "store_ok (fst s)"
  shows "store_ok (fst (snd (create_webhook_route rm w st admin p s)))"
proof -
  obtain db0 cs where s: "s = (db0, cs)" by fastforce
  obtain res db tk where prep: "prepare_route rm w st (u_organization_id admin) None (\<lambda>r. r) (new_route w admin p) (db0, app_tokens cs) = (res, db, tk)"
    by (rule prod_cases3)
  have frame: "sending_frame db0 db" by (rule prepare_route_cases(1) [OF prep]) (simp add: kept_access_def)
  show ?thesis
  proof (cases res)
    case (Inr r)
    have "route_valid r" using prepare_route_cases(2) [OF prep _ Inr] by (intro route_validI) (simp_all add: kept_access_def)
    then show ?thesis
      using new_route_ok [OF sending_frame_store [OF frame], of "r\<lparr>r_id := new_id db\<rparr>"] assms s prep Inr
      by (simp add: create_webhook_route_def Let_def route_audit_ok)
  qed (use assms s prep in \<open>simp add: create_webhook_route_def\<close>)
qed

lemma set_opt_keeps: "(\<And>x r. g (f x r) = g r) \<Longrightarrow> g (set_opt v f r) = g r"
  by (simp add: set_opt_def split: option.split)

lemma apply_update_same: "r_id (apply_update p r) = r_id r" "r_organization_id (apply_update p r) = r_organization_id r"
    "r_route_token_hash (apply_update p r) = r_route_token_hash r" "r_route_token (apply_update p r) = r_route_token r"
  unfolding apply_update_def Let_def
  by (simp_all add: set_opt_keeps [where g = r_id] set_opt_keeps [where g = r_organization_id]
      set_opt_keeps [where g = r_route_token_hash] set_opt_keeps [where g = r_route_token])

lemma clear_members_kept: "kept_access r (if c then clear_route_members r else r)"
  by (simp add: kept_access_def clear_route_members_def route_ident_def ip_access_ok_def)

lemma update_ok:
  assumes "store_ok (fst s)"
  shows "store_ok (fst (snd (update_webhook_route rm w st admin i p s)))"
proof -
  obtain db0 cs where s: "s = (db0, cs)" by fastforce
  show ?thesis
  proof (cases "get_org_route (u_organization_id admin) i db0")
    case old: (Inr old)
    let ?touch = "\<lambda>r. if route_member_target_key r \<noteq> route_member_target_key old then clear_route_members r else r"
    obtain res db tk where prep: "prepare_route rm w st (u_organization_id admin) (Some (r_id old)) ?touch (apply_update p old)
        (db0, app_tokens cs) = (res, db, tk)" by (rule prod_cases3)
    have frame: "sending_frame db0 db" by (rule prepare_route_cases(1) [OF prep clear_members_kept])
    have db: "store_ok db" using sending_frame_store [OF frame] assms s by simp
    show ?thesis
    proof (cases "ensure_delivery_backend_feature_enabled
        (case wu_delivery_backend p of Some b \<Rightarrow> or_str b (route_delivery_backend old) | None \<Rightarrow> route_delivery_backend old) st")
      case enabled: None
      show ?thesis
      proof (cases res)
        case (Inr r)
        have ip: "route_valid r" using prepare_route_cases(2) [OF prep clear_members_kept Inr] by (intro route_validI) simp_all
        obtain r' db' where fl: "flush_route w old r db = (r', db')" by fastforce
        have "\<not> route_conflict r db \<Longrightarrow> store_ok db'" by (rule flush_route_ok [OF fl db _ ip])
        then show ?thesis
          using assms s old enabled prep Inr fl by (simp add: update_webhook_route_def Let_def route_audit_ok)
      qed (use assms s old enabled prep in \<open>simp add: update_webhook_route_def Let_def\<close>)
    qed (use assms s old in \<open>simp add: update_webhook_route_def Let_def\<close>)
  qed (use assms s in \<open>simp add: update_webhook_route_def\<close>)
qed

lemma regenerate_ok:
  assumes "store_ok db"
  shows "store_ok (snd (regenerate_webhook_route_url w st admin i db))"
proof (cases "get_org_route (u_organization_id admin) i db")
  case (Inr old)
  let ?r = "old\<lparr>r_route_token := generated_secret w, r_route_token_hash := lookup_secret_hash w (generated_secret w)\<rparr>"
  obtain r' db' where fl: "flush_route w old ?r db = (r', db')" by fastforce
  have "route_valid ?r"
    using store_okD(7) [OF assms] get_org_routeD [OF Inr] by simp
  then have "\<not> route_conflict ?r db \<Longrightarrow> store_ok db'" using flush_route_ok [OF fl assms] by simp
  then show ?thesis using assms Inr fl by (simp add: regenerate_webhook_route_url_def Let_def route_audit_ok)
qed (use assms in \<open>simp add: regenerate_webhook_route_url_def\<close>)

lemma events_ok_detach: "events_ok db \<Longrightarrow>
    events_ok (db\<lparr>deliveries := update_rows P (\<lambda>d. d\<lparr>d_route_id := None\<rparr>) (deliveries db)\<rparr>)"
proof -
  assume ok: "events_ok db"
  then have "fresh_ids d_id (next_id db) (update_rows P (\<lambda>d. d\<lparr>d_route_id := None\<rparr>) (deliveries db))"
    by (intro fresh_ids_update) (simp_all add: events_ok_def)
  moreover have "d_route_id d = None \<or> d_idempotency_key d = None \<or> d = e"
    if d: "d \<in> set (update_rows P (\<lambda>d. d\<lparr>d_route_id := None\<rparr>) (deliveries db))"
      and e: "e \<in> set (update_rows P (\<lambda>d. d\<lparr>d_route_id := None\<rparr>) (deliveries db))"
      and eq: "d_route_id d = d_route_id e" "d_idempotency_key d = d_idempotency_key e" for d e
  proof (cases "d_route_id d = None")
    case False
    then have "d \<in> set (deliveries db)" "e \<in> set (deliveries db)"
      using d e eq(1) by (auto simp: set_update_rows split: if_splits)
    then show ?thesis using ok eq unfolding events_ok_def by blast
  qed simp
  ultimately show ?thesis using ok by (simp add: events_ok_def)
qed

lemma routes_delete_ok:
  assumes "store_ok db"
  shows "store_ok (db\<lparr>routes := delete_rows P (routes db)\<rparr>)"
proof (rule store_okI)
  note ok = store_okD [OF assms]
  show "buckets_ok (db\<lparr>routes := delete_rows P (routes db)\<rparr>)" "events_ok (db\<lparr>routes := delete_rows P (routes db)\<rparr>)"
    using ok(2,3) by (auto intro: bucket_rows.inv_frame event_rows.inv_frame)
  show "fresh_ids r_id (next_id (db\<lparr>routes := delete_rows P (routes db)\<rparr>)) (routes (db\<lparr>routes := delete_rows P (routes db)\<rparr>))"
    using ok(4) by (simp add: fresh_ids_delete)
  show "distinct (List.map r_route_token_hash (routes (db\<lparr>routes := delete_rows P (routes db)\<rparr>)))"
    "distinct (List.map name_key (routes (db\<lparr>routes := delete_rows P (routes db)\<rparr>)))"
    using ok(5,6) by (simp_all add: distinct_column_delete)
  show "route_valid x" if "x \<in> set (routes (db\<lparr>routes := delete_rows P (routes db)\<rparr>))" for x
    using that ok(7) by simp
qed

lemma delete_ok:
  assumes "store_ok db"
  shows "store_ok (snd (delete_webhook_route w st admin i db))"
proof (cases "get_org_route (u_organization_id admin) i db")
  case (Inr r)
  let ?db = "db\<lparr>deliveries := update_rows (\<lambda>d. d_route_id d = Some (r_id r)) (\<lambda>d. d\<lparr>d_route_id := None\<rparr>) (deliveries db),
      reveals := delete_rows (\<lambda>v. rv_route_id v = r_id r) (reveals db)\<rparr>"
  note ok = store_okD [OF assms]
  have "store_ok ?db"
  proof (rule store_okI)
    show "events_ok ?db"
      by (rule event_rows.inv_frame [OF events_ok_detach [OF ok(3)]]) simp_all
    show "buckets_ok ?db" by (rule bucket_rows.inv_frame [OF ok(2)]) simp_all
  qed (use ok in simp_all)
  from routes_delete_ok [OF route_audit_ok [OF this]] show ?thesis
    using Inr by (simp add: delete_webhook_route_def Let_def)
qed (use assms in \<open>simp add: delete_webhook_route_def\<close>)

end
