(* ===== verification/Route_Runs.thy ===== *)
theory Route_Runs
  imports Route_Guarantees
begin

text \<open>
  The routes of an organization over time: every handler that writes them keeps the store well
  formed, so every run of the backend does.
\<close>

section \<open>Rows of the same identity\<close>

lemma idents_ok:
  assumes "store_ok db" and "List.map route_ident rs = List.map route_ident (routes db)" and "\<And>r. r \<in> set rs \<Longrightarrow> route_valid r"
  shows "store_ok (db\<lparr>routes := rs\<rparr>)"
proof (rule store_okI)
  note ok = store_okD [OF assms(1)]
  have cols: "List.map (g \<circ> route_ident) rs = List.map (g \<circ> route_ident) (routes db)" for g :: "_ \<Rightarrow> 'x"
    using arg_cong [OF assms(2), of "List.map g"] by simp
  have ids: "List.map r_id rs = List.map r_id (routes db)"
    using cols [of fst] by (simp add: route_ident_def comp_def)
  have hashes: "List.map r_route_token_hash rs = List.map r_route_token_hash (routes db)"
    using cols [of "\<lambda>k. fst (snd k)"] by (simp add: route_ident_def comp_def)
  have keys: "List.map name_key rs = List.map name_key (routes db)"
    using cols [of "\<lambda>k. snd (snd k)"] by (simp add: route_ident_def name_key_def [abs_def] comp_def)
  show "buckets_ok (db\<lparr>routes := rs\<rparr>)" "events_ok (db\<lparr>routes := rs\<rparr>)"
    using ok(2,3) by (auto intro: bucket_rows.inv_frame event_rows.inv_frame)
  have "\<exists>i < next_id db. r_id r = str_nat i" if "r \<in> set rs" for r
  proof -
    have "r_id r \<in> set (List.map r_id (routes db))" using that by (simp flip: ids)
    then show ?thesis using ok(4) by (auto simp: fresh_ids_def)
  qed
  then show "fresh_ids r_id (next_id (db\<lparr>routes := rs\<rparr>)) (routes (db\<lparr>routes := rs\<rparr>))"
    using ok(4) ids by (simp add: fresh_ids_def)
  show "distinct (List.map r_route_token_hash (routes (db\<lparr>routes := rs\<rparr>)))"
    "distinct (List.map name_key (routes (db\<lparr>routes := rs\<rparr>)))"
    using ok(5,6) hashes keys by simp_all
qed (simp add: assms(3))

lemma save_row_idents:
  assumes "distinct (List.map r_id rs)" and "old \<in> set rs" and "route_ident r = route_ident old"
  shows "List.map route_ident (save_row r_id r rs) = List.map route_ident rs"
proof -
  have "r_id r = r_id old" using assms(3) by (simp add: route_ident_def)
  moreover have "x = old" if "x \<in> set rs" "r_id x = r_id old" for x
    using distinct_column_inject [OF assms(1) that(1) assms(2)] that(2) by simp
  ultimately show ?thesis using assms(3) by (auto simp: save_row_def update_rows_def)
qed

lemma flush_same_ok:
  assumes "flush_route w old r db = (r', db')" and "store_ok db" and "old \<in> set (routes db)"
    and "route_ident r = route_ident old" and "route_valid r"
  shows "store_ok db'"
  by (rule flush_route_ok [OF assms(1,2) same_ident_no_conflict [OF assms(2,3,4)] assms(5)])

section \<open>Names and members\<close>

lemma name_rows_keep:
  assumes "\<And>r tk. P r (fst (snd (resolve r tk)))" and "\<And>r. P r r"
  shows "list_all2 P rows (fst (snd (snd (name_rows resolve rows tk))))"
proof (induction rows arbitrary: tk)
  case (Cons r rows)
  obtain res r1 tk1 where r1: "resolve r tk = (res, r1, tk1)" by (rule prod_cases3)
  then have "P r r1" using assms(1) [of r tk] by simp
  moreover have "list_all2 P rows rows" by (simp add: assms(2) list_all2_same)
  ultimately show ?case
    using r1 Cons [of tk1] by (cases res) (auto split: prod.splits)
qed simp

text \<open>The rows an organization's routes go through while they are renamed one by one.\<close>

definition same_routes :: "db \<Rightarrow> webhook_route list \<Rightarrow> bool" where
  "same_routes db rs \<longleftrightarrow> List.map route_ident rs = List.map route_ident (routes db) \<and> (\<forall>r \<in> set rs. route_valid r)"

lemma same_routes_ok: "store_ok db \<Longrightarrow> same_routes db rs \<Longrightarrow> store_ok (db\<lparr>routes := rs\<rparr>)"
  by (auto simp: same_routes_def intro: idents_ok)

lemma same_routes_save:
  assumes "store_ok db" and "same_routes db rs" and "\<exists>old \<in> set (routes db). named_like old r"
  shows "same_routes db (save_row r_id (r\<lparr>r_updated_at := t\<rparr>) rs)"
proof -
  let ?r = "r\<lparr>r_updated_at := t\<rparr>"
  have idents: "List.map route_ident rs = List.map route_ident (routes db)" and valid: "\<forall>r \<in> set rs. route_valid r"
    using assms(2) by (simp_all add: same_routes_def)
  obtain old where old: "old \<in> set (routes db)" "named_like old r" using assms(3) by auto
  have r: "route_ident ?r = route_ident old" "route_valid ?r"
    using named_like_fields(1) [OF old(2)] named_like_valid [OF old(2)] store_okD(7) [OF assms(1) old(1)]
    by (simp_all add: route_ident_def)
  have "route_ident old \<in> set (List.map route_ident rs)" using old(1) idents by simp
  then obtain old' where old': "old' \<in> set rs" "route_ident old' = route_ident old" by auto
  have "List.map r_id rs = List.map r_id (routes db)"
    using arg_cong [OF idents, of "List.map fst"] by (simp add: route_ident_def comp_def)
  then have "distinct (List.map r_id rs)" using store_okD(4) [OF assms(1)] by (simp add: fresh_ids_def)
  then show ?thesis
    using save_row_idents [OF _ old'(1), of ?r] r old'(2) idents valid by (auto simp: same_routes_def set_save_row)
qed

lemma fold_save_ok:
  assumes "store_ok db" and "\<And>r. r \<in> set renamed \<Longrightarrow> \<exists>old \<in> set (routes db). named_like old r"
  shows "store_ok (db\<lparr>routes := fold (\<lambda>r rs. if r \<in> mine then rs else save_row r_id (r\<lparr>r_updated_at := t\<rparr>) rs) renamed (routes db)\<rparr>)"
proof (rule same_routes_ok [OF assms(1)])
  show "same_routes db (fold (\<lambda>r rs. if r \<in> mine then rs else save_row r_id (r\<lparr>r_updated_at := t\<rparr>) rs) renamed (routes db))"
  proof (rule fold_invariant [of renamed "\<lambda>r. r \<in> set renamed"])
    show "same_routes db (routes db)" using store_okD(7) [OF assms(1)] by (simp add: same_routes_def)
    show "same_routes db (if r \<in> mine then rs else save_row r_id (r\<lparr>r_updated_at := t\<rparr>) rs)"
      if "r \<in> set renamed" "same_routes db rs" for r rs
      using same_routes_save [OF assms(1) that(2) assms(2) [OF that(1)]] that(2) by simp
  qed
qed

lemma list_all2_in_set_right: "list_all2 P xs ys \<Longrightarrow> y \<in> set ys \<Longrightarrow> \<exists>x \<in> set xs. P x y"
  by (induction rule: list_all2_induct) auto

lemma refresh_names_ok:
  assumes "refresh_graph_names rm w st org (db, tk) = (res, db', tk')" and "store_ok db"
  shows "store_ok db'"
proof -
  let ?mine = "List.filter (\<lambda>r. r_organization_id r = org) (routes db)"
  let ?saved = "\<lambda>renamed. db\<lparr>routes := fold (\<lambda>r rs. if r \<in> set ?mine then rs
      else save_row r_id (r\<lparr>r_updated_at := utcnow w\<rparr>) rs) renamed (routes db)\<rparr>"
  obtain e1 n1 refs tk1 where refs: "name_rows (resolve_reference_graph_names rm w st True) (references db) tk = (e1, n1, refs, tk1)"
    by (metis prod_cases4)
  obtain e2 n2 renamed tk2 where renamed: "(case e1 of Some e \<Rightarrow> (Some e, 0, ?mine, tk1)
      | None \<Rightarrow> name_rows (resolve_route_graph_names rm w st True) ?mine tk1) = (e2, n2, renamed, tk2)"
    by (metis prod_cases4)
  have "list_all2 named_like ?mine renamed"
  proof (cases e1)
    case None
    then show ?thesis
      using renamed name_rows_keep [of named_like "resolve_route_graph_names rm w st True" ?mine tk1] resolve_route_like
      by simp
  qed (use renamed in \<open>auto simp: list_all2_same\<close>)
  then have "\<exists>old \<in> set (routes db). named_like old r" if "r \<in> set renamed" for r
    using that by (fastforce dest: list_all2_in_set_right)
  then have "store_ok (?saved renamed)" by (rule fold_save_ok [OF assms(2)])
  then have "store_ok (db\<lparr>references := flush_rows (\<lambda>c. c\<lparr>cr_updated_at := utcnow w\<rparr>) (references db) refs,
      routes := routes (?saved renamed)\<rparr>)"
    by (rule store_rows.inv_frame) simp_all
  then show ?thesis
    using assms refs renamed by (cases e2) (auto simp: refresh_graph_names_def Let_def split: if_splits)
qed

lemma names_ok: "store_ok (fst s) \<Longrightarrow> store_ok (fst (snd (refresh_webhook_route_graph_names rm w st admin s)))"
  using refresh_names_ok
  by (fastforce simp: refresh_webhook_route_graph_names_def names_audit_def route_audit_ok Let_def
      split: prod.splits option.splits sum.splits)

lemma single_names_ok:
  assumes "store_ok (fst s)"
  shows "store_ok (fst (snd (refresh_single_webhook_route_graph_names rm w st admin i s)))"
proof -
  obtain db cs where s: "s = (db, cs)" by fastforce
  show ?thesis
  proof (cases "get_org_route (u_organization_id admin) i db")
    case old: (Inr old)
    have mem: "old \<in> set (routes db)" using get_org_routeD [OF old] by simp
    obtain res r tk where res: "resolve_route_graph_names rm w st True old (app_tokens cs) = (res, r, tk)"
      by (rule prod_cases3)
    then have like: "named_like old r" using resolve_route_like [of old rm w st True "app_tokens cs"] by simp
    obtain r' db' where fl: "flush_route w old r db = (r', db')" by fastforce
    have "store_ok db'"
      using assms s mem named_like_fields(1) [OF like] named_like_valid [OF like] store_okD(7) [of db old]
      by (intro flush_same_ok [OF fl]) simp_all
    then show ?thesis
      using assms s old res fl
      by (cases res) (auto simp: refresh_single_webhook_route_graph_names_def names_audit_def route_audit_ok Let_def split: option.splits)
  qed (use assms s in \<open>simp add: refresh_single_webhook_route_graph_names_def\<close>)
qed

lemma members_lookup_frame: "members_lookup rm w st r s = (res, s') \<Longrightarrow> sending_frame (fst s) (fst s')"
  using lookup_token_frame [of "fst s" rm w st "r_organization_id r"]
  by (auto simp: members_lookup_def fetch_service_user_chat_members_def Let_def split: prod.splits if_splits sum.splits)

lemma refresh_members_kept:
  assumes "refresh_route_members rm w st r s = (res, s')"
  shows "sending_frame (fst s) (fst s')"
    and "res = Inr r' \<Longrightarrow> route_ident r' = route_ident r \<and> route_valid r' = route_valid r"
proof -
  obtain look s1 where look: "members_lookup rm w st r s = (look, s1)" by (rule prod.exhaust)
  note frame = members_lookup_frame [OF look]
  show "sending_frame (fst s) (fst s')"
    using assms look frame by (auto simp: refresh_route_members_def split: sum.splits option.splits)
  show "route_ident r' = route_ident r \<and> route_valid r' = route_valid r" if "res = Inr r'"
    using assms look that
    by (auto simp: refresh_route_members_def route_ident_def split: sum.splits option.splits)
qed

lemma members_ok:
  assumes "store_ok (fst s)"
  shows "store_ok (fst (snd (refresh_webhook_route_members rm w st admin i s)))"
proof -
  obtain db cs where s: "s = (db, cs)" by fastforce
  show ?thesis
  proof (cases "get_org_route (u_organization_id admin) i db")
    case old: (Inr old)
    obtain res db1 tk where res: "refresh_route_members rm w st old (db, bot_tokens cs) = (res, db1, tk)" by (rule prod_cases3)
    note kept = refresh_members_kept [OF res]
    have db1: "store_ok db1" "routes db1 = routes db"
      using sending_frame_store [OF kept(1)] sending_frame_tables [OF kept(1)] assms s by simp_all
    show ?thesis
    proof (cases res)
      case (Inr r)
      obtain r' db' where fl: "flush_route w old r db1 = (r', db')" by fastforce
      have "store_ok db'"
        using kept(2) [OF Inr] get_org_routeD [OF old] db1 store_okD(7) [OF db1(1), of old]
        by (intro flush_same_ok [OF fl db1(1)]) simp_all
      then show ?thesis
        using s old res Inr fl by (simp add: refresh_webhook_route_members_def Let_def route_audit_ok)
    qed (use assms s old res in \<open>simp add: refresh_webhook_route_members_def\<close>)
  qed (use assms s in \<open>simp add: refresh_webhook_route_members_def\<close>)
qed

end
