(* ===== verification/Route_History.thy ===== *)
theory Route_History
  imports Route_Runs
begin

text \<open>
  The requests of webhook callers and of the administrators of routes, delivery events and buckets as one
  step relation on the database and the caches of the process, and what every history keeps.
\<close>

section \<open>Requests of clients\<close>

lemma relay_step_store:
  assumes "relay_step a b" and "store_ok a"
  shows "store_ok b"
proof -
  have ok: "relay_ok a" using assms(2) by (simp add: store_ok_def)
  then have b: "relay_ok b" "route_cores b = route_cores a" using assms(1) by (simp_all add: relay_step_def)
  have "List.map name_key (routes b) = List.map name_key (routes a)"
    by (rule route_cores_columns [OF b(2)]) (simp add: route_core_def name_key_def)
  moreover have "List.map route_valid (routes b) = List.map route_valid (routes a)"
    by (rule route_cores_columns [OF b(2)]) (simp add: route_core_def)
  from arg_cong [OF this, of "list_all id"]
  have "(\<forall>r \<in> set (routes b). route_valid r) = (\<forall>r \<in> set (routes a). route_valid r)"
    by (simp add: list_all_iff)
  ultimately show ?thesis using assms(2) b(1) by (simp add: store_ok_def)
qed

lemma webhook_ok: "store_ok (fst s) \<Longrightarrow> store_ok (fst (snd (receive_webhook rm w st tok rq s)))"
  by (rule relay_step_store [OF receive_webhook_step])

lemma test_ok:
  assumes "store_ok (fst s)"
  shows "store_ok (fst (snd (test_webhook_route rm w st admin i p s)))"
proof -
  obtain db tk where s: "s = (db, tk)" by fastforce
  show ?thesis
  proof (cases "get_org_route (u_organization_id admin) i db")
    case (Inr r)
    obtain res db' tk' where del: "deliver_to_route rm w st r (test_message p) (manual_test_metadata r) None (db, tk) = (res, db', tk')"
      by (rule prod_cases3)
    show ?thesis
    proof (cases res)
      case res: (Inr d)
      have "relay_step db db'"
        using new_delivery_step [OF del [unfolded res]] get_org_routeD [OF Inr] by simp
      then have "store_ok db'" using assms s by (auto intro: relay_step_store)
      then show ?thesis
        using assms s Inr del res by (simp add: test_webhook_route_def route_audit_ok split: option.split)
    qed (use assms s Inr del in \<open>simp add: test_webhook_route_def split: option.split\<close>)
  qed (use assms s in \<open>simp add: test_webhook_route_def\<close>)
qed

section \<open>Clearing records and buckets\<close>

lemma events_ok_delete: "events_ok db \<Longrightarrow> events_ok (db\<lparr>deliveries := delete_rows P (deliveries db)\<rparr>)"
  by (auto simp: events_ok_def fresh_ids_delete)

lemma cleanup_ok:
  assumes "store_ok (fst s)"
  shows "store_ok (fst (snd (cleanup_log_events w st force s)))"
proof -
  obtain db t where s: "s = (db, t)" by fastforce
  note ok = store_okD [OF assms]
  have "store_ok (db\<lparr>deliveries := delete_rows P (deliveries db)\<rparr>)" for P
  proof (rule store_okI)
    show "events_ok (db\<lparr>deliveries := delete_rows P (deliveries db)\<rparr>)" using ok(3) s by (simp add: events_ok_delete)
    show "buckets_ok (db\<lparr>deliveries := delete_rows P (deliveries db)\<rparr>)"
      using ok(2) s by (auto intro: bucket_rows.inv_frame)
  qed (use ok s in simp_all)
  then have "store_ok (db\<lparr>deliveries := delete_rows P (deliveries db), audits := a, activities := b, event_log := c\<rparr>)" for P a b c
    by (rule store_rows.inv_frame) simp_all
  then show ?thesis using assms s by (auto simp: cleanup_log_events_def Let_def)
qed

lemma cleanup_handler_ok: "store_ok (fst s) \<Longrightarrow> store_ok (fst (snd (cleanup_log_event_retention w st admin s)))"
  using cleanup_ok [of "(fst s, last_log_cleanup_at (snd s))"]
  by (simp add: cleanup_log_event_retention_def split: prod.split) (metis fst_conv snd_conv)

lemma events_listing_ok:
  "store_ok (fst s) \<Longrightarrow> store_ok (fst (snd (list_webhook_delivery_events w st admin page n status i q s)))"
  using cleanup_ok [of "(fst s, last_log_cleanup_at (snd s))" w st False]
  by (auto simp: list_webhook_delivery_events_def Let_def split: prod.split option.split)

lemma reset_bucket_ok: "store_ok db \<Longrightarrow> store_ok (snd (reset_webhook_abuse_bucket w st admin i db))"
proof -
  assume ok: "store_ok db"
  have "bucket_frame db (snd (unblock_bucket w st i db))"
    by (cases "fetch (\<lambda>b. ab_id b = i) (buckets db)")
      (simp_all add: unblock_bucket_def save_bucket_def Let_def bucket_frame_more)
  then have "store_ok (snd (unblock_bucket w st i db))"
    by (rule bucket_frame_store [OF _ unblock_bucket_ok [OF store_okD(2) [OF ok]] ok])
  then show ?thesis using ok
    by (auto simp: reset_webhook_abuse_bucket_def split: prod.split option.split)
qed

lemma cleanup_buckets_store: "store_ok db \<Longrightarrow> store_ok (snd (cleanup_webhook_abuse_buckets f w st admin db))"
proof -
  assume ok: "store_ok db"
  have "store_ok (snd (snd (cleanup_buckets f w st db)))"
    using cleanup_buckets_ok [of db f w st] store_okD(2) [OF ok]
    by (intro bucket_frame_store [OF _ _ ok]) (auto simp: cleanup_buckets_def Let_def)
  then show ?thesis
    by (auto simp: cleanup_webhook_abuse_buckets_def Let_def split: prod.split)
qed

section \<open>Histories\<close>

inductive served :: "db \<times> caches \<Rightarrow> db \<times> caches \<Rightarrow> bool" where
  webhook: "receive_webhook rm w st tok rq (db, bot_tokens cs) = (res, db', tk) \<Longrightarrow>
    served (db, cs) (db', cs\<lparr>bot_tokens := tk\<rparr>)"
| create: "check_route_create p = Inr q \<Longrightarrow> create_webhook_route rm w st admin q s = (res, s') \<Longrightarrow> served s s'"
| update: "check_route_update p = Inr q \<Longrightarrow> update_webhook_route rm w st admin i q s = (res, s') \<Longrightarrow> served s s'"
| names: "refresh_webhook_route_graph_names rm w st admin s = (res, s') \<Longrightarrow> served s s'"
| single_names: "refresh_single_webhook_route_graph_names rm w st admin i s = (res, s') \<Longrightarrow> served s s'"
| members: "refresh_webhook_route_members rm w st admin i s = (res, s') \<Longrightarrow> served s s'"
| delete: "delete_webhook_route w st admin i db = (res, db') \<Longrightarrow> served (db, cs) (db', cs)"
| regenerate: "regenerate_webhook_route_url w st admin i db = (res, db') \<Longrightarrow> served (db, cs) (db', cs)"
| test: "check_test_request p = Inr q \<Longrightarrow> test_webhook_route rm w st admin i q (db, bot_tokens cs) = (res, db', tk) \<Longrightarrow>
    served (db, cs) (db', cs\<lparr>bot_tokens := tk\<rparr>)"
| listing: "list_webhook_delivery_events w st admin page n status i q s = (res, s') \<Longrightarrow> served s s'"
| cleanup: "cleanup_log_event_retention w st admin s = (res, s') \<Longrightarrow> served s s'"
| reset_bucket: "reset_webhook_abuse_bucket w st admin i db = (res, db') \<Longrightarrow> served (db, cs) (db', cs)"
| cleanup_buckets: "cleanup_webhook_abuse_buckets f w st admin db = (res, db') \<Longrightarrow> served (db, cs) (db', cs)"

inductive_cases servedE: "served s s'"

lemma served_ok: "served s s' \<Longrightarrow> store_ok (fst s) \<Longrightarrow> store_ok (fst s')"
proof (induction rule: served.induct)
  case (webhook rm w st tok rq db cs res db' tk)
  then show ?case using webhook_ok [of "(db, bot_tokens cs)" rm w st tok rq] by simp
next
  case (create p q rm w st admin s res s')
  then show ?case using create_ok [of s rm w st admin q] by simp
next
  case (update p q rm w st admin i s res s')
  then show ?case using update_ok [of s rm w st admin i q] by simp
next
  case (names rm w st admin s res s')
  then show ?case using names_ok [of s rm w st admin] by simp
next
  case (single_names rm w st admin i s res s')
  then show ?case using single_names_ok [of s rm w st admin i] by simp
next
  case (members rm w st admin i s res s')
  then show ?case using members_ok [of s rm w st admin i] by simp
next
  case (delete w st admin i db res db' cs)
  then show ?case using delete_ok [of db w st admin i] by simp
next
  case (regenerate w st admin i db res db' cs)
  then show ?case using regenerate_ok [of db w st admin i] by simp
next
  case (test p q rm w st admin i db cs res db' tk)
  then show ?case using test_ok [of "(db, bot_tokens cs)" rm w st admin i q] by simp
next
  case (listing w st admin page n status i q s res s')
  then show ?case using events_listing_ok [of s w st admin page n status i q] by simp
next
  case (cleanup w st admin s res s')
  then show ?case using cleanup_handler_ok [of s w st admin] by simp
next
  case (reset_bucket w st admin i db res db' cs)
  then show ?case using reset_bucket_ok [of db w st admin i] by simp
next
  case (cleanup_buckets f w st admin db res db' cs)
  then show ?case using cleanup_buckets_store [of db f w st admin] by simp
qed

lemma history_ok: "served\<^sup>*\<^sup>* s s' \<Longrightarrow> store_ok (fst s) \<Longrightarrow> store_ok (fst s')"
  by (induction rule: rtranclp_induct) (auto intro: served_ok)

section \<open>Lookups\<close>

lemma route_id_unique:
  assumes "store_ok db" and "r \<in> set (routes db)" and "x \<in> set (routes db)" and "r_id x = r_id r"
  shows "x = r"
  using fresh_ids_inject [OF store_okD(4) [OF assms(1)] assms(3,2,4)] .

lemma get_org_route_own:
  assumes "store_ok db" and "r \<in> set (routes db)"
  shows "get_org_route (r_organization_id r) (r_id r) db = Inr r"
proof -
  let ?P = "\<lambda>x. r_id x = r_id r \<and> r_organization_id x = r_organization_id r"
  obtain x where x: "fetch ?P (routes db) = Some x"
    using assms(2) fetch_None [of ?P "routes db"] by (cases "fetch ?P (routes db)") auto
  then have "x = r" using fetch_Some [OF x] route_id_unique [OF assms] by blast
  then show ?thesis using x by (simp add: get_org_route_def)
qed

lemma get_org_route_foreign:
  assumes "store_ok db" and "r \<in> set (routes db)" and "r_organization_id r \<noteq> org"
  shows "get_org_route org (r_id r) db = Inl (HTTPException 404 ''Webhook route not found'')"
proof -
  have "fetch (\<lambda>x. r_id x = r_id r \<and> r_organization_id x = org) (routes db) = None"
    using assms(3) route_id_unique [OF assms(1,2)] fetch_None [of "\<lambda>x. r_id x = r_id r \<and> r_organization_id x = org" "routes db"]
    by auto
  then show ?thesis by (simp add: get_org_route_def)
qed

text \<open>No route, no delivery.\<close>

lemma closed_url:
  assumes "\<And>x. x \<in> set (routes db) \<Longrightarrow> r_route_token_hash x \<noteq> lookup_secret_hash w tok"
  shows "\<exists>e db'. \<forall>rm. receive_webhook rm w st tok rq (db, tk) = (Inl e, db', tk)"
proof -
  have "fetch (\<lambda>r. r_route_token_hash r = lookup_secret_hash w tok) (routes db) = None"
    using assms fetch_None [of "\<lambda>r. r_route_token_hash r = lookup_secret_hash w tok" "routes db"] by auto
  then have "\<not> passed_on w st tok rq (fst (db, tk))" by (simp add: passed_on_def split: sum.split)
  from receive_refused [OF this] show ?thesis by simp
qed

lemma route_audit_tables [simp]:
  "routes (route_audit w st admin a m db) = routes db" "deliveries (route_audit w st admin a m db) = deliveries db"
  "reveals (route_audit w st admin a m db) = reveals db"
  by (simp_all add: route_audit_def)

section \<open>Properties\<close>

text \<open>However webhook requests and the requests of admins follow each other, URLs stay unique,
  names stay unique within an organization and backend, and every stored route has a target of its
  backend and address rules that decide about every client.\<close>

theorem every_history_keeps_routes_valid:
  assumes "served\<^sup>*\<^sup>* s s'" and "store_ok (fst s)"
  shows "distinct (List.map r_route_token_hash (routes (fst s'))) \<and> distinct (List.map name_key (routes (fst s'))) \<and>
    list_all (\<lambda>r. validate_target (r\<lparr>r_target_name := ''-''\<rparr>) = None \<and> (\<forall>h. \<exists>b. route_allows_client_ip r h = Inr b))
      (routes (fst s'))"
  using store_okD [OF history_ok [OF assms]] route_allows_total
  by (auto simp: list_all_iff route_valid_def)


text \<open>C13: deleting a route removes it and its pending reveal links, closes its URL, and keeps every
  delivery event, without the route; the other routes and reveal links stay.\<close>

theorem deleted_route_is_gone:
  assumes "store_ok db" and "r \<in> set (routes db)" and "r_organization_id r = u_organization_id admin"
    and "delete_webhook_route w st admin (r_id r) db = (res, db')" and "lookup_secret_hash w' tok = r_route_token_hash r"
  shows "res = Inr () \<and> (\<exists>e db''. \<forall>rm. receive_webhook rm w' st' tok rq (db', tk) = (Inl e, db'', tk)) \<and>
    set (routes db') = set (routes db) - {r} \<and> reveals db' = List.filter (\<lambda>v. rv_route_id v \<noteq> r_id r) (reveals db) \<and>
    List.map d_id (deliveries db') = List.map d_id (deliveries db) \<and>
    List.filter (\<lambda>d. d_route_id d = Some (r_id r)) (deliveries db') = []"
proof -
  have own: "get_org_route (u_organization_id admin) (r_id r) db = Inr r"
    using get_org_route_own [OF assms(1,2)] assms(3) by simp
  note ok = store_okD [OF assms(1)]
  have res: "res = Inr ()" and rows: "routes db' = delete_rows (\<lambda>x. r_id x = r_id r) (routes db)"
    and rest: "reveals db' = delete_rows (\<lambda>v. rv_route_id v = r_id r) (reveals db)"
    "deliveries db' = update_rows (\<lambda>d. d_route_id d = Some (r_id r)) (\<lambda>d. d\<lparr>d_route_id := None\<rparr>) (deliveries db)"
    using assms(4) own by (auto simp: delete_webhook_route_def Let_def)
  have set: "set (routes db') = set (routes db) - {r}"
    using route_id_unique [OF assms(1,2)] by (auto simp: rows)
  have "r_route_token_hash x \<noteq> lookup_secret_hash w' tok" if "x \<in> set (routes db')" for x
    using that distinct_column_inject [OF ok(5) _ assms(2), of x] assms(5) by (auto simp: set)
  from closed_url [OF this]
  have "\<exists>e db''. \<forall>rm. receive_webhook rm w' st' tok rq (db', tk) = (Inl e, db'', tk)" by simp
  moreover have "List.filter (\<lambda>d. d_route_id d = Some (r_id r)) (deliveries db') = []"
    by (auto simp: rest filter_empty_conv set_update_rows)
  ultimately show ?thesis using res set by (simp add: rest delete_rows_def map_update_rows)
qed


lemma pages_cover: "concat (List.map (\<lambda>p. page_of p (Suc k) rows) [1..<Suc n]) = take (n * Suc k) rows"
proof (induction n)
  case (Suc n)
  have "take (Suc n * Suc k) rows = take (n * Suc k) rows @ page_of (Suc n) (Suc k) rows"
    using take_add [of "n * Suc k" "Suc k" rows] by (simp only: page_of_def mult_Suc add.commute diff_Suc_1)
  moreover have "[1..<Suc (Suc n)] = [1..<Suc n] @ [Suc n]" by simp
  ultimately show ?case by (simp only: Suc map_append concat_append list.map concat.simps append_Nil2)
qed simp

lemma enough_pages: "length rows \<le> ((length rows + Suc k - 1) div Suc k) * Suc k"
proof -
  have "length rows + k < Suc ((length rows + k) div Suc k) * Suc k"
    using dividend_less_div_times [of "Suc k" "length rows + k"] by simp
  then show ?thesis by simp
qed

lemma pages_of_rows:
  "concat (List.map (\<lambda>p. List.map f (page_of p (Suc k) rows)) [1..<Suc ((length rows + Suc k - 1) div Suc k)]) = List.map f rows"
proof -
  have "concat (List.map (\<lambda>p. List.map f (page_of p (Suc k) rows)) ps) = List.map f (concat (List.map (\<lambda>p. page_of p (Suc k) rows) ps))"
    for ps by (induction ps) simp_all
  then show ?thesis
    using pages_cover [of k rows "(length rows + Suc k - 1) div Suc k"] enough_pages [of rows k] by (simp only: take_all)
qed


section \<open>Witnesses\<close>

definition sample_caches :: caches where
  "sample_caches = \<lparr>bot_tokens = None, app_tokens = None, last_log_cleanup_at = None\<rparr>"

lemma sample_store_ok: "store_ok sample_relay"
proof -
  have "validate_target (sample_route\<lparr>r_target_name := ''-''\<rparr>) = None"
    by (simp add: validate_target_def sample_route_def route_delivery_backend_def strip_no_space py_space_def or_str_def Let_def)
  then have "route_valid sample_route" by (simp add: route_valid_def ip_access_ok_def sample_route_def)
  then show ?thesis using sample_relay_ok by (simp add: store_ok_def sample_relay_def)
qed

lemma sample_member: "sample_route \<in> set (routes sample_relay)"
  "r_organization_id sample_route = u_organization_id sample_admin" "r_id sample_route = ''0''"
  by (simp_all add: sample_relay_def sample_route_def sample_admin_def)

lemma sample_regenerates:
  "\<exists>out. fst (regenerate_webhook_route_url sample_world sample_settings sample_admin ''0'' sample_relay) = Inr out"
proof -
  have own: "get_org_route (u_organization_id sample_admin) ''0'' sample_relay = Inr sample_route"
    using get_org_route_own [OF sample_store_ok sample_member(1)] sample_member by simp
  have mode: "normalize_client_ip_access_mode ''public'' = Inr ''public''" by code_simp
  have free: "\<not> route_conflict (sample_route\<lparr>r_route_token := t, r_route_token_hash := h\<rparr>) sample_relay" for t h
    by (simp add: route_conflict_def sample_relay_def)
  show ?thesis
    by (simp add: regenerate_webhook_route_url_def own free Let_def flush_route_def route_out_of_def bind_sum_def split: prod.split)
      (simp add: sample_route_def mode)
qed

theorem every_history_keeps_routes_valid_witness:
  "distinct (List.map r_route_token_hash (routes (fst (snd (regenerate_webhook_route_url sample_world sample_settings
      sample_admin ''0'' sample_relay), sample_caches)))) \<and>
   distinct (List.map name_key (routes (fst (snd (regenerate_webhook_route_url sample_world sample_settings
      sample_admin ''0'' sample_relay), sample_caches)))) \<and>
   list_all (\<lambda>r. validate_target (r\<lparr>r_target_name := ''-''\<rparr>) = None \<and> (\<forall>h. \<exists>b. route_allows_client_ip r h = Inr b))
      (routes (fst (snd (regenerate_webhook_route_url sample_world sample_settings sample_admin ''0'' sample_relay), sample_caches)))"
proof (rule every_history_keeps_routes_valid)
  show "served\<^sup>*\<^sup>* (sample_relay, sample_caches)
      (snd (regenerate_webhook_route_url sample_world sample_settings sample_admin ''0'' sample_relay), sample_caches)"
    by (rule r_into_rtranclp) (rule served.regenerate, rule prod.collapse [symmetric])
  show "store_ok (fst (sample_relay, sample_caches))" using sample_store_ok by simp
qed


theorem deleted_route_is_gone_witness:
  "\<exists>res db'. delete_webhook_route sample_world sample_settings sample_admin ''0'' sample_relay = (res, db') \<and> res = Inr () \<and>
    (\<exists>e db''. \<forall>rm. receive_webhook rm sample_world sample_settings ''tok'' (keyed_request [''hi'']) (db', None) = (Inl e, db'', None)) \<and>
    set (routes db') = set (routes sample_relay) - {sample_route} \<and>
    reveals db' = List.filter (\<lambda>v. rv_route_id v \<noteq> r_id sample_route) (reveals sample_relay) \<and>
    List.map d_id (deliveries db') = List.map d_id (deliveries sample_relay) \<and>
    List.filter (\<lambda>d. d_route_id d = Some (r_id sample_route)) (deliveries db') = []"
proof -
  obtain res db' where del: "delete_webhook_route sample_world sample_settings sample_admin (r_id sample_route) sample_relay = (res, db')"
    by (rule prod.exhaust)
  have hash: "lookup_secret_hash sample_world ''tok'' = r_route_token_hash sample_route"
    by (simp add: lookup_secret_hash_def sample_world_def sample_route_def)
  show ?thesis
    by (rule exI [of _ res], rule exI [of _ db'], rule conjI, rule del [unfolded sample_member(3)],
        rule deleted_route_is_gone [OF sample_store_ok sample_member(1,2) del hash])
qed


end
