(* ===== verification/Bot_Conversations.thy ===== *)
theory Bot_Conversations
  imports Bot_Access
begin

text \<open>
  Conversation references of \<open>routers/bot_messages.py\<close>: one row for each Teams conversation the bot has
  seen, what an activity writes into it, the members of group chats, the routes linked to it, and the
  handlers by which admins read, refresh and delete references.
\<close>

section \<open>Members\<close>

definition CHAT_MEMBER_REFRESH_AFTER :: duration where
  "CHAT_MEMBER_REFRESH_AFTER = hours 6"

definition members_due :: "world \<Rightarrow> bool \<Rightarrow> conversation_reference \<Rightarrow> bool" where
  "members_due w force c \<longleftrightarrow>
     (cr_scope c = ''chat'' \<or> lower (cr_conversation_type c) = ''groupchat'') \<and>
     cr_service_url c \<noteq> [] \<and> cr_conversation_id c \<noteq> [] \<and>
     (force \<or> (case ensure_utc (cr_members_refreshed_at c) of None \<Rightarrow> True
        | Some t \<Rightarrow> CHAT_MEMBER_REFRESH_AFTER \<le> utcnow w - t))"

definition members_failed :: "world \<Rightarrow> string \<Rightarrow> conversation_reference \<Rightarrow> conversation_reference" where
  "members_failed w message c =
     c\<lparr>cr_members_lookup_error := clip 1000 message, cr_members_refreshed_at := Some (utcnow w), cr_updated_at := utcnow w\<rparr>"

definition members_read :: "world \<Rightarrow> members_result \<Rightarrow> conversation_reference \<Rightarrow> conversation_reference" where
  "members_read w result c =
     c\<lparr>cr_member_summary := mr_member_summary result, cr_member_count := mr_member_count result,
       cr_member_list_json := serialize_members (mr_members result), cr_members_lookup_error := [],
       cr_members_refreshed_at := Some (utcnow w), cr_updated_at := utcnow w\<rparr>"

definition refresh_reference_chat_members ::
  "remote \<Rightarrow> world \<Rightarrow> settings \<Rightarrow> bool \<Rightarrow> conversation_reference \<Rightarrow> bot_token_manager option \<Rightarrow>
   (exn + bool) \<times> conversation_reference \<times> bot_token_manager option" where
  "refresh_reference_chat_members rm w st force c tokens =
     (if \<not> members_due w force c then (Inr False, c, tokens)
      else (case fetch_bot_conversation_members rm w st (cr_service_url c) (cr_conversation_id c) tokens of
        (Inl (BotConversationMembersError m), tokens) \<Rightarrow> (Inr True, members_failed w m c, tokens)
      | (Inl (BotDeliveryError m), tokens) \<Rightarrow> (Inr True, members_failed w m c, tokens)
      | (Inl e, tokens) \<Rightarrow> (Inl e, c, tokens)
      | (Inr result, tokens) \<Rightarrow> (Inr True, members_read w result c, tokens)))"

section \<open>Capturing a conversation\<close>

definition blank_reference :: "world \<Rightarrow> string \<Rightarrow> string \<Rightarrow> conversation_reference" where
  "blank_reference w i conversation_id =
     \<lparr>cr_id = i, cr_scope = [], cr_service_url = [], cr_conversation_id = conversation_id, cr_tenant_id = [],
      cr_team_id = [], cr_graph_team_id = [], cr_channel_id = [], cr_conversation_type = [], cr_team_name = [],
      cr_channel_name = [], cr_user_id = [], cr_user_name = [], cr_graph_user_id = [], cr_member_summary = [],
      cr_member_count = 0, cr_member_list_json = JList [], cr_members_refreshed_at = None,
      cr_members_lookup_error = [], cr_raw_activity_type = [], cr_last_seen_at = utcnow w,
      cr_created_at = utcnow w, cr_updated_at = utcnow w\<rparr>"

definition reference_seen :: "world \<Rightarrow> captured \<Rightarrow> conversation_reference \<Rightarrow> conversation_reference" where
  "reference_seen w ca c =
     c\<lparr>cr_scope := scope_for ca, cr_service_url := ca_service_url ca, cr_tenant_id := ca_tenant_id ca,
       cr_team_id := ca_team_id ca, cr_graph_team_id := or_str (ca_graph_team_id ca) (cr_graph_team_id c),
       cr_channel_id := ca_channel_id ca, cr_conversation_type := ca_conversation_type ca,
       cr_team_name := or_str (ca_team_name ca) (cr_team_name c),
       cr_channel_name := or_str (ca_channel_name ca) (cr_channel_name c), cr_user_id := ca_from_id ca,
       cr_user_name := or_str (ca_user_name ca) (cr_user_name c),
       cr_graph_user_id := or_str (ca_graph_user_id ca) (cr_graph_user_id c),
       cr_raw_activity_type := ca_activity_type ca, cr_last_seen_at := utcnow w, cr_updated_at := utcnow w\<rparr>"

definition find_reference :: "string \<Rightarrow> db \<Rightarrow> conversation_reference option" where
  "find_reference conversation_id db = fetch (\<lambda>c. cr_conversation_id c = conversation_id) (references db)"

definition save_reference :: "conversation_reference \<Rightarrow> db \<Rightarrow> db" where
  "save_reference c db = db\<lparr>references := save_row cr_id c (references db)\<rparr>"

definition upsert_reference ::
  "remote \<Rightarrow> world \<Rightarrow> settings \<Rightarrow> captured \<Rightarrow> db \<times> caches \<Rightarrow> (exn + conversation_reference option) \<times> db \<times> caches" where
  "upsert_reference rm w st ca s =
     (let (db, cs) = s in
      if ca_conversation_id ca = [] \<or> ca_service_url ca = [] then (Inr None, s)
      else (let (c, db) = (case find_reference (ca_conversation_id ca) db of
                   Some c \<Rightarrow> (c, db)
                 | None \<Rightarrow> (let c = blank_reference w (new_id db) (ca_conversation_id ca)
                            in (c, db\<lparr>references := references db @ [c], next_id := Suc (next_id db)\<rparr>)))
            in case try_resolve_reference_graph_names rm w st False (reference_seen w ca c) (app_tokens cs) of
                 (Inl e, _, tokens) \<Rightarrow> (Inl e, db, cs\<lparr>app_tokens := tokens\<rparr>)
               | (Inr _, c, tokens) \<Rightarrow>
                   (case refresh_reference_chat_members rm w st False c (bot_tokens cs) of
                      (Inl e, _, bots) \<Rightarrow> (Inl e, db, cs\<lparr>app_tokens := tokens, bot_tokens := bots\<rparr>)
                    | (Inr _, c, bots) \<Rightarrow>
                        (Inr (Some c), save_reference c db, cs\<lparr>app_tokens := tokens, bot_tokens := bots\<rparr>))))"

section \<open>Linked routes\<close>

text \<open>The first row for each key, as \<open>dict.setdefault\<close> keeps it.\<close>

fun first_by :: "('r \<Rightarrow> 'k) \<Rightarrow> 'r list \<Rightarrow> 'r list" where
  "first_by f [] = []"
| "first_by f (r # rows) = r # List.filter (\<lambda>x. f x \<noteq> f r) (first_by f rows)"

definition latest_routes :: "string \<Rightarrow> (webhook_route \<Rightarrow> bool) \<Rightarrow> db \<Rightarrow> webhook_route list" where
  "latest_routes org P db =
     sort_key (\<lambda>r. - r_updated_at r) (List.filter (\<lambda>r. r_organization_id r = org \<and> P r) (routes db))"

definition linked_to_reference :: "conversation_reference \<Rightarrow> webhook_route \<Rightarrow> bool" where
  "linked_to_reference c r \<longleftrightarrow>
     (cr_conversation_id c \<noteq> [] \<and>
       (r_bot_conversation_id r = cr_conversation_id c \<or>
        (r_graph_target_kind r = ''chat'' \<and> r_graph_target_id r = cr_conversation_id c))) \<or>
     (cr_graph_team_id c \<noteq> [] \<and> cr_channel_id c \<noteq> [] \<and>
       r_graph_team_id r = cr_graph_team_id c \<and> r_graph_channel_id r = cr_channel_id c)"

definition find_routes_for_conversation_reference :: "string \<Rightarrow> conversation_reference \<Rightarrow> db \<Rightarrow> webhook_route list" where
  "find_routes_for_conversation_reference org c db = first_by r_id (latest_routes org (linked_to_reference c) db)"

section \<open>Handlers\<close>

record linked_route_out =
  lr_id :: string
  lr_name :: string
  lr_is_active :: bool
  lr_delivery_backend :: string
  lr_target_name :: string
  lr_last_delivery_status :: "string option"
  lr_last_delivery_at :: "instant option"
  lr_updated_at :: instant

definition linked_route_out_of :: "webhook_route \<Rightarrow> linked_route_out" where
  "linked_route_out_of r =
     \<lparr>lr_id = r_id r, lr_name = r_name r, lr_is_active = r_is_active r, lr_delivery_backend = r_delivery_backend r,
      lr_target_name = r_target_name r, lr_last_delivery_status = r_last_delivery_status r,
      lr_last_delivery_at = r_last_delivery_at r, lr_updated_at = r_updated_at r\<rparr>"

text \<open>The answer copies the columns of the row: \<open>rd_reference\<close>.\<close>

record reference_detail =
  rd_reference :: conversation_reference
  rd_linked_routes :: "linked_route_out list"
  rd_linked_route_count :: nat

definition reference_detail_out :: "conversation_reference \<Rightarrow> webhook_route list \<Rightarrow> reference_detail" where
  "reference_detail_out c linked =
     \<lparr>rd_reference = c, rd_linked_routes = List.map linked_route_out_of linked, rd_linked_route_count = length linked\<rparr>"

definition get_conversation_reference :: "string \<Rightarrow> db \<Rightarrow> exn + conversation_reference" where
  "get_conversation_reference i db =
     (case fetch (\<lambda>c. cr_id c = i) (references db) of
        None \<Rightarrow> Inl (HTTPException 404 ''Conversation reference not found'')
      | Some c \<Rightarrow> Inr c)"

text \<open>The loop of the listing: every row is refreshed where it is due; an exception ends the request.\<close>

fun refresh_listed ::
  "remote \<Rightarrow> world \<Rightarrow> settings \<Rightarrow> conversation_reference list \<Rightarrow> bot_token_manager option \<Rightarrow>
   (exn + conversation_reference list) \<times> bot_token_manager option" where
  "refresh_listed rm w st [] tokens = (Inr [], tokens)"
| "refresh_listed rm w st (c # cs) tokens =
     (case refresh_reference_chat_members rm w st False c tokens of
        (Inl e, _, tokens) \<Rightarrow> (Inl e, tokens)
      | (Inr _, c, tokens) \<Rightarrow>
          (case refresh_listed rm w st cs tokens of
             (Inl e, tokens) \<Rightarrow> (Inl e, tokens)
           | (Inr rows, tokens) \<Rightarrow> (Inr (c # rows), tokens)))"

definition list_bot_conversation_references ::
  "remote \<Rightarrow> world \<Rightarrow> settings \<Rightarrow> db \<times> caches \<Rightarrow> (exn + conversation_reference list) \<times> db \<times> caches" where
  "list_bot_conversation_references rm w st s =
     (let (db, cs) = s; listed = take 100 (sort_key (\<lambda>c. - cr_last_seen_at c) (references db)) in
      case refresh_listed rm w st listed (bot_tokens cs) of
        (Inl e, tokens) \<Rightarrow> (Inl e, db, cs\<lparr>bot_tokens := tokens\<rparr>)
      | (Inr rows, tokens) \<Rightarrow> (Inr rows, fold save_reference rows db, cs\<lparr>bot_tokens := tokens\<rparr>))"

definition get_bot_conversation_reference :: "user \<Rightarrow> string \<Rightarrow> db \<Rightarrow> exn + reference_detail" where
  "get_bot_conversation_reference admin i db =
     (case get_conversation_reference i db of
        Inl e \<Rightarrow> Inl e
      | Inr c \<Rightarrow> Inr (reference_detail_out c (find_routes_for_conversation_reference (u_organization_id admin) c db)))"

definition refresh_bot_conversation_reference_members ::
  "remote \<Rightarrow> world \<Rightarrow> settings \<Rightarrow> user \<Rightarrow> string \<Rightarrow> db \<times> caches \<Rightarrow> (exn + reference_detail) \<times> db \<times> caches" where
  "refresh_bot_conversation_reference_members rm w st admin i s =
     (let (db, cs) = s in
      case get_conversation_reference i db of
        Inl e \<Rightarrow> (Inl e, s)
      | Inr c \<Rightarrow>
          (case refresh_reference_chat_members rm w st True c (bot_tokens cs) of
             (Inl e, _, tokens) \<Rightarrow> (Inl e, db, cs\<lparr>bot_tokens := tokens\<rparr>)
           | (Inr _, c, tokens) \<Rightarrow>
               (let db = route_audit w st admin ''bot_conversation_reference.members_refreshed''
                      [(''conversation_reference_id'', JStr (cr_id c)), (''conversation_id'', JStr (cr_conversation_id c)),
                       (''member_count'', JInt (cr_member_count c)), (''lookup_error'', JBool (cr_members_lookup_error c \<noteq> []))]
                      (save_reference c db)
                in (Inr (reference_detail_out c (find_routes_for_conversation_reference (u_organization_id admin) c db)),
                    db, cs\<lparr>bot_tokens := tokens\<rparr>))))"

text \<open>What goes with a route: its deliveries forget it and its reveal links are deleted.\<close>

definition detach_route :: "string \<Rightarrow> db \<Rightarrow> db" where
  "detach_route i db =
     db\<lparr>deliveries := update_rows (\<lambda>d. d_route_id d = Some i) (\<lambda>d. d\<lparr>d_route_id := None\<rparr>) (deliveries db),
        reveals := delete_rows (\<lambda>v. rv_route_id v = i) (reveals db)\<rparr>"

definition remove_route :: "string \<Rightarrow> db \<Rightarrow> db" where
  "remove_route i db = db\<lparr>routes := delete_rows (\<lambda>r. r_id r = i) (routes db)\<rparr>"

definition delete_linked_route :: "world \<Rightarrow> settings \<Rightarrow> user \<Rightarrow> string \<Rightarrow> webhook_route \<Rightarrow> db \<Rightarrow> db" where
  "delete_linked_route w st admin reference_id r db =
     remove_route (r_id r)
       (route_audit w st admin ''webhook_route.deleted''
          [(''webhook_route_id'', JStr (r_id r)), (''name'', JStr (r_name r)),
           (''deleted_with_conversation_reference_id'', JStr reference_id)]
          (detach_route (r_id r) db))"

definition delete_bot_conversation_reference ::
  "world \<Rightarrow> settings \<Rightarrow> user \<Rightarrow> string \<Rightarrow> bool \<Rightarrow> db \<Rightarrow> (exn + unit) \<times> db" where
  "delete_bot_conversation_reference w st admin i delete_linked_routes db =
     (case get_conversation_reference i db of
        Inl e \<Rightarrow> (Inl e, db)
      | Inr c \<Rightarrow>
          (let linked = find_routes_for_conversation_reference (u_organization_id admin) c db in
           if linked \<noteq> [] \<and> \<not> delete_linked_routes
           then (Inl (HTTPException 409 ''Conversation is still used by webhook routes. Confirm linked route deletion first.''), db)
           else (let db = fold (delete_linked_route w st admin (cr_id c)) linked db;
                     db = route_audit w st admin ''bot_conversation_reference.deleted''
                       [(''conversation_reference_id'', JStr (cr_id c)), (''conversation_id'', JStr (cr_conversation_id c)),
                        (''linked_route_ids'', JList (List.map (\<lambda>r. JStr (r_id r)) linked)),
                        (''linked_route_count'', JInt (int (length linked))), (''delete_linked_routes'', JBool delete_linked_routes)] db
                 in (Inr (), db\<lparr>references := delete_rows (\<lambda>x. cr_id x = cr_id c) (references db)\<rparr>))))"

section \<open>Lemmas\<close>

lemma set_first_by: "set (first_by f rows) \<subseteq> set rows"
  by (induction rows) auto

lemma first_by_distinct: "distinct (List.map f (first_by f rows))"
  by (induction rows) (auto simp: distinct_map_filter)

lemma first_by_id: "distinct (List.map f rows) \<Longrightarrow> first_by f rows = rows"
proof (induction rows)
  case (Cons r rows)
  then have "List.filter (\<lambda>x. f x \<noteq> f r) rows = rows" by (intro filter_True) (auto simp: image_iff)
  then show ?case using Cons by simp
qed simp

lemma set_latest_routes [simp]: "set (latest_routes org P db) = {r \<in> set (routes db). r_organization_id r = org \<and> P r}"
  by (auto simp: latest_routes_def)

end
