(* ===== verification/Bot_Cards.thy ===== *)
theory Bot_Cards
  imports Bot_Conversations
begin

text \<open>
  The replies of the bot in \<open>routers/bot_messages.py\<close>: adaptive cards as JSON values, their actions, and
  the summaries of a route they show. A card is built from keyword arguments with defaults, the record
  \<open>command_card\<close>. Which actions a card carries depends on what the sender is permitted.
\<close>

section \<open>Values\<close>

definition card_value :: "string \<Rightarrow> string" where
  "card_value value = (if strip value \<noteq> [] then strip value else ''-'')"

definition card_status_text :: "string \<Rightarrow> string" where
  "card_status_text status =
     (if status = ''success'' then ''Status: ready''
      else if status = ''warning'' then ''Status: needs attention''
      else if status = ''inactive'' then ''Status: inactive''
      else [])"

definition card_status_color :: "string \<Rightarrow> string" where
  "card_status_color status =
     (if status = ''success'' then ''Good''
      else if status = ''warning'' then ''Warning''
      else if status = ''inactive'' then ''Attention''
      else ''Accent'')"

definition fact_json :: "string \<times> string \<Rightarrow> json" where
  "fact_json f = JDict [(''title'', JStr (fst f @ '':'')), (''value'', JStr (card_value (snd f)))]"

definition long_field_items :: "(string \<times> string) list \<Rightarrow> json list" where
  "long_field_items pairs =
     concat (List.map (\<lambda>(label, value).
       [JDict [(''type'', JStr ''TextBlock''), (''text'', JStr label), (''weight'', JStr ''Bolder''), (''size'', JStr ''Small''),
          (''wrap'', JBool True)],
        JDict [(''type'', JStr ''TextBlock''), (''text'', JStr (card_value value)), (''fontType'', JStr ''Monospace''),
          (''wrap'', JBool True), (''spacing'', JStr ''None'')]]) pairs)"

section \<open>The card\<close>

record command_card =
  cd_title :: string
  cd_message :: string
  cd_status :: string
  cd_facts :: "(string \<times> string) list"
  cd_long_fields :: "(string \<times> string) list"
  cd_sections :: "json list"
  cd_technical_fields :: "(string \<times> string) list"
  cd_actions :: "json list"

definition plain_card :: "string \<Rightarrow> string \<Rightarrow> command_card" where
  "plain_card title message =
     \<lparr>cd_title = title, cd_message = message, cd_status = ''info'', cd_facts = [], cd_long_fields = [],
      cd_sections = [], cd_technical_fields = [], cd_actions = []\<rparr>"

definition card_container :: "json list \<Rightarrow> json list" where
  "card_container items =
     (if items = [] then []
      else [JDict [(''type'', JStr ''Container''), (''spacing'', JStr ''Medium''), (''items'', JList items)]])"

definition technical_details :: "(string \<times> string) list \<Rightarrow> json" where
  "technical_details pairs =
     JDict [(''type'', JStr ''Container''), (''id'', JStr ''technicalDetails''), (''isVisible'', JBool False),
       (''separator'', JBool True), (''spacing'', JStr ''Medium''),
       (''items'', JList
          (JDict [(''type'', JStr ''TextBlock''), (''text'', JStr ''Technical details''), (''weight'', JStr ''Bolder''),
             (''size'', JStr ''Small''), (''wrap'', JBool True)] # long_field_items pairs))]"

definition toggle_details :: json where
  "toggle_details =
     JDict [(''type'', JStr ''Action.ToggleVisibility''), (''title'', JStr ''Show technical details''),
       (''targetElements'', JList [JStr ''technicalDetails''])]"

definition card_body :: "command_card \<Rightarrow> json list" where
  "card_body c =
     [JDict [(''type'', JStr ''TextBlock''), (''text'', JStr (cd_title c)), (''weight'', JStr ''Bolder''), (''size'', JStr ''Medium''),
        (''color'', JStr (card_status_color (cd_status c))), (''wrap'', JBool True)]] @
     (if cd_message c = [] then []
      else [JDict [(''type'', JStr ''TextBlock''), (''text'', JStr (cd_message c)), (''wrap'', JBool True), (''spacing'', JStr ''Small'')]]) @
     (if card_status_text (cd_status c) = [] then []
      else [JDict [(''type'', JStr ''TextBlock''), (''text'', JStr (card_status_text (cd_status c))), (''size'', JStr ''Small''),
        (''color'', JStr (card_status_color (cd_status c))), (''weight'', JStr ''Bolder''), (''spacing'', JStr ''Small''),
        (''wrap'', JBool True)]]) @
     (if cd_facts c = [] then []
      else [JDict [(''type'', JStr ''FactSet''), (''spacing'', JStr ''Medium''), (''facts'', JList (List.map fact_json (cd_facts c)))]]) @
     card_container (long_field_items (cd_long_fields c)) @
     card_container (cd_sections c) @
     (if cd_technical_fields c = [] then [] else [technical_details (cd_technical_fields c)])"

definition card_actions :: "command_card \<Rightarrow> json list" where
  "card_actions c = cd_actions c @ (if cd_technical_fields c = [] then [] else [toggle_details])"

definition command_activity :: "command_card \<Rightarrow> json" where
  "command_activity c =
     JDict [(''type'', JStr ''message''),
       (''attachments'', JList [JDict [(''contentType'', JStr ''application/vnd.microsoft.card.adaptive''),
          (''content'', JDict
             ([(''$schema'', JStr ''http://adaptivecards.io/schemas/adaptive-card.json''), (''type'', JStr ''AdaptiveCard''),
               (''version'', JStr ''1.4''), (''msteams'', JDict [(''width'', JStr ''Full'')]), (''body'', JList (card_body c))] @
              (if card_actions c = [] then [] else [(''actions'', JList (card_actions c))])))]])]"

section \<open>Actions\<close>

definition open_url_action :: "string \<Rightarrow> string \<Rightarrow> json" where
  "open_url_action title url = JDict [(''type'', JStr ''Action.OpenUrl''), (''title'', JStr title), (''url'', JStr url)]"

definition copy_webhook_url_action :: "string \<Rightarrow> json" where
  "copy_webhook_url_action reveal_url = open_url_action ''Open webhook URL'' reveal_url"

definition submit_command_action :: "string \<Rightarrow> string \<Rightarrow> string \<Rightarrow> json" where
  "submit_command_action title command route_name =
     JDict [(''type'', JStr ''Action.Submit''), (''title'', JStr title),
       (''data'', JDict ((''command'', JStr command) # (if route_name = [] then [] else [(''route_name'', JStr route_name)])))]"

definition route_safe_actions :: "webhook_route \<Rightarrow> string \<Rightarrow> bool \<Rightarrow> json list" where
  "route_safe_actions r reveal_url include_status_toggle =
     (if reveal_url = [] then [] else [copy_webhook_url_action reveal_url]) @
     [submit_command_action ''Info'' ''info'' (r_name r)] @
     (if include_status_toggle
      then [submit_command_action (if r_is_active r then ''Disable'' else ''Enable'')
              (if r_is_active r then ''disable'' else ''enable'') (r_name r)]
      else [])"

section \<open>Summaries\<close>

definition technical_fields :: "captured \<Rightarrow> (string \<times> string) list" where
  "technical_fields ca =
     [(''Conversation ID'', ca_conversation_id ca), (''Service URL'', ca_service_url ca), (''Tenant ID'', ca_tenant_id ca),
      (''Teams user ID'', ca_from_id ca), (''AAD user ID'', ca_graph_user_id ca), (''Teams team ID'', ca_team_id ca),
      (''Graph team ID'', ca_graph_team_id ca), (''Channel ID'', ca_channel_id ca)]"

definition allowlist_entries :: "webhook_route \<Rightarrow> string list" where
  "allowlist_entries r = List.filter (\<lambda>entry. entry \<noteq> []) (List.map strip (splitlines (r_client_ip_allowlist r)))"

definition client_ip_access_summary :: "webhook_route \<Rightarrow> string" where
  "client_ip_access_summary r =
     (if or_str (r_client_ip_access_mode r) ''public'' = ''restricted''
      then ''restricted ('' @ str_nat (length (allowlist_entries r)) @ '' allowed)'' else ''public'')"

definition client_ip_allowlist_reply_lines :: "webhook_route \<Rightarrow> string list" where
  "client_ip_allowlist_reply_lines r =
     (if or_str (r_client_ip_access_mode r) ''public'' \<noteq> ''restricted'' then [''Allowed clients: `all`'']
      else if allowlist_entries r = [] then [''Allowed clients: `none`'']
      else ''Allowed clients:'' # List.map (\<lambda>entry. ''- `'' @ entry @ ''`'') (allowlist_entries r))"

definition status_word :: "webhook_route \<Rightarrow> string" where
  "status_word r = (if r_is_active r then ''active'' else ''inactive'')"

definition target_name :: "captured \<Rightarrow> string" where
  "target_name ca =
     (if ca_team_name ca \<noteq> [] \<and> ca_channel_name ca \<noteq> [] then clip 200 (ca_team_name ca @ '' / '' @ ca_channel_name ca)
      else if ca_channel_name ca \<noteq> [] then clip 200 (ca_channel_name ca)
      else if ca_team_name ca \<noteq> [] then clip 200 (ca_team_name ca)
      else if ca_member_summary ca \<noteq> [] then clip 200 (ca_member_summary ca)
      else if scope_for ca = ''chat'' then ''Group chat''
      else clip 200 (or_str (ca_user_name ca) (or_str (ca_graph_user_id ca) (or_str (ca_from_id ca)
        (or_str (ca_conversation_id ca) ''Teams conversation'')))))"

text \<open>The names a card shows: of the user, the team and the channel.\<close>

record display_names =
  dn_user :: string
  dn_team :: string
  dn_channel :: string

definition is_hex_char :: "char \<Rightarrow> bool" where
  "is_hex_char c = (let n = (of_char c :: nat) in
     (48 \<le> n \<and> n \<le> 57) \<or> (65 \<le> n \<and> n \<le> 70) \<or> (97 \<le> n \<and> n \<le> 102))"

definition guid_shaped :: "string \<Rightarrow> bool" where
  "guid_shaped s \<longleftrightarrow>
     List.map length (split_on (CHR ''-'') s) = [8, 4, 4, 4, 12] \<and> list_all (list_all is_hex_char) (split_on (CHR ''-'') s)"

definition looks_like_display_label :: "string \<Rightarrow> webhook_route \<Rightarrow> captured \<Rightarrow> bool" where
  "looks_like_display_label value r ca \<longleftrightarrow>
     (let cleaned = strip value in
      cleaned \<noteq> [] \<and>
      cleaned \<notin> {r_graph_target_id r, r_graph_team_id r, r_graph_channel_id r, r_bot_registered_by_id r,
        r_bot_conversation_id r, ca_conversation_id ca, ca_graph_team_id ca, ca_team_id ca, ca_channel_id ca,
        ca_graph_user_id ca, ca_from_id ca} \<and>
      \<not> guid_shaped cleaned \<and> \<not> startswith cleaned ''19:'' \<and> \<not> startswith cleaned ''29:'')"

definition captured_names :: "captured \<Rightarrow> display_names" where
  "captured_names ca = \<lparr>dn_user = ca_user_name ca, dn_team = ca_team_name ca, dn_channel = ca_channel_name ca\<rparr>"

definition text_after :: "string \<Rightarrow> string \<Rightarrow> string" where
  "text_after sep s = drop (length (text_before sep s) + length sep) s"

definition route_display_names :: "webhook_route \<Rightarrow> captured \<Rightarrow> display_names" where
  "route_display_names r ca =
     (let names = captured_names ca;
          names = names\<lparr>dn_team := or_str (dn_team names) (r_graph_team_name r)\<rparr>;
          label = strip (r_target_name r); kind = r_graph_target_kind r;
          shown = (label \<noteq> [] \<and> looks_like_display_label label r ca)
      in if kind = ''channel'' \<and> shown then
           (if contains '' / '' label
            then names\<lparr>dn_team := or_str (dn_team names) (strip (text_before '' / '' label)),
                   dn_channel := or_str (dn_channel names) (strip (text_after '' / '' label))\<rparr>
            else names\<lparr>dn_channel := or_str (dn_channel names) label\<rparr>)
         else if kind = ''team'' \<and> shown then names\<lparr>dn_team := or_str (dn_team names) label\<rparr>
         else if kind = ''user'' \<and> shown then names\<lparr>dn_user := or_str (dn_user names) label\<rparr>
         else names)"

definition shown_names :: "(string \<times> string) list \<Rightarrow> (string \<times> string) list" where
  "shown_names pairs = List.filter (\<lambda>(label, value). value \<noteq> []) pairs"

definition visible_context_facts :: "captured \<Rightarrow> webhook_route option \<Rightarrow> (string \<times> string) list" where
  "visible_context_facts ca r =
     (let names = (case r of Some r \<Rightarrow> route_display_names r ca | None \<Rightarrow> captured_names ca) in
      (''Scope'', scope_for ca) #
      shown_names [(''User'', dn_user names), (''Team'', dn_team names), (''Channel'', dn_channel names)])"

definition route_overview_lines :: "webhook_route \<Rightarrow> captured \<Rightarrow> string \<Rightarrow> string list" where
  "route_overview_lines r ca reveal_url =
     (let names = route_display_names r ca in
      [''Status: '' @ status_word r, ''Client IP access: '' @ client_ip_access_summary r,
       ''URL: '' @ (if reveal_url \<noteq> [] then ''[Open webhook URL]('' @ reveal_url @ '')'' else ''-'')] @
      List.map (\<lambda>(label, value). label @ '': '' @ value)
        (shown_names [(''Team'', dn_team names), (''Channel'', dn_channel names), (''User'', dn_user names)]) @
      [''Details: info '' @ r_name r])"

definition route_overview_text :: "webhook_route \<Rightarrow> captured \<Rightarrow> string \<Rightarrow> string" where
  "route_overview_text r ca reveal_url = join [CHR 0x0A] (route_overview_lines r ca reveal_url)"

section \<open>The cards of the commands\<close>

definition route_command_card :: "webhook_route \<Rightarrow> string \<Rightarrow> string \<Rightarrow> captured \<Rightarrow> bot_authorization \<Rightarrow> command_card" where
  "route_command_card r verb reveal_url ca az =
     (plain_card (''Route '' @ verb) (r_name r @ '' is ready for this Teams conversation.''))
       \<lparr>cd_status := ''success'',
        cd_facts := [(''Route'', r_name r), (''Target'', target_name ca), (''Scope'', scope_for ca),
          (''Route status'', status_word r), (''Client IP access'', client_ip_access_summary r)],
        cd_technical_fields := technical_fields ca,
        cd_actions := route_safe_actions r reveal_url (permitted az ''can_manage_route_status'')\<rparr>"

definition webhook_command_card :: "webhook_route \<Rightarrow> string \<Rightarrow> bot_authorization \<Rightarrow> command_card" where
  "webhook_command_card r reveal_url az =
     (plain_card ''Webhook URL'' ''Open the button below to view and copy the stable incoming webhook URL.'')
       \<lparr>cd_status := (if r_is_active r then ''success'' else ''inactive''),
        cd_facts := [(''Route'', r_name r), (''Target'', r_target_name r), (''Status'', status_word r),
          (''Client IP access'', client_ip_access_summary r)],
        cd_actions := route_safe_actions r reveal_url (permitted az ''can_manage_route_status'')\<rparr>"

definition yes_no :: "bool \<Rightarrow> string" where
  "yes_no b = (if b then ''yes'' else ''no'')"

definition info_detail_card ::
  "captured \<Rightarrow> conversation_reference option \<Rightarrow> webhook_route option \<Rightarrow> string \<Rightarrow> bot_authorization \<Rightarrow> command_card" where
  "info_detail_card ca reference linked reveal_url az =
     (plain_card ''Teams conversation captured'' ''This is the Teams context currently available to the relay bot.'')
       \<lparr>cd_status := (case linked of Some r \<Rightarrow> if r_is_active r then ''success'' else ''info'' | None \<Rightarrow> ''info''),
        cd_facts := visible_context_facts ca linked @
          [(''Reference saved'', yes_no (reference \<noteq> None)),
           (''Linked route'', case linked of Some r \<Rightarrow> r_name r | None \<Rightarrow> ''none'')] @
          (case linked of Some r \<Rightarrow> [(''Client IP access'', client_ip_access_summary r)] | None \<Rightarrow> []),
        cd_technical_fields := technical_fields ca,
        cd_actions := (if reveal_url \<noteq> [] then [copy_webhook_url_action reveal_url] else []) @
          (case linked of Some r \<Rightarrow> route_safe_actions r [] (permitted az ''can_manage_route_status'') | None \<Rightarrow> [])\<rparr>"

definition route_section_item :: "webhook_route \<Rightarrow> captured \<Rightarrow> string \<Rightarrow> bot_authorization \<Rightarrow> json" where
  "route_section_item r ca reveal_url az =
     (let names = route_display_names r ca;
          facts = [(''Status'', status_word r), (''Target'', r_target_name r), (''Client IP access'', client_ip_access_summary r)] @
            shown_names [(''Team'', dn_team names), (''Channel'', dn_channel names), (''User'', dn_user names)]
      in JDict [(''type'', JStr ''Container''), (''style'', JStr ''emphasis''), (''spacing'', JStr ''Medium''),
           (''items'', JList
              [JDict [(''type'', JStr ''TextBlock''), (''text'', JStr (r_name r)), (''weight'', JStr ''Bolder''), (''wrap'', JBool True)],
               JDict [(''type'', JStr ''FactSet''), (''spacing'', JStr ''Small''), (''facts'', JList (List.map fact_json facts))],
               JDict [(''type'', JStr ''ActionSet''), (''spacing'', JStr ''Small''),
                 (''actions'', JList (route_safe_actions r reveal_url (permitted az ''can_manage_route_status'')))]])])"

text \<open>\<open>reveal_urls\<close> holds the reveal URLs by route.\<close>

definition info_overview_card ::
  "captured \<Rightarrow> conversation_reference option \<Rightarrow> webhook_route list \<Rightarrow> (string \<times> string) list \<Rightarrow> bot_authorization \<Rightarrow> command_card" where
  "info_overview_card ca reference linked reveal_urls az =
     (plain_card ''Teams conversation captured'' ''This is the Teams context currently available to the relay bot.'')
       \<lparr>cd_facts := visible_context_facts ca None @
          [(''Reference saved'', yes_no (reference \<noteq> None)), (''Linked routes'', str_nat (length linked))],
        cd_long_fields := (if linked = [] then [(''Routes'', ''none'')] else []),
        cd_sections := List.map (\<lambda>r. route_section_item r ca (opt_str (map_of reveal_urls (r_id r))) az) linked,
        cd_technical_fields := technical_fields ca,
        cd_actions := [submit_command_action ''Refresh info'' ''info'' []]\<rparr>"

definition allowlist_command_card :: "webhook_route \<Rightarrow> string \<Rightarrow> command_card" where
  "allowlist_command_card r title =
     (let allowlist = strip (r_client_ip_allowlist r) in
      (plain_card title ''Client IP access controls which source addresses may use this route URL.'')
        \<lparr>cd_status := ''success'',
         cd_facts := [(''Route'', r_name r), (''Mode'', or_str (r_client_ip_access_mode r) ''public''),
           (''Allowed clients'', if allowlist \<noteq> [] then str_nat (length (splitlines allowlist)) else ''all'')],
         cd_long_fields := (if allowlist \<noteq> [] then [(''Allowed clients'', allowlist)] else [])\<rparr>)"

definition route_status_card :: "webhook_route \<Rightarrow> string \<Rightarrow> captured \<Rightarrow> string \<Rightarrow> bot_authorization \<Rightarrow> command_card" where
  "route_status_card r verb ca reveal_url az =
     (plain_card (''Route '' @ verb) (r_name r @ '' is '' @ verb @ '' for this Teams conversation.''))
       \<lparr>cd_status := (if r_is_active r then ''success'' else ''inactive''),
        cd_facts := [(''Route'', r_name r), (''Target'', r_target_name r), (''Scope'', scope_for ca), (''Status'', status_word r)],
        cd_actions := route_safe_actions r reveal_url (permitted az ''can_manage_route_status'')\<rparr>"

section \<open>Help\<close>

definition available_help_commands :: "bot_authorization \<Rightarrow> (string \<times> string) list" where
  "available_help_commands az =
     (if permitted az ''can_create_private_chat_routes'' \<or> permitted az ''can_create_channel_routes''
      then [(''register <route name>'', ''Create or update a route for this Teams conversation.'')] else []) @
     (if permitted az ''can_reveal_webhook_urls''
      then [(''webhook <route name>'', ''Show the webhook URL for an existing route.'')] else []) @
     (if permitted az ''can_manage_route_status''
      then [(''disable [route name]'', ''Disable a route linked to this Teams conversation.''),
            (''enable [route name]'', ''Enable a route linked to this Teams conversation.'')] else []) @
     (if permitted az ''can_delete_routes''
      then [(''delete <route name>'', ''Delete a route linked to this Teams conversation.'')] else []) @
     (if permitted az ''can_view_routes''
      then [(''info [route name]'', ''Show linked routes or details for one route.'')] else []) @
     (if permitted az ''can_view_routes'' \<or> permitted az ''can_manage_allowlist''
      then [(''allowlist [route name]'', ''Show or change the route client IP allowlist.'')] else []) @
     [(''help'', ''Show this command list.'')]"

definition help_row :: "string \<times> string \<Rightarrow> json" where
  "help_row c =
     JDict [(''type'', JStr ''ColumnSet''), (''spacing'', JStr ''Small''),
       (''columns'', JList
          [JDict [(''type'', JStr ''Column''), (''width'', JStr ''auto''),
             (''items'', JList [JDict [(''type'', JStr ''TextBlock''), (''text'', JStr (fst c @ '':'')), (''weight'', JStr ''Bolder''),
                (''wrap'', JBool False)]])],
           JDict [(''type'', JStr ''Column''), (''width'', JStr ''stretch''),
             (''items'', JList [JDict [(''type'', JStr ''TextBlock''), (''text'', JStr (snd c)), (''wrap'', JBool True)]])]])]"

definition help_command_card :: "(string \<times> string) list \<Rightarrow> command_card" where
  "help_command_card commands =
     (plain_card ''Available commands'' ''Use these commands in a chat or channel where the relay bot is installed.'')
       \<lparr>cd_facts := [(''Examples'', ''register Jira Alerts; info; webhook Jira Alerts''), (''Typed-only'', ''delete <route name>'')],
        cd_sections := [JDict [(''type'', JStr ''Container''), (''spacing'', JStr ''Medium''), (''items'', JList (List.map help_row commands))]],
        cd_actions := [submit_command_action ''Show conversation info'' ''info'' [], submit_command_action ''Show help'' ''help'' []]\<rparr>"

end
