(* ===== verification/Bot_Framework_Auth.thy ===== *)
theory Bot_Framework_Auth
  imports Client_Ip Remote Event_Log
begin

text \<open>
  \<open>services/bot_framework_auth.py\<close> and the guard \<open>require_bot_framework_auth\<close> of
  \<open>routers/bot_messages.py\<close>: who may post an activity. The token is checked by the package \<open>jwt\<close>, which
  is a parameter; the signing keys come from the metadata of the Bot Framework and are kept for a day.
\<close>

section \<open>The package jwt\<close>

text \<open>
  \<open>get_unverified_header\<close> (\<^const>\<open>None\<close> is \<open>InvalidTokenError\<close>), \<open>RSAAlgorithm.from_jwk\<close> of the dumped key
  (\<^const>\<open>None\<close> is an invalid key) and \<open>decode\<close> of a token with a key, an algorithm, an audience, an issuer and
  a leeway in seconds, which requires the claims \<open>aud\<close>, \<open>exp\<close>, \<open>iss\<close> and \<open>nbf\<close>.
\<close>

datatype jwt_error =
    ExpiredSignatureError
  | ImmatureSignatureError
  | InvalidAudienceError
  | InvalidIssuerError
  | InvalidTokenError

record jwt_library =
  get_unverified_header :: "string \<Rightarrow> json option"
  rsa_from_jwk :: "string \<Rightarrow> string option"
  jwt_decode :: "string \<Rightarrow> string \<Rightarrow> string \<Rightarrow> string \<Rightarrow> string \<Rightarrow> int \<Rightarrow> jwt_error + (string \<times> json) list"

datatype auth_failure =
    BotFrameworkAuthError string
  | BotFrameworkAuthConfigError string
  | AuthRaised exn

definition BOT_FRAMEWORK_ISSUER :: string where
  "BOT_FRAMEWORK_ISSUER = ''https://api.botframework.com''"

definition OPENID_METADATA_URL :: string where
  "OPENID_METADATA_URL = ''https://login.botframework.com/v1/.well-known/openidconfiguration''"

definition ALLOWED_ALGORITHMS :: "string list" where
  "ALLOWED_ALGORITHMS = [''RS256'', ''RS384'', ''RS512'']"

definition CLOCK_SKEW_SECONDS :: int where
  "CLOCK_SKEW_SECONDS = 300"

definition JWKS_CACHE_SECONDS :: int where
  "JWKS_CACHE_SECONDS = 24 * 60 * 60"

section \<open>Signing keys\<close>

record jwks_cache =
  jw_metadata_url :: string
  jw_jwks_uri :: string
  jw_keys :: "(string \<times> json) list list"
  jw_expires_at :: instant

type_synonym jwks = "jwks_cache option"

definition reset_bot_framework_auth_cache :: "jwks \<Rightarrow> jwks" where
  "reset_bot_framework_auth_cache c = None"

text \<open>\<open>_fetch_json\<close> with the errors of the connection and of the JSON text already translated.\<close>

definition fetch_auth_json :: "remote \<Rightarrow> world \<Rightarrow> string \<Rightarrow> auth_failure + (string \<times> json) list" where
  "fetch_auth_json rm w url =
     (let failed = Inl (BotFrameworkAuthError ''Unable to refresh Bot Framework signing keys'') in
      case http rm ''GET'' url [(''Accept'', ''application/json'')] [] of
        HttpStatusError _ _ \<Rightarrow> failed
      | HttpRequestError _ _ \<Rightarrow> failed
      | HttpResponse _ text \<Rightarrow>
          (case parse_json w text of
             Inl None \<Rightarrow> failed
           | Inl (Some e) \<Rightarrow> Inl (AuthRaised e)
           | Inr (JDict kvs) \<Rightarrow> Inr kvs
           | Inr _ \<Rightarrow> Inl (BotFrameworkAuthError ''Bot Framework metadata response is invalid'')))"

text \<open>\<open>str(d.get(key) or "")\<close>\<close>

definition text_of :: "(string \<times> json) list \<Rightarrow> string \<Rightarrow> string" where
  "text_of d key = py_str (or_json (dict_get d key) (JStr []))"

definition refresh_jwks :: "remote \<Rightarrow> world \<Rightarrow> auth_failure + jwks_cache" where
  "refresh_jwks rm w =
     (case fetch_auth_json rm w OPENID_METADATA_URL of
        Inl e \<Rightarrow> Inl e
      | Inr metadata \<Rightarrow>
          (let jwks_uri = text_of metadata ''jwks_uri'' in
           if jwks_uri = [] then Inl (BotFrameworkAuthError ''Bot Framework OpenID metadata is missing jwks_uri'')
           else (case fetch_auth_json rm w jwks_uri of
             Inl e \<Rightarrow> Inl e
           | Inr body \<Rightarrow>
               (case dict_get body ''keys'' of
                  JList keys \<Rightarrow> Inr \<lparr>jw_metadata_url = OPENID_METADATA_URL, jw_jwks_uri = jwks_uri,
                    jw_keys = List.map_filter (\<lambda>k. case k of JDict kvs \<Rightarrow> Some kvs | _ \<Rightarrow> None) keys,
                    jw_expires_at = utcnow w + seconds JWKS_CACHE_SECONDS\<rparr>
                | _ \<Rightarrow> Inl (BotFrameworkAuthError ''Bot Framework JWKS response is invalid'')))))"

definition get_jwks_keys :: "remote \<Rightarrow> world \<Rightarrow> bool \<Rightarrow> jwks \<Rightarrow> (auth_failure + (string \<times> json) list list) \<times> jwks" where
  "get_jwks_keys rm w force_refresh cache =
     (let ask = (case refresh_jwks rm w of Inl e \<Rightarrow> (Inl e, cache) | Inr c \<Rightarrow> (Inr (jw_keys c), Some c)) in
      case cache of
        None \<Rightarrow> ask
      | Some c \<Rightarrow> if \<not> force_refresh \<and> utcnow w < jw_expires_at c then (Inr (jw_keys c), cache) else ask)"

definition find_key :: "(string \<times> json) list list \<Rightarrow> string \<Rightarrow> (string \<times> json) list option" where
  "find_key keys kid = fetch (\<lambda>key. text_of key ''kid'' = kid) keys"

definition get_signing_key :: "remote \<Rightarrow> world \<Rightarrow> string \<Rightarrow> jwks \<Rightarrow> (auth_failure + (string \<times> json) list) \<times> jwks" where
  "get_signing_key rm w kid cache =
     (case get_jwks_keys rm w False cache of
        (Inl e, cache) \<Rightarrow> (Inl e, cache)
      | (Inr keys, cache) \<Rightarrow>
          (case find_key keys kid of
             Some key \<Rightarrow> (Inr key, cache)
           | None \<Rightarrow>
               (case get_jwks_keys rm w True cache of
                  (Inl e, cache) \<Rightarrow> (Inl e, cache)
                | (Inr keys, cache) \<Rightarrow>
                    (case find_key keys kid of
                       Some key \<Rightarrow> (Inr key, cache)
                     | None \<Rightarrow> (Inl (BotFrameworkAuthError ''Unknown Bot Framework signing key''), cache)))))"

section \<open>Validating an activity\<close>

record bot_framework_claims =
  bf_issuer :: string
  bf_audience :: string
  bf_service_url :: string
  bf_service_url_matched :: bool
  bf_validated_at :: instant

definition extract_bearer_token :: "string option \<Rightarrow> auth_failure + string" where
  "extract_bearer_token authorization =
     (let value = opt_str authorization;
          scheme = takeWhile (\<lambda>c. c \<noteq> CHR '' '') value; token = strip (tl (dropWhile (\<lambda>c. c \<noteq> CHR '' '') value))
      in if value = [] then Inl (BotFrameworkAuthError ''Missing Bot Framework authorization'')
         else if lower scheme \<noteq> ''bearer'' \<or> token = []
         then Inl (BotFrameworkAuthError ''Invalid Bot Framework authorization header'')
         else Inr token)"

definition decode_header :: "jwt_library \<Rightarrow> string \<Rightarrow> auth_failure + (string \<times> json) list" where
  "decode_header jl token =
     (case get_unverified_header jl token of
        Some (JDict kvs) \<Rightarrow> Inr kvs
      | _ \<Rightarrow> Inl (BotFrameworkAuthError ''Invalid Bot Framework token''))"

definition claim_string :: "(string \<times> json) list \<Rightarrow> string \<Rightarrow> string" where
  "claim_string claims key = (case dict_get claims key of JStr s \<Rightarrow> strip s | _ \<Rightarrow> [])"

definition activity_service_url :: "(string \<times> json) list \<Rightarrow> string" where
  "activity_service_url activity = (case dict_get activity ''serviceUrl'' of JStr s \<Rightarrow> strip s | _ \<Rightarrow> [])"

definition jwt_error_message :: "jwt_error \<Rightarrow> string" where
  "jwt_error_message e =
     (case e of
        ExpiredSignatureError \<Rightarrow> ''Expired Bot Framework token''
      | ImmatureSignatureError \<Rightarrow> ''Bot Framework token is not active yet''
      | InvalidAudienceError \<Rightarrow> ''Invalid Bot Framework token audience''
      | InvalidIssuerError \<Rightarrow> ''Invalid Bot Framework token issuer''
      | InvalidTokenError \<Rightarrow> ''Invalid Bot Framework token'')"

text \<open>From the key to the claims, and what the claims have to say of the activity.\<close>

definition decode_claims ::
  "jwt_library \<Rightarrow> string \<Rightarrow> string \<Rightarrow> string \<Rightarrow> (string \<times> json) list \<Rightarrow> auth_failure + (string \<times> json) list" where
  "decode_claims jl app_id token alg key_data =
     (case rsa_from_jwk jl (dumps_items True (JDict key_data)) of
        None \<Rightarrow> Inl (BotFrameworkAuthError ''Invalid Bot Framework signing key'')
      | Some key \<Rightarrow>
          (case jwt_decode jl token key alg app_id BOT_FRAMEWORK_ISSUER CLOCK_SKEW_SECONDS of
             Inl e \<Rightarrow> Inl (BotFrameworkAuthError (jwt_error_message e))
           | Inr claims \<Rightarrow> Inr claims))"

definition claims_for_activity ::
  "world \<Rightarrow> (string \<times> json) list \<Rightarrow> (string \<times> json) list \<Rightarrow> auth_failure + bot_framework_claims" where
  "claims_for_activity w claims activity =
     (let service_url = or_str (claim_string claims ''serviceurl'') (claim_string claims ''serviceUrl'');
          posted = activity_service_url activity
      in if service_url = [] \<or> posted = [] \<or> service_url \<noteq> posted
         then Inl (BotFrameworkAuthError ''Bot Framework serviceUrl claim mismatch'')
         else Inr \<lparr>bf_issuer = text_of claims ''iss'', bf_audience = text_of claims ''aud'', bf_service_url = service_url,
                   bf_service_url_matched = True, bf_validated_at = utcnow w\<rparr>)"

definition validate_bot_framework_activity ::
  "jwt_library \<Rightarrow> remote \<Rightarrow> world \<Rightarrow> settings \<Rightarrow> string option \<Rightarrow> (string \<times> json) list \<Rightarrow> jwks \<Rightarrow>
   (auth_failure + bot_framework_claims) \<times> jwks" where
  "validate_bot_framework_activity jl rm w st authorization activity cache =
     (let app_id = strip (ms_app_client_id st) in
      if app_id = []
      then (Inl (BotFrameworkAuthConfigError ''Bot Framework inbound authentication is not configured''), cache)
      else (case extract_bearer_token authorization of
        Inl e \<Rightarrow> (Inl e, cache)
      | Inr token \<Rightarrow>
          (case decode_header jl token of
             Inl e \<Rightarrow> (Inl e, cache)
           | Inr hdr \<Rightarrow>
               (let alg = text_of hdr ''alg''; kid = text_of hdr ''kid'' in
                if alg \<notin> set ALLOWED_ALGORITHMS then (Inl (BotFrameworkAuthError ''Invalid Bot Framework token algorithm''), cache)
                else if kid = [] then (Inl (BotFrameworkAuthError ''Bot Framework token is missing a key ID''), cache)
                else (case get_signing_key rm w kid cache of
                  (Inl e, cache) \<Rightarrow> (Inl e, cache)
                | (Inr key_data, cache) \<Rightarrow>
                    (case decode_claims jl app_id token alg key_data of
                       Inl e \<Rightarrow> (Inl e, cache)
                     | Inr claims \<Rightarrow> (claims_for_activity w claims activity, cache)))))))"

section \<open>The guard\<close>

definition activity_of_body :: "world \<Rightarrow> string \<Rightarrow> exn + (string \<times> json) list" where
  "activity_of_body w body =
     (if body = [] then Inr []
      else (case parse_json w body of
        Inl None \<Rightarrow> Inr []
      | Inl (Some e) \<Rightarrow> Inl e
      | Inr (JDict kvs) \<Rightarrow> Inr kvs
      | Inr _ \<Rightarrow> Inr []))"

definition auth_rejected :: "request \<Rightarrow> string \<Rightarrow> string \<Rightarrow> string \<Rightarrow> string \<Rightarrow> string \<Rightarrow> string \<Rightarrow> string \<Rightarrow> event_args" where
  "auth_rejected rq level category event_type message reason cls text =
     (event level category event_type message ''system'')
       \<lparr>ea_source := [(''ip'', JStr (opt_str (rq_client_host rq))), (''user_agent'', JStr (header rq ''user-agent'' []))],
        ea_security := [(''severity'', JStr ''high''), (''reason'', JStr reason)],
        ea_raw := [(''exception_type'', JStr cls), (''exception'', JStr text)]\<rparr>"

definition require_bot_framework_auth ::
  "jwt_library \<Rightarrow> remote \<Rightarrow> world \<Rightarrow> settings \<Rightarrow> request \<Rightarrow> db \<times> jwks \<Rightarrow> (exn + bot_framework_claims) \<times> db \<times> jwks" where
  "require_bot_framework_auth jl rm w st rq s =
     (let (db, cache) = s in
      case activity_of_body w (concat (rq_stream rq)) of
        Inl e \<Rightarrow> (Inl e, s)
      | Inr activity \<Rightarrow>
          (case validate_bot_framework_activity jl rm w st (map_of (rq_headers rq) ''authorization'') activity cache of
             (Inr claims, cache) \<Rightarrow> (Inr claims, db, cache)
           | (Inl (AuthRaised e), cache) \<Rightarrow> (Inl e, db, cache)
           | (Inl (BotFrameworkAuthConfigError m), cache) \<Rightarrow>
               (Inl (HTTPException 503 m),
                emit_event w st (auth_rejected rq ''error'' ''integration'' ''bot.auth.configuration_error''
                  ''Bot Framework authentication is not configured correctly.'' ''bot_auth_config_error''
                  ''BotFrameworkAuthConfigError'' m) db, cache)
           | (Inl (BotFrameworkAuthError m), cache) \<Rightarrow>
               (Inl (HTTPException 401 m),
                emit_event w st (auth_rejected rq ''warning'' ''security'' ''bot.auth.rejected''
                  ''Bot Framework activity was rejected by authentication validation.'' ''bot_auth_rejected''
                  ''BotFrameworkAuthError'' m) db, cache)))"

section \<open>Lemmas\<close>

text \<open>
  An accepted activity: its token was decoded with a key that the keys in hand hold under the key id of
  its header, for this application and the issuer, and names the service URL of the activity.
\<close>

definition keys_of :: "jwks \<Rightarrow> (string \<times> json) list list" where
  "keys_of cache = (case cache of None \<Rightarrow> [] | Some c \<Rightarrow> jw_keys c)"

lemma get_jwks_keys_held: "get_jwks_keys rm w force cache = (Inr keys, cache') \<Longrightarrow> keys = keys_of cache'"
  by (auto simp: get_jwks_keys_def keys_of_def Let_def split: option.splits sum.splits if_splits)

lemma get_signing_key_held:
  assumes "get_signing_key rm w kid cache = (Inr key, cache')"
  shows "key \<in> set (keys_of cache') \<and> text_of key ''kid'' = kid"
proof -
  have "\<exists>keys. find_key keys kid = Some key \<and> keys = keys_of cache'"
    using assms by (auto simp: get_signing_key_def split: prod.splits sum.splits option.splits dest!: get_jwks_keys_held)
  then show ?thesis by (auto simp: find_key_def dest: fetch_Some)
qed

definition token_accepted ::
  "jwt_library \<Rightarrow> settings \<Rightarrow> string option \<Rightarrow> (string \<times> json) list \<Rightarrow> jwks \<Rightarrow> bool" where
  "token_accepted jl st authorization activity cache \<longleftrightarrow>
     (\<exists>token hdr key_data key claims.
        extract_bearer_token authorization = Inr token \<and> get_unverified_header jl token = Some (JDict hdr) \<and>
        text_of hdr ''alg'' \<in> set ALLOWED_ALGORITHMS \<and> key_data \<in> set (keys_of cache) \<and>
        text_of key_data ''kid'' = text_of hdr ''kid'' \<and> rsa_from_jwk jl (dumps_items True (JDict key_data)) = Some key \<and>
        jwt_decode jl token key (text_of hdr ''alg'') (strip (ms_app_client_id st)) BOT_FRAMEWORK_ISSUER CLOCK_SKEW_SECONDS = Inr claims \<and>
        (claim_string claims ''serviceurl'' = activity_service_url activity \<or>
         claim_string claims ''serviceUrl'' = activity_service_url activity) \<and> activity_service_url activity \<noteq> [])"

lemma validate_accepted:
  assumes "validate_bot_framework_activity jl rm w st authorization activity cache = (Inr claims, cache')"
  shows "token_accepted jl st authorization activity cache'" "bf_service_url claims = activity_service_url activity"
proof -
  obtain token where t: "extract_bearer_token authorization = Inr token"
    and app: "strip (ms_app_client_id st) \<noteq> []"
    using assms by (cases "extract_bearer_token authorization")
      (auto simp: validate_bot_framework_activity_def Let_def split: if_splits)
  obtain hdr where h: "decode_header jl token = Inr hdr"
    using assms t app by (cases "decode_header jl token") (auto simp: validate_bot_framework_activity_def Let_def)
  have h': "get_unverified_header jl token = Some (JDict hdr)"
    using h by (auto simp: decode_header_def split: option.splits json.splits)
  let ?alg = "text_of hdr ''alg''"
  have ok: "?alg \<in> set ALLOWED_ALGORITHMS" "text_of hdr ''kid'' \<noteq> []"
    using assms t app h by (auto simp: validate_bot_framework_activity_def Let_def split: if_splits)
  obtain res c where g: "get_signing_key rm w (text_of hdr ''kid'') cache = (res, c)" by (rule prod.exhaust)
  obtain key_data where k: "res = Inr key_data"
    using assms t app h ok g by (cases res) (auto simp: validate_bot_framework_activity_def Let_def)
  obtain cl where d: "decode_claims jl (strip (ms_app_client_id st)) token ?alg key_data = Inr cl"
    using assms t app h ok g k
    by (cases "decode_claims jl (strip (ms_app_client_id st)) token ?alg key_data")
      (auto simp: validate_bot_framework_activity_def Let_def)
  have f: "claims_for_activity w cl activity = Inr claims" "c = cache'"
    using assms t app h ok g k d by (auto simp: validate_bot_framework_activity_def Let_def)
  obtain key where key: "rsa_from_jwk jl (dumps_items True (JDict key_data)) = Some key"
      "jwt_decode jl token key ?alg (strip (ms_app_client_id st)) BOT_FRAMEWORK_ISSUER CLOCK_SKEW_SECONDS = Inr cl"
    using d by (auto simp: decode_claims_def split: option.splits sum.splits)
  have url: "or_str (claim_string cl ''serviceurl'') (claim_string cl ''serviceUrl'') = activity_service_url activity"
      "activity_service_url activity \<noteq> []" "bf_service_url claims = activity_service_url activity"
    using f(1) by (auto simp: claims_for_activity_def Let_def split: if_splits)
  show "bf_service_url claims = activity_service_url activity" by (rule url(3))
  show "token_accepted jl st authorization activity cache'"
    unfolding token_accepted_def
    using t h' ok(1) key get_signing_key_held [OF g [unfolded k f(2)]] url(1,2)
    by (intro exI [of _ token] exI [of _ hdr] exI [of _ key_data] exI [of _ key] exI [of _ cl])
      (auto simp: or_str_def split: if_splits)
qed

lemma require_auth_logged:
  "require_bot_framework_auth jl rm w st rq (db, cache) = (r, db', cache') \<Longrightarrow> logged db db'"
  by (auto simp: require_bot_framework_auth_def split: sum.splits prod.splits auth_failure.splits)

lemma require_auth_accepted:
  assumes "require_bot_framework_auth jl rm w st rq (db, cache) = (Inr claims, db', cache')"
  obtains activity where "activity_of_body w (concat (rq_stream rq)) = Inr activity" "db' = db"
    "validate_bot_framework_activity jl rm w st (map_of (rq_headers rq) ''authorization'') activity cache = (Inr claims, cache')"
  using assms by (auto simp: require_bot_framework_auth_def split: sum.splits prod.splits auth_failure.splits)

end
