(* ===== verification/Bot_Commands.thy ===== *)
theory Bot_Commands
  imports Bot_Cards Bot_Framework_Auth
begin

text \<open>
  The commands of \<open>routers/bot_messages.py\<close> and the endpoint \<open>/bot/messages\<close> that runs them: an activity
  is recorded, its conversation is captured, a command in it is authorized and run, everything is
  committed at once, and only then is the reply sent. An exception before the commit leaves nothing
  behind but what the caches of the process learned.
\<close>

section \<open>Results\<close>

record command_result =
  co_handled :: bool
  co_command :: "string option"
  co_reply_text :: "string option"
  co_title :: string
  co_severity :: string
  co_activity :: "json option"

definition no_command :: command_result where
  "no_command = \<lparr>co_handled = False, co_command = None, co_reply_text = None, co_title = ''Teams Rehook'',
     co_severity = ''info'', co_activity = None\<rparr>"

definition replied :: "string \<Rightarrow> string \<Rightarrow> command_card \<Rightarrow> command_result" where
  "replied command reply_text c =
     no_command\<lparr>co_handled := True, co_command := Some command, co_reply_text := Some reply_text,
       co_activity := Some (command_activity c)\<rparr>"

text \<open>A warning: its card has the status of one.\<close>

definition warned :: "string \<Rightarrow> string \<Rightarrow> string \<Rightarrow> string \<Rightarrow> (string \<times> string) list \<Rightarrow> command_result" where
  "warned command reply_text title message facts =
     (replied command reply_text ((plain_card title message)\<lparr>cd_status := ''warning'', cd_facts := facts\<rparr>))
       \<lparr>co_severity := ''warn''\<rparr>"

definition permission_label :: "string \<Rightarrow> string" where
  "permission_label required =
     (case map_of
        [(''can_view_routes'', ''view Teams conversations and webhook routes''),
         (''can_reveal_webhook_urls'', ''view webhook URLs''),
         (''can_manage_route_status'', ''enable or disable webhook routes''),
         (''can_delete_routes'', ''delete webhook routes''),
         (''can_manage_allowlist'', ''manage client IP allowlists''),
         (''can_create_private_chat_routes'', ''create webhook routes for private chats''),
         (''can_create_channel_routes'', ''create webhook routes for Teams channels'')] required of
        Some label \<Rightarrow> label
      | None \<Rightarrow> ''run this bot command'')"

definition permission_denied_message :: "string \<Rightarrow> string" where
  "permission_denied_message required =
     ''You are signed in, but you do not have permission to '' @ permission_label required @
     ''. Please contact IT if you need this access.''"

definition UNAUTHORIZED_BOT_USER_REPLY :: string where
  "UNAUTHORIZED_BOT_USER_REPLY = ''You are not authorized to use Teams Rehook. Please contact IT to request access.''"

definition authorization_denied_command :: "string \<Rightarrow> bot_authorization \<Rightarrow> command_result" where
  "authorization_denied_command command az =
     (if az_status az = ''permission_denied''
      then (let m = permission_denied_message (az_required_permission az) in warned command m ''Permission denied'' m [])
      else if az_reason az = ''group_membership_lookup_unavailable''
      then (let m = ''Teams Rehook cannot verify your authorization right now. Please try again later or contact IT.''
            in warned command m ''Authorization unavailable'' m [])
      else warned command UNAUTHORIZED_BOT_USER_REPLY ''Not authorized'' UNAUTHORIZED_BOT_USER_REPLY [])"

section \<open>Targets and routes of a conversation\<close>

definition fill_str :: "string \<Rightarrow> string \<Rightarrow> string" where
  "fill_str have new = (if new \<noteq> [] \<and> have = [] then new else have)"

definition captured_with_reference :: "captured \<Rightarrow> conversation_reference \<Rightarrow> captured" where
  "captured_with_reference ca c =
     ca\<lparr>ca_service_url := fill_str (ca_service_url ca) (cr_service_url c),
        ca_conversation_id := fill_str (ca_conversation_id ca) (cr_conversation_id c),
        ca_tenant_id := fill_str (ca_tenant_id ca) (cr_tenant_id c),
        ca_team_id := fill_str (ca_team_id ca) (cr_team_id c),
        ca_graph_team_id := fill_str (ca_graph_team_id ca) (cr_graph_team_id c),
        ca_channel_id := fill_str (ca_channel_id ca) (cr_channel_id c),
        ca_conversation_type := fill_str (ca_conversation_type ca) (cr_conversation_type c),
        ca_is_group := fill_str (ca_is_group ca) (if cr_scope c = ''chat'' then ''true'' else []),
        ca_member_summary := fill_str (ca_member_summary ca) (cr_member_summary c),
        ca_team_name := fill_str (ca_team_name ca) (cr_team_name c),
        ca_channel_name := fill_str (ca_channel_name ca) (cr_channel_name c),
        ca_from_id := fill_str (ca_from_id ca) (cr_user_id c),
        ca_user_name := fill_str (ca_user_name ca) (cr_user_name c),
        ca_graph_user_id := fill_str (ca_graph_user_id ca) (cr_graph_user_id c)\<rparr>"

definition graph_target_kind :: "captured \<Rightarrow> string" where
  "graph_target_kind ca =
     (if scope_for ca = ''chat'' then ''chat''
      else if ca_channel_id ca \<noteq> [] then ''channel''
      else if ca_graph_team_id ca \<noteq> [] then ''team''
      else if ca_graph_user_id ca \<noteq> [] \<or> ca_from_id ca \<noteq> [] then ''user''
      else [])"

definition graph_target_id :: "captured \<Rightarrow> string" where
  "graph_target_id ca =
     (let kind = graph_target_kind ca in
      if kind = ''channel'' then ca_channel_id ca
      else if kind = ''team'' then ca_graph_team_id ca
      else if kind = ''chat'' then ca_conversation_id ca
      else if kind = ''user'' then or_str (ca_graph_user_id ca) (ca_from_id ca)
      else [])"

definition routes_of_conversation :: "string \<Rightarrow> captured \<Rightarrow> db \<Rightarrow> webhook_route list" where
  "routes_of_conversation org ca db =
     first_by r_id
       ((if ca_conversation_id ca \<noteq> []
         then latest_routes org (\<lambda>r. r_bot_conversation_id r = ca_conversation_id ca) db else []) @
        (if ca_graph_team_id ca \<noteq> [] \<and> ca_channel_id ca \<noteq> []
         then latest_routes org (\<lambda>r. r_graph_team_id r = ca_graph_team_id ca \<and> r_graph_channel_id r = ca_channel_id ca) db else []))"

definition find_routes_for_reference :: "settings \<Rightarrow> captured \<Rightarrow> db \<Rightarrow> webhook_route list \<times> db" where
  "find_routes_for_reference st ca db =
     (let (org, db) = default_organization st db in (routes_of_conversation (o_id org) ca db, db))"

text \<open>The choice among the linked routes: by name, or the only one.\<close>

definition route_choice :: "string \<Rightarrow> string \<Rightarrow> webhook_route list \<Rightarrow> command_result + webhook_route" where
  "route_choice route_name command linked =
     (let linked = (if route_name \<noteq> [] then List.filter (\<lambda>r. r_name r = route_name) linked else linked);
          create_with = [(''Create it with'', ''register <route name>'')]
      in case linked of
           [] \<Rightarrow>
             Inl (if route_name \<noteq> []
               then warned command (''No route named `'' @ route_name @ ''` is linked to this Teams conversation.'')
                 ''Linked route not found'' (''No route named '' @ route_name @ '' is linked to this Teams conversation.'') create_with
               else warned command ''No webhook route is linked to this Teams conversation yet. Use `register <route name>` first.''
                 ''No linked route'' ''No webhook route is linked to this Teams conversation yet.'' create_with)
         | r # others \<Rightarrow>
             if route_name \<noteq> [] \<or> others = [] then Inr r
             else (let example = command @ '' '' @ r_name r in
               Inl (warned command
                 (''Multiple routes are linked to this Teams conversation: '' @
                  join '', '' (List.map (\<lambda>r. ''`'' @ r_name r @ ''`'') linked) @
                  ''. Please include a route name, for example `'' @ example @ ''`.'')
                 ''Route name required'' ''Multiple routes are linked to this Teams conversation. Please include the route name.''
                 [(''Linked routes'', join '', '' (List.map r_name linked)), (''Example'', example)])))"

definition resolve_linked_route ::
  "settings \<Rightarrow> captured \<Rightarrow> string \<Rightarrow> string \<Rightarrow> db \<Rightarrow> (command_result + webhook_route) \<times> db" where
  "resolve_linked_route st ca route_name command db =
     (let (linked, db) = find_routes_for_reference st ca db in (route_choice route_name command linked, db))"

definition route_name_too_long_command :: "string \<Rightarrow> command_result" where
  "route_name_too_long_command command =
     (let m = ''Route names are limited to 200 characters. Please choose a shorter name.'' in
      warned command m ''Route name too long'' m [])"

definition record_bot_route_audit ::
  "world \<Rightarrow> settings \<Rightarrow> string \<Rightarrow> webhook_route \<Rightarrow> captured \<Rightarrow> (string \<times> json) list \<Rightarrow> db \<Rightarrow> db" where
  "record_bot_route_audit w st action r ca extra db =
     record_audit w st action ''bot_command'' None (Some (r_organization_id r))
       ([(''webhook_route_id'', JStr (r_id r)), (''name'', JStr (r_name r)), (''conversation_id'', JStr (ca_conversation_id ca)),
         (''graph_team_id'', JStr (ca_graph_team_id ca)), (''channel_id'', JStr (ca_channel_id ca)),
         (''teams_user_id'', JStr (ca_from_id ca)), (''aad_user_id'', JStr (ca_graph_user_id ca))] @ extra) db"

section \<open>Reveal links\<close>

definition new_reveal :: "bot_env \<Rightarrow> world \<Rightarrow> settings \<Rightarrow> webhook_route \<Rightarrow> db \<Rightarrow> reveal_token" where
  "new_reveal be w st r db =
     \<lparr>rv_id = new_id db, rv_organization_id = r_organization_id r, rv_route_id = r_id r,
      rv_token_hash = lookup_secret_hash w (drawn_secret be (next_id db)),
      rv_expires_at = utcnow w + hours (webhook_url_reveal_ttl_hours st), rv_created_at = utcnow w\<rparr>"

definition issue_webhook_reveal_url :: "bot_env \<Rightarrow> world \<Rightarrow> settings \<Rightarrow> webhook_route \<Rightarrow> db \<Rightarrow> string \<times> db" where
  "issue_webhook_reveal_url be w st r db =
     (if r_route_token r = [] then ([], db)
      else (rstrip_char (CHR ''/'') (frontend_base_url st) @ ''/copy-webhook?'' @
              urlencode [(''token'', drawn_secret be (next_id db))],
            db\<lparr>reveals := delete_rows (\<lambda>v. rv_expires_at v \<le> utcnow w) (reveals db) @ [new_reveal be w st r db],
               next_id := Suc (next_id db)\<rparr>))"

text \<open>Where the sender may see it.\<close>

definition reveal_if_permitted ::
  "bot_env \<Rightarrow> world \<Rightarrow> settings \<Rightarrow> bot_authorization \<Rightarrow> webhook_route \<Rightarrow> db \<Rightarrow> string \<times> db" where
  "reveal_if_permitted be w st az r db =
     (if permitted az ''can_reveal_webhook_urls'' then issue_webhook_reveal_url be w st r db else ([], db))"

section \<open>register\<close>

definition registered_route :: "bot_env \<Rightarrow> world \<Rightarrow> string \<Rightarrow> string \<Rightarrow> captured \<Rightarrow> nat \<Rightarrow> webhook_route" where
  "registered_route be w org route_name ca n =
     \<lparr>r_id = str_nat n, r_organization_id = org, r_created_by_id = None, r_name = route_name, r_is_active = True,
      r_route_token_hash = lookup_secret_hash w (drawn_secret be n), r_route_token = drawn_secret be n,
      r_delivery_backend = ''bot_framework'', r_client_ip_access_mode = ''public'', r_client_ip_allowlist = [],
      r_target_type = ''bot_conversation'', r_target_name = target_name ca, r_bot_service_url = [],
      r_bot_conversation_id = [], r_graph_target_kind = [], r_graph_target_id = [], r_graph_team_id = [],
      r_graph_team_name = [], r_graph_channel_id = [], r_graph_user_id = [], r_graph_user_display_name = [],
      r_graph_user_principal_name = [], r_member_summary = [], r_member_count = 0, r_member_list_json = JList [],
      r_members_refreshed_at = None, r_members_lookup_error = [], r_bot_target_source = [],
      r_bot_registered_by_id = [], r_bot_registered_at = None, r_last_delivery_status = None,
      r_last_delivery_at = None, r_created_at = utcnow w, r_updated_at = utcnow w\<rparr>"

definition point_route_at :: "world \<Rightarrow> captured \<Rightarrow> conversation_reference \<Rightarrow> webhook_route \<Rightarrow> webhook_route" where
  "point_route_at w ca c r =
     r\<lparr>r_is_active := True, r_delivery_backend := ''bot_framework'', r_bot_service_url := ca_service_url ca,
       r_bot_conversation_id := ca_conversation_id ca, r_target_name := target_name ca,
       r_graph_target_kind := graph_target_kind ca, r_graph_target_id := graph_target_id ca,
       r_graph_team_id := ca_graph_team_id ca, r_graph_team_name := clip 200 (ca_team_name ca),
       r_graph_channel_id := (if graph_target_kind ca = ''channel'' then ca_channel_id ca else []),
       r_member_summary := cr_member_summary c, r_member_count := cr_member_count c,
       r_member_list_json := cr_member_list_json c, r_members_refreshed_at := cr_members_refreshed_at c,
       r_members_lookup_error := cr_members_lookup_error c, r_bot_target_source := ''bot_command'',
       r_bot_registered_by_id := or_str (ca_graph_user_id ca) (ca_from_id ca), r_bot_registered_at := Some (utcnow w)\<rparr>"

definition find_bot_route :: "string \<Rightarrow> string \<Rightarrow> db \<Rightarrow> webhook_route option" where
  "find_bot_route org route_name db =
     fetch (\<lambda>r. r_organization_id r = org \<and> r_name r = route_name \<and> r_delivery_backend r = ''bot_framework'') (routes db)"

text \<open>The flush that inserts or updates the route, where no unique constraint is violated.\<close>

definition flush_registered :: "world \<Rightarrow> webhook_route option \<Rightarrow> webhook_route \<Rightarrow> db \<Rightarrow> webhook_route \<times> db" where
  "flush_registered w old r db =
     (case old of
        None \<Rightarrow> (r, db\<lparr>routes := routes db @ [r], next_id := Suc (next_id db)\<rparr>)
      | Some old \<Rightarrow> flush_route w old r db)"

definition registered_reply :: "webhook_route \<Rightarrow> string \<Rightarrow> string \<Rightarrow> captured \<Rightarrow> bot_authorization \<Rightarrow> command_result" where
  "registered_reply r verb reveal_url ca az =
     replied ''register''
       (''Route `'' @ r_name r @ ''` '' @ verb @ '' for this conversation.'' @ [CHR 0x0A, CHR 0x0A] @
        (if reveal_url \<noteq> [] then ''Open the webhook URL button to view and copy the route URL.''
         else ''You do not have permission to reveal the route URL from Teams.'') @ [CHR 0x0A, CHR 0x0A] @
        ''Use `info` to inspect the captured Teams IDs.'')
       (route_command_card r verb reveal_url ca az)"

definition register_route_from_command ::
  "remote \<Rightarrow> bot_env \<Rightarrow> world \<Rightarrow> settings \<Rightarrow> captured \<Rightarrow> string \<Rightarrow> conversation_reference option \<Rightarrow> bot_authorization \<Rightarrow>
   db \<times> graph_tokens \<Rightarrow> (exn + command_result) \<times> db \<times> graph_tokens" where
  "register_route_from_command rm be w st ca route_name reference az s =
     (if route_name = []
      then (Inr (warned ''register'' ''Please include a route name, for example `register Jira Alerts`.''
              ''Route name required'' ''Please include a route name before registering.'' [(''Example'', ''register Jira Alerts'')]), s)
      else if 200 < length route_name then (Inr (route_name_too_long_command ''register''), s)
      else (case reference of
        Some c \<Rightarrow>
          if ca_service_url ca \<noteq> [] \<and> ca_conversation_id ca \<noteq> [] then
            (let (org, db) = default_organization st (fst s); ca = captured_with_reference ca c;
                 old = find_bot_route (o_id org) route_name db;
                 r = point_route_at w ca c (case old of Some r \<Rightarrow> r
                   | None \<Rightarrow> registered_route be w (o_id org) route_name ca (next_id db))
             in case try_resolve_route_graph_names rm w st False r (snd s) of
                  (Inl e, _, tokens) \<Rightarrow> (Inl e, db, tokens)
                | (Inr _, r, tokens) \<Rightarrow>
                    (if route_conflict r db then (Inl IntegrityError, db, tokens)
                     else (let (r, db) = flush_registered w old r db;
                               (reveal_url, db) = reveal_if_permitted be w st az r db
                           in (Inr (registered_reply r (if old = None then ''created'' else ''updated'') reveal_url ca az),
                               db, tokens))))
          else (Inr (warned ''register'' ''I could not capture a complete Bot Framework conversation reference yet. Please send the command again from Teams.''
              ''Conversation reference missing''
              ''I could not capture a complete Bot Framework conversation reference yet. Please send the command again from Teams.'' []), s)
      | None \<Rightarrow> (Inr (warned ''register'' ''I could not capture a complete Bot Framework conversation reference yet. Please send the command again from Teams.''
              ''Conversation reference missing''
              ''I could not capture a complete Bot Framework conversation reference yet. Please send the command again from Teams.'' []), s)))"

section \<open>webhook\<close>

definition webhook_url_command ::
  "bot_env \<Rightarrow> world \<Rightarrow> settings \<Rightarrow> string \<Rightarrow> bot_authorization \<Rightarrow> db \<Rightarrow> command_result \<times> db" where
  "webhook_url_command be w st route_name az db =
     (if route_name = []
      then (warned ''webhook'' ''Please include a route name, for example `webhook Jira Alerts`.''
              ''Route name required'' ''Please include a route name to look up.'' [(''Example'', ''webhook Jira Alerts'')], db)
      else if 200 < length route_name then (route_name_too_long_command ''webhook'', db)
      else (let (org, db) = default_organization st db in
        case fetch (\<lambda>r. r_organization_id r = o_id org \<and> r_name r = route_name) (routes db) of
          Some r \<Rightarrow>
            if r_route_token r \<noteq> [] then
              (let (reveal_url, db) = issue_webhook_reveal_url be w st r db in
               (replied ''webhook'' (''Webhook URL for `'' @ r_name r @ ''` is available through the button in this reply.'')
                  (webhook_command_card r reveal_url az), db))
            else (warned ''webhook'' (''No route named `'' @ route_name @ ''` exists yet. Use `register '' @ route_name @
                    ''` from the target conversation first.'') ''Route not found'' (''No route named '' @ route_name @ '' exists yet.'')
                    [(''Create it with'', ''register '' @ route_name)], db)
        | None \<Rightarrow> (warned ''webhook'' (''No route named `'' @ route_name @ ''` exists yet. Use `register '' @ route_name @
                    ''` from the target conversation first.'') ''Route not found'' (''No route named '' @ route_name @ '' exists yet.'')
                    [(''Create it with'', ''register '' @ route_name)], db)))"

section \<open>enable, disable and delete\<close>

definition set_route_active_command ::
  "bot_env \<Rightarrow> world \<Rightarrow> settings \<Rightarrow> captured \<Rightarrow> string \<Rightarrow> bool \<Rightarrow> bot_authorization \<Rightarrow> db \<Rightarrow> command_result \<times> db" where
  "set_route_active_command be w st ca route_name is_active az db =
     (let command = (if is_active then ''enable'' else ''disable''); verb = (if is_active then ''enabled'' else ''disabled'') in
      if 200 < length route_name then (route_name_too_long_command command, db)
      else (case resolve_linked_route st ca route_name command db of
        (Inl refused, db) \<Rightarrow> (refused, db)
      | (Inr old, db) \<Rightarrow>
          (let (r, db) = flush_route w old (old\<lparr>r_is_active := is_active\<rparr>) db;
               db = record_bot_route_audit w st (''webhook_route.'' @ verb) r ca
                 [(''previous_is_active'', JBool (r_is_active old))] db;
               (reveal_url, db) = reveal_if_permitted be w st az r db
           in (replied command
                 (''Route `'' @ r_name r @ ''` is '' @ (if r_is_active old = is_active then ''already '' else []) @ verb @
                  '' for this Teams conversation.'')
                 (route_status_card r verb ca reveal_url az), db))))"

definition delete_linked_route_command ::
  "world \<Rightarrow> settings \<Rightarrow> captured \<Rightarrow> string \<Rightarrow> db \<Rightarrow> command_result \<times> db" where
  "delete_linked_route_command w st ca route_name db =
     (if route_name = []
      then (warned ''delete'' ''Please include a route name, for example `delete Jira Alerts`.''
              ''Route name required'' ''Please include the route name before deleting.'' [(''Example'', ''delete Jira Alerts'')], db)
      else if 200 < length route_name then (route_name_too_long_command ''delete'', db)
      else (case resolve_linked_route st ca route_name ''delete'' db of
        (Inl refused, db) \<Rightarrow> (refused, db)
      | (Inr r, db) \<Rightarrow>
          (replied ''delete'' (''Route `'' @ r_name r @ ''` deleted for this Teams conversation.'')
             ((plain_card ''Route deleted'' ''The route has been deleted and its webhook URL will no longer accept messages.'')
               \<lparr>cd_status := ''inactive'', cd_facts := [(''Route'', r_name r), (''Target'', r_target_name r)]\<rparr>),
           remove_route (r_id r)
             (record_bot_route_audit w st ''webhook_route.deleted'' r ca [] (detach_route (r_id r) db)))))"

section \<open>info\<close>

definition backticked :: "string \<Rightarrow> string \<Rightarrow> string" where
  "backticked label value = label @ '': `'' @ or_str value ''-'' @ ''`''"

definition info_lines :: "captured \<Rightarrow> conversation_reference option \<Rightarrow> string list" where
  "info_lines ca reference =
     [''Scope: `'' @ scope_for ca @ ''`'', backticked ''Conversation ID'' (ca_conversation_id ca),
      backticked ''Service URL'' (ca_service_url ca), backticked ''Tenant ID'' (ca_tenant_id ca),
      backticked ''Teams user ID'' (ca_from_id ca), backticked ''User name'' (ca_user_name ca),
      backticked ''AAD user ID'' (ca_graph_user_id ca), backticked ''Teams team ID'' (ca_team_id ca),
      backticked ''Graph team ID'' (ca_graph_team_id ca), backticked ''Team name'' (ca_team_name ca),
      backticked ''Channel ID'' (ca_channel_id ca), backticked ''Channel name'' (ca_channel_name ca),
      ''Reference saved: `'' @ yes_no (reference \<noteq> None) @ ''`'']"

text \<open>The comprehension that issues a link for every listed route with a token.\<close>

fun issue_reveal_urls ::
  "bot_env \<Rightarrow> world \<Rightarrow> settings \<Rightarrow> bot_authorization \<Rightarrow> webhook_route list \<Rightarrow> db \<Rightarrow> (string \<times> string) list \<times> db" where
  "issue_reveal_urls be w st az [] db = ([], db)"
| "issue_reveal_urls be w st az (r # rs) db =
     (if r_route_token r \<noteq> [] \<and> permitted az ''can_reveal_webhook_urls''
      then (let (url, db) = issue_webhook_reveal_url be w st r db; (urls, db) = issue_reveal_urls be w st az rs db
            in ((r_id r, url) # urls, db))
      else issue_reveal_urls be w st az rs db)"

definition info_overview ::
  "bot_env \<Rightarrow> world \<Rightarrow> settings \<Rightarrow> captured \<Rightarrow> conversation_reference option \<Rightarrow> webhook_route list \<Rightarrow> bot_authorization \<Rightarrow>
   db \<Rightarrow> command_result \<times> db" where
  "info_overview be w st ca reference linked az db =
     (let (urls, db) = issue_reveal_urls be w st az linked db;
          listed = (if linked \<noteq> [] then
              (''Linked routes: `'' @ str_nat (length linked) @ ''`'') #
              concat (List.map (\<lambda>r. (''- `'' @ r_name r @ ''`'') #
                List.map (\<lambda>l. ''  '' @ l) (splitlines (route_overview_text r ca (opt_str (map_of urls (r_id r)))))) linked)
            else [''Linked routes: `none`'', ''Use `register <route name>` to link a route to this Teams conversation.''])
      in (replied ''info'' (join [CHR 0x0A] (info_lines ca reference @ listed)) (info_overview_card ca reference linked urls az), db))"

definition info_detail ::
  "bot_env \<Rightarrow> world \<Rightarrow> settings \<Rightarrow> captured \<Rightarrow> conversation_reference option \<Rightarrow> webhook_route \<Rightarrow> bot_authorization \<Rightarrow>
   db \<Rightarrow> command_result \<times> db" where
  "info_detail be w st ca reference r az db =
     (let (reveal_url, db) = reveal_if_permitted be w st az r db;
          shown = (if r_route_token r \<noteq> [] then
              [''Linked route: `'' @ r_name r @ ''`'', ''Route status: `'' @ status_word r @ ''`'',
               ''Client IP access: `'' @ client_ip_access_summary r @ ''`'', backticked ''Target'' (r_target_name r),
               if reveal_url \<noteq> [] then ''Webhook URL: open the button in this reply to view and copy it.''
               else ''Webhook URL: unavailable with your current Teams bot permissions.'']
            else [''Linked route: `none`''])
      in (replied ''info'' (join [CHR 0x0A] (info_lines ca reference @ shown))
            (info_detail_card ca reference (Some r) reveal_url az), db))"

definition info_command ::
  "bot_env \<Rightarrow> world \<Rightarrow> settings \<Rightarrow> captured \<Rightarrow> conversation_reference option \<Rightarrow> string \<Rightarrow> bot_authorization \<Rightarrow>
   db \<Rightarrow> command_result \<times> db" where
  "info_command be w st ca reference route_name az db =
     (if 200 < length route_name then (route_name_too_long_command ''info'', db)
      else (let (linked, db) = find_routes_for_reference st ca db in
        if route_name \<noteq> [] then
          (case fetch (\<lambda>r. r_name r = route_name) linked of
             None \<Rightarrow> (warned ''info'' (''No route named `'' @ route_name @ ''` is linked to this Teams conversation.'')
               ''Linked route not found'' (''No route named '' @ route_name @ '' is linked to this Teams conversation.'')
               [(''Linked routes'', if linked \<noteq> [] then join '', '' (List.map r_name linked) else ''none'')], db)
           | Some r \<Rightarrow> info_detail be w st ca reference r az db)
        else (case linked of
          [r] \<Rightarrow> info_detail be w st ca reference r az db
        | _ \<Rightarrow> info_overview be w st ca reference linked az db)))"

section \<open>allowlist\<close>

definition show_allowlist_command :: "settings \<Rightarrow> captured \<Rightarrow> string \<Rightarrow> db \<Rightarrow> command_result \<times> db" where
  "show_allowlist_command st ca route_name db =
     (if 200 < length route_name then (route_name_too_long_command ''allowlist'', db)
      else (case resolve_linked_route st ca route_name ''allowlist'' db of
        (Inl refused, db) \<Rightarrow> (refused, db)
      | (Inr r, db) \<Rightarrow>
          (replied ''allowlist''
             (join [CHR 0x0A]
               ([''Route `'' @ r_name r @ ''` client IP access: `'' @ client_ip_access_summary r @ ''`''] @
                client_ip_allowlist_reply_lines r @
                [[], ''Use `allowlist public` to make the linked route public.'',
                 ''Use `allowlist restricted 203.0.113.10, 10.0.0.0/24` to restrict a single linked route.'',
                 ''For multiple linked routes, use `allowlist restricted Route Name: 203.0.113.10`.'']))
             (allowlist_command_card r ''Client IP allowlist''), db)))"

definition set_allowlist_command ::
  "world \<Rightarrow> settings \<Rightarrow> captured \<Rightarrow> string \<Rightarrow> string \<Rightarrow> string \<Rightarrow> db \<Rightarrow> command_result \<times> db" where
  "set_allowlist_command w st ca route_name mode allowlist db =
     (let example = [(''Example'', ''allowlist restricted 203.0.113.10, 10.0.0.0/24'')] in
      if 200 < length route_name then (route_name_too_long_command ''allowlist'', db)
      else (case resolve_linked_route st ca route_name ''allowlist'' db of
        (Inl refused, db) \<Rightarrow> (refused, db)
      | (Inr old, db) \<Rightarrow>
          (case normalize_client_ip_allowlist allowlist of
             Inl e \<Rightarrow> (warned ''allowlist'' (exn_text e) ''Invalid allowlist'' (exn_text e) example, db)
           | Inr normalized \<Rightarrow>
               if mode = ''restricted'' \<and> normalized = []
               then (let m = ''Restricted routes require at least one client IP or CIDR range.''
                     in (warned ''allowlist'' m ''Allowlist required'' m example, db))
               else (let (r, db) = flush_route w old (old\<lparr>r_client_ip_access_mode := mode,
                            r_client_ip_allowlist := (if mode = ''restricted'' then normalized else [])\<rparr>) db;
                         db = record_bot_route_audit w st ''webhook_route.client_ip_access_updated'' r ca
                           [(''previous_client_ip_access_mode'', JStr (r_client_ip_access_mode old)),
                            (''previous_client_ip_allowlist'', JStr (r_client_ip_allowlist old))] db
                     in (replied ''allowlist''
                           (join [CHR 0x0A]
                             ((''Route `'' @ r_name r @ ''` client IP access updated to `'' @ client_ip_access_summary r @ ''`.'') #
                              client_ip_allowlist_reply_lines r))
                           (allowlist_command_card r ''Client IP access updated''), db)))))"

definition parse_restricted_allowlist_argument :: "string \<Rightarrow> string \<times> string" where
  "parse_restricted_allowlist_argument argument =
     (if CHR '':'' \<notin> set argument then ([], argument)
      else (strip (takeWhile (\<lambda>c. c \<noteq> CHR '':'') argument), strip (tl (dropWhile (\<lambda>c. c \<noteq> CHR '':'') argument))))"

definition allowlist_command ::
  "world \<Rightarrow> settings \<Rightarrow> captured \<Rightarrow> string \<Rightarrow> db \<Rightarrow> command_result \<times> db" where
  "allowlist_command w st ca argument db =
     (let lowered = lower argument in
      if argument = [] \<or> lowered = ''show'' then show_allowlist_command st ca [] db
      else if startswith lowered ''show '' then show_allowlist_command st ca (strip (drop 5 argument)) db
      else if lowered = ''public'' \<or> startswith lowered ''public ''
      then set_allowlist_command w st ca (strip (drop 6 argument)) ''public'' [] db
      else if lowered = ''restricted'' \<or> startswith lowered ''restricted ''
      then (let (route_name, allowlist) = parse_restricted_allowlist_argument (strip (drop 10 argument))
            in set_allowlist_command w st ca route_name ''restricted'' allowlist db)
      else show_allowlist_command st ca argument db)"

section \<open>help\<close>

definition lower_first :: "string \<Rightarrow> string" where
  "lower_first s = (case s of [] \<Rightarrow> [] | c # cs \<Rightarrow> lower_char c # cs)"

definition help_command :: "bot_authorization \<Rightarrow> command_result" where
  "help_command az =
     (let commands = available_help_commands az in
      replied ''help''
        (join [CHR 0x0A] (''Available commands:'' #
          List.map (\<lambda>(command, description). ''`'' @ command @ ''` - '' @ lower_first description) commands))
        (help_command_card commands))"

section \<open>Running a command\<close>

definition handle_command ::
  "remote \<Rightarrow> bot_env \<Rightarrow> world \<Rightarrow> settings \<Rightarrow> captured \<Rightarrow> conversation_reference option \<Rightarrow> string \<times> string \<Rightarrow> bot_authorization \<Rightarrow>
   db \<times> graph_tokens \<Rightarrow> (exn + command_result) \<times> db \<times> graph_tokens" where
  "handle_command rm be w st ca reference parsed az s =
     (let (command, argument) = parsed;
          answered = (\<lambda>(res, db). (Inr res, db, snd s))
      in if ca_activity_type ca \<noteq> ''message'' then (Inr no_command, s)
         else if command = ''register'' then register_route_from_command rm be w st ca argument reference az s
         else if command = ''webhook'' then answered (webhook_url_command be w st argument az (fst s))
         else if command = ''disable'' then answered (set_route_active_command be w st ca argument False az (fst s))
         else if command = ''enable'' then answered (set_route_active_command be w st ca argument True az (fst s))
         else if command = ''delete'' then answered (delete_linked_route_command w st ca argument (fst s))
         else if command = ''info'' then answered (info_command be w st ca reference argument az (fst s))
         else if command = ''allowlist'' then answered (allowlist_command w st ca argument (fst s))
         else if command = ''help'' then (Inr (help_command az), s)
         else (Inr no_command, s))"

section \<open>The endpoint\<close>

record ingest_out =
  io_activity_event_id :: string
  io_conversation_reference_id :: "string option"
  io_captured_reference :: bool
  io_handled_command :: bool
  io_command :: "string option"
  io_reply_sent :: bool
  io_reply_error :: string
  io_reply_text :: "string option"

definition nothing_ingested :: ingest_out where
  "nothing_ingested = \<lparr>io_activity_event_id = [], io_conversation_reference_id = None, io_captured_reference = False,
     io_handled_command = False, io_command = None, io_reply_sent = False, io_reply_error = [], io_reply_text = None\<rparr>"

definition new_activity_event ::
  "bot_framework_claims \<Rightarrow> world \<Rightarrow> (string \<times> json) list \<Rightarrow> captured \<Rightarrow> string \<Rightarrow> bot_activity_event" where
  "new_activity_event claims w activity ca i =
     \<lparr>ae_id = i, ae_activity_type = ca_activity_type ca, ae_service_url = ca_service_url ca,
      ae_conversation_id = ca_conversation_id ca, ae_tenant_id = ca_tenant_id ca, ae_team_id = ca_team_id ca,
      ae_graph_team_id = ca_graph_team_id ca, ae_channel_id = ca_channel_id ca,
      ae_conversation_type = ca_conversation_type ca, ae_team_name = ca_team_name ca,
      ae_channel_name = ca_channel_name ca, ae_from_id = ca_from_id ca, ae_user_name = ca_user_name ca,
      ae_graph_user_id = ca_graph_user_id ca, ae_recipient_id = ca_recipient_id ca,
      ae_raw_activity_json = JDict (safe_activity activity), ae_auth_status = ''verified'',
      ae_auth_issuer = bf_issuer claims, ae_auth_audience = bf_audience claims,
      ae_auth_service_url = bf_service_url claims, ae_auth_service_url_matched = bf_service_url_matched claims,
      ae_auth_validated_at = Some (bf_validated_at claims), ae_bot_authorization_status = [],
      ae_bot_authorized_user_id = [], ae_bot_authorization_reason = [], ae_created_at = utcnow w\<rparr>"

definition activity_received :: "bot_activity_event \<Rightarrow> event_args" where
  "activity_received ev =
     (event ''info'' ''integration'' ''bot.activity.received''
        (''Teams bot activity received: '' @ or_str (ae_activity_type ev) ''activity'') ''bot_activity'')
       \<lparr>ea_user_message := ''Teams activity received'',
        ea_actor := [(''type'', JStr ''external''), (''id'', JStr (or_str (ae_graph_user_id ev) (ae_from_id ev))),
          (''displayName'', JStr (ae_user_name ev))],
        ea_target := [(''type'', JStr (if ae_team_id ev \<noteq> [] then ''team'' else ''message'')),
          (''id'', JStr (or_str (ae_channel_id ev) (ae_conversation_id ev))), (''team_id'', JStr (ae_team_id ev)),
          (''channel_id'', JStr (ae_channel_id ev))],
        ea_security := [(''severity'', JStr ''low''), (''reason'', JStr (ae_auth_status ev))],
        ea_raw := [(''conversation_type'', JStr (ae_conversation_type ev)), (''service_url'', JStr (ae_service_url ev))],
        ea_domain_event_id := Some (ae_id ev)\<rparr>"

definition save_activity :: "bot_activity_event \<Rightarrow> db \<Rightarrow> db" where
  "save_activity ev db = db\<lparr>activities := save_row ae_id ev (activities db)\<rparr>"

definition authorized_event :: "bot_authorization \<Rightarrow> bot_activity_event \<Rightarrow> bot_activity_event" where
  "authorized_event az ev =
     ev\<lparr>ae_bot_authorization_status := az_status az, ae_bot_authorized_user_id := authorized_user_id az,
        ae_bot_authorization_reason := az_reason az\<rparr>"

text \<open>A command of the activity: authorized, recorded, and run or refused.\<close>

definition run_command ::
  "remote \<Rightarrow> bot_env \<Rightarrow> world \<Rightarrow> settings \<Rightarrow> captured \<Rightarrow> bot_activity_event \<Rightarrow> conversation_reference option \<Rightarrow>
   string \<times> string \<Rightarrow> db \<times> graph_tokens \<Rightarrow> (exn + command_result) \<times> db \<times> graph_tokens" where
  "run_command rm be w st ca ev reference parsed s =
     (case authorize_bot_command rm w st ca parsed s of
        (Inl e, s) \<Rightarrow> (Inl e, s)
      | (Inr az, db, tokens) \<Rightarrow>
          (let db = record_bot_command_authorization w st az ca parsed (save_activity (authorized_event az ev) db) in
           if az_allowed az then handle_command rm be w st ca reference parsed az (db, tokens)
           else (Inr (authorization_denied_command (fst parsed) az), db, tokens)))"

text \<open>Everything up to the commit, from an activity that is an object.\<close>

definition ingest_activity ::
  "remote \<Rightarrow> bot_env \<Rightarrow> world \<Rightarrow> settings \<Rightarrow> bot_framework_claims \<Rightarrow> (string \<times> json) list \<Rightarrow> db \<times> caches \<Rightarrow>
   (exn + string \<times> conversation_reference option \<times> command_result) \<times> db \<times> caches" where
  "ingest_activity rm be w st claims activity s =
     (let (db, cs) = s; ca = extract_activity activity; ev = new_activity_event claims w activity ca (new_id db);
          db = db\<lparr>activities := activities db @ [ev], next_id := Suc (next_id db)\<rparr>;
          db = emit_event w st (activity_received ev) db
      in case upsert_reference rm w st ca (db, cs) of
           (Inl e, s) \<Rightarrow> (Inl e, s)
         | (Inr reference, db, cs) \<Rightarrow>
             (case (if ca_activity_type ca = ''message'' then parse_activity_command be activity else None) of
                None \<Rightarrow> (Inr (ae_id ev, reference, no_command),
                  save_activity (ev\<lparr>ae_bot_authorization_status := ''not_applicable''\<rparr>) db, cs)
              | Some parsed \<Rightarrow>
                  (case run_command rm be w st ca ev reference parsed (db, app_tokens cs) of
                     (Inl e, db, tokens) \<Rightarrow> (Inl e, db, cs\<lparr>app_tokens := tokens\<rparr>)
                   | (Inr res, db, tokens) \<Rightarrow> (Inr (ae_id ev, reference, res), db, cs\<lparr>app_tokens := tokens\<rparr>))))"

definition reply_message :: "command_result \<Rightarrow> string \<Rightarrow> normalized_message" where
  "reply_message res text =
     \<lparr>msg_title = co_title res, msg_text = text, msg_severity = co_severity res, msg_status = [],
      msg_raw_type = ''bot-command-reply'', msg_activity = co_activity res\<rparr>"

text \<open>The reply after the commit: whether it was sent, the error reported, or an exception.\<close>

definition send_reply ::
  "remote \<Rightarrow> world \<Rightarrow> settings \<Rightarrow> captured \<Rightarrow> command_result \<Rightarrow> db \<times> caches \<Rightarrow> (exn + bool \<times> string) \<times> db \<times> caches" where
  "send_reply rm w st ca res s =
     (case co_reply_text res of
        None \<Rightarrow> (Inr (False, []), s)
      | Some text \<Rightarrow>
          if text = [] \<or> ca_service_url ca = [] \<or> ca_conversation_id ca = [] then (Inr (False, []), s)
          else (case send_bot_activity rm w st (ca_service_url ca) (ca_conversation_id ca) (reply_message res text)
                       (fst s, bot_tokens (snd s)) of
            (Inr _, db, tokens) \<Rightarrow> (Inr (True, []), db, (snd s)\<lparr>bot_tokens := tokens\<rparr>)
          | (Inl (BotDeliveryError m), db, tokens) \<Rightarrow> (Inr (False, m), db, (snd s)\<lparr>bot_tokens := tokens\<rparr>)
          | (Inl e, db, tokens) \<Rightarrow> (Inl e, db, (snd s)\<lparr>bot_tokens := tokens\<rparr>)))"

definition receive_bot_activity ::
  "remote \<Rightarrow> bot_env \<Rightarrow> world \<Rightarrow> settings \<Rightarrow> bot_framework_claims \<Rightarrow> string \<Rightarrow> db \<times> caches \<Rightarrow>
   (exn + ingest_out) \<times> db \<times> caches" where
  "receive_bot_activity rm be w st claims body s =
     (if body = [] then (Inr nothing_ingested, s)
      else (case parse_json w body of
        Inl None \<Rightarrow> (Inr nothing_ingested, s)
      | Inl (Some e) \<Rightarrow> (Inl e, s)
      | Inr (JDict activity) \<Rightarrow>
          (case ingest_activity rm be w st claims activity s of
             (Inl e, _, cs) \<Rightarrow> (Inl e, fst s, cs)
           | (Inr (event_id, reference, res), s) \<Rightarrow>
               (case send_reply rm w st (extract_activity activity) res s of
                  (Inl e, s) \<Rightarrow> (Inl e, s)
                | (Inr (sent, error), s) \<Rightarrow>
                    (Inr \<lparr>io_activity_event_id = event_id, io_conversation_reference_id = map_option cr_id reference,
                       io_captured_reference = (reference \<noteq> None), io_handled_command = co_handled res,
                       io_command = co_command res, io_reply_sent = sent, io_reply_error = error,
                       io_reply_text = co_reply_text res\<rparr>, s)))
      | Inr _ \<Rightarrow> (Inr nothing_ingested, s)))"

text \<open>The guard and the handler together.\<close>

definition bot_messages_endpoint ::
  "jwt_library \<Rightarrow> remote \<Rightarrow> bot_env \<Rightarrow> world \<Rightarrow> settings \<Rightarrow> request \<Rightarrow> (db \<times> caches) \<times> jwks \<Rightarrow>
   (exn + ingest_out) \<times> (db \<times> caches) \<times> jwks" where
  "bot_messages_endpoint jl rm be w st rq s =
     (let ((db, cs), keys) = s in
      case require_bot_framework_auth jl rm w st rq (db, keys) of
        (Inl e, db, keys) \<Rightarrow> (Inl e, (db, cs), keys)
      | (Inr claims, db, keys) \<Rightarrow>
          (case receive_bot_activity rm be w st claims (concat (rq_stream rq)) (db, cs) of
             (r, s) \<Rightarrow> (r, s, keys)))"

end
