(* ===== verification/Bot_Effects.thy ===== *)
theory Bot_Effects
  imports Route_History Bot_Commands
begin

text \<open>
  What an activity can do to routes, their reveal links and their deliveries: everything but running an
  allowed command leaves these tables alone, and each command changes them in the way its permission
  allows. The facts are proved for the steps and composed along \<open>receive_bot_activity\<close>.
\<close>

section \<open>Steps that leave the relay alone\<close>

definition relay_frame :: "db \<Rightarrow> db \<Rightarrow> bool" where
  "relay_frame a b \<longleftrightarrow> routes b = routes a \<and> deliveries b = deliveries a \<and> reveals b = reveals a \<and>
     buckets b = buckets a \<and> next_id a \<le> next_id b"

lemma relay_frame_refl [simp]: "relay_frame a a"
  by (simp add: relay_frame_def)

lemma relay_frame_trans [trans]: "relay_frame a b \<Longrightarrow> relay_frame b c \<Longrightarrow> relay_frame a c"
  by (simp add: relay_frame_def)

lemma relay_frameD:
  assumes "relay_frame a b"
  shows "routes b = routes a" "deliveries b = deliveries a" "reveals b = reveals a" "buckets b = buckets a" "next_id a \<le> next_id b"
  using assms by (simp_all add: relay_frame_def)

lemma relay_frame_store: "relay_frame a b \<Longrightarrow> store_ok a \<Longrightarrow> store_ok b"
  by (auto simp: relay_frame_def intro: store_rows.inv_frame)

lemma relay_frame_emit [simp]: "relay_frame db (emit_event w st e db)"
  "relay_frame db (record_audit w st a t i org m db)"
  by (simp_all add: relay_frame_def)

lemma relay_frame_other [simp]:
  "relay_frame db (db\<lparr>organizations := os\<rparr>)" "relay_frame db (db\<lparr>membership_cache := ms\<rparr>)"
  "relay_frame db (db\<lparr>bot_users := us\<rparr>)" "relay_frame db (db\<lparr>bot_groups := gs\<rparr>)"
  "relay_frame db (db\<lparr>references := rs\<rparr>)" "relay_frame db (db\<lparr>activities := as\<rparr>)"
  "relay_frame db (db\<lparr>next_id := Suc (next_id db)\<rparr>)"
  by (simp_all add: relay_frame_def)

lemma default_organization_relay: "default_organization st db = (org, db') \<Longrightarrow> relay_frame db db'"
  by (auto simp: default_organization_def Let_def relay_frame_def split: option.splits)

lemma default_organization_same:
  assumes "default_organization st db = (org, db')"
  shows "default_organization st db' = (org, db')"
  using assms by (auto simp: default_organization_def Let_def split: option.splits)

lemma default_organization_kept_rows:
  assumes "default_organization st db = (org, db')"
  shows "bot_users db' = bot_users db" "bot_groups db' = bot_groups db" "bot_roles db' = bot_roles db"
    "membership_cache db' = membership_cache db" "references db' = references db"
  using assms by (auto simp: default_organization_def Let_def split: option.splits)

text \<open>The default organization is the one with the configured slug, whichever step asks.\<close>

lemma default_organization_stable:
  assumes "default_organization st a = (org, a')" and "organizations b = organizations a'"
  shows "default_organization st b = (org, b)"
proof -
  have "fetch (\<lambda>x. o_slug x = default_org_slug st) (organizations b) = Some org"
    using default_organization_frame(4) [OF assms(1)] assms(2) by simp
  then show ?thesis by (simp add: default_organization_def)
qed

lemma group_ids_relay:
  assumes "bot_group_ids_for_sender rm w st org aad (db, tk) = (res, db', tk')"
  shows "relay_frame db db'" "bot_users db' = bot_users db" "bot_groups db' = bot_groups db" "bot_roles db' = bot_roles db"
    "organizations db' = organizations db" "references db' = references db"
  using assms
  by (auto simp: bot_group_ids_for_sender_def Let_def membership_failed_def membership_found_def save_membership_def
      relay_frame_def split: if_splits option.splits prod.splits sum.splits)

lemma touch_sources_relay [simp]:
  "relay_frame db (touch_sources w u gs db)" "organizations (touch_sources w u gs db) = organizations db"
  "references (touch_sources w u gs db) = references db"
  by (simp_all add: touch_sources_def relay_frame_def)

lemma decide_relay:
  assumes "decide_bot_command w ca parsed org user found db = (az, db')"
  shows "relay_frame db db'" "organizations db' = organizations db" "references db' = references db"
  using assms by (auto simp: decide_bot_command_def Let_def split: prod.splits if_splits)

lemma authorize_relay:
  assumes "authorize_bot_command rm w st ca parsed (db, tk) = (res, db', tk')"
  shows "relay_frame db db'" "references db' = references db"
proof -
  obtain org db1 where o1: "default_organization st db = (org, db1)" by (rule prod.exhaust)
  let ?aad = "lower (strip (ca_graph_user_id ca))"
  obtain found db2 tk2 where g: "bot_group_ids_for_sender rm w st (o_id org) ?aad (db1, tk) = (found, db2, tk2)"
    by (rule prod_cases3)
  note frame = relay_frame_trans [OF default_organization_relay [OF o1] group_ids_relay(1) [OF g]]
  have "relay_frame db db' \<and> references db' = references db"
  proof (cases "?aad = []")
    case True
    then show ?thesis using assms by (simp add: authorize_bot_command_def)
  next
    case False
    show ?thesis
    proof (cases found)
      case (Inl e)
      then show ?thesis using assms False o1 g frame group_ids_relay(6) [OF g] default_organization_kept_rows(5) [OF o1]
        by (simp add: authorize_bot_command_def Let_def)
    next
      case (Inr f)
      obtain az db3 where d: "decide_bot_command w ca parsed (o_id org) (active_bot_user (o_id org) ?aad db1) f db2 = (az, db3)"
        by (rule prod.exhaust)
      have "db' = db3" using assms False o1 g Inr d by (simp add: authorize_bot_command_def Let_def)
      then show ?thesis
        using relay_frame_trans [OF frame decide_relay(1) [OF d]] decide_relay(3) [OF d] group_ids_relay(6) [OF g]
          default_organization_kept_rows(5) [OF o1] by simp
    qed
  qed
  then show "relay_frame db db'" "references db' = references db" by simp_all
qed

lemma record_authorization_relay [simp]: "relay_frame db (record_bot_command_authorization w st az ca parsed db)"
proof -
  obtain org db1 where o1: "default_organization st db = (org, db1)" by (rule prod.exhaust)
  have "relay_frame db db1" by (rule default_organization_relay [OF o1])
  also have "relay_frame db1 (record_bot_command_authorization w st az ca parsed db)"
    by (simp add: record_bot_command_authorization_def o1 Let_def)
  finally show ?thesis .
qed

lemma save_activity_relay [simp]: "relay_frame db (save_activity ev db)"
  by (simp add: save_activity_def)

lemma save_reference_relay [simp]: "relay_frame db (save_reference c db)"
  by (simp add: save_reference_def)

lemma upsert_reference_relay:
  assumes "upsert_reference rm w st ca (db, cs) = (res, db', cs')"
  shows "relay_frame db db'" "bot_users db' = bot_users db" "bot_groups db' = bot_groups db" "bot_roles db' = bot_roles db"
    "membership_cache db' = membership_cache db" "organizations db' = organizations db"
  using assms
  by (auto simp: upsert_reference_def Let_def save_reference_def relay_frame_def
      split: if_splits option.splits prod.splits sum.splits)

section \<open>What a command changes\<close>

text \<open>\<open>may\<close> says which permissions the sender holds, \<open>org\<close> is the default organization.\<close>

definition linked_here :: "captured \<Rightarrow> webhook_route \<Rightarrow> bool" where
  "linked_here ca r \<longleftrightarrow>
     (ca_conversation_id ca \<noteq> [] \<and> r_bot_conversation_id r = ca_conversation_id ca) \<or>
     (ca_graph_team_id ca \<noteq> [] \<and> ca_channel_id ca \<noteq> [] \<and>
      r_graph_team_id r = ca_graph_team_id ca \<and> r_graph_channel_id r = ca_channel_id ca)"

definition may_register :: "(string \<Rightarrow> bool) \<Rightarrow> captured \<Rightarrow> bool" where
  "may_register may ca = may (required_bot_permission ''register'' [] ca)"

text \<open>
  A route a command has written: the same URL and name, and either switched on or off, or given other
  address rules, or pointed at the conversation of the sender with its address rules as they were.
\<close>

definition route_edited :: "(string \<Rightarrow> bool) \<Rightarrow> captured \<Rightarrow> webhook_route \<Rightarrow> webhook_route \<Rightarrow> bool" where
  "route_edited may ca r r' \<longleftrightarrow>
     route_ident r' = route_ident r \<and> r_route_token r' = r_route_token r \<and>
     (may ''can_manage_route_status'' \<and> linked_here ca r \<and> (\<exists>b t. r' = r\<lparr>r_is_active := b, r_updated_at := t\<rparr>) \<or>
      may ''can_manage_allowlist'' \<and> linked_here ca r \<and>
        (\<exists>m l t. r' = r\<lparr>r_client_ip_access_mode := m, r_client_ip_allowlist := l, r_updated_at := t\<rparr>) \<or>
      may_register may ca \<and> r_delivery_backend r = ''bot_framework'' \<and> r_is_active r' \<and>
        r_bot_conversation_id r' = ca_conversation_id ca \<and> r_bot_service_url r' = ca_service_url ca \<and>
        r_client_ip_access_mode r' = r_client_ip_access_mode r \<and> r_client_ip_allowlist r' = r_client_ip_allowlist r)"

definition bot_effect :: "(string \<Rightarrow> bool) \<Rightarrow> string \<Rightarrow> captured \<Rightarrow> db \<Rightarrow> db \<Rightarrow> bool" where
  "bot_effect may org ca a b \<longleftrightarrow>
     (\<forall>r \<in> set (routes a). r \<in> set (routes b) \<or> r_organization_id r = org \<and>
        (may ''can_delete_routes'' \<and> linked_here ca r \<or> (\<exists>r' \<in> set (routes b). route_edited may ca r r'))) \<and>
     (\<forall>r' \<in> set (routes b). r' \<in> set (routes a) \<or> (\<exists>r \<in> set (routes a). r_organization_id r = org \<and> route_edited may ca r r') \<or>
        r_id r' \<notin> r_id ` set (routes a) \<and> may_register may ca \<and> r_organization_id r' = org \<and> r_bot_conversation_id r' = ca_conversation_id ca) \<and>
     (\<forall>v \<in> set (reveals b). v \<in> set (reveals a) \<or> may ''can_reveal_webhook_urls'' \<and> rv_organization_id v = org) \<and>
     (deliveries b = deliveries a \<or> may ''can_delete_routes'')"

text \<open>Effects read the three tables only.\<close>

lemma bot_effect_tables:
  assumes "bot_effect may org ca a b" and "relay_frame a0 a" and "relay_frame b c"
  shows "bot_effect may org ca a0 c"
  using assms(1) relay_frameD [OF assms(2)] relay_frameD [OF assms(3)] by (simp add: bot_effect_def)

lemma bot_effect_refl: "bot_effect may org ca a a"
  by (simp add: bot_effect_def)

lemma bot_effect_frame: "relay_frame a b \<Longrightarrow> bot_effect may org ca a b"
  by (rule bot_effect_tables [OF bot_effect_refl]) simp_all

text \<open>A command keeps the constraints of the tables and has its effect.\<close>

definition command_step :: "(string \<Rightarrow> bool) \<Rightarrow> string \<Rightarrow> captured \<Rightarrow> db \<Rightarrow> db \<Rightarrow> bool" where
  "command_step may org ca a b \<longleftrightarrow> (store_ok a \<longrightarrow> store_ok b \<and> bot_effect may org ca a b)"

lemma command_step_frame: "relay_frame a b \<Longrightarrow> command_step may org ca a b"
  by (simp add: command_step_def bot_effect_frame relay_frame_store)

lemma command_step_refl [simp]: "command_step may org ca a a"
  by (rule command_step_frame) simp

lemma command_step_around:
  assumes "relay_frame a b" and "command_step may org ca b c" and "relay_frame c d"
  shows "command_step may org ca a d"
  using assms bot_effect_tables [OF _ assms(1,3)] relay_frame_store by (auto simp: command_step_def)

subsection \<open>Writing one route\<close>

lemma edited_ident: "route_edited may ca r r' \<Longrightarrow> r_id r' = r_id r \<and> route_ident r' = route_ident r"
  by (simp add: route_edited_def route_ident_def)

lemma save_effect:
  assumes "store_ok db" and "old \<in> set (routes db)" and "r_organization_id old = org" and "route_edited may ca old r"
  shows "bot_effect may org ca db (db\<lparr>routes := save_row r_id r (routes db)\<rparr>)"
proof -
  have "x \<in> set (save_row r_id r (routes db)) \<longleftrightarrow> (x \<in> set (routes db) \<and> x \<noteq> old) \<or> x = r" for x
    using edited_ident [OF assms(4)] assms(2) fresh_ids_inject [OF store_okD(4) [OF assms(1)] _ assms(2)]
    by (auto simp: set_save_row)
  then show ?thesis using assms(2-4) by (auto simp: bot_effect_def)
qed

lemma flush_step:
  assumes "flush_route w old r db = (r', db')" and "old \<in> set (routes db)" and "r_organization_id old = org"
    and "\<And>t. route_edited may ca old (r\<lparr>r_updated_at := t\<rparr>)" and "route_valid old \<Longrightarrow> route_valid r"
  shows "command_step may org ca db db'"
proof -
  have "route_ident r = route_ident old"
    using edited_ident [OF assms(4)] by (simp add: route_ident_def)
  then have "store_ok db \<Longrightarrow> store_ok db'"
    by (intro flush_same_ok [OF assms(1) _ assms(2)]) (use assms(2,5) store_okD(7) in auto)
  moreover have "store_ok db \<Longrightarrow> bot_effect may org ca db db'"
    using assms(1) save_effect [OF _ assms(2,3,4)] bot_effect_refl
    by (auto simp: flush_route_def Let_def split: if_splits)
  ultimately show ?thesis by (simp add: command_step_def)
qed

lemma flush_route_rows: "flush_route w old r db = (r', db') \<Longrightarrow> reveals db' = reveals db \<and> next_id db' = next_id db \<and>
    r_organization_id r' = r_organization_id r"
  by (auto simp: flush_route_def Let_def split: if_splits)

lemma append_step:
  assumes "\<not> route_conflict r db" and "r_id r = new_id db" and "route_valid r" and "r_organization_id r = org"
    and "may_register may ca" and "r_bot_conversation_id r = ca_conversation_id ca"
  shows "command_step may org ca db (db\<lparr>routes := routes db @ [r], next_id := Suc (next_id db)\<rparr>)"
proof -
  have "r_id r \<notin> r_id ` set (routes db)" if "store_ok db"
  proof
    assume "r_id r \<in> r_id ` set (routes db)"
    then obtain x where x: "x \<in> set (routes db)" "r_id x = r_id r" by auto
    then show False using fresh_ids_new [OF store_okD(4) [OF that] x(1)] assms(2) by (simp add: new_id_def)
  qed
  then show ?thesis
    using new_route_ok [OF _ assms(1-3)] assms(4-) by (auto simp: command_step_def bot_effect_def)
qed

subsection \<open>Reveal links\<close>

lemma issue_reveal_step:
  assumes "command_step may org ca a b" and "issue_webhook_reveal_url be w st r b = (url, c)"
    and "may ''can_reveal_webhook_urls''" and "r_organization_id r = org"
  shows "command_step may org ca a c"
proof -
  have "store_ok b \<Longrightarrow> store_ok c"
    using assms(2) by (auto simp: issue_webhook_reveal_url_def split: if_splits intro: store_rows.inv_frame)
  moreover have "bot_effect may org ca a b \<Longrightarrow> bot_effect may org ca a c"
    using assms(2-4)
    by (auto simp: issue_webhook_reveal_url_def bot_effect_def new_reveal_def delete_rows_def split: if_splits)
  ultimately show ?thesis using assms(1) by (simp add: command_step_def)
qed

lemma reveal_step:
  assumes "command_step (permitted az) org ca a b" and "reveal_if_permitted be w st az r b = (url, c)"
    and "r_organization_id r = org"
  shows "command_step (permitted az) org ca a c"
  using assms issue_reveal_step [OF assms(1)] by (auto simp: reveal_if_permitted_def split: if_splits)

lemma reveals_step:
  assumes "command_step (permitted az) org ca a b" and "\<And>r. r \<in> set rs \<Longrightarrow> r_organization_id r = org"
  shows "command_step (permitted az) org ca a (snd (issue_reveal_urls be w st az rs b))"
  using assms
proof (induction rs arbitrary: b)
  case (Cons r rs)
  obtain url c where url: "issue_webhook_reveal_url be w st r b = (url, c)" by (rule prod.exhaust)
  show ?case
  proof (cases "r_route_token r \<noteq> [] \<and> permitted az ''can_reveal_webhook_urls''")
    case True
    then have "command_step (permitted az) org ca a c" using issue_reveal_step [OF Cons.prems(1) url] Cons.prems(2) by simp
    then show ?thesis using Cons True url by (simp split: prod.split) (metis snd_conv)
  next
    case False
    then have "issue_reveal_urls be w st az (r # rs) b = issue_reveal_urls be w st az rs b" by auto
    then show ?thesis using Cons by simp
  qed
qed simp

section \<open>The commands\<close>

lemma route_valid_active [simp]: "route_valid (r\<lparr>r_is_active := b\<rparr>) = route_valid r"
  by (simp add: route_valid_def ip_access_ok_def validate_target_def validate_graph_target_def
      route_delivery_backend_def Let_def)

lemma route_valid_access:
  "route_valid (r\<lparr>r_client_ip_access_mode := m, r_client_ip_allowlist := l\<rparr>) \<longleftrightarrow>
   ip_access_ok (r\<lparr>r_client_ip_access_mode := m, r_client_ip_allowlist := l\<rparr>) \<and>
   validate_target (r\<lparr>r_target_name := ''-''\<rparr>) = None"
proof -
  have "validate_target (r\<lparr>r_client_ip_access_mode := m, r_client_ip_allowlist := l, r_target_name := ''-''\<rparr>) =
      validate_target (r\<lparr>r_target_name := ''-''\<rparr>)"
    by (simp add: validate_target_def validate_graph_target_def route_delivery_backend_def Let_def)
  then show ?thesis by (simp add: route_valid_def)
qed

lemma bot_route_audit_relay [simp]: "relay_frame db (record_bot_route_audit w st a r ca m db)"
  by (simp add: record_bot_route_audit_def)

lemma routes_of_conversation_linked:
  "r \<in> set (routes_of_conversation org ca db) \<Longrightarrow> r \<in> set (routes db) \<and> r_organization_id r = org \<and> linked_here ca r"
  using set_first_by [of r_id] by (fastforce simp: routes_of_conversation_def linked_here_def split: if_splits)

lemma route_choice_member: "route_choice n c linked = Inr r \<Longrightarrow> r \<in> set linked"
proof -
  let ?named = "if n \<noteq> [] then List.filter (\<lambda>r. r_name r = n) linked else linked"
  assume a: "route_choice n c linked = Inr r"
  have "r \<in> set ?named"
  proof (cases ?named)
    case (Cons x xs)
    then show ?thesis using a unfolding route_choice_def Let_def Cons by (auto split: if_splits)
  qed (use a in \<open>simp add: route_choice_def Let_def del: if_split\<close>)
  then show ?thesis by (auto split: if_splits)
qed

lemma resolve_linked_route_step:
  assumes "resolve_linked_route st ca n c db = (res, db')"
  shows "relay_frame db db'"
    and "res = Inr r \<Longrightarrow> \<exists>org. default_organization st db = (org, db') \<and> r \<in> set (routes db') \<and>
      r_organization_id r = o_id org \<and> linked_here ca r"
proof -
  obtain org db1 where o1: "default_organization st db = (org, db1)" by (rule prod.exhaust)
  have db': "db' = db1" "res = route_choice n c (routes_of_conversation (o_id org) ca db1)"
    using assms o1 by (auto simp: resolve_linked_route_def find_routes_for_reference_def)
  show "relay_frame db db'" using default_organization_relay [OF o1] db'(1) by simp
  show "\<exists>org. default_organization st db = (org, db') \<and> r \<in> set (routes db') \<and> r_organization_id r = o_id org \<and> linked_here ca r"
    if "res = Inr r"
    using routes_of_conversation_linked [OF route_choice_member [OF that [unfolded db'(2)]]] o1 db'(1) by blast
qed

text \<open>The id of the default organization, which no step changes once it is there.\<close>

definition default_org :: "settings \<Rightarrow> db \<Rightarrow> string" where
  "default_org st db = o_id (fst (default_organization st db))"

lemma default_orgI: "default_organization st db = (org, db') \<Longrightarrow> default_org st db = o_id org"
  by (simp add: default_org_def)

lemma set_active_step:
  assumes "set_route_active_command be w st ca n b az db = (res, db')" and "permitted az ''can_manage_route_status''"
  shows "command_step (permitted az) (default_org st db) ca db db'"
proof (cases "200 < length n")
  case True
  then show ?thesis using assms(1) by (simp add: set_route_active_command_def Let_def)
next
  case False
  let ?c = "if b then ''enable'' else ''disable''"
  obtain found db1 where found: "resolve_linked_route st ca n ?c db = (found, db1)" by (rule prod.exhaust)
  note frame = resolve_linked_route_step(1) [OF found]
  show ?thesis
  proof (cases found)
    case (Inl refused)
    then show ?thesis
      using assms(1) False found frame by (simp add: set_route_active_command_def Let_def command_step_frame)
  next
    case (Inr old)
    obtain org where org: "default_organization st db = (org, db1)" "old \<in> set (routes db1)"
      "r_organization_id old = o_id org" "linked_here ca old"
      using resolve_linked_route_step(2) [OF found Inr] by blast
    obtain r db2 where fl: "flush_route w old (old\<lparr>r_is_active := b\<rparr>) db1 = (r, db2)" by (rule prod.exhaust)
    let ?db3 = "record_bot_route_audit w st (''webhook_route.'' @ (if b then ''enabled'' else ''disabled'')) r ca
      [(''previous_is_active'', JBool (r_is_active old))] db2"
    obtain url db4 where url: "reveal_if_permitted be w st az r ?db3 = (url, db4)" by (rule prod.exhaust)
    have "command_step (permitted az) (o_id org) ca db1 db2"
    proof (rule flush_step [OF fl org(2,3)])
      show "route_edited (permitted az) ca old (old\<lparr>r_is_active := b, r_updated_at := t\<rparr>)" for t
        using assms(2) org(4) by (auto simp: route_edited_def route_ident_def)
    qed simp
    then have "command_step (permitted az) (o_id org) ca db ?db3"
      by (rule command_step_around [OF frame]) simp
    then have "command_step (permitted az) (o_id org) ca db db4"
      using flush_route_rows [OF fl] org(3) by (intro reveal_step [OF _ url]) simp_all
    then show ?thesis
      using assms(1) False found Inr fl url org(1)
      by (simp add: set_route_active_command_def Let_def default_orgI split: prod.splits)
  qed
qed

lemma detach_route_store: "store_ok db \<Longrightarrow> store_ok (detach_route i db)"
proof -
  assume ok: "store_ok db"
  note ok = store_okD [OF ok]
  show ?thesis
  proof (rule store_okI)
    show "events_ok (detach_route i db)"
      unfolding detach_route_def by (rule event_rows.inv_frame [OF events_ok_detach [OF ok(3)]]) simp_all
    show "buckets_ok (detach_route i db)"
      unfolding detach_route_def by (rule bucket_rows.inv_frame [OF ok(2)]) simp_all
  qed (use ok in \<open>simp_all add: detach_route_def\<close>)
qed

lemma detach_route_tables [simp]:
  "routes (detach_route i db) = routes db" "references (detach_route i db) = references db"
  "next_id (detach_route i db) = next_id db" "organizations (detach_route i db) = organizations db"
  by (simp_all add: detach_route_def)

lemma remove_route_tables [simp]:
  "reveals (remove_route i db) = reveals db" "deliveries (remove_route i db) = deliveries db"
  "references (remove_route i db) = references db" "next_id (remove_route i db) = next_id db"
  "routes (remove_route i db) = delete_rows (\<lambda>r. r_id r = i) (routes db)"
  by (simp_all add: remove_route_def)

lemma delete_command_step:
  assumes "delete_linked_route_command w st ca n db = (res, db')" and "may ''can_delete_routes''"
  shows "command_step may (default_org st db) ca db db'"
proof (cases "n = [] \<or> 200 < length n")
  case True
  then have "db' = db" using assms(1) by (auto simp: delete_linked_route_command_def split: if_splits)
  then show ?thesis by simp
next
  case False
  obtain found db1 where found: "resolve_linked_route st ca n ''delete'' db = (found, db1)" by (rule prod.exhaust)
  note frame = resolve_linked_route_step(1) [OF found]
  show ?thesis
  proof (cases found)
    case (Inl refused)
    then show ?thesis
      using assms(1) False found frame by (simp add: delete_linked_route_command_def command_step_frame)
  next
    case (Inr r)
    obtain org where org: "default_organization st db = (org, db1)" "r \<in> set (routes db1)"
      "r_organization_id r = o_id org" "linked_here ca r"
      using resolve_linked_route_step(2) [OF found Inr] by blast
    let ?db2 = "record_bot_route_audit w st ''webhook_route.deleted'' r ca [] (detach_route (r_id r) db1)"
    have db': "db' = remove_route (r_id r) ?db2"
      using assms(1) False found Inr by (simp add: delete_linked_route_command_def)
    have rows: "routes ?db2 = routes db1" "reveals ?db2 = delete_rows (\<lambda>v. rv_route_id v = r_id r) (reveals db1)"
      by (simp_all add: record_bot_route_audit_def detach_route_def)
    have "store_ok db1 \<Longrightarrow> store_ok ?db2"
      by (rule relay_frame_store [OF bot_route_audit_relay detach_route_store])
    then have "store_ok db1 \<Longrightarrow> store_ok db'" unfolding db' remove_route_def by (rule routes_delete_ok)
    moreover have "bot_effect may (o_id org) ca db1 db'" if ok: "store_ok db1"
    proof -
      have "x = r" if "x \<in> set (routes db1)" "r_id x = r_id r" for x
        using fresh_ids_inject [OF store_okD(4) [OF ok] that(1) org(2) that(2)] .
      then show ?thesis using assms(2) org(3,4) rows by (auto simp: bot_effect_def db' delete_rows_def)
    qed
    ultimately have "command_step may (o_id org) ca db1 db'" by (simp add: command_step_def)
    then show ?thesis
      using command_step_around [OF frame, of may "o_id org" ca db' db'] org(1) by (simp add: default_orgI)
  qed
qed

lemma set_allowlist_step:
  assumes "set_allowlist_command w st ca n mode l db = (res, db')" and "may ''can_manage_allowlist''"
    and "mode = ''public'' \<or> mode = ''restricted''"
  shows "command_step may (default_org st db) ca db db'"
proof (cases "200 < length n")
  case True
  then show ?thesis using assms(1) by (simp add: set_allowlist_command_def Let_def)
next
  case False
  obtain found db1 where found: "resolve_linked_route st ca n ''allowlist'' db = (found, db1)" by (rule prod.exhaust)
  note frame = resolve_linked_route_step(1) [OF found]
  show ?thesis
  proof (cases found)
    case (Inl refused)
    then show ?thesis
      using assms(1) False found frame by (simp add: set_allowlist_command_def Let_def command_step_frame)
  next
    case (Inr old)
    obtain org where org: "default_organization st db = (org, db1)" "old \<in> set (routes db1)"
      "r_organization_id old = o_id org" "linked_here ca old"
      using resolve_linked_route_step(2) [OF found Inr] by blast
    show ?thesis
    proof (cases "normalize_client_ip_allowlist l")
      case (Inl e)
      then show ?thesis
        using assms(1) False found \<open>found = Inr old\<close> frame by (simp add: set_allowlist_command_def Let_def command_step_frame)
    next
      case norm: (Inr normalized)
      show ?thesis
      proof (cases "mode = ''restricted'' \<and> normalized = []")
        case True
        then show ?thesis
          using assms(1) False found Inr norm frame by (simp add: set_allowlist_command_def Let_def command_step_frame)
      next
        case listed: False
        let ?l = "if mode = ''restricted'' then normalized else []"
        let ?new = "old\<lparr>r_client_ip_access_mode := mode, r_client_ip_allowlist := ?l\<rparr>"
        obtain r db2 where fl: "flush_route w old ?new db1 = (r, db2)" by (rule prod.exhaust)
        have "ip_access_ok ?new"
          using assms(3) listed allowlist_text_fixed [OF norm] by (auto simp: ip_access_ok_def)
        then have "route_valid old \<Longrightarrow> route_valid ?new"
          unfolding route_valid_access by (simp add: route_valid_def [of old])
        moreover have "route_edited may ca old (?new\<lparr>r_updated_at := t\<rparr>)" for t
          using assms(2) org(4) by (auto simp: route_edited_def route_ident_def)
        ultimately have "command_step may (o_id org) ca db1 db2" by (intro flush_step [OF fl org(2,3)]) simp_all
        then show ?thesis
          using assms(1) False found Inr norm listed fl org(1) command_step_around [OF frame _ bot_route_audit_relay]
          by (auto simp: set_allowlist_command_def Let_def default_orgI split: prod.splits)
      qed
    qed
  qed
qed

lemma show_allowlist_relay: "show_allowlist_command st ca n db = (res, db') \<Longrightarrow> relay_frame db db'"
  using resolve_linked_route_step(1)
  by (auto simp: show_allowlist_command_def split: if_splits prod.splits sum.splits)

lemma startswith_hd: "startswith s (c # p) \<Longrightarrow> hd s = c \<and> s \<noteq> []"
  by (cases s) (auto simp: startswith_def)

text \<open>The argument that sets the allowlist is the one that needs the permission for it.\<close>

lemma allowlist_command_step:
  assumes "allowlist_command w st ca argument db = (res, db')"
    and "may (required_bot_permission ''allowlist'' argument ca)" and "strip argument = argument"
  shows "command_step may (default_org st db) ca db db'"
proof (cases "allowlist_argument_is_write argument")
  case False
  then have "\<exists>n. show_allowlist_command st ca n db = (res, db')"
    using assms(1,3) by (auto simp: allowlist_command_def allowlist_argument_is_write_def Let_def split: if_splits)
  then show ?thesis using show_allowlist_relay command_step_frame by blast
next
  case True
  then have may: "may ''can_manage_allowlist''" using assms(2) by (simp add: required_bot_permission_def)
  let ?lowered = "lower argument"
  have "hd ?lowered \<noteq> CHR ''s'' \<and> ?lowered \<noteq> []"
    using True assms(3)
    by (auto simp: allowlist_argument_is_write_def Let_def simp del: lower_Nil dest!: startswith_hd)
  then have "argument \<noteq> []" "?lowered \<noteq> ''show''" "\<not> startswith ?lowered ''show ''"
    by (auto dest: startswith_hd)
  then have "\<exists>n mode l. set_allowlist_command w st ca n mode l db = (res, db') \<and> (mode = ''public'' \<or> mode = ''restricted'')"
    using True assms(1,3)
    by (auto simp: allowlist_command_def allowlist_argument_is_write_def Let_def split: if_splits prod.splits)
  then show ?thesis using set_allowlist_step may by blast
qed

lemma webhook_command_step:
  assumes "webhook_url_command be w st n az db = (res, db')" and "permitted az ''can_reveal_webhook_urls''"
  shows "command_step (permitted az) (default_org st db) ca db db'"
proof (cases "n = [] \<or> 200 < length n")
  case True
  then have "db' = db" using assms(1) by (auto simp: webhook_url_command_def split: if_splits)
  then show ?thesis by simp
next
  case False
  obtain org db1 where o1: "default_organization st db = (org, db1)" by (rule prod.exhaust)
  note frame = default_organization_relay [OF o1]
  have step: "command_step (permitted az) (o_id org) ca db db1" by (rule command_step_frame [OF frame])
  show ?thesis
  proof (cases "fetch (\<lambda>r. r_organization_id r = o_id org \<and> r_name r = n) (routes db1)")
    case None
    then show ?thesis using assms(1) False o1 step by (simp add: webhook_url_command_def default_orgI)
  next
    case (Some r)
    obtain url db2 where url: "issue_webhook_reveal_url be w st r db1 = (url, db2)" by (rule prod.exhaust)
    have "command_step (permitted az) (o_id org) ca db db2"
      using fetch_Some [OF Some] assms(2) by (intro issue_reveal_step [OF step url]) simp_all
    then show ?thesis
      using assms(1) False o1 Some url step by (auto simp: webhook_url_command_def default_orgI split: if_splits)
  qed
qed

lemma info_command_step:
  assumes "info_command be w st ca reference n az db = (res, db')"
  shows "command_step (permitted az) (default_org st db) ca db db'"
proof (cases "200 < length n")
  case True
  then show ?thesis using assms by (simp add: info_command_def)
next
  case False
  obtain org db1 where o1: "default_organization st db = (org, db1)" by (rule prod.exhaust)
  let ?linked = "routes_of_conversation (o_id org) ca db1"
  have step: "command_step (permitted az) (o_id org) ca db db1"
    by (rule command_step_frame [OF default_organization_relay [OF o1]])
  have org: "r_organization_id r = o_id org" if "r \<in> set ?linked" for r
    using routes_of_conversation_linked [OF that] by simp
  have detail: "command_step (permitted az) (o_id org) ca db (snd (info_detail be w st ca reference r az db1))"
    if "r \<in> set ?linked" for r
  proof -
    obtain url db2 where url: "reveal_if_permitted be w st az r db1 = (url, db2)" by (rule prod.exhaust)
    show ?thesis using reveal_step [OF step url org [OF that]] url by (simp add: info_detail_def)
  qed
  have overview: "command_step (permitted az) (o_id org) ca db (snd (info_overview be w st ca reference ?linked az db1))"
    using reveals_step [OF step org] by (simp add: info_overview_def split_beta Let_def)
  have found: "find_routes_for_reference st ca db = (?linked, db1)" by (simp add: find_routes_for_reference_def o1)
  have "db' = db1 \<or> (\<exists>r \<in> set ?linked. db' = snd (info_detail be w st ca reference r az db1)) \<or>
      db' = snd (info_overview be w st ca reference ?linked az db1)"
  proof (cases "n = []")
    case True
    then show ?thesis using assms False found by (auto simp: info_command_def split: list.splits)
  next
    case named: False
    show ?thesis
    proof (cases "fetch (\<lambda>r. r_name r = n) ?linked")
      case (Some r)
      have "db' = snd (info_detail be w st ca reference r az db1)"
        using assms False found named Some by (simp add: info_command_def)
      then show ?thesis using fetch_Some [OF Some] by blast
    qed (use assms False found named in \<open>simp add: info_command_def\<close>)
  qed
  then show ?thesis using step detail overview o1 by (auto simp: default_orgI)
qed

subsection \<open>register\<close>

text \<open>What an activity says is stripped, so a conversation and a service URL are texts to send to.\<close>

definition captured_ok :: "captured \<Rightarrow> bool" where
  "captured_ok ca \<longleftrightarrow> (ca_service_url ca \<noteq> [] \<longrightarrow> strip (ca_service_url ca) \<noteq> []) \<and>
     (ca_conversation_id ca \<noteq> [] \<longrightarrow> strip (ca_conversation_id ca) \<noteq> [])"

lemma strip_stripped_str [simp]: "strip (stripped_str v) = stripped_str v"
  by (simp add: stripped_str_def split: json.splits)

lemma strip_Nil_iff: "strip s = [] \<longleftrightarrow> (\<forall>c \<in> set s. py_space c)"
proof
  assume a: "strip s = []"
  show "\<forall>c \<in> set s. py_space c"
  proof (rule ccontr)
    assume "\<not> (\<forall>c \<in> set s. py_space c)"
    then have "dropWhile py_space s \<noteq> []" by auto
    then have "\<exists>c \<in> set (dropWhile py_space s). \<not> py_space c" using hd_dropWhile [of py_space s] hd_in_set by metis
    then show False using a by (auto simp: strip_def rstrip_def lstrip_def)
  qed
qed (auto simp: strip_def rstrip_def lstrip_def dropWhile_eq_Nil_conv dest: set_dropWhileD)

lemma text_before_head: "text_before sep s \<noteq> [] \<Longrightarrow> hd (text_before sep s) = hd s"
  by (cases s) auto

lemma extract_activity_ok: "captured_ok (extract_activity activity)"
proof -
  let ?s = "stripped_str (dict_get (as_dict (dict_get activity ''conversation'')) ''id'')"
  let ?c = "normalize_conversation_id ?s"
  have "strip ?c \<noteq> []" if "?c \<noteq> []"
  proof -
    have s: "?s \<noteq> []" using that by (auto simp: normalize_conversation_id_def split: if_splits)
    have "hd ?c = hd ?s"
      using that text_before_head by (auto simp: normalize_conversation_id_def split: if_splits)
    moreover have "\<not> py_space (hd ?s)" using strip_ends(1) [of ?s] s by simp
    ultimately show ?thesis using that hd_in_set [OF that] by (auto simp: strip_Nil_iff)
  qed
  then show ?thesis by (simp add: captured_ok_def extract_activity_def Let_def)
qed

lemma captured_with_reference_same:
  "ca_conversation_id ca \<noteq> [] \<Longrightarrow> ca_conversation_id (captured_with_reference ca c) = ca_conversation_id ca"
  "ca_service_url ca \<noteq> [] \<Longrightarrow> ca_service_url (captured_with_reference ca c) = ca_service_url ca"
  by (simp_all add: captured_with_reference_def fill_str_def)

lemma route_valid_target_type: "route_valid r \<Longrightarrow> r_target_type r = ''bot_conversation''"
  by (auto simp: route_valid_def validate_target_def Let_def split: if_splits)

lemma bot_route_valid:
  assumes "ip_access_ok r" and "r_delivery_backend r = ''bot_framework''" and "r_target_type r = ''bot_conversation''"
    and "strip (r_bot_service_url r) \<noteq> []" and "strip (r_bot_conversation_id r) \<noteq> []"
  shows "route_valid r"
proof -
  have "strip ''bot_framework'' = ''bot_framework''" "strip ''-'' = ''-''"
    by (simp_all add: strip_def lstrip_def rstrip_def py_space_def)
  then have "route_delivery_backend (r\<lparr>r_target_name := ''-''\<rparr>) = ''bot_framework''" "strip ''-'' \<noteq> []"
    using assms(2) by (simp_all add: route_delivery_backend_def or_str_def)
  then show ?thesis using assms by (simp add: route_valid_def validate_target_def Let_def ip_access_ok_def)
qed

lemma pointed_fields [simp]:
  "r_delivery_backend (point_route_at w ca c r) = ''bot_framework''"
  "r_bot_conversation_id (point_route_at w ca c r) = ca_conversation_id ca"
  "r_bot_service_url (point_route_at w ca c r) = ca_service_url ca"
  "r_is_active (point_route_at w ca c r)" "r_id (point_route_at w ca c r) = r_id r"
  "r_organization_id (point_route_at w ca c r) = r_organization_id r" "r_name (point_route_at w ca c r) = r_name r"
  "r_route_token (point_route_at w ca c r) = r_route_token r"
  "r_route_token_hash (point_route_at w ca c r) = r_route_token_hash r"
  "r_target_type (point_route_at w ca c r) = r_target_type r"
  "r_client_ip_access_mode (point_route_at w ca c r) = r_client_ip_access_mode r"
  "r_client_ip_allowlist (point_route_at w ca c r) = r_client_ip_allowlist r"
  by (simp_all add: point_route_at_def)

lemma ip_access_pointed [simp]: "ip_access_ok (point_route_at w ca c r) = ip_access_ok r"
  by (simp add: ip_access_ok_def)

lemma named_like_column:
  assumes "named_like r r'" and "\<And>x. g (x\<lparr>r_graph_team_name := [], r_target_name := []\<rparr>) = g x"
  shows "g r' = g r"
  using assms(1) assms(2) [of r] assms(2) [of r'] by (simp add: named_like_def)

lemma named_like_columns:
  assumes "named_like r r'"
  shows "r_id r' = r_id r" "r_organization_id r' = r_organization_id r" "r_delivery_backend r' = r_delivery_backend r"
    "r_bot_conversation_id r' = r_bot_conversation_id r" "r_bot_service_url r' = r_bot_service_url r"
    "r_is_active r' = r_is_active r" "r_client_ip_access_mode r' = r_client_ip_access_mode r"
    "r_client_ip_allowlist r' = r_client_ip_allowlist r" "r_route_token r' = r_route_token r"
    "route_ident r' = route_ident r"
  by (rule named_like_column [OF assms], simp add: route_ident_def)+

text \<open>The two ways to register: a row that was there, or a new one.\<close>

lemma flush_registered_step:
  assumes "flush_registered w old r db = (r', db')" and "\<not> route_conflict r db" and "may_register may ca"
    and "named_like (point_route_at w ca' c r0) r" and "r_organization_id r0 = org"
    and "ca_conversation_id ca' = ca_conversation_id ca" and "ca_service_url ca' = ca_service_url ca"
    and "captured_ok ca" and "ca_conversation_id ca \<noteq> []" and "ca_service_url ca \<noteq> []"
    and "old = None \<and> r_id r0 = new_id db \<and> ip_access_ok r0 \<and> r_target_type r0 = ''bot_conversation'' \<or>
      old = Some r0 \<and> r0 \<in> set (routes db) \<and> r_delivery_backend r0 = ''bot_framework''"
  shows "command_step may org ca db db'" "r_organization_id r' = org"
proof -
  note cols = named_like_columns [OF assms(4)]
  have valid: "route_valid r" if "ip_access_ok r0" "r_target_type r0 = ''bot_conversation''"
    using assms(6-10) that named_like_valid [OF assms(4)]
    by (auto simp: captured_ok_def intro!: bot_route_valid)
  have "command_step may org ca db db' \<and> r_organization_id r' = org"
  proof (cases old)
    case None
    then have new: "r_id r0 = new_id db" "ip_access_ok r0" "r_target_type r0 = ''bot_conversation''"
      using assms(11) by auto
    have "db' = db\<lparr>routes := routes db @ [r], next_id := Suc (next_id db)\<rparr>" "r' = r"
      using assms(1) None by (auto simp: flush_registered_def)
    moreover have "command_step may org ca db (db\<lparr>routes := routes db @ [r], next_id := Suc (next_id db)\<rparr>)"
      using cols assms(3,5,6) new valid by (intro append_step [OF assms(2)]) simp_all
    ultimately show ?thesis using cols assms(5) by simp
  next
    case (Some x)
    then have old: "old = Some r0" "r0 \<in> set (routes db)" "r_delivery_backend r0 = ''bot_framework''"
      using assms(11) by auto
    have fl: "flush_route w r0 r db = (r', db')" using assms(1) old(1) by (simp add: flush_registered_def)
    have "route_edited may ca r0 (r\<lparr>r_updated_at := t\<rparr>)" for t
      using cols assms(3,6,7) old(3) by (simp add: route_edited_def route_ident_def)
    moreover have "route_valid r0 \<Longrightarrow> route_valid r"
      using valid route_valid_target_type by (simp add: route_valid_def [of r0])
    ultimately have "command_step may org ca db db'" by (rule flush_step [OF fl old(2) assms(5)])
    then show ?thesis using flush_route_rows [OF fl] cols assms(5) by simp
  qed
  then show "command_step may org ca db db'" "r_organization_id r' = org" by simp_all
qed

lemma registered_route_fields [simp]:
  "r_id (registered_route be w org n ca i) = str_nat i" "r_organization_id (registered_route be w org n ca i) = org"
  "ip_access_ok (registered_route be w org n ca i)" "r_target_type (registered_route be w org n ca i) = ''bot_conversation''"
  by (simp_all add: registered_route_def ip_access_ok_def)

lemma register_step:
  assumes "register_route_from_command rm be w st ca n reference az (db, tk) = (res, db', tk')"
    and "may_register (permitted az) ca" and "captured_ok ca"
  shows "command_step (permitted az) (default_org st db) ca db db'"
proof (cases "n = [] \<or> 200 < length n \<or> reference = None \<or> ca_service_url ca = [] \<or> ca_conversation_id ca = []")
  case True
  then have "db' = db"
    using assms(1) by (auto simp: register_route_from_command_def split: if_splits option.splits)
  then show ?thesis by simp
next
  case False
  then obtain c where c: "reference = Some c" and n: "n \<noteq> []" "\<not> 200 < length n"
    and ca: "ca_service_url ca \<noteq> []" "ca_conversation_id ca \<noteq> []" by auto
  obtain org db1 where o1: "default_organization st db = (org, db1)" by (rule prod.exhaust)
  note frame = default_organization_relay [OF o1]
  let ?ca = "captured_with_reference ca c"
  let ?old = "find_bot_route (o_id org) n db1"
  define r0 where "r0 = (case ?old of Some r \<Rightarrow> r | None \<Rightarrow> registered_route be w (o_id org) n ?ca (next_id db1))"
  obtain named r tk1 where names: "try_resolve_route_graph_names rm w st False (point_route_at w ?ca c r0) tk = (named, r, tk1)"
    by (rule prod_cases3)
  have like: "named_like (point_route_at w ?ca c r0) r"
    using try_resolve_route_like [of "point_route_at w ?ca c r0" rm w st False tk] names by simp
  note run = assms(1) [unfolded register_route_from_command_def c option.case fst_conv snd_conv o1 Let_def prod.case
      r0_def [symmetric] names]
  have start: "command_step (permitted az) (o_id org) ca db db1" by (rule command_step_frame [OF frame])
  show ?thesis
  proof (cases "route_conflict r db1 \<or> (\<exists>e. named = Inl e)")
    case True
    then have "db' = db1" using run n ca by (auto split: sum.splits if_splits)
    then show ?thesis using start o1 by (simp add: default_orgI)
  next
    case good: False
    obtain r' db2 where fl: "flush_registered w ?old r db1 = (r', db2)" by (rule prod.exhaust)
    obtain url db3 where url: "reveal_if_permitted be w st az r' db2 = (url, db3)" by (rule prod.exhaust)
    have r0: "r_organization_id r0 = o_id org"
      "?old = None \<and> r_id r0 = new_id db1 \<and> ip_access_ok r0 \<and> r_target_type r0 = ''bot_conversation'' \<or>
       ?old = Some r0 \<and> r0 \<in> set (routes db1) \<and> r_delivery_backend r0 = ''bot_framework''"
      by (auto simp: r0_def find_bot_route_def new_id_def split: option.splits dest: fetch_Some)
    note step = flush_registered_step [OF fl _ assms(2) like r0(1) captured_with_reference_same(1) [OF ca(2)]
        captured_with_reference_same(2) [OF ca(1)] assms(3) ca(2,1) r0(2)]
    have "command_step (permitted az) (o_id org) ca db db2"
      using command_step_around [OF frame step(1), of db2] good by simp
    then have "command_step (permitted az) (o_id org) ca db db3"
      using step(2) good by (intro reveal_step [OF _ url]) simp_all
    moreover have "db' = db3" using run n ca good fl url by (auto split: sum.splits)
    ultimately show ?thesis using o1 by (simp add: default_orgI)
  qed
qed

subsection \<open>Any command\<close>

lemma handle_command_step:
  assumes "handle_command rm be w st ca reference (command, argument) az (db, tk) = (res, db', tk')"
    and "required_bot_permission command argument ca \<noteq> [] \<Longrightarrow> permitted az (required_bot_permission command argument ca)"
    and "captured_ok ca" and "strip argument = argument"
  shows "command_step (permitted az) (default_org st db) ca db db'"
proof -
  note run = assms(1) [unfolded handle_command_def prod.case Let_def fst_conv snd_conv]
  let ?req = "required_bot_permission command argument ca"
  show ?thesis
  proof (cases "ca_activity_type ca = ''message''")
    case False
    then show ?thesis using run by simp
  next
    case message: True
    have "command = ''register'' \<or> command = ''webhook'' \<or> command = ''disable'' \<or> command = ''enable'' \<or> command = ''delete'' \<or> command = ''info'' \<or> command = ''allowlist'' \<or>
        (command \<noteq> ''register'' \<and> command \<noteq> ''webhook'' \<and> command \<noteq> ''disable'' \<and> command \<noteq> ''enable'' \<and> command \<noteq> ''delete'' \<and> command \<noteq> ''info'' \<and> command \<noteq> ''allowlist'')"
      by satx
    then show ?thesis
    proof (elim disjE)
      assume c1: "command = ''register''"
      have "?req \<noteq> []" "?req = required_bot_permission ''register'' [] ca" unfolding c1 by (simp_all add: required_bot_permission_def)
      then have "may_register (permitted az) ca" using assms(2) by (simp add: may_register_def)
      then show ?thesis using run message c1 assms(3) by (intro register_step) simp_all
    next
      assume c2: "command = ''webhook''"
      then have "permitted az ''can_reveal_webhook_urls''" using assms(2) by (simp add: required_bot_permission_def)
      moreover have "db' = snd (webhook_url_command be w st argument az db)"
        using run message c2 by (simp add: split_beta)
      ultimately show ?thesis using webhook_command_step [OF prod.collapse [symmetric]] by simp
    next
      assume c3: "command = ''disable''"
      then have "permitted az ''can_manage_route_status''" using assms(2) by (simp add: required_bot_permission_def)
      moreover have "db' = snd (set_route_active_command be w st ca argument False az db)"
        using run message c3 by (simp add: split_beta)
      ultimately show ?thesis using set_active_step [OF prod.collapse [symmetric]] by simp
    next
      assume c4: "command = ''enable''"
      then have "permitted az ''can_manage_route_status''" using assms(2) by (simp add: required_bot_permission_def)
      moreover have "db' = snd (set_route_active_command be w st ca argument True az db)"
        using run message c4 by (simp add: split_beta)
      ultimately show ?thesis using set_active_step [OF prod.collapse [symmetric]] by simp
    next
      assume c5: "command = ''delete''"
      then have "permitted az ''can_delete_routes''" using assms(2) by (simp add: required_bot_permission_def)
      moreover have "db' = snd (delete_linked_route_command w st ca argument db)"
        using run message c5 by (simp add: split_beta)
      ultimately show ?thesis using delete_command_step [OF prod.collapse [symmetric]] by simp
    next
      assume c6: "command = ''info''"
      then have "db' = snd (info_command be w st ca reference argument az db)"
        using run message by (simp add: split_beta)
      then show ?thesis using info_command_step [OF prod.collapse [symmetric]] by simp
    next
      assume c7: "command = ''allowlist''"
      have "?req \<noteq> []" unfolding c7 by (simp add: required_bot_permission_def)
      then have "permitted az (required_bot_permission ''allowlist'' argument ca)" using assms(2) c7 by simp
      moreover have "db' = snd (allowlist_command w st ca argument db)"
        using run message c7 by (simp add: split_beta)
      ultimately show ?thesis using allowlist_command_step [OF prod.collapse [symmetric]] assms(4) by simp
    next
      assume c8: "command \<noteq> ''register'' \<and> command \<noteq> ''webhook'' \<and> command \<noteq> ''disable'' \<and> command \<noteq> ''enable'' \<and> command \<noteq> ''delete'' \<and> command \<noteq> ''info'' \<and> command \<noteq> ''allowlist''"
      then have "db' = db" using run message by (auto split: if_splits)
      then show ?thesis by simp
    qed
  qed
qed

section \<open>Who may\<close>

text \<open>The groups a sender is in, by a membership that is still kept or by an answer of the directory.\<close>

definition directory_places :: "remote \<Rightarrow> world \<Rightarrow> settings \<Rightarrow> string \<Rightarrow> string \<Rightarrow> db \<Rightarrow> string list \<Rightarrow> bool" where
  "directory_places rm w st org aad db ids \<longleftrightarrow>
     (\<exists>c \<in> set (membership_cache db). gc_organization_id c = org \<and> gc_aad_object_id c = aad \<and> cache_live w c \<and>
        gc_group_ids c = ids) \<or>
     (\<exists>tk tk'. list_user_transitive_group_ids rm w st aad tk = (Inr ids, tk'))"

text \<open>A permission the tables give the sender: by an active row of the user, or of a group.\<close>

definition sender_may :: "remote \<Rightarrow> world \<Rightarrow> settings \<Rightarrow> string \<Rightarrow> captured \<Rightarrow> db \<Rightarrow> string \<Rightarrow> bool" where
  "sender_may rm w st org ca db p \<longleftrightarrow>
     (let aad = lower (strip (ca_graph_user_id ca)) in aad \<noteq> [] \<and>
      ((\<exists>u \<in> set (bot_users db). bu_organization_id u = org \<and> bu_aad_object_id u = aad \<and> bu_is_active u \<and>
          has_permission (user_permissions db u) p) \<or>
       (\<exists>g \<in> set (bot_groups db). bg_organization_id g = org \<and> bg_is_active g \<and> has_permission (group_permissions db g) p \<and>
          (\<exists>ids. directory_places rm w st org aad db ids \<and> bg_group_object_id g \<in> (\<lambda>i. lower (strip i)) ` set ids))))"

lemma has_permission_union: "has_permission (union_bot_permissions ps) p \<longleftrightarrow> (\<exists>q \<in> set ps. has_permission q p)"
  by (auto simp: has_permission_def permission_columns_def union_bot_permissions_def list_ex_iff)

lemma active_bot_user_Some:
  "active_bot_user org aad db = Some u \<Longrightarrow>
   u \<in> set (bot_users db) \<and> bu_organization_id u = org \<and> bu_aad_object_id u = aad \<and> bu_is_active u"
  by (auto simp: active_bot_user_def split: option.splits if_splits dest: fetch_Some)

lemma matching_bot_groups_member:
  "g \<in> set (matching_bot_groups db org ids) \<Longrightarrow> g \<in> set (bot_groups db) \<and> bg_organization_id g = org \<and> bg_is_active g \<and>
   bg_group_object_id g \<in> (\<lambda>i. lower (strip i)) ` set ids"
  by (auto simp: matching_bot_groups_def Let_def split: if_splits)

text \<open>An authorization that allows: the permission the command needs is held, and every permission held
  comes from the tables.\<close>

lemma decide_cases:
  assumes "decide_bot_command w ca (command, argument) org user (ids, cs, ce) db = (az, db')"
  shows "permitted az p \<Longrightarrow> (\<exists>u. user = Some u \<and> has_permission (user_permissions db u) p) \<or>
      cs \<noteq> ''error'' \<and> (\<exists>g \<in> set (matching_bot_groups db org ids). has_permission (group_permissions db g) p)"
    and "az_allowed az \<Longrightarrow> required_bot_permission command argument ca \<noteq> [] \<Longrightarrow>
      permitted az (required_bot_permission command argument ca)"
proof -
  show "(\<exists>u. user = Some u \<and> has_permission (user_permissions db u) p) \<or>
      cs \<noteq> ''error'' \<and> (\<exists>g \<in> set (matching_bot_groups db org ids). has_permission (group_permissions db g) p)"
    if "permitted az p"
    using assms that
    by (auto simp: decide_bot_command_def denied_authorization_def permitted_def Let_def has_permission_union
        split: if_splits option.splits)
  show "permitted az (required_bot_permission command argument ca)"
    if "az_allowed az" "required_bot_permission command argument ca \<noteq> []"
    using assms that
    by (auto simp: decide_bot_command_def denied_authorization_def permitted_def Let_def split: if_splits)
qed

lemma group_ids_places:
  assumes "bot_group_ids_for_sender rm w st org aad (db, tk) = (Inr (ids, cs, ce), db', tk')" and "cs \<noteq> ''error''" and "ids \<noteq> []"
  shows "directory_places rm w st org aad db ids"
  using assms
  by (auto simp: bot_group_ids_for_sender_def find_membership_def directory_places_def Let_def
      split: if_splits option.splits prod.splits sum.splits dest: fetch_Some)

lemma permissions_frame:
  assumes "bot_roles b = bot_roles a"
  shows "user_permissions b u = user_permissions a u" "group_permissions b g = group_permissions a g"
  using assms by (simp_all add: user_permissions_def group_permissions_def effective_bot_permissions_def access_role_def)

lemma denied_not_permitted [simp]: "\<not> permitted (denied_authorization c r) p" "\<not> az_allowed (denied_authorization c r)"
  by (simp_all add: permitted_def denied_authorization_def)

lemma authorize_cases:
  assumes "authorize_bot_command rm w st ca (command, argument) (db, tk) = (Inr az, db', tk')"
    and "default_organization st db = (org, db)"
  shows "permitted az p \<Longrightarrow> sender_may rm w st (o_id org) ca db p"
    and "az_allowed az \<Longrightarrow> required_bot_permission command argument ca \<noteq> [] \<Longrightarrow>
      permitted az (required_bot_permission command argument ca)"
proof -
  let ?aad = "lower (strip (ca_graph_user_id ca))"
  let ?user = "active_bot_user (o_id org) ?aad db"
  have "(permitted az p \<longrightarrow> sender_may rm w st (o_id org) ca db p) \<and>
    (az_allowed az \<longrightarrow> required_bot_permission command argument ca \<noteq> [] \<longrightarrow>
      permitted az (required_bot_permission command argument ca))"
  proof (cases "?aad = []")
    case True
    then have "az = denied_authorization command ''missing_aad_object_id''"
      using assms(1) by (auto simp: authorize_bot_command_def)
    then show ?thesis by simp
  next
    case aad: False
    obtain found db2 tk2 where g: "bot_group_ids_for_sender rm w st (o_id org) ?aad (db, tk) = (found, db2, tk2)"
      by (rule prod_cases3)
    note kept = group_ids_relay [OF g]
    show ?thesis
    proof (cases found)
      case (Inl e)
      then show ?thesis using assms aad g by (simp add: authorize_bot_command_def Let_def)
    next
      case (Inr f)
      obtain ids cs ce where f: "f = (ids, cs, ce)" by (rule prod_cases3)
      obtain az2 db3 where d: "decide_bot_command w ca (command, argument) (o_id org) ?user (ids, cs, ce) db2 = (az2, db3)"
        by (rule prod.exhaust)
      have az: "az2 = az" using assms aad g Inr f d by (simp add: authorize_bot_command_def Let_def)
      note cases = decide_cases [OF d [unfolded az]]
      have "sender_may rm w st (o_id org) ca db p" if "permitted az p"
        using cases(1) [OF that]
      proof (elim disjE exE conjE bexE)
        fix u assume "?user = Some u" "has_permission (user_permissions db2 u) p"
        then show ?thesis
          using aad permissions_frame(1) [OF kept(4)] active_bot_user_Some by (fastforce simp: sender_may_def Let_def)
      next
        fix gr assume gr: "gr \<in> set (matching_bot_groups db2 (o_id org) ids)" "has_permission (group_permissions db2 gr) p"
          and cs: "cs \<noteq> ''error''"
        have "ids \<noteq> []" using gr(1) by (auto simp: matching_bot_groups_def Let_def)
        then have places: "directory_places rm w st (o_id org) ?aad db ids"
          using group_ids_places [OF g [unfolded Inr f] cs] by simp
        have "gr \<in> set (bot_groups db)" "bg_organization_id gr = o_id org" "bg_is_active gr"
            "bg_group_object_id gr \<in> (\<lambda>i. lower (strip i)) ` set ids" "has_permission (group_permissions db gr) p"
          using matching_bot_groups_member [OF gr(1)] gr(2) permissions_frame(2) [OF kept(4)] kept(3) by simp_all
        then have "\<exists>g \<in> set (bot_groups db). bg_organization_id g = o_id org \<and> bg_is_active g \<and>
            has_permission (group_permissions db g) p \<and>
            (\<exists>ids. directory_places rm w st (o_id org) ?aad db ids \<and> bg_group_object_id g \<in> (\<lambda>i. lower (strip i)) ` set ids)"
          using places by blast
        then show ?thesis unfolding sender_may_def Let_def using aad by (intro conjI disjI2)
      qed
      then show ?thesis using cases(2) by simp
    qed
  qed
  then show "permitted az p \<Longrightarrow> sender_may rm w st (o_id org) ca db p"
    "az_allowed az \<Longrightarrow> required_bot_permission command argument ca \<noteq> [] \<Longrightarrow>
      permitted az (required_bot_permission command argument ca)" by simp_all
qed

section \<open>The endpoint\<close>

text \<open>More permissions allow more.\<close>

lemma bot_effect_mono:
  assumes "bot_effect may org ca a b" and "\<And>p. may p \<Longrightarrow> may' p"
  shows "bot_effect may' org ca a b"
proof -
  have edited: "route_edited may ca r r' \<Longrightarrow> route_edited may' ca r r'" for r r'
    unfolding route_edited_def may_register_def using assms(2) by blast
  have old: "r \<in> set (routes b) \<or> r_organization_id r = org \<and>
      (may ''can_delete_routes'' \<and> linked_here ca r \<or> (\<exists>r' \<in> set (routes b). route_edited may ca r r'))"
    if "r \<in> set (routes a)" for r using assms(1) that by (simp add: bot_effect_def)
  have new: "r' \<in> set (routes a) \<or> (\<exists>r \<in> set (routes a). r_organization_id r = org \<and> route_edited may ca r r') \<or>
      r_id r' \<notin> r_id ` set (routes a) \<and> may_register may ca \<and> r_organization_id r' = org \<and> r_bot_conversation_id r' = ca_conversation_id ca"
    if "r' \<in> set (routes b)" for r' using assms(1) that by (simp add: bot_effect_def)
  have rest: "\<forall>v \<in> set (reveals b). v \<in> set (reveals a) \<or> may ''can_reveal_webhook_urls'' \<and> rv_organization_id v = org"
      "deliveries b = deliveries a \<or> may ''can_delete_routes''" using assms(1) by (simp_all add: bot_effect_def)
  show ?thesis
    unfolding bot_effect_def
  proof (intro conjI ballI)
    fix r assume "r \<in> set (routes a)"
    from old [OF this] show "r \<in> set (routes b) \<or> r_organization_id r = org \<and>
      (may' ''can_delete_routes'' \<and> linked_here ca r \<or> (\<exists>r' \<in> set (routes b). route_edited may' ca r r'))"
      using edited assms(2) by blast
  next
    fix r' assume "r' \<in> set (routes b)"
    from new [OF this] show "r' \<in> set (routes a) \<or> (\<exists>r \<in> set (routes a). r_organization_id r = org \<and> route_edited may' ca r r') \<or>
      r_id r' \<notin> r_id ` set (routes a) \<and> may_register may' ca \<and> r_organization_id r' = org \<and> r_bot_conversation_id r' = ca_conversation_id ca"
      using edited assms(2) unfolding may_register_def by blast
  next
    fix v assume "v \<in> set (reveals b)"
    then show "v \<in> set (reveals a) \<or> may' ''can_reveal_webhook_urls'' \<and> rv_organization_id v = org"
      using rest(1) assms(2) by blast
  next
    show "deliveries b = deliveries a \<or> may' ''can_delete_routes''" using rest(2) assms(2) by blast
  qed
qed

lemma command_step_mono:
  "command_step may org ca a b \<Longrightarrow> (\<And>p. may p \<Longrightarrow> may' p) \<Longrightarrow> command_step may' org ca a b"
  using bot_effect_mono by (auto simp: command_step_def)

text \<open>The organization of the deployment is there: it is found by its slug and never created again.\<close>

definition deployed :: "settings \<Rightarrow> organization \<Rightarrow> db \<Rightarrow> bool" where
  "deployed st org db \<longleftrightarrow> fetch (\<lambda>x. o_slug x = default_org_slug st) (organizations db) = Some org"

lemma deployed_default: "deployed st org db \<Longrightarrow> default_organization st db = (org, db)"
  by (simp add: deployed_def default_organization_def)

lemma deployed_same: "deployed st org a \<Longrightarrow> organizations b = organizations a \<Longrightarrow> deployed st org b"
  by (simp add: deployed_def)

lemma deployed_id: "deployed st org db \<Longrightarrow> default_org st db = o_id org"
  by (simp add: default_org_def deployed_default)

lemma authorize_organizations:
  assumes "authorize_bot_command rm w st ca parsed (db, tk) = (res, db', tk')" and "deployed st org db"
  shows "organizations db' = organizations db"
proof (cases "lower (strip (ca_graph_user_id ca)) = []")
  case True
  then show ?thesis using assms(1) by (simp add: authorize_bot_command_def)
next
  case False
  let ?aad = "lower (strip (ca_graph_user_id ca))"
  obtain found db2 tk2 where g: "bot_group_ids_for_sender rm w st (o_id org) ?aad (db, tk) = (found, db2, tk2)"
    by (rule prod_cases3)
  note run = assms(1) [unfolded authorize_bot_command_def Let_def fst_conv snd_conv
      deployed_default [OF assms(2)] prod.case g]
  show ?thesis
  proof (cases found)
    case (Inl e)
    then show ?thesis using run False group_ids_relay(5) [OF g] by simp
  next
    case (Inr f)
    obtain az db3 where d: "decide_bot_command w ca parsed (o_id org) (active_bot_user (o_id org) ?aad db) f db2 = (az, db3)"
      by (rule prod.exhaust)
    then show ?thesis using run False Inr group_ids_relay(5) [OF g] decide_relay(2) [OF d] by simp
  qed
qed

lemma run_command_step:
  assumes "run_command rm be w st ca ev reference (command, argument) (db, tk) = (res, db', tk')"
    and "deployed st org db" and "captured_ok ca" and "strip argument = argument"
  shows "command_step (sender_may rm w st (o_id org) ca db) (o_id org) ca db db'"
proof -
  obtain out db1 tk1 where auth: "authorize_bot_command rm w st ca (command, argument) (db, tk) = (out, db1, tk1)"
    by (rule prod_cases3)
  note frame = authorize_relay(1) [OF auth]
  show ?thesis
  proof (cases out)
    case (Inl e)
    then show ?thesis using assms(1) auth frame by (simp add: run_command_def command_step_frame)
  next
    case (Inr az)
    let ?saved = "save_activity (authorized_event az ev) db1"
    let ?db2 = "record_bot_command_authorization w st az ca (command, argument) ?saved"
    have "relay_frame db1 ?db2" using relay_frame_trans [OF save_activity_relay record_authorization_relay] .
    then have to2: "relay_frame db ?db2" by (rule relay_frame_trans [OF frame])
    show ?thesis
    proof (cases "az_allowed az")
      case False
      then show ?thesis
        using assms(1) auth Inr to2 by (simp add: run_command_def Let_def command_step_frame)
    next
      case True
      have saved: "deployed st org ?saved"
        using authorize_organizations [OF auth assms(2)] by (intro deployed_same [OF assms(2)]) (simp add: save_activity_def)
      have "deployed st org ?db2"
        by (rule deployed_same [OF saved])
          (simp add: record_bot_command_authorization_def deployed_default [OF saved] Let_def)
      then have org: "default_org st ?db2 = o_id org" by (rule deployed_id)
      have run: "handle_command rm be w st ca reference (command, argument) az (?db2, tk1) = (res, db', tk')"
        using assms(1) auth Inr True by (simp add: run_command_def Let_def)
      note cases = authorize_cases [OF auth [unfolded Inr] deployed_default [OF assms(2)]]
      have "command_step (permitted az) (o_id org) ca ?db2 db'"
        using handle_command_step [OF run cases(2) [OF True] assms(3,4)] org by simp
      then have "command_step (sender_may rm w st (o_id org) ca db) (o_id org) ca ?db2 db'"
        by (rule command_step_mono) (rule cases(1))
      then show ?thesis by (rule command_step_around [OF to2 _ relay_frame_refl])
    qed
  qed
qed

lemma sender_may_same:
  assumes "bot_users b = bot_users a" and "bot_groups b = bot_groups a" and "bot_roles b = bot_roles a"
    and "membership_cache b = membership_cache a"
  shows "sender_may rm w st org ca b = sender_may rm w st org ca a"
  using assms permissions_frame [OF assms(3)] by (intro ext) (simp add: sender_may_def directory_places_def)

text \<open>A command that an activity asks for.\<close>

definition asks_for :: "bot_env \<Rightarrow> (string \<times> json) list \<Rightarrow> string \<times> string \<Rightarrow> bool" where
  "asks_for be activity parsed \<longleftrightarrow>
     ca_activity_type (extract_activity activity) = ''message'' \<and> parse_activity_command be activity = Some parsed"

definition activity_step ::
  "remote \<Rightarrow> bot_env \<Rightarrow> world \<Rightarrow> settings \<Rightarrow> string \<Rightarrow> (string \<times> json) list \<Rightarrow> db \<Rightarrow> db \<Rightarrow> bool" where
  "activity_step rm be w st org activity a b \<longleftrightarrow>
     (let ca = extract_activity activity in
      relay_frame a b \<or> (\<exists>parsed. asks_for be activity parsed) \<and> command_step (sender_may rm w st org ca a) org ca a b)"

lemma ingest_step:
  assumes "ingest_activity rm be w st claims activity (db, cs) = (Inr out, db', cs')" and "deployed st org db"
  shows "activity_step rm be w st (o_id org) activity db db'"
proof -
  let ?ca = "extract_activity activity"
  define ev where "ev = new_activity_event claims w activity ?ca (new_id db)"
  define db1 where "db1 = emit_event w st (activity_received ev)
      (db\<lparr>activities := activities db @ [ev], next_id := Suc (next_id db)\<rparr>)"
  have kept1: "relay_frame db db1" "organizations db1 = organizations db" "bot_users db1 = bot_users db"
      "bot_groups db1 = bot_groups db" "bot_roles db1 = bot_roles db" "membership_cache db1 = membership_cache db"
    by (simp_all add: db1_def relay_frame_def)
  obtain up db2 cs2 where up: "upsert_reference rm w st ?ca (db1, cs) = (up, db2, cs2)" by (rule prod_cases3)
  note kept2 = upsert_reference_relay [OF up]
  have frame: "relay_frame db db2" by (rule relay_frame_trans [OF kept1(1) kept2(1)])
  have may: "sender_may rm w st (o_id org) ?ca db2 = sender_may rm w st (o_id org) ?ca db"
    using kept1 kept2 by (intro sender_may_same) simp_all
  have org: "deployed st org db2" using kept1(2) kept2(6) by (intro deployed_same [OF assms(2)]) simp
  note run = assms(1) [unfolded ingest_activity_def Let_def prod.case ev_def [symmetric] db1_def [symmetric] up]
  obtain reference where ref: "up = Inr reference" using run by (cases up) simp_all
  show ?thesis
  proof (cases "if ca_activity_type ?ca = ''message'' then parse_activity_command be activity else None")
    case None
    then have "db' = save_activity (ev\<lparr>ae_bot_authorization_status := ''not_applicable''\<rparr>) db2" using run ref by simp
    then show ?thesis using relay_frame_trans [OF frame save_activity_relay] by (simp add: activity_step_def Let_def)
  next
    case (Some parsed)
    obtain command argument where parsed: "parsed = (command, argument)" by (rule prod.exhaust)
    have asks: "asks_for be activity (command, argument)"
      using Some by (simp add: asks_for_def parsed split: if_splits)
    have "split_words argument = argument"
      using asks by (auto simp: asks_for_def dest: parse_activity_command_known(2))
    then have "strip argument = argument" using strip_split_words [of argument] by simp
    moreover obtain res db3 tk where cmd: "run_command rm be w st ?ca ev reference (command, argument) (db2, app_tokens cs2) = (res, db3, tk)"
      by (rule prod_cases3)
    ultimately have "command_step (sender_may rm w st (o_id org) ?ca db2) (o_id org) ?ca db2 db3"
      using run_command_step [OF cmd org extract_activity_ok] by simp
    moreover have "db' = db3" using run ref Some cmd by (cases res) (simp_all add: parsed)
    ultimately show ?thesis
      using asks command_step_around [OF frame _ relay_frame_refl] by (auto simp: activity_step_def Let_def may)
  qed
qed

lemma send_reply_logged: "send_reply rm w st ca res s = (r, s') \<Longrightarrow> logged (fst s) (fst s')"
  by (auto simp: send_reply_def split: option.splits if_splits prod.splits sum.splits exn.splits dest: send_bot_activity_logged)

lemma logged_relay: "logged a b \<Longrightarrow> relay_frame a b"
  by (auto simp: logged_def relay_frame_def)

lemma receive_step:
  assumes "receive_bot_activity rm be w st claims body (db, cs) = (res, db', cs')" and "deployed st org db"
  shows "relay_frame db db' \<or> (\<exists>activity. json_loads w body = JsonValue (JDict activity) \<and>
      activity_step rm be w st (o_id org) activity db db')"
proof (cases "\<exists>activity. json_loads w body = JsonValue (JDict activity) \<and> body \<noteq> []")
  case False
  then have "db' = db"
    using assms(1) by (auto simp: receive_bot_activity_def parse_json_def split: if_splits json_result.splits json.splits)
  then show ?thesis by simp
next
  case True
  then obtain activity where body: "json_loads w body = JsonValue (JDict activity)" "body \<noteq> []" by blast
  obtain out db1 cs1 where ing: "ingest_activity rm be w st claims activity (db, cs) = (out, db1, cs1)" by (rule prod_cases3)
  note run = assms(1) [unfolded receive_bot_activity_def parse_json_def body(1) json_result.case sum.case json.case ing prod.case]
  show ?thesis
  proof (cases out)
    case (Inl e)
    then show ?thesis using run body(2) by simp
  next
    case (Inr r)
    obtain event_id reference cmd where r: "r = (event_id, reference, cmd)" by (rule prod_cases3)
    have step: "activity_step rm be w st (o_id org) activity db db1" by (rule ingest_step [OF ing [unfolded Inr] assms(2)])
    obtain sent s2 where sent: "send_reply rm w st (extract_activity activity) cmd (db1, cs1) = (sent, s2)" by (rule prod.exhaust)
    have "db' = fst s2" using run body(2) Inr r sent by (auto split: sum.splits)
    then have "relay_frame db1 db'" using logged_relay [OF send_reply_logged [OF sent]] by simp
    then have "activity_step rm be w st (o_id org) activity db db'"
      using step relay_frame_trans command_step_around [OF relay_frame_refl]
      unfolding activity_step_def Let_def by blast
    then show ?thesis using body(1) by blast
  qed
qed

end
