(* ===== verification/Bot_Guarantees.thy ===== *)
theory Bot_Guarantees
  imports Bot_Effects
begin

text \<open>
  What the bot endpoint and the handlers of conversation references guarantee: only a signed activity
  has an effect, only a permitted command changes routes, reveal links or deliveries, no command changes
  a URL, the buttons of cards reach the routes they stand for, the help lists what the sender may run, and memberships are asked for again in time.
\<close>

section \<open>The endpoint\<close>

definition signed_activity ::
  "jwt_library \<Rightarrow> world \<Rightarrow> settings \<Rightarrow> request \<Rightarrow> jwks \<Rightarrow> (string \<times> json) list \<Rightarrow> bool" where
  "signed_activity jl w st rq keys activity \<longleftrightarrow>
     activity_of_body w (concat (rq_stream rq)) = Inr activity \<and>
     token_accepted jl st (map_of (rq_headers rq) ''authorization'') activity keys"

lemma activity_of_body_dict:
  "activity_of_body w body = Inr activity \<Longrightarrow> body \<noteq> [] \<Longrightarrow> json_loads w body = JsonValue (JDict a) \<Longrightarrow> a = activity"
  by (simp add: activity_of_body_def parse_json_def)

lemma endpoint_cases:
  assumes "bot_messages_endpoint jl rm be w st rq ((db, cs), keys) = (res, (db', cs'), keys')"
  shows "(\<exists>e. res = Inl e) \<and> logged db db' \<and> cs' = cs \<or>
    (\<exists>claims activity. signed_activity jl w st rq keys' activity \<and>
      receive_bot_activity rm be w st claims (concat (rq_stream rq)) (db, cs) = (res, db', cs'))"
proof -
  obtain out db1 keys1 where auth: "require_bot_framework_auth jl rm w st rq (db, keys) = (out, db1, keys1)"
    by (rule prod_cases3)
  note run = assms [unfolded bot_messages_endpoint_def Let_def prod.case auth]
  show ?thesis
  proof (cases out)
    case (Inl e)
    then show ?thesis using run require_auth_logged [OF auth] by auto
  next
    case (Inr claims)
    obtain activity where act: "activity_of_body w (concat (rq_stream rq)) = Inr activity" "db1 = db"
      "validate_bot_framework_activity jl rm w st (map_of (rq_headers rq) ''authorization'') activity keys = (Inr claims, keys1)"
      using require_auth_accepted [OF auth [unfolded Inr]] by metis
    have "receive_bot_activity rm be w st claims (concat (rq_stream rq)) (db, cs) = (res, db', cs')" "keys1 = keys'"
      using run Inr act(2) by (auto split: prod.splits)
    then show ?thesis using act(1) validate_accepted(1) [OF act(3)] unfolding signed_activity_def by blast
  qed
qed

lemma endpoint_step:
  assumes "bot_messages_endpoint jl rm be w st rq ((db, cs), keys) = (res, (db', cs'), keys')" and "deployed st org db"
  shows "relay_frame db db' \<or> (\<exists>activity. signed_activity jl w st rq keys' activity \<and>
      activity_step rm be w st (o_id org) activity db db')"
  using endpoint_cases [OF assms(1)]
proof (elim disjE conjE exE)
  assume "logged db db'"
  then show ?thesis using logged_relay by simp
next
  fix claims activity
  assume signed: "signed_activity jl w st rq keys' activity"
    and run: "receive_bot_activity rm be w st claims (concat (rq_stream rq)) (db, cs) = (res, db', cs')"
  show ?thesis
  proof (cases "concat (rq_stream rq) = []")
    case True
    then have "db' = db" using run by (simp add: receive_bot_activity_def)
    then show ?thesis by simp
  next
    case False
    then show ?thesis
      using receive_step [OF run assms(2)] signed activity_of_body_dict [OF _ False]
      unfolding signed_activity_def by blast
  qed
qed

text \<open>An effect keeps the URL, the name and the organization of a route, and leaves the routes of other
  organizations as they were.\<close>

lemma effect_keeps_urls:
  assumes "bot_effect may org ca a b" and "store_ok a" and "store_ok b"
    and "r \<in> set (routes a)" and "r' \<in> set (routes b)" and "r_id r' = r_id r"
  shows "route_ident r' = route_ident r \<and> r_route_token r' = r_route_token r \<and> (r_organization_id r \<noteq> org \<longrightarrow> r' = r)"
proof -
  have same: "x = r" if "x \<in> set (routes a)" "r_id x = r_id r" for x
    using fresh_ids_inject [OF store_okD(4) [OF assms(2)] that(1) assms(4) that(2)] .
  have "r' \<in> set (routes a) \<or> (\<exists>x \<in> set (routes a). r_organization_id x = org \<and> route_edited may ca x r') \<or>
      r_id r' \<notin> r_id ` set (routes a)"
    using assms(1,5) unfolding bot_effect_def by blast
  then show ?thesis
  proof (elim disjE bexE conjE)
    fix x assume x: "x \<in> set (routes a)" "r_organization_id x = org" "route_edited may ca x r'"
    then have "x = r" using edited_ident [OF x(3)] assms(6) same by simp
    then show ?thesis using x by (simp add: route_edited_def)
  qed (use same assms(4,6) in auto)
qed

section \<open>The tables stay in order\<close>

lemma authorize_allowed:
  assumes "authorize_bot_command rm w st ca (command, argument) (db, tk) = (Inr az, db', tk')" and "az_allowed az"
    and "required_bot_permission command argument ca \<noteq> []"
  shows "permitted az (required_bot_permission command argument ca)"
proof -
  let ?aad = "lower (strip (ca_graph_user_id ca))"
  have aad: "?aad \<noteq> []" using assms(1,2) by (auto simp: authorize_bot_command_def)
  obtain org db1 where o1: "default_organization st db = (org, db1)" by (rule prod.exhaust)
  obtain found db2 tk2 where g: "bot_group_ids_for_sender rm w st (o_id org) ?aad (db1, tk) = (found, db2, tk2)"
    by (rule prod_cases3)
  obtain f where f: "found = Inr f" using assms(1) aad o1 g by (cases found) (auto simp: authorize_bot_command_def Let_def)
  obtain ids cs ce where f': "f = (ids, cs, ce)" by (rule prod_cases3)
  obtain az2 db3 where d: "decide_bot_command w ca (command, argument) (o_id org) (active_bot_user (o_id org) ?aad db1)
      (ids, cs, ce) db2 = (az2, db3)" by (rule prod.exhaust)
  have "az2 = az" using assms(1) aad o1 g f f' d by (simp add: authorize_bot_command_def Let_def)
  then show ?thesis using decide_cases(2) [OF d] assms(2,3) by simp
qed

lemma command_step_store: "command_step may org ca a b \<Longrightarrow> store_ok a \<Longrightarrow> store_ok b"
  by (simp add: command_step_def)

lemma run_command_store:
  assumes "run_command rm be w st ca ev reference (command, argument) (db, tk) = (res, db', tk')"
    and "captured_ok ca" and "strip argument = argument" and "store_ok db"
  shows "store_ok db'"
proof -
  obtain out db1 tk1 where auth: "authorize_bot_command rm w st ca (command, argument) (db, tk) = (out, db1, tk1)"
    by (rule prod_cases3)
  have ok1: "store_ok db1" by (rule relay_frame_store [OF authorize_relay(1) [OF auth] assms(4)])
  show ?thesis
  proof (cases out)
    case (Inl e)
    then show ?thesis using assms(1) auth ok1 by (simp add: run_command_def)
  next
    case (Inr az)
    let ?db2 = "record_bot_command_authorization w st az ca (command, argument) (save_activity (authorized_event az ev) db1)"
    have ok2: "store_ok ?db2"
      by (rule relay_frame_store [OF relay_frame_trans [OF save_activity_relay record_authorization_relay] ok1])
    show ?thesis
    proof (cases "az_allowed az")
      case False
      then show ?thesis using assms(1) auth Inr ok2 by (simp add: run_command_def Let_def)
    next
      case True
      have "handle_command rm be w st ca reference (command, argument) az (?db2, tk1) = (res, db', tk')"
        using assms(1) auth Inr True by (simp add: run_command_def Let_def)
      then show ?thesis
        by (rule command_step_store [OF handle_command_step [OF _ authorize_allowed [OF auth [unfolded Inr] True] assms(2,3)] ok2])
    qed
  qed
qed

lemma ingest_store:
  assumes "ingest_activity rm be w st claims activity (db, cs) = (Inr out, db', cs')" and "store_ok db"
  shows "store_ok db'"
proof -
  let ?ca = "extract_activity activity"
  define ev where "ev = new_activity_event claims w activity ?ca (new_id db)"
  define db1 where "db1 = emit_event w st (activity_received ev)
      (db\<lparr>activities := activities db @ [ev], next_id := Suc (next_id db)\<rparr>)"
  have kept1: "relay_frame db db1" by (simp add: db1_def relay_frame_def)
  obtain up db2 cs2 where up: "upsert_reference rm w st ?ca (db1, cs) = (up, db2, cs2)" by (rule prod_cases3)
  have ok: "store_ok db2" by (rule relay_frame_store [OF relay_frame_trans [OF kept1 upsert_reference_relay(1) [OF up]] assms(2)])
  note run = assms(1) [unfolded ingest_activity_def Let_def prod.case ev_def [symmetric] db1_def [symmetric] up]
  obtain reference where ref: "up = Inr reference" using run by (cases up) simp_all
  show ?thesis
  proof (cases "if ca_activity_type ?ca = ''message'' then parse_activity_command be activity else None")
    case None
    then have "db' = save_activity (ev\<lparr>ae_bot_authorization_status := ''not_applicable''\<rparr>) db2" using run ref by simp
    then show ?thesis using relay_frame_store [OF save_activity_relay ok] by simp
  next
    case (Some parsed)
    obtain command argument where parsed: "parsed = (command, argument)" by (rule prod.exhaust)
    have "split_words argument = argument"
      using Some by (auto simp: parsed split: if_splits dest: parse_activity_command_known(2))
    then have arg: "strip argument = argument" using strip_split_words [of argument] by simp
    obtain res db3 tk where cmd: "run_command rm be w st ?ca ev reference (command, argument) (db2, app_tokens cs2) = (res, db3, tk)"
      by (rule prod_cases3)
    moreover have "db' = db3" using run ref Some cmd by (cases res) (simp_all add: parsed)
    ultimately show ?thesis using run_command_store [OF cmd extract_activity_ok arg ok] by simp
  qed
qed

lemma receive_store:
  assumes "receive_bot_activity rm be w st claims body (db, cs) = (res, db', cs')" and "store_ok db"
  shows "store_ok db'"
proof (cases "\<exists>activity. json_loads w body = JsonValue (JDict activity) \<and> body \<noteq> []")
  case False
  then have "db' = db"
    using assms(1) by (auto simp: receive_bot_activity_def parse_json_def split: if_splits json_result.splits json.splits)
  then show ?thesis using assms(2) by simp
next
  case True
  then obtain activity where body: "json_loads w body = JsonValue (JDict activity)" "body \<noteq> []" by blast
  obtain out db1 cs1 where ing: "ingest_activity rm be w st claims activity (db, cs) = (out, db1, cs1)" by (rule prod_cases3)
  note run = assms(1) [unfolded receive_bot_activity_def parse_json_def body(1) json_result.case sum.case json.case ing prod.case]
  show ?thesis
  proof (cases out)
    case (Inl e)
    then show ?thesis using run body(2) assms(2) by simp
  next
    case (Inr r)
    obtain event_id reference cmd where r: "r = (event_id, reference, cmd)" by (rule prod_cases3)
    obtain sent s2 where sent: "send_reply rm w st (extract_activity activity) cmd (db1, cs1) = (sent, s2)" by (rule prod.exhaust)
    have "db' = fst s2" using run body(2) Inr r sent by (auto split: sum.splits)
    then have "relay_frame db1 db'" using logged_relay [OF send_reply_logged [OF sent]] by simp
    then show ?thesis using ingest_store [OF ing [unfolded Inr] assms(2)] relay_frame_store by blast
  qed
qed

lemma endpoint_store:
  assumes "bot_messages_endpoint jl rm be w st rq ((db, cs), keys) = (res, (db', cs'), keys')" and "store_ok db"
  shows "store_ok db'"
  using endpoint_cases [OF assms(1)] receive_store [OF _ assms(2)] relay_frame_store [OF logged_relay assms(2)] by blast

section \<open>Conversation references\<close>

lemma fold_save_reference_relay: "relay_frame db (fold save_reference rows db)"
  by (induction rows arbitrary: db) (auto intro: relay_frame_trans [OF save_reference_relay])

lemma list_references_relay: "list_bot_conversation_references rm w st (db, cs) = (res, db', cs') \<Longrightarrow> relay_frame db db'"
  using fold_save_reference_relay by (auto simp: list_bot_conversation_references_def Let_def split: prod.splits sum.splits)

lemma route_audit_relay [simp]: "relay_frame db (route_audit w st admin a m db)"
  by (simp add: route_audit_def)

lemma refresh_reference_relay:
  "refresh_bot_conversation_reference_members rm w st admin i (db, cs) = (res, db', cs') \<Longrightarrow> relay_frame db db'"
  using relay_frame_trans [OF save_reference_relay route_audit_relay]
  by (auto simp: refresh_bot_conversation_reference_members_def Let_def split: sum.splits prod.splits)

lemma route_audit_references [simp]: "references (route_audit w st admin a m db) = references db"
  by (simp add: route_audit_def)

text \<open>What goes with a list of routes.\<close>

definition detached :: "webhook_route list \<Rightarrow> delivery_event \<Rightarrow> delivery_event" where
  "detached rs d = (if \<exists>r \<in> set rs. d_route_id d = Some (r_id r) then d\<lparr>d_route_id := None\<rparr> else d)"

lemma delete_linked_routes_tables:
  "routes (fold (delete_linked_route w st admin i) rs db) = List.filter (\<lambda>x. r_id x \<notin> r_id ` set rs) (routes db) \<and>
   reveals (fold (delete_linked_route w st admin i) rs db) = List.filter (\<lambda>v. rv_route_id v \<notin> r_id ` set rs) (reveals db) \<and>
   deliveries (fold (delete_linked_route w st admin i) rs db) = List.map (detached rs) (deliveries db) \<and>
   references (fold (delete_linked_route w st admin i) rs db) = references db"
proof (induction rs arbitrary: db)
  case Nil
  have "detached [] = (\<lambda>d. d)" by (rule ext) (simp add: detached_def)
  then show ?case by simp
next
  case (Cons r rs)
  let ?db = "delete_linked_route w st admin i r db"
  have here: "routes ?db = List.filter (\<lambda>x. r_id x \<noteq> r_id r) (routes db)"
    "reveals ?db = List.filter (\<lambda>v. rv_route_id v \<noteq> r_id r) (reveals db)"
    "deliveries ?db = List.map (\<lambda>d. if d_route_id d = Some (r_id r) then d\<lparr>d_route_id := None\<rparr> else d) (deliveries db)"
    "references ?db = references db"
    by (simp_all add: delete_linked_route_def delete_rows_def detach_route_def update_rows_def)
  have "detached rs (if d_route_id d = Some (r_id r) then d\<lparr>d_route_id := None\<rparr> else d) = detached (r # rs) d" for d
    by (auto simp: detached_def)
  then have "List.map (detached rs) (deliveries ?db) = List.map (detached (r # rs)) (deliveries db)"
    by (simp add: here(3) o_def)
  then show ?case
    using Cons [of ?db] here(1,2,4) by (simp add: conj_commute)
qed

lemma delete_linked_routes_ok: "store_ok db \<Longrightarrow> store_ok (fold (delete_linked_route w st admin i) rs db)"
proof (induction rs arbitrary: db)
  case (Cons r rs)
  have "store_ok (delete_linked_route w st admin i r db)"
    unfolding delete_linked_route_def remove_route_def
    by (rule routes_delete_ok [OF relay_frame_store [OF route_audit_relay detach_route_store [OF Cons.prems]]])
  then show ?case using Cons.IH by simp
qed simp

lemma delete_reference_ok:
  assumes "delete_bot_conversation_reference w st admin i flag db = (res, db')" and "store_ok db"
  shows "store_ok db'"
proof (cases "get_conversation_reference i db")
  case (Inr c)
  let ?linked = "find_routes_for_conversation_reference (u_organization_id admin) c db"
  have "store_ok (route_audit w st admin a m (fold (delete_linked_route w st admin k) ?linked db)\<lparr>references := rs\<rparr>)" for a m rs k
    using relay_frame_store [OF relay_frame_trans [OF route_audit_relay relay_frame_other(5)] delete_linked_routes_ok [OF assms(2)]] .
  then show ?thesis using assms Inr by (auto simp: delete_bot_conversation_reference_def Let_def split: if_splits)
qed (use assms in \<open>simp add: delete_bot_conversation_reference_def\<close>)

lemma found_routes: "set (find_routes_for_conversation_reference org c db) =
    {r \<in> set (routes db). r_organization_id r = org \<and> linked_to_reference c r}" if "store_ok db"
proof -
  have "distinct (List.map r_id (latest_routes org P db))" for P
  proof -
    have "distinct (List.map r_id (routes db))" using store_okD(4) [OF that] by (simp add: fresh_ids_def)
    then have "inj_on r_id (set (routes db))" "distinct (routes db)" by (simp_all add: distinct_map)
    then show ?thesis unfolding latest_routes_def by (simp add: distinct_map inj_on_def)
  qed
  then show ?thesis by (simp add: find_routes_for_conversation_reference_def first_by_id)
qed

section \<open>Who has an effect\<close>

lemma effect_other_organizations:
  assumes "bot_effect may org ca a b"
  shows "{x \<in> set (routes b). r_organization_id x \<noteq> org} = {x \<in> set (routes a). r_organization_id x \<noteq> org}"
proof -
  have "r_organization_id x = r_organization_id r" if "route_edited may ca r x" for r x
    using edited_ident [OF that] by (simp add: route_ident_def)
  then show ?thesis using assms unfolding bot_effect_def by (safe; metis)
qed

lemma effect_of_endpoint:
  assumes "bot_messages_endpoint jl rm be w st rq ((db, cs), keys) = (res, (db', cs'), keys')" and "deployed st org db"
    and "store_ok db"
  shows "store_ok db' \<and> (relay_frame db db' \<or>
    (\<exists>activity parsed. signed_activity jl w st rq keys' activity \<and> asks_for be activity parsed \<and>
       bot_effect (sender_may rm w st (o_id org) (extract_activity activity) db) (o_id org) (extract_activity activity) db db'))"
  using endpoint_step [OF assms(1,2)] endpoint_store [OF assms(1,3)] assms(3)
  unfolding activity_step_def Let_def command_step_def by blast

text \<open>C9: an activity that does not carry a token signed by one of the keys in hand, for this application and
  for the service URL the activity names, is refused: nothing is read from its command, no conversation is
  captured, nothing is sent, and only the event log grows.\<close>

theorem unsigned_activity_refused:
  assumes "bot_messages_endpoint jl rm be w st rq ((db, cs), keys) = (res, (db', cs'), keys')"
    and "\<nexists>activity. signed_activity jl w st rq keys' activity"
  shows "\<exists>e. res = Inl e \<and> logged db db' \<and> cs' = cs"
  using endpoint_cases [OF assms(1)] assms(2) by blast


text \<open>C10: no activity changes the URL, the name or the organization of a route that is there, and the routes
  of other organizations than the one of the deployment stay exactly as they are.\<close>

theorem bot_never_changes_urls:
  assumes "bot_messages_endpoint jl rm be w st rq ((db, cs), keys) = (res, (db', cs'), keys')" and "deployed st org db"
    and "store_ok db"
  shows "{(route_ident x, r_route_token x) | x. x \<in> set (routes db') \<and> r_id x \<in> r_id ` set (routes db)} \<subseteq>
      {(route_ident x, r_route_token x) | x. x \<in> set (routes db)} \<and>
    {x \<in> set (routes db'). r_organization_id x \<noteq> o_id org} = {x \<in> set (routes db). r_organization_id x \<noteq> o_id org}"
proof -
  note ok = effect_of_endpoint [OF assms]
  consider "relay_frame db db'" | may ca where "bot_effect may (o_id org) ca db db'" using ok by blast
  then show ?thesis
  proof cases
    case 1
    then show ?thesis by (auto simp: relay_frame_def)
  next
    case 2
    have "route_ident x = route_ident r \<and> r_route_token x = r_route_token r"
      if "x \<in> set (routes db')" "r \<in> set (routes db)" "r_id x = r_id r" for x r
      using effect_keeps_urls [OF 2 assms(3) conjunct1 [OF ok] that(2,1,3)] by blast
    then show ?thesis using effect_other_organizations [OF 2] by fastforce
  qed
qed

text \<open>C11: deleting a conversation reference either deletes exactly the linked routes of the organization with
  their reveal links, lets their deliveries forget them, and deletes the reference; or it is refused,
  because the reference is unknown or because routes are linked and their deletion was not confirmed, and
  then nothing changes.\<close>

theorem deleted_reference_takes_its_routes:
  assumes "store_ok db"
  shows "case get_conversation_reference i db of
      Inl e \<Rightarrow> delete_bot_conversation_reference w st admin i confirmed db = (Inl e, db)
    | Inr c \<Rightarrow>
        let linked = {r \<in> set (routes db). r_organization_id r = u_organization_id admin \<and> linked_to_reference c r}; (res, db') =
          delete_bot_conversation_reference w st admin i confirmed db
        in if linked \<noteq> {} \<and> \<not> confirmed then (\<exists>m. res = Inl (HTTPException 409 m)) \<and> db' = db
           else res = Inr () \<and> set (routes db') = set (routes db) - linked \<and>
             reveals db' = List.filter (\<lambda>v. rv_route_id v \<notin> r_id ` linked) (reveals db) \<and>
             deliveries db' = List.map (\<lambda>d. if d_route_id d \<in> Some ` r_id ` linked then d\<lparr>d_route_id := None\<rparr> else d) (deliveries db) \<and>
             references db' = List.filter (\<lambda>x. cr_id x \<noteq> cr_id c) (references db)"
proof (cases "get_conversation_reference i db")
  case (Inr c)
  define fs where "fs = find_routes_for_conversation_reference (u_organization_id admin) c db"
  define L where "L = {r \<in> set (routes db). r_organization_id r = u_organization_id admin \<and> linked_to_reference c r}"
  define db1 where "db1 = fold (delete_linked_route w st admin (cr_id c)) fs db"
  have found: "set fs = L" unfolding fs_def L_def by (rule found_routes [OF assms])
  have ids: "r_id x \<notin> r_id ` L \<longleftrightarrow> x \<notin> L" if "x \<in> set (routes db)" for x
    using fresh_ids_inject [OF store_okD(4) [OF assms] that] unfolding L_def by blast
  have "detached fs = (\<lambda>d. if d_route_id d \<in> Some ` r_id ` L then d\<lparr>d_route_id := None\<rparr> else d)"
    by (rule ext) (auto simp: detached_def found)
  then have tables: "set (routes db1) = set (routes db) - L"
      "reveals db1 = List.filter (\<lambda>v. rv_route_id v \<notin> r_id ` L) (reveals db)"
      "deliveries db1 = List.map (\<lambda>d. if d_route_id d \<in> Some ` r_id ` L then d\<lparr>d_route_id := None\<rparr> else d) (deliveries db)"
      "references db1 = references db"
    using delete_linked_routes_tables [of w st admin "cr_id c" fs db] ids unfolding found db1_def by auto
  have empty: "fs = [] \<longleftrightarrow> L = {}" using found by (metis set_empty)
  show ?thesis
    unfolding Inr sum.case delete_bot_conversation_reference_def Let_def fs_def [symmetric] L_def [symmetric] db1_def [symmetric] empty
    using tables by (simp add: delete_rows_def)
qed (simp add: delete_bot_conversation_reference_def)

section \<open>Help, buttons and memberships\<close>

text \<open>The permissions that let a command run, in some conversation and with some argument.\<close>

lemma required_permissions:
  "required_bot_permission ''help'' argument ca = []" "required_bot_permission ''info'' argument ca = ''can_view_routes''"
  "required_bot_permission ''webhook'' argument ca = ''can_reveal_webhook_urls''"
  "required_bot_permission ''enable'' argument ca = ''can_manage_route_status''"
  "required_bot_permission ''disable'' argument ca = ''can_manage_route_status''"
  "required_bot_permission ''delete'' argument ca = ''can_delete_routes''"
  by (simp_all add: required_bot_permission_def)

lemma register_permissions:
  "(\<exists>argument ca. P (required_bot_permission ''register'' argument ca)) \<longleftrightarrow>
   P ''can_create_channel_routes'' \<or> P ''can_create_private_chat_routes''"
proof
  assume "\<exists>argument ca. P (required_bot_permission ''register'' argument ca)"
  then show "P ''can_create_channel_routes'' \<or> P ''can_create_private_chat_routes''"
    by (auto simp: required_bot_permission_def split: if_splits)
next
  have channel: "scope_for (undefined\<lparr>ca_conversation_type := [], ca_team_id := ''t'', ca_channel_id := ''c''\<rparr>) = ''channel''"
    and person: "scope_for (undefined\<lparr>ca_conversation_type := ''personal''\<rparr>) = ''user''"
    by (simp_all add: scope_for_def)
  have "required_bot_permission ''register'' [] (undefined\<lparr>ca_conversation_type := [], ca_team_id := ''t'', ca_channel_id := ''c''\<rparr>)
      = ''can_create_channel_routes''"
    "required_bot_permission ''register'' [] (undefined\<lparr>ca_conversation_type := ''personal''\<rparr>) = ''can_create_private_chat_routes''"
    by (simp_all add: required_bot_permission_def channel person)
  moreover assume "P ''can_create_channel_routes'' \<or> P ''can_create_private_chat_routes''"
  ultimately show "\<exists>argument ca. P (required_bot_permission ''register'' argument ca)" by metis
qed

lemma allowlist_permissions:
  "(\<exists>argument ca. P (required_bot_permission ''allowlist'' argument ca)) \<longleftrightarrow> P ''can_manage_allowlist'' \<or> P ''can_view_routes''"
proof
  assume "\<exists>argument ca. P (required_bot_permission ''allowlist'' argument ca)"
  then show "P ''can_manage_allowlist'' \<or> P ''can_view_routes''"
    by (auto simp: required_bot_permission_def split: if_splits)
next
  have "allowlist_argument_is_write ''public''" by code_simp
  moreover have "\<not> allowlist_argument_is_write []" by code_simp
  ultimately have "required_bot_permission ''allowlist'' ''public'' undefined = ''can_manage_allowlist''"
    "required_bot_permission ''allowlist'' [] undefined = ''can_view_routes''"
    by (simp_all add: required_bot_permission_def)
  moreover assume "P ''can_manage_allowlist'' \<or> P ''can_view_routes''"
  ultimately show "\<exists>argument ca. P (required_bot_permission ''allowlist'' argument ca)" by metis
qed

definition may_run :: "bot_authorization \<Rightarrow> string \<Rightarrow> bool" where
  "may_run az command \<longleftrightarrow>
     (\<exists>argument ca. let p = required_bot_permission command argument ca in p = [] \<or> permitted az p)"

lemma may_run_simps:
  "may_run az ''help''" "may_run az ''info'' = permitted az ''can_view_routes''"
  "may_run az ''webhook'' = permitted az ''can_reveal_webhook_urls''"
  "may_run az ''enable'' = permitted az ''can_manage_route_status''"
  "may_run az ''disable'' = permitted az ''can_manage_route_status''"
  "may_run az ''delete'' = permitted az ''can_delete_routes''"
  "may_run az ''register'' \<longleftrightarrow> permitted az ''can_create_private_chat_routes'' \<or> permitted az ''can_create_channel_routes''"
  "may_run az ''allowlist'' \<longleftrightarrow> permitted az ''can_view_routes'' \<or> permitted az ''can_manage_allowlist''"
  using register_permissions [of "\<lambda>p. p = [] \<or> permitted az p"] allowlist_permissions [of "\<lambda>p. p = [] \<or> permitted az p"]
  by (auto simp: may_run_def required_permissions Let_def)

definition first_word :: "string \<Rightarrow> string" where
  "first_word s = takeWhile (\<lambda>c. c \<noteq> CHR '' '') s"

lemma first_words:
  "first_word ''register <route name>'' = ''register''" "first_word ''webhook <route name>'' = ''webhook''"
  "first_word ''disable [route name]'' = ''disable''" "first_word ''enable [route name]'' = ''enable''"
  "first_word ''delete <route name>'' = ''delete''" "first_word ''info [route name]'' = ''info''"
  "first_word ''allowlist [route name]'' = ''allowlist''" "first_word ''help'' = ''help''"
  by code_simp+

text \<open>The help lists exactly the commands that the sender may run with some argument in some conversation.\<close>

theorem help_lists_what_may_run:
  "List.map (first_word \<circ> fst) (available_help_commands az) = List.filter (may_run az) KNOWN_COMMANDS"
  unfolding available_help_commands_def KNOWN_COMMANDS_def
  by (cases "permitted az ''can_view_routes''"; cases "permitted az ''can_manage_route_status''";
      cases "permitted az ''can_reveal_webhook_urls''"; cases "permitted az ''can_delete_routes''")
    (simp_all add: may_run_simps first_words)

text \<open>\<open>html.unescape\<close> changes nothing where there is no ampersand.\<close>

definition unescape_plain :: "bot_env \<Rightarrow> bool" where
  "unescape_plain be \<longleftrightarrow> (\<forall>s. CHR ''&'' \<notin> set s \<longrightarrow> html_unescape be s = s)"

lemma safe_command_cases:
  "c \<in> set SAFE_SUBMIT_COMMANDS \<longleftrightarrow> c = ''webhook'' \<or> c = ''disable'' \<or> c = ''enable'' \<or> c = ''info'' \<or> c = ''help''"
  by (simp add: SAFE_SUBMIT_COMMANDS_def)

lemma safe_commands_parse:
  assumes "unescape_plain be" and "c \<in> set SAFE_SUBMIT_COMMANDS"
  shows "strip c = c" "c \<noteq> []" "parse_command be c = Some (c, [])"
proof -
  have facts: "list_all (\<lambda>c. strip c = c \<and> c \<noteq> [] \<and> without_mentions c = c \<and> CHR ''&'' \<notin> set c \<and> hd c \<noteq> CHR ''/'' \<and>
      ascii_letter (hd c) \<and> takeWhile command_char c = c \<and> dropWhile command_char c = [] \<and> lower c = c \<and> c \<in> set KNOWN_COMMANDS)
      SAFE_SUBMIT_COMMANDS" by code_simp
  note c = facts [unfolded list_all_iff, rule_format, OF assms(2)]
  show "strip c = c" "c \<noteq> []" using c by blast+
  have "html_unescape be c = c" using assms(1) c unfolding unescape_plain_def by blast
  moreover have split: "takeWhile command_char c = c" "dropWhile command_char c = []" using c by blast+
  ultimately show "parse_command be c = Some (c, [])" using c by (simp add: parse_command_def Let_def split)
qed

lemma submitted_command:
  assumes "unescape_plain be" and "c \<in> set SAFE_SUBMIT_COMMANDS" and "split_words n = n"
    and "dict_get activity ''value'' = dict_get (as_dict (submit_command_action title c n)) ''data''"
  shows "parse_activity_command be activity = Some (c, n)"
proof -
  note c = safe_commands_parse [OF assms(1,2)]
  let ?d = "(''command'', JStr c) # (if n = [] then [] else [(''route_name'', JStr n)])"
  have posted: "as_dict (dict_get activity ''value'') = ?d"
    using assms(4) by (simp add: submit_command_action_def as_dict_def dict_get_def)
  have "strip n = n" using strip_split_words [of n] assms(3) by simp
  then have gets: "stripped_str (dict_get ?d ''command'') = c" "stripped_str (dict_get ?d ''route_name'') = n"
    "stripped_str (dict_get ?d ''routeName'') = []" "stripped_str (dict_get ?d ''route'') = []"
    "stripped_str (dict_get ?d ''argument'') = []"
    by (simp_all add: dict_get_def stripped_str_def c(1))
  have "parse_submit_command be ?d = Some (c, n)"
    unfolding parse_submit_command_def Let_def gets c(1)
    using c(2,3) assms(2,3) by (simp add: or_str_def)
  then show ?thesis by (simp add: parse_activity_command_def posted)
qed

text \<open>Among the routes of a conversation a name that only one has is that one.\<close>

lemma route_choice_named:
  assumes "r \<in> set linked" and "r_name r \<noteq> []" and "\<And>x. x \<in> set linked \<Longrightarrow> r_name x = r_name r \<Longrightarrow> x = r"
  shows "route_choice (r_name r) c linked = Inr r"
proof -
  have "r \<in> set (List.filter (\<lambda>x. r_name x = r_name r) linked)" using assms(1) by simp
  then obtain x xs where eq: "List.filter (\<lambda>x. r_name x = r_name r) linked = x # xs"
    by (cases "List.filter (\<lambda>x. r_name x = r_name r) linked") auto
  then have "x \<in> set (List.filter (\<lambda>x. r_name x = r_name r) linked)" by simp
  then have "x = r" using assms(3) by simp
  then show ?thesis using assms(2) eq by (simp add: route_choice_def Let_def)
qed

lemma named_in_conversation:
  assumes "store_ok db" and "r \<in> set (routes_of_conversation org ca db)" and "x \<in> set (routes_of_conversation org ca db)"
    and "r_name x = r_name r" and "r_delivery_backend x = r_delivery_backend r"
  shows "x = r"
proof -
  have "name_key x = name_key r"
    using assms(4,5) routes_of_conversation_linked [OF assms(2)] routes_of_conversation_linked [OF assms(3)]
    by (simp add: name_key_def)
  then show ?thesis
    using store_okD(6) [OF assms(1)] routes_of_conversation_linked [OF assms(2)] routes_of_conversation_linked [OF assms(3)]
    by (metis distinct_map inj_onD)
qed


subsection \<open>Memberships\<close>

lemma fetch_filled:
  assumes "fetch P rows = Some c" and "P (filled c)" and "f (filled c) = f c" and "distinct (List.map f rows)"
  shows "fetch P (save_row f (filled c) rows) = Some (filled c)"
  using assms
proof (induction rows)
  case (Cons x xs)
  show ?case
  proof (cases "P x")
    case True
    then have "x = c" using Cons.prems(1) by simp
    then show ?thesis using Cons.prems(2,3) by (simp add: save_row_def)
  next
    case False
    then have "fetch P xs = Some c" using Cons.prems(1) by simp
    then have "c \<in> set xs" using fetch_Some by fast
    then have "f x \<noteq> f c" using Cons.prems(4) by auto
    then show ?thesis
      using False Cons \<open>fetch P xs = Some c\<close> by (simp add: save_row_def)
  qed
qed simp

lemma membership_found_found:
  assumes "distinct (List.map gc_id (membership_cache db))"
  shows "\<exists>c. find_membership org aad (membership_found w org aad ids (find_membership org aad db) db) = Some c \<and>
    gc_group_ids c = ids \<and> gc_expires_at c = Some (utcnow w + BOT_GROUP_MEMBERSHIP_CACHE_TTL) \<and> gc_last_error c = []"
proof (cases "find_membership org aad db")
  case None
  then show ?thesis by (simp add: membership_found_def find_membership_def fetch_append)
next
  case (Some c)
  let ?P = "\<lambda>c. gc_organization_id c = org \<and> gc_aad_object_id c = aad"
  let ?fill = "\<lambda>c. c\<lparr>gc_group_ids := ids, gc_checked_at := Some (utcnow w),
            gc_expires_at := Some (utcnow w + BOT_GROUP_MEMBERSHIP_CACHE_TTL), gc_last_error := []\<rparr>"
  have "fetch ?P (save_row gc_id (?fill c) (membership_cache db)) = Some (?fill c)"
    using Some fetch_Some [of ?P "membership_cache db" c] assms
    by (intro fetch_filled [where filled = ?fill]) (auto simp: find_membership_def)
  then show ?thesis using Some by (simp add: membership_found_def find_membership_def save_membership_def)
qed

text \<open>An answer of the directory about the groups of a sender is used for ten minutes, whatever the
  directory would say, and never after: from then on the directory is asked again, and where it cannot
  answer, the sender counts as a member of no group.\<close>

theorem memberships_last_ten_minutes:
  assumes "distinct (List.map gc_id (membership_cache db))"
    and "bot_group_ids_for_sender rm w st org aad (db, tk) = (Inr (ids, ''miss'', []), db', tk')"
  shows "(utcnow w' < utcnow w + minutes 10 \<longrightarrow>
      bot_group_ids_for_sender rm' w' st' org aad (db', tk2) = (Inr (ids, ''hit'', []), db', tk2)) \<and>
    (utcnow w + minutes 10 \<le> utcnow w' \<longrightarrow> fst (bot_group_ids_for_sender rm' w' st' org aad (db', tk2)) =
      (case fst (list_user_transitive_group_ids rm' w' st' aad tk2) of
         Inr ids' \<Rightarrow> Inr (ids', ''miss'', [])
       | Inl e \<Rightarrow> if name_error e then Inr ([], ''error'', clip 1000 (exn_text e)) else Inl e))"
proof -
  have group: "fetch (\<lambda>g. bg_organization_id g = org \<and> bg_is_active g) (bot_groups db) \<noteq> None"
  proof
    assume "fetch (\<lambda>g. bg_organization_id g = org \<and> bg_is_active g) (bot_groups db) = None"
    then show False using assms(2) by (simp add: bot_group_ids_for_sender_def Let_def)
  qed
  have "fst (list_user_transitive_group_ids rm w st aad tk) = Inr ids \<and>
      db' = membership_found w org aad ids (find_membership org aad db) db"
    using assms(2) group
    by (auto simp: bot_group_ids_for_sender_def Let_def split: if_splits option.splits prod.splits sum.splits)
  then obtain c where c: "find_membership org aad db' = Some c" "gc_group_ids c = ids"
      "gc_expires_at c = Some (utcnow w + BOT_GROUP_MEMBERSHIP_CACHE_TTL)" "gc_last_error c = []"
    and kept: "bot_groups db' = bot_groups db"
    using membership_found_found [OF assms(1), of org aad w ids]
    by (auto simp: membership_found_def save_membership_def Let_def split: option.splits)
  have live: "cache_live w' c \<longleftrightarrow> utcnow w' < utcnow w + minutes 10"
    using c(3) by (simp add: cache_live_def BOT_GROUP_MEMBERSHIP_CACHE_TTL_def)
  note run = bot_group_ids_for_sender_def [of rm' w' st' org aad "(db', tk2)", unfolded Let_def prod.case c(1) option.case live kept]
  show ?thesis
    using group c(2,4) by (auto simp: run split: prod.split sum.split)
qed

section \<open>Witnesses\<close>

text \<open>A deployment with one route of a conversation, a group, and a signed request to delete the route.\<close>

definition sample_organization :: organization where
  "sample_organization = \<lparr>o_id = ''o1'', o_slug = default_org_slug default_settings, o_name = ''Org''\<rparr>"

definition sample_group :: bot_authorized_group where
  "sample_group = \<lparr>bg_id = ''5'', bg_organization_id = ''o1'', bg_group_object_id = ''3'', bg_display_name = ''Ops'',
     bg_mail = [], bg_security_enabled = True, bg_group_types_json = JList [], bg_role_id = None, bg_role = ''custom'',
     bg_is_active = True, bg_permissions = all_permissions, bg_created_by_id = None, bg_updated_by_id = None,
     bg_last_matched_at = None, bg_created_at = 0, bg_updated_at = 0\<rparr>"

definition sample_bot_db :: db where
  "sample_bot_db = sample_relay\<lparr>organizations := [sample_organization], bot_groups := [sample_group], next_id := 9\<rparr>"

definition sample_activity :: "(string \<times> json) list" where
  "sample_activity = [(''type'', JStr ''message''), (''serviceUrl'', JStr ''https://smba/''), (''text'', JStr ''delete Alerts''),
     (''conversation'', JDict [(''id'', JStr ''c1'')]), (''from'', JDict [(''aadObjectId'', JStr ''u'')])]"

definition sample_env :: bot_env where
  "sample_env = \<lparr>html_unescape = (\<lambda>s. s), drawn_secret = (\<lambda>n. ''s'' @ str_nat n)\<rparr>"

definition sample_jwt :: jwt_library where
  "sample_jwt = \<lparr>get_unverified_header = (\<lambda>t. Some (JDict [(''alg'', JStr ''RS256''), (''kid'', JStr ''k'')])),
     rsa_from_jwk = (\<lambda>k. Some k), jwt_decode = (\<lambda>_ _ _ _ _ _. Inr [(''serviceurl'', JStr ''https://smba/'')])\<rparr>"

definition sample_keys :: jwks where
  "sample_keys = Some \<lparr>jw_metadata_url = OPENID_METADATA_URL, jw_jwks_uri = ''https://keys'', jw_keys = [[(''kid'', JStr ''k'')]], jw_expires_at = minutes 10\<rparr>"

definition bot_request :: "(string \<times> string) list \<Rightarrow> request" where
  "bot_request headers = \<lparr>rq_client_host = None, rq_method = ''POST'', rq_path = ''/api/v1/bot/messages'',
     rq_headers = headers, rq_stream = [''{}'']\<rparr>"

definition sample_endpoint :: "(string \<times> string) list \<Rightarrow> (exn + ingest_out) \<times> (db \<times> caches) \<times> jwks" where
  "sample_endpoint headers = bot_messages_endpoint sample_jwt (sample_remote (\<lambda>_ _. HttpResponse 200 ''x'')) sample_env
     (replying (JDict sample_activity)) sample_registered (bot_request headers) ((sample_bot_db, sample_caches), sample_keys)"

lemma sample_deployed: "deployed sample_registered sample_organization sample_bot_db"
  by (simp add: deployed_def sample_bot_db_def sample_organization_def sample_registered_def)

lemma sample_bot_ok: "store_ok sample_bot_db"
proof -
  have "store_ok (sample_relay\<lparr>organizations := [sample_organization], bot_groups := [sample_group], next_id := 9\<rparr>)"
    by (rule store_rows.inv_frame [OF sample_store_ok]) (simp_all add: sample_relay_def)
  then show ?thesis by (simp add: sample_bot_db_def)
qed

lemma sample_started: "bot_messages_endpoint sample_jwt (sample_remote (\<lambda>_ _. HttpResponse 200 ''x'')) sample_env
     (replying (JDict sample_activity)) sample_registered (bot_request hs) ((sample_bot_db, sample_caches), sample_keys) =
    (fst (sample_endpoint hs), (fst (fst (snd (sample_endpoint hs))), snd (fst (snd (sample_endpoint hs)))), snd (snd (sample_endpoint hs)))"
  by (simp add: sample_endpoint_def)

lemma no_token: "extract_bearer_token None \<noteq> Inr token"
  by (simp add: extract_bearer_token_def opt_str_def)

theorem unsigned_activity_refused_witness:
  "\<exists>e. fst (sample_endpoint []) = Inl e \<and> logged sample_bot_db (fst (fst (snd (sample_endpoint [])))) \<and>
    snd (fst (snd (sample_endpoint []))) = sample_caches"
proof (rule unsigned_activity_refused)
  show "\<nexists>activity. signed_activity sample_jwt (replying (JDict sample_activity)) sample_registered (bot_request [])
      (snd (snd (sample_endpoint []))) activity"
    by (simp add: signed_activity_def token_accepted_def bot_request_def no_token)
qed (rule sample_started)



theorem bot_never_changes_urls_witness:
  "let db' = fst (fst (snd (sample_endpoint [(''authorization'', ''Bearer t'')]))) in
    {(route_ident x, r_route_token x) | x. x \<in> set (routes db') \<and> r_id x \<in> r_id ` set (routes sample_bot_db)} \<subseteq>
      {(route_ident x, r_route_token x) | x. x \<in> set (routes sample_bot_db)} \<and>
    {x \<in> set (routes db'). r_organization_id x \<noteq> o_id sample_organization} =
      {x \<in> set (routes sample_bot_db). r_organization_id x \<noteq> o_id sample_organization}"
  unfolding Let_def by (rule bot_never_changes_urls [OF sample_started sample_deployed sample_bot_ok])

theorem deleted_reference_takes_its_routes_witness:
  "case get_conversation_reference ''7'' sample_bot_db of
      Inl e \<Rightarrow> delete_bot_conversation_reference sample_world sample_settings sample_admin ''7'' True sample_bot_db = (Inl e, sample_bot_db)
    | Inr c \<Rightarrow>
        let linked = {r \<in> set (routes sample_bot_db). r_organization_id r = u_organization_id sample_admin \<and> linked_to_reference c r};
          (res, db') = delete_bot_conversation_reference sample_world sample_settings sample_admin ''7'' True sample_bot_db
        in if linked \<noteq> {} \<and> \<not> True then (\<exists>m. res = Inl (HTTPException 409 m)) \<and> db' = sample_bot_db
           else res = Inr () \<and> set (routes db') = set (routes sample_bot_db) - linked \<and>
             reveals db' = List.filter (\<lambda>v. rv_route_id v \<notin> r_id ` linked) (reveals sample_bot_db) \<and>
             deliveries db' = List.map (\<lambda>d. if d_route_id d \<in> Some ` r_id ` linked then d\<lparr>d_route_id := None\<rparr> else d) (deliveries sample_bot_db) \<and>
             references db' = List.filter (\<lambda>x. cr_id x \<noteq> cr_id c) (references sample_bot_db)"
  by (rule deleted_reference_takes_its_routes [OF sample_bot_ok])

lemma sample_in_conversation: "sample_route \<in> set (routes_of_conversation ''o1'' (extract_activity sample_activity) sample_bot_db)"
proof -
  have "ca_conversation_id (extract_activity sample_activity) = ''c1''" by code_simp
  moreover have "routes sample_bot_db = [sample_route]" by (simp add: sample_bot_db_def sample_relay_def)
  moreover have "r_bot_conversation_id sample_route = ''c1''" "r_organization_id sample_route = ''o1''" by (simp_all add: sample_route_def)
  ultimately show ?thesis by (simp add: routes_of_conversation_def latest_routes_def)
qed


theorem memberships_last_ten_minutes_witness:
  "\<exists>db'. (minutes 3 < minutes 10 \<longrightarrow>
      bot_group_ids_for_sender (sample_remote (\<lambda>_ _. HttpResponse 500 [])) (sample_world\<lparr>utcnow := minutes 3\<rparr>) default_settings ''o1'' ''u''
        (db', None) = (Inr ([''1'', ''2'', ''3''], ''hit'', []), db', None))"
proof -
  let ?rm = "sample_remote (\<lambda>_ _. HttpResponse 200 ''x'')"
  have strip: "strip ''u'' = ''u''" by code_simp
  have ids: "each group_ids_of_page [sample_page] = Inr [''1'', ''2'', ''3'']" by code_simp
  have firsts: "first_occurrences [''1'', ''2'', ''3''] = [''1'', ''2'', ''3'']" by code_simp
  have asked: "list_user_transitive_group_ids ?rm (replying sample_page) default_settings ''u'' (Some sample_app_tokens) =
      (Inr [''1'', ''2'', ''3''], Some sample_app_tokens)"
    unfolding list_user_transitive_group_ids_def Let_def strip sample_listing prod.case
    by (simp only: bind_sum_simps ids firsts list.simps char.inject simp_thms if_False)
  let ?db = "membership_found (replying sample_page) ''o1'' ''u'' [''1'', ''2'', ''3''] None sample_bot_db"
  have run: "bot_group_ids_for_sender ?rm (replying sample_page) default_settings ''o1'' ''u'' (sample_bot_db, Some sample_app_tokens) =
      (Inr ([''1'', ''2'', ''3''], ''miss'', []), ?db, Some sample_app_tokens)"
    by (simp add: bot_group_ids_for_sender_def asked find_membership_def sample_bot_db_def sample_relay_def empty_db_def sample_group_def Let_def)
  have distinct: "distinct (List.map gc_id (membership_cache sample_bot_db))"
    by (simp add: sample_bot_db_def sample_relay_def empty_db_def)
  have clock: "utcnow (replying sample_page) + minutes 10 = minutes 10" by (simp add: replying_def sample_world_def)
  note held = memberships_last_ten_minutes [OF distinct run, of "sample_world\<lparr>utcnow := minutes 3\<rparr>" "sample_remote (\<lambda>_ _. HttpResponse 500 [])"
      default_settings None]
  show ?thesis using held unfolding clock by (intro exI [of _ ?db]) simp
qed

end
