(* ===== verification/Bot_Admin_Guarantees.thy ===== *)
theory Bot_Admin_Guarantees
  imports Bot_Admin Bot_Guarantees
begin

text \<open>
  The tables of bot access stay in order: names and system keys of roles are unique, there is one row for
  each user and group of the directory, and the role of a row exists in its organization. What an
  administrator grants or takes away is what the bot goes by at the next command.
\<close>

section \<open>Tables of grants\<close>

text \<open>A table of rows with a key in an organization and a role: users and groups alike.\<close>

definition grants_ok ::
  "('r \<Rightarrow> string) \<Rightarrow> ('r \<Rightarrow> string \<times> string) \<Rightarrow> ('r \<Rightarrow> string option) \<Rightarrow> nat \<Rightarrow> bot_access_role list \<Rightarrow> 'r list \<Rightarrow> bool" where
  "grants_ok ident key role n roles rows \<longleftrightarrow>
     fresh_ids ident n rows \<and> distinct (List.map key rows) \<and>
     (\<forall>r \<in> set rows. snd (key r) \<noteq> [] \<and>
        (\<forall>k. role r = Some k \<longrightarrow> (\<exists>x \<in> set roles. ro_id x = k \<and> ro_organization_id x = fst (key r))))"

definition role_name_key :: "bot_access_role \<Rightarrow> string \<times> string" where
  "role_name_key r = (ro_organization_id r, ro_name r)"

definition same_system_role :: "bot_access_role \<Rightarrow> bot_access_role \<Rightarrow> bool" where
  "same_system_role r s \<longleftrightarrow>
     ro_organization_id r = ro_organization_id s \<and> ro_system_key r \<noteq> None \<and> ro_system_key r = ro_system_key s"

definition roles_ok :: "nat \<Rightarrow> bot_access_role list \<Rightarrow> bool" where
  "roles_ok n rows \<longleftrightarrow>
     fresh_ids ro_id n rows \<and> distinct (List.map role_name_key rows) \<and>
     (\<forall>r \<in> set rows. \<forall>s \<in> set rows. same_system_role r s \<longrightarrow> ro_id r = ro_id s)"

definition user_key :: "bot_authorized_user \<Rightarrow> string \<times> string" where
  "user_key u = (bu_organization_id u, bu_aad_object_id u)"

definition group_key :: "bot_authorized_group \<Rightarrow> string \<times> string" where
  "group_key g = (bg_organization_id g, bg_group_object_id g)"

definition access_ok :: "db \<Rightarrow> bool" where
  "access_ok db \<longleftrightarrow>
     roles_ok (next_id db) (bot_roles db) \<and>
     grants_ok bu_id user_key bu_role_id (next_id db) (bot_roles db) (bot_users db) \<and>
     grants_ok bg_id group_key bg_role_id (next_id db) (bot_roles db) (bot_groups db)"

lemma grants_ok_mono: "grants_ok f k rl n roles rows \<Longrightarrow> n \<le> m \<Longrightarrow> grants_ok f k rl m roles rows"
  by (auto simp: grants_ok_def intro: fresh_ids_mono)

lemma roles_ok_mono: "roles_ok n rows \<Longrightarrow> n \<le> m \<Longrightarrow> roles_ok m rows"
  by (auto simp: roles_ok_def intro: fresh_ids_mono)

interpretation access_rows: table_invariant "\<lambda>db. (bot_roles db, bot_users db, bot_groups db)" access_ok
  by unfold_locales (auto simp: access_ok_def intro: grants_ok_mono roles_ok_mono)

text \<open>Roles that are kept: each is still there, for the same organization.\<close>

definition roles_kept :: "bot_access_role list \<Rightarrow> bot_access_role list \<Rightarrow> bool" where
  "roles_kept a b \<longleftrightarrow> (\<forall>x \<in> set a. \<exists>y \<in> set b. ro_id y = ro_id x \<and> ro_organization_id y = ro_organization_id x \<and>
     ro_permissions y = ro_permissions x)"

lemma roles_kept_refl [simp]: "roles_kept a a"
  by (auto simp: roles_kept_def)

lemma roles_kept_trans: "roles_kept a b \<Longrightarrow> roles_kept b c \<Longrightarrow> roles_kept a c"
  by (fastforce simp: roles_kept_def)

lemma grants_ok_roles: 
  assumes "grants_ok f k rl n a rows"
    and "\<And>x. x \<in> set a \<Longrightarrow> \<exists>y \<in> set b. ro_id y = ro_id x \<and> ro_organization_id y = ro_organization_id x"
  shows "grants_ok f k rl n b rows"
  using assms(1) unfolding grants_ok_def by (metis assms(2))

lemma grants_ok_roles_used:
  assumes "grants_ok f k rl n a rows" and "\<And>r x. r \<in> set rows \<Longrightarrow> x \<in> set a \<Longrightarrow> rl r = Some (ro_id x) \<Longrightarrow> x \<in> set b"
  shows "grants_ok f k rl n b rows"
  using assms unfolding grants_ok_def by blast

lemma grants_ok_snoc:
  assumes "grants_ok f k rl n roles rows" and "f r = str_nat n" and "\<And>x. x \<in> set rows \<Longrightarrow> k x \<noteq> k r" and "snd (k r) \<noteq> []"
    and "\<And>i. rl r = Some i \<Longrightarrow> \<exists>x \<in> set roles. ro_id x = i \<and> ro_organization_id x = fst (k r)"
  shows "grants_ok f k rl (Suc n) roles (rows @ [r])"
proof -
  have "distinct (List.map k (rows @ [r]))"
    using assms(1,3) by (intro distinct_column_snoc) (auto simp: grants_ok_def)
  then show ?thesis using assms(1,2,4,5) fresh_ids_snoc [of f n rows r] by (auto simp: grants_ok_def)
qed

lemma grants_ok_map:
  assumes "grants_ok f k rl n roles rows" and "\<And>r. r \<in> set rows \<Longrightarrow> f (g r) = f r \<and> k (g r) = k r"
    and "\<And>r i. r \<in> set rows \<Longrightarrow> rl (g r) = Some i \<Longrightarrow> rl r = Some i \<or> (\<exists>x \<in> set roles. ro_id x = i \<and> ro_organization_id x = fst (k r))"
  shows "grants_ok f k rl n roles (List.map g rows)"
proof -
  have cols: "List.map f (List.map g rows) = List.map f rows" "List.map k (List.map g rows) = List.map k rows"
    using assms(2) by simp_all
  have "fresh_ids f n (List.map g rows)"
    using assms(1,2) unfolding grants_ok_def fresh_ids_def cols by auto
  then show ?thesis
    using assms(1) unfolding grants_ok_def cols by (auto simp: assms(2) dest: assms(3))
qed

lemma grants_ok_save:
  assumes "grants_ok f k rl n roles rows" and "r0 \<in> set rows" and "f r = f r0" and "k r = k r0"
    and "\<And>i. rl r = Some i \<Longrightarrow> rl r0 = Some i \<or> (\<exists>x \<in> set roles. ro_id x = i \<and> ro_organization_id x = fst (k r))"
  shows "grants_ok f k rl n roles (save_row f r rows)"
proof -
  have "x = r0" if "x \<in> set rows" "f x = f r" for x
    using assms(1) fresh_ids_inject [OF _ that(1) assms(2)] that(2) assms(3) by (auto simp: grants_ok_def)
  note same = this
  show ?thesis
    unfolding save_row_def update_rows_def
  proof (rule grants_ok_map [OF assms(1)])
    fix x assume x: "x \<in> set rows"
    show "f (if f x = f r then r else x) = f x \<and> k (if f x = f r then r else x) = k x"
      using same [OF x] assms(3,4) by auto
    show "rl x = Some i \<or> (\<exists>y \<in> set roles. ro_id y = i \<and> ro_organization_id y = fst (k x))"
      if "rl (if f x = f r then r else x) = Some i" for i
      using that same [OF x] assms(4,5) by (cases "f x = f r") auto
  qed
qed

lemma grants_ok_delete: "grants_ok f k rl n roles rows \<Longrightarrow> grants_ok f k rl n roles (delete_rows P rows)"
  using fresh_ids_delete [of f n rows P] distinct_column_delete [of k rows P]
  by (auto simp: grants_ok_def)

section \<open>Roles\<close>

lemma roles_ok_snoc:
  assumes "roles_ok n (bot_roles db)" and "ro_id r = str_nat n" and "\<not> role_conflict r db"
  shows "roles_ok (Suc n) (bot_roles db @ [r])"
proof -
  have new: "ro_id x \<noteq> ro_id r" if "x \<in> set (bot_roles db)" for x
    using assms(1,2) fresh_ids_new [of ro_id n "bot_roles db" x] that by (auto simp: roles_ok_def)
  have apart: "role_name_key x \<noteq> role_name_key r" "\<not> same_system_role x r" "\<not> same_system_role r x"
    if "x \<in> set (bot_roles db)" for x
    using new [OF that] that assms(3) by (auto simp: role_conflict_def list_ex_iff role_name_key_def same_system_role_def)
  have "fresh_ids ro_id (Suc n) (bot_roles db @ [r])"
    using assms(1,2) by (intro fresh_ids_snoc) (auto simp: roles_ok_def)
  moreover have "distinct (List.map role_name_key (bot_roles db @ [r]))"
    using assms(1) apart(1) by (intro distinct_column_snoc) (auto simp: roles_ok_def)
  moreover have "ro_id x = ro_id y" if "x \<in> set (bot_roles db @ [r])" "y \<in> set (bot_roles db @ [r])" "same_system_role x y" for x y
  proof -
    have old: "ro_id a = ro_id b" if "a \<in> set (bot_roles db)" "b \<in> set (bot_roles db)" "same_system_role a b" for a b
      using assms(1) that unfolding roles_ok_def by blast
    have "x \<in> set (bot_roles db) \<or> x = r" "y \<in> set (bot_roles db) \<or> y = r" using that(1,2) by auto
    then show ?thesis using old apart(2,3) that(3) by blast
  qed
  ultimately show ?thesis unfolding roles_ok_def by blast
qed

lemma roles_ok_save:
  assumes "roles_ok n (bot_roles db)" and "r0 \<in> set (bot_roles db)" and "ro_id r = ro_id r0" and "\<not> role_conflict r db"
  shows "roles_ok n (save_row ro_id r (bot_roles db))"
proof -
  have "distinct (List.map role_name_key (save_row ro_id r (bot_roles db)))"
    using assms(1,4) by (intro distinct_save_row) (auto simp: roles_ok_def role_conflict_def list_ex_iff role_name_key_def)
  moreover have "ro_id x = ro_id y" if "x \<in> set (save_row ro_id r (bot_roles db))" "y \<in> set (save_row ro_id r (bot_roles db))"
      "same_system_role x y" for x y
  proof -
    have apart: "\<not> same_system_role z r" "\<not> same_system_role r z" if "z \<in> set (bot_roles db)" "ro_id z \<noteq> ro_id r" for z
      using that assms(4) by (auto simp: role_conflict_def list_ex_iff same_system_role_def)
    show ?thesis using that assms(1) apart unfolding roles_ok_def set_save_row by metis
  qed
  moreover have "fresh_ids ro_id n (save_row ro_id r (bot_roles db))" using assms(1) by (simp add: roles_ok_def fresh_ids_save)
  ultimately show ?thesis unfolding roles_ok_def by blast
qed

lemma kept_no_conflict:
  assumes "roles_ok n (bot_roles db)" and "r0 \<in> set (bot_roles db)" and "ro_id r = ro_id r0"
    and "role_name_key r = role_name_key r0" and "ro_system_key r = ro_system_key r0"
  shows "\<not> role_conflict r db"
proof
  assume "role_conflict r db"
  then obtain x where x: "x \<in> set (bot_roles db)" "ro_id x \<noteq> ro_id r" "ro_organization_id x = ro_organization_id r"
      "ro_name x = ro_name r \<or> ro_system_key r \<noteq> None \<and> ro_system_key x = ro_system_key r"
    by (auto simp: role_conflict_def list_ex_iff)
  then have "role_name_key x = role_name_key r0 \<or> same_system_role x r0"
    using assms(4,5) by (auto simp: role_name_key_def same_system_role_def)
  then have "ro_id x = ro_id r0"
    using assms(1,2) x(1) distinct_column_inject [of role_name_key "bot_roles db" x r0] by (auto simp: roles_ok_def)
  then show False using x(2) assms(3) by simp
qed

subsection \<open>System roles\<close>

text \<open>The roles in hand are rows of the organization with their keys.\<close>

definition in_hand :: "string \<Rightarrow> (string \<times> bot_access_role) list \<Rightarrow> db \<Rightarrow> bool" where
  "in_hand org existing db \<longleftrightarrow>
     (\<forall>k r. map_of existing k = Some r \<longrightarrow> r \<in> set (bot_roles db) \<and> ro_organization_id r = org \<and> ro_system_key r = Some k)"

text \<open>Steps that only add roles or mark them.\<close>

definition roles_grow :: "db \<Rightarrow> db \<Rightarrow> bool" where
  "roles_grow a b \<longleftrightarrow>
     relay_frame a b \<and> organizations b = organizations a \<and> bot_users b = bot_users a \<and> bot_groups b = bot_groups a \<and>
     membership_cache b = membership_cache a \<and> roles_kept (bot_roles a) (bot_roles b) \<and> (access_ok a \<longrightarrow> access_ok b)"

lemma roles_grow_refl [simp]: "roles_grow a a"
  by (simp add: roles_grow_def)

lemma roles_grow_trans: "roles_grow a b \<Longrightarrow> roles_grow b c \<Longrightarrow> roles_grow a c"
  unfolding roles_grow_def using relay_frame_trans roles_kept_trans by metis

lemma access_okD:
  assumes "access_ok db"
  shows "roles_ok (next_id db) (bot_roles db)" "grants_ok bu_id user_key bu_role_id (next_id db) (bot_roles db) (bot_users db)"
    "grants_ok bg_id group_key bg_role_id (next_id db) (bot_roles db) (bot_groups db)"
    "fresh_ids ro_id (next_id db) (bot_roles db)" "fresh_ids bu_id (next_id db) (bot_users db)"
    "fresh_ids bg_id (next_id db) (bot_groups db)" "distinct (List.map user_key (bot_users db))"
    "distinct (List.map group_key (bot_groups db))"
  using assms by (simp_all add: access_ok_def roles_ok_def grants_ok_def)

lemma roles_kept_snoc [simp]: "roles_kept rs (rs @ [r])"
  by (auto simp: roles_kept_def)

lemma roles_kept_save:
  assumes "fresh_ids ro_id n rs" and "r0 \<in> set rs" and "ro_id r = ro_id r0" and "ro_organization_id r = ro_organization_id r0"
    and "ro_permissions r = ro_permissions r0"
  shows "roles_kept rs (save_row ro_id r rs)"
  unfolding roles_kept_def
proof
  fix x assume x: "x \<in> set rs"
  show "\<exists>y \<in> set (save_row ro_id r rs). ro_id y = ro_id x \<and> ro_organization_id y = ro_organization_id x \<and> ro_permissions y = ro_permissions x"
  proof (cases "ro_id x = ro_id r")
    case True
    then have "x = r0" using fresh_ids_inject [OF assms(1) x assms(2)] assms(3) by simp
    moreover have "r \<in> set (save_row ro_id r rs)" using assms(2,3) by (auto simp: set_save_row)
    ultimately show ?thesis using assms(3-5) by (intro bexI [of _ r]) simp_all
  next
    case False
    then show ?thesis using x by (intro bexI [of _ x]) (simp_all add: set_save_row)
  qed
qed

lemma grants_follow_roles:
  assumes "access_ok db" and "roles_ok n rs" and "roles_kept (bot_roles db) rs" and "next_id db \<le> n"
  shows "access_ok (db\<lparr>bot_roles := rs, next_id := n\<rparr>)"
proof -
  have kept: "\<exists>y \<in> set rs. ro_id y = ro_id x \<and> ro_organization_id y = ro_organization_id x" if "x \<in> set (bot_roles db)" for x
    using assms(3) that unfolding roles_kept_def by blast
  show ?thesis
    using assms(2,4) grants_ok_roles [OF access_okD(2) [OF assms(1)] kept] grants_ok_roles [OF access_okD(3) [OF assms(1)] kept]
    by (auto simp: access_ok_def intro: grants_ok_mono)
qed

lemma save_role_ok:
  assumes "access_ok db" and "r0 \<in> set (bot_roles db)" and "ro_id r = ro_id r0" and "ro_organization_id r = ro_organization_id r0"
    and "\<not> role_conflict r db"
  shows "access_ok (save_role r db)"
proof -
  have "\<exists>y \<in> set (save_row ro_id r (bot_roles db)). ro_id y = ro_id x \<and> ro_organization_id y = ro_organization_id x"
    if x: "x \<in> set (bot_roles db)" for x
  proof (cases "ro_id x = ro_id r")
    case True
    then have "x = r0" using fresh_ids_inject [OF access_okD(4) [OF assms(1)] x assms(2)] assms(3) by simp
    moreover have "r \<in> set (save_row ro_id r (bot_roles db))" using assms(2,3) by (auto simp: set_save_row)
    ultimately show ?thesis using assms(3,4) by (intro bexI [of _ r]) simp_all
  next
    case False
    then show ?thesis using x by (intro bexI [of _ x]) (simp_all add: set_save_row)
  qed
  note kept = this
  show ?thesis
    using roles_ok_save [OF access_okD(1) [OF assms(1)] assms(2,3,5)]
      grants_ok_roles [OF access_okD(2) [OF assms(1)] kept] grants_ok_roles [OF access_okD(3) [OF assms(1)] kept]
    by (simp add: access_ok_def save_role_def)
qed

lemma ensure_system_role_grow:
  assumes "ensure_system_role w org actor (k, n, d, p) (existing, db) = Inr (existing', db')" and "access_ok db"
    and "in_hand org existing db"
  shows "roles_grow db db'" "in_hand org existing' db'" "map_of existing' k \<noteq> None"
    "map_of existing j \<noteq> None \<Longrightarrow> map_of existing' j \<noteq> None"
proof -
  have "roles_grow db db' \<and> in_hand org existing' db' \<and> map_of existing' k \<noteq> None \<and>
    (map_of existing j \<noteq> None \<longrightarrow> map_of existing' j \<noteq> None)"
  proof (cases "map_of existing k")
    case None
    define row where "row = \<lparr>ro_id = new_id db, ro_organization_id = org, ro_name = n, ro_description = d, ro_is_system = True,
        ro_system_key = Some k, ro_permissions = p, ro_created_by_id = actor, ro_updated_by_id = actor,
        ro_created_at = utcnow w, ro_updated_at = utcnow w\<rparr>"
    let ?db = "db\<lparr>bot_roles := bot_roles db @ [row], next_id := Suc (next_id db)\<rparr>"
    have run: "\<not> role_conflict row db" "existing' = (k, row) # existing" "db' = ?db"
      using assms(1) None by (simp_all add: ensure_system_role_def Let_def row_def [symmetric] split: if_splits)
    have "access_ok ?db"
      by (rule grants_follow_roles [OF assms(2) roles_ok_snoc [OF access_okD(1) [OF assms(2)] _ run(1)]])
        (simp_all add: row_def new_id_def)
    then have "roles_grow db ?db" by (simp add: roles_grow_def relay_frame_def)
    then show ?thesis using run assms(3) by (auto simp: in_hand_def row_def)
  next
    case (Some r)
    have r: "r \<in> set (bot_roles db)" "ro_organization_id r = org" "ro_system_key r = Some k"
      using assms(3) Some unfolding in_hand_def by blast+
    show ?thesis
    proof (cases "ro_is_system r")
      case True
      then show ?thesis using assms(1,3) Some by (simp add: ensure_system_role_def)
    next
      case False
      let ?r = "r\<lparr>ro_is_system := True, ro_updated_at := utcnow w\<rparr>"
      have run: "existing' = (k, ?r) # existing" "db' = save_role ?r db"
        using assms(1) Some False by (simp_all add: ensure_system_role_def Let_def save_role_def)
      have "\<not> role_conflict ?r db"
        by (rule kept_no_conflict [OF access_okD(1) [OF assms(2)] r(1)]) (simp_all add: role_name_key_def)
      then have "access_ok (save_role ?r db)" by (intro save_role_ok [OF assms(2) r(1)]) simp_all
      moreover have "roles_kept (bot_roles db) (save_row ro_id ?r (bot_roles db))"
        by (rule roles_kept_save [OF access_okD(4) [OF assms(2)] r(1)]) simp_all
      ultimately have grow: "roles_grow db (save_role ?r db)" by (simp add: roles_grow_def relay_frame_def save_role_def)
      have "x \<in> set (save_row ro_id ?r (bot_roles db))" if "map_of existing i = Some x" "i \<noteq> k" for i x
      proof -
        have x: "x \<in> set (bot_roles db)" "ro_system_key x = Some i" using assms(3) that(1) unfolding in_hand_def by blast+
        then have "ro_id x \<noteq> ro_id r" using fresh_ids_inject [OF access_okD(4) [OF assms(2)] x(1) r(1)] r(3) that(2) by auto
        then show ?thesis using x(1) by (simp add: set_save_row)
      qed
      moreover have "?r \<in> set (save_row ro_id ?r (bot_roles db))" using r(1) by (auto simp: set_save_row)
      ultimately have "in_hand org existing' (save_role ?r db)"
        using assms(3) r unfolding in_hand_def run(1) by (auto simp: save_role_def)
      then show ?thesis using grow run by auto
    qed
  qed
  then show "roles_grow db db'" "in_hand org existing' db'" "map_of existing' k \<noteq> None"
    "map_of existing j \<noteq> None \<Longrightarrow> map_of existing' j \<noteq> None" by blast+
qed

lemma ensure_system_roles_grow:
  assumes "ensure_system_roles w org actor roles (existing, db) = Inr (existing', db')" and "access_ok db"
    and "in_hand org existing db"
  shows "roles_grow db db' \<and> in_hand org existing' db' \<and>
    (\<forall>j. j \<in> fst ` set roles \<or> map_of existing j \<noteq> None \<longrightarrow> map_of existing' j \<noteq> None)"
  using assms
proof (induction roles arbitrary: existing db)
  case (Cons role roles)
  obtain k n d p where role: "role = (k, n, d, p)" by (rule prod_cases4)
  obtain ex1 db1 where step: "ensure_system_role w org actor (k, n, d, p) (existing, db) = Inr (ex1, db1)"
    and rest: "ensure_system_roles w org actor roles (ex1, db1) = Inr (existing', db')"
    using Cons.prems(1) by (auto simp: role split: sum.splits)
  note one = ensure_system_role_grow [OF step Cons.prems(2,3)]
  have "access_ok db1" using one(1) Cons.prems(2) by (simp add: roles_grow_def)
  note more = Cons.IH [OF rest this one(2)]
  show ?case using roles_grow_trans [OF one(1)] more one(3,4) by (auto simp: role)
qed simp

lemma ensure_roles_grow:
  assumes "ensure_bot_access_system_roles w org actor db = Inr (roles, db')" and "access_ok db"
  shows "roles_grow db db'" "in_hand org roles db'" "map_of roles ''route_viewer'' \<noteq> None" "map_of roles ''route_operator'' \<noteq> None"
proof -
  let ?P = "\<lambda>r. ro_organization_id r = org \<and> ro_system_key r \<noteq> None \<and> opt_str (ro_system_key r) \<in> set (List.map fst BOT_ACCESS_SYSTEM_ROLES)"
  let ?ex = "rev (List.map (\<lambda>r. (opt_str (ro_system_key r), r)) (List.filter ?P (bot_roles db)))"
  have "in_hand org ?ex db"
    unfolding in_hand_def by (auto simp: opt_str_def dest!: map_of_SomeD split: option.splits)
  then have "roles_grow db db' \<and> in_hand org roles db' \<and>
      (\<forall>j. j \<in> fst ` set BOT_ACCESS_SYSTEM_ROLES \<or> map_of ?ex j \<noteq> None \<longrightarrow> map_of roles j \<noteq> None)"
    using assms unfolding ensure_bot_access_system_roles_def Let_def by (intro ensure_system_roles_grow)
  then show "roles_grow db db'" "in_hand org roles db'" "map_of roles ''route_viewer'' \<noteq> None" "map_of roles ''route_operator'' \<noteq> None"
    by (simp_all add: BOT_ACCESS_SYSTEM_ROLES_def)
qed

section \<open>The handlers keep the tables in order\<close>

lemma get_org_bot_role_row: "get_org_bot_role org i db = Inr r \<Longrightarrow> r \<in> set (bot_roles db) \<and> ro_id r = i \<and> ro_organization_id r = org"
  by (auto simp: get_org_bot_role_def found_or_404_def split: option.splits dest: fetch_Some)

lemma get_org_bot_user_row: "get_org_bot_user org i db = Inr u \<Longrightarrow> u \<in> set (bot_users db) \<and> bu_id u = i \<and> bu_organization_id u = org"
  by (auto simp: get_org_bot_user_def found_or_404_def split: option.splits dest: fetch_Some)

lemma get_org_bot_group_row: "get_org_bot_group org i db = Inr g \<Longrightarrow> g \<in> set (bot_groups db) \<and> bg_id g = i \<and> bg_organization_id g = org"
  by (auto simp: get_org_bot_group_def found_or_404_def split: option.splits dest: fetch_Some)

lemma resolve_role_grow:
  assumes "resolve_payload_bot_role w org role_id role db = Inr (resolved, db')" and "access_ok db"
  shows "roles_grow db db'" "resolved = Some r \<Longrightarrow> r \<in> set (bot_roles db') \<and> ro_organization_id r = org"
proof -
  have "roles_grow db db' \<and> (\<forall>r. resolved = Some r \<longrightarrow> r \<in> set (bot_roles db') \<and> ro_organization_id r = org)"
  proof (cases "opt_str role_id \<noteq> []")
    case True
    then show ?thesis using assms(1) by (auto simp: resolve_payload_bot_role_def split: sum.splits dest: get_org_bot_role_row)
  next
    case False
    then have "resolved = None \<and> db' = db \<or> (\<exists>k. get_system_bot_role w org k db = Inr (resolved, db'))"
      using assms(1) by (auto simp: resolve_payload_bot_role_def split: if_splits)
    then show ?thesis
    proof
      assume "\<exists>k. get_system_bot_role w org k db = Inr (resolved, db')"
      then obtain k where k: "get_system_bot_role w org k db = Inr (resolved, db')" by blast
      then obtain roles where e: "ensure_bot_access_system_roles w org None db = Inr (roles, db')" "resolved = map_of roles k"
        by (cases "ensure_bot_access_system_roles w org None db") (auto simp: get_system_bot_role_def)
      then show ?thesis using ensure_roles_grow(1,2) [OF e(1) assms(2)] unfolding in_hand_def by metis
    qed simp
  qed
  then show "roles_grow db db'" "resolved = Some r \<Longrightarrow> r \<in> set (bot_roles db') \<and> ro_organization_id r = org" by blast+
qed

lemma apply_patch_Nil [simp]: "apply_patch [] p = p"
  by (cases p) (simp add: apply_patch_def patched_def)

text \<open>The cases of an update: another role, or the columns of the row.\<close>

lemma updated_grant_cases:
  assumes "updated_grant w org role_id role patch gr db = Inr (gr', db')" and "access_ok db"
  shows "roles_grow db db' \<and>
    ((role_id \<noteq> None \<or> role \<noteq> None) \<and>
       (\<exists>resolved. resolve_payload_bot_role w org (case role_id of None \<Rightarrow> None | Some i \<Rightarrow> i) role db = Inr (resolved, db') \<and>
          gr_role_id gr' = map_option ro_id resolved \<and>
          gr_permissions gr' = (case resolved of Some r \<Rightarrow> ro_permissions r | None \<Rightarrow> apply_patch patch (gr_permissions gr))) \<or>
     role_id = None \<and> role = None \<and> db' = db \<and> gr_role_id gr' = gr_role_id gr \<and>
       gr_permissions gr' = apply_patch patch (gr_permissions gr))"
proof (cases "role_id \<noteq> None \<or> role \<noteq> None")
  case False
  then show ?thesis using assms(1) by (auto simp: updated_grant_def Let_def)
next
  case True
  let ?i = "case role_id of None \<Rightarrow> None | Some i \<Rightarrow> i"
  obtain resolved db1 where r: "resolve_payload_bot_role w org ?i role db = Inr (resolved, db1)"
    using assms(1) True by (cases "resolve_payload_bot_role w org ?i role db") (auto simp: updated_grant_def Let_def)
  have "db' = db1 \<and> gr_role_id gr' = map_option ro_id resolved \<and>
      gr_permissions gr' = (case resolved of Some r \<Rightarrow> ro_permissions r | None \<Rightarrow> apply_patch patch (gr_permissions gr))"
    using assms(1) True r by (auto simp: updated_grant_def Let_def role_permissions_def split: option.splits if_splits)
  then show ?thesis using True r resolve_role_grow(1) [OF r assms(2)] by auto
qed

lemma updated_grant_role:
  assumes "updated_grant w org role_id role patch gr db = Inr (gr', db')" and "access_ok db" and "gr_role_id gr' = Some k"
  shows "gr_role_id gr = Some k \<or> (\<exists>x \<in> set (bot_roles db'). ro_id x = k \<and> ro_organization_id x = org)"
proof (cases "\<exists>resolved. resolve_payload_bot_role w org (case role_id of None \<Rightarrow> None | Some i \<Rightarrow> i) role db = Inr (resolved, db') \<and>
    gr_role_id gr' = map_option ro_id resolved")
  case True
  then obtain resolved where r: "resolve_payload_bot_role w org (case role_id of None \<Rightarrow> None | Some i \<Rightarrow> i) role db = Inr (resolved, db')"
    "gr_role_id gr' = map_option ro_id resolved" by blast
  obtain x where "resolved = Some x" "ro_id x = k" using assms(3) r(2) by auto
  then show ?thesis using resolve_role_grow(2) [OF r(1) assms(2)] by blast
next
  case False
  then have "gr_role_id gr' = gr_role_id gr" using updated_grant_cases [OF assms(1,2)] by blast
  then show ?thesis using assms(3) by simp
qed

lemma access_audit: "access_ok db \<Longrightarrow> access_ok (admin_audit w st a admin m db)"
  by (simp add: admin_audit_def access_rows.inv_audit)

lemma backfilled_role: "gr_role_id (backfilled v p gr) = Some k \<Longrightarrow> gr_role_id gr = Some k \<or> k = ro_id v \<or> k = ro_id p"
  by (auto simp: backfilled_def split: if_splits)

lemma backfill_ok:
  assumes "backfill_bot_access_role_assignments w org db = Inr db'" and "access_ok db"
  shows "access_ok db'"
proof -
  obtain roles db1 where e: "ensure_bot_access_system_roles w org None db = Inr (roles, db1)"
    using assms(1) by (auto simp: backfill_bot_access_role_assignments_def split: sum.splits)
  note grow = ensure_roles_grow [OF e assms(2)]
  obtain v p where vp: "map_of roles ''route_viewer'' = Some v" "map_of roles ''route_operator'' = Some p"
    using grow(3,4) by blast
  have rows: "v \<in> set (bot_roles db1)" "ro_organization_id v = org" "p \<in> set (bot_roles db1)" "ro_organization_id p = org"
    using grow(2) vp unfolding in_hand_def by blast+
  have db': "db' = db1\<lparr>bot_users := List.map (backfill_user w org v p) (bot_users db1),
      bot_groups := List.map (backfill_group w org v p) (bot_groups db1)\<rparr>"
    using assms(1) e vp by (simp add: backfill_bot_access_role_assignments_def)
  have ok: "access_ok db1" using grow(1) assms(2) by (simp add: roles_grow_def)
  have there: "\<exists>x \<in> set (bot_roles db1). ro_id x = k \<and> ro_organization_id x = org" if "k = ro_id v \<or> k = ro_id p" for k
    using that rows by blast
  have "grants_ok bu_id user_key bu_role_id (next_id db1) (bot_roles db1) (List.map (backfill_user w org v p) (bot_users db1))"
  proof (rule grants_ok_map [OF access_okD(2) [OF ok]])
    fix u assume "u \<in> set (bot_users db1)"
    show "bu_id (backfill_user w org v p u) = bu_id u \<and> user_key (backfill_user w org v p u) = user_key u"
      by (simp add: backfill_user_def grant_user_def user_key_def Let_def)
    show "bu_role_id u = Some i \<or> (\<exists>x \<in> set (bot_roles db1). ro_id x = i \<and> ro_organization_id x = fst (user_key u))"
      if "bu_role_id (backfill_user w org v p u) = Some i" for i
      using that there backfilled_role [of v p "grant_of_user u" i]
      by (auto simp: backfill_user_def grant_user_def grant_of_user_def user_key_def Let_def split: if_splits)
  qed
  moreover have "grants_ok bg_id group_key bg_role_id (next_id db1) (bot_roles db1) (List.map (backfill_group w org v p) (bot_groups db1))"
  proof (rule grants_ok_map [OF access_okD(3) [OF ok]])
    fix g assume "g \<in> set (bot_groups db1)"
    show "bg_id (backfill_group w org v p g) = bg_id g \<and> group_key (backfill_group w org v p g) = group_key g"
      by (simp add: backfill_group_def grant_group_def group_key_def Let_def)
    show "bg_role_id g = Some i \<or> (\<exists>x \<in> set (bot_roles db1). ro_id x = i \<and> ro_organization_id x = fst (group_key g))"
      if "bg_role_id (backfill_group w org v p g) = Some i" for i
      using that there backfilled_role [of v p "grant_of_group g" i]
      by (auto simp: backfill_group_def grant_group_def grant_of_group_def group_key_def Let_def split: if_splits)
  qed
  ultimately show ?thesis using access_okD(1) [OF ok] by (simp add: db' access_ok_def)
qed

lemma ensured_ok: "ensure_bot_access_system_roles w org actor db = Inr (roles, db') \<Longrightarrow> access_ok db \<Longrightarrow> access_ok db'"
  using ensure_roles_grow(1) by (simp add: roles_grow_def)

lemma with_bot_access_ok:
  assumes "access_ok db"
  shows "access_ok (snd (with_bot_access w admin f db))"
proof (cases "ensure_bot_access_system_roles w (u_organization_id admin) (Some (u_id admin)) db")
  case (Inr s)
  obtain roles db1 where s: "s = (roles, db1)" by (rule prod.exhaust)
  have ok: "access_ok db1" by (rule ensured_ok [OF Inr [unfolded s] assms])
  show ?thesis
    using assms backfill_ok [OF _ ok]
    by (cases "backfill_bot_access_role_assignments w (u_organization_id admin) db1") (simp_all add: with_bot_access_def Inr s)
qed (use assms in \<open>simp add: with_bot_access_def\<close>)

lemma list_roles_ok:
  assumes "access_ok db"
  shows "access_ok (snd (list_bot_access_roles w admin db))"
proof (cases "ensure_bot_access_system_roles w (u_organization_id admin) (Some (u_id admin)) db")
  case (Inr s)
  obtain roles db1 where s: "s = (roles, db1)" by (rule prod.exhaust)
  then show ?thesis using ensured_ok [OF Inr [unfolded s] assms] by (simp add: list_bot_access_roles_def Inr)
qed (use assms in \<open>simp add: list_bot_access_roles_def\<close>)

lemma create_role_ok: "access_ok db \<Longrightarrow> access_ok (snd (create_bot_access_role w st admin p db))"
proof -
  assume ok: "access_ok db"
  let ?r = "new_role w admin p db"
  have "access_ok (db\<lparr>bot_roles := bot_roles db @ [?r], next_id := Suc (next_id db)\<rparr>)" if "\<not> role_conflict ?r db"
    by (rule grants_follow_roles [OF ok roles_ok_snoc [OF access_okD(1) [OF ok] _ that]]) (simp_all add: new_role_def new_id_def)
  then show ?thesis using ok by (auto simp: create_bot_access_role_def Let_def access_audit split: option.split)
qed

lemma sync_ok:
  assumes "access_ok db"
  shows "access_ok (sync_linked_bot_role_grants w r db)"
proof -
  have "grants_ok bu_id user_key bu_role_id (next_id db) (bot_roles db) (bot_users (sync_linked_bot_role_grants w r db))"
    unfolding sync_linked_bot_role_grants_def update_rows_def
    by (simp, rule grants_ok_map [OF access_okD(2) [OF assms]]) (auto simp: user_key_def split: if_splits)
  moreover have "grants_ok bg_id group_key bg_role_id (next_id db) (bot_roles db) (bot_groups (sync_linked_bot_role_grants w r db))"
    unfolding sync_linked_bot_role_grants_def update_rows_def
    by (simp, rule grants_ok_map [OF access_okD(3) [OF assms]]) (auto simp: group_key_def split: if_splits)
  ultimately show ?thesis
    using access_okD(1) [OF assms] by (simp add: access_ok_def) (simp add: sync_linked_bot_role_grants_def)
qed

lemma update_role_ok: "access_ok db \<Longrightarrow> access_ok (snd (update_bot_access_role w st admin i p db))"
proof (cases "get_org_bot_role (u_organization_id admin) i db")
  case (Inr old)
  assume ok: "access_ok db"
  have "access_ok (save_role (edited_role w admin p old) db)" if "\<not> role_conflict (edited_role w admin p old) db"
    using get_org_bot_role_row [OF Inr] that by (intro save_role_ok [OF ok, of old]) (simp_all add: edited_role_def)
  then show ?thesis
    using ok Inr by (auto simp: update_bot_access_role_def Let_def intro!: access_audit sync_ok split: option.split)
qed (simp add: update_bot_access_role_def)

lemma delete_role_ok: "access_ok db \<Longrightarrow> access_ok (snd (delete_bot_access_role w st admin i db))"
proof (cases "get_org_bot_role (u_organization_id admin) i db")
  case (Inr r)
  assume ok: "access_ok db"
  let ?rs = "delete_rows (\<lambda>x. ro_id x = ro_id r) (bot_roles db)"
  have "access_ok (db\<lparr>bot_roles := ?rs\<rparr>)"
    if "\<forall>u \<in> set (bot_users db). bu_role_id u \<noteq> Some (ro_id r)" "\<forall>g \<in> set (bot_groups db). bg_role_id g \<noteq> Some (ro_id r)"
  proof -
    have "roles_ok (next_id db) ?rs"
      using access_okD(1) [OF ok] by (auto simp: roles_ok_def fresh_ids_delete distinct_column_delete)
    moreover have "grants_ok bu_id user_key bu_role_id (next_id db) ?rs (bot_users db)"
      using that(1) by (intro grants_ok_roles_used [OF access_okD(2) [OF ok]]) auto
    moreover have "grants_ok bg_id group_key bg_role_id (next_id db) ?rs (bot_groups db)"
      using that(2) by (intro grants_ok_roles_used [OF access_okD(3) [OF ok]]) auto
    ultimately show ?thesis by (simp add: access_ok_def)
  qed
  then show ?thesis
    using ok Inr by (auto simp: delete_bot_access_role_def list_ex_iff intro!: access_audit)
qed (simp add: delete_bot_access_role_def)

lemma user_available: "ensure_bot_user_available org aad db = None \<Longrightarrow> u \<in> set (bot_users db) \<Longrightarrow> user_key u \<noteq> (org, aad)"
  by (auto simp: ensure_bot_user_available_def user_key_def fetch_None split: if_splits)

lemma group_available: "ensure_bot_group_available org i db = None \<Longrightarrow> g \<in> set (bot_groups db) \<Longrightarrow> group_key g \<noteq> (org, i)"
  by (auto simp: ensure_bot_group_available_def group_key_def fetch_None split: if_splits)

lemma normalized_aad: "normalize_aad_object_id v = Inr aad \<Longrightarrow> aad = lower (strip v) \<and> aad \<noteq> []"
  by (auto simp: normalize_aad_object_id_def Let_def split: if_splits)

lemma new_grant_role: "gr_role_id (new_grant role requested own) = map_option ro_id role"
  by (simp add: new_grant_def)

lemma new_keys [simp]:
  "user_key (new_bot_user w admin p aad gr db) = (u_organization_id admin, aad)"
  "group_key (new_bot_group w admin q i gr db) = (u_organization_id admin, i)"
  by (simp_all add: user_key_def group_key_def new_bot_user_def new_bot_group_def)

lemma new_user_ok:
  assumes "access_ok db" and "bu_id u = new_id db" and "\<And>x. x \<in> set (bot_users db) \<Longrightarrow> user_key x \<noteq> user_key u"
    and "bu_aad_object_id u \<noteq> []"
    and "\<And>i. bu_role_id u = Some i \<Longrightarrow> \<exists>x \<in> set (bot_roles db). ro_id x = i \<and> ro_organization_id x = bu_organization_id u"
  shows "access_ok (db\<lparr>bot_users := bot_users db @ [u], next_id := Suc (next_id db)\<rparr>)"
proof -
  have "grants_ok bu_id user_key bu_role_id (Suc (next_id db)) (bot_roles db) (bot_users db @ [u])"
    using assms(2-5) by (intro grants_ok_snoc [OF access_okD(2) [OF assms(1)]]) (auto simp: user_key_def new_id_def)
  then show ?thesis
    using access_okD(1,3) [OF assms(1)] by (auto simp: access_ok_def intro: roles_ok_mono grants_ok_mono)
qed

lemma new_group_ok:
  assumes "access_ok db" and "bg_id g = new_id db" and "\<And>x. x \<in> set (bot_groups db) \<Longrightarrow> group_key x \<noteq> group_key g"
    and "bg_group_object_id g \<noteq> []"
    and "\<And>i. bg_role_id g = Some i \<Longrightarrow> \<exists>x \<in> set (bot_roles db). ro_id x = i \<and> ro_organization_id x = bg_organization_id g"
  shows "access_ok (db\<lparr>bot_groups := bot_groups db @ [g], next_id := Suc (next_id db)\<rparr>)"
proof -
  have "grants_ok bg_id group_key bg_role_id (Suc (next_id db)) (bot_roles db) (bot_groups db @ [g])"
    using assms(2-5) by (intro grants_ok_snoc [OF access_okD(3) [OF assms(1)]]) (auto simp: group_key_def new_id_def)
  then show ?thesis
    using access_okD(1,2) [OF assms(1)] by (auto simp: access_ok_def intro: roles_ok_mono grants_ok_mono)
qed

text \<open>A user that is created: what the answer is, and where the row is.\<close>

lemma create_user_result:
  assumes "create_bot_authorized_user w st admin p db = (Inr u, db')" and "access_ok db"
  shows "\<exists>role db1. resolve_payload_bot_role w (u_organization_id admin) (buc_role_id p) (Some (buc_role p)) db = Inr (role, db1) \<and>
    roles_grow db db1 \<and> user_key u = (u_organization_id admin, lower (strip (buc_aad_object_id p))) \<and>
    bu_is_active u = buc_is_active p \<and> bu_role_id u = map_option ro_id role \<and>
    bu_permissions u = (case role of Some r \<Rightarrow> ro_permissions r | None \<Rightarrow> buc_permissions p) \<and>
    access_ok db' \<and> bot_users db' = bot_users db @ [u] \<and> bot_roles db' = bot_roles db1 \<and> relay_frame db db' \<and>
    organizations db' = organizations db \<and> bot_groups db' = bot_groups db \<and> membership_cache db' = membership_cache db"
proof -
  obtain aad where aad: "normalize_aad_object_id (buc_aad_object_id p) = Inr aad"
    using assms(1) by (auto simp: create_bot_authorized_user_def split: sum.splits)
  have free: "ensure_bot_user_available (u_organization_id admin) aad db = None"
    using assms(1) aad by (auto simp: create_bot_authorized_user_def split: option.splits)
  obtain role db1 where r: "resolve_payload_bot_role w (u_organization_id admin) (buc_role_id p) (Some (buc_role p)) db = Inr (role, db1)"
    using assms(1) aad free by (cases "resolve_payload_bot_role w (u_organization_id admin) (buc_role_id p) (Some (buc_role p)) db")
      (auto simp: create_bot_authorized_user_def)
  note grow = resolve_role_grow(1) [OF r assms(2)]
  let ?u = "new_bot_user w admin p aad (new_grant role (buc_role p) (buc_permissions p)) db1"
  let ?db = "db1\<lparr>bot_users := bot_users db1 @ [?u], next_id := Suc (next_id db1)\<rparr>"
  have run: "u = ?u" "db' = admin_audit w st ''admin.bot_user.created'' admin (bot_user_audit_metadata u) ?db"
    using assms(1) aad free r by (auto simp: create_bot_authorized_user_def Let_def)
  have ok: "access_ok db1" "bot_users db1 = bot_users db" using grow assms(2) by (simp_all add: roles_grow_def)
  have "access_ok ?db"
  proof (rule new_user_ok [OF ok(1)])
    show "user_key x \<noteq> user_key ?u" if "x \<in> set (bot_users db1)" for x
      using user_available [OF free] that ok(2) by simp
    show "\<exists>x \<in> set (bot_roles db1). ro_id x = i \<and> ro_organization_id x = bu_organization_id ?u" if i: "bu_role_id ?u = Some i" for i
    proof -
      obtain x where x: "role = Some x" "ro_id x = i" using i by (auto simp: new_bot_user_def new_grant_role)
      then show ?thesis using resolve_role_grow(2) [OF r assms(2) x(1)] by (auto simp: new_bot_user_def)
    qed
  qed (use normalized_aad [OF aad] in \<open>auto simp: new_bot_user_def\<close>)
  moreover have "user_key ?u = (u_organization_id admin, lower (strip (buc_aad_object_id p)))"
    using normalized_aad [OF aad] by (simp add: user_key_def new_bot_user_def)
  moreover have "bu_permissions ?u = (case role of Some r \<Rightarrow> ro_permissions r | None \<Rightarrow> buc_permissions p)"
    by (simp add: new_bot_user_def new_grant_def role_permissions_def split: option.split)
  ultimately show ?thesis
    using r grow ok(2) unfolding run(2)
    by (intro exI [of _ role] exI [of _ db1])
      (simp add: run(1) access_audit admin_audit_def roles_grow_def relay_frame_def new_bot_user_def new_grant_role)
qed

lemma create_bot_user_refused: "create_bot_authorized_user w st admin p db = (Inl e, db') \<Longrightarrow> db' = db"
  by (auto simp: create_bot_authorized_user_def Let_def split: sum.splits option.splits)

lemma create_group_ok:
  assumes "create_bot_authorized_group w st admin p db = (res, db')" and "access_ok db"
  shows "access_ok db' \<and> relay_frame db db'"
proof (cases res)
  case (Inl e)
  then have "db' = db" using assms(1) by (auto simp: create_bot_authorized_group_def Let_def split: sum.splits option.splits)
  then show ?thesis using assms(2) by simp
next
  case (Inr g)
  obtain i where i: "normalize_aad_object_id (bgc_group_object_id p) = Inr i"
    using assms(1) Inr by (auto simp: create_bot_authorized_group_def split: sum.splits)
  have free: "ensure_bot_group_available (u_organization_id admin) i db = None"
    using assms(1) Inr i by (auto simp: create_bot_authorized_group_def split: option.splits)
  obtain role db1 where r: "resolve_payload_bot_role w (u_organization_id admin) (bgc_role_id p) (Some (bgc_role p)) db = Inr (role, db1)"
    using assms(1) Inr i free by (cases "resolve_payload_bot_role w (u_organization_id admin) (bgc_role_id p) (Some (bgc_role p)) db")
      (auto simp: create_bot_authorized_group_def)
  note grow = resolve_role_grow(1) [OF r assms(2)]
  let ?g = "new_bot_group w admin p i (new_grant role (bgc_role p) (bgc_permissions p)) db1"
  let ?db = "db1\<lparr>bot_groups := bot_groups db1 @ [?g], next_id := Suc (next_id db1)\<rparr>"
  have run: "db' = admin_audit w st ''admin.bot_group.created'' admin (bot_group_audit_metadata ?g) ?db"
    using assms(1) Inr i free r by (auto simp: create_bot_authorized_group_def Let_def)
  have ok: "access_ok db1" "bot_groups db1 = bot_groups db" using grow assms(2) by (simp_all add: roles_grow_def)
  have "access_ok ?db"
  proof (rule new_group_ok [OF ok(1)])
    show "group_key x \<noteq> group_key ?g" if "x \<in> set (bot_groups db1)" for x
      using group_available [OF free] that ok(2) by simp
    show "\<exists>x \<in> set (bot_roles db1). ro_id x = k \<and> ro_organization_id x = bg_organization_id ?g" if k: "bg_role_id ?g = Some k" for k
    proof -
      obtain x where x: "role = Some x" "ro_id x = k" using k by (auto simp: new_bot_group_def new_grant_role)
      then show ?thesis using resolve_role_grow(2) [OF r assms(2) x(1)] by (auto simp: new_bot_group_def)
    qed
  qed (use normalized_aad [OF i] in \<open>auto simp: new_bot_group_def\<close>)
  then show ?thesis using grow unfolding run by (simp add: access_audit admin_audit_def roles_grow_def relay_frame_def)
qed

lemma update_user_access_result:
  assumes "update_bot_authorized_user w st admin i p db = (Inr u, db')" and "access_ok db"
  shows "\<exists>old gr db1. get_org_bot_user (u_organization_id admin) i db = Inr old \<and>
    updated_grant w (u_organization_id admin) (buu_role_id p) (buu_role p) (buu_patch p) (grant_of_user old) db = Inr (gr, db1) \<and>
    roles_grow db db1 \<and> u = edited_bot_user w admin p gr old \<and> user_key u = user_key old \<and> bu_id u = bu_id old \<and>
    bot_users db' = save_row bu_id u (bot_users db) \<and> bot_roles db' = bot_roles db1 \<and> access_ok db' \<and> relay_frame db db' \<and>
    organizations db' = organizations db \<and> bot_groups db' = bot_groups db \<and> membership_cache db' = membership_cache db"
proof -
  obtain old where old: "get_org_bot_user (u_organization_id admin) i db = Inr old"
    using assms(1) by (auto simp: update_bot_authorized_user_def split: sum.splits)
  note row = get_org_bot_user_row [OF old]
  obtain gr db1 where g: "updated_grant w (u_organization_id admin) (buu_role_id p) (buu_role p) (buu_patch p) (grant_of_user old) db = Inr (gr, db1)"
    using assms(1) old by (auto simp: update_bot_authorized_user_def split: sum.splits)
  have grow: "roles_grow db db1" using updated_grant_cases [OF g assms(2)] by blast
  let ?u = "edited_bot_user w admin p gr old"
  have run: "u = ?u" "db' = admin_audit w st ''admin.bot_user.updated'' admin
      (changed (bot_user_audit_metadata old) (bot_user_audit_metadata u)) (save_bot_user u db1)"
    using assms(1) old g by (auto simp: update_bot_authorized_user_def Let_def)
  have cols: "user_key ?u = user_key old" "bu_id ?u = bu_id old" "bu_role_id ?u = gr_role_id gr"
    by (simp_all add: edited_bot_user_def grant_user_def user_key_def)
  have ok: "access_ok db1" "bot_users db1 = bot_users db" using grow assms(2) by (simp_all add: roles_grow_def)
  have "grants_ok bu_id user_key bu_role_id (next_id db1) (bot_roles db1) (save_row bu_id ?u (bot_users db1))"
  proof (rule grants_ok_save [OF access_okD(2) [OF ok(1)]])
    show "bu_role_id old = Some k \<or> (\<exists>x \<in> set (bot_roles db1). ro_id x = k \<and> ro_organization_id x = fst (user_key ?u))"
      if "bu_role_id ?u = Some k" for k
      using updated_grant_role [OF g assms(2)] that row cols by (auto simp: grant_of_user_def user_key_def)
  qed (use row ok(2) cols in simp_all)
  then have "access_ok (save_bot_user ?u db1)"
    using access_okD(1,3) [OF ok(1)] by (simp add: access_ok_def save_bot_user_def)
  then show ?thesis
    using old g grow cols ok(2) unfolding run(2)
    by (intro exI [of _ old] exI [of _ gr] exI [of _ db1])
      (simp add: run(1) access_audit admin_audit_def roles_grow_def relay_frame_def save_bot_user_def)
qed

lemma update_bot_user_refused: "update_bot_authorized_user w st admin i p db = (Inl e, db') \<Longrightarrow> db' = db"
  by (auto simp: update_bot_authorized_user_def Let_def split: sum.splits)

lemma update_group_ok:
  assumes "update_bot_authorized_group w st admin i p db = (res, db')" and "access_ok db"
  shows "access_ok db' \<and> relay_frame db db'"
proof (cases res)
  case (Inl e)
  then have "db' = db" using assms(1) by (auto simp: update_bot_authorized_group_def Let_def split: sum.splits)
  then show ?thesis using assms(2) by simp
next
  case (Inr g)
  obtain old where old: "get_org_bot_group (u_organization_id admin) i db = Inr old"
    using assms(1) Inr by (auto simp: update_bot_authorized_group_def split: sum.splits)
  note row = get_org_bot_group_row [OF old]
  obtain gr db1 where g: "updated_grant w (u_organization_id admin) (bgu_role_id p) (bgu_role p) (bgu_patch p) (grant_of_group old) db = Inr (gr, db1)"
    using assms(1) old Inr by (auto simp: update_bot_authorized_group_def split: sum.splits)
  have grow: "roles_grow db db1" using updated_grant_cases [OF g assms(2)] by blast
  let ?g = "edited_bot_group w admin p gr old"
  have run: "db' = admin_audit w st ''admin.bot_group.updated'' admin
      (changed (bot_group_audit_metadata old) (bot_group_audit_metadata ?g)) (save_bot_group ?g db1)"
    using assms(1) old g Inr by (auto simp: update_bot_authorized_group_def Let_def)
  have cols: "group_key ?g = group_key old" "bg_id ?g = bg_id old" "bg_role_id ?g = gr_role_id gr"
    by (simp_all add: edited_bot_group_def grant_group_def group_key_def)
  have ok: "access_ok db1" "bot_groups db1 = bot_groups db" using grow assms(2) by (simp_all add: roles_grow_def)
  have "grants_ok bg_id group_key bg_role_id (next_id db1) (bot_roles db1) (save_row bg_id ?g (bot_groups db1))"
  proof (rule grants_ok_save [OF access_okD(3) [OF ok(1)]])
    show "bg_role_id old = Some k \<or> (\<exists>x \<in> set (bot_roles db1). ro_id x = k \<and> ro_organization_id x = fst (group_key ?g))"
      if "bg_role_id ?g = Some k" for k
      using updated_grant_role [OF g assms(2)] that row cols by (auto simp: grant_of_group_def group_key_def)
  qed (use row ok(2) cols in simp_all)
  then have "access_ok (save_bot_group ?g db1)"
    using access_okD(1,2) [OF ok(1)] by (simp add: access_ok_def save_bot_group_def)
  then show ?thesis
    using grow unfolding run by (simp add: access_audit admin_audit_def roles_grow_def relay_frame_def save_bot_group_def)
qed

lemma delete_user_ok: "access_ok db \<Longrightarrow> access_ok (snd (delete_bot_authorized_user w st admin i db))"
proof (cases "get_org_bot_user (u_organization_id admin) i db")
  case (Inr u)
  assume ok: "access_ok db"
  have "access_ok (db\<lparr>bot_users := delete_rows (\<lambda>x. bu_id x = bu_id u) (bot_users db)\<rparr>)"
    using access_okD(1-3) [OF ok] by (simp add: access_ok_def grants_ok_delete)
  then show ?thesis using Inr by (simp add: delete_bot_authorized_user_def access_audit)
qed (simp add: delete_bot_authorized_user_def)

lemma delete_group_ok: "access_ok db \<Longrightarrow> access_ok (snd (delete_bot_authorized_group w st admin i db))"
proof (cases "get_org_bot_group (u_organization_id admin) i db")
  case (Inr g)
  assume ok: "access_ok db"
  have "access_ok (db\<lparr>bot_groups := delete_rows (\<lambda>x. bg_id x = bg_id g) (bot_groups db)\<rparr>)"
    using access_okD(1-3) [OF ok] by (simp add: access_ok_def grants_ok_delete)
  then show ?thesis using Inr by (simp add: delete_bot_authorized_group_def access_audit)
qed (simp add: delete_bot_authorized_group_def)

section \<open>Requests about bot access\<close>

inductive bot_access_step :: "db \<Rightarrow> db \<Rightarrow> bool" where
  "bot_access_step db (snd (list_bot_access_roles w admin db))"
| "bot_access_step db (snd (create_bot_access_role w st admin rc db))"
| "bot_access_step db (snd (update_bot_access_role w st admin i ru db))"
| "bot_access_step db (snd (delete_bot_access_role w st admin i db))"
| "bot_access_step db (snd (list_bot_authorized_users w admin db))"
| "bot_access_step db (snd (create_bot_authorized_user w st admin uc db))"
| "bot_access_step db (snd (update_bot_authorized_user w st admin i uu db))"
| "bot_access_step db (snd (delete_bot_authorized_user w st admin i db))"
| "bot_access_step db (snd (list_bot_authorized_groups w admin db))"
| "bot_access_step db (snd (create_bot_authorized_group w st admin gc db))"
| "bot_access_step db (snd (update_bot_authorized_group w st admin i gu db))"
| "bot_access_step db (snd (delete_bot_authorized_group w st admin i db))"

lemma create_user_access_ok: "access_ok db \<Longrightarrow> access_ok (snd (create_bot_authorized_user w st admin p db))"
proof (cases "create_bot_authorized_user w st admin p db")
  case (Pair r db')
  then show "access_ok db \<Longrightarrow> ?thesis"
    using create_user_result [of w st admin p db _ db'] create_bot_user_refused [of w st admin p db _ db']
    by (cases r) auto
qed

lemma update_user_access_ok: "access_ok db \<Longrightarrow> access_ok (snd (update_bot_authorized_user w st admin i p db))"
proof (cases "update_bot_authorized_user w st admin i p db")
  case (Pair r db')
  then show "access_ok db \<Longrightarrow> ?thesis"
    using update_user_access_result [of w st admin i p db _ db'] update_bot_user_refused [of w st admin i p db _ db']
    by (cases r) auto
qed

lemma bot_access_step_ok: "bot_access_step a b \<Longrightarrow> access_ok a \<Longrightarrow> access_ok b"
proof (induction rule: bot_access_step.induct)
  case (5 w admin db)
  then show ?case unfolding list_bot_authorized_users_def by (rule with_bot_access_ok)
next
  case (9 w admin db)
  then show ?case unfolding list_bot_authorized_groups_def by (rule with_bot_access_ok)
next
  case (10 w st admin gc db)
  then show ?case using create_group_ok [OF prod.collapse [symmetric]] by blast
next
  case (11 w st admin i gu db)
  then show ?case using update_group_ok [OF prod.collapse [symmetric]] by blast
qed (simp_all add: list_roles_ok create_role_ok update_role_ok delete_role_ok create_user_access_ok update_user_access_ok
    delete_user_ok delete_group_ok)

section \<open>What a row grants\<close>

lemma access_role_found:
  assumes "access_ok db" and "r \<in> set (bot_roles db)"
  shows "access_role db (Some (ro_id r)) = Some r"
proof -
  have ids: "fresh_ids ro_id (next_id db) (bot_roles db)" by (rule access_okD(4) [OF assms(1)])
  then have "ro_id r \<noteq> []" using assms(2) str_nat_nonempty by (auto simp: fresh_ids_def)
  moreover have "fetch (\<lambda>x. ro_id x = ro_id r) (bot_roles db) = Some r"
    using ids assms(2) by (intro fetch_distinct) (simp_all add: fresh_ids_def)
  ultimately show ?thesis by (simp add: access_role_def opt_str_def)
qed

lemma access_role_None [simp]: "access_role db None = None"
  by (simp add: access_role_def opt_str_def)

lemma user_permissions_by_role:
  assumes "access_ok db" and "bu_role_id u = map_option ro_id role" and "\<And>r. role = Some r \<Longrightarrow> r \<in> set (bot_roles db)"
    and "bu_permissions u = (case role of Some r \<Rightarrow> ro_permissions r | None \<Rightarrow> own)"
  shows "user_permissions db u = (case role of Some r \<Rightarrow> ro_permissions r | None \<Rightarrow> own)"
  using assms access_role_found [OF assms(1)]
  by (cases role) (simp_all add: user_permissions_def effective_bot_permissions_def role_permissions_def)

text \<open>A role that is kept grants what it granted.\<close>

lemma kept_role_permissions:
  assumes "access_ok a" and "access_ok b" and "roles_kept (bot_roles a) (bot_roles b)" and "access_role a k = Some r"
  shows "map_option ro_permissions (access_role b k) = Some (ro_permissions r)"
proof -
  have r: "r \<in> set (bot_roles a)" "ro_id r = opt_str k" "opt_str k \<noteq> []"
    using assms(4) by (auto simp: access_role_def split: if_splits dest: fetch_Some)
  then obtain y where y: "y \<in> set (bot_roles b)" "ro_id y = ro_id r" "ro_permissions y = ro_permissions r"
    using assms(3) unfolding roles_kept_def by blast
  have "access_role b (Some (ro_id y)) = Some y" by (rule access_role_found [OF assms(2) y(1)])
  then have "access_role b k = Some y" using y(2) r(2,3) by (cases k) (simp_all add: access_role_def opt_str_def)
  then show ?thesis using y(3) by simp
qed

lemma linked_role_there:
  assumes "access_ok db" and "u \<in> set (bot_users db)" and "bu_role_id u = Some k"
  shows "\<exists>r. access_role db (Some k) = Some r"
proof -
  obtain x where "x \<in> set (bot_roles db)" "ro_id x = k"
    using access_okD(2) [OF assms(1)] assms(2,3) unfolding grants_ok_def by blast
  then show ?thesis using access_role_found [OF assms(1)] by blast
qed

lemma grants_ok_linked:
  assumes "grants_ok f k rl n roles rows"
  shows "list_all (\<lambda>r. rl r = None \<or> list_ex (\<lambda>x. Some (ro_id x) = rl r \<and> ro_organization_id x = fst (k r)) roles) rows"
  unfolding list_all_iff
proof
  fix r assume r: "r \<in> set rows"
  show "rl r = None \<or> list_ex (\<lambda>x. Some (ro_id x) = rl r \<and> ro_organization_id x = fst (k r)) roles"
  proof (cases "rl r")
    case (Some i)
    then obtain x where "x \<in> set roles" "ro_id x = i" "ro_organization_id x = fst (k r)"
      using assms r unfolding grants_ok_def by blast
    then show ?thesis using Some unfolding list_ex_iff by auto
  qed simp
qed

lemma filter_map_other:
  "(\<And>x. P x \<Longrightarrow> P (f x)) \<Longrightarrow> List.filter (\<lambda>x. \<not> P x) (List.map (\<lambda>x. if P x then f x else x) xs) = List.filter (\<lambda>x. \<not> P x) xs"
  by (induction xs) auto

section \<open>Properties\<close>

text \<open>C21: however requests of administrators about bot access follow each other, there is one row for each user
  and group of the directory in an organization, names of roles are unique in it, and the role of every
  row is a role of its organization.\<close>

theorem bot_access_stays_in_order:
  assumes "bot_access_step\<^sup>*\<^sup>* a b" and "access_ok a"
  shows "distinct (List.map user_key (bot_users b)) \<and> distinct (List.map group_key (bot_groups b)) \<and>
    distinct (List.map role_name_key (bot_roles b)) \<and>
    list_all (\<lambda>u. bu_role_id u = None \<or>
      list_ex (\<lambda>r. Some (ro_id r) = bu_role_id u \<and> ro_organization_id r = bu_organization_id u) (bot_roles b)) (bot_users b) \<and>
    list_all (\<lambda>g. bg_role_id g = None \<or>
      list_ex (\<lambda>r. Some (ro_id r) = bg_role_id g \<and> ro_organization_id r = bg_organization_id g) (bot_roles b)) (bot_groups b)"
proof -
  have ok: "access_ok b" using assms by (induction rule: rtranclp_induct) (auto intro: bot_access_step_ok)
  have "list_all (\<lambda>u. bu_role_id u = None \<or>
      list_ex (\<lambda>r. Some (ro_id r) = bu_role_id u \<and> ro_organization_id r = bu_organization_id u) (bot_roles b)) (bot_users b)"
    using grants_ok_linked [OF access_okD(2) [OF ok]] by (simp add: user_key_def)
  moreover have "list_all (\<lambda>g. bg_role_id g = None \<or>
      list_ex (\<lambda>r. Some (ro_id r) = bg_role_id g \<and> ro_organization_id r = bg_organization_id g) (bot_roles b)) (bot_groups b)"
    using grants_ok_linked [OF access_okD(3) [OF ok]] by (simp add: group_key_def)
  ultimately show ?thesis
    using access_okD(1,7,8) [OF ok] by (simp add: roles_ok_def)
qed

text \<open>C19: a change of a role holds at once for every user and group that has it, by what the bot goes by and by
  what their rows show; no row changes its role, and rows with other roles stay as they are.\<close>

theorem edited_role_applies_at_once:
  assumes "update_bot_access_role w st admin i p db = (Inr r, db')" and "access_ok db"
  shows "(\<lambda>u. (user_permissions db' u, bu_permissions u)) ` {u \<in> set (bot_users db'). bu_role_id u = Some (ro_id r)} \<subseteq>
      {(ro_permissions r, ro_permissions r)} \<and>
    (\<lambda>g. (group_permissions db' g, bg_permissions g)) ` {g \<in> set (bot_groups db'). bg_role_id g = Some (ro_id r)} \<subseteq>
      {(ro_permissions r, ro_permissions r)} \<and>
    List.map (\<lambda>u. (bu_id u, bu_role_id u)) (bot_users db') = List.map (\<lambda>u. (bu_id u, bu_role_id u)) (bot_users db) \<and>
    List.map (\<lambda>g. (bg_id g, bg_role_id g)) (bot_groups db') = List.map (\<lambda>g. (bg_id g, bg_role_id g)) (bot_groups db) \<and>
    List.filter (\<lambda>u. bu_role_id u \<noteq> Some (ro_id r)) (bot_users db') = List.filter (\<lambda>u. bu_role_id u \<noteq> Some (ro_id r)) (bot_users db) \<and>
    List.filter (\<lambda>g. bg_role_id g \<noteq> Some (ro_id r)) (bot_groups db') = List.filter (\<lambda>g. bg_role_id g \<noteq> Some (ro_id r)) (bot_groups db)"
proof -
  obtain old where old: "get_org_bot_role (u_organization_id admin) i db = Inr old"
    using assms(1) by (auto simp: update_bot_access_role_def split: sum.splits)
  have run: "r = edited_role w admin p old" "db' = admin_audit w st ''admin.bot_role.updated'' admin
      (changed (bot_role_audit_metadata old) (bot_role_audit_metadata r)) (sync_linked_bot_role_grants w r (save_role r db))"
    using assms(1) old by (auto simp: update_bot_access_role_def Let_def split: option.splits if_splits)
  let ?linked = "\<lambda>u. bu_role_id u = Some (ro_id r)"
  have users: "bot_users db' = List.map (\<lambda>u. if bu_role_id u = Some (ro_id r) then u\<lparr>bu_permissions := ro_permissions r,
      bu_role := role_label_for_grant (Some r) None, bu_updated_at := utcnow w\<rparr> else u) (bot_users db)"
    and groups: "bot_groups db' = List.map (\<lambda>g. if bg_role_id g = Some (ro_id r) then g\<lparr>bg_permissions := ro_permissions r,
      bg_role := role_label_for_grant (Some r) None, bg_updated_at := utcnow w\<rparr> else g) (bot_groups db)"
    and roles: "bot_roles db' = save_row ro_id r (bot_roles db)"
    by (simp_all add: run(2) admin_audit_def sync_linked_bot_role_grants_def save_role_def update_rows_def)
  have ok: "access_ok db'" using update_role_ok [OF assms(2), of w st admin i p] assms(1) by simp
  have "r \<in> set (bot_roles db')"
    using get_org_bot_role_row [OF old] by (auto simp: roles set_save_row run(1) edited_role_def)
  then have found: "access_role db' (Some (ro_id r)) = Some r" by (rule access_role_found [OF ok])
  have "user_permissions db' u = ro_permissions r" if "bu_role_id u = Some (ro_id r)" for u
    using that found by (simp add: user_permissions_def effective_bot_permissions_def role_permissions_def)
  moreover have "group_permissions db' g = ro_permissions r" if "bg_role_id g = Some (ro_id r)" for g
    using that found by (simp add: group_permissions_def effective_bot_permissions_def role_permissions_def)
  moreover have "List.filter (\<lambda>u. bu_role_id u \<noteq> Some (ro_id r)) (bot_users db') = List.filter (\<lambda>u. bu_role_id u \<noteq> Some (ro_id r)) (bot_users db)"
    unfolding users by (rule filter_map_other) simp
  moreover have "List.filter (\<lambda>g. bg_role_id g \<noteq> Some (ro_id r)) (bot_groups db') = List.filter (\<lambda>g. bg_role_id g \<noteq> Some (ro_id r)) (bot_groups db)"
    unfolding groups by (rule filter_map_other) simp
  moreover have "bu_permissions u = ro_permissions r" if "u \<in> set (bot_users db')" "bu_role_id u = Some (ro_id r)" for u
    using that unfolding users by (auto split: if_splits)
  moreover have "bg_permissions g = ro_permissions r" if "g \<in> set (bot_groups db')" "bg_role_id g = Some (ro_id r)" for g
    using that unfolding groups by (auto split: if_splits)
  moreover have "List.map (\<lambda>u. (bu_id u, bu_role_id u)) (bot_users db') = List.map (\<lambda>u. (bu_id u, bu_role_id u)) (bot_users db)"
    unfolding users by (simp add: o_def)
  moreover have "List.map (\<lambda>g. (bg_id g, bg_role_id g)) (bot_groups db') = List.map (\<lambda>g. (bg_id g, bg_role_id g)) (bot_groups db)"
    unfolding groups by (simp add: o_def)
  ultimately show ?thesis by (simp only: image_subset_iff mem_Collect_eq insert_iff empty_iff) blast
qed

text \<open>C20: after an update the bot goes by the role the request names, else by the role the row had, and by the
  columns of the row only where there is no role; permissions a request sets on a row that keeps its role
  are stored and shown, and grant or take away nothing.\<close>

theorem update_grants_by_role_first:
  assumes "update_bot_authorized_user w st admin i p db = (Inr u, db')" and "access_ok db"
    and "get_org_bot_user (u_organization_id admin) i db = Inr old"
  shows "user_permissions db' u =
      (if buu_role_id p \<noteq> None \<or> buu_role p \<noteq> None
       then (case resolve_payload_bot_role w (u_organization_id admin) (case buu_role_id p of None \<Rightarrow> None | Some k \<Rightarrow> k) (buu_role p) db of
           Inr (Some r, _) \<Rightarrow> ro_permissions r
         | _ \<Rightarrow> apply_patch (buu_patch p) (bu_permissions old))
       else (case access_role db (bu_role_id old) of
           Some r \<Rightarrow> ro_permissions r
         | None \<Rightarrow> apply_patch (buu_patch p) (bu_permissions old))) \<and>
    (buu_role_id p \<noteq> None \<or> buu_role p \<noteq> None \<or> bu_permissions u = apply_patch (buu_patch p) (bu_permissions old))"
proof -
  obtain gr db1 where g: "updated_grant w (u_organization_id admin) (buu_role_id p) (buu_role p) (buu_patch p) (grant_of_user old) db = Inr (gr, db1)"
    and grow: "roles_grow db db1" and u: "u = edited_bot_user w admin p gr old" and roles: "bot_roles db' = bot_roles db1"
    and ok: "access_ok db'"
    using update_user_access_result [OF assms(1,2)] assms(3) by auto
  note old = get_org_bot_user_row [OF assms(3)]
  have cols: "bu_role_id u = gr_role_id gr" "bu_permissions u = gr_permissions gr"
    by (simp_all add: u edited_bot_user_def grant_user_def)
  have own: "gr_permissions (grant_of_user old) = bu_permissions old" "gr_role_id (grant_of_user old) = bu_role_id old"
    by (simp_all add: grant_of_user_def)
  note cases = updated_grant_cases [OF g assms(2), unfolded own]
  show ?thesis
  proof (cases "buu_role_id p \<noteq> None \<or> buu_role p \<noteq> None")
    case True
    then obtain resolved where r: "resolve_payload_bot_role w (u_organization_id admin) (case buu_role_id p of None \<Rightarrow> None | Some k \<Rightarrow> k)
          (buu_role p) db = Inr (resolved, db1)" "gr_role_id gr = map_option ro_id resolved"
        "gr_permissions gr = (case resolved of Some r \<Rightarrow> ro_permissions r | None \<Rightarrow> apply_patch (buu_patch p) (bu_permissions old))"
      using cases by (metis (no_types, lifting))
    have "user_permissions db' u = (case resolved of Some r \<Rightarrow> ro_permissions r | None \<Rightarrow> apply_patch (buu_patch p) (bu_permissions old))"
      using resolve_role_grow(2) [OF r(1) assms(2)] r(2,3) cols roles
      by (intro user_permissions_by_role [OF ok]) simp_all
    then show ?thesis using True r(1) by (simp split: option.split) blast
  next
    case False
    then have kept: "gr_role_id gr = bu_role_id old" "gr_permissions gr = apply_patch (buu_patch p) (bu_permissions old)" "db1 = db"
      using cases by blast+
    have "access_role db' (bu_role_id u) = access_role db (bu_role_id old)"
      by (simp add: access_role_def roles kept(1,3) cols(1))
    then have "user_permissions db' u = (case access_role db (bu_role_id old) of Some r \<Rightarrow> ro_permissions r | None \<Rightarrow> apply_patch (buu_patch p) (bu_permissions old))"
      by (simp add: user_permissions_def effective_bot_permissions_def role_permissions_def cols(2) kept(2) split: option.split)
    then show ?thesis using False cols(2) kept(2) by simp
  qed
qed

text \<open>A sender without groups is judged by the row of the user alone.\<close>

lemma authorize_without_groups:
  assumes "deployed st org db" and "fetch (\<lambda>g. bg_organization_id g = o_id org \<and> bg_is_active g) (bot_groups db) = None"
    and "lower (strip (ca_graph_user_id ca)) \<noteq> []"
  shows "authorize_bot_command rm w st ca parsed (db, tk) =
    (let (az, db') = decide_bot_command w ca parsed (o_id org) (active_bot_user (o_id org) (lower (strip (ca_graph_user_id ca))) db)
        ([], ''not_configured'', []) db in (Inr az, db', tk))"
  using assms by (simp add: authorize_bot_command_def Let_def deployed_default bot_group_ids_for_sender_def split: prod.split)

lemma no_groups_match [simp]: "matching_bot_groups db org [] = []"
  by (simp add: matching_bot_groups_def)

lemma fetch_user_key:
  assumes "access_ok db" and "u \<in> set (bot_users db)" and "user_key u = (org, aad)"
  shows "fetch (\<lambda>x. bu_organization_id x = org \<and> bu_aad_object_id x = aad) (bot_users db) = Some u"
proof -
  have "(\<lambda>x. user_key x = user_key u) = (\<lambda>x. bu_organization_id x = org \<and> bu_aad_object_id x = aad)"
    using assms(3) by (auto simp: user_key_def)
  then show ?thesis using fetch_distinct [OF access_okD(7) [OF assms(1)] assms(2)] by simp
qed



section \<open>Witnesses\<close>

definition sample_role :: bot_access_role where
  "sample_role = \<lparr>ro_id = ''0'', ro_organization_id = ''o1'', ro_name = ''Ops'', ro_description = [], ro_is_system = False,
     ro_system_key = None, ro_permissions = viewer_permissions, ro_created_by_id = None, ro_updated_by_id = None,
     ro_created_at = 0, ro_updated_at = 0\<rparr>"

definition sample_bot_user :: bot_authorized_user where
  "sample_bot_user = \<lparr>bu_id = ''1'', bu_organization_id = ''o1'', bu_aad_object_id = ''u'', bu_display_name = ''Ada'',
     bu_user_principal_name = [], bu_role_id = Some ''0'', bu_role = ''role'', bu_is_active = True,
     bu_permissions = viewer_permissions, bu_created_by_id = None, bu_updated_by_id = None, bu_last_seen_at = None,
     bu_created_at = 0, bu_updated_at = 0\<rparr>"

definition sample_access :: db where
  "sample_access = empty_db\<lparr>organizations := [sample_organization], bot_roles := [sample_role], bot_users := [sample_bot_user],
     next_id := 2\<rparr>"

definition sample_role_update :: role_update_in where
  "sample_role_update = \<lparr>rui_name = None, rui_description = None, rui_patch = [(''can_delete_routes'', True)]\<rparr>"

definition sample_user_update :: bot_user_update_in where
  "sample_user_update = \<lparr>buu_display_name = None, buu_user_principal_name = None, buu_role_id = None, buu_role = None,
     buu_is_active = Some False, buu_patch = [(''can_delete_routes'', True)]\<rparr>"

definition sample_user_create :: bot_user_create_in where
  "sample_user_create = \<lparr>buc_aad_object_id = ''V'', buc_display_name = ''Eve'', buc_user_principal_name = [], buc_role_id = None,
     buc_role = ''custom'', buc_is_active = True, buc_permissions = all_permissions\<rparr>"

lemma sample_digits: "str_nat 0 = ''0''" "str_nat 1 = ''1''"
  by code_simp+

lemma sample_access_rows:
  "bot_roles sample_access = [sample_role]" "bot_users sample_access = [sample_bot_user]" "bot_groups sample_access = []"
  "organizations sample_access = [sample_organization]" "next_id sample_access = 2"
  by (simp_all add: sample_access_def empty_db_def)

lemma sample_access_ok: "access_ok sample_access"
proof -
  have "\<exists>i < 2. ''0'' = str_nat i" "\<exists>i < 2. ''1'' = str_nat i"
    using sample_digits by (metis one_less_numeral_iff semiring_norm(76) zero_less_numeral)+
  then show ?thesis
    by (simp add: access_ok_def sample_access_rows roles_ok_def grants_ok_def fresh_ids_def sample_role_def sample_bot_user_def user_key_def)
qed

lemma sample_access_deployed: "deployed sample_registered sample_organization sample_access"
  by (simp add: deployed_def sample_access_rows sample_organization_def sample_registered_def)

lemma sample_found:
  "get_org_bot_role (u_organization_id sample_admin) ''0'' sample_access = Inr sample_role"
  "get_org_bot_user (u_organization_id sample_admin) ''1'' sample_access = Inr sample_bot_user"
  by (simp_all add: get_org_bot_role_def get_org_bot_user_def found_or_404_def sample_access_rows sample_role_def sample_bot_user_def sample_admin_def)

theorem bot_access_stays_in_order_witness:
  "let b = snd (list_bot_authorized_users sample_world sample_admin sample_access) in
    distinct (List.map user_key (bot_users b)) \<and> distinct (List.map group_key (bot_groups b)) \<and>
    distinct (List.map role_name_key (bot_roles b)) \<and>
    list_all (\<lambda>u. bu_role_id u = None \<or>
      list_ex (\<lambda>r. Some (ro_id r) = bu_role_id u \<and> ro_organization_id r = bu_organization_id u) (bot_roles b)) (bot_users b) \<and>
    list_all (\<lambda>g. bg_role_id g = None \<or>
      list_ex (\<lambda>r. Some (ro_id r) = bg_role_id g \<and> ro_organization_id r = bg_organization_id g) (bot_roles b)) (bot_groups b)"
  unfolding Let_def
  by (rule bot_access_stays_in_order [OF r_into_rtranclp [where r = bot_access_step] sample_access_ok]) (rule bot_access_step.intros)

theorem edited_role_applies_at_once_witness:
  "\<exists>r db'. update_bot_access_role sample_world sample_settings sample_admin ''0'' sample_role_update sample_access = (Inr r, db') \<and>
    (\<lambda>u. (user_permissions db' u, bu_permissions u)) ` {u \<in> set (bot_users db'). bu_role_id u = Some (ro_id r)} \<subseteq>
      {(ro_permissions r, ro_permissions r)} \<and> can_delete_routes (ro_permissions r)"
proof -
  let ?r = "edited_role sample_world sample_admin sample_role_update sample_role"
  have "\<not> role_conflict ?r sample_access"
    by (simp add: role_conflict_def sample_access_rows edited_role_def)
  then obtain db' where run: "update_bot_access_role sample_world sample_settings sample_admin ''0'' sample_role_update sample_access = (Inr ?r, db')"
    by (simp add: update_bot_access_role_def sample_found sample_role_update_def Let_def)
  have "can_delete_routes (ro_permissions ?r)"
    by (simp add: edited_role_def sample_role_update_def apply_patch_def patched_def)
  then show ?thesis using run edited_role_applies_at_once [OF run sample_access_ok] by blast
qed

lemma sample_user_updated:
  "\<exists>u db'. update_bot_authorized_user sample_world sample_settings sample_admin ''1'' sample_user_update sample_access = (Inr u, db')"
  by (simp add: update_bot_authorized_user_def sample_found updated_grant_def sample_user_update_def Let_def)

theorem update_grants_by_role_first_witness:
  "\<exists>u db'. update_bot_authorized_user sample_world sample_settings sample_admin ''1'' sample_user_update sample_access = (Inr u, db') \<and>
    \<not> can_delete_routes (user_permissions db' u) \<and> can_delete_routes (bu_permissions u)"
proof -
  obtain u db' where run: "update_bot_authorized_user sample_world sample_settings sample_admin ''1'' sample_user_update sample_access = (Inr u, db')"
    using sample_user_updated by blast
  have role: "access_role sample_access (bu_role_id sample_bot_user) = Some sample_role"
    by (simp add: access_role_def opt_str_def sample_access_rows sample_bot_user_def sample_role_def)
  have none: "buu_role_id sample_user_update = None" "buu_role sample_user_update = None" by (simp_all add: sample_user_update_def)
  show ?thesis
    using run update_grants_by_role_first [OF run sample_access_ok sample_found(2)]
    by (simp add: role none) (simp add: sample_role_def viewer_permissions_def sample_user_update_def apply_patch_def patched_def)
qed



end
