(* ===== verification/Backend.thy ===== *)
theory Backend
  imports Settings_Guarantees Bot_Admin_Guarantees
begin

text \<open>
  The backend as a whole: a run mixes webhook requests, the requests of administrators about routes,
  deliveries, buckets, conversation references, bot access and accounts, and what Teams posts to the bot,
  in any order and with any clock, directory and settings. Every run keeps the tables of routes,
  deliveries and buckets in order.
\<close>

section \<open>Requests that leave the relay alone\<close>

lemma ensure_system_roles_relay:
  "ensure_system_roles w org actor roles (existing, db) = Inr (existing', db') \<Longrightarrow> relay_frame db db'"
proof (induction roles arbitrary: existing db)
  case (Cons role roles)
  obtain k n d p where role: "role = (k, n, d, p)" by (rule prod_cases4)
  obtain ex1 db1 where step: "ensure_system_role w org actor (k, n, d, p) (existing, db) = Inr (ex1, db1)"
    and rest: "ensure_system_roles w org actor roles (ex1, db1) = Inr (existing', db')"
    using Cons.prems by (auto simp: role split: sum.splits)
  have "relay_frame db db1"
    using step by (auto simp: ensure_system_role_def Let_def relay_frame_def split: option.splits if_splits)
  then show ?case using relay_frame_trans Cons.IH [OF rest] by blast
qed simp

lemma ensured_relay: "ensure_bot_access_system_roles w org actor db = Inr (roles, db') \<Longrightarrow> relay_frame db db'"
  unfolding ensure_bot_access_system_roles_def Let_def by (rule ensure_system_roles_relay)

lemma backfill_relay: "backfill_bot_access_role_assignments w org db = Inr db' \<Longrightarrow> relay_frame db db'"
proof -
  assume run: "backfill_bot_access_role_assignments w org db = Inr db'"
  obtain roles db1 where e: "ensure_bot_access_system_roles w org None db = Inr (roles, db1)"
    using run by (auto simp: backfill_bot_access_role_assignments_def split: sum.splits)
  have "relay_frame db1 db'"
    using run e by (auto simp: backfill_bot_access_role_assignments_def relay_frame_def split: option.splits)
  then show ?thesis using relay_frame_trans [OF ensured_relay [OF e]] by blast
qed

lemma with_bot_access_relay: "relay_frame db (snd (with_bot_access w admin f db))"
proof (cases "ensure_bot_access_system_roles w (u_organization_id admin) (Some (u_id admin)) db")
  case (Inr s)
  obtain roles db1 where s: "s = (roles, db1)" by (rule prod.exhaust)
  show ?thesis
    using relay_frame_trans [OF ensured_relay [OF Inr [unfolded s]] backfill_relay]
    by (cases "backfill_bot_access_role_assignments w (u_organization_id admin) db1") (simp_all add: with_bot_access_def Inr s)
qed (simp add: with_bot_access_def)

lemma resolve_role_relay:
  assumes "resolve_payload_bot_role w org role_id role db = Inr (resolved, db')"
  shows "relay_frame db db'"
proof (cases "opt_str role_id \<noteq> []")
  case True
  then show ?thesis using assms by (auto simp: resolve_payload_bot_role_def split: sum.splits)
next
  case False
  then have "db' = db \<or> (\<exists>k. get_system_bot_role w org k db = Inr (resolved, db'))"
    using assms by (auto simp: resolve_payload_bot_role_def split: if_splits)
  then show ?thesis
  proof
    assume "\<exists>k. get_system_bot_role w org k db = Inr (resolved, db')"
    then obtain k where k: "get_system_bot_role w org k db = Inr (resolved, db')" by blast
    then obtain roles where "ensure_bot_access_system_roles w org None db = Inr (roles, db')"
      by (cases "ensure_bot_access_system_roles w org None db") (auto simp: get_system_bot_role_def)
    then show ?thesis by (rule ensured_relay)
  qed simp
qed

lemma updated_grant_relay:
  assumes "updated_grant w org role_id role patch gr db = Inr (gr', db')"
  shows "relay_frame db db'"
proof (cases "role_id \<noteq> None \<or> role \<noteq> None")
  case False
  then show ?thesis using assms by (auto simp: updated_grant_def Let_def)
next
  case True
  then obtain resolved where "resolve_payload_bot_role w org (case role_id of None \<Rightarrow> None | Some i \<Rightarrow> i) role db = Inr (resolved, db')"
    using assms by (cases "resolve_payload_bot_role w org (case role_id of None \<Rightarrow> None | Some i \<Rightarrow> i) role db")
      (auto simp: updated_grant_def Let_def)
  then show ?thesis by (rule resolve_role_relay)
qed

lemma admin_audit_relay [simp]: "relay_frame db (admin_audit w st a admin m db)"
  by (simp add: admin_audit_def)

lemma audited_relay: "relay_frame a b \<Longrightarrow> relay_frame a (admin_audit w st x admin m b)"
  using relay_frame_trans [OF _ admin_audit_relay] .

text \<open>Rows of the bot are written beside the tables of the relay.\<close>

lemma relay_frame_rows:
  "relay_frame a b \<Longrightarrow> relay_frame a (b\<lparr>bot_users := us, next_id := Suc (next_id b)\<rparr>)"
  "relay_frame a b \<Longrightarrow> relay_frame a (b\<lparr>bot_groups := gs, next_id := Suc (next_id b)\<rparr>)"
  "relay_frame a b \<Longrightarrow> relay_frame a (b\<lparr>bot_roles := rs, next_id := Suc (next_id b)\<rparr>)"
  "relay_frame a b \<Longrightarrow> relay_frame a (b\<lparr>bot_users := us\<rparr>)" "relay_frame a b \<Longrightarrow> relay_frame a (b\<lparr>bot_groups := gs\<rparr>)"
  "relay_frame a b \<Longrightarrow> relay_frame a (b\<lparr>bot_roles := rs\<rparr>)" "relay_frame a b \<Longrightarrow> relay_frame a (save_role r b)"
  "relay_frame a b \<Longrightarrow> relay_frame a (save_bot_user u b)" "relay_frame a b \<Longrightarrow> relay_frame a (save_bot_group g b)"
  "relay_frame a b \<Longrightarrow> relay_frame a (sync_linked_bot_role_grants w r b)"
  by (simp_all add: relay_frame_def save_role_def save_bot_user_def save_bot_group_def sync_linked_bot_role_grants_def)

lemma create_user_relay: "relay_frame db (snd (create_bot_authorized_user w st admin p db))"
  by (auto simp: create_bot_authorized_user_def Let_def intro!: audited_relay relay_frame_rows dest: resolve_role_relay
      split: sum.split option.split)

lemma create_group_relay: "relay_frame db (snd (create_bot_authorized_group w st admin p db))"
  by (auto simp: create_bot_authorized_group_def Let_def intro!: audited_relay relay_frame_rows dest: resolve_role_relay
      split: sum.split option.split)

lemma update_user_relay: "relay_frame db (snd (update_bot_authorized_user w st admin i p db))"
  by (auto simp: update_bot_authorized_user_def Let_def intro!: audited_relay relay_frame_rows dest: updated_grant_relay
      split: sum.split)

lemma update_group_relay: "relay_frame db (snd (update_bot_authorized_group w st admin i p db))"
  by (auto simp: update_bot_authorized_group_def Let_def intro!: audited_relay relay_frame_rows dest: updated_grant_relay
      split: sum.split)

lemma role_handlers_relay:
  "relay_frame db (snd (list_bot_access_roles w admin db))" "relay_frame db (snd (create_bot_access_role w st admin rc db))"
  "relay_frame db (snd (update_bot_access_role w st admin i ru db))" "relay_frame db (snd (delete_bot_access_role w st admin i db))"
  by (auto simp: list_bot_access_roles_def create_bot_access_role_def update_bot_access_role_def delete_bot_access_role_def Let_def
      intro!: audited_relay relay_frame_rows dest: ensured_relay split: sum.split option.split)

lemma delete_grant_relay:
  "relay_frame db (snd (delete_bot_authorized_user w st admin i db))" "relay_frame db (snd (delete_bot_authorized_group w st admin i db))"
  by (auto simp: delete_bot_authorized_user_def delete_bot_authorized_group_def intro!: audited_relay relay_frame_rows split: sum.split)

lemma bot_access_relay: "bot_access_step a b \<Longrightarrow> relay_frame a b"
  by (induction rule: bot_access_step.induct)
    (simp_all add: role_handlers_relay list_bot_authorized_users_def list_bot_authorized_groups_def with_bot_access_relay
      create_user_relay create_group_relay update_user_relay update_group_relay delete_grant_relay)

section \<open>Accounts\<close>

lemma refusal_relay: "refusal db r \<Longrightarrow> relay_frame db (snd r)"
  by (auto simp: refusal_def relay_frame_def)

lemma csrf_write_relay:
  assumes "\<And>s. relay_frame db (snd (h s db))"
  shows "relay_frame db (snd (csrf_write en w st br h db))"
  using csrf_write_cases [where w = w and br = br and db = db and en = en and st = st and h = h] assms
  by (auto split: option.splits if_splits intro: refusal_relay)

lemma admin_write_relay:
  assumes "\<And>s u. relay_frame db (snd (h s u db))"
  shows "relay_frame db (snd (admin_write en w st br h db))"
  using admin_write_cases [where w = w and br = br and db = db and en = en and st = st and h = h] assms
  by (auto split: option.splits if_splits intro: refusal_relay)

lemma relay_frame_accounts:
  "relay_frame a b \<Longrightarrow> relay_frame a (record_audit w st x t i o1 m b)" "relay_frame a b \<Longrightarrow> relay_frame a (save_session s b)"
  "relay_frame a b \<Longrightarrow> relay_frame a (save_user u b)" "relay_frame a b \<Longrightarrow> relay_frame a (add_user u b)"
  "relay_frame a b \<Longrightarrow> relay_frame a (snd (revoke_user_sessions w k e b))"
  "relay_frame a b \<Longrightarrow> relay_frame a (record_session_revocation w st admin u n reason b)"
  by (auto simp: save_session_def save_user_def add_user_def revoke_user_sessions_def record_session_revocation_def Let_def
      intro: relay_frame_trans audited_relay) (simp_all add: relay_frame_def)

lemma issue_session_relay: "issue_session en w env u db = Inr db' \<Longrightarrow> relay_frame db db'"
  by (auto simp: issue_session_def relay_frame_def split: if_splits)

lemma account_handlers_relay:
  "relay_frame db (snd (setup_status env db))" "relay_frame db (snd (login en w st env email password db))"
  by (auto simp: setup_status_def login_def Let_def intro!: relay_frame_accounts dest: issue_session_relay default_organization_relay
      split: option.split sum.split prod.split)

lemma create_first_admin_relay: "relay_frame db (snd (create_first_admin en w st env p db))"
proof -
  obtain org db1 where o1: "default_organization env db = (org, db1)" by (rule prod.exhaust)
  have "relay_frame db db2" if "issue_session en w env u (add_user u db1) = Inr db2" for u db2
    using relay_frame_trans [OF relay_frame_accounts(4) [OF default_organization_relay [OF o1]] issue_session_relay [OF that]] .
  then show ?thesis
    by (auto simp: create_first_admin_def o1 Let_def intro!: relay_frame_accounts split: sum.split option.split)
qed

lemma update_user_row_relay: "relay_frame db (snd (update_user w st admin i p db))"
  by (auto simp: update_user_def Let_def split_beta intro!: relay_frame_accounts audited_relay split: sum.split option.split)

lemma logout_relay: "relay_frame db (snd (logout en w st br db))"
  unfolding logout_def by (rule csrf_write_relay) (simp add: relay_frame_accounts)

lemma me_relay: "relay_frame db (snd (me en w st br db))"
  using me_result [of w br db en st]
  by (auto simp: refresh_csrf_token_def save_session_def relay_frame_def refusal_def)

lemma create_user_row_relay: "relay_frame db (snd (create_user en w st admin uc db))"
  by (auto simp: create_user_def Let_def intro!: audited_relay relay_frame_accounts split: sum.split option.split)

lemma password_row_relay: "relay_frame db (snd (update_user_password en w st admin s i password db))"
  by (auto simp: update_user_password_def Let_def split_beta intro!: audited_relay relay_frame_accounts
      split: sum.split option.split)

lemma account_relay: "account_step env a b \<Longrightarrow> relay_frame a b"
  by (induction rule: account_step.induct)
    (simp_all add: account_handlers_relay create_first_admin_relay logout_relay me_relay admin_write_relay
      create_user_row_relay update_user_row_relay password_row_relay)

section \<open>The delegated credential and the settings\<close>

lemma relay_frame_credentials:
  "relay_frame a b \<Longrightarrow> relay_frame a (user_audit w st x u m b)" "relay_frame a b \<Longrightarrow> relay_frame a (delete_pending p b)"
  "relay_frame a b \<Longrightarrow> relay_frame a (save_credential c b)" "relay_frame a b \<Longrightarrow> relay_frame a (b\<lparr>credentials := cr\<rparr>)"
  "relay_frame a b \<Longrightarrow> next_id b \<le> n \<Longrightarrow> relay_frame a (b\<lparr>pendings := ps, next_id := n\<rparr>)"
  "relay_frame a b \<Longrightarrow> next_id b \<le> n \<Longrightarrow> relay_frame a (b\<lparr>credentials := cr, next_id := n\<rparr>)"
  by (auto simp: user_audit_def delete_pending_def save_credential_def intro: relay_frame_accounts)
    (simp_all add: relay_frame_def)

lemma live_relay: "relay_frame db (snd (get_live_graph_delivery_pending w org i db))"
  using live_db [of w org i db] by (auto intro!: relay_frame_credentials)

lemma exchange_relay: "relay_frame db (snd (exchange_authorization_code_to_pending rm w st org creator code uri db))"
  by (auto simp: exchange_authorization_code_to_pending_def Let_def intro!: relay_frame_credentials
      split: sum.split prod.split option.split)

lemma promote_relay: "relay_frame db (snd (promote_pending_delegated_credential w org i db))"
  by (auto simp: promote_pending_delegated_credential_def get_or_create_credential_def Let_def
      intro!: relay_frame_credentials split: option.split)

lemma delegated_refresh_relay: "relay_frame db (snd (refresh_delegated_access_token rm w st org db))"
  by (auto simp: refresh_delegated_access_token_def refresh_failed_def Let_def intro!: relay_frame_credentials
      split: option.split sum.split exn.split)

lemma confirm_relay: "relay_frame db (snd (confirm_graph_delivery_oauth_pending w st admin i db))"
proof -
  obtain r db1 where live: "get_live_graph_delivery_pending w (u_organization_id admin) i db = (r, db1)" by (rule prod.exhaust)
  have first_part: "relay_frame db db1" using live_relay [of db w "u_organization_id admin" i] live by simp
  obtain c db2 where pr: "promote_pending_delegated_credential w (u_organization_id admin) i db1 = (c, db2)" by (rule prod.exhaust)
  have "relay_frame db1 db2" using promote_relay [of db1 w "u_organization_id admin" i] pr by simp
  then have both: "relay_frame db db2" using relay_frame_trans [OF first_part] by blast
  show ?thesis
    using first_part relay_frame_credentials(1) [OF both]
    by (auto simp: confirm_graph_delivery_oauth_pending_def live pr split: sum.split exn.split)
qed

lemma token_refresh_relay: "relay_frame db (snd (refresh_graph_delivery_token rm w st org db))"
proof -
  obtain r db1 where "refresh_delegated_access_token rm w st org db = (r, db1)" by (rule prod.exhaust)
  then show ?thesis
    using delegated_refresh_relay [of db rm w st org]
    by (auto simp: refresh_graph_delivery_token_def split: sum.split exn.split)
qed

lemma callback_relay: "relay_frame db (snd (graph_delivery_oauth_callback rm w st code state err admin db))"
  using callback_db [of rm w st code state err admin db] relay_frame_credentials(1) [OF exchange_relay] by auto

lemma delegated_relay: "delegated_step a b \<Longrightarrow> relay_frame a b"
  by (induction rule: delegated_step.induct)
    (auto simp: callback_relay get_pending_handler_db live_relay confirm_relay token_refresh_relay delegated_refresh_relay
      cancel_graph_delivery_oauth_pending_def disconnect_graph_delivery_oauth_def intro!: relay_frame_credentials
      split: option.split)

lemma override_relay:
  "set_override rm w env key given creator (db, ov) = Inr (db', ov') \<Longrightarrow> relay_frame db db'"
  "clear_override rm env key (db, ov) = Inr (db', ov') \<Longrightarrow> relay_frame db db'"
  by (auto simp: set_override_def clear_override_def relay_frame_def Let_def split: sum.splits if_splits option.splits)

lemma setting_relay: "setting_step rm env s s' \<Longrightarrow> relay_frame (fst s) (fst s')"
proof (induction rule: setting_step.induct)
  case (set s w admin key given)
  then show ?case
    by (cases s) (auto simp: update_setting_def Let_def intro!: relay_frame_accounts dest: override_relay split: sum.split option.split)
next
  case (reset s w admin key)
  then show ?case
    by (cases s) (auto simp: reset_setting_def Let_def intro!: relay_frame_accounts dest: override_relay split: sum.split)
qed

section \<open>Runs of the backend\<close>

text \<open>
  The state is the database, the caches of the process, the signing keys of the bot service and the cached
  overrides of the settings. A step is one request, under whatever settings are in force (\<open>st\<close>).
\<close>

type_synonym backend = "((db \<times> caches) \<times> jwks) \<times> overrides"

definition tables :: "backend \<Rightarrow> db" where
  "tables s = fst (fst (fst s))"

inductive backend_step :: "settings \<Rightarrow> backend \<Rightarrow> backend \<Rightarrow> bool" for env where
  relay: "served s s' \<Longrightarrow> backend_step env ((s, keys), ov) ((s', keys), ov)"
| teams: "bot_messages_endpoint jl rm be w st rq s = (res, s') \<Longrightarrow> backend_step env (s, ov) (s', ov)"
| conversations: "list_bot_conversation_references rm w st s = (res, s') \<Longrightarrow>
    backend_step env ((s, keys), ov) ((s', keys), ov)"
| conversation_members: "refresh_bot_conversation_reference_members rm w st admin i s = (res, s') \<Longrightarrow>
    backend_step env ((s, keys), ov) ((s', keys), ov)"
| conversation_deleted: "delete_bot_conversation_reference w st admin i flag db = (res, db') \<Longrightarrow>
    backend_step env (((db, cs), keys), ov) (((db', cs), keys), ov)"
| bot_access: "bot_access_step db db' \<Longrightarrow> backend_step env (((db, cs), keys), ov) (((db', cs), keys), ov)"
| accounts: "account_step env db db' \<Longrightarrow> backend_step env (((db, cs), keys), ov) (((db', cs), keys), ov)"
| credential: "delegated_step db db' \<Longrightarrow> backend_step env (((db, cs), keys), ov) (((db', cs), keys), ov)"
| settings: "setting_step rm env (db, ov) (db', ov') \<Longrightarrow> backend_step env (((db, cs), keys), ov) (((db', cs'), keys), ov')"
| restart: "backend_step env (((db, cs), keys), ov) (((db, cs'), keys'), ov')"

inductive_cases backend_stepE: "backend_step env s s'"

lemma backend_step_ok: "backend_step env s s' \<Longrightarrow> store_ok (tables s) \<Longrightarrow> store_ok (tables s')"
proof (induction rule: backend_step.induct)
  case (relay s s' keys ov)
  then show ?case using served_ok [of s s'] by (simp add: tables_def)
next
  case (teams jl rm be w st rq s res s' ov)
  obtain db cs ks where s: "s = ((db, cs), ks)" by (metis prod.collapse)
  obtain db' cs' ks' where s': "s' = ((db', cs'), ks')" by (metis prod.collapse)
  show ?case using endpoint_store [OF teams.hyps [unfolded s s']] teams.prems by (simp add: tables_def s s')
next
  case (conversations rm w st s res s' keys ov)
  then show ?case
    using list_references_relay [of rm w st "fst s" "snd s" res "fst s'" "snd s'"] relay_frame_store
    by (auto simp: tables_def)
next
  case (conversation_members rm w st admin i s res s' keys ov)
  then show ?case
    using refresh_reference_relay [of rm w st admin i "fst s" "snd s" res "fst s'" "snd s'"] relay_frame_store
    by (auto simp: tables_def)
next
  case (conversation_deleted w st admin i flag db res db' cs keys ov)
  then show ?case using delete_reference_ok [OF conversation_deleted.hyps] by (simp add: tables_def)
next
  case (bot_access db db' cs keys ov)
  then show ?case using relay_frame_store [OF bot_access_relay] by (simp add: tables_def)
next
  case (accounts db db' cs keys ov)
  then show ?case using relay_frame_store [OF account_relay] by (simp add: tables_def)
next
  case (credential db db' cs keys ov)
  then show ?case using relay_frame_store [OF delegated_relay] by (simp add: tables_def)
next
  case (settings rm db ov db' ov' cs keys cs')
  then show ?case using relay_frame_store [OF setting_relay [OF settings.hyps]] by (simp add: tables_def)
qed (simp add: tables_def)

lemma backend_run_ok: "(backend_step env)\<^sup>*\<^sup>* s s' \<Longrightarrow> store_ok (tables s) \<Longrightarrow> store_ok (tables s')"
  by (induction rule: rtranclp_induct) (auto intro: backend_step_ok)

text \<open>C7: however the backend's requests follow each other, from webhook callers, administrators and Teams,
  and whatever its settings, URLs stay unique, names stay unique within an organization and backend, and
  every stored route has a target of its backend and address rules that decide about every client.\<close>

theorem every_run_keeps_routes_valid:
  assumes "(backend_step env)\<^sup>*\<^sup>* s s'" and "store_ok (tables s)"
  shows "distinct (List.map r_route_token_hash (routes (tables s'))) \<and> distinct (List.map name_key (routes (tables s'))) \<and>
    list_all (\<lambda>r. validate_target (r\<lparr>r_target_name := ''-''\<rparr>) = None \<and> (\<forall>h. \<exists>b. route_allows_client_ip r h = Inr b))
      (routes (tables s'))"
  using store_okD [OF backend_run_ok [OF assms]] route_allows_total
  by (auto simp: list_all_iff route_valid_def)

lemma run_of_three: "r a b \<Longrightarrow> r b c \<Longrightarrow> r c d \<Longrightarrow> r\<^sup>*\<^sup>* a d"
  by (meson r_into_rtranclp rtranclp.rtrancl_into_rtrancl)

text \<open>An activity of Teams, then the deletion of a user who may command the bot, then a new URL of the route.\<close>

definition sample_after_activity :: backend where
  "sample_after_activity = (snd (sample_endpoint []), [])"

definition sample_after_access :: backend where
  "sample_after_access = (let (((db, cs), keys), ov) = sample_after_activity in
     (((snd (delete_bot_authorized_user sample_world sample_settings sample_admin ''0'' db), cs), keys), ov))"

definition sample_after_url :: backend where
  "sample_after_url = (let (((db, cs), keys), ov) = sample_after_access in
     (((snd (regenerate_webhook_route_url sample_world sample_settings sample_admin ''0'' db), cs), keys), ov))"

theorem every_run_keeps_routes_valid_witness:
  "distinct (List.map r_route_token_hash (routes (tables sample_after_url))) \<and>
   distinct (List.map name_key (routes (tables sample_after_url))) \<and>
   list_all (\<lambda>r. validate_target (r\<lparr>r_target_name := ''-''\<rparr>) = None \<and> (\<forall>h. \<exists>b. route_allows_client_ip r h = Inr b))
     (routes (tables sample_after_url))"
proof (rule every_run_keeps_routes_valid)
  let ?start = "(((sample_bot_db, sample_caches), sample_keys), [] :: overrides)"
  have one: "backend_step default_settings ?start sample_after_activity"
    unfolding sample_after_activity_def sample_endpoint_def by (rule backend_step.teams, rule prod.collapse [symmetric])
  obtain db cs keys ov where a: "sample_after_activity = (((db, cs), keys), ov)" by (metis prod.collapse)
  have two: "backend_step default_settings sample_after_activity sample_after_access"
    unfolding sample_after_access_def a Let_def prod.case by (rule backend_step.bot_access, rule bot_access_step.intros)
  obtain db' cs' keys' ov' where b: "sample_after_access = (((db', cs'), keys'), ov')" by (metis prod.collapse)
  have three: "backend_step default_settings sample_after_access sample_after_url"
    unfolding sample_after_url_def b Let_def prod.case
    by (rule backend_step.relay, rule served.regenerate, rule prod.collapse [symmetric])
  show "(backend_step default_settings)\<^sup>*\<^sup>* ?start sample_after_url" using one two three by (rule run_of_three)
  show "store_ok (tables ?start)" using sample_bot_ok by (simp add: tables_def)
qed

end
