(* ===== verification/Readiness.thy ===== *)
theory Readiness
  imports Routes Bot_Framework_Auth
begin

text \<open>
  Whether the backend can deliver: \<open>services/auth_diagnostics.py\<close> and the reports and the refresh job of
  \<open>routers/admin.py\<close>. A job asks for new tokens and leaves what it found in snapshots, which hold for the
  credentials they were taken with; reports only read. The job runs in a thread of its own, so its start,
  its begin and its end are steps that other requests can come between.
\<close>

section \<open>Snapshots\<close>

definition AUTH_COMPONENT_BOT_DELIVERY :: string where
  "AUTH_COMPONENT_BOT_DELIVERY = ''bot_delivery''"

definition AUTH_COMPONENT_GRAPH_LOOKUP :: string where
  "AUTH_COMPONENT_GRAPH_LOOKUP = ''graph_lookup''"

definition credential_signature :: "world \<Rightarrow> string list \<Rightarrow> string" where
  "credential_signature w values = sha256 w (concat (List.map (\<lambda>v. v @ [CHR 0x00]) values))"

definition app_only_credential_signature :: "world \<Rightarrow> settings \<Rightarrow> string \<Rightarrow> string" where
  "app_only_credential_signature w st scope =
     credential_signature w [ms_app_tenant_id st, ms_app_client_id st, ms_app_client_secret st, scope]"

definition find_snapshot :: "string \<Rightarrow> string \<Rightarrow> db \<Rightarrow> auth_snapshot option" where
  "find_snapshot org component db = fetch (\<lambda>s. as_organization_id s = org \<and> as_component s = component) (snapshots db)"

definition get_oauth_snapshot :: "string \<Rightarrow> string \<Rightarrow> string \<Rightarrow> db \<Rightarrow> auth_snapshot option" where
  "get_oauth_snapshot org component signature db =
     (case find_snapshot org component db of
        None \<Rightarrow> None
      | Some s \<Rightarrow> if as_credential_signature s \<noteq> signature then None else Some s)"

definition checked_snapshot ::
  "world \<Rightarrow> string \<Rightarrow> string \<Rightarrow> string \<Rightarrow> string \<Rightarrow> string \<Rightarrow> string \<Rightarrow> oauth_diagnostics \<Rightarrow> auth_snapshot" where
  "checked_snapshot w i org component signature status message oauth =
     \<lparr>as_id = i, as_organization_id = org, as_component = component, as_credential_signature = signature,
      as_status = status, as_message = message, as_token_checked = td_checked (od_token oauth),
      as_token_request_succeeded = td_succeeded (od_token oauth), as_diagnostics_json = oauth,
      as_checked_at = Some (case td_checked_at (od_token oauth) of Some t \<Rightarrow> t | None \<Rightarrow> utcnow w),
      as_expires_at = td_expires_at (od_token oauth)\<rparr>"

definition store_oauth_snapshot ::
  "world \<Rightarrow> string \<Rightarrow> string \<Rightarrow> string \<Rightarrow> string \<Rightarrow> string \<Rightarrow> oauth_diagnostics \<Rightarrow> db \<Rightarrow> db" where
  "store_oauth_snapshot w org component signature status message oauth db =
     (case find_snapshot org component db of
        None \<Rightarrow> db\<lparr>snapshots := snapshots db @ [checked_snapshot w (new_id db) org component signature status message oauth],
                  next_id := Suc (next_id db)\<rparr>
      | Some s \<Rightarrow> db\<lparr>snapshots :=
          save_row as_id (checked_snapshot w (as_id s) org component signature status message oauth) (snapshots db)\<rparr>)"

definition oauth_from_snapshot :: "auth_snapshot \<Rightarrow> oauth_diagnostics" where
  "oauth_from_snapshot s = as_diagnostics_json s"

section \<open>Asking for a token\<close>

record oauth_token_response =
  ot_access_token :: string
  ot_expires_in_seconds :: int
  ot_claims :: "(string \<times> json) list"

text \<open>The two classes of exceptions the caller wants are arguments.\<close>

definition fetch_oauth_token ::
  "remote \<Rightarrow> world \<Rightarrow> settings \<Rightarrow> string \<Rightarrow> (string \<Rightarrow> exn) \<Rightarrow> (string \<Rightarrow> exn) \<Rightarrow> exn + oauth_token_response" where
  "fetch_oauth_token rm w st scope config_error request_error =
     (if missing_registration st \<noteq> []
      then Inl (config_error (''Missing OAuth credentials: '' @ join '', '' (missing_registration st)))
      else (let failed = Inl (request_error ''Failed to fetch OAuth access token'') in
        case http rm ''POST'' (token_url st) form_header
               (urlencode [(''grant_type'', ''client_credentials''), (''client_id'', ms_app_client_id st),
                  (''client_secret'', ms_app_client_secret st), (''scope'', scope)]) of
          HttpStatusError _ _ \<Rightarrow> failed
        | HttpRequestError _ _ \<Rightarrow> failed
        | HttpResponse _ text \<Rightarrow>
            (case parse_json w text of
               Inl None \<Rightarrow> failed
             | Inl (Some e) \<Rightarrow> Inl e
             | Inr body \<Rightarrow>
                 bind_sum (reply_str body ''access_token'') (\<lambda>token.
                   if token = [] then Inl (request_error ''OAuth token response did not include an access token'')
                   else bind_sum (reply_expires_in body) (\<lambda>n.
                     bind_sum (decode_jwt_claims rm w token) (\<lambda>claims.
                       Inr \<lparr>ot_access_token = token, ot_expires_in_seconds = n, ot_claims = claims\<rparr>))))))"

definition unchecked_token :: oauth_token_diagnostics where
  "unchecked_token = \<lparr>td_checked = False, td_succeeded = False, td_checked_at = None, td_expires_in_seconds = None,
     td_expires_at = None, td_audience = [], td_issuer = [], td_roles = []\<rparr>"

definition failed_token :: "world \<Rightarrow> oauth_token_diagnostics" where
  "failed_token w = unchecked_token\<lparr>td_checked := True, td_checked_at := Some (utcnow w)\<rparr>"

definition no_app :: oauth_app_diagnostics where
  "no_app = \<lparr>ad_metadata_checked = False, ad_available = False, ad_display_name = [], ad_app_id = [],
     ad_service_principal_id = [], ad_account_enabled = None, ad_service_principal_type = [], ad_message = []\<rparr>"

definition no_tenant :: oauth_tenant_diagnostics where
  "no_tenant = \<lparr>tn_metadata_checked = False, tn_available = False, tn_display_name = [], tn_primary_domain = [], tn_message = []\<rparr>"

definition oauth_diagnostics_of ::
  "string \<Rightarrow> settings \<Rightarrow> string \<Rightarrow> oauth_token_diagnostics \<Rightarrow> oauth_app_diagnostics \<times> oauth_tenant_diagnostics \<Rightarrow> oauth_diagnostics" where
  "oauth_diagnostics_of credential_source st scope token metadata =
     \<lparr>od_credential_source = credential_source, od_tenant_id = ms_app_tenant_id st, od_client_id = ms_app_client_id st,
      od_scope = scope, od_token = token, od_app = fst metadata, od_tenant = snd metadata\<rparr>"

definition token_diagnostics :: "world \<Rightarrow> oauth_token_response \<Rightarrow> oauth_token_diagnostics" where
  "token_diagnostics w response =
     \<lparr>td_checked = True, td_succeeded = True, td_checked_at = Some (utcnow w),
      td_expires_in_seconds = Some (ot_expires_in_seconds response),
      td_expires_at = Some (utcnow w + seconds (max (ot_expires_in_seconds response) 1)),
      td_audience = py_str (or_json (dict_get (ot_claims response) ''aud'') (JStr [])),
      td_issuer = py_str (or_json (dict_get (ot_claims response) ''iss'') (JStr [])),
      td_roles = (case dict_get (ot_claims response) ''roles'' of JList roles \<Rightarrow> List.map py_str roles | _ \<Rightarrow> [])\<rparr>"

section \<open>Metadata of the app and its tenant\<close>

definition graph_get_with_token ::
  "remote \<Rightarrow> world \<Rightarrow> string \<Rightarrow> string \<Rightarrow> (string \<times> string) list \<Rightarrow> exn + json" where
  "graph_get_with_token rm w access_token path params =
     (let failed = Inl (GraphRequestError ''Microsoft Graph metadata request failed'') in
      case http rm ''GET'' (graph_base @ path @ ''?'' @ urlencode params)
             [(''Authorization'', ''Bearer '' @ access_token), (''Accept'', ''application/json'')] [] of
        HttpStatusError _ _ \<Rightarrow> failed
      | HttpRequestError _ _ \<Rightarrow> failed
      | HttpResponse _ text \<Rightarrow>
          (case parse_json w text of Inl None \<Rightarrow> failed | Inl (Some e) \<Rightarrow> Inl e | Inr body \<Rightarrow> Inr body))"

text \<open>The first object of the answer's \<open>value\<close>, with no keys where there is none.\<close>

definition first_value :: "json \<Rightarrow> exn + (string \<times> json) list" where
  "first_value data = bind_sum (get_attr data ''value'') (\<lambda>v.
     Inr (case v of JList (JDict kvs # _) \<Rightarrow> kvs | _ \<Rightarrow> []))"

definition key_text :: "(string \<times> json) list \<Rightarrow> string \<Rightarrow> string" where
  "key_text kvs key = py_str (or_json (dict_get kvs key) (JStr []))"

definition service_principal_metadata :: "remote \<Rightarrow> world \<Rightarrow> string \<Rightarrow> string \<Rightarrow> exn + oauth_app_diagnostics" where
  "service_principal_metadata rm w access_token client_id =
     (case graph_get_with_token rm w access_token ''/servicePrincipals''
             [(''$filter'', ''appId eq '' @ [CHR 0x27] @ odata_string client_id @ [CHR 0x27]),
              (''$select'', ''id,appId,displayName,servicePrincipalType,accountEnabled,appOwnerOrganizationId'')] of
        Inl (GraphRequestError _) \<Rightarrow> Inr (no_app\<lparr>ad_metadata_checked := True,
          ad_message := ''App metadata is not available with the current Graph permissions.''\<rparr>)
      | Inl e \<Rightarrow> Inl e
      | Inr data \<Rightarrow> bind_sum (first_value data) (\<lambda>app. Inr
          (if app = [] then no_app\<lparr>ad_metadata_checked := True,
             ad_message := ''No service principal was found for this client ID.''\<rparr>
           else \<lparr>ad_metadata_checked = True, ad_available = True, ad_display_name = key_text app ''displayName'',
             ad_app_id = key_text app ''appId'', ad_service_principal_id = key_text app ''id'',
             ad_account_enabled = (case dict_get app ''accountEnabled'' of JBool b \<Rightarrow> Some b | _ \<Rightarrow> None),
             ad_service_principal_type = key_text app ''servicePrincipalType'', ad_message = []\<rparr>)))"

fun default_domain :: "json list \<Rightarrow> string" where
  "default_domain [] = []"
| "default_domain (JDict kvs # domains) =
     (if truthy (dict_get kvs ''isDefault'') then key_text kvs ''name'' else default_domain domains)"
| "default_domain (_ # domains) = default_domain domains"

definition primary_domain :: "json list \<Rightarrow> string" where
  "primary_domain domains =
     or_str (default_domain domains) (case domains of JDict kvs # _ \<Rightarrow> key_text kvs ''name'' | _ \<Rightarrow> [])"

definition tenant_metadata :: "remote \<Rightarrow> world \<Rightarrow> string \<Rightarrow> exn + oauth_tenant_diagnostics" where
  "tenant_metadata rm w access_token =
     (case graph_get_with_token rm w access_token ''/organization'' [(''$select'', ''id,displayName,verifiedDomains'')] of
        Inl (GraphRequestError _) \<Rightarrow> Inr (no_tenant\<lparr>tn_metadata_checked := True,
          tn_message := ''Tenant metadata is not available with the current Graph permissions.''\<rparr>)
      | Inl e \<Rightarrow> Inl e
      | Inr data \<Rightarrow> bind_sum (first_value data) (\<lambda>tenant. Inr
          (if tenant = [] then no_tenant\<lparr>tn_metadata_checked := True, tn_message := ''No tenant metadata was returned.''\<rparr>
           else \<lparr>tn_metadata_checked = True, tn_available = True, tn_display_name = key_text tenant ''displayName'',
             tn_primary_domain = primary_domain (case dict_get tenant ''verifiedDomains'' of JList ds \<Rightarrow> ds | _ \<Rightarrow> []),
             tn_message = []\<rparr>)))"

definition metadata_from_graph_token ::
  "remote \<Rightarrow> world \<Rightarrow> string \<Rightarrow> string \<Rightarrow> exn + oauth_app_diagnostics \<times> oauth_tenant_diagnostics" where
  "metadata_from_graph_token rm w access_token client_id =
     bind_sum (service_principal_metadata rm w access_token client_id) (\<lambda>app.
       bind_sum (tenant_metadata rm w access_token) (\<lambda>tenant. Inr (app, tenant)))"

section \<open>Reports\<close>

record readiness_component =
  rc_enabled :: bool
  rc_ready :: bool
  rc_auth_status :: string
  rc_message :: string
  rc_token_checked :: bool
  rc_token_request_succeeded :: bool

record bot_readiness_out = readiness_component +
  br_mode :: string
  br_credentials_configured :: bool
  br_credential_fields :: "(string \<times> string) list"
  br_oauth :: oauth_diagnostics

record graph_readiness_out = readiness_component +
  qr_configured :: bool
  qr_credential_source :: string
  qr_credential_fields :: "(string \<times> string) list"
  qr_oauth :: oauth_diagnostics
  qr_group_membership_lookup_ready :: bool
  qr_group_membership_required_roles :: "string list"
  qr_group_membership_alternative_roles :: "string list"
  qr_group_membership_missing_roles :: "string list"
  qr_group_membership_message :: string

record graph_delivery_readiness_out = readiness_component +
  dr_configured :: bool
  dr_credential_source :: string
  dr_tenant_id :: string
  dr_client_id :: string
  dr_scopes :: "string list"
  dr_required_scopes :: "string list"
  dr_missing_scopes :: "string list"
  dr_service_user_id :: string
  dr_service_user_display_name :: string
  dr_service_user_principal_name :: string
  dr_access_token_expires_at :: "instant option"
  dr_refresh_checked_at :: "instant option"

definition configured_status :: "string \<Rightarrow> string" where
  "configured_status v = (if strip v \<noteq> [] then ''configured'' else ''missing'')"

definition credential_fields :: "settings \<Rightarrow> (string \<times> string) list" where
  "credential_fields st =
     [(''tenant_id'', configured_status (ms_app_tenant_id st)), (''client_id'', configured_status (ms_app_client_id st)),
      (''client_secret'', configured_status (ms_app_client_secret st))]"

definition credentials_configured :: "settings \<Rightarrow> bool" where
  "credentials_configured st \<longleftrightarrow> list_all (\<lambda>(_, status). status = ''configured'') (credential_fields st)"

text \<open>The report on a component before any token was asked for.\<close>

definition bot_report :: "settings \<Rightarrow> string \<Rightarrow> string \<Rightarrow> bool \<Rightarrow> bool \<Rightarrow> string \<Rightarrow> string \<Rightarrow> bot_readiness_out" where
  "bot_report st mode source enabled ready auth_status message =
     \<lparr>rc_enabled = enabled, rc_ready = ready, rc_auth_status = auth_status, rc_message = message, rc_token_checked = False,
      rc_token_request_succeeded = False, br_mode = mode, br_credentials_configured = credentials_configured st,
      br_credential_fields = credential_fields st,
      br_oauth = oauth_diagnostics_of source st (botframework_scope st) unchecked_token (no_app, no_tenant)\<rparr>"

definition bot_readiness :: "world \<Rightarrow> string \<Rightarrow> settings \<Rightarrow> string \<Rightarrow> db \<Rightarrow> bot_readiness_out" where
  "bot_readiness w org st mode db =
     (let report = bot_report st mode ''ms_app'' True in
      if mode = ''mock''
      then report True ''mock'' ''Mock delivery is active. Status checks are skipped and Teams messages are simulated.''
      else if \<not> credentials_configured st
      then report False ''incomplete'' ''Real delivery requires MS_APP_TENANT_ID, MS_APP_CLIENT_ID and MS_APP_CLIENT_SECRET.''
      else (case get_oauth_snapshot org AUTH_COMPONENT_BOT_DELIVERY (app_only_credential_signature w st (botframework_scope st)) db of
        None \<Rightarrow> report False ''unchecked'' ''Bot Framework status is being refreshed in the background.''
      | Some s \<Rightarrow> (report (as_status s = ''ready'' \<and> as_token_request_succeeded s) (as_status s) (as_message s))
          \<lparr>rc_token_checked := as_token_checked s, rc_token_request_succeeded := as_token_request_succeeded s,
           br_oauth := oauth_from_snapshot s\<rparr>))"

definition disabled_bot_readiness :: "settings \<Rightarrow> string \<Rightarrow> bot_readiness_out" where
  "disabled_bot_readiness st mode =
     bot_report st mode ''disabled'' False True ''disabled'' ''Bot Framework delivery is disabled by feature policy.''"

definition GRAPH_GROUP_MEMBERSHIP_REQUIRED_ROLES :: "string list" where
  "GRAPH_GROUP_MEMBERSHIP_REQUIRED_ROLES = [''GroupMember.Read.All'']"

definition GRAPH_GROUP_MEMBERSHIP_ALTERNATIVE_ROLES :: "string list" where
  "GRAPH_GROUP_MEMBERSHIP_ALTERNATIVE_ROLES = [''Directory.Read.All'']"

text \<open>Whether the roles of the app allow the lookup, the roles that are missing, and the message.\<close>

definition graph_group_membership_readiness :: "string list \<Rightarrow> bool \<times> string list \<times> string" where
  "graph_group_membership_readiness roles =
     (let granted = List.map lower roles; has_any = list_ex (\<lambda>role. lower role \<in> set granted);
          ready = (has_any GRAPH_GROUP_MEMBERSHIP_REQUIRED_ROLES \<or> has_any GRAPH_GROUP_MEMBERSHIP_ALTERNATIVE_ROLES)
      in (ready, if ready then [] else GRAPH_GROUP_MEMBERSHIP_REQUIRED_ROLES,
          if ready then ''Bot Access group search and membership checks have a suitable Microsoft Graph app role.''
          else ''Bot Access groups require GroupMember.Read.All or a broader directory-read app role such as Directory.Read.All.''))"

definition graph_report ::
  "settings \<Rightarrow> string \<Rightarrow> bool \<Rightarrow> bool \<Rightarrow> string \<Rightarrow> string \<Rightarrow> bool \<times> string list \<times> string \<Rightarrow> graph_readiness_out" where
  "graph_report st source enabled ready auth_status message membership =
     \<lparr>rc_enabled = enabled, rc_ready = ready, rc_auth_status = auth_status, rc_message = message, rc_token_checked = False,
      rc_token_request_succeeded = False, qr_configured = credentials_configured st, qr_credential_source = source,
      qr_credential_fields = credential_fields st,
      qr_oauth = oauth_diagnostics_of source st (graph_scope st) unchecked_token (no_app, no_tenant),
      qr_group_membership_lookup_ready = fst membership,
      qr_group_membership_required_roles = GRAPH_GROUP_MEMBERSHIP_REQUIRED_ROLES,
      qr_group_membership_alternative_roles = GRAPH_GROUP_MEMBERSHIP_ALTERNATIVE_ROLES,
      qr_group_membership_missing_roles = fst (snd membership), qr_group_membership_message = snd (snd membership)\<rparr>"

definition graph_lookup_readiness :: "world \<Rightarrow> string \<Rightarrow> settings \<Rightarrow> db \<Rightarrow> graph_readiness_out" where
  "graph_lookup_readiness w org st db =
     (if \<not> credentials_configured st
      then (graph_report st ''missing'' True False ''incomplete''
        ''Graph lookup requires MS_APP_TENANT_ID, MS_APP_CLIENT_ID and MS_APP_CLIENT_SECRET.'' (False, [], []))
        \<lparr>qr_group_membership_required_roles := [], qr_group_membership_alternative_roles := []\<rparr>
      else (case get_oauth_snapshot org AUTH_COMPONENT_GRAPH_LOOKUP (app_only_credential_signature w st (graph_scope st)) db of
        None \<Rightarrow> graph_report st ''ms_app'' True False ''unchecked''
          ''Microsoft Graph lookup status is being refreshed in the background.'' (graph_group_membership_readiness [])
      | Some s \<Rightarrow> (graph_report st ''ms_app'' True (as_token_request_succeeded s) (as_status s) (as_message s)
            (graph_group_membership_readiness (td_roles (od_token (oauth_from_snapshot s)))))
          \<lparr>rc_token_checked := as_token_checked s, rc_token_request_succeeded := as_token_request_succeeded s,
           qr_oauth := oauth_from_snapshot s\<rparr>))"

definition disabled_graph_lookup_readiness :: "settings \<Rightarrow> graph_readiness_out" where
  "disabled_graph_lookup_readiness st =
     graph_report st ''disabled'' False True ''disabled'' ''Microsoft Graph lookup is disabled by feature policy.''
       (False, GRAPH_GROUP_MEMBERSHIP_REQUIRED_ROLES,
        ''Graph lookup is disabled, so Bot Access group membership cannot be checked.'')"

definition missing_required_scopes :: "string list \<Rightarrow> string list \<Rightarrow> string list" where
  "missing_required_scopes granted required =
     List.filter (\<lambda>scope. lower scope \<notin> set (List.map lower granted)) required"

definition delivery_report ::
  "delegated_diagnostics \<Rightarrow> settings \<Rightarrow> bool \<Rightarrow> string \<Rightarrow> bool \<Rightarrow> bool \<Rightarrow> string \<Rightarrow> graph_delivery_readiness_out" where
  "delivery_report dg st ready auth_status token_checked token_request_succeeded message =
     \<lparr>rc_enabled = True, rc_ready = ready, rc_auth_status = auth_status, rc_message = message,
      rc_token_checked = token_checked, rc_token_request_succeeded = token_request_succeeded,
      dr_configured = dg_configured dg,
      dr_credential_source = (if dg_configured dg then ''delegated_service_user'' else ''missing''),
      dr_tenant_id = or_str (dg_tenant_id dg) (ms_app_tenant_id st), dr_client_id = or_str (dg_client_id dg) (ms_app_client_id st),
      dr_scopes = dg_scopes dg, dr_required_scopes = DEFAULT_DELEGATED_GRAPH_SCOPES,
      dr_missing_scopes = missing_required_scopes (dg_scopes dg) DEFAULT_DELEGATED_GRAPH_SCOPES,
      dr_service_user_id = dg_service_user_id dg, dr_service_user_display_name = dg_service_user_display_name dg,
      dr_service_user_principal_name = dg_service_user_principal_name dg,
      dr_access_token_expires_at = dg_access_token_expires_at dg, dr_refresh_checked_at = dg_refresh_checked_at dg\<rparr>"

definition graph_delivery_readiness :: "string \<Rightarrow> settings \<Rightarrow> db \<Rightarrow> graph_delivery_readiness_out" where
  "graph_delivery_readiness org st db =
     (let dg = diagnostics_for_organization org db; report = delivery_report dg st; status = dg_status dg;
          missing = missing_required_scopes (dg_scopes dg) DEFAULT_DELEGATED_GRAPH_SCOPES
      in if \<not> dg_configured dg
         then report False ''missing'' False False ''Delegated Graph delivery has not been configured.''
         else if missing_registration st \<noteq> []
         then report False ''incomplete'' False False
           ''Delegated Graph delivery requires MS_APP_TENANT_ID, MS_APP_CLIENT_ID and MS_APP_CLIENT_SECRET.''
         else if status = ''expired''
         then report False ''expired'' True False
           ''Delegated Graph connection is expired or revoked. Reconnect the service user.''
         else if status = ''token_error''
         then report False ''token_error'' True False
           ''Delegated Graph status refresh failed. Check the service-user connection and Microsoft tenant access.''
         else if status \<noteq> ''ready''
         then report False ''unchecked'' False False
           ''Delegated Graph delivery status is being refreshed in the background.''
         else if missing \<noteq> []
         then report False ''permission_warning'' True True
           (''Delegated Graph status was refreshed previously, but required scopes are missing: '' @ join '', '' missing @ ''.'')
         else report True ''ready'' True True ''Delegated Graph delivery prerequisites are usable.'')"

definition disabled_graph_delivery_readiness :: "settings \<Rightarrow> bool \<Rightarrow> graph_delivery_readiness_out" where
  "disabled_graph_delivery_readiness st lookup_enabled =
     \<lparr>rc_enabled = False, rc_ready = True, rc_auth_status = ''disabled'',
      rc_message = (if \<not> lookup_enabled then ''Delegated Graph delivery is disabled because Graph lookup is disabled.''
        else ''Delegated Graph delivery is disabled by feature policy.''),
      rc_token_checked = False, rc_token_request_succeeded = False, dr_configured = False,
      dr_credential_source = ''disabled'', dr_tenant_id = ms_app_tenant_id st, dr_client_id = ms_app_client_id st,
      dr_scopes = [], dr_required_scopes = DEFAULT_DELEGATED_GRAPH_SCOPES, dr_missing_scopes = [],
      dr_service_user_id = [], dr_service_user_display_name = [], dr_service_user_principal_name = [],
      dr_access_token_expires_at = None, dr_refresh_checked_at = None\<rparr>"

record runtime_readiness =
  rt_app_public_base_url :: string
  rt_frontend_base_url :: string
  rt_cors_origins :: "string list"
  rt_compose_app_subnet :: string
  rt_trusted_proxy_ips :: string
  rt_trusted_proxy_chain :: string
  rt_webhook_max_payload_bytes :: int
  rt_webhook_url_reveal_ttl_hours :: int
  rt_log_retention_days :: int
  rt_log_cleanup_interval_minutes :: int
  rt_event_debug_previews_enabled :: bool
  rt_session_secure_cookie :: bool
  rt_settings_encryption_key_source :: string
  rt_settings_encryption_ready :: bool

record admin_readiness_out =
  rd_app_name :: string
  rd_app_version :: string
  rd_delivery_mode :: string
  rd_bot :: bot_readiness_out
  rd_graph_lookup :: graph_readiness_out
  rd_graph_delivery :: graph_delivery_readiness_out
  rd_runtime :: runtime_readiness

text \<open>The list of proxies of the settings may be malformed, which raises.\<close>

definition runtime_of :: "settings \<Rightarrow> exn + runtime_readiness" where
  "runtime_of st =
     bind_sum (combined_trusted_proxy_ips (compose_app_subnet st) (trusted_proxy_ips st)) (\<lambda>chain. Inr
       \<lparr>rt_app_public_base_url = app_public_base_url st, rt_frontend_base_url = frontend_base_url st,
        rt_cors_origins = cors_origin_list st, rt_compose_app_subnet = compose_app_subnet st,
        rt_trusted_proxy_ips = trusted_proxy_ips st, rt_trusted_proxy_chain = chain,
        rt_webhook_max_payload_bytes = webhook_max_payload_bytes st,
        rt_webhook_url_reveal_ttl_hours = webhook_url_reveal_ttl_hours st, rt_log_retention_days = log_retention_days st,
        rt_log_cleanup_interval_minutes = log_cleanup_interval_minutes st,
        rt_event_debug_previews_enabled = event_debug_previews_enabled st,
        rt_session_secure_cookie = session_secure_cookie st,
        rt_settings_encryption_key_source = settings_enc_key_source st,
        rt_settings_encryption_ready = (strip (settings_enc_key st) \<noteq> [])\<rparr>)"

definition admin_readiness :: "world \<Rightarrow> string \<Rightarrow> settings \<Rightarrow> db \<Rightarrow> exn + admin_readiness_out" where
  "admin_readiness w org st db =
     (let mode = bot_delivery_mode_normalized st in
      bind_sum (runtime_of st) (\<lambda>runtime. Inr
        \<lparr>rd_app_name = app_name st, rd_app_version = app_version st, rd_delivery_mode = mode,
         rd_bot = (if bot_framework_enabled st then bot_readiness w org st mode db else disabled_bot_readiness st mode),
         rd_graph_lookup =
           (if graph_lookup_enabled st then graph_lookup_readiness w org st db else disabled_graph_lookup_readiness st),
         rd_graph_delivery =
           (if graph_delivery_enabled st \<and> graph_lookup_enabled st then graph_delivery_readiness org st db
            else disabled_graph_delivery_readiness st (graph_lookup_enabled st)),
         rd_runtime = runtime\<rparr>))"

definition readiness :: "world \<Rightarrow> settings \<Rightarrow> user \<Rightarrow> db \<Rightarrow> exn + admin_readiness_out" where
  "readiness w st admin db = admin_readiness w (u_organization_id admin) st db"

section \<open>Refreshing\<close>

record refresh_component =
  rf_status :: string
  rf_message :: string

definition component_out :: "string \<Rightarrow> string \<Rightarrow> refresh_component" where
  "component_out status message = \<lparr>rf_status = status, rf_message = message\<rparr>"

text \<open>The state of a refresh: the database, the caches, and the signing keys of the bot service.\<close>

type_synonym refresh_state = "(db \<times> caches) \<times> jwks"

definition refresh_bot_delivery_token ::
  "remote \<Rightarrow> world \<Rightarrow> settings \<Rightarrow> string \<Rightarrow> db \<times> caches \<Rightarrow> (exn + refresh_component) \<times> db \<times> caches" where
  "refresh_bot_delivery_token rm w st org s =
     (let db = fst s; cs = (snd s)\<lparr>bot_tokens := reset_bot_token_manager (bot_tokens (snd s))\<rparr>;
          signature = app_only_credential_signature w st (botframework_scope st);
          diagnostics = (\<lambda>token. oauth_diagnostics_of ''ms_app'' st (botframework_scope st) token (no_app, no_tenant));
          saved = (\<lambda>status message oauth. store_oauth_snapshot w org AUTH_COMPONENT_BOT_DELIVERY signature status message oauth db)
      in if \<not> bot_framework_enabled st
         then (Inr (component_out ''skipped'' ''Bot Framework delivery is disabled by feature policy.''), db, cs)
         else if bot_delivery_mode_normalized st \<noteq> ''real''
         then (Inr (component_out ''skipped'' ''Bot Framework delivery is in mock mode; no external status refresh is needed.''), db, cs)
         else (case fetch_oauth_token rm w st (botframework_scope st) BotDeliveryError BotDeliveryError of
           Inl (BotDeliveryError _) \<Rightarrow>
             (Inr (component_out ''failed''
                ''Bot Framework delivery status refresh failed. Check tenant ID, client ID, client secret and app permissions.''),
              saved ''token_error'' ''Bot Framework status refresh failed. Check tenant ID, client ID, client secret and app permissions.''
                (diagnostics (failed_token w)), cs)
         | Inl e \<Rightarrow> (Inl e, db, cs)
         | Inr response \<Rightarrow>
             (Inr (component_out ''refreshed'' ''Bot Framework delivery status was refreshed.''),
              saved ''ready''
                ''Bot Framework status refresh succeeded. Delivery still requires a valid Teams conversation reference and bot permissions.''
                (diagnostics (token_diagnostics w response)), cs)))"

definition refresh_graph_lookup_token ::
  "remote \<Rightarrow> world \<Rightarrow> settings \<Rightarrow> string \<Rightarrow> db \<times> caches \<Rightarrow> (exn + refresh_component) \<times> db \<times> caches" where
  "refresh_graph_lookup_token rm w st org s =
     (let db = fst s; cs = (snd s)\<lparr>app_tokens := reset_graph_token_manager (app_tokens (snd s))\<rparr>;
          signature = app_only_credential_signature w st (graph_scope st);
          saved = (\<lambda>status message oauth. store_oauth_snapshot w org AUTH_COMPONENT_GRAPH_LOOKUP signature status message oauth db)
      in if \<not> graph_lookup_enabled st
         then (Inr (component_out ''skipped'' ''Microsoft Graph lookup is disabled by feature policy.''), db, cs)
         else (case fetch_oauth_token rm w st (graph_scope st) GraphConfigError GraphRequestError of
           Inl (GraphConfigError _) \<Rightarrow>
             (Inr (component_out ''failed''
                ''Microsoft Graph lookup status refresh failed because app credentials are incomplete.''), db, cs)
         | Inl (GraphRequestError _) \<Rightarrow>
             (Inr (component_out ''failed''
                ''Microsoft Graph lookup status refresh failed. Check credentials, tenant and app permissions.''),
              saved ''token_error'' ''Microsoft Graph status refresh failed. Check credentials, tenant and app permissions.''
                (oauth_diagnostics_of ''ms_app'' st (graph_scope st) (failed_token w) (no_app, no_tenant)), cs)
         | Inl e \<Rightarrow> (Inl e, db, cs)
         | Inr response \<Rightarrow>
             (case metadata_from_graph_token rm w (ot_access_token response) (ms_app_client_id st) of
                Inl e \<Rightarrow> (Inl e, db, cs)
              | Inr metadata \<Rightarrow>
                  (let available = (ad_available (fst metadata) \<and> tn_available (snd metadata)) in
                   (Inr (component_out ''refreshed'' ''Microsoft Graph lookup status was refreshed.''),
                    saved (if available then ''ready'' else ''permission_warning'')
                      (if available
                       then ''Microsoft Graph status refresh succeeded. Lookup and readiness diagnostics are available.''
                       else ''Microsoft Graph status refresh succeeded. Lookup can still work, but optional directory metadata is limited by tenant permissions.'')
                      (oauth_diagnostics_of ''ms_app'' st (graph_scope st) (token_diagnostics w response) metadata), cs)))))"

definition refresh_bot_inbound_auth_cache :: "jwks \<Rightarrow> refresh_component \<times> jwks" where
  "refresh_bot_inbound_auth_cache keys =
     (component_out ''cleared'' ''Bot Framework inbound authentication signing-key cache was cleared.'',
      reset_bot_framework_auth_cache keys)"

section \<open>The refresh job\<close>

record refresh_job =
  jb_job_id :: string
  jb_organization_id :: string
  jb_admin_id :: string
  jb_status :: string
  jb_created_at :: instant
  jb_started_at :: "instant option"
  jb_completed_at :: "instant option"
  jb_ok :: "bool option"
  jb_components :: "(string \<times> refresh_component) list"
  jb_readiness :: "admin_readiness_out option"
  jb_message :: string

text \<open>The jobs of the process, in the order of their starts.\<close>

type_synonym refresh_jobs = "refresh_job list"

record refresh_job_out =
  jo_job_id :: string
  jo_status :: string
  jo_stream_url :: string
  jo_created_at :: instant
  jo_started_at :: "instant option"
  jo_completed_at :: "instant option"
  jo_ok :: "bool option"
  jo_bot_delivery :: "refresh_component option"
  jo_graph_lookup :: "refresh_component option"
  jo_graph_delivery :: "refresh_component option"
  jo_bot_inbound_auth :: "refresh_component option"
  jo_readiness :: "admin_readiness_out option"
  jo_message :: string

definition delivery_auth_job_out :: "settings \<Rightarrow> refresh_job \<Rightarrow> refresh_job_out" where
  "delivery_auth_job_out st job =
     (let component = map_of (jb_components job) in
      \<lparr>jo_job_id = jb_job_id job, jo_status = jb_status job,
       jo_stream_url = rstrip_char (CHR ''/'') (api_v1_prefix st) @ ''/events/stream?topics=delivery_auth'',
       jo_created_at = jb_created_at job, jo_started_at = jb_started_at job, jo_completed_at = jb_completed_at job,
       jo_ok = jb_ok job, jo_bot_delivery = component ''bot_delivery'', jo_graph_lookup = component ''graph_lookup'',
       jo_graph_delivery = component ''graph_delivery'', jo_bot_inbound_auth = component ''bot_inbound_auth'',
       jo_readiness = jb_readiness job, jo_message = jb_message job\<rparr>)"

definition job_live :: "refresh_job \<Rightarrow> bool" where
  "job_live job \<longleftrightarrow> jb_status job = ''queued'' \<or> jb_status job = ''running''"

definition delivery_auth_job :: "string \<Rightarrow> refresh_jobs \<Rightarrow> refresh_job option" where
  "delivery_auth_job i jobs = fetch (\<lambda>job. jb_job_id job = i) jobs"

definition update_delivery_auth_job :: "string \<Rightarrow> (refresh_job \<Rightarrow> refresh_job) \<Rightarrow> refresh_jobs \<Rightarrow> refresh_jobs" where
  "update_delivery_auth_job i f jobs = List.map (\<lambda>job. if jb_job_id job = i then f job else job) jobs"

definition queued_job :: "world \<Rightarrow> user \<Rightarrow> refresh_job" where
  "queued_job w admin =
     \<lparr>jb_job_id = generated_secret w, jb_organization_id = u_organization_id admin, jb_admin_id = u_id admin,
      jb_status = ''queued'', jb_created_at = utcnow w, jb_started_at = None, jb_completed_at = None, jb_ok = None,
      jb_components = [], jb_readiness = None, jb_message = ''Refresh queued.''\<rparr>"

text \<open>A job that is under way is answered; else a new one is queued, and its thread is started.\<close>

definition start_delivery_auth_refresh_job ::
  "world \<Rightarrow> settings \<Rightarrow> user \<Rightarrow> refresh_jobs \<Rightarrow> refresh_job_out \<times> refresh_jobs" where
  "start_delivery_auth_refresh_job w st admin jobs =
     (case fetch (\<lambda>job. jb_organization_id job = u_organization_id admin \<and> job_live job) jobs of
        Some job \<Rightarrow> (delivery_auth_job_out st job, jobs)
      | None \<Rightarrow>
          (let job = queued_job w admin in
           (delivery_auth_job_out st job,
            if delivery_auth_job (jb_job_id job) jobs = None then jobs @ [job] else save_row jb_job_id job jobs)))"

definition get_delivery_auth_refresh_job :: "settings \<Rightarrow> user \<Rightarrow> string \<Rightarrow> refresh_jobs \<Rightarrow> exn + refresh_job_out" where
  "get_delivery_auth_refresh_job st admin i jobs =
     (case delivery_auth_job i jobs of
        None \<Rightarrow> Inl (HTTPException 404 ''Refresh job was not found'')
      | Some job \<Rightarrow>
          if jb_organization_id job \<noteq> u_organization_id admin then Inl (HTTPException 404 ''Refresh job was not found'')
          else Inr (delivery_auth_job_out st job))"

text \<open>The thread of the job: it begins, and nothing happens where the job is gone.\<close>

definition begin_job :: "world \<Rightarrow> string \<Rightarrow> refresh_jobs \<Rightarrow> refresh_jobs" where
  "begin_job w i = update_delivery_auth_job i (\<lambda>job. job\<lparr>jb_status := ''running'', jb_started_at := Some (utcnow w),
     jb_message := ''Refresh is running.''\<rparr>)"

text \<open>The four components in turn, up to the first that raises: what they did, how it ended, and the state.\<close>

definition component_steps ::
  "remote \<Rightarrow> world \<Rightarrow> settings \<Rightarrow> string \<Rightarrow> (string \<times> (refresh_state \<Rightarrow> (exn + refresh_component) \<times> refresh_state)) list" where
  "component_steps rm w st org =
     [(''bot_delivery'', \<lambda>(s, keys). case refresh_bot_delivery_token rm w st org s of (r, s) \<Rightarrow> (r, s, keys)),
      (''graph_lookup'', \<lambda>(s, keys). case refresh_graph_lookup_token rm w st org s of (r, s) \<Rightarrow> (r, s, keys)),
      (''graph_delivery'', \<lambda>((db, cs), keys). case refresh_graph_delivery_token rm w st org db of
         (r, db) \<Rightarrow> (map_sum id (\<lambda>(status, message). component_out status message) r, (db, cs), keys)),
      (''bot_inbound_auth'', \<lambda>(s, keys). case refresh_bot_inbound_auth_cache keys of (c, keys) \<Rightarrow> (Inr c, s, keys))]"

fun run_components ::
  "(string \<times> (refresh_state \<Rightarrow> (exn + refresh_component) \<times> refresh_state)) list \<Rightarrow>
   (string \<times> refresh_component) list \<Rightarrow> refresh_state \<Rightarrow>
   exn option \<times> (string \<times> refresh_component) list \<times> refresh_state" where
  "run_components [] done_so_far s = (None, done_so_far, s)"
| "run_components ((key, step) # steps) done_so_far s =
     (case step s of
        (Inl e, s) \<Rightarrow> (Some e, done_so_far, s)
      | (Inr c, s) \<Rightarrow> run_components steps (done_so_far @ [(key, c)]) s)"

definition failed_job :: "world \<Rightarrow> (string \<times> refresh_component) list \<Rightarrow> refresh_job \<Rightarrow> refresh_job" where
  "failed_job w components job =
     job\<lparr>jb_status := ''failed'', jb_completed_at := Some (utcnow w), jb_ok := Some False, jb_components := components,
        jb_message := ''Refresh failed unexpectedly.''\<rparr>"

definition completed_job ::
  "world \<Rightarrow> (string \<times> refresh_component) list \<Rightarrow> admin_readiness_out \<Rightarrow> refresh_job \<Rightarrow> refresh_job" where
  "completed_job w components out job =
     job\<lparr>jb_status := ''completed'', jb_completed_at := Some (utcnow w),
        jb_ok := Some (\<not> list_ex (\<lambda>(_, c). rf_status c = ''failed'') components), jb_components := components,
        jb_readiness := Some out, jb_message := ''Refresh completed.''\<rparr>"

text \<open>Whatever a component raised, what was written to the database is dropped and the caches stay reset.\<close>

definition finish_job ::
  "remote \<Rightarrow> world \<Rightarrow> settings \<Rightarrow> refresh_job \<Rightarrow> refresh_state \<times> refresh_jobs \<Rightarrow> refresh_state \<times> refresh_jobs" where
  "finish_job rm w st job s =
     (let (((db, cs), keys), jobs) = s; org = jb_organization_id job; update = update_delivery_auth_job (jb_job_id job)
      in case run_components (component_steps rm w st org) [] ((db, cs), keys) of
           (Some e, components, (_, cs), keys) \<Rightarrow> (((db, cs), keys), update (failed_job w components) jobs)
         | (None, components, (db1, cs), keys) \<Rightarrow>
             (case admin_readiness w org st db1 of
                Inl e \<Rightarrow> (((db, cs), keys), update (failed_job w components) jobs)
              | Inr out \<Rightarrow>
                  (((record_audit w st ''delivery_auth.tokens_refreshed'' ''user'' (Some (jb_admin_id job)) (Some org)
                       [(''components'', JDict (List.map (\<lambda>(key, c). (key, JStr (rf_status c))) components))] db1, cs), keys),
                   update (completed_job w components out) jobs)))"

definition run_delivery_auth_refresh_job ::
  "remote \<Rightarrow> world \<Rightarrow> settings \<Rightarrow> string \<Rightarrow> refresh_state \<times> refresh_jobs \<Rightarrow> refresh_state \<times> refresh_jobs" where
  "run_delivery_auth_refresh_job rm w st i s =
     (case delivery_auth_job i (snd s) of
        None \<Rightarrow> s
      | Some job \<Rightarrow> finish_job rm w st job (fst s, begin_job w i (snd s)))"

end
