(* ===== verification/Monitoring.thy ===== *)
theory Monitoring
  imports Readiness
begin

text \<open>
  \<open>routers/monitoring.py\<close>: one status for an external monitor, made of readiness, counts over the tables
  and the last minutes of deliveries, and the same as channels and a sentence for PRTG. Nothing is written.
\<close>

section \<open>Rates\<close>

text \<open>
  A rate is the quotient of two counts as a \<open>float\<close>, rounded to thousandths. The quotient is the closest
  fraction \<open>m / 2 ^ e\<close> with \<open>m\<close> of 53 bits, ties to even; \<open>round\<close> takes the closest decimal of that
  fraction. Rates are given in thousandths, percentages in tenths.
\<close>

definition round_half_even :: "nat \<Rightarrow> nat \<Rightarrow> nat" where
  "round_half_even n d =
     (let q = n div d; r = n mod d in if d < 2 * r \<or> (2 * r = d \<and> odd q) then Suc q else q)"

function float_exponent :: "nat \<Rightarrow> nat \<Rightarrow> nat \<Rightarrow> nat" where
  "float_exponent a b e = (if 0 < a \<and> a * 2 ^ e < 2 ^ 52 * b then float_exponent a b (Suc e) else e)"
  by pat_completeness auto
termination
  by (relation "measure (\<lambda>(a, b, e). 2 ^ 52 * b - a * 2 ^ e)") (auto intro: diff_less_mono2)

declare float_exponent.simps [simp del]

text \<open>The fraction of a quotient below \<open>2 ^ 53\<close>.\<close>

definition float_quotient :: "nat \<Rightarrow> nat \<Rightarrow> nat \<times> nat" where
  "float_quotient a b = (let e = float_exponent a b 0 in (round_half_even (a * 2 ^ e) b, e))"

definition float_round :: "nat \<Rightarrow> nat \<times> nat \<Rightarrow> nat" where
  "float_round scale x = round_half_even (scale * fst x) (2 ^ snd x)"

definition float_times :: "nat \<Rightarrow> nat \<times> nat \<Rightarrow> nat \<times> nat" where
  "float_times k x = float_quotient (k * fst x) (2 ^ snd x)"

section \<open>The status\<close>

record monitoring_component =
  mc_enabled :: bool
  mc_ready :: bool
  mc_auth_status :: string

record monitoring_graph = monitoring_component +
  mc_credential_source :: string

record monitoring_routes =
  mr_total :: nat
  mr_active :: nat
  mr_inactive :: nat
  mr_with_last_failure :: nat
  mr_with_last_rejection :: nat
  mr_untested_active :: nat

record monitoring_deliveries =
  md_last_success_at :: "instant option"
  md_last_failure_at :: "instant option"
  md_last_rejection_at :: "instant option"

record rolling_window =
  rw_delivery_success_count :: nat
  rw_delivery_failure_count :: nat
  rw_delivery_rejection_count :: nat
  rw_success_rate :: "nat option"

record problem_route =
  pb_id :: string
  pb_name :: string
  pb_delivery_backend :: string
  pb_is_active :: bool
  pb_last_delivery_status :: "string option"
  pb_last_delivery_at :: "instant option"

record monitoring_status =
  ms_ok :: bool
  ms_status :: string
  ms_service :: string
  ms_version :: string
  ms_generated_at :: instant
  ms_database_ok :: bool
  ms_database_message :: string
  ms_delivery_mode :: string
  ms_bot :: monitoring_component
  ms_graph_lookup :: monitoring_graph
  ms_graph_delivery :: monitoring_graph
  ms_routes :: monitoring_routes
  ms_deliveries :: monitoring_deliveries
  ms_rolling_windows :: "(string \<times> rolling_window) list"
  ms_problem_routes :: "problem_route list"

definition WINDOWS :: "(string \<times> duration) list" where
  "WINDOWS = [(''5m'', minutes 5), (''15m'', minutes 15), (''1h'', minutes 60)]"

definition PROBLEM_ROUTE_LIMIT :: nat where
  "PROBLEM_ROUTE_LIMIT = 25"

definition before_space :: "string \<Rightarrow> string" where
  "before_space = takeWhile (\<lambda>c. c \<noteq> CHR '' '')"

text \<open>The key is that of the environment, whatever the stored settings.\<close>

definition require_monitoring_api_key :: "settings \<Rightarrow> string option \<Rightarrow> exn option" where
  "require_monitoring_api_key env authorization =
     (let expected = strip (monitoring_api_key env); given = opt_str authorization;
          scheme = before_space given; token = tl (dropWhile (\<lambda>c. c \<noteq> CHR '' '') given)
      in if expected = [] then Some (HTTPException 503 ''Monitoring API key is not configured'')
         else if lower scheme \<noteq> ''bearer'' \<or> token = [] then Some (HTTPException 401 ''Invalid monitoring API key'')
         else (case compare_digest token expected of
           Inl e \<Rightarrow> Some e
         | Inr same \<Rightarrow> if same then None else Some (HTTPException 401 ''Invalid monitoring API key'')))"

definition enabled_delivery_backends :: "settings \<Rightarrow> string list" where
  "enabled_delivery_backends st =
     (if bot_framework_enabled st then [''bot_framework''] else []) @
     (if graph_delivery_enabled st \<and> graph_lookup_enabled st then [''graph''] else [])"

definition of_backends :: "string list option \<Rightarrow> webhook_route \<Rightarrow> bool" where
  "of_backends backends r = (case backends of None \<Rightarrow> True | Some bs \<Rightarrow> r_delivery_backend r \<in> set bs)"

definition route_counts :: "db \<Rightarrow> string list option \<Rightarrow> monitoring_routes" where
  "route_counts db backends =
     (let count = (\<lambda>P. length (List.filter (\<lambda>r. of_backends backends r \<and> P r) (routes db))) in
      \<lparr>mr_total = count (\<lambda>r. True), mr_active = count r_is_active, mr_inactive = count (\<lambda>r. \<not> r_is_active r),
       mr_with_last_failure = count (\<lambda>r. r_last_delivery_status r = Some ''failed''),
       mr_with_last_rejection = count (\<lambda>r. r_last_delivery_status r = Some ''rejected''),
       mr_untested_active = count (\<lambda>r. r_is_active r \<and> r_last_delivery_status r = None)\<rparr>)"

definition last_delivery_at :: "db \<Rightarrow> string \<Rightarrow> instant option" where
  "last_delivery_at db status =
     (case List.map d_created_at (List.filter (\<lambda>d. d_status d = status) (deliveries db)) of
        [] \<Rightarrow> None | t # ts \<Rightarrow> Some (fold max ts t))"

definition delivery_summary_of :: "db \<Rightarrow> monitoring_deliveries" where
  "delivery_summary_of db =
     \<lparr>md_last_success_at = last_delivery_at db ''delivered'', md_last_failure_at = last_delivery_at db ''failed'',
      md_last_rejection_at = last_delivery_at db ''rejected''\<rparr>"

text \<open>An event of no route counts for every backend; one whose route is gone has none.\<close>

definition event_of_backends :: "db \<Rightarrow> string list option \<Rightarrow> delivery_event \<Rightarrow> bool" where
  "event_of_backends db backends d =
     (case (backends, d_route_id d) of
        (None, _) \<Rightarrow> True
      | (_, None) \<Rightarrow> True
      | (Some bs, Some i) \<Rightarrow> (case fetch (\<lambda>r. r_id r = i) (routes db) of None \<Rightarrow> False | Some r \<Rightarrow> r_delivery_backend r \<in> set bs))"

definition rolling_window_of :: "db \<Rightarrow> instant \<Rightarrow> string list option \<Rightarrow> rolling_window" where
  "rolling_window_of db since backends =
     (let count = (\<lambda>status. length (List.filter (\<lambda>d. since \<le> d_created_at d \<and> event_of_backends db backends d \<and> d_status d = status)
            (deliveries db)));
          delivered = count ''delivered''; failed = count ''failed''; rejected = count ''rejected'';
          total = delivered + failed + rejected
      in \<lparr>rw_delivery_success_count = delivered, rw_delivery_failure_count = failed, rw_delivery_rejection_count = rejected,
          rw_success_rate = (if total = 0 then None else Some (float_round 1000 (float_quotient delivered total)))\<rparr>)"

definition is_problem :: "webhook_route \<Rightarrow> bool" where
  "is_problem r \<longleftrightarrow> \<not> r_is_active r \<or> r_last_delivery_status r = Some ''failed'' \<or> r_last_delivery_status r = Some ''rejected'' \<or>
     (r_is_active r \<and> r_last_delivery_status r = None)"

definition problem_routes :: "db \<Rightarrow> problem_route list" where
  "problem_routes db =
     List.map (\<lambda>r. \<lparr>pb_id = r_id r, pb_name = r_name r, pb_delivery_backend = r_delivery_backend r, pb_is_active = r_is_active r,
          pb_last_delivery_status = r_last_delivery_status r, pb_last_delivery_at = r_last_delivery_at r\<rparr>)
       (take PROBLEM_ROUTE_LIMIT (sort_key (\<lambda>r. - r_updated_at r) (List.filter is_problem (routes db))))"

definition no_routes :: monitoring_routes where
  "no_routes = \<lparr>mr_total = 0, mr_active = 0, mr_inactive = 0, mr_with_last_failure = 0, mr_with_last_rejection = 0,
     mr_untested_active = 0\<rparr>"

definition no_window :: rolling_window where
  "no_window = \<lparr>rw_delivery_success_count = 0, rw_delivery_failure_count = 0, rw_delivery_rejection_count = 0,
     rw_success_rate = None\<rparr>"

definition graph_component :: "bool \<Rightarrow> bool \<Rightarrow> string \<Rightarrow> string \<Rightarrow> monitoring_graph" where
  "graph_component enabled ready auth_status source =
     \<lparr>mc_enabled = enabled, mc_ready = ready, mc_auth_status = auth_status, mc_credential_source = source\<rparr>"

text \<open>The first organization is that of the lowest creation time.\<close>

definition monitored_organization :: "db \<Rightarrow> string option" where
  "monitored_organization db = (case organizations db of [] \<Rightarrow> None | org # _ \<Rightarrow> Some (o_id org))"

definition monitored_graph_delivery :: "db \<Rightarrow> monitoring_graph" where
  "monitored_graph_delivery db =
     (if opt_str (monitored_organization db) = [] then graph_component True False ''missing'' ''missing''
      else (let dg = diagnostics_for_organization (opt_str (monitored_organization db)) db;
                status = or_str (dg_status dg) ''missing'';
                auth_status = (if dg_configured dg \<and> status = ''ready'' \<and>
                    missing_required_scopes (dg_scopes dg) DEFAULT_DELEGATED_GRAPH_SCOPES \<noteq> []
                  then ''permission_warning'' else status)
            in graph_component True (dg_configured dg \<and> auth_status = ''ready'') auth_status
                 (if dg_configured dg then ''delegated_service_user'' else ''missing'')))"

definition rollup_status ::
  "bool \<Rightarrow> string \<Rightarrow> monitoring_component \<Rightarrow> monitoring_graph \<Rightarrow> monitoring_graph \<Rightarrow> monitoring_routes \<Rightarrow> rolling_window \<Rightarrow> string" where
  "rollup_status database_ok mode b lookup delivery counts short_window =
     (if \<not> database_ok \<or> (mc_enabled b \<and> mode = ''real'' \<and> \<not> mc_ready b) then ''crit''
      else if (mc_enabled lookup \<and> \<not> mc_ready lookup) \<or> (mc_enabled delivery \<and> \<not> mc_ready delivery) \<or>
              mr_inactive counts \<noteq> 0 \<or> mr_with_last_failure counts \<noteq> 0 \<or> mr_with_last_rejection counts \<noteq> 0 \<or>
              mr_untested_active counts \<noteq> 0 \<or> rw_delivery_failure_count short_window \<noteq> 0 \<or>
              rw_delivery_rejection_count short_window \<noteq> 0
      then ''warn'' else ''ok'')"

definition bot_component :: "world \<Rightarrow> settings \<Rightarrow> db \<Rightarrow> monitoring_component" where
  "bot_component w st db =
     (if bot_framework_enabled st
      then (let r = bot_readiness w (opt_str (monitored_organization db)) st (bot_delivery_mode_normalized st) db in
            \<lparr>mc_enabled = True, mc_ready = rc_ready r, mc_auth_status = rc_auth_status r\<rparr>)
      else \<lparr>mc_enabled = False, mc_ready = True, mc_auth_status = ''disabled''\<rparr>)"

definition lookup_component :: "world \<Rightarrow> settings \<Rightarrow> db \<Rightarrow> monitoring_graph" where
  "lookup_component w st db =
     (if graph_lookup_enabled st
      then (let r = graph_lookup_readiness w (opt_str (monitored_organization db)) st db in
            graph_component True (rc_ready r) (rc_auth_status r) (qr_credential_source r))
      else graph_component False True ''disabled'' ''disabled'')"

text \<open>
  Whether the database answers the first queries, and whether it answers the later ones, which are in a
  block that catches every exception, are arguments.
\<close>

definition build_monitoring_status :: "world \<Rightarrow> settings \<Rightarrow> bool \<Rightarrow> bool \<Rightarrow> db \<Rightarrow> exn + monitoring_status" where
  "build_monitoring_status w st answers_first answers_later db =
     (let mode = bot_delivery_mode_normalized st; backends = Some (enabled_delivery_backends st);
          b = bot_component w st db; lookup = lookup_component w st db;
          graph_on = (graph_delivery_enabled st \<and> graph_lookup_enabled st);
          delivery = (if \<not> answers_later then graph_component graph_on False ''unknown'' ''missing''
            else if graph_on then monitored_graph_delivery db else graph_component False True ''disabled'' ''disabled'');
          window = (\<lambda>span backends. if answers_later then rolling_window_of db (utcnow w - span) backends else no_window);
          counted = (\<lambda>backends. if answers_later then route_counts db backends else no_routes);
          status = rollup_status answers_later mode b lookup delivery (counted backends) (window (minutes 5) backends)
      in if \<not> answers_first then Inl (PyError ''OperationalError'')
         else Inr \<lparr>ms_ok = (status = ''ok''), ms_status = status, ms_service = app_name st, ms_version = app_version st,
           ms_generated_at = utcnow w, ms_database_ok = answers_later,
           ms_database_message = (if answers_later then [] else ''Database check failed''), ms_delivery_mode = mode,
           ms_bot = b, ms_graph_lookup = lookup, ms_graph_delivery = delivery, ms_routes = counted None,
           ms_deliveries = (if answers_later then delivery_summary_of db
             else \<lparr>md_last_success_at = None, md_last_failure_at = None, md_last_rejection_at = None\<rparr>),
           ms_rolling_windows = List.map (\<lambda>(label, span). (label, window span None)) WINDOWS,
           ms_problem_routes = (if answers_later then problem_routes db else [])\<rparr>)"

section \<open>PRTG\<close>

definition count_channel :: "string \<Rightarrow> nat \<Rightarrow> json" where
  "count_channel channel value = JDict [(''channel'', JStr channel), (''value'', JInt (int value)), (''unit'', JStr ''Count'')]"

definition PRTG_SERVICE_STATE_LOOKUP :: string where
  "PRTG_SERVICE_STATE_LOOKUP = ''prtg.standardlookups.wmi.diskhealth.health''"

definition PRTG_BOOLEAN_TRUE_OK_LOOKUP :: string where
  "PRTG_BOOLEAN_TRUE_OK_LOOKUP = ''prtg.standardlookups.boolean.statetrueok''"

definition state_channel :: "string \<Rightarrow> int \<Rightarrow> string \<Rightarrow> json" where
  "state_channel channel value lookup =
     JDict [(''channel'', JStr channel), (''value'', JInt value), (''unit'', JStr ''Custom''), (''customunit'', JStr ''state''),
       (''valuelookup'', JStr lookup)]"

definition boolean_channel :: "string \<Rightarrow> bool \<Rightarrow> json" where
  "boolean_channel channel value = state_channel channel (if value then 1 else 0) PRTG_BOOLEAN_TRUE_OK_LOOKUP"

text \<open>The percentage in tenths, and how the number is written.\<close>

definition percent_tenths :: "nat option \<Rightarrow> nat" where
  "percent_tenths rate =
     (case rate of None \<Rightarrow> 1000 | Some k \<Rightarrow> float_round 10 (float_times 100 (float_quotient k 1000)))"

definition tenths_text :: "nat \<Rightarrow> string" where
  "tenths_text n = str_nat (n div 10) @ ''.'' @ str_nat (n mod 10)"

definition percent_channel :: "string \<Rightarrow> nat option \<Rightarrow> json" where
  "percent_channel channel rate =
     JDict [(''channel'', JStr channel), (''value'', JFloat (tenths_text (percent_tenths rate))), (''unit'', JStr ''Percent''),
       (''float'', JInt 1), (''decimalmode'', JStr ''All'')]"

definition service_state :: "string \<Rightarrow> int" where
  "service_state status = (if status = ''ok'' then 0 else if status = ''warn'' then 1 else 2)"

definition window_channels :: "(string \<times> rolling_window) list \<Rightarrow> string \<Rightarrow> json list" where
  "window_channels windows label =
     (let window = (case map_of windows label of None \<Rightarrow> no_window | Some x \<Rightarrow> x) in
      [count_channel (''Deliveries '' @ label @ '' Success'') (rw_delivery_success_count window),
       count_channel (''Deliveries '' @ label @ '' Failed'') (rw_delivery_failure_count window),
       count_channel (''Deliveries '' @ label @ '' Rejected'') (rw_delivery_rejection_count window),
       percent_channel (''Success Rate '' @ label) (rw_success_rate window)])"

definition prtg_channels :: "monitoring_status \<Rightarrow> json list" where
  "prtg_channels m =
     [state_channel ''Service State'' (service_state (ms_status m)) PRTG_SERVICE_STATE_LOOKUP,
      boolean_channel ''Database OK'' (ms_database_ok m), boolean_channel ''Bot Ready'' (mc_ready (ms_bot m)),
      boolean_channel ''Graph Lookup Ready'' (mc_ready (ms_graph_lookup m)),
      boolean_channel ''Graph Delivery Ready'' (mc_ready (ms_graph_delivery m)),
      count_channel ''Routes Total'' (mr_total (ms_routes m)), count_channel ''Routes Active'' (mr_active (ms_routes m)),
      count_channel ''Routes Inactive'' (mr_inactive (ms_routes m)),
      count_channel ''Routes Last Failed'' (mr_with_last_failure (ms_routes m)),
      count_channel ''Routes Last Rejected'' (mr_with_last_rejection (ms_routes m)),
      count_channel ''Routes Untested Active'' (mr_untested_active (ms_routes m))] @
     concat (List.map (\<lambda>(label, _). window_channels (ms_rolling_windows m) label) WINDOWS)"

definition format_problem_route_names :: "string list \<Rightarrow> nat \<Rightarrow> string" where
  "format_problem_route_names names count =
     (let visible = take 3 names; remaining = count - length visible; formatted = join '', '' visible
      in if remaining \<noteq> 0 then formatted @ '', and '' @ str_nat remaining @ '' more'' else formatted)"

definition route_detail :: "string \<Rightarrow> string \<Rightarrow> nat \<Rightarrow> string list \<Rightarrow> string" where
  "route_detail singular plural count names =
     (let label = (if count = 1 then singular else plural)
      in if names = [] then str_nat count @ '' '' @ label
         else str_nat count @ '' '' @ label @ '': '' @ format_problem_route_names names count)"

definition problem_route_names :: "(problem_route \<Rightarrow> bool) \<Rightarrow> problem_route list \<Rightarrow> string list" where
  "problem_route_names P problems = List.map pb_name (List.filter P problems)"

definition route_problem_details :: "monitoring_routes \<Rightarrow> problem_route list \<Rightarrow> string list" where
  "route_problem_details counts problems =
     (let detail = (\<lambda>singular plural count P.
            if count \<noteq> 0 then [route_detail singular plural count (problem_route_names P problems)] else [])
      in detail ''route is inactive'' ''routes are inactive'' (mr_inactive counts) (\<lambda>r. \<not> pb_is_active r) @
         detail ''route last failed'' ''routes last failed'' (mr_with_last_failure counts)
           (\<lambda>r. pb_last_delivery_status r = Some ''failed'') @
         detail ''route was last rejected'' ''routes were last rejected'' (mr_with_last_rejection counts)
           (\<lambda>r. pb_last_delivery_status r = Some ''rejected'') @
         detail ''active route has not been tested yet'' ''active routes have not been tested yet'' (mr_untested_active counts)
           (\<lambda>r. pb_is_active r \<and> pb_last_delivery_status r = None))"

definition status_details :: "monitoring_status \<Rightarrow> string list" where
  "status_details m =
     (let short_window = (case map_of (ms_rolling_windows m) ''5m'' of None \<Rightarrow> no_window | Some x \<Rightarrow> x);
          critical = (if \<not> ms_database_ok m then [''the database check failed''] else []) @
            (if mc_enabled (ms_bot m) \<and> \<not> mc_ready (ms_bot m)
             then [''bot delivery is not ready ('' @ mc_auth_status (ms_bot m) @ '')''] else [])
      in if ms_status m = ''crit'' \<and> critical \<noteq> [] then critical
         else critical @
           (if mc_enabled (ms_graph_lookup m) \<and> \<not> mc_ready (ms_graph_lookup m)
            then [''Graph lookup is not ready ('' @ mc_auth_status (ms_graph_lookup m) @ '')''] else []) @
           (if mc_enabled (ms_graph_delivery m) \<and> \<not> mc_ready (ms_graph_delivery m)
            then [''Graph delivery is not ready ('' @ mc_auth_status (ms_graph_delivery m) @ '')''] else []) @
           route_problem_details (ms_routes m) (ms_problem_routes m) @
           (if rw_delivery_failure_count short_window \<noteq> 0 \<or> rw_delivery_rejection_count short_window \<noteq> 0
            then [''recent webhook deliveries failed or were rejected in the last 5 minutes''] else []))"

definition status_message :: "monitoring_status \<Rightarrow> string" where
  "status_message m =
     (if ms_status m = ''ok'' then ''All monitored components are ready and recent deliveries look healthy.''
      else (let details = status_details m in
        if details \<noteq> [] then join ''; '' details @ ''.'' else ''Check the sensor channels for details.''))"

definition prtg_text :: "monitoring_status \<Rightarrow> string" where
  "prtg_text m =
     (let label = (if ms_status m = ''ok'' then ''OK'' else if ms_status m = ''warn'' then ''warning''
            else if ms_status m = ''crit'' then ''critical'' else ms_status m)
      in ms_service m @ '' '' @ label @ '': '' @ status_message m)"

section \<open>The endpoints\<close>

definition monitoring_status_endpoint ::
  "world \<Rightarrow> settings \<Rightarrow> settings \<Rightarrow> string option \<Rightarrow> bool \<Rightarrow> bool \<Rightarrow> db \<Rightarrow> exn + monitoring_status" where
  "monitoring_status_endpoint w env st authorization answers_first answers_later db =
     (case require_monitoring_api_key env authorization of
        Some e \<Rightarrow> Inl e
      | None \<Rightarrow> build_monitoring_status w st answers_first answers_later db)"

definition monitoring_prtg ::
  "world \<Rightarrow> settings \<Rightarrow> settings \<Rightarrow> string option \<Rightarrow> bool \<Rightarrow> bool \<Rightarrow> db \<Rightarrow> exn + json" where
  "monitoring_prtg w env st authorization answers_first answers_later db =
     (case monitoring_status_endpoint w env st authorization answers_first answers_later db of
        Inl e \<Rightarrow> Inl e
      | Inr m \<Rightarrow> Inr (JDict [(''prtg'', JDict [(''result'', JList (prtg_channels m)), (''text'', JStr (prtg_text m))])]))"

end
