(* ===== verification/Readiness_Guarantees.thy ===== *)
theory Readiness_Guarantees
  imports Monitoring Route_History
begin

text \<open>
  What reports and the refresh job guarantee: a report tells what the last refresh of the same credentials
  found, an organization never has two jobs under way, every job ends, the monitor calls the backend well
  exactly when all its parts are, and an alarm names its cause.
\<close>

section \<open>Snapshots\<close>

lemma checked_snapshot_columns [simp]:
  "as_id (checked_snapshot w i org c sg s m od) = i" "as_organization_id (checked_snapshot w i org c sg s m od) = org"
  "as_component (checked_snapshot w i org c sg s m od) = c" "as_credential_signature (checked_snapshot w i org c sg s m od) = sg"
  "as_status (checked_snapshot w i org c sg s m od) = s"
  "as_token_checked (checked_snapshot w i org c sg s m od) = td_checked (od_token od)"
  "as_token_request_succeeded (checked_snapshot w i org c sg s m od) = td_succeeded (od_token od)"
  by (simp_all add: checked_snapshot_def)

lemma diagnostics_token [simp]: "od_token (oauth_diagnostics_of source st scope token metadata) = token"
  by (simp add: oauth_diagnostics_of_def)

lemma token_checks [simp]:
  "td_checked (token_diagnostics w response)" "td_succeeded (token_diagnostics w response)"
  "td_checked (failed_token w)" "\<not> td_succeeded (failed_token w)"
  by (simp_all add: token_diagnostics_def failed_token_def unchecked_token_def)

lemma fetch_save_first:
  assumes "fetch P rows = Some r0" and "f r = f r0" and "P r"
  shows "fetch P (save_row f r rows) = Some r"
  using assms by (induction rows) (auto simp: save_row_def update_rows_def split: if_splits)

lemma stored_snapshot_other:
  assumes "fresh_ids as_id (next_id db) (snapshots db)" and "(org', c') \<noteq> (org, c)"
  shows "find_snapshot org' c' (store_oauth_snapshot w org c sg s m od db) = find_snapshot org' c' db"
proof (cases "find_snapshot org c db")
  case None
  then show ?thesis using assms(2) by (auto simp: store_oauth_snapshot_def find_snapshot_def split: option.split)
next
  case (Some old)
  then have old: "old \<in> set (snapshots db)" "as_organization_id old = org" "as_component old = c"
    by (auto simp: find_snapshot_def dest: fetch_Some)
  have "x = old" if "x \<in> set (snapshots db)" "as_id x = as_id old" for x
    using fresh_ids_inject [OF assms(1) that(1) old(1)] that(2) by simp
  then have "fetch (\<lambda>x. as_organization_id x = org' \<and> as_component x = c')
      (save_row as_id (checked_snapshot w (as_id old) org c sg s m od) (snapshots db)) =
      fetch (\<lambda>x. as_organization_id x = org' \<and> as_component x = c') (snapshots db)"
    using old assms(2) by (intro fetch_save_row_other) auto
  then show ?thesis using Some by (simp add: store_oauth_snapshot_def find_snapshot_def)
qed

lemma store_snapshot_fresh:
  "fresh_ids as_id (next_id db) (snapshots db) \<Longrightarrow>
   fresh_ids as_id (next_id (store_oauth_snapshot w org c sg s m od db)) (snapshots (store_oauth_snapshot w org c sg s m od db))"
  by (auto simp: store_oauth_snapshot_def find_snapshot_def new_id_def fresh_ids_snoc intro: fresh_ids_save
      dest: fetch_Some split: option.splits)

lemma get_stored_snapshot:
  "get_oauth_snapshot org c sg' (store_oauth_snapshot w org c sg s m od db) =
   (if sg' = sg then Some (checked_snapshot w (case find_snapshot org c db of None \<Rightarrow> new_id db | Some x \<Rightarrow> as_id x) org c sg s m od)
    else None)"
proof -
  have "find_snapshot org c (store_oauth_snapshot w org c sg s m od db) =
      Some (checked_snapshot w (case find_snapshot org c db of None \<Rightarrow> new_id db | Some x \<Rightarrow> as_id x) org c sg s m od)"
  proof (cases "find_snapshot org c db")
    case None
    then show ?thesis by (auto simp: store_oauth_snapshot_def find_snapshot_def)
  next
    case (Some old)
    then show ?thesis
      using fetch_save_first [of "\<lambda>x. as_organization_id x = org \<and> as_component x = c" "snapshots db" old as_id
          "checked_snapshot w (as_id old) org c sg s m od"]
      by (auto simp: store_oauth_snapshot_def find_snapshot_def)
  qed
  then show ?thesis by (auto simp: get_oauth_snapshot_def)
qed

text \<open>What a refresh of the bot's token that is not skipped and does not raise leaves.\<close>

lemma refresh_bot_cases:
  assumes "refresh_bot_delivery_token rm w st org (db, cs) = (Inr c, db', cs')"
    and "bot_framework_enabled st" and "bot_delivery_mode_normalized st = ''real''"
  obtains (failed) m od where "rf_status c = ''failed''" "td_checked (od_token od)" "\<not> td_succeeded (od_token od)"
      "db' = store_oauth_snapshot w org AUTH_COMPONENT_BOT_DELIVERY (app_only_credential_signature w st (botframework_scope st))
         ''token_error'' m od db" "cs' = cs\<lparr>bot_tokens := None\<rparr>"
    | (refreshed) m od where "rf_status c = ''refreshed''" "td_checked (od_token od)" "td_succeeded (od_token od)"
      "db' = store_oauth_snapshot w org AUTH_COMPONENT_BOT_DELIVERY (app_only_credential_signature w st (botframework_scope st))
         ''ready'' m od db" "cs' = cs\<lparr>bot_tokens := None\<rparr>"
proof (cases "fetch_oauth_token rm w st (botframework_scope st) BotDeliveryError BotDeliveryError")
  case (Inr response)
  then show ?thesis
    using assms by (intro refreshed) (auto simp: refresh_bot_delivery_token_def Let_def component_out_def reset_bot_token_manager_def)
next
  case (Inl e)
  then obtain message where "e = BotDeliveryError message"
    using assms by (cases e) (auto simp: refresh_bot_delivery_token_def Let_def)
  then show ?thesis
    using assms Inl by (intro failed) (auto simp: refresh_bot_delivery_token_def Let_def component_out_def reset_bot_token_manager_def)
qed

lemma bot_readiness_cong:
  assumes "find_snapshot org AUTH_COMPONENT_BOT_DELIVERY db' = find_snapshot org AUTH_COMPONENT_BOT_DELIVERY db"
  shows "bot_readiness w org st mode db' = bot_readiness w org st mode db"
  unfolding bot_readiness_def get_oauth_snapshot_def assms ..

lemma graph_lookup_readiness_cong:
  assumes "find_snapshot org AUTH_COMPONENT_GRAPH_LOOKUP db' = find_snapshot org AUTH_COMPONENT_GRAPH_LOOKUP db"
  shows "graph_lookup_readiness w org st db' = graph_lookup_readiness w org st db"
  unfolding graph_lookup_readiness_def get_oauth_snapshot_def assms ..


text \<open>A service that cannot be reached.\<close>

definition sample_unreachable :: remote where
  "sample_unreachable = sample_remote (\<lambda>_ _. HttpRequestError ''URLError'' ''refused'')"

definition sample_refreshed :: "(exn + refresh_component) \<times> db \<times> caches" where
  "sample_refreshed = refresh_bot_delivery_token sample_unreachable sample_world sample_registered ''o1'' (empty_db, sample_caches)"

lemma sample_registered_facts:
  "bot_framework_enabled sample_registered" "bot_delivery_mode_normalized sample_registered = ''real''"
  "credentials_configured sample_registered" "missing_registration sample_registered = []"
  by code_simp+

lemma sample_refreshed:
  "sample_refreshed = (Inr (component_out ''failed''
     ''Bot Framework delivery status refresh failed. Check tenant ID, client ID, client secret and app permissions.''), snd sample_refreshed)"
  by (simp add: sample_refreshed_def refresh_bot_delivery_token_def fetch_oauth_token_def sample_unreachable_def sample_remote_def
      sample_registered_facts Let_def)


section \<open>Jobs\<close>

text \<open>What holds of one job at any time.\<close>

definition job_shape :: "refresh_job \<Rightarrow> bool" where
  "job_shape job \<longleftrightarrow>
     (jb_status job = ''queued'' \<and> jb_ok job = None \<and> jb_started_at job = None \<and> jb_completed_at job = None) \<or>
     (jb_status job = ''running'' \<and> jb_ok job = None \<and> jb_started_at job \<noteq> None \<and> jb_completed_at job = None) \<or>
     (jb_status job = ''completed'' \<and> jb_ok job \<noteq> None \<and> jb_completed_at job \<noteq> None \<and> jb_readiness job \<noteq> None) \<or>
     (jb_status job = ''failed'' \<and> jb_ok job = Some False \<and> jb_completed_at job \<noteq> None)"

definition jobs_ok :: "refresh_jobs \<Rightarrow> bool" where
  "jobs_ok jobs \<longleftrightarrow> distinct (List.map jb_job_id jobs) \<and>
     distinct (List.map jb_organization_id (List.filter job_live jobs)) \<and> list_all job_shape jobs"

text \<open>
  The steps of the process that concern jobs: a start, with a new identity, by any administrator; the begin
  and the end of a job's thread; and anything else, which leaves the jobs alone.
\<close>

inductive job_step :: "refresh_state \<times> refresh_jobs \<Rightarrow> refresh_state \<times> refresh_jobs \<Rightarrow> bool" where
  start: "delivery_auth_job (generated_secret w) jobs = None \<Longrightarrow>
    job_step (s, jobs) (s, snd (start_delivery_auth_refresh_job w st admin jobs))"
| begins: "delivery_auth_job i jobs = Some job \<Longrightarrow> jb_status job = ''queued'' \<Longrightarrow>
    job_step (s, jobs) (s, begin_job w i jobs)"
| finish: "delivery_auth_job i jobs = Some job \<Longrightarrow> jb_status job = ''running'' \<Longrightarrow>
    job_step (s, jobs) (finish_job rm w st job (s, jobs))"
| other: "job_step (s, jobs) (s', jobs)"

text \<open>An update of one job that keeps its identity and its organization, and does not make it live again.\<close>

lemma update_job_ids [simp]:
  assumes "\<And>job. jb_job_id (f job) = jb_job_id job"
  shows "List.map jb_job_id (update_delivery_auth_job i f jobs) = List.map jb_job_id jobs"
  using assms by (auto simp: update_delivery_auth_job_def)

lemma update_keeps_jobs_ok:
  assumes "jobs_ok jobs" and "delivery_auth_job i jobs = Some job" and "job_live job"
    and keys: "\<And>job. jb_job_id (f job) = jb_job_id job" "\<And>job. jb_organization_id (f job) = jb_organization_id job"
    and shape: "job_shape (f job)"
  shows "jobs_ok (update_delivery_auth_job i f jobs)"
proof -
  have job: "job \<in> set jobs" "jb_job_id job = i"
    using assms(2) by (auto simp: delivery_auth_job_def dest: fetch_Some)
  have this_job: "x = job" if "x \<in> set jobs" "jb_job_id x = i" for x
    using assms(1) job that by (auto simp: jobs_ok_def distinct_map dest: inj_onD)
  have live: "distinct (List.map jb_organization_id (List.filter job_live (update_delivery_auth_job i f xs)))"
    if "distinct (List.map jb_organization_id (List.filter job_live xs))" "set xs \<subseteq> set jobs" for xs
  proof -
    have sub: "jb_organization_id ` set (List.filter job_live (update_delivery_auth_job i f ys))
        \<subseteq> jb_organization_id ` set (List.filter job_live ys)" if "set ys \<subseteq> set jobs" for ys
      using that this_job assms(3) by (force simp: update_delivery_auth_job_def keys)
    show ?thesis
      using that
    proof (induction xs)
      case (Cons x xs)
      then show ?case
        using sub [of xs] this_job [of x] assms(3)
        by (auto simp: update_delivery_auth_job_def keys split: if_splits)
    qed (simp add: update_delivery_auth_job_def)
  qed
  show ?thesis
    unfolding jobs_ok_def update_job_ids [where f = f, OF keys(1)]
    using assms(1) live [of jobs] this_job shape by (auto simp: jobs_ok_def list_all_iff update_delivery_auth_job_def)
qed

lemma start_keeps_jobs_ok:
  assumes "jobs_ok jobs" and "delivery_auth_job (generated_secret w) jobs = None"
  shows "jobs_ok (snd (start_delivery_auth_refresh_job w st admin jobs))"
  using assms
  by (auto simp: start_delivery_auth_refresh_job_def jobs_ok_def queued_job_def job_live_def job_shape_def
      delivery_auth_job_def fetch_None Let_def split: option.split)

lemma finish_job_cases:
  obtains (failed) components s' where "finish_job rm w st job (s, jobs) =
      (s', update_delivery_auth_job (jb_job_id job) (failed_job w components) jobs)"
  | (completed) components out s' where "finish_job rm w st job (s, jobs) =
      (s', update_delivery_auth_job (jb_job_id job) (completed_job w components out) jobs)"
proof -
  obtain db cs keys where s: "s = ((db, cs), keys)" by (metis prod.collapse)
  obtain r components db1 cs1 keys1 where
    run: "run_components (component_steps rm w st (jb_organization_id job)) [] ((db, cs), keys) = (r, components, (db1, cs1), keys1)"
    by (metis prod.collapse)
  show thesis
  proof (cases r)
    case None
    then show thesis
      using run s failed completed
      by (cases "admin_readiness w (jb_organization_id job) st db1") (auto simp: finish_job_def)
  next
    case (Some e)
    then show thesis using run s by (intro failed) (auto simp: finish_job_def)
  qed
qed

lemma finish_keeps_jobs_ok:
  assumes "jobs_ok jobs" and "delivery_auth_job i jobs = Some job" and "jb_status job = ''running''"
  shows "jobs_ok (snd (finish_job rm w st job (s, jobs)))"
proof -
  have "jb_job_id job = i" using assms(2) by (auto simp: delivery_auth_job_def dest: fetch_Some)
  then show ?thesis
    using assms
    by (cases rule: finish_job_cases [of rm w st job s jobs])
      (auto intro!: update_keeps_jobs_ok simp: failed_job_def completed_job_def job_shape_def job_live_def)
qed

lemma begin_keeps_jobs_ok:
  assumes "jobs_ok jobs" and "delivery_auth_job i jobs = Some job" and "jb_status job = ''queued''"
  shows "jobs_ok (begin_job w i jobs)"
proof -
  have "job_shape job"
    using assms by (auto simp: jobs_ok_def list_all_iff delivery_auth_job_def dest: fetch_Some)
  then show ?thesis
    using assms by (auto intro!: update_keeps_jobs_ok simp: begin_job_def job_live_def job_shape_def)
qed

lemma job_step_ok: "job_step c c' \<Longrightarrow> jobs_ok (snd c) \<Longrightarrow> jobs_ok (snd c')"
  by (induction rule: job_step.induct) (auto intro: start_keeps_jobs_ok begin_keeps_jobs_ok finish_keeps_jobs_ok)

lemma job_steps_ok: "job_step\<^sup>*\<^sup>* c c' \<Longrightarrow> jobs_ok (snd c) \<Longrightarrow> jobs_ok (snd c')"
  by (induction rule: rtranclp_induct) (auto intro: job_step_ok)

text \<open>C28: an administrator who asks for a refresh while one of the organization is under way gets that one, so an
  organization never has two jobs under way, however starts, begins and ends of jobs follow one another. A
  job that completed has its readiness report and one that failed is not ok.\<close>

theorem one_job_under_way:
  assumes "job_step\<^sup>*\<^sup>* (s, []) (s', jobs)"
  shows "distinct (List.map jb_job_id jobs) \<and> distinct (List.map jb_organization_id (List.filter job_live jobs)) \<and>
    list_all job_shape jobs \<and>
    (\<forall>job \<in> set jobs. job_live job \<and> jb_organization_id job = u_organization_id admin \<longrightarrow>
      start_delivery_auth_refresh_job w st admin jobs = (delivery_auth_job_out st job, jobs))"
proof -
  have ok: "jobs_ok jobs"
    using job_steps_ok [OF assms] by (simp add: jobs_ok_def)
  have "start_delivery_auth_refresh_job w st admin jobs = (delivery_auth_job_out st job, jobs)"
    if job: "job \<in> set jobs" "job_live job" "jb_organization_id job = u_organization_id admin" for job
  proof -
    let ?P = "\<lambda>job. jb_organization_id job = u_organization_id admin \<and> job_live job"
    obtain first where first: "fetch ?P jobs = Some first"
      using job by (cases "fetch ?P jobs") (auto simp: fetch_None)
    then have "first = job"
      using ok job fetch_Some [OF first]
        inj_onD [of jb_organization_id "set (List.filter job_live jobs)" first job] by (auto simp: jobs_ok_def distinct_map)
    then show ?thesis using first by (simp add: start_delivery_auth_refresh_job_def)
  qed
  then show ?thesis using ok by (auto simp: jobs_ok_def)
qed

definition sample_running :: refresh_jobs where
  "sample_running = begin_job sample_world ''s'' [queued_job sample_world sample_admin]"

lemma sample_running_reached: "job_step\<^sup>*\<^sup>* (s, []) (s, sample_running)"
proof -
  have "job_step (s, []) (s, [queued_job sample_world sample_admin])"
    using job_step.start [of sample_world "[]" s default_settings sample_admin]
    by (simp add: start_delivery_auth_refresh_job_def delivery_auth_job_def Let_def)
  moreover have "job_step (s, [queued_job sample_world sample_admin]) (s, sample_running)"
    unfolding sample_running_def
    by (rule job_step.begins [where job = "queued_job sample_world sample_admin"])
      (simp_all add: delivery_auth_job_def queued_job_def sample_world_def)
  ultimately show ?thesis by auto
qed

theorem one_job_under_way_witness:
  "start_delivery_auth_refresh_job sample_world default_settings sample_admin sample_running =
    (delivery_auth_job_out default_settings (hd sample_running), sample_running)"
  using one_job_under_way [OF sample_running_reached [of "((empty_db, sample_caches), None)"],
      of sample_admin sample_world default_settings]
  by (simp add: sample_running_def begin_job_def update_delivery_auth_job_def queued_job_def job_live_def sample_world_def)

subsection \<open>Every job ends\<close>

lemma delivery_auth_job_update:
  assumes "\<And>job. jb_job_id (f job) = jb_job_id job"
  shows "delivery_auth_job k (update_delivery_auth_job i f jobs) =
    (if k = i then map_option f (delivery_auth_job k jobs) else delivery_auth_job k jobs)"
  using assms by (induction jobs) (auto simp: delivery_auth_job_def update_delivery_auth_job_def)

lemma run_components_keys:
  "run_components steps before s = (None, components, s') \<Longrightarrow> List.map fst components = List.map fst before @ List.map fst steps"
  by (induction steps before s rule: run_components.induct) (auto split: prod.splits sum.splits)

lemma run_components_keep:
  "\<forall>(key, step) \<in> set steps. \<forall>s. P s \<longrightarrow> P (snd (step s)) \<Longrightarrow> P s \<Longrightarrow> P (snd (snd (run_components steps before s)))"
proof (induction steps before s rule: run_components.induct)
  case (2 key step steps before s)
  then have now: "P (snd (step s))" by (simp del: split_paired_All)
  obtain r s1 where step: "step s = (r, s1)" by (metis prod.collapse)
  show ?case
    using now 2 step by (cases r) (simp_all del: split_paired_All)
qed simp

lemma refresh_tokens_reset:
  "bot_tokens (snd (snd (refresh_bot_delivery_token rm w st org s))) = None"
  "bot_tokens (snd (snd (refresh_graph_lookup_token rm w st org s))) = bot_tokens (snd s)"
  by (simp_all add: refresh_bot_delivery_token_def refresh_graph_lookup_token_def reset_bot_token_manager_def Let_def
      split: sum.split exn.split)

lemma components_reset_tokens:
  "bot_tokens (snd (fst (snd (snd (run_components (component_steps rm w st org) before s))))) = None"
proof -
  let ?P = "\<lambda>s :: refresh_state. bot_tokens (snd (fst s)) = None"
  obtain db cs keys where s: "s = ((db, cs), keys)" by (metis prod.collapse)
  obtain r s1 where first: "refresh_bot_delivery_token rm w st org (db, cs) = (r, s1)" by (metis prod.collapse)
  have reset: "bot_tokens (snd s1) = None"
    using refresh_tokens_reset(1) [of rm w st org "(db, cs)"] first by simp
  obtain rest where steps: "component_steps rm w st org =
      (''bot_delivery'', \<lambda>(s, keys). case refresh_bot_delivery_token rm w st org s of (r, s) \<Rightarrow> (r, s, keys)) # rest"
    and rest: "rest = tl (component_steps rm w st org)"
    by (simp add: component_steps_def)
  have lookup: "bot_tokens cs' = bot_tokens cs"
    if "refresh_graph_lookup_token rm w st org (db, cs) = (r, db', cs')" for db cs r db' cs'
    using refresh_tokens_reset(2) [of rm w st org "(db, cs)"] that by simp
  have "\<forall>(key, step) \<in> set rest. \<forall>s. ?P s \<longrightarrow> ?P (snd (step s))"
    unfolding rest by (auto simp: component_steps_def lookup split: prod.splits)
  from run_components_keep [of rest ?P, OF this] show ?thesis
    using first reset s by (cases r) (simp_all add: steps)
qed

lemma readiness_cong:
  assumes "snapshots db' = snapshots db" and "credentials db' = credentials db"
  shows "admin_readiness w org st db' = admin_readiness w org st db"
proof -
  have "find_snapshot org c db' = find_snapshot org c db" for c
    using assms(1) by (simp add: find_snapshot_def)
  then have reports: "bot_readiness w org st mode db' = bot_readiness w org st mode db"
    "graph_lookup_readiness w org st db' = graph_lookup_readiness w org st db" for mode
    by (rule bot_readiness_cong graph_lookup_readiness_cong)+
  have "graph_delivery_readiness org st db' = graph_delivery_readiness org st db"
    unfolding graph_delivery_readiness_def diagnostics_for_organization_def get_delegated_credential_def assms ..
  with reports show ?thesis
    unfolding admin_readiness_def by presburger
qed

text \<open>C27: every run of a refresh job ends, whatever the services answer. A job that completed did all four
  components, is ok exactly when none of them failed, reports on the database it leaves, and has dropped the
  signing keys; one that failed leaves the database as it was. Either way the token of the bot is forgotten,
  the time of the end is noted, and no other job changes.\<close>

theorem refresh_job_ends:
  assumes "delivery_auth_job i jobs = Some job"
    and "run_delivery_auth_refresh_job rm w st i (((db, cs), keys), jobs) = (((db', cs'), keys'), jobs')"
  shows "\<exists>job'. delivery_auth_job i jobs' = Some job' \<and> jb_completed_at job' = Some (utcnow w) \<and>
    jb_organization_id job' = jb_organization_id job \<and> bot_tokens cs' = None \<and>
    (if jb_status job' = ''completed''
     then List.map fst (jb_components job') = [''bot_delivery'', ''graph_lookup'', ''graph_delivery'', ''bot_inbound_auth''] \<and>
       jb_ok job' = Some (list_all (\<lambda>(_, c). rf_status c \<noteq> ''failed'') (jb_components job')) \<and> keys' = None \<and>
       (\<exists>out. jb_readiness job' = Some out \<and> admin_readiness w (jb_organization_id job) st db' = Inr out)
     else jb_status job' = ''failed'' \<and> jb_ok job' = Some False \<and> db' = db) \<and>
    (k = i \<or> delivery_auth_job k jobs' = delivery_auth_job k jobs)"
proof -
  let ?org = "jb_organization_id job"
  obtain r components db1 cs1 keys1 where
    run: "run_components (component_steps rm w st ?org) [] ((db, cs), keys) = (r, components, (db1, cs1), keys1)"
    by (metis prod.collapse)
  have reset: "bot_tokens cs1 = None"
    using components_reset_tokens [of rm w st ?org "[]" "((db, cs), keys)"] run by simp
  have i: "jb_job_id job = i" using assms(1) by (auto simp: delivery_auth_job_def dest: fetch_Some)
  have begun: "delivery_auth_job k (begin_job w i jobs) = (if k = i then map_option (\<lambda>job. job\<lparr>jb_status := ''running'',
      jb_started_at := Some (utcnow w), jb_message := ''Refresh is running.''\<rparr>) (delivery_auth_job k jobs)
      else delivery_auth_job k jobs)" for k
    unfolding begin_job_def by (rule delivery_auth_job_update) simp
  have failed: "delivery_auth_job k (update_delivery_auth_job i (failed_job w components) (begin_job w i jobs)) =
      (if k = i then map_option (failed_job w components) (delivery_auth_job k (begin_job w i jobs))
       else delivery_auth_job k (begin_job w i jobs))" for k
    by (rule delivery_auth_job_update) (simp add: failed_job_def)
  have completed: "delivery_auth_job k (update_delivery_auth_job i (completed_job w components out) (begin_job w i jobs)) =
      (if k = i then map_option (completed_job w components out) (delivery_auth_job k (begin_job w i jobs))
       else delivery_auth_job k (begin_job w i jobs))" for k out
    by (rule delivery_auth_job_update) (simp add: completed_job_def)
  have result: "finish_job rm w st job (((db, cs), keys), begin_job w i jobs) = (((db', cs'), keys'), jobs')"
    using assms by (simp add: run_delivery_auth_refresh_job_def)
  show ?thesis
  proof (cases "r = None \<and> (\<exists>out. admin_readiness w ?org st db1 = Inr out)")
    case False
    then have "jobs' = update_delivery_auth_job i (failed_job w components) (begin_job w i jobs)" "db' = db" "cs' = cs1"
      using result run i by (auto simp: finish_job_def Let_def split: option.splits sum.splits)
    then show ?thesis
      using failed begun assms(1) reset by (simp add: failed_job_def)
  next
    case True
    then obtain out where out: "r = None" "admin_readiness w ?org st db1 = Inr out" by blast
    have names: "List.map fst components = [''bot_delivery'', ''graph_lookup'', ''graph_delivery'', ''bot_inbound_auth'']"
      using run_components_keys [OF run [unfolded out(1)]] by (simp add: component_steps_def)
    have "jobs' = update_delivery_auth_job i (completed_job w components out) (begin_job w i jobs)" "cs' = cs1" "keys' = keys1"
      and db': "snapshots db' = snapshots db1" "credentials db' = credentials db1"
      using result run i out by (auto simp: finish_job_def Let_def)
    moreover have "keys1 = None"
      using run [unfolded out(1)]
      by (auto simp: component_steps_def refresh_bot_inbound_auth_cache_def reset_bot_framework_auth_cache_def
          split: prod.splits sum.splits)
    ultimately show ?thesis
      using completed [of _ out] begun assms(1) reset names out(2) readiness_cong [OF db', of w ?org st]
      by (simp add: completed_job_def list_all_iff list_ex_iff case_prod_unfold)
  qed
qed

definition sample_run :: "refresh_state \<times> refresh_jobs" where
  "sample_run = run_delivery_auth_refresh_job sample_unreachable sample_world sample_registered ''s''
     (((empty_db, sample_caches), None), [queued_job sample_world sample_admin])"

theorem refresh_job_ends_witness:
  "\<exists>job. delivery_auth_job ''s'' (snd sample_run) = Some job \<and> jb_completed_at job = Some 0 \<and> \<not> job_live job \<and>
     bot_tokens (snd (fst (fst sample_run))) = None"
proof -
  have job: "delivery_auth_job ''s'' [queued_job sample_world sample_admin] = Some (queued_job sample_world sample_admin)"
    by (simp add: delivery_auth_job_def queued_job_def sample_world_def)
  obtain db cs keys jobs where run: "sample_run = (((db, cs), keys), jobs)" by (metis prod.collapse)
  from refresh_job_ends [OF job run [unfolded sample_run_def], of "''x''"] show ?thesis
    by (auto simp: run job_live_def sample_world_def split: if_splits)
qed

section \<open>Monitoring\<close>

text \<open>The counts over all routes are at least those over the routes of some backends.\<close>

lemma length_filter_mono: "(\<And>x. P x \<Longrightarrow> Q x) \<Longrightarrow> length (List.filter P xs) \<le> length (List.filter Q xs)"
  by (induction xs) auto

lemma route_counts_le:
  "mr_inactive (route_counts db bs) \<le> mr_inactive (route_counts db None)"
  "mr_with_last_failure (route_counts db bs) \<le> mr_with_last_failure (route_counts db None)"
  "mr_with_last_rejection (route_counts db bs) \<le> mr_with_last_rejection (route_counts db None)"
  "mr_untested_active (route_counts db bs) \<le> mr_untested_active (route_counts db None)"
  by (auto simp: route_counts_def of_backends_def Let_def intro!: length_filter_mono)

lemma rolling_window_le:
  "rw_delivery_failure_count (rolling_window_of db t bs) \<le> rw_delivery_failure_count (rolling_window_of db t None)"
  "rw_delivery_rejection_count (rolling_window_of db t bs) \<le> rw_delivery_rejection_count (rolling_window_of db t None)"
  by (auto simp: rolling_window_of_def event_of_backends_def Let_def intro!: length_filter_mono)

lemma database_down_before_the_check:
  "build_monitoring_status w st False later db = Inl (PyError ''OperationalError'')"
  by (simp add: build_monitoring_status_def Let_def)

lemma monitoring_key_beyond_ascii_raises:
  "require_monitoring_api_key (default_settings\<lparr>monitoring_api_key := ''k''\<rparr>) (Some (''Bearer '' @ [CHR 0xE4])) =
    Some (PyError ''TypeError'')"
  by code_simp

lemma bot_component_mock:
  "bot_delivery_mode_normalized st \<noteq> ''real'' \<Longrightarrow> mc_ready (bot_component w st db)"
  by (auto simp: bot_component_def bot_readiness_def bot_report_def bot_delivery_mode_normalized_def Let_def split: if_splits)

text \<open>The parts of an answer, with the database there and with it gone.\<close>

lemma monitoring_answer:
  assumes "build_monitoring_status w st True True db = Inr m"
  shows "ms_status m = rollup_status True (bot_delivery_mode_normalized st) (ms_bot m) (ms_graph_lookup m) (ms_graph_delivery m)
      (route_counts db (Some (enabled_delivery_backends st)))
      (rolling_window_of db (utcnow w - minutes 5) (Some (enabled_delivery_backends st)))"
    and "ms_ok m \<longleftrightarrow> ms_status m = ''ok''" and "ms_database_ok m" and "ms_bot m = bot_component w st db"
    and "ms_routes m = route_counts db None"
    and "map_of (ms_rolling_windows m) ''5m'' = Some (rolling_window_of db (utcnow w - minutes 5) None)"
    and "ms_graph_lookup m = lookup_component w st db"
    and "ms_graph_delivery m = (if graph_delivery_enabled st \<and> graph_lookup_enabled st then monitored_graph_delivery db
      else graph_component False True ''disabled'' ''disabled'')"
  using assms by (auto simp: build_monitoring_status_def WINDOWS_def Let_def)

lemma monitoring_answer_down:
  assumes "build_monitoring_status w st True False db = Inr m"
  shows "ms_status m = ''crit''" and "ms_ok m \<longleftrightarrow> ms_status m = ''ok''" and "\<not> ms_database_ok m"
  using assms by (auto simp: build_monitoring_status_def rollup_status_def Let_def)

lemma component_disabled_ready:
  "\<not> mc_enabled (bot_component w st db) \<Longrightarrow> mc_ready (bot_component w st db)"
  "\<not> mc_enabled (lookup_component w st db) \<Longrightarrow> mc_ready (lookup_component w st db)"
  by (auto simp: bot_component_def lookup_component_def graph_component_def Let_def split: if_splits)

lemma monitored_graph_enabled [simp]: "mc_enabled (monitored_graph_delivery db)"
  by (simp add: monitored_graph_delivery_def graph_component_def Let_def)

lemma no_problem_routes:
  "mr_inactive (route_counts db (Some bs)) = 0 \<and> mr_with_last_failure (route_counts db (Some bs)) = 0 \<and>
   mr_with_last_rejection (route_counts db (Some bs)) = 0 \<and> mr_untested_active (route_counts db (Some bs)) = 0 \<longleftrightarrow>
   (\<forall>r \<in> set (routes db). r_delivery_backend r \<in> set bs \<longrightarrow> \<not> is_problem r)"
  by (auto simp: route_counts_def of_backends_def is_problem_def filter_empty_conv Let_def)

lemma no_problem_deliveries:
  "rw_delivery_failure_count (rolling_window_of db t bs) = 0 \<and> rw_delivery_rejection_count (rolling_window_of db t bs) = 0 \<longleftrightarrow>
   (\<forall>d \<in> set (deliveries db). t \<le> d_created_at d \<and> event_of_backends db bs d \<longrightarrow>
      d_status d \<noteq> ''failed'' \<and> d_status d \<noteq> ''rejected'')"
  by (auto simp: rolling_window_of_def filter_empty_conv Let_def)

text \<open>C30: the monitor calls the backend well exactly when the bot, the lookup and the delivery as a service user are
  ready or switched off, no route of a backend that is switched on is inactive, untested, or failed or was
  rejected last, and no delivery of such a backend failed or was rejected in the last five minutes. It is
  critical exactly when the bot, switched on and not simulated, is not ready.\<close>

theorem monitor_well_iff_all_well:
  assumes "build_monitoring_status w st True True db = Inr m"
  shows "(ms_status m = ''ok'' \<longleftrightarrow>
      mc_ready (ms_bot m) \<and> mc_ready (ms_graph_lookup m) \<and> mc_ready (ms_graph_delivery m) \<and>
      (\<forall>r \<in> set (routes db). r_delivery_backend r \<in> set (enabled_delivery_backends st) \<longrightarrow> \<not> is_problem r) \<and>
      (\<forall>d \<in> set (deliveries db). utcnow w - minutes 5 \<le> d_created_at d \<and>
          event_of_backends db (Some (enabled_delivery_backends st)) d \<longrightarrow> d_status d \<noteq> ''failed'' \<and> d_status d \<noteq> ''rejected'')) \<and>
    (ms_status m = ''crit'' \<longleftrightarrow> mc_enabled (ms_bot m) \<and> \<not> mc_ready (ms_bot m)) \<and>
    (ms_ok m \<longleftrightarrow> ms_status m = ''ok'')"
proof -
  note parts = monitoring_answer [OF assms]
  have bot_ready: "mc_ready (ms_bot m)" if "\<not> (mc_enabled (ms_bot m) \<and> bot_delivery_mode_normalized st = ''real'')"
    using that bot_component_mock component_disabled_ready(1) unfolding parts(4) by blast
  have lookup_ready: "mc_ready (ms_graph_lookup m)" if "\<not> mc_enabled (ms_graph_lookup m)"
    using that component_disabled_ready(2) unfolding parts(7) by blast
  have delivery_ready: "mc_ready (ms_graph_delivery m)" if "\<not> mc_enabled (ms_graph_delivery m)"
    using that unfolding parts(8) by (auto simp: graph_component_def split: if_splits)
  show ?thesis
    unfolding no_problem_routes [symmetric] no_problem_deliveries [symmetric]
    using parts(1,2) bot_ready lookup_ready delivery_ready by (auto simp: rollup_status_def)
qed

text \<open>An alarm names its cause: where the status is not ok, the sentence for PRTG lists what is wrong and never
  falls back on the hint to look at the channels; with the database gone it says so.\<close>

theorem alarm_names_cause:
  assumes "build_monitoring_status w st True later db = Inr m" and "ms_status m \<noteq> ''ok''"
  shows "status_details m \<noteq> [] \<and> status_message m = join ''; '' (status_details m) @ ''.'' \<and>
    (later \<or> hd (status_details m) = ''the database check failed'')"
proof -
  have "status_details m \<noteq> []" if later
  proof -
    have built: "build_monitoring_status w st True True db = Inr m" using assms(1) that by simp
    note parts = monitoring_answer [OF built]
    show ?thesis
      using assms(2) parts(1,3,5,6) route_counts_le [of db "Some (enabled_delivery_backends st)"]
        rolling_window_le [of db "utcnow w - minutes 5" "Some (enabled_delivery_backends st)"]
      by (auto simp: rollup_status_def status_details_def route_problem_details_def Let_def split: if_splits)
  qed
  moreover have "hd (status_details m) = ''the database check failed''" "status_details m \<noteq> []" if "\<not> later"
    using monitoring_answer_down [of w st db m] assms(1) that by (simp_all add: status_details_def Let_def)
  ultimately show ?thesis using assms(2) by (auto simp: status_message_def Let_def)
qed

text \<open>The bot simulated, and Graph switched off.\<close>

definition sample_simulated :: settings where
  "sample_simulated = default_settings\<lparr>bot_delivery_mode := ''mock'', graph_lookup_enabled := False\<rparr>"

definition sample_monitored :: "settings \<Rightarrow> monitoring_status" where
  "sample_monitored st = projr (build_monitoring_status sample_world st True True empty_db)"

lemma sample_monitored: "build_monitoring_status sample_world st True True empty_db = Inr (sample_monitored st)"
  by (simp add: sample_monitored_def build_monitoring_status_def Let_def)

lemma sample_mode: "bot_delivery_mode_normalized sample_simulated = ''mock''"
  by code_simp

theorem monitor_well_iff_all_well_witness: "ms_status (sample_monitored sample_simulated) = ''ok''"
proof -
  note parts = monitoring_answer [OF sample_monitored [of sample_simulated]]
  have "mc_ready (ms_bot (sample_monitored sample_simulated))"
    unfolding parts(4) by (rule bot_component_mock) (simp add: sample_mode)
  moreover have "mc_ready (ms_graph_lookup (sample_monitored sample_simulated))"
    "mc_ready (ms_graph_delivery (sample_monitored sample_simulated))"
    unfolding parts(7,8) by (simp_all add: lookup_component_def graph_component_def sample_simulated_def)
  ultimately show ?thesis
    using monitor_well_iff_all_well [OF sample_monitored [of sample_simulated]] by (simp add: empty_db_def)
qed

theorem alarm_names_cause_witness:
  "ms_status (sample_monitored default_settings) = ''crit'' \<and> status_details (sample_monitored default_settings) \<noteq> []"
proof -
  note parts = monitoring_answer [OF sample_monitored [of default_settings]]
  have mode: "bot_delivery_mode_normalized default_settings = ''real''" "\<not> credentials_configured default_settings"
    "bot_framework_enabled default_settings"
    by code_simp+
  then have "mc_enabled (ms_bot (sample_monitored default_settings))" "\<not> mc_ready (ms_bot (sample_monitored default_settings))"
    unfolding parts(4) by (simp_all add: bot_component_def bot_readiness_def bot_report_def Let_def)
  then have "ms_status (sample_monitored default_settings) = ''crit''"
    using parts(1) mode by (simp add: rollup_status_def)
  then show ?thesis using alarm_names_cause [OF sample_monitored [of default_settings]] by simp
qed

end
