(* ===== verification/Log_Listings.thy ===== *)
theory Log_Listings
  imports Delivery_Log Accounts
begin

text \<open>
  The logs of \<open>routers/admin.py\<close>: the audit log, the event log with its filters and pages, the activities of
  Teams, what the admin pages report of themselves, and the sweep on request. Each listing first clears
  what is due, as the listing of delivery events does. The answers list the columns of the rows.
\<close>

definition newest_by :: "('r \<Rightarrow> instant) \<Rightarrow> 'r list \<Rightarrow> 'r list" where
  "newest_by created = sort_key (\<lambda>r. - created r)"

definition cleared :: "world \<Rightarrow> settings \<Rightarrow> db \<times> caches \<Rightarrow> cleanup_result \<times> db \<times> caches" where
  "cleared w st s =
     (case cleanup_log_events w st False (fst s, last_log_cleanup_at (snd s)) of
        (result, db, cleaned_at) \<Rightarrow> (result, db, (snd s)\<lparr>last_log_cleanup_at := cleaned_at\<rparr>))"

record audit_out =
  ao_id :: string
  ao_actor_type :: string
  ao_actor_id :: "string option"
  ao_action :: string
  ao_metadata :: json
  ao_created_at :: instant

definition audit_out_of :: "audit_event \<Rightarrow> audit_out" where
  "audit_out_of a =
     \<lparr>ao_id = au_id a, ao_actor_type = au_actor_type a, ao_actor_id = au_actor_id a, ao_action = au_action a,
      ao_metadata = au_metadata_json a, ao_created_at = au_created_at a\<rparr>"

definition limit_ok :: "nat \<Rightarrow> bool" where
  "limit_ok limit \<longleftrightarrow> 1 \<le> limit \<and> limit \<le> 250"

definition list_logs ::
  "world \<Rightarrow> settings \<Rightarrow> user \<Rightarrow> nat \<Rightarrow> db \<times> caches \<Rightarrow> (exn + audit_out list) \<times> db \<times> caches" where
  "list_logs w st admin limit s =
     (if \<not> limit_ok limit then (Inl (HTTPException 422 []), s)
      else (case cleared w st s of
        (_, db, cs) \<Rightarrow>
          (Inr (List.map audit_out_of (take limit (newest_by au_created_at
             (List.filter (\<lambda>a. au_organization_id a = Some (u_organization_id admin)) (audits db))))), db, cs)))"

section \<open>The event log\<close>

record event_filter =
  ef_level :: string
  ef_category :: string
  ef_event_type :: string
  ef_correlation_id :: string
  ef_request_id :: string
  ef_q :: string

definition wanted :: "string \<Rightarrow> string \<Rightarrow> bool" where
  "wanted asked value \<longleftrightarrow> strip asked = [] \<or> value = strip asked"

definition event_mentions :: "string \<Rightarrow> event_log_entry \<Rightarrow> bool" where
  "event_mentions q e \<longleftrightarrow> list_ex (\<lambda>text. ilike text (''%'' @ q @ ''%''))
     [ev_message e, ev_event_type e, ev_category e, dumps True (ev_actor_json e), dumps True (ev_target_json e),
      dumps True (ev_source_json e), dumps True (ev_http_json e), dumps True (ev_security_json e)]"

definition event_matches :: "event_filter \<Rightarrow> event_log_entry \<Rightarrow> bool" where
  "event_matches f e \<longleftrightarrow>
     wanted (ef_level f) (ev_level e) \<and> wanted (ef_category f) (ev_category e) \<and> wanted (ef_event_type f) (ev_event_type e) \<and>
     wanted (ef_correlation_id f) (ev_correlation_id e) \<and> wanted (ef_request_id f) (ev_request_id e) \<and>
     (strip (ef_q f) = [] \<or> event_mentions (strip (ef_q f)) e)"

record event_page =
  ep_items :: "event_log_entry list"
  ep_total :: nat
  ep_page :: nat
  ep_page_size :: nat
  ep_total_pages :: nat
  ep_retention_days :: int

definition event_page_of :: "nat \<Rightarrow> nat \<Rightarrow> int \<Rightarrow> event_log_entry list \<Rightarrow> event_page" where
  "event_page_of page page_size retention_days rows =
     \<lparr>ep_items = page_of page page_size rows, ep_total = length rows, ep_page = page, ep_page_size = page_size,
      ep_total_pages = max 1 ((length rows + page_size - 1) div page_size), ep_retention_days = retention_days\<rparr>"

definition list_event_logs ::
  "world \<Rightarrow> settings \<Rightarrow> nat \<Rightarrow> nat \<Rightarrow> event_filter \<Rightarrow> db \<times> caches \<Rightarrow> (exn + event_page) \<times> db \<times> caches" where
  "list_event_logs w st page page_size f s =
     (if page = 0 \<or> \<not> limit_ok page_size then (Inl (HTTPException 422 []), s)
      else (case cleared w st s of
        (_, db, cs) \<Rightarrow>
          (Inr (event_page_of page page_size (max 0 (log_retention_days st))
             (newest_by ev_created_at (List.filter (event_matches f) (event_log db)))), db, cs)))"

record client_event_in =
  ci_level :: string
  ci_event_type :: string
  ci_message :: string
  ci_path :: string
  ci_action :: string
  ci_request_id :: string
  ci_correlation_id :: string
  ci_detail :: "(string \<times> json) list"

definition check_client_event :: "client_event_in \<Rightarrow> exn + client_event_in" where
  "check_client_event p =
     checked_body (ci_level p \<in> {''warning'', ''error''} \<and> within 1 120 (ci_event_type p) \<and> within 1 1000 (ci_message p) \<and>
       length (ci_path p) \<le> 600 \<and> length (ci_action p) \<le> 200 \<and> length (ci_request_id p) \<le> 80 \<and>
       length (ci_correlation_id p) \<le> 80) p"

text \<open>The ids of the body stand for those of the logging context where they are given.\<close>

definition client_context :: "world \<Rightarrow> client_event_in \<Rightarrow> world" where
  "client_context w p =
     w\<lparr>context_correlation_id := or_str (or_str (ci_correlation_id p) (ci_request_id p)) (current_correlation_id w),
       context_request_id := or_str (ci_request_id p) (context_request_id w)\<rparr>"

definition client_event :: "user \<Rightarrow> client_event_in \<Rightarrow> event_args" where
  "client_event admin p =
     (event (ci_level p) ''frontend'' (ci_event_type p) (ci_message p) ''frontend'')
       \<lparr>ea_actor := [(''type'', JStr ''admin''), (''id'', JStr (u_id admin)), (''displayName'', JStr (u_display_name admin))],
        ea_target := [(''type'', JStr ''admin_ui''), (''path'', JStr (ci_path p)), (''action'', JStr (ci_action p))],
        ea_raw := [(''detail'', JDict (ci_detail p))]\<rparr>"

definition create_client_event ::
  "world \<Rightarrow> settings \<Rightarrow> user \<Rightarrow> client_event_in \<Rightarrow> db \<Rightarrow> (exn + event_log_entry) \<times> db" where
  "create_client_event w st admin p db =
     (let w = client_context w p; e = client_event admin p in
      (Inr (event_entry w st (new_id db) e), emit_event w st e db))"

section \<open>Activities\<close>

definition system_scope :: "bot_activity_event \<Rightarrow> string" where
  "system_scope a =
     (if ae_conversation_type a = ''personal'' then ''user''
      else if ae_team_id a \<noteq> [] \<and> ae_channel_id a \<noteq> [] then ''channel''
      else if ae_team_id a \<noteq> [] then ''team'' else or_str (ae_conversation_type a) ''unknown'')"

text \<open>The columns of an activity but those of the raw text, the sender and the recipient, with its scope.\<close>

definition list_system_logs ::
  "world \<Rightarrow> settings \<Rightarrow> nat \<Rightarrow> db \<times> caches \<Rightarrow> (exn + (bot_activity_event \<times> string) list) \<times> db \<times> caches" where
  "list_system_logs w st limit s =
     (if \<not> limit_ok limit then (Inl (HTTPException 422 []), s)
      else (case cleared w st s of
        (_, db, cs) \<Rightarrow>
          (Inr (List.map (\<lambda>a. (a\<lparr>ae_raw_activity_json := JNull, ae_from_id := [], ae_recipient_id := []\<rparr>, system_scope a))
             (take limit (newest_by ae_created_at (activities db)))), db, cs)))"

definition cleanup_logs :: "world \<Rightarrow> settings \<Rightarrow> db \<times> caches \<Rightarrow> cleanup_result \<times> db \<times> caches" where
  "cleanup_logs w st s =
     (case cleanup_log_events w st True (fst s, last_log_cleanup_at (snd s)) of
        (result, db, cleaned_at) \<Rightarrow> (result, db, (snd s)\<lparr>last_log_cleanup_at := cleaned_at\<rparr>))"

end
