(* ===== verification/Target_Search.thy ===== *)
theory Target_Search
  imports Graph_Names
begin

text \<open>
  \<open>routers/teams_targets.py\<close>: the handlers by which administrators look for targets in the directory. The
  answers list the columns of what the directory gave; errors of the directory become replies. The search
  for chats refreshes the delegated credential and does not commit.
\<close>

definition ensure_lookup_enabled :: "settings \<Rightarrow> exn option" where
  "ensure_lookup_enabled st =
     (if \<not> graph_lookup_enabled st then Some (HTTPException 409 ''Microsoft Graph lookup is disabled'') else None)"

definition run_graph_search :: "exn + 'a \<Rightarrow> exn + 'a" where
  "run_graph_search r =
     (case r of
        Inl (GraphConfigError message) \<Rightarrow> Inl (HTTPException 503 message)
      | Inl (GraphRequestError message) \<Rightarrow> Inl (HTTPException 502 message)
      | _ \<Rightarrow> r)"

text \<open>The bounds of the query parameters come first.\<close>

definition directory_search ::
  "settings \<Rightarrow> bool \<Rightarrow> (graph_tokens \<Rightarrow> (exn + 'a) \<times> graph_tokens) \<Rightarrow> graph_tokens \<Rightarrow> (exn + 'a) \<times> graph_tokens" where
  "directory_search st valid search tokens =
     (if \<not> valid then (Inl (HTTPException 422 []), tokens)
      else (case ensure_lookup_enabled st of
        Some e \<Rightarrow> (Inl e, tokens)
      | None \<Rightarrow> (case search tokens of (r, tokens) \<Rightarrow> (run_graph_search r, tokens))))"

definition search_teams_targets ::
  "remote \<Rightarrow> world \<Rightarrow> settings \<Rightarrow> string \<Rightarrow> string \<Rightarrow> graph_tokens \<Rightarrow> (exn + graph_target list) \<times> graph_tokens" where
  "search_teams_targets rm w st kind q =
     directory_search st (kind \<in> {''user'', ''team'', ''group''} \<and> length q \<le> 120) (search_targets rm w st kind q 10)"

definition search_team_channels ::
  "remote \<Rightarrow> world \<Rightarrow> settings \<Rightarrow> string \<Rightarrow> string \<Rightarrow> graph_tokens \<Rightarrow> (exn + graph_target list) \<times> graph_tokens" where
  "search_team_channels rm w st team_id q = directory_search st (length q \<le> 120) (list_team_channels rm w st team_id q 25)"

definition list_group_members ::
  "remote \<Rightarrow> world \<Rightarrow> settings \<Rightarrow> string \<Rightarrow> string \<Rightarrow> int \<Rightarrow> int \<Rightarrow> graph_tokens \<Rightarrow> (exn + group_member_page) \<times> graph_tokens" where
  "list_group_members rm w st group_id q offset limit =
     directory_search st (length q \<le> 120 \<and> 0 \<le> offset \<and> 1 \<le> limit \<and> limit \<le> 200)
       (list_group_transitive_members rm w st group_id q limit offset)"

definition count_group_members ::
  "remote \<Rightarrow> world \<Rightarrow> settings \<Rightarrow> string \<Rightarrow> graph_tokens \<Rightarrow> (exn + int) \<times> graph_tokens" where
  "count_group_members rm w st group_id = directory_search st True (count_group_transitive_user_members rm w st group_id)"

text \<open>The session is closed without a commit: the database is what it was.\<close>

definition search_service_user_chats ::
  "remote \<Rightarrow> world \<Rightarrow> settings \<Rightarrow> user \<Rightarrow> string \<Rightarrow> db \<Rightarrow> (exn + delegated_chat list) \<times> db" where
  "search_service_user_chats rm w st admin q db =
     (if 120 < length q then (Inl (HTTPException 422 []), db)
      else (case ensure_lookup_enabled st of
        Some e \<Rightarrow> (Inl e, db)
      | None \<Rightarrow>
          (case fst (list_service_user_chats rm w st (u_organization_id admin) q 25 db) of
             Inl (GraphDelegatedLookupError message _) \<Rightarrow> (Inl (HTTPException 502 message), db)
           | r \<Rightarrow> (r, db))))"

section \<open>Lemmas\<close>

text \<open>No search answers with an error of the directory itself.\<close>

lemma directory_search_errors:
  assumes "fst (directory_search st valid search tokens) = Inl e"
  shows "(\<exists>code message. e = HTTPException code message) \<or> fst (search tokens) = Inl e"
  using assms
  by (auto simp: directory_search_def run_graph_search_def ensure_lookup_enabled_def
      split: if_splits option.splits prod.splits sum.splits exn.splits)

text \<open>
  The refresh token that the token endpoint hands out in exchange for the stored one is dropped: the stored
  one is kept, and with it a status that says nothing of a refusal.
\<close>

lemma chat_search_drops_refresh: "snd (search_service_user_chats rm w st admin q db) = db"
  by (simp add: search_service_user_chats_def ensure_lookup_enabled_def split: sum.split exn.split)

end
