(* ===== verification/Spec2Isabelle.thy ===== *)
theory Spec2Isabelle
  imports Settings_Guarantees Backend Readiness_Guarantees Log_Listings Target_Search
begin

text \<open>
  A verification development of Teams Rehook: the backend in \<open>src/backend/app\<close>, a FastAPI program that
  takes webhooks and passes them on to Microsoft Teams.

  \<^bold>\<open>The program.\<close> A caller posts to the secret URL of a route. The relay
  (\<open>routers/webhook_routes.py\<close>) works out the address of the client, checks it against the abuse limiter
  and the rules of the route, reduces the body to one message form, reserves the idempotency key and
  delivers to a Teams conversation, either as the bot (\<open>services/teams_bot.py\<close>) or as a service user
  through Microsoft Graph (\<open>services/teams_graph_delivery.py\<close>); every outcome leaves a delivery event.
  Administrators keep routes, users, settings, bot access and the service user through the admin API
  (\<open>routers/webhook_routes.py\<close>, \<open>routers/admin.py\<close>, \<open>routers/auth.py\<close>). Members of a Teams conversation
  give commands to the bot (\<open>routers/bot_messages.py\<close>), which register, show, change and delete routes of
  that conversation. A job of the administrator renews the tokens and leaves reports, and an external monitor
  reads a summary (\<open>routers/monitoring.py\<close>). All share one database, a few caches of the process, the
  event log and the audit log.

  \<^bold>\<open>The model.\<close> A table is a list of rows in insertion order and a row a record with the columns of its
  class in \<open>models.py\<close>; \<open>db\<close> of Store holds all tables and the supply of keys. A handler is a function
  from its arguments and the state to an answer, which is an exception or a value (\<open>exn + 'a\<close>), and the
  state after it. Work that is not committed when a handler ends with an exception is dropped, as
  \<open>database.py\<close> closes the session without a commit. One request runs alone: interleavings are those of
  whole requests. Columns that hold JSON text hold the JSON value. Times are microseconds. A text is a
  list of characters, the code points below 256. What the program reads but does not compute is in
  \<open>world\<close> (the clock, digests, the decoding of bytes, \<open>json.loads\<close>, a new secret, the identities of a request);
  what it reaches outside is a parameter: \<open>remote\<close> (HTTP exchanges, the Fernet cipher, base64), \<open>entropy\<close>
  (the key derivation and tokens of sign-in), \<open>jwt_library\<close> (the package jwt), \<open>bot_env\<close> (the entity
  table of \<open>html.unescape\<close>, and new secrets of a command, which are numbered since a command may need several).

  \<^bold>\<open>The theories.\<close>
  \<^item> Prelude, Json, Remote, Store, Config, Event_Log, Audit_Log: string operations of Python, exceptions, JSON
    values with their coercions, HTTP replies, tables, settings (\<open>core/config.py\<close>), the redacted event log
    (\<open>services/event_log.py\<close>) and \<open>record_audit\<close> (\<open>deps.py\<close>). Audit_Log states the interface
    \<open>table_invariant\<close>, of facts that depend on some tables only; every table invariant interprets it.
  \<^item> Ip_Address, Client_Ip: the \<open>ipaddress\<close> module, allowlists and trusted proxies
    (\<open>services/client_ip_allowlist.py\<close>, \<open>core/proxy_trust.py\<close>, the resolution of the client in
    \<open>routers/webhook_routes.py\<close>).
  \<^item> Payloads (\<open>services/webhook_payloads.py\<close>): complexity limits and the normal form of a body.
  \<^item> Abuse (\<open>services/webhook_abuse.py\<close>): failure windows and blocks of clients, with the admin handlers.
  \<^item> Token_Cache, Bot_Delivery, Graph_Auth, Graph_Delivery: the two token caches behind one interface, the
    bot's sending, the service user's credential from consent to refresh (\<open>services/graph_delegated_auth.py\<close>
    and its handlers) and the posting through Graph.
  \<^item> Graph_Targets, Graph_Lookup, Graph_Names: the directory, chats and members, and names of Graph objects
    (\<open>services/graph_targets.py\<close>, \<open>services/graph_delegated_lookup.py\<close>,
    \<open>services/bot_conversation_members.py\<close>, \<open>services/graph_name_resolution.py\<close>).
  \<^item> Route_Rules, Relay, Delivery_Log, Routes: what \<open>routers/webhook_routes.py\<close> does for callers
    (\<open>receive_webhook\<close>), for the records (\<open>services/log_retention.py\<close> and the listings) and for the
    administrators of routes.
  \<^item> Accounts: secrets and sessions (\<open>security.py\<close>, \<open>deps.py\<close>, \<open>routers/auth.py\<close>) and the administration of
    users in \<open>routers/admin.py\<close>.
  \<^item> Urls, Settings_Overrides: \<open>urlparse\<close>, and the settings stored over those of the environment
    (\<open>core/settings_overrides.py\<close>) with their handlers.
  \<^item> Bot_Activity, Bot_Framework_Auth, Bot_Access, Bot_Conversations, Bot_Cards, Bot_Commands: reading an
    activity, the guard of the endpoint (\<open>services/bot_framework_auth.py\<close>), roles and the authorization of a
    command (\<open>services/bot_access_roles.py\<close>), conversation references, the cards, and the commands with
    the endpoint \<open>bot_messages_endpoint\<close>.
  \<^item> Bot_Admin: the handlers of bot roles, users and groups in \<open>routers/admin.py\<close>.
  \<^item> Readiness: snapshots of what a refresh found (\<open>services/auth_diagnostics.py\<close>), the reports made of them, and
    the refresh job in \<open>routers/admin.py\<close>. The job has a thread of its own, so its start, begin and end are
    single steps; what a component found shows in the job at its end.
  \<^item> Monitoring: \<open>routers/monitoring.py\<close>. Its rates are quotients of floats, with the rounding to 53 bits
    written out. Log_Listings: the filters, pages and the cleanup of the logs in \<open>routers/admin.py\<close>.
    Target_Search: \<open>routers/teams_targets.py\<close>.

  \<^bold>\<open>What is shown.\<close>
  \<^item> Relay_Invariant and Relay_Guarantees: keys of tables stay unique and recorded outcomes stay; a key is
    delivered at most once; a refused request reaches nobody; reserving a key refines an abstract slot.
  \<^item> Route_Guarantees, Route_Runs and Route_History: every stored route stays valid; a replaced or deleted
    URL is closed; organizations are separate; pages partition a listing.
  \<^item> Accounts: the one door of all writes, the initial setup, what ends a session.
  \<^item> Settings_Guarantees: settings stay within bounds and read as they were set.
  \<^item> Bot_Effects and Bot_Guarantees: what a command can change, composed along the endpoint; nothing without a
    signature and a permission; buttons, help and memberships.
  \<^item> Bot_Admin_Guarantees: the rows of bot access stay in order, and what an administrator grants or takes
    away is what the bot goes by.
  \<^item> Readiness_Guarantees: reports follow refreshes; one refresh of an organization at a time, which always ends;
    the monitor calls the backend well exactly when its parts are, and an alarm names its cause.
  \<^item> Backend: one step relation with every modelled request, from callers, administrators and Teams, in any
    order; its runs keep routes, deliveries and buckets in order.
  \<^item> The theories of the other components end with their own properties. Lemmas named in the findings show
    where the code does less than it means to.

  \<^bold>\<open>Bounds and fuel.\<close> Loops over data are structural, or by a measure (the work stack of the complexity check).
  The listings of Graph follow links that a server names: \<open>walk_pages\<close> has the page limit of the code as
  its fuel, and running out of it is the error the code raises there. Integers are unbounded in Python
  and \<open>int\<close> or \<open>nat\<close> here; addresses are numbers below \<open>2 ^ 32\<close> and \<open>2 ^ 128\<close> by construction.

  \<^bold>\<open>Not modelled.\<close> The live event stream (\<open>services/event_stream.py\<close>, \<open>routers/events.py\<close>) and what the refresh
  job publishes to it, which live in the event loop of asyncio; \<open>seed.py\<close>, which creates and migrates tables
  with SQL of the engine; the glue of \<open>main.py\<close> and \<open>database.py\<close>; \<open>_metadata_for_credentials\<close> and
  \<open>snapshot_checked_at\<close>, which nothing calls; the frontend and the proxy.
\<close>

end
